(* ===== verification/Prelude.thy ===== *)
theory Prelude
  imports Complex_Main
    "HOL-Library.Char_ord" "HOL-Library.List_Lexorder" "HOL-Library.Product_Lexorder"
    "HOL-Library.Multiset" "HOL-Library.Code_Target_Numeral"
begin

text \<open>
  Shared vocabulary of the development: results of code that may raise, early exits and
  loops over them, stable sorting, the first-occurrence order of a Python dict or of
  \<open>next(...)\<close>, and the named collections the component theories put their facts into.
  A value of \<open>('e, 'a) res\<close> is \<open>Inl e\<close> where the source raises \<open>e\<close> and \<open>Inr x\<close> where
  it returns \<open>x\<close>.
\<close>

named_theorems mv_simps \<open>rewrite rules the component proofs share\<close>
named_theorems mv_dests \<open>facts that follow from a successful result\<close>

section \<open>Results\<close>

type_synonym ('e, 'a) res = "'e + 'a"

definition bindR :: "('e, 'a) res \<Rightarrow> ('a \<Rightarrow> ('e, 'b) res) \<Rightarrow> ('e, 'b) res" where
  "bindR m f = (case m of Inl e \<Rightarrow> Inl e | Inr x \<Rightarrow> f x)"

definition guardR :: "bool \<Rightarrow> 'e \<Rightarrow> ('e, unit) res" where
  "guardR b e = (if b then Inr () else Inl e)"

fun mapR :: "('a \<Rightarrow> ('e, 'b) res) \<Rightarrow> 'a list \<Rightarrow> ('e, 'b list) res" where
  "mapR f [] = Inr []"
| "mapR f (x # xs) = bindR (f x) (\<lambda>y. bindR (mapR f xs) (\<lambda>ys. Inr (y # ys)))"

fun foldR :: "('s \<Rightarrow> 'a \<Rightarrow> ('e, 's) res) \<Rightarrow> 's \<Rightarrow> 'a list \<Rightarrow> ('e, 's) res" where
  "foldR f s [] = Inr s"
| "foldR f s (x # xs) = bindR (f s x) (\<lambda>s'. foldR f s' xs)"

definition is_ok :: "('e, 'a) res \<Rightarrow> bool" where
  "is_ok m = (case m of Inl _ \<Rightarrow> False | Inr _ \<Rightarrow> True)"

lemma bindR_simps [simp]:
  "bindR (Inl e) f = Inl e" "bindR (Inr x) f = f x"
  by (simp_all add: bindR_def)

lemma guardR_simps [simp]:
  "guardR True e = Inr ()" "guardR False e = Inl e"
  by (simp_all add: guardR_def)

lemma is_ok_simps [simp]: "is_ok (Inr x)" "\<not> is_ok (Inl e)"
  by (simp_all add: is_ok_def)

lemma is_ok_Inr: "is_ok m \<Longrightarrow> m = Inr (case m of Inl _ \<Rightarrow> d | Inr x \<Rightarrow> x)"
  by (cases m) simp_all

lemma is_okE: "is_ok m \<Longrightarrow> (\<And>x. m = Inr x \<Longrightarrow> P) \<Longrightarrow> P"
  by (cases m) simp_all

lemma bindR_eq_Inr [simp]: "bindR m f = Inr y \<longleftrightarrow> (\<exists>x. m = Inr x \<and> f x = Inr y)"
  by (cases m) auto

lemma bindR_InrE: "bindR m f = Inr y \<Longrightarrow> (\<And>x. m = Inr x \<Longrightarrow> f x = Inr y \<Longrightarrow> P) \<Longrightarrow> P"
  by auto

lemma Let_InrE: "Let t f = Inr y \<Longrightarrow> (\<And>x. x = t \<Longrightarrow> f x = Inr y \<Longrightarrow> P) \<Longrightarrow> P"
  by auto

lemma bindR_eq_Inl: "bindR m f = Inl e \<longleftrightarrow> m = Inl e \<or> (\<exists>x. m = Inr x \<and> f x = Inl e)"
  by (cases m) auto

lemma guardR_eq_Inr [simp]: "guardR b e = Inr u \<longleftrightarrow> b"
  by (cases b) auto

lemma guardR_eq_Inl [simp]: "guardR b e = Inl d \<longleftrightarrow> \<not> b \<and> d = e"
  by (cases b) auto

lemma bindR_assoc: "bindR (bindR m f) g = bindR m (\<lambda>x. bindR (f x) g)"
  by (cases m) auto

lemma bindR_cong [fundef_cong]:
  "m = m' \<Longrightarrow> (\<And>x. m' = Inr x \<Longrightarrow> f x = g x) \<Longrightarrow> bindR m f = bindR m' g"
  by (cases m') auto

lemma mapR_length: "mapR f xs = Inr ys \<Longrightarrow> length ys = length xs"
  by (induction xs arbitrary: ys) auto

lemma mapR_Inr_map: "(\<And>x. x \<in> set xs \<Longrightarrow> f x = Inr (g x)) \<Longrightarrow> mapR f xs = Inr (map g xs)"
  by (induction xs) auto

lemma mapR_cong [fundef_cong]:
  "xs = ys \<Longrightarrow> (\<And>x. x \<in> set ys \<Longrightarrow> f x = g x) \<Longrightarrow> mapR f xs = mapR g ys"
  by (induction ys arbitrary: xs) auto

lemma mapR_in_set: "mapR f xs = Inr ys \<Longrightarrow> y \<in> set ys \<Longrightarrow> \<exists>x \<in> set xs. f x = Inr y"
  by (induction xs arbitrary: ys) auto

lemma mapR_set_in: "mapR f xs = Inr ys \<Longrightarrow> x \<in> set xs \<Longrightarrow> \<exists>y \<in> set ys. f x = Inr y"
  by (induction xs arbitrary: ys) fastforce+

lemma mapR_append:
  "mapR f (xs @ ys) = bindR (mapR f xs) (\<lambda>us. bindR (mapR f ys) (\<lambda>vs. Inr (us @ vs)))"
proof (induction xs)
  case Nil
  show ?case by (cases "mapR f ys") auto
next
  case (Cons x xs)
  then show ?case by (cases "f x"; cases "mapR f xs"; cases "mapR f ys") auto
qed

lemma mapR_mset:
  assumes "mapR f xs = Inr ys" and "mset xs = mset xs'"
  shows "\<exists>ys'. mapR f xs' = Inr ys' \<and> mset ys' = mset ys"
proof -
  have val: "\<And>x. x \<in> set xs \<Longrightarrow> f x = Inr (projr (f x))"
    using mapR_set_in [OF assms(1)] by fastforce
  have "set xs' = set xs"
    using assms(2) by (metis set_mset_mset)
  then have "mapR f xs = Inr (map (projr \<circ> f) xs)" "mapR f xs' = Inr (map (projr \<circ> f) xs')"
    by (auto intro!: mapR_Inr_map val)
  moreover have "mset (map (projr \<circ> f) xs') = mset (map (projr \<circ> f) xs)"
    using assms(2) by simp
  ultimately show ?thesis using assms(1) by auto
qed

lemma foldR_append: "foldR f s (xs @ ys) = bindR (foldR f s xs) (\<lambda>t. foldR f t ys)"
proof (induction xs arbitrary: s)
  case Nil
  show ?case by simp
next
  case (Cons x xs)
  then show ?case by (cases "f s x") auto
qed

text \<open>An invariant of the body of a loop that may raise is an invariant of the loop.\<close>

lemma foldR_invariant:
  assumes "P s" and "foldR f s xs = Inr t"
    and "\<And>s x s'. P s \<Longrightarrow> x \<in> set xs \<Longrightarrow> f s x = Inr s' \<Longrightarrow> P s'"
  shows "P t"
  using assms
proof (induction xs arbitrary: s)
  case Nil
  then show ?case by simp
next
  case (Cons x xs)
  from Cons.prems(2) obtain s' where s': "f s x = Inr s'" "foldR f s' xs = Inr t" by auto
  have "P s'" using Cons.prems(1) s'(1) by (auto intro: Cons.prems(3))
  then show ?case using s'(2) by (rule Cons.IH) (auto intro: Cons.prems(3))
qed

section \<open>Sorting and first occurrences\<close>

text \<open>
  Python's \<open>sorted\<close> is stable, as \<^const>\<open>sort_key\<close> is. A sort whose key tells the
  elements apart does not depend on the order of its input.
\<close>

lemma sort_key_permutation:
  assumes "mset xs = mset ys" and "inj_on k (set xs)"
  shows "sort_key k xs = sort_key k ys"
proof (rule sort_key_inj_key_eq)
  show "mset xs = mset (sort_key k ys)" using assms(1) by simp
  show "inj_on k (set xs)" by (rule assms(2))
  show "sorted (map k (sort_key k ys))" by simp
qed

lemma sort_key_inj_on_unique:
  assumes "mset xs = mset ys" and "\<And>x y. x \<in> set xs \<Longrightarrow> y \<in> set xs \<Longrightarrow> k x = k y \<Longrightarrow> x = y"
  shows "sort_key k xs = sort_key k ys"
  using sort_key_permutation [OF assms(1)] assms(2) by (auto simp: inj_on_def)

definition sorted_set :: "'a::linorder list \<Rightarrow> 'a list" where
  "sorted_set xs = sort (remdups xs)"

lemma sorted_set_set [simp]: "set (sorted_set xs) = set xs"
  by (simp add: sorted_set_def)

lemma sorted_set_sorted [simp]: "sorted (sorted_set xs)" "distinct (sorted_set xs)"
  by (simp_all add: sorted_set_def)

lemma sorted_set_eq_iff: "sorted_set xs = sorted_set ys \<longleftrightarrow> set xs = set ys"
  by (metis sorted_distinct_set_unique sorted_set_set sorted_set_sorted)

lemma sorted_set_idem [simp]: "sorted_set (sorted_set xs) = sorted_set xs"
  by (simp add: sorted_set_eq_iff)

lemma sorted_set_id: "sorted xs \<Longrightarrow> distinct xs \<Longrightarrow> sorted_set xs = xs"
  by (metis sorted_distinct_set_unique sorted_set_set sorted_set_sorted)

text \<open>\<open>next((x for x in xs if P(x)), None)\<close> is \<^const>\<open>find\<close>.\<close>

lemma find_Some_props: "find P xs = Some x \<Longrightarrow> x \<in> set xs \<and> P x"
  by (induction xs) (auto split: if_splits)

lemma find_None_props: "find P xs = None \<longleftrightarrow> (\<forall>x \<in> set xs. \<not> P x)"
  by (induction xs) auto

lemma find_unique:
  assumes "distinct (map k xs)" "x \<in> set xs" "P x" "\<And>y. y \<in> set xs \<Longrightarrow> P y \<Longrightarrow> k y = k x"
  shows "find P xs = Some x"
proof -
  obtain y where y: "find P xs = Some y" using assms(2,3) find_None_props [of P xs] by auto
  have "k y = k x" using find_Some_props [OF y] assms(4) by blast
  then have "y = x" using assms(1,2) find_Some_props [OF y] by (metis distinct_map inj_onD)
  then show ?thesis using y by simp
qed

text \<open>
  A Python dict built by \<open>setdefault(key, []).append(item)\<close> in a loop: association list
  in order of first insertion, each key with its items in order.
\<close>

fun group_insert :: "'k \<Rightarrow> 'v \<Rightarrow> ('k \<times> 'v list) list \<Rightarrow> ('k \<times> 'v list) list" where
  "group_insert k v [] = [(k, [v])]"
| "group_insert k v ((k', vs) # g) =
     (if k = k' then (k', vs @ [v]) # g else (k', vs) # group_insert k v g)"

definition group_by :: "('v \<Rightarrow> 'k) \<Rightarrow> 'v list \<Rightarrow> ('k \<times> 'v list) list" where
  "group_by f xs = fold (\<lambda>x g. group_insert (f x) x g) xs []"

definition groups_of :: "('v \<Rightarrow> 'k) \<Rightarrow> 'v list \<Rightarrow> ('k \<times> 'v list) list \<Rightarrow> bool" where
  "groups_of f xs g \<longleftrightarrow> distinct (map fst g) \<and> fst ` set g = f ` set xs \<and>
     (\<forall>(k, vs) \<in> set g. vs = filter (\<lambda>x. f x = k) xs)"

lemma group_insert_keys: "fst ` set (group_insert k v g) = insert k (fst ` set g)"
proof (induction g)
  case (Cons p g)
  then show ?case by (cases p) auto
qed simp

lemma group_insert_distinct: "distinct (map fst g) \<Longrightarrow> distinct (map fst (group_insert k v g))"
proof (induction g)
  case Nil
  show ?case by simp
next
  case (Cons p g)
  obtain k' vs where p: "p = (k', vs)" by (cases p)
  show ?case
  proof (cases "k = k'")
    case True
    with Cons.prems p show ?thesis by simp
  next
    case False
    have "k' \<notin> set (map fst (group_insert k v g))"
      using Cons.prems p False group_insert_keys [of k v g] by simp
    with Cons p False show ?thesis by simp
  qed
qed

lemma group_insert_mem:
  assumes "distinct (map fst g)" and "(k', ws) \<in> set (group_insert k v g)"
  shows "(k' \<noteq> k \<and> (k', ws) \<in> set g) \<or>
    (k' = k \<and> ((\<exists>vs. (k, vs) \<in> set g \<and> ws = vs @ [v]) \<or> (k \<notin> fst ` set g \<and> ws = [v])))"
  using assms
proof (induction g)
  case Nil
  then show ?case by simp
next
  case (Cons p g)
  obtain k0 vs where p: "p = (k0, vs)" by (cases p)
  show ?case
  proof (cases "k = k0")
    case True
    with Cons.prems p show ?thesis by (force simp: image_iff)
  next
    case False
    with Cons p show ?thesis by auto
  qed
qed

lemma groups_of_insert:
  assumes "groups_of f xs g"
  shows "groups_of f (xs @ [x]) (group_insert (f x) x g)"
proof -
  have d: "distinct (map fst g)" and keys: "fst ` set g = f ` set xs"
    and vals: "\<And>k vs. (k, vs) \<in> set g \<Longrightarrow> vs = filter (\<lambda>y. f y = k) xs"
    using assms by (auto simp: groups_of_def)
  have "ws = filter (\<lambda>y. f y = k') (xs @ [x])" if "(k', ws) \<in> set (group_insert (f x) x g)" for k' ws
    using group_insert_mem [OF d that]
  proof
    assume "k' \<noteq> f x \<and> (k', ws) \<in> set g"
    then show ?thesis using vals [of k' ws] by auto
  next
    assume *: "k' = f x \<and> ((\<exists>vs. (f x, vs) \<in> set g \<and> ws = vs @ [x]) \<or> (f x \<notin> fst ` set g \<and> ws = [x]))"
    moreover have "filter (\<lambda>y. f y = f x) xs = []" if "f x \<notin> fst ` set g"
      using that unfolding keys filter_empty_conv by (metis imageI)
    ultimately show ?thesis using vals by auto
  qed
  then show ?thesis
    using group_insert_distinct [OF d] group_insert_keys [of "f x" x g] keys
    by (auto simp: groups_of_def)
qed

lemma group_by_groups: "groups_of f xs (group_by f xs)"
proof (induction xs rule: rev_induct)
  case Nil
  show ?case by (simp add: group_by_def groups_of_def)
next
  case (snoc x xs)
  then show ?case using groups_of_insert [of f xs "group_by f xs" x] by (simp add: group_by_def)
qed

lemma group_by_mem:
  assumes "(k, vs) \<in> set (group_by f xs)"
  shows "vs = filter (\<lambda>x. f x = k) xs" and "k \<in> f ` set xs" and "vs \<noteq> []"
proof -
  from group_by_groups [of f xs] assms show v: "vs = filter (\<lambda>x. f x = k) xs"
    by (auto simp: groups_of_def)
  have "k \<in> fst ` set (group_by f xs)"
    using assms by (rule rev_image_eqI) simp
  with group_by_groups [of f xs] show k: "k \<in> f ` set xs"
    by (simp add: groups_of_def)
  show "vs \<noteq> []" using k by (auto simp: v filter_empty_conv)
qed

lemma group_by_key: "x \<in> set xs \<Longrightarrow> (f x, filter (\<lambda>y. f y = f x) xs) \<in> set (group_by f xs)"
proof -
  assume "x \<in> set xs"
  then have "f x \<in> fst ` set (group_by f xs)"
    using group_by_groups [of f xs] by (auto simp: groups_of_def)
  then obtain vs where "(f x, vs) \<in> set (group_by f xs)" by auto
  moreover from this have "vs = filter (\<lambda>y. f y = f x) xs" by (rule group_by_mem)
  ultimately show ?thesis by simp
qed

lemma group_by_distinct: "distinct (map fst (group_by f xs))"
  using group_by_groups [of f xs] by (simp add: groups_of_def)

end
