(* ===== verification/Py_Text.thy ===== *)
theory Py_Text
  imports Prelude
begin

text \<open>
  Python's \<open>str\<close>, as far as the sources use it: \<open>strip\<close>, \<open>split\<close> and \<open>join\<close>, \<open>upper\<close>
  and \<open>lower\<close>, \<open>replace\<close> of one character, \<open>str(int)\<close>, fixed-width decimal fields and
  \<open>repr\<close>. A string is the list of its code points; the identifiers, statuses and
  timestamps of the program are ASCII, and white space and letter case are defined for the
  ASCII range (a code point from 128 up is never white space here and has no case).
  Comparison (\<open><\<close> on strings) is the lexicographic order of code points, as in Python.
\<close>

section \<open>Characters\<close>

definition code :: "char \<Rightarrow> nat" where
  "code c = of_char c"

definition is_space :: "char \<Rightarrow> bool" where
  "is_space c \<longleftrightarrow> (9 \<le> code c \<and> code c \<le> 13) \<or> (28 \<le> code c \<and> code c \<le> 32)"

definition is_digit :: "char \<Rightarrow> bool" where
  "is_digit c \<longleftrightarrow> 48 \<le> code c \<and> code c \<le> 57"

definition upper_char :: "char \<Rightarrow> char" where
  "upper_char c = (if 97 \<le> code c \<and> code c \<le> 122 then char_of (code c - 32) else c)"

definition lower_char :: "char \<Rightarrow> char" where
  "lower_char c = (if 65 \<le> code c \<and> code c \<le> 90 then char_of (code c + 32) else c)"

lemma code_char_of [simp]: "n < 256 \<Longrightarrow> code (char_of n) = n"
  by (simp add: code_def)

lemma code_inj: "code c = code d \<longleftrightarrow> c = d"
  by (simp add: code_def)

lemma upper_char_idem [simp]: "upper_char (upper_char c) = upper_char c"
  by (auto simp: upper_char_def)

lemma is_space_upper [simp]: "is_space (upper_char c) = is_space c"
  by (auto simp: upper_char_def is_space_def)

section \<open>Strings\<close>

definition lstrip :: "string \<Rightarrow> string" where
  "lstrip s = dropWhile is_space s"

definition strip :: "string \<Rightarrow> string" where
  "strip s = rev (lstrip (rev (lstrip s)))"

definition upper :: "string \<Rightarrow> string" where
  "upper s = map upper_char s"

definition lower :: "string \<Rightarrow> string" where
  "lower s = map lower_char s"

definition replace_char :: "char \<Rightarrow> string \<Rightarrow> string \<Rightarrow> string" where
  "replace_char c t s = concat (map (\<lambda>d. if d = c then t else [d]) s)"

fun split_on :: "(char \<Rightarrow> bool) \<Rightarrow> string \<Rightarrow> string \<Rightarrow> string list" where
  "split_on p acc [] = (if acc = [] then [] else [rev acc])"
| "split_on p acc (c # s) =
     (if p c then (if acc = [] then split_on p [] s else rev acc # split_on p [] s)
      else split_on p (c # acc) s)"

definition split :: "string \<Rightarrow> string list" where
  "split s = split_on is_space [] s"

fun join :: "string \<Rightarrow> string list \<Rightarrow> string" where
  "join sep [] = []"
| "join sep [s] = s"
| "join sep (s # t # ts) = s @ sep @ join sep (t # ts)"

text \<open>A string that \<open>strip\<close> leaves alone and that is not empty: what \<open>_text\<close> returns.\<close>

definition trimmed :: "string \<Rightarrow> bool" where
  "trimmed s \<longleftrightarrow> s \<noteq> [] \<and> \<not> is_space (hd s) \<and> \<not> is_space (last s)"

lemma lstrip_Nil [simp]: "lstrip [] = []"
  by (simp add: lstrip_def)

lemma strip_Nil [simp]: "strip [] = []"
  by (simp add: strip_def)

lemma lstrip_idem [simp]: "lstrip (lstrip s) = lstrip s"
  by (simp add: lstrip_def)

lemma lstrip_hd: "lstrip s \<noteq> [] \<Longrightarrow> \<not> is_space (hd (lstrip s))"
  unfolding lstrip_def by (rule hd_dropWhile)

lemma lstrip_id: "s = [] \<or> \<not> is_space (hd s) \<Longrightarrow> lstrip s = s"
  by (cases s) (auto simp: lstrip_def)

lemma strip_trimmed: "trimmed s \<Longrightarrow> strip s = s"
  by (simp add: strip_def lstrip_id trimmed_def hd_rev)

lemma trimmed_strip: "strip s \<noteq> [] \<Longrightarrow> trimmed (strip s)"
proof -
  assume ne: "strip s \<noteq> []"
  let ?t = "lstrip s"
  have t: "?t \<noteq> []"
  proof
    assume "?t = []"
    then have "strip s = []" by (simp add: strip_def)
    with ne show False by simp
  qed
  have l: "\<not> is_space (last (strip s))"
    using lstrip_hd [of "rev ?t"] ne by (simp add: strip_def last_rev)
  obtain us where "rev ?t = us @ lstrip (rev ?t)"
    unfolding lstrip_def by (metis takeWhile_dropWhile_id)
  then have "?t = strip s @ rev us"
    by (metis rev_append rev_rev_ident strip_def)
  then have "hd (strip s) = hd ?t" using ne by (metis hd_append2)
  then have "\<not> is_space (hd (strip s))" using lstrip_hd [OF t] by simp
  with l ne show ?thesis by (simp add: trimmed_def)
qed

lemma strip_idem [simp]: "strip (strip s) = strip s"
proof (cases "strip s = []")
  case True
  then show ?thesis by simp
next
  case False
  then show ?thesis by (simp add: strip_trimmed trimmed_strip)
qed

lemma upper_idem [simp]: "upper (upper s) = upper s"
  by (simp add: upper_def)

lemma upper_eq_Nil [simp]: "upper s = [] \<longleftrightarrow> s = []"
  by (simp add: upper_def)

lemma trimmed_upper [simp]: "trimmed (upper s) = trimmed s"
  by (cases "s = []") (auto simp: trimmed_def upper_def hd_map last_map)

lemma trimmed_append: "trimmed s \<Longrightarrow> trimmed t \<Longrightarrow> trimmed (s @ u @ t)"
  by (auto simp: trimmed_def)

section \<open>Decimal numbers\<close>

definition digit_char :: "nat \<Rightarrow> char" where
  "digit_char d = char_of (48 + d)"

definition digit_val :: "char \<Rightarrow> nat" where
  "digit_val c = code c - 48"

lemma digit_char_props [simp]:
  "d < 10 \<Longrightarrow> is_digit (digit_char d)" "d < 10 \<Longrightarrow> digit_val (digit_char d) = d"
  by (auto simp: digit_char_def digit_val_def is_digit_def)

fun nat_text :: "nat \<Rightarrow> string" where
  "nat_text n = (if n < 10 then [digit_char n] else nat_text (n div 10) @ [digit_char (n mod 10)])"

declare nat_text.simps [simp del]

definition int_text :: "int \<Rightarrow> string" where
  "int_text i = (if i < 0 then CHR ''-'' # nat_text (nat (- i)) else nat_text (nat i))"

text \<open>\<open>fixed w n\<close> is \<open>f"{n:0w}"\<close> for \<open>n < 10 ^ w\<close>.\<close>

fun fixed :: "nat \<Rightarrow> nat \<Rightarrow> string" where
  "fixed 0 n = []"
| "fixed (Suc w) n = fixed w (n div 10) @ [digit_char (n mod 10)]"

definition num_of :: "string \<Rightarrow> nat" where
  "num_of s = foldl (\<lambda>v c. 10 * v + digit_val c) 0 s"

lemma fixed_length [simp]: "length (fixed w n) = w"
  by (induction w arbitrary: n) auto

lemma fixed_digits: "list_all is_digit (fixed w n)"
  by (induction w arbitrary: n) auto

lemma num_of_fixed: "n < 10 ^ w \<Longrightarrow> num_of (fixed w n) = n"
proof (induction w arbitrary: n)
  case 0
  then show ?case by (simp add: num_of_def)
next
  case (Suc w)
  have "n div 10 < 10 ^ w" using Suc.prems by simp
  then have "num_of (fixed w (n div 10)) = n div 10" by (rule Suc.IH)
  then show ?case by (simp add: num_of_def)
qed

lemma nat_text_not_Nil [simp]: "nat_text n \<noteq> []"
  by (subst nat_text.simps) simp

lemma nat_text_digits: "list_all is_digit (nat_text n)"
proof (induction n rule: nat_text.induct)
  case (1 n)
  then show ?case by (cases "n < 10") (simp_all add: nat_text.simps [of n])
qed

lemma num_of_nat_text: "num_of (nat_text n) = n"
proof (induction n rule: nat_text.induct)
  case (1 n)
  then show ?case by (cases "n < 10") (simp_all add: nat_text.simps [of n] num_of_def)
qed

lemma nat_text_inj: "nat_text m = nat_text n \<longleftrightarrow> m = n"
  by (metis num_of_nat_text)

lemma is_digit_not_minus: "\<not> is_digit (CHR ''-'')"
  by (simp add: is_digit_def code_def)

lemma int_text_inj: "int_text i = int_text j \<longleftrightarrow> i = j"
proof -
  have hd_digit: "hd (nat_text n) \<noteq> CHR ''-''" for n
    using nat_text_digits [of n] is_digit_not_minus
    by (cases "nat_text n") auto
  show ?thesis
    by (auto simp: int_text_def nat_text_inj split: if_splits) (metis hd_digit list.sel(1))+
qed

section \<open>repr of a string\<close>

definition hex_digit :: "nat \<Rightarrow> char" where
  "hex_digit d = (if d < 10 then char_of (48 + d) else char_of (87 + d))"

definition repr_char :: "char \<Rightarrow> char \<Rightarrow> string" where
  "repr_char q c =
     (if c = q \<or> c = CHR 0x5C then [CHR 0x5C, c]
      else if code c = 9 then [CHR 0x5C, CHR ''t'']
      else if code c = 10 then [CHR 0x5C, CHR ''n'']
      else if code c = 13 then [CHR 0x5C, CHR ''r'']
      else if code c < 32 \<or> code c = 127
        then [CHR 0x5C, CHR ''x'', hex_digit (code c div 16), hex_digit (code c mod 16)]
      else [c])"

definition repr_text :: "string \<Rightarrow> string" where
  "repr_text s =
     (let q = (if CHR 0x27 \<in> set s \<and> CHR 0x22 \<notin> set s then CHR 0x22 else CHR 0x27)
      in [q] @ concat (map (repr_char q) s) @ [q])"

end
