(* ===== verification/Py_Time.thy ===== *)
theory Py_Time
  imports Py_Text
begin

text \<open>
  The part of Python's \<open>datetime\<close> that the sources use: the proleptic Gregorian calendar
  with ordinals (\<open>date.toordinal\<close>), aware datetimes with an offset in microseconds,
  \<open>fromisoformat\<close>, \<open>astimezone(UTC)\<close>, \<open>isoformat\<close>, and instants, which are what the
  comparison of two aware datetimes compares.  \<open>fromisoformat\<close> covers the calendar forms
  (\<open>YYYY-MM-DD\<close> and \<open>YYYYMMDD\<close>, any separator, times with or without colons, fractions,
  offsets, \<open>24:00\<close>); the ISO week forms (\<open>YYYY-Www-D\<close>) are outside the model and read as
  malformed.
\<close>

section \<open>The calendar\<close>

definition is_leap :: "nat \<Rightarrow> bool" where
  "is_leap y \<longleftrightarrow> y mod 4 = 0 \<and> (y mod 100 \<noteq> 0 \<or> y mod 400 = 0)"

definition year_days :: "nat \<Rightarrow> nat" where
  "year_days y = (if is_leap y then 366 else 365)"

definition month_days :: "nat \<Rightarrow> nat \<Rightarrow> nat" where
  "month_days y m =
     (if m = 2 then (if is_leap y then 29 else 28)
      else if m \<in> {4, 6, 9, 11} then 30 else 31)"

definition days_before_year :: "nat \<Rightarrow> nat" where
  "days_before_year y = (let p = y - 1 in p * 365 + p div 4 + p div 400 - p div 100)"

fun days_before_month :: "nat \<Rightarrow> nat \<Rightarrow> nat" where
  "days_before_month y 0 = 0"
| "days_before_month y (Suc m) = (if m = 0 then 0 else days_before_month y m + month_days y m)"

definition valid_date :: "nat \<Rightarrow> nat \<Rightarrow> nat \<Rightarrow> bool" where
  "valid_date y m d \<longleftrightarrow>
     1 \<le> y \<and> y \<le> 9999 \<and> 1 \<le> m \<and> m \<le> 12 \<and> 1 \<le> d \<and> d \<le> month_days y m"

definition date_ord :: "nat \<Rightarrow> nat \<Rightarrow> nat \<Rightarrow> nat" where
  "date_ord y m d = days_before_year y + days_before_month y m + d"

definition max_ord :: nat where "max_ord = 3652059"

function find_year :: "nat \<Rightarrow> nat \<Rightarrow> nat" where
  "find_year y n = (if n \<le> days_before_year (Suc y) \<or> n \<le> y then y else find_year (Suc y) n)"
  by pat_completeness auto
termination by (relation "measure (\<lambda>(y, n). n - y)") auto

declare find_year.simps [simp del]

function find_month :: "nat \<Rightarrow> nat \<Rightarrow> nat \<Rightarrow> nat \<times> nat" where
  "find_month y m d =
     (if m < 12 \<and> month_days y m < d then find_month y (Suc m) (d - month_days y m) else (m, d))"
  by pat_completeness auto
termination by (relation "measure (\<lambda>(y, m, d). 12 - m)") auto

declare find_month.simps [simp del]

definition ord_date :: "nat \<Rightarrow> nat \<times> nat \<times> nat" where
  "ord_date n =
     (let y = find_year (Suc ((n - 1) div 366)) n;
          (m, d) = find_month y 1 (n - days_before_year y)
      in (y, m, d))"

definition weekday :: "nat \<Rightarrow> nat" where
  "weekday n = (n + 6) mod 7"

lemma days_before_year_Suc: "1 \<le> y \<Longrightarrow> days_before_year (Suc y) = days_before_year y + year_days y"
proof -
  assume "1 \<le> y"
  then obtain p where p: "y = Suc p" by (cases y) auto
  have le: "p div 100 \<le> p div 4" by (simp add: div_le_mono2)
  have s4: "Suc p div 4 = p div 4 + (if Suc p mod 4 = 0 then 1 else 0)"
    and s100: "Suc p div 100 = p div 100 + (if Suc p mod 100 = 0 then 1 else 0)"
    and s400: "Suc p div 400 = p div 400 + (if Suc p mod 400 = 0 then 1 else 0)"
    by (simp_all add: div_Suc)
  have m1: "Suc p mod 100 = 0 \<Longrightarrow> Suc p mod 4 = 0" and m2: "Suc p mod 400 = 0 \<Longrightarrow> Suc p mod 100 = 0"
    by presburger+
  let ?i = "\<lambda>k. (if Suc p mod k = 0 then 1 else 0 :: int)"
  have u: "int (days_before_year (Suc y)) =
      int p * 365 + 365 + int (p div 4) + ?i 4 + int (p div 400) + ?i 400 - int (p div 100) - ?i 100"
    using le unfolding days_before_year_def p Let_def
    by (subst of_nat_diff) (auto simp: s4 s100 s400 m1)
  have v: "int (days_before_year y) = int p * 365 + int (p div 4) + int (p div 400) - int (p div 100)"
    using le unfolding days_before_year_def p Let_def by (subst of_nat_diff) auto
  have w: "int (year_days y) = 365 + ?i 4 - ?i 100 + ?i 400"
    using m1 m2 by (auto simp: year_days_def is_leap_def p)
  have "int (days_before_year (Suc y)) = int (days_before_year y + year_days y)"
    unfolding of_nat_add u v w by simp
  then show ?thesis by (simp only: of_nat_eq_iff)
qed

lemma days_before_year_1 [simp]: "days_before_year (Suc 0) = 0" "days_before_year 1 = 0"
  by (simp_all add: days_before_year_def)

lemma year_days_bounds: "365 \<le> year_days y" "year_days y \<le> 366"
  by (simp_all add: year_days_def)

lemma days_before_year_strict: "1 \<le> y \<Longrightarrow> y < z \<Longrightarrow> days_before_year y + year_days y \<le> days_before_year z"
proof (induction z)
  case 0
  then show ?case by simp
next
  case (Suc z)
  then show ?case
    by (cases "y = z") (auto simp: days_before_year_Suc)
qed

lemma days_before_year_mono: "1 \<le> y \<Longrightarrow> y \<le> z \<Longrightarrow> days_before_year y \<le> days_before_year z"
  using days_before_year_strict [of y z] by (cases "y = z") auto

lemma days_before_year_upper: "days_before_year (Suc y) \<le> 366 * y"
proof (induction y)
  case 0
  show ?case by simp
next
  case (Suc y)
  then show ?case using year_days_bounds(2) [of "Suc y"] by (simp add: days_before_year_Suc)
qed

lemma days_before_year_lower: "y \<le> days_before_year (Suc y)"
proof (induction y)
  case 0
  show ?case by simp
next
  case (Suc y)
  then show ?case using year_days_bounds(1) [of "Suc y"] by (simp add: days_before_year_Suc)
qed

lemma find_year_eq:
  assumes "days_before_year y < n" "n \<le> days_before_year (Suc y)" "1 \<le> x" "x \<le> y"
  shows "find_year x n = y"
  using assms(3,4)
proof (induction "y - x" arbitrary: x)
  case 0
  then show ?case using assms by (simp add: find_year.simps [of x])
next
  case (Suc k)
  then have "x < y" by simp
  then have "days_before_year (Suc x) \<le> days_before_year y" using Suc.prems
    by (intro days_before_year_mono) auto
  moreover have "x \<le> days_before_year (Suc x)" by (rule days_before_year_lower)
  ultimately have "\<not> (n \<le> days_before_year (Suc x) \<or> n \<le> x)" using assms(1) by simp
  moreover have "find_year (Suc x) n = y" using Suc \<open>x < y\<close> by simp
  ultimately show ?case by (simp add: find_year.simps [of x])
qed

lemma month_days_bounds: "28 \<le> month_days y m" "month_days y m \<le> 31"
  by (auto simp: month_days_def)

lemma days_before_month_Suc [simp]:
  "1 \<le> m \<Longrightarrow> days_before_month y (Suc m) = days_before_month y m + month_days y m"
  by simp

lemma find_month_eq:
  assumes "1 \<le> k" "k \<le> m" "m \<le> 12" "1 \<le> d" "d \<le> month_days y m"
  shows "find_month y k (days_before_month y m - days_before_month y k + d) = (m, d)"
  using assms(1,2)
proof (induction "m - k" arbitrary: k)
  case 0
  then have "m = k" by simp
  with assms show ?case by (subst find_month.simps) simp
next
  case (Suc j)
  then have km: "k < m" by simp
  have mono: "1 \<le> a \<Longrightarrow> a \<le> b \<Longrightarrow> days_before_month y a \<le> days_before_month y b" for a b
  proof (induction b)
    case (Suc b)
    then show ?case by (cases "a = Suc b") auto
  qed simp
  have step: "days_before_month y (Suc k) = days_before_month y k + month_days y k"
    using Suc.prems by simp
  have le: "days_before_month y (Suc k) \<le> days_before_month y m" using km Suc.prems
    by (intro mono) auto
  have "find_month y (Suc k) (days_before_month y m - days_before_month y (Suc k) + d) = (m, d)"
    using Suc.hyps(1) [of "Suc k"] Suc.hyps(2) km by simp
  moreover have "days_before_month y m - days_before_month y k + d - month_days y k
      = days_before_month y m - days_before_month y (Suc k) + d"
    using step le by simp
  moreover have "month_days y k < days_before_month y m - days_before_month y k + d"
    using step le assms(4) by simp
  ultimately show ?case using km assms(3) by (simp add: find_month.simps [of y k])
qed

lemma days_before_month_13: "days_before_month y 13 = year_days y"
  by (simp add: eval_nat_numeral month_days_def year_days_def)

lemma days_before_month_mono: "1 \<le> a \<Longrightarrow> a \<le> b \<Longrightarrow> days_before_month y a \<le> days_before_month y b"
proof (induction b)
  case (Suc b)
  then show ?case by (cases "a = Suc b") auto
qed simp

lemma date_in_year:
  assumes "1 \<le> m" "m \<le> 12" "1 \<le> d" "d \<le> month_days y m"
  shows "1 \<le> days_before_month y m + d" "days_before_month y m + d \<le> year_days y"
proof -
  show "1 \<le> days_before_month y m + d" using assms by simp
  have "days_before_month y (Suc m) \<le> days_before_month y 13"
    by (rule days_before_month_mono) (use assms in auto)
  then show "days_before_month y m + d \<le> year_days y"
    using assms by (simp add: days_before_month_13)
qed

text \<open>\<open>date.fromordinal(d.toordinal()) == d\<close>.\<close>

lemma ord_date_date_ord:
  assumes "valid_date y m d"
  shows "ord_date (date_ord y m d) = (y, m, d)"
proof -
  let ?n = "date_ord y m d"
  from assms have v: "1 \<le> y" "1 \<le> m" "m \<le> 12" "1 \<le> d" "d \<le> month_days y m"
    by (auto simp: valid_date_def)
  have lo: "days_before_year y < ?n" and hi: "?n \<le> days_before_year (Suc y)"
    using date_in_year [OF v(2-5)] v(1,4) by (simp_all add: date_ord_def days_before_year_Suc)
  obtain z where z: "y = Suc z" using v(1) by (cases y) auto
  have "?n - 1 < 366 * y"
    using hi days_before_year_upper [of y] lo by simp
  then have "(?n - 1) div 366 < y" by (simp add: div_less_iff_less_mult mult.commute)
  then have "find_year (Suc ((?n - 1) div 366)) ?n = y"
    by (intro find_year_eq lo hi) auto
  moreover have "find_month y 1 (?n - days_before_year y) = (m, d)"
    using find_month_eq [of 1 m d y] v by (simp add: date_ord_def)
  ultimately show ?thesis by (simp add: ord_date_def)
qed

lemma date_ord_bounds: "valid_date y m d \<Longrightarrow> 1 \<le> date_ord y m d \<and> date_ord y m d \<le> max_ord"
proof -
  assume "valid_date y m d"
  then have v: "1 \<le> y" "y \<le> 9999" "1 \<le> m" "m \<le> 12" "1 \<le> d" "d \<le> month_days y m"
    by (auto simp: valid_date_def)
  have "date_ord y m d \<le> days_before_year (Suc y)"
    using date_in_year [OF v(3-6)] v(1) by (simp add: date_ord_def days_before_year_Suc)
  also have "\<dots> \<le> days_before_year 10000" using v by (intro days_before_year_mono) auto
  also have "\<dots> = max_ord" by (simp add: days_before_year_def max_ord_def)
  finally show ?thesis using v by (simp add: date_ord_def)
qed

lemma find_year_props:
  assumes "1 \<le> x" "days_before_year x < n"
  shows "x \<le> find_year x n \<and> days_before_year (find_year x n) < n \<and>
    n \<le> days_before_year (Suc (find_year x n))"
  using assms
proof (induction x n rule: find_year.induct)
  case (1 x n)
  have low: "x \<le> days_before_year (Suc x)" by (rule days_before_year_lower)
  show ?case
  proof (cases "n \<le> days_before_year (Suc x) \<or> n \<le> x")
    case True
    with 1 low show ?thesis by (auto simp: find_year.simps [of x n])
  next
    case False
    with "1.IH" show ?thesis by (auto simp: find_year.simps [of x n])
  qed
qed

lemma find_month_props:
  assumes "find_month y k e = (m, d)" "1 \<le> k" "k \<le> 12" "1 \<le> e"
    and "days_before_month y k + e \<le> year_days y"
  shows "k \<le> m \<and> m \<le> 12 \<and> 1 \<le> d \<and> d \<le> month_days y m \<and>
    days_before_month y m + d = days_before_month y k + e"
  using assms
proof (induction y k e arbitrary: m d rule: find_month.induct)
  case (1 y k e)
  have step: "days_before_month y (Suc k) = days_before_month y k + month_days y k"
    using "1.prems" by simp
  show ?case
  proof (cases "k < 12 \<and> month_days y k < e")
    case True
    then have eq: "find_month y (Suc k) (e - month_days y k) = (m, d)"
      using "1.prems"(1) by (simp add: find_month.simps [of y k])
    have "Suc k \<le> m \<and> m \<le> 12 \<and> 1 \<le> d \<and> d \<le> month_days y m \<and>
        days_before_month y m + d = days_before_month y (Suc k) + (e - month_days y k)"
      by (rule "1.IH" [OF True eq]) (use True "1.prems" step in auto)
    with True step show ?thesis by simp
  next
    case False
    then have md: "m = k" "d = e" using "1.prems"(1) by (auto simp: find_month.simps [of y k])
    have "e \<le> month_days y k"
    proof (cases "k < 12")
      case True
      with False show ?thesis by simp
    next
      case False
      with "1.prems" have "k = 12" by simp
      then have "days_before_month y k + month_days y k = year_days y"
        using days_before_month_13 [of y] step by simp
      with "1.prems" show ?thesis by simp
    qed
    with md "1.prems" show ?thesis by simp
  qed
qed

text \<open>\<open>date.fromordinal(n).toordinal() == n\<close>, and the date is a valid one.\<close>

lemma date_ord_ord_date:
  assumes "1 \<le> n" "n \<le> max_ord" "ord_date n = (y, m, d)"
  shows "valid_date y m d" and "date_ord y m d = n"
proof -
  let ?x = "Suc ((n - 1) div 366)"
  have "days_before_year ?x \<le> 366 * ((n - 1) div 366)" by (rule days_before_year_upper)
  also have "\<dots> \<le> n - 1" by simp
  finally have lo: "days_before_year ?x < n" using assms(1) by simp
  have y: "y = find_year ?x n" and md: "find_month y 1 (n - days_before_year y) = (m, d)"
    using assms(3) by (auto simp: ord_date_def Let_def split: prod.splits)
  have fy: "1 \<le> y" "days_before_year y < n" "n \<le> days_before_year (Suc y)"
    using find_year_props [OF _ lo] by (simp_all add: y)
  have "days_before_year 10000 = max_ord" by (simp add: days_before_year_def max_ord_def)
  with fy(2) assms(2) have "\<not> 10000 \<le> y" using days_before_year_mono [of 10000 y] by auto
  moreover have "days_before_month y 1 = 0" by simp
  moreover have "1 \<le> n - days_before_year y" "n - days_before_year y \<le> year_days y"
    using fy by (simp_all add: days_before_year_Suc)
  ultimately have "1 \<le> m \<and> m \<le> 12 \<and> 1 \<le> d \<and> d \<le> month_days y m \<and>
      days_before_month y m + d = n - days_before_year y" and "y \<le> 9999"
    using find_month_props [OF md] by auto
  with fy(1,2) show "valid_date y m d" "date_ord y m d = n"
    by (auto simp: valid_date_def date_ord_def)
qed

section \<open>Datetimes and instants\<close>

record dt =
  dt_year :: nat
  dt_month :: nat
  dt_day :: nat
  dt_hour :: nat
  dt_minute :: nat
  dt_second :: nat
  dt_micro :: nat
  dt_off :: "int option"

abbreviation day_us :: int where "day_us \<equiv> 86400000000"

definition valid_dt :: "dt \<Rightarrow> bool" where
  "valid_dt d \<longleftrightarrow> valid_date (dt_year d) (dt_month d) (dt_day d) \<and> dt_hour d < 24 \<and> dt_minute d < 60 \<and> dt_second d < 60 \<and>
     dt_micro d < 1000000 \<and> (case dt_off d of None \<Rightarrow> True | Some e \<Rightarrow> \<bar>e\<bar> < day_us)"

definition time_us :: "dt \<Rightarrow> nat" where
  "time_us d = ((dt_hour d * 60 + dt_minute d) * 60 + dt_second d) * 1000000 + dt_micro d"

definition local_us :: "dt \<Rightarrow> int" where
  "local_us d = int (date_ord (dt_year d) (dt_month d) (dt_day d)) * day_us + int (time_us d)"

definition dt_of_us :: "int \<Rightarrow> int option \<Rightarrow> dt" where
  "dt_of_us u e =
     (let (y, m, d) = ord_date (nat (u div day_us)); r = nat (u mod day_us)
      in \<lparr>dt_year = y, dt_month = m, dt_day = d, dt_hour = r div 3600000000, dt_minute = r div 60000000 mod 60,
          dt_second = r div 1000000 mod 60, dt_micro = r mod 1000000, dt_off = e\<rparr>)"

definition us_in_range :: "int \<Rightarrow> bool" where
  "us_in_range u \<longleftrightarrow> day_us \<le> u \<and> u < (int max_ord + 1) * day_us"

text \<open>The instant of an aware datetime, in microseconds.\<close>

definition instant :: "dt \<Rightarrow> int" where
  "instant d = local_us d - (case dt_off d of None \<Rightarrow> 0 | Some e \<Rightarrow> e)"

text \<open>
  \<open>d.astimezone(UTC)\<close> for an aware \<open>d\<close>: the datetime itself when its zone is UTC, else the
  shifted one; \<^const>\<open>None\<close> is the OverflowError at the ends of the calendar.
\<close>

definition astimezone_utc :: "dt \<Rightarrow> dt option" where
  "astimezone_utc d =
     (if dt_off d = Some 0 then Some d
      else if us_in_range (instant d) then Some (dt_of_us (instant d) (Some 0)) else None)"

lemma hms_split:
  "(((r div 3600000000) * 60 + r div 60000000 mod 60) * 60 + r div 1000000 mod 60) * 1000000
    + r mod 1000000 = (r::nat)"
proof -
  let ?s = "r div 1000000"
  have m: "r div 60000000 = ?s div 60" and h: "r div 3600000000 = ?s div 60 div 60"
    by (simp_all flip: div_mult2_eq)
  have "?s div 60 div 60 * 60 + ?s div 60 mod 60 = ?s div 60" "?s div 60 * 60 + ?s mod 60 = ?s"
    "?s * 1000000 + r mod 1000000 = r"
    by (simp_all only: div_mult_mod_eq)
  then show ?thesis unfolding m h by (simp only:)
qed

lemma time_us_bound: "valid_dt d \<Longrightarrow> time_us d < 86400000000"
  by (auto simp: valid_dt_def time_us_def)

lemma dt_of_us_local_us:
  assumes "valid_dt d"
  shows "dt_of_us (local_us d) (dt_off d) = d"
proof -
  let ?o = "date_ord (dt_year d) (dt_month d) (dt_day d)"
  have b: "time_us d < 86400000000" by (rule time_us_bound [OF assms])
  have q: "local_us d div day_us = int ?o" and r: "local_us d mod day_us = int (time_us d)"
    using b by (simp_all add: local_us_def)
  have f: "dt_hour d < 24" "dt_minute d < 60" "dt_second d < 60" "dt_micro d < 1000000"
    using assms by (auto simp: valid_dt_def)
  let ?s = "(dt_hour d * 60 + dt_minute d) * 60 + dt_second d"
  have t: "time_us d = ?s * 1000000 + dt_micro d" by (simp only: time_us_def)
  have t0: "time_us d mod 1000000 = dt_micro d"
    unfolding t mod_mult_self3 using f by simp
  have "?s * 1000000 div 1000000 + dt_micro d div 1000000 = ?s" using f by simp
  then have t1: "time_us d div 1000000 = ?s"
    unfolding t by (metis div_mult_self3 nonzero_mult_div_cancel_right zero_neq_numeral)
  have m: "?s div 60 = dt_hour d * 60 + dt_minute d" using f by simp
  have m': "?s mod 60 = dt_second d" unfolding mod_mult_self3 using f by simp
  have t2: "time_us d div 60000000 = dt_hour d * 60 + dt_minute d"
    using m t1 div_mult2_eq [of "time_us d" 1000000 60] by simp
  have t3: "time_us d div 3600000000 = dt_hour d"
    using f t2 div_mult2_eq [of "time_us d" 60000000 60] by simp
  have t4: "time_us d div 60000000 mod 60 = dt_minute d" "time_us d div 1000000 mod 60 = dt_second d"
    unfolding t1 t2 m' using f by simp_all
  have o: "ord_date ?o = (dt_year d, dt_month d, dt_day d)"
    using assms by (intro ord_date_date_ord) (simp add: valid_dt_def)
  show ?thesis
    unfolding dt_of_us_def q r nat_int o Let_def prod.case t0 t3 t4 by simp
qed

lemma off_dt_of_us [simp]: "dt_off (dt_of_us u e) = e"
  by (simp add: dt_of_us_def Let_def split: prod.splits)

lemma dt_of_us_props:
  assumes "us_in_range u" and "case e of None \<Rightarrow> True | Some z \<Rightarrow> \<bar>z\<bar> < day_us"
  shows "valid_dt (dt_of_us u e)" and "local_us (dt_of_us u e) = u"
proof -
  let ?n = "nat (u div day_us)" and ?r = "nat (u mod day_us)"
  have split_u: "u = day_us * (u div day_us) + u mod day_us" by simp
  have "0 \<le> u mod day_us" "u mod day_us < day_us" by simp_all
  moreover have "day_us \<le> u" "u < 3652060 * day_us"
    using assms(1) by (simp_all add: us_in_range_def max_ord_def)
  ultimately have "1 \<le> u div day_us" "u div day_us < 3652060"
    using split_u by linarith+
  then have "1 \<le> u div day_us" "u div day_us < int max_ord + 1" by (simp_all add: max_ord_def)
  then have n: "1 \<le> ?n" "?n \<le> max_ord" "int ?n = u div day_us" by auto
  have r: "int ?r = u mod day_us" "?r < 86400000000" by simp_all
  obtain y m d where o: "ord_date ?n = (y, m, d)" by (cases "ord_date ?n")
  note v = date_ord_ord_date [OF n(1,2) o]
  have h: "?r div 3600000000 < 24" using r(2) by (simp add: div_less_iff_less_mult)
  then show "valid_dt (dt_of_us u e)"
    using v(1) assms(2) by (simp add: dt_of_us_def valid_dt_def o Let_def)
  have t: "time_us (dt_of_us u e) = ?r"
    unfolding time_us_def dt_of_us_def o Let_def prod.case dt.select_convs by (rule hms_split)
  have "date_ord (dt_year (dt_of_us u e)) (dt_month (dt_of_us u e)) (dt_day (dt_of_us u e)) = ?n"
    using v(2) by (simp add: dt_of_us_def o Let_def)
  then show "local_us (dt_of_us u e) = u"
    using n(3) r(1) unfolding local_us_def t by simp
qed

lemma astimezone_utc_props:
  assumes "valid_dt d" and "astimezone_utc d = Some e"
  shows "valid_dt e" and "dt_off e = Some 0" and "dt_off d \<noteq> None \<Longrightarrow> instant e = instant d"
proof -
  show "valid_dt e" "dt_off e = Some 0" "dt_off d \<noteq> None \<Longrightarrow> instant e = instant d"
    using assms dt_of_us_props [of "instant d" "Some 0"]
    by (auto simp: astimezone_utc_def instant_def split: if_splits)
qed

section \<open>ISO 8601 text\<close>

definition date_text :: "nat \<Rightarrow> nat \<Rightarrow> nat \<Rightarrow> string" where
  "date_text y m d = fixed 4 y @ ''-'' @ fixed 2 m @ ''-'' @ fixed 2 d"

text \<open>
  \<open>isoformat()\<close> of a UTC datetime; with \<open>timespec="microseconds"\<close> (\<open>force\<close>) the fraction
  is written even when it is zero.
\<close>

definition utc_text :: "bool \<Rightarrow> dt \<Rightarrow> string" where
  "utc_text force d =
     date_text (dt_year d) (dt_month d) (dt_day d) @ ''T'' @ fixed 2 (dt_hour d) @ '':'' @ fixed 2 (dt_minute d) @ '':'' @
     fixed 2 (dt_second d) @ (if force \<or> dt_micro d \<noteq> 0 then ''.'' @ fixed 6 (dt_micro d) else []) @ ''+00:00''"

definition all_digits :: "string \<Rightarrow> bool" where
  "all_digits s \<longleftrightarrow> list_all is_digit s"

text \<open>
  The clock fields: up to three two-digit groups, with colons if the first group is
  followed by one, then a fraction of which six digits count.
\<close>

definition parse_fraction :: "string \<Rightarrow> nat option" where
  "parse_fraction s =
     (if s = [] then Some 0
      else if hd s \<notin> {CHR ''.'', CHR '',''} \<or> tl s = [] \<or> \<not> all_digits (tl s) then None
      else Some (num_of (take 6 (tl s @ replicate 6 (CHR ''0'')))))"

fun parse_groups :: "nat \<Rightarrow> bool \<Rightarrow> string \<Rightarrow> (nat list \<times> string) option" where
  "parse_groups 0 sep s = Some ([], s)"
| "parse_groups (Suc k) sep s =
     (if length s < 2 \<or> \<not> all_digits (take 2 s) then None
      else if drop 2 s = [] \<or> k = 0 then Some ([num_of (take 2 s)], drop 2 s)
      else if sep then
        (if hd (drop 2 s) \<noteq> CHR '':'' then None
         else map_option (\<lambda>(ns, r). (num_of (take 2 s) # ns, r)) (parse_groups k sep (drop 3 s)))
      else map_option (\<lambda>(ns, r). (num_of (take 2 s) # ns, r)) (parse_groups k sep (drop 2 s)))"

definition parse_clock :: "string \<Rightarrow> (nat \<times> nat \<times> nat \<times> nat) option" where
  "parse_clock s =
     Option.bind (parse_groups 3 (take 1 (drop 2 s) = '':'') s) (\<lambda>(ns, r).
       Option.bind (parse_fraction r) (\<lambda>f.
         let ms = ns @ [0, 0, 0] in Some (ms ! 0, ms ! 1, ms ! 2, f)))"

definition parse_date :: "string \<Rightarrow> (nat \<times> nat \<times> nat) option" where
  "parse_date s =
     (if length s = 10 \<and> s ! 4 = CHR ''-'' \<and> s ! 7 = CHR ''-'' \<and>
         all_digits (take 4 s @ take 2 (drop 5 s) @ drop 8 s)
      then Some (num_of (take 4 s), num_of (take 2 (drop 5 s)), num_of (drop 8 s))
      else if length s = 8 \<and> all_digits s
      then Some (num_of (take 4 s), num_of (take 2 (drop 4 s)), num_of (drop 6 s))
      else None)"

text \<open>The offset after the sign; \<open>Z\<close> must be the last character.\<close>

definition parse_offset :: "char \<Rightarrow> string \<Rightarrow> int option" where
  "parse_offset sign s =
     (if sign = CHR ''Z'' then (if s = [] then Some 0 else None)
      else if length s \<in> {0, 1, 3} then None
      else Option.bind (parse_clock s) (\<lambda>(h, m, sec, f).
        if h < 24 \<and> m < 60 \<and> sec < 60
        then Some ((if sign = CHR ''-'' then - 1 else 1) *
          int (((h * 60 + m) * 60 + sec) * 1000000 + f)) else None))"

definition is_zone_sign :: "char \<Rightarrow> bool" where
  "is_zone_sign c \<longleftrightarrow> c = CHR ''+'' \<or> c = CHR ''-'' \<or> c = CHR ''Z''"

definition parse_time :: "string \<Rightarrow> ((nat \<times> nat \<times> nat \<times> nat) \<times> int option) option" where
  "parse_time s =
     (let t = takeWhile (\<lambda>c. \<not> is_zone_sign c) s; z = drop (length t) s
      in Option.bind (parse_clock t) (\<lambda>clock.
        if z = [] then Some (clock, None)
        else map_option (\<lambda>e. (clock, Some e)) (parse_offset (hd z) (tl z))))"

definition check_dt :: "dt \<Rightarrow> dt option" where
  "check_dt d = (if valid_dt d then Some d else None)"

definition next_day :: "nat \<Rightarrow> nat \<Rightarrow> nat \<Rightarrow> nat \<times> nat \<times> nat" where
  "next_day y m d =
     (if m \<le> 12 \<and> d \<le> month_days y m then
        (if Suc d \<le> month_days y m then (y, m, Suc d)
         else if Suc m \<le> 12 then (y, Suc m, 1) else (Suc y, 1, 1))
      else (y, m, d))"

definition fromisoformat :: "string \<Rightarrow> dt option" where
  "fromisoformat s =
     (if length s < 7 then None
      else let n = (if s ! 4 = CHR ''-'' then 10 else 8)
      in Option.bind (parse_date (take n s)) (\<lambda>(y, m, d).
        if drop (Suc n) s = []
        then check_dt \<lparr>dt_year = y, dt_month = m, dt_day = d, dt_hour = 0, dt_minute = 0, dt_second = 0, dt_micro = 0, dt_off = None\<rparr>
        else Option.bind (parse_time (drop (Suc n) s)) (\<lambda>((h, mn, sec, f), e).
          if h = 24 then
            (if mn = 0 \<and> sec = 0 \<and> f = 0
             then let (y', m', d') = next_day y m d
                  in check_dt \<lparr>dt_year = y', dt_month = m', dt_day = d', dt_hour = 0, dt_minute = 0, dt_second = 0, dt_micro = 0, dt_off = e\<rparr>
             else None)
          else check_dt \<lparr>dt_year = y, dt_month = m, dt_day = d, dt_hour = h, dt_minute = mn, dt_second = sec, dt_micro = f, dt_off = e\<rparr>)))"

lemma fromisoformat_valid: "fromisoformat s = Some d \<Longrightarrow> valid_dt d"
  by (auto simp: fromisoformat_def check_dt_def Let_def bind_eq_Some_conv
      split: if_splits prod.splits)

lemma all_digits_fixed [simp]: "all_digits (fixed w n)"
  by (simp add: all_digits_def fixed_digits)

lemma all_digits_append [simp]: "all_digits (s @ t) \<longleftrightarrow> all_digits s \<and> all_digits t"
  by (simp add: all_digits_def)

lemma parse_date_text:
  assumes "y < 10000" "m < 100" "d < 100"
  shows "parse_date (date_text y m d) = Some (y, m, d)"
  using num_of_fixed [of y 4] num_of_fixed [of m 2] num_of_fixed [of d 2] assms
  by (simp add: parse_date_def date_text_def nth_append)

lemma parse_group_fixed:
  assumes "n < 100"
  shows "take 2 (fixed 2 n @ s) = fixed 2 n" "drop 2 (fixed 2 n @ s) = s"
    "drop 3 (fixed 2 n @ c # s) = s" "num_of (fixed 2 n) = n"
  using num_of_fixed [of n 2] assms by simp_all

lemma parse_clock_text:
  assumes "h < 100" "m < 100" "s < 100"
    and "r = [] \<or> hd r = CHR ''.''"
  shows "parse_clock (fixed 2 h @ '':'' @ fixed 2 m @ '':'' @ fixed 2 s @ r) =
    Option.bind (parse_fraction r) (\<lambda>f. Some (h, m, s, f))"
  using assms
  by (simp add: parse_clock_def numeral_3_eq_3 parse_group_fixed Let_def del: fixed.simps)

lemma parse_fraction_fixed: "f < 1000000 \<Longrightarrow> parse_fraction (CHR ''.'' # fixed 6 f) = Some f"
  using num_of_fixed [of f 6] fixed_length [of 6 f]
  by (auto simp: parse_fraction_def simp del: fixed.simps fixed_length)

lemma digit_not_zone: "is_digit c \<Longrightarrow> \<not> is_zone_sign c"
  by (auto simp: is_digit_def is_zone_sign_def code_def)

lemma zone_free_fixed: "c \<in> set (fixed w n) \<Longrightarrow> \<not> is_zone_sign c"
  using fixed_digits [of w n] by (auto simp: list_all_iff digit_not_zone)

lemma takeWhile_zone: "(\<forall>c \<in> set t. \<not> is_zone_sign c) \<Longrightarrow>
  takeWhile (\<lambda>c. \<not> is_zone_sign c) (t @ CHR ''+'' # z) = t"
  by (simp add: takeWhile_append2 is_zone_sign_def)

lemma parse_offset_zero: "parse_offset (CHR ''+'') ''00:00'' = Some 0"
  by code_simp

lemma parse_time_text:
  assumes "h < 100" "m < 100" "s < 100" "f < 1000000"
    and "r = (if b \<or> f \<noteq> 0 then CHR ''.'' # fixed 6 f else [])"
  shows "parse_time (fixed 2 h @ '':'' @ fixed 2 m @ '':'' @ fixed 2 s @ r @ ''+00:00'')
    = Some ((h, m, s, f), Some 0)"
proof -
  let ?t = "fixed 2 h @ '':'' @ fixed 2 m @ '':'' @ fixed 2 s @ r"
  have zf: "\<forall>c \<in> set ?t. \<not> is_zone_sign c"
    using assms(5) zone_free_fixed by (auto simp: is_zone_sign_def simp del: fixed.simps split: if_splits)
  have "parse_fraction [] = Some 0" by (simp add: parse_fraction_def)
  then have "parse_fraction r = Some f"
    using assms(4,5) parse_fraction_fixed by (auto simp del: fixed.simps)
  then have "parse_clock ?t = Some (h, m, s, f)"
    using parse_clock_text [of h m s r] assms by auto
  moreover have "takeWhile (\<lambda>c. \<not> is_zone_sign c) (?t @ ''+00:00'') = ?t"
    using takeWhile_zone [OF zf] by simp
  ultimately have "parse_time (?t @ ''+00:00'') = Some ((h, m, s, f), Some 0)"
    unfolding parse_time_def Let_def by (simp add: parse_offset_zero del: fixed.simps append_assoc)
  then show ?thesis by (simp del: fixed.simps)
qed

text \<open>\<open>datetime.fromisoformat(d.isoformat()) == d\<close> for a UTC datetime.\<close>

lemma fromisoformat_utc_text:
  assumes "valid_dt d" and "dt_off d = Some 0"
  shows "fromisoformat (utc_text b d) = Some d"
proof -
  have v: "dt_year d < 10000" "dt_month d < 100" "dt_day d < 100" "dt_hour d < 24" "dt_minute d < 60" "dt_second d < 60" "dt_micro d < 1000000"
    using assms(1) month_days_bounds(2) [of "dt_year d" "dt_month d"] by (auto simp: valid_dt_def valid_date_def)
  let ?D = "date_text (dt_year d) (dt_month d) (dt_day d)"
  let ?r = "if b \<or> dt_micro d \<noteq> 0 then CHR ''.'' # fixed 6 (dt_micro d) else []"
  let ?T = "fixed 2 (dt_hour d) @ '':'' @ fixed 2 (dt_minute d) @ '':'' @ fixed 2 (dt_second d) @ ?r @ ''+00:00''"
  have t: "utc_text b d = ?D @ CHR ''T'' # ?T" by (simp add: utc_text_def del: fixed.simps)
  have l: "length ?D = 10" "?D ! 4 = CHR ''-''"
    by (simp_all add: date_text_def nth_append del: fixed.simps)
  have "parse_time ?T = Some ((dt_hour d, dt_minute d, dt_second d, dt_micro d), Some 0)"
    using v by (intro parse_time_text) auto
  moreover have "parse_date ?D = Some (dt_year d, dt_month d, dt_day d)" using v by (intro parse_date_text)
  moreover have "?T \<noteq> []" by simp
  have eta: "\<lparr>dt_year = dt_year d, dt_month = dt_month d, dt_day = dt_day d, dt_hour = dt_hour d, dt_minute = dt_minute d, dt_second = dt_second d, dt_micro = dt_micro d,
      dt_off = Some 0\<rparr> = d"
    using assms(2) by (cases d) simp
  moreover have "check_dt \<lparr>dt_year = dt_year d, dt_month = dt_month d, dt_day = dt_day d, dt_hour = dt_hour d, dt_minute = dt_minute d, dt_second = dt_second d, dt_micro = dt_micro d,
      dt_off = Some 0\<rparr> = Some d"
    unfolding eta check_dt_def using assms(1) by simp
  ultimately show ?thesis
    using l v(4) assms unfolding fromisoformat_def t Let_def
    by (simp add: nth_append del: fixed.simps)
qed

section \<open>Canonical UTC text\<close>

text \<open>
  The normal form of a timestamp that every module keeps: parse after \<open>Z\<close> has become
  \<open>+00:00\<close>, insist on an offset, move to UTC, print.  The modules differ in the exception
  they raise and in \<open>force\<close> (whether a zero fraction is printed).
\<close>

datatype time_error = MalformedIso | MissingOffset | CalendarOverflow

definition canonical_text :: "bool \<Rightarrow> string \<Rightarrow> (time_error, string) res" where
  "canonical_text force s =
     (case fromisoformat (replace_char (CHR ''Z'') ''+00:00'' s) of
        None \<Rightarrow> Inl MalformedIso
      | Some d \<Rightarrow>
          if dt_off d = None then Inl MissingOffset
          else (case astimezone_utc d of None \<Rightarrow> Inl CalendarOverflow
                | Some e \<Rightarrow> Inr (utc_text force e)))"

text \<open>The instant a timestamp denotes (\<open>_parse_utc\<close> followed by a comparison).\<close>

definition text_instant :: "string \<Rightarrow> (time_error, int) res" where
  "text_instant s =
     (case fromisoformat (replace_char (CHR ''Z'') ''+00:00'' s) of
        None \<Rightarrow> Inl MalformedIso
      | Some d \<Rightarrow>
          if dt_off d = None then Inl MissingOffset
          else (case astimezone_utc d of None \<Rightarrow> Inl CalendarOverflow | Some e \<Rightarrow> Inr (instant e)))"

lemma replace_char_absent: "c \<notin> set s \<Longrightarrow> replace_char c t s = s"
  by (induction s) (auto simp: replace_char_def)

lemma fixed_no_Z: "CHR ''Z'' \<notin> set (fixed w n)"
  using zone_free_fixed [of "CHR ''Z''" w n] by (auto simp: is_zone_sign_def)

lemma utc_text_no_Z: "CHR ''Z'' \<notin> set (utc_text b d)"
  using fixed_no_Z by (auto simp: utc_text_def date_text_def simp del: fixed.simps)

lemma canonical_text_Inr:
  assumes "canonical_text b s = Inr t"
  obtains e where "valid_dt e" "dt_off e = Some 0" "t = utc_text b e" "text_instant s = Inr (instant e)"
proof -
  from assms obtain d e where d: "fromisoformat (replace_char (CHR ''Z'') ''+00:00'' s) = Some d"
    "dt_off d \<noteq> None" "astimezone_utc d = Some e" "t = utc_text b e"
    by (auto simp: canonical_text_def split: option.splits if_splits)
  moreover have "valid_dt d" using d(1) by (rule fromisoformat_valid)
  ultimately show ?thesis
    using that [of e] astimezone_utc_props [of d e] by (auto simp: text_instant_def)
qed

lemma canonical_text_utc_text:
  "valid_dt e \<Longrightarrow> dt_off e = Some 0 \<Longrightarrow> canonical_text b (utc_text c e) = Inr (utc_text b e)"
  by (simp add: canonical_text_def replace_char_absent utc_text_no_Z fromisoformat_utc_text
      astimezone_utc_def)

lemma text_instant_utc_text:
  "valid_dt e \<Longrightarrow> dt_off e = Some 0 \<Longrightarrow> text_instant (utc_text c e) = Inr (instant e)"
  by (simp add: text_instant_def replace_char_absent utc_text_no_Z fromisoformat_utc_text
      astimezone_utc_def)

text \<open>Canonical text is a fixed point, and denotes the instant of the text it came from.\<close>

lemma canonical_text_idem: "canonical_text b s = Inr t \<Longrightarrow> canonical_text b t = Inr t"
  by (elim canonical_text_Inr) (simp add: canonical_text_utc_text)

lemma canonical_text_instant: "canonical_text b s = Inr t \<Longrightarrow> text_instant t = text_instant s"
  by (elim canonical_text_Inr) (simp add: text_instant_utc_text)

lemma canonical_text_inj:
  assumes "canonical_text b s = Inr u" "canonical_text b t = Inr v" "text_instant s = text_instant t"
  shows "u = v"
proof -
  obtain d where d: "valid_dt d" "dt_off d = Some 0" "u = utc_text b d" "text_instant s = Inr (instant d)"
    using assms(1) by (rule canonical_text_Inr)
  obtain e where e: "valid_dt e" "dt_off e = Some 0" "v = utc_text b e" "text_instant t = Inr (instant e)"
    using assms(2) by (rule canonical_text_Inr)
  have "local_us d = local_us e" using assms(3) d e by (simp add: instant_def)
  then have "d = e" using dt_of_us_local_us [OF d(1)] dt_of_us_local_us [OF e(1)] d(2) e(2) by simp
  then show ?thesis using d(3) e(3) by simp
qed

lemma digit_not_space: "is_digit c \<Longrightarrow> \<not> is_space c"
  by (auto simp: is_digit_def is_space_def)

lemma utc_text_trimmed: "trimmed (utc_text b d)"
proof -
  have "fixed 4 (dt_year d) \<noteq> []" by (metis fixed_length list.size(3) zero_neq_numeral)
  then have "is_digit (hd (fixed 4 (dt_year d)))"
    using fixed_digits [of 4 "dt_year d"] by (auto simp: list_all_iff)
  then have "\<not> is_space (hd (utc_text b d))"
    using \<open>fixed 4 (dt_year d) \<noteq> []\<close> digit_not_space
    by (simp add: utc_text_def date_text_def del: fixed.simps)
  moreover have "last (utc_text b d) = CHR ''0''"
    by (simp add: utc_text_def del: fixed.simps)
  moreover have "\<not> is_space (CHR ''0'')" by (simp add: is_space_def code_def)
  moreover have "utc_text b d \<noteq> []" by (simp add: utc_text_def)
  ultimately show ?thesis by (simp add: trimmed_def)
qed

lemma canonical_text_trimmed: "canonical_text b s = Inr t \<Longrightarrow> trimmed t"
  by (elim canonical_text_Inr) (simp add: utc_text_trimmed)

end
