(* ===== verification/Py_Value.thy ===== *)
theory Py_Value
  imports Py_Time
begin

text \<open>
  Dynamic Python values as the program meets them at its borders (arguments it validates
  with \<open>isinstance\<close>, decoded JSON), the canonical JSON text every record is digested in,
  and the two hash functions (\<open>hashlib.sha256\<close>, \<open>uuid.uuid5\<close>) as a parameter.
  A \<open>float\<close> is kept as its \<open>str\<close>, which is all the sources read of one; a member of a
  \<open>StrEnum\<close> is a \<open>str\<close> and is kept as its value; tuples and lists are both \<open>PList\<close>; a
  dict is an association list in insertion order with distinct keys.
\<close>

datatype pyval =
    PNone
  | PBool bool
  | PInt int
  | PFloat string
  | PFrac rat
  | PStr string
  | PList "pyval list"
  | PDict "(string \<times> pyval) list"

section \<open>Truth, lookup and fractions\<close>

fun truthy :: "pyval \<Rightarrow> bool" where
  "truthy PNone = False"
| "truthy (PBool b) = b"
| "truthy (PInt i) = (i \<noteq> 0)"
| "truthy (PFloat s) = (s \<notin> {''0.0'', ''-0.0''})"
| "truthy (PFrac r) = (r \<noteq> 0)"
| "truthy (PStr s) = (s \<noteq> [])"
| "truthy (PList xs) = (xs \<noteq> [])"
| "truthy (PDict kvs) = (kvs \<noteq> [])"

type_synonym pydict = "(string \<times> pyval) list"

definition get_or :: "pydict \<Rightarrow> string \<Rightarrow> pyval \<Rightarrow> pyval" where
  "get_or m k d = (case map_of m k of None \<Rightarrow> d | Some v \<Rightarrow> v)"

abbreviation dict_get :: "pydict \<Rightarrow> string \<Rightarrow> pyval" where
  "dict_get m k \<equiv> get_or m k PNone"

definition opt_str :: "string option \<Rightarrow> pyval" where
  "opt_str x = (case x of None \<Rightarrow> PNone | Some s \<Rightarrow> PStr s)"

definition opt_int :: "int option \<Rightarrow> pyval" where
  "opt_int x = (case x of None \<Rightarrow> PNone | Some i \<Rightarrow> PInt i)"

definition str_list :: "string list \<Rightarrow> pyval" where
  "str_list xs = PList (map PStr xs)"

lemma opt_simps [simp]:
  "opt_str None = PNone" "opt_str (Some s) = PStr s"
  "opt_int None = PNone" "opt_int (Some i) = PInt i"
  by (simp_all add: opt_str_def opt_int_def)

text \<open>The numerator and denominator of a \<open>Fraction\<close>, in lowest terms.\<close>

definition numer :: "rat \<Rightarrow> int" where "numer r = fst (quotient_of r)"
definition denom :: "rat \<Rightarrow> int" where "denom r = snd (quotient_of r)"

lemma denom_pos: "0 < denom r"
  unfolding denom_def using quotient_of_denom_pos [of r] by (cases "quotient_of r") auto

lemma numer_denom: "r = of_int (numer r) / of_int (denom r)"
  unfolding numer_def denom_def using quotient_of_div [of r] by (cases "quotient_of r") auto

lemma denom_1_numer: "denom r = 1 \<Longrightarrow> r = of_int (numer r)"
  using numer_denom [of r] by simp

lemma denom_of_int [simp]: "denom (of_int i) = 1" "numer (of_int i) = i"
  by (simp_all add: denom_def numer_def quotient_of_int)

lemma denom_1_iff: "denom r = 1 \<longleftrightarrow> (\<exists>i. r = of_int i)"
  using denom_1_numer denom_of_int by metis

text \<open>\<open>Fraction(s)\<close> for a string (or the \<open>str\<close> of a float).\<close>

definition dig_us :: "char \<Rightarrow> bool" where
  "dig_us c \<longleftrightarrow> is_digit c \<or> c = CHR ''_''"

fun single_us :: "string \<Rightarrow> bool" where
  "single_us [] = True"
| "single_us [c] = is_digit c"
| "single_us (c # d # s) = ((is_digit c \<or> is_digit d) \<and> single_us (d # s))"

definition us_digits :: "string \<Rightarrow> bool" where
  "us_digits s \<longleftrightarrow> s \<noteq> [] \<and> list_all dig_us s \<and> is_digit (hd s) \<and> single_us s"

definition us_num :: "string \<Rightarrow> nat" where
  "us_num s = num_of (filter is_digit s)"

definition parse_exponent :: "string \<Rightarrow> int option" where
  "parse_exponent s =
     (if s = [] then Some 0
      else if hd s \<notin> {CHR ''e'', CHR ''E''} then None
      else let t = tl s;
               u = (if t \<noteq> [] \<and> hd t \<in> {CHR ''+'', CHR ''-''} then tl t else t)
           in if us_digits u
              then Some (if t \<noteq> [] \<and> hd t = CHR ''-'' then - int (us_num u) else int (us_num u))
              else None)"

definition parse_decimal :: "string \<Rightarrow> string \<Rightarrow> rat option" where
  "parse_decimal n r =
     (let d = (if r \<noteq> [] \<and> hd r = CHR ''.'' then takeWhile dig_us (tl r) else []);
          e = (if r \<noteq> [] \<and> hd r = CHR ''.'' then drop (length d) (tl r) else r)
      in if d \<noteq> [] \<and> \<not> us_digits d \<or> n = [] \<and> d = [] then None
         else map_option (\<lambda>x. of_nat (us_num (n @ d)) *
             (10::rat) powi (x - int (length (filter is_digit d)))) (parse_exponent e))"

definition parse_rational :: "string \<Rightarrow> rat option" where
  "parse_rational s =
     (let t = strip s;
          u = (if t \<noteq> [] \<and> hd t \<in> {CHR ''+'', CHR ''-''} then tl t else t);
          n = takeWhile dig_us u; r = drop (length n) u; q = lstrip r;
          v = (if n \<noteq> [] \<and> \<not> us_digits n then None
               else if n \<noteq> [] \<and> q \<noteq> [] \<and> hd q = CHR ''/'' then
                 (let d = lstrip (tl q)
                  in if us_digits d \<and> us_num d \<noteq> 0
                     then Some (of_nat (us_num n) / of_nat (us_num d)) else None)
               else parse_decimal n r)
      in if t \<noteq> [] \<and> hd t = CHR ''-'' then map_option uminus v else v)"

section \<open>Canonical JSON\<close>

text \<open>\<open>json.dumps(..., ensure_ascii=True, separators=(",", ":"), sort_keys=True)\<close>.\<close>

definition json_char :: "char \<Rightarrow> string" where
  "json_char c =
     (let n = code c in
      if n = 34 \<or> n = 92 then [CHR 0x5C, c]
      else if n = 10 then [CHR 0x5C, CHR ''n''] else if n = 13 then [CHR 0x5C, CHR ''r'']
      else if n = 9 then [CHR 0x5C, CHR ''t''] else if n = 12 then [CHR 0x5C, CHR ''f'']
      else if n = 8 then [CHR 0x5C, CHR ''b'']
      else if n < 32 \<or> 126 < n
        then [CHR 0x5C, CHR ''u'', CHR ''0'', CHR ''0'', hex_digit (n div 16), hex_digit (n mod 16)]
      else [c])"

definition json_string :: "string \<Rightarrow> string" where
  "json_string s = [CHR 0x22] @ concat (map json_char s) @ [CHR 0x22]"

definition fraction_text :: "rat \<Rightarrow> string" where
  "fraction_text r = int_text (numer r) @ ''/'' @ int_text (denom r)"

fun json_text :: "pyval \<Rightarrow> string" where
  "json_text PNone = ''null''"
| "json_text (PBool b) = (if b then ''true'' else ''false'')"
| "json_text (PInt i) = int_text i"
| "json_text (PFloat s) = s"
| "json_text (PFrac r) = json_string (fraction_text r)"
| "json_text (PStr s) = json_string s"
| "json_text (PList xs) = ''['' @ join '','' (map json_text xs) @ '']''"
| "json_text (PDict kvs) =
     ''{'' @ join '','' (map (\<lambda>(k, t). json_string k @ '':'' @ t)
       (sort_key fst (map (\<lambda>(k, v). (k, json_text v)) kvs))) @ ''}''"

section \<open>Digests\<close>

record hasher =
  sha256_hex :: "string \<Rightarrow> string"
  uuid5_url :: "string \<Rightarrow> string"

definition digest :: "hasher \<Rightarrow> pyval \<Rightarrow> string" where
  "digest H v = sha256_hex H (json_text v)"

definition stable_id :: "hasher \<Rightarrow> string \<Rightarrow> string \<Rightarrow> string" where
  "stable_id H kind key = uuid5_url H (''matchvet:'' @ kind @ '':'' @ key)"

text \<open>The hash functions that keep their argument: collision-free, and easy to evaluate.\<close>

definition plain_hasher :: hasher where
  "plain_hasher = \<lparr>sha256_hex = (\<lambda>s. s), uuid5_url = (\<lambda>s. s)\<rparr>"

end
