(* ===== verification/Settlement_Catalog.thy ===== *)
theory Settlement_Catalog
  imports Py_Value
begin

text \<open>
  The first part of \<open>t10.py\<close>: its enumerations, the validators and text helpers at the head
  of the module, and the catalogue of the 37 version 1 Betting Preferences with its lookups.
  Exceptions are values of \<open>t10_error\<close>; a validator returns \<open>Inl\<close> where the source raises.
\<close>

section \<open>Errors and enumerations\<close>

datatype t10_error =
    T10ValidationError string
  | T10IntegrityError string
  | PyValueError
  | PyOverflowError
  | PyAssertionError

datatype settlement_result = WIN | LOSS | PUSH | VOID

datatype grading_state = PENDING | FINAL

datatype match_phase = FULL_MATCH | FIRST_HALF | SECOND_HALF

datatype preference_family =
    MATCH_WINNER | DOUBLE_CHANCE | MATCH_GOALS_OVER | FIRST_HALF_OVER | SECOND_HALF_OVER
  | HOME_TEAM_GOALS_OVER | AWAY_TEAM_GOALS_OVER | CORNER_WINNER | TOTAL_CORNERS_OVER
  | HOME_CORNERS_OVER | AWAY_CORNERS_OVER | ASIAN_HANDICAP

datatype settlement_source = COMPETITION | FEDERATION | CLUB | FOOTBALL_DATA

datatype fact =
    full_time_home_goals | full_time_away_goals | half_time_home_goals | half_time_away_goals
  | corners_home | corners_away

fun result_text :: "settlement_result \<Rightarrow> string" where
  "result_text WIN = ''WIN''" | "result_text LOSS = ''LOSS''"
| "result_text PUSH = ''PUSH''" | "result_text VOID = ''VOID''"

fun state_text :: "grading_state \<Rightarrow> string" where
  "state_text PENDING = ''PENDING''" | "state_text FINAL = ''FINAL''"

fun phase_text :: "match_phase \<Rightarrow> string" where
  "phase_text FULL_MATCH = ''FULL_MATCH''" | "phase_text FIRST_HALF = ''FIRST_HALF''"
| "phase_text SECOND_HALF = ''SECOND_HALF''"

fun family_text :: "preference_family \<Rightarrow> string" where
  "family_text MATCH_WINNER = ''Match Winner''"
| "family_text DOUBLE_CHANCE = ''Double Chance''"
| "family_text MATCH_GOALS_OVER = ''Match Goals Over''"
| "family_text FIRST_HALF_OVER = ''First-Half Over''"
| "family_text SECOND_HALF_OVER = ''Second-Half Over''"
| "family_text HOME_TEAM_GOALS_OVER = ''Home Team Goals Over''"
| "family_text AWAY_TEAM_GOALS_OVER = ''Away Team Goals Over''"
| "family_text CORNER_WINNER = ''Corner Match Winner''"
| "family_text TOTAL_CORNERS_OVER = ''Full-Match Total Corners Over''"
| "family_text HOME_CORNERS_OVER = ''Home Team Corners Over''"
| "family_text AWAY_CORNERS_OVER = ''Away Team Corners Over''"
| "family_text ASIAN_HANDICAP = ''Asian Handicap''"

fun source_text :: "settlement_source \<Rightarrow> string" where
  "source_text COMPETITION = ''COMPETITION''" | "source_text FEDERATION = ''FEDERATION''"
| "source_text CLUB = ''CLUB''" | "source_text FOOTBALL_DATA = ''FOOTBALL_DATA''"

fun fact_text :: "fact \<Rightarrow> string" where
  "fact_text full_time_home_goals = ''full_time_home_goals''"
| "fact_text full_time_away_goals = ''full_time_away_goals''"
| "fact_text half_time_home_goals = ''half_time_home_goals''"
| "fact_text half_time_away_goals = ''half_time_away_goals''"
| "fact_text corners_home = ''corners_home''"
| "fact_text corners_away = ''corners_away''"

definition source_hierarchy :: "settlement_source list" where
  "source_hierarchy = [COMPETITION, FEDERATION, CLUB, FOOTBALL_DATA]"

text \<open>\<open>SOURCE_AUTHORITY_RANK\<close>: the index in the hierarchy; 0 is the highest authority.\<close>

fun authority_rank :: "settlement_source \<Rightarrow> nat" where
  "authority_rank COMPETITION = 0" | "authority_rank FEDERATION = 1"
| "authority_rank CLUB = 2" | "authority_rank FOOTBALL_DATA = 3"

lemma authority_rank_index: "source_hierarchy ! authority_rank s = s"
  by (cases s) (simp_all add: source_hierarchy_def)

lemma authority_rank_inj: "authority_rank s = authority_rank t \<longleftrightarrow> s = t"
  by (cases s; cases t) simp_all

instantiation settlement_source :: linorder
begin

definition less_eq_settlement_source :: "settlement_source \<Rightarrow> settlement_source \<Rightarrow> bool" where
  "s \<le> t \<longleftrightarrow> authority_rank s \<le> authority_rank t"

definition less_settlement_source :: "settlement_source \<Rightarrow> settlement_source \<Rightarrow> bool" where
  "s < t \<longleftrightarrow> authority_rank s < authority_rank t"

instance
  by standard (auto simp: less_eq_settlement_source_def less_settlement_source_def authority_rank_inj)

end

definition full_goal_facts :: "fact list" where
  "full_goal_facts = [full_time_home_goals, full_time_away_goals]"

definition half_goal_facts :: "fact list" where
  "half_goal_facts =
     [full_time_home_goals, full_time_away_goals, half_time_home_goals, half_time_away_goals]"

definition corner_facts :: "fact list" where
  "corner_facts = [corners_home, corners_away]"

section \<open>Validators and text helpers\<close>

text \<open>\<open>_text\<close>\<close>

definition t10_text :: "pyval \<Rightarrow> string \<Rightarrow> (t10_error, string) res" where
  "t10_text value label =
     (case value of
        PStr s \<Rightarrow>
          if strip s = [] then Inl (T10ValidationError (label @ '' must be a non-empty string.''))
          else Inr (strip s)
      | _ \<Rightarrow> Inl (T10ValidationError (label @ '' must be a non-empty string.'')))"

text \<open>\<open>_canonical_utc\<close>, \<open>_optional_utc\<close>\<close>

definition t10_canonical_utc :: "string \<Rightarrow> (t10_error, string) res" where
  "t10_canonical_utc value =
     (case canonical_text False value of
        Inl MalformedIso \<Rightarrow>
          Inl (T10ValidationError ''T10 timestamps must be ISO-8601 values with a UTC offset.'')
      | Inl MissingOffset \<Rightarrow>
          Inl (T10ValidationError ''T10 timestamps must include a UTC offset.'')
      | Inl CalendarOverflow \<Rightarrow> Inl PyOverflowError
      | Inr t \<Rightarrow> Inr t)"

definition t10_optional_utc :: "string option \<Rightarrow> (t10_error, string option) res" where
  "t10_optional_utc value =
     (case value of
        None \<Rightarrow> Inr None
      | Some s \<Rightarrow> bindR (t10_canonical_utc s) (\<lambda>t. Inr (Some t)))"

text \<open>\<open>_strings\<close>\<close>

definition t10_strings :: "pyval \<Rightarrow> (t10_error, string list) res" where
  "t10_strings value =
     (case value of
        PNone \<Rightarrow> Inr []
      | PList xs \<Rightarrow>
          if \<exists>x \<in> set xs. (case x of PStr s \<Rightarrow> strip s = [] | _ \<Rightarrow> True)
          then Inl (T10ValidationError ''T10 identifier lists must contain non-empty strings.'')
          else Inr (sorted_set (concat (map (\<lambda>x. case x of PStr s \<Rightarrow> [s] | _ \<Rightarrow> []) xs)))
      | _ \<Rightarrow> Inl (T10ValidationError
               ''T10 identifier lists must be arrays of non-empty strings.''))"

text \<open>\<open>_int_value\<close>, \<open>_boolean\<close>, \<open>_optional_text\<close>\<close>

definition t10_int_value :: "pyval \<Rightarrow> int \<Rightarrow> int" where
  "t10_int_value value dflt = (case value of PInt i \<Rightarrow> i | _ \<Rightarrow> dflt)"

definition t10_boolean :: "pyval \<Rightarrow> string \<Rightarrow> bool \<Rightarrow> (t10_error, bool) res" where
  "t10_boolean value label dflt =
     (case value of
        PNone \<Rightarrow> Inr dflt
      | PBool b \<Rightarrow> Inr b
      | _ \<Rightarrow> Inl (T10ValidationError (label @ '' must be boolean.'')))"

definition t10_optional_text :: "pyval \<Rightarrow> string \<Rightarrow> (t10_error, string option) res" where
  "t10_optional_text value label =
     (if value = PNone then Inr None else bindR (t10_text value label) (\<lambda>s. Inr (Some s)))"

text \<open>\<open>_token\<close>\<close>

definition t10_token :: "pyval \<Rightarrow> (t10_error, string) res" where
  "t10_token value =
     bindR (t10_text value ''T10 value'') (\<lambda>s.
       Inr (upper (join '' '' (split
         (replace_char (CHR ''-'') '' '' (replace_char (CHR ''_'') '' '' s))))))"

text \<open>\<open>_fraction\<close>; the conversion of a float is outside the \<open>try\<close>.\<close>

definition t10_fraction :: "pyval \<Rightarrow> string \<Rightarrow> (t10_error, rat) res" where
  "t10_fraction value label =
     (let bad = T10ValidationError (label @ '' must be an exact rational number.'') in
      case value of
        PFrac r \<Rightarrow> Inr r
      | PInt i \<Rightarrow> Inr (of_int i)
      | PFloat s \<Rightarrow> (case parse_rational s of None \<Rightarrow> Inl PyValueError | Some r \<Rightarrow> Inr r)
      | PStr s \<Rightarrow> (case parse_rational (strip s) of None \<Rightarrow> Inl bad | Some r \<Rightarrow> Inr r)
      | _ \<Rightarrow> Inl bad)"

text \<open>\<open>_line_text\<close>, \<open>_asian_line_text\<close>, \<open>_line_key\<close>\<close>

definition line_text :: "rat \<Rightarrow> string" where
  "line_text value =
     (if denom value = 1 then int_text (numer value)
      else let whole = \<bar>numer value\<bar> div denom value; remainder = \<bar>numer value\<bar> mod denom value
           in (if numer value < 0 then ''-'' else []) @ int_text whole @ ''.'' @
              int_text (remainder * 10 div denom value))"

definition asian_line_text :: "rat \<Rightarrow> string" where
  "asian_line_text value =
     (let text = (if denom value = 1 then line_text value @ ''.0'' else line_text value)
      in if 0 < value then ''+'' @ text else text)"

definition line_key :: "rat \<Rightarrow> string" where
  "line_key value =
     replace_char (CHR ''.'') ''_'' (replace_char (CHR ''-'') ''minus_'' (line_text value))"

text \<open>\<open>_source\<close>, \<open>_family\<close>, \<open>_selection\<close>: normalise, then look the alias up.\<close>

definition source_aliases :: "(string \<times> settlement_source) list" where
  "source_aliases =
     [(''COMPETITION'', COMPETITION), (''LEAGUE'', COMPETITION),
      (''OFFICIAL COMPETITION'', COMPETITION), (''OFFICIAL LEAGUE'', COMPETITION),
      (''COMPETITION OR LEAGUE'', COMPETITION),
      (''OFFICIAL COMPETITION OR LEAGUE'', COMPETITION),
      (''FEDERATION'', FEDERATION), (''OFFICIAL FEDERATION'', FEDERATION),
      (''CLUB'', CLUB), (''OFFICIAL CLUB'', CLUB),
      (''FOOTBALL DATA'', FOOTBALL_DATA), (''FOOTBALL DATA CO UK'', FOOTBALL_DATA),
      (''FOOTBALL DATA CO.UK'', FOOTBALL_DATA), (''FOOTBALL-DATA'', FOOTBALL_DATA),
      (''FOOTBALL-DATA.CO.UK'', FOOTBALL_DATA)]"

definition t10_source :: "pyval \<Rightarrow> (t10_error, settlement_source) res" where
  "t10_source value =
     bindR (t10_token value) (\<lambda>normalized.
       case map_of source_aliases normalized of
         None \<Rightarrow> Inl (T10ValidationError
           ''Settlement sources must follow competition/league, federation, club, Football-Data.co.uk hierarchy.'')
       | Some s \<Rightarrow> Inr s)"

definition family_aliases :: "(string \<times> preference_family) list" where
  "family_aliases =
     [(''MATCH WINNER'', MATCH_WINNER), (''DOUBLE CHANCE'', DOUBLE_CHANCE),
      (''MATCH GOALS OVER'', MATCH_GOALS_OVER), (''MATCH GOALS'', MATCH_GOALS_OVER),
      (''FIRST HALF OVER'', FIRST_HALF_OVER), (''FIRST HALF GOALS OVER'', FIRST_HALF_OVER),
      (''SECOND HALF OVER'', SECOND_HALF_OVER), (''SECOND HALF GOALS OVER'', SECOND_HALF_OVER),
      (''HOME TEAM GOALS OVER'', HOME_TEAM_GOALS_OVER),
      (''AWAY TEAM GOALS OVER'', AWAY_TEAM_GOALS_OVER),
      (''CORNER MATCH WINNER'', CORNER_WINNER), (''CORNER WINNER'', CORNER_WINNER),
      (''FULL MATCH TOTAL CORNERS OVER'', TOTAL_CORNERS_OVER),
      (''TOTAL CORNERS OVER'', TOTAL_CORNERS_OVER),
      (''HOME TEAM CORNERS OVER'', HOME_CORNERS_OVER), (''HOME CORNERS OVER'', HOME_CORNERS_OVER),
      (''AWAY TEAM CORNERS OVER'', AWAY_CORNERS_OVER), (''AWAY CORNERS OVER'', AWAY_CORNERS_OVER),
      (''ASIAN HANDICAP'', ASIAN_HANDICAP)]"

definition py_repr :: "pyval \<Rightarrow> string" where
  "py_repr v = (case v of PStr s \<Rightarrow> repr_text s | _ \<Rightarrow> json_text v)"

definition t10_family :: "pyval \<Rightarrow> (t10_error, preference_family) res" where
  "t10_family value =
     bindR (t10_token value) (\<lambda>normalized.
       case map_of family_aliases normalized of
         None \<Rightarrow> Inl (T10ValidationError
           (''Unsupported Betting Preference family: '' @ py_repr value @ ''.''))
       | Some f \<Rightarrow> Inr f)"

definition selection_aliases :: "(string \<times> string) list" where
  "selection_aliases =
     [(''HOME'', ''Home''), (''DRAW'', ''Draw''), (''AWAY'', ''Away''), (''OVER'', ''Over''),
      (''1X'', ''1X''), (''X2'', ''X2''), (''12'', ''12'')]"

definition t10_selection :: "pyval \<Rightarrow> (t10_error, string) res" where
  "t10_selection value =
     bindR (t10_token value) (\<lambda>normalized.
       case map_of selection_aliases normalized of
         None \<Rightarrow> Inl (T10ValidationError
           (''Unsupported Betting Preference selection: '' @ py_repr value @ ''.''))
       | Some s \<Rightarrow> Inr s)"

lemma t10_text_Inr: "t10_text v l = Inr s \<Longrightarrow> trimmed s"
  by (auto simp: t10_text_def trimmed_strip split: pyval.splits if_splits)

lemma t10_text_trimmed [simp]: "trimmed s \<Longrightarrow> t10_text (PStr s) l = Inr s"
  by (auto simp: t10_text_def strip_trimmed trimmed_def)

lemma t10_optional_utc_idem: "t10_optional_utc v = Inr w \<Longrightarrow> t10_optional_utc w = Inr w"
  by (auto simp: t10_optional_utc_def t10_canonical_utc_def dest: canonical_text_idem
      split: option.splits sum.splits time_error.splits)

lemma t10_strings_sorted: "t10_strings v = Inr ss \<Longrightarrow> sorted ss \<and> distinct ss \<and> (\<forall>s \<in> set ss. strip s \<noteq> [])"
  by (fastforce simp: t10_strings_def split: pyval.splits if_splits)

lemma t10_strings_str_list:
  "sorted ss \<Longrightarrow> distinct ss \<Longrightarrow> \<forall>s \<in> set ss. strip s \<noteq> [] \<Longrightarrow> t10_strings (str_list ss) = Inr ss"
  by (auto simp: t10_strings_def str_list_def comp_def sorted_set_id)

text \<open>
  A member of an enumeration and its value are the same argument to the normalisers (the
  \<open>isinstance\<close> shortcut of the source and its alias table agree).
\<close>

lemma t10_source_member [simp]: "t10_source (PStr (source_text s)) = Inr s"
  by (cases s; hypsubst; code_simp)

lemma t10_family_member: "t10_family (PStr (family_text f)) = Inr f"
  by (cases f; hypsubst; code_simp)

section \<open>Betting Preferences\<close>

definition source_hierarchy_version :: string where "source_hierarchy_version = ''1.0.0''"

record betting_preference =
  preference_id :: string
  family :: preference_family
  selection :: string
  line :: "rat option"
  phase :: match_phase
  required_facts :: "fact list"
  possible_results :: "settlement_result list"
  settlement_rule :: string
  label :: string
  void_treatment :: string
  hierarchy_version :: string

text \<open>The arguments of \<open>BettingPreference(...)\<close>, before \<open>__post_init__\<close> checks them.\<close>

record preference_args =
  a_preference_id :: pyval
  a_family :: pyval
  a_selection :: pyval
  a_line :: pyval
  a_phase :: string
  a_required_facts :: "fact list"
  a_possible_results :: "string list"
  a_settlement_rule :: pyval
  a_label :: pyval
  a_void_treatment :: pyval
  a_hierarchy_version :: pyval

definition phase_of_text :: "string \<Rightarrow> match_phase option" where
  "phase_of_text s = find (\<lambda>p. phase_text p = s) [FULL_MATCH, FIRST_HALF, SECOND_HALF]"

definition result_of_text :: "string \<Rightarrow> settlement_result option" where
  "result_of_text s = find (\<lambda>r. result_text r = s) [WIN, LOSS, PUSH, VOID]"

definition preference_init :: "preference_args \<Rightarrow> (t10_error, betting_preference) res" where
  "preference_init a =
     bindR (t10_text (a_preference_id a) ''Preference ID'') (\<lambda>_.
     bindR (t10_family (a_family a)) (\<lambda>fam.
     bindR (case phase_of_text (a_phase a) of None \<Rightarrow> Inl PyValueError | Some p \<Rightarrow> Inr p) (\<lambda>ph.
     bindR (case a_line a of PNone \<Rightarrow> Inr None | PFrac r \<Rightarrow> Inr (Some r)
            | _ \<Rightarrow> Inl (T10ValidationError ''Catalog lines must use exact Fraction values.'')) (\<lambda>lin.
     bindR (guardR (a_required_facts a \<noteq> [])
       (T10ValidationError ''A Betting Preference must declare required facts.'')) (\<lambda>_.
     bindR (mapR (\<lambda>t. case result_of_text t of
               None \<Rightarrow> Inl (T10ValidationError
                 ''HALF_WIN and HALF_LOSS and all other outcomes outside WIN, LOSS, or PUSH are invalid in v1.'')
             | Some r \<Rightarrow> Inr r) (a_possible_results a)) (\<lambda>results.
     bindR (guardR (VOID \<notin> set results)
       (T10ValidationError ''VOID is a grading result, not a completed preference outcome.'')) (\<lambda>_.
     bindR (t10_selection (a_selection a)) (\<lambda>sel.
     bindR (t10_text (a_settlement_rule a) ''Preference settlement rule'') (\<lambda>_.
     bindR (t10_text (a_label a) ''Preference label'') (\<lambda>_.
     bindR (t10_text (a_void_treatment a) ''Preference VOID treatment'') (\<lambda>_.
     bindR (t10_text (a_hierarchy_version a) ''Preference source hierarchy version'') (\<lambda>hv.
     bindR (guardR (hv = source_hierarchy_version)
       (T10ValidationError
         ''v1 Betting Preferences require the v1 source hierarchy version.'')) (\<lambda>_.
     let str = (\<lambda>v. case v of PStr s \<Rightarrow> s | _ \<Rightarrow> []) in
     Inr \<lparr>preference_id = str (a_preference_id a), family = fam, selection = sel, line = lin,
          phase = ph, required_facts = a_required_facts a, possible_results = results,
          settlement_rule = str (a_settlement_rule a), label = str (a_label a),
          void_treatment = str (a_void_treatment a), hierarchy_version = hv\<rparr>)))))))))))))"

definition preference_to_dict :: "betting_preference \<Rightarrow> pydict" where
  "preference_to_dict p =
     [(''family'', PStr (family_text (family p))),
      (''label'', PStr (label p)),
      (''line'', case line p of None \<Rightarrow> PNone
         | Some r \<Rightarrow> PStr (if family p = ASIAN_HANDICAP then asian_line_text r else line_text r)),
      (''phase'', PStr (phase_text (phase p))),
      (''preference_id'', PStr (preference_id p)),
      (''possible_results'', str_list (map result_text (possible_results p))),
      (''required_facts'', str_list (map fact_text (required_facts p))),
      (''selection'', PStr (selection p)),
      (''settlement_rule'', PStr (settlement_rule p)),
      (''source_hierarchy_version'', PStr (hierarchy_version p)),
      (''void_treatment'', PStr (void_treatment p))]"

section \<open>The catalogue\<close>

record preference_catalog =
  preferences :: "betting_preference list"
  catalog_version :: string
  catalog_name :: string
  catalog_digest :: string

definition preference_catalog_name :: string where
  "preference_catalog_name = ''matchvet-initial-preference-set''"

definition preference_catalog_version :: string where
  "preference_catalog_version = ''1.0.0''"

definition catalog_payload :: "betting_preference list \<Rightarrow> string \<Rightarrow> string \<Rightarrow> pyval" where
  "catalog_payload ps version name =
     PDict [(''name'', PStr name), (''preferences'', PList (map (PDict \<circ> preference_to_dict) ps)),
            (''version'', PStr version)]"

definition catalog_init ::
  "hasher \<Rightarrow> betting_preference list \<Rightarrow> string \<Rightarrow> string \<Rightarrow> string \<Rightarrow>
   (t10_error, preference_catalog) res" where
  "catalog_init H ps version name given =
     bindR (guardR (distinct (map preference_id ps))
       (T10ValidationError ''Preference IDs must be unique.'')) (\<lambda>_.
     let expected = digest H (catalog_payload ps version name) in
     bindR (guardR (given = [] \<or> given = expected)
       (T10IntegrityError ''Preference catalog digest does not match its contracts.'')) (\<lambda>_.
     Inr \<lparr>preferences = ps, catalog_version = version, catalog_name = name,
          catalog_digest = expected\<rparr>))"

definition catalog_get :: "preference_catalog \<Rightarrow> string \<Rightarrow> (t10_error, betting_preference) res" where
  "catalog_get c pid =
     (case find (\<lambda>item. preference_id item = pid \<or> label item = pid) (preferences c) of
        None \<Rightarrow> Inl (T10ValidationError
          (''Unsupported or prohibited Betting Preference: '' @ repr_text pid @ ''.''))
      | Some p \<Rightarrow> Inr p)"

definition catalog_resolve ::
  "preference_catalog \<Rightarrow> pyval \<Rightarrow> pyval \<Rightarrow> pyval \<Rightarrow> (t10_error, betting_preference) res" where
  "catalog_resolve c fam sel lin =
     bindR (t10_family fam) (\<lambda>f.
     bindR (t10_selection sel) (\<lambda>s.
     bindR (if lin = PNone then Inr None
            else bindR (t10_fraction lin ''Preference line'') (\<lambda>r. Inr (Some r))) (\<lambda>l.
     case find (\<lambda>item. family item = f \<and> selection item = s \<and> line item = l) (preferences c) of
       Some p \<Rightarrow> Inr p
     | None \<Rightarrow> Inl (T10ValidationError
         (''Unsupported or prohibited Betting Preference: '' @ family_text f @ '' '' @ s @
          (case l of None \<Rightarrow> [] | Some r \<Rightarrow> '' '' @ line_text r) @ ''.'')))))"

text \<open>\<open>_preference\<close>\<close>

definition make_preference ::
  "string \<Rightarrow> preference_family \<Rightarrow> string \<Rightarrow> rat option \<Rightarrow> match_phase \<Rightarrow> fact list \<Rightarrow> string \<Rightarrow>
   settlement_result list \<Rightarrow> (t10_error, betting_preference) res" where
  "make_preference pid fam sel lin ph facts rule results =
     preference_init
       \<lparr>a_preference_id = PStr pid, a_family = PStr (family_text fam), a_selection = PStr sel,
        a_line = (case lin of None \<Rightarrow> PNone | Some r \<Rightarrow> PFrac r), a_phase = phase_text ph,
        a_required_facts = facts, a_possible_results = map result_text results,
        a_settlement_rule = PStr rule,
        a_label = PStr (family_text fam @ '': '' @ sel @
          (case lin of None \<Rightarrow> []
           | Some r \<Rightarrow> '' '' @ (if fam = ASIAN_HANDICAP then asian_line_text r else line_text r))),
        a_void_treatment =
          PStr ''VOID for final void status or unresolved required evidence.'',
        a_hierarchy_version = PStr source_hierarchy_version\<rparr>"

text \<open>\<open>_build_catalog\<close>: the loops of the source, in its order.\<close>

definition win_loss :: "settlement_result list" where "win_loss = [WIN, LOSS]"

definition catalog_preferences :: "(t10_error, betting_preference list) res" where
  "catalog_preferences = mapR id
    (map (\<lambda>sel. make_preference (''match_winner_'' @ lower sel) MATCH_WINNER sel None FULL_MATCH
        full_goal_facts ''backed result wins the regulation scoreline'' win_loss)
      [''Home'', ''Draw'', ''Away'']
   @ map (\<lambda>sel. make_preference (''double_chance_'' @ lower sel) DOUBLE_CHANCE sel None FULL_MATCH
        full_goal_facts ''backed double-chance result contains the regulation scoreline'' win_loss)
      [''1X'', ''X2'', ''12'']
   @ map (\<lambda>lin. make_preference (''match_goals_over_'' @ line_key lin) MATCH_GOALS_OVER ''Over''
        (Some lin) FULL_MATCH full_goal_facts ''full-match goals exceed the exact half line'' win_loss)
      [3/2, 5/2, 7/2]
   @ [make_preference ''first_half_over_1_5'' FIRST_HALF_OVER ''Over'' (Some (3/2)) FIRST_HALF
        half_goal_facts ''first-half goals exceed 1.5 including first-half stoppage'' win_loss,
      make_preference ''second_half_over_1_5'' SECOND_HALF_OVER ''Over'' (Some (3/2)) SECOND_HALF
        half_goal_facts ''second-half goals exceed 1.5 including second-half stoppage'' win_loss]
   @ concat (map (\<lambda>(fam, prefix). map (\<lambda>lin. make_preference (prefix @ ''_over_'' @ line_key lin) fam
        ''Over'' (Some lin) FULL_MATCH full_goal_facts
        ''named team's full-match goals exceed the exact half line'' win_loss) [3/2, 5/2])
      [(HOME_TEAM_GOALS_OVER, ''home_team_goals''), (AWAY_TEAM_GOALS_OVER, ''away_team_goals'')])
   @ map (\<lambda>sel. make_preference (''corner_winner_'' @ lower sel) CORNER_WINNER sel None FULL_MATCH
        corner_facts ''backed corner count wins the regulation corner scoreline'' win_loss)
      [''Home'', ''Draw'', ''Away'']
   @ map (\<lambda>lin. make_preference (''total_corners_over_'' @ line_key lin) TOTAL_CORNERS_OVER ''Over''
        (Some lin) FULL_MATCH corner_facts
        ''combined observed corners exceed the exact half line'' win_loss)
      [17/2, 19/2, 21/2]
   @ concat (map (\<lambda>(fam, prefix). map (\<lambda>lin. make_preference (prefix @ ''_over_'' @ line_key lin) fam
        ''Over'' (Some lin) FULL_MATCH corner_facts
        ''named team's observed corners exceed the exact half line'' win_loss) [7/2, 9/2, 11/2])
      [(HOME_CORNERS_OVER, ''home_corners''), (AWAY_CORNERS_OVER, ''away_corners'')])
   @ concat (map (\<lambda>side. map (\<lambda>(lin, key).
        make_preference (''asian_handicap_'' @ lower side @ ''_'' @ key) ASIAN_HANDICAP side
        (Some lin) FULL_MATCH full_goal_facts
        ''2 times backed goal difference plus signed line compared with zero''
        (if denom lin = 1 then [WIN, PUSH, LOSS] else win_loss))
        [(0, ''0_0''), (1, ''plus_1_0''), (3/2, ''plus_1_5''), (-1, ''minus_1_0''),
         (-3/2, ''minus_1_5'')])
      [''Home'', ''Away'']))"

definition build_catalog :: "hasher \<Rightarrow> (t10_error, preference_catalog) res" where
  "build_catalog H =
     bindR catalog_preferences (\<lambda>ps.
       catalog_init H ps preference_catalog_version preference_catalog_name [])"

definition preference_set :: "betting_preference list" where
  "preference_set = (case catalog_preferences of Inl _ \<Rightarrow> [] | Inr ps \<Rightarrow> ps)"

definition default_catalog :: "hasher \<Rightarrow> preference_catalog" where
  "default_catalog H =
     \<lparr>preferences = preference_set, catalog_version = preference_catalog_version,
      catalog_name = preference_catalog_name,
      catalog_digest = digest H (catalog_payload preference_set preference_catalog_version
        preference_catalog_name)\<rparr>"

section \<open>The catalogue is the documented set\<close>

text \<open>The 37 preferences of the glossary's Initial Preference Set, written out.\<close>

definition initial_preference_set ::
  "(string \<times> preference_family \<times> string \<times> rat option \<times> match_phase) list" where
  "initial_preference_set =
     [(''match_winner_home'', MATCH_WINNER, ''Home'', None, FULL_MATCH),
      (''match_winner_draw'', MATCH_WINNER, ''Draw'', None, FULL_MATCH),
      (''match_winner_away'', MATCH_WINNER, ''Away'', None, FULL_MATCH),
      (''double_chance_1x'', DOUBLE_CHANCE, ''1X'', None, FULL_MATCH),
      (''double_chance_x2'', DOUBLE_CHANCE, ''X2'', None, FULL_MATCH),
      (''double_chance_12'', DOUBLE_CHANCE, ''12'', None, FULL_MATCH),
      (''match_goals_over_1_5'', MATCH_GOALS_OVER, ''Over'', Some (3/2), FULL_MATCH),
      (''match_goals_over_2_5'', MATCH_GOALS_OVER, ''Over'', Some (5/2), FULL_MATCH),
      (''match_goals_over_3_5'', MATCH_GOALS_OVER, ''Over'', Some (7/2), FULL_MATCH),
      (''first_half_over_1_5'', FIRST_HALF_OVER, ''Over'', Some (3/2), FIRST_HALF),
      (''second_half_over_1_5'', SECOND_HALF_OVER, ''Over'', Some (3/2), SECOND_HALF),
      (''home_team_goals_over_1_5'', HOME_TEAM_GOALS_OVER, ''Over'', Some (3/2), FULL_MATCH),
      (''home_team_goals_over_2_5'', HOME_TEAM_GOALS_OVER, ''Over'', Some (5/2), FULL_MATCH),
      (''away_team_goals_over_1_5'', AWAY_TEAM_GOALS_OVER, ''Over'', Some (3/2), FULL_MATCH),
      (''away_team_goals_over_2_5'', AWAY_TEAM_GOALS_OVER, ''Over'', Some (5/2), FULL_MATCH),
      (''corner_winner_home'', CORNER_WINNER, ''Home'', None, FULL_MATCH),
      (''corner_winner_draw'', CORNER_WINNER, ''Draw'', None, FULL_MATCH),
      (''corner_winner_away'', CORNER_WINNER, ''Away'', None, FULL_MATCH),
      (''total_corners_over_8_5'', TOTAL_CORNERS_OVER, ''Over'', Some (17/2), FULL_MATCH),
      (''total_corners_over_9_5'', TOTAL_CORNERS_OVER, ''Over'', Some (19/2), FULL_MATCH),
      (''total_corners_over_10_5'', TOTAL_CORNERS_OVER, ''Over'', Some (21/2), FULL_MATCH),
      (''home_corners_over_3_5'', HOME_CORNERS_OVER, ''Over'', Some (7/2), FULL_MATCH),
      (''home_corners_over_4_5'', HOME_CORNERS_OVER, ''Over'', Some (9/2), FULL_MATCH),
      (''home_corners_over_5_5'', HOME_CORNERS_OVER, ''Over'', Some (11/2), FULL_MATCH),
      (''away_corners_over_3_5'', AWAY_CORNERS_OVER, ''Over'', Some (7/2), FULL_MATCH),
      (''away_corners_over_4_5'', AWAY_CORNERS_OVER, ''Over'', Some (9/2), FULL_MATCH),
      (''away_corners_over_5_5'', AWAY_CORNERS_OVER, ''Over'', Some (11/2), FULL_MATCH),
      (''asian_handicap_home_0_0'', ASIAN_HANDICAP, ''Home'', Some (0), FULL_MATCH),
      (''asian_handicap_home_plus_1_0'', ASIAN_HANDICAP, ''Home'', Some (1), FULL_MATCH),
      (''asian_handicap_home_plus_1_5'', ASIAN_HANDICAP, ''Home'', Some (3/2), FULL_MATCH),
      (''asian_handicap_home_minus_1_0'', ASIAN_HANDICAP, ''Home'', Some (-1), FULL_MATCH),
      (''asian_handicap_home_minus_1_5'', ASIAN_HANDICAP, ''Home'', Some (-3/2), FULL_MATCH),
      (''asian_handicap_away_0_0'', ASIAN_HANDICAP, ''Away'', Some (0), FULL_MATCH),
      (''asian_handicap_away_plus_1_0'', ASIAN_HANDICAP, ''Away'', Some (1), FULL_MATCH),
      (''asian_handicap_away_plus_1_5'', ASIAN_HANDICAP, ''Away'', Some (3/2), FULL_MATCH),
      (''asian_handicap_away_minus_1_0'', ASIAN_HANDICAP, ''Away'', Some (-1), FULL_MATCH),
      (''asian_handicap_away_minus_1_5'', ASIAN_HANDICAP, ''Away'', Some (-3/2), FULL_MATCH)]"

definition preference_row ::
  "betting_preference \<Rightarrow> string \<times> preference_family \<times> string \<times> rat option \<times> match_phase" where
  "preference_row p = (preference_id p, family p, selection p, line p, phase p)"

definition line_value :: "betting_preference \<Rightarrow> pyval" where
  "line_value p = (case line p of None \<Rightarrow> PNone | Some r \<Rightarrow> PFrac r)"

lemma catalog_preferences_ok: "is_ok catalog_preferences"
  by code_simp

lemma catalog_preferences_set: "catalog_preferences = Inr preference_set"
  unfolding preference_set_def by (rule is_ok_Inr [OF catalog_preferences_ok])

lemma preference_set_rows: "map preference_row preference_set = initial_preference_set"
  by code_simp

lemma preference_set_length: "length preference_set = 37"
  by code_simp

lemma preference_ids_distinct: "distinct (map preference_id preference_set)"
  by code_simp

lemma preference_labels_distinct: "distinct (map label preference_set)"
  by code_simp

lemma preference_keys_distinct:
  "distinct (map (\<lambda>p. (family p, selection p, line p)) preference_set)"
  by code_simp

lemma preference_id_not_label:
  "list_all (\<lambda>p. CHR '':'' \<in> set (label p) \<and> CHR '':'' \<notin> set (preference_id p)) preference_set"
  by code_simp

lemma preference_selections:
  "list_all (\<lambda>p. t10_selection (PStr (selection p)) = Inr (selection p)) preference_set"
  by code_simp

lemma catalog_get_preference:
  assumes p: "p \<in> set preference_set"
  shows "catalog_get (default_catalog H) (preference_id p) = Inr p"
    and "catalog_get (default_catalog H) (label p) = Inr p"
proof -
  have no: "label q \<noteq> preference_id r" if "q \<in> set preference_set" "r \<in> set preference_set" for q r
    using preference_id_not_label that by (metis list_all_iff)
  have "find (\<lambda>q. preference_id q = preference_id p \<or> label q = preference_id p) preference_set = Some p"
    using no p by (intro find_unique [OF preference_ids_distinct]) auto
  moreover have
    "find (\<lambda>q. preference_id q = label p \<or> label q = label p) preference_set = Some p"
    using no p by (intro find_unique [OF preference_labels_distinct]) metis+
  ultimately show "catalog_get (default_catalog H) (preference_id p) = Inr p"
    "catalog_get (default_catalog H) (label p) = Inr p"
    by (simp_all add: catalog_get_def default_catalog_def)
qed

lemma catalog_resolve_preference:
  assumes p: "p \<in> set preference_set"
  shows "catalog_resolve (default_catalog H) (PStr (family_text (family p))) (PStr (selection p))
           (line_value p) = Inr p"
proof -
  have "t10_selection (PStr (selection p)) = Inr (selection p)"
    using preference_selections p by (simp add: list_all_iff)
  moreover have "find (\<lambda>q. family q = family p \<and> selection q = selection p \<and> line q = line p)
      preference_set = Some p"
    using p by (intro find_unique [OF preference_keys_distinct]) auto
  ultimately show ?thesis
    by (cases "line p")
      (simp_all add: catalog_resolve_def t10_family_member line_value_def t10_fraction_def
        default_catalog_def)
qed

text \<open>\<open>_build_catalog\<close> never raises: it builds exactly the 37 preferences the glossary lists
  as the Initial Preference Set, in their order, with distinct identifiers, under the catalogue
  digest, whatever the hash function.\<close>

lemma catalogue_exact:
  "build_catalog H = Inr (default_catalog H) \<and>
   map preference_row (preferences (default_catalog H)) = initial_preference_set \<and>
   length (preferences (default_catalog H)) = 37 \<and>
   distinct (map preference_id (preferences (default_catalog H)))"
  using preference_ids_distinct preference_set_rows preference_set_length
  by (simp add: build_catalog_def catalog_preferences_set catalog_init_def default_catalog_def Let_def)

text \<open>Every preference of the catalogue is found again by its identifier, by its label, and
  by the triple of its family, selection and line.\<close>

lemma catalogue_lookup_roundtrip:
  assumes "p \<in> set (preferences (default_catalog H))"
  shows "catalog_get (default_catalog H) (preference_id p) = Inr p \<and>
    catalog_get (default_catalog H) (label p) = Inr p \<and>
    catalog_resolve (default_catalog H) (PStr (family_text (family p))) (PStr (selection p))
      (line_value p) = Inr p"
  using assms catalog_get_preference catalog_resolve_preference
  by (simp_all add: default_catalog_def)

end
