(* ===== verification/Historical_Match.thy ===== *)
theory Historical_Match
  imports Settlement_Catalog
begin

text \<open>
  \<open>HistoricalMatch\<close> of \<open>t09.py\<close>: the structured facts of a played match that \<open>t10.py\<close> turns into
  settlement evidence, with its constructor, the state of a metric, the identifiers that support it
  and its dictionary form.
\<close>

section \<open>States and validators\<close>

datatype evidence_state = OBSERVED | ABSENT | UNKNOWN

fun evidence_state_text :: "evidence_state \<Rightarrow> string" where
  "evidence_state_text OBSERVED = ''OBSERVED''" | "evidence_state_text ABSENT = ''ABSENT''"
| "evidence_state_text UNKNOWN = ''UNKNOWN''"

datatype t09_error = T09ValidationError string | T09OverflowError

text \<open>\<open>_text\<close>\<close>

definition t09_text :: "pyval \<Rightarrow> string \<Rightarrow> (t09_error, string) res" where
  "t09_text value lab =
     (case value of
        PStr s \<Rightarrow>
          if strip s = [] then Inl (T09ValidationError (lab @ '' must be a non-empty string.''))
          else Inr (strip s)
      | _ \<Rightarrow> Inl (T09ValidationError (lab @ '' must be a non-empty string.'')))"

text \<open>\<open>_canonical_utc\<close>, \<open>_optional_utc\<close>: microseconds are always printed.\<close>

definition t09_canonical_utc :: "string \<Rightarrow> (t09_error, string) res" where
  "t09_canonical_utc value =
     (case canonical_text True value of
        Inl MalformedIso \<Rightarrow> Inl (T09ValidationError
          ''T09 timestamps must be ISO-8601 values with an explicit UTC offset.'')
      | Inl MissingOffset \<Rightarrow>
          Inl (T09ValidationError ''T09 timestamps must include a timezone offset.'')
      | Inl CalendarOverflow \<Rightarrow> Inl T09OverflowError
      | Inr t \<Rightarrow> Inr t)"

definition t09_optional_utc :: "string option \<Rightarrow> (t09_error, string option) res" where
  "t09_optional_utc value =
     (case value of
        None \<Rightarrow> Inr None
      | Some s \<Rightarrow> bindR (t09_canonical_utc s) (\<lambda>t. Inr (Some t)))"

text \<open>\<open>_state\<close>; a member of \<open>EvidenceState\<close> is a string and its own name.\<close>

definition t09_state :: "pyval \<Rightarrow> (t09_error, evidence_state) res" where
  "t09_state value =
     (let bad = Inl (T09ValidationError ''Evidence values must be OBSERVED, ABSENT, or UNKNOWN.'') in
      case value of
        PStr s \<Rightarrow>
          (case find (\<lambda>e. evidence_state_text e = upper (strip s)) [OBSERVED, ABSENT, UNKNOWN] of
             None \<Rightarrow> bad | Some e \<Rightarrow> Inr e)
      | _ \<Rightarrow> bad)"

section \<open>The record\<close>

text \<open>
  The type of the texts the constructor checks with \<open>isinstance\<close> and the type of the states are
  parameters: dynamic values in the constructor's arguments, strings and states in its result. The
  other fields have their annotated types.
\<close>

record ('t, 's) historical_match =
  hm_fixture_id :: 't
  hm_home_team_id :: 't
  hm_away_team_id :: 't
  hm_kickoff_utc :: string
  hm_full_time_home_goals :: "int option"
  hm_full_time_away_goals :: "int option"
  hm_half_time_home_goals :: "int option"
  hm_half_time_away_goals :: "int option"
  hm_corners_home :: "int option"
  hm_corners_away :: "int option"
  hm_shots_home :: "int option"
  hm_shots_away :: "int option"
  hm_shots_on_target_home :: "int option"
  hm_shots_on_target_away :: "int option"
  hm_yellow_cards_home :: "int option"
  hm_yellow_cards_away :: "int option"
  hm_red_cards_home :: "int option"
  hm_red_cards_away :: "int option"
  hm_metric_states :: "(string \<times> 's) list"
  hm_metric_input_ids :: "(string \<times> string list) list"
  hm_source_assertion_ids :: "string list"
  hm_source_digest :: "string option"
  hm_source_key :: 't
  hm_origin_id :: "string option"
  hm_observed_at_utc :: "string option"
  hm_published_at_utc :: "string option"
  hm_red_card_minutes :: "pyval list"
  hm_penalty_minutes :: "pyval list"
  hm_regime_id :: "string option"
  hm_competition_key :: "string option"
  hm_competition_type :: string
  hm_fixture_status :: 't
  hm_final_state :: 's

type_synonym match_args = "(pyval, pyval) historical_match"
type_synonym match_record = "(string, evidence_state) historical_match"

text \<open>The string of an argument that has passed \<open>_text\<close>, which the record keeps as given.\<close>

definition given_text :: "pyval \<Rightarrow> string" where
  "given_text value = (case value of PStr s \<Rightarrow> s | _ \<Rightarrow> [])"

text \<open>\<open>HistoricalMatch.__post_init__\<close>\<close>

definition match_init :: "match_args \<Rightarrow> (t09_error, match_record) res" where
  "match_init a =
     bindR (t09_text (hm_fixture_id a) ''Historical Match fixture ID'') (\<lambda>_.
     bindR (t09_text (hm_home_team_id a) ''Historical Match home team ID'') (\<lambda>_.
     bindR (t09_text (hm_away_team_id a) ''Historical Match away team ID'') (\<lambda>_.
     bindR (t09_text (hm_source_key a) ''Historical Match source key'') (\<lambda>_.
     bindR (guardR (hm_home_team_id a \<noteq> hm_away_team_id a)
       (T09ValidationError ''Historical Matches require two different teams.'')) (\<lambda>_.
     bindR (t09_canonical_utc (hm_kickoff_utc a)) (\<lambda>kickoff.
     bindR (t09_optional_utc (hm_observed_at_utc a)) (\<lambda>obs.
     bindR (t09_optional_utc (hm_published_at_utc a)) (\<lambda>pub.
     bindR (t09_text (hm_fixture_status a) ''Historical Match status'') (\<lambda>st.
     bindR (t09_state (hm_final_state a)) (\<lambda>final.
     bindR (mapR (\<lambda>(k, v). bindR (t09_state v) (\<lambda>s. Inr (k, s))) (hm_metric_states a)) (\<lambda>states.
     Inr \<lparr>hm_fixture_id = given_text (hm_fixture_id a),
          hm_home_team_id = given_text (hm_home_team_id a),
          hm_away_team_id = given_text (hm_away_team_id a), hm_kickoff_utc = kickoff,
          hm_full_time_home_goals = hm_full_time_home_goals a,
          hm_full_time_away_goals = hm_full_time_away_goals a,
          hm_half_time_home_goals = hm_half_time_home_goals a,
          hm_half_time_away_goals = hm_half_time_away_goals a,
          hm_corners_home = hm_corners_home a, hm_corners_away = hm_corners_away a,
          hm_shots_home = hm_shots_home a, hm_shots_away = hm_shots_away a,
          hm_shots_on_target_home = hm_shots_on_target_home a,
          hm_shots_on_target_away = hm_shots_on_target_away a,
          hm_yellow_cards_home = hm_yellow_cards_home a,
          hm_yellow_cards_away = hm_yellow_cards_away a,
          hm_red_cards_home = hm_red_cards_home a, hm_red_cards_away = hm_red_cards_away a,
          hm_metric_states = states,
          hm_metric_input_ids = map (\<lambda>(k, ids). (k, sorted_set ids)) (hm_metric_input_ids a),
          hm_source_assertion_ids = sorted_set (hm_source_assertion_ids a),
          hm_source_digest = hm_source_digest a, hm_source_key = given_text (hm_source_key a),
          hm_origin_id = hm_origin_id a, hm_observed_at_utc = obs, hm_published_at_utc = pub,
          hm_red_card_minutes = hm_red_card_minutes a,
          hm_penalty_minutes = hm_penalty_minutes a, hm_regime_id = hm_regime_id a,
          hm_competition_key = hm_competition_key a,
          hm_competition_type = hm_competition_type a, hm_fixture_status = upper st,
          hm_final_state = final\<rparr>)))))))))))"

section \<open>Metrics and their provenance\<close>

text \<open>\<open>metrics\<close>\<close>

definition match_metrics :: "match_record \<Rightarrow> (string \<times> int option) list" where
  "match_metrics m =
     [(''full_time_home_goals'', hm_full_time_home_goals m),
      (''full_time_away_goals'', hm_full_time_away_goals m),
      (''half_time_home_goals'', hm_half_time_home_goals m),
      (''half_time_away_goals'', hm_half_time_away_goals m),
      (''corners_home'', hm_corners_home m), (''corners_away'', hm_corners_away m),
      (''shots_home'', hm_shots_home m), (''shots_away'', hm_shots_away m),
      (''shots_on_target_home'', hm_shots_on_target_home m),
      (''shots_on_target_away'', hm_shots_on_target_away m),
      (''yellow_cards_home'', hm_yellow_cards_home m),
      (''yellow_cards_away'', hm_yellow_cards_away m),
      (''red_cards_home'', hm_red_cards_home m), (''red_cards_away'', hm_red_cards_away m)]"

definition match_has_provenance :: "match_record \<Rightarrow> string \<Rightarrow> bool" where
  "match_has_provenance m key \<longleftrightarrow>
     hm_source_assertion_ids m \<noteq> [] \<or> hm_source_digest m \<notin> {None, Some []} \<or>
     hm_origin_id m \<notin> {None, Some []} \<or>
     map_of (hm_metric_input_ids m) key \<notin> {None, Some []}"

text \<open>\<open>metric_state\<close>: an observed value without provenance is unknown.\<close>

definition match_metric_state :: "match_record \<Rightarrow> string \<Rightarrow> evidence_state" where
  "match_metric_state m key =
     (case map_of (hm_metric_states m) key of
        Some s \<Rightarrow> if match_has_provenance m key \<or> s \<noteq> OBSERVED then s else UNKNOWN
      | None \<Rightarrow>
          if \<not> match_has_provenance m key then UNKNOWN
          else (case map_of (match_metrics m) key of Some (Some _) \<Rightarrow> OBSERVED | _ \<Rightarrow> UNKNOWN))"

text \<open>\<open>metric_ids\<close>\<close>

definition match_metric_ids :: "match_record \<Rightarrow> string \<Rightarrow> string list" where
  "match_metric_ids m key =
     (case map_of (hm_metric_input_ids m) key of None \<Rightarrow> hm_source_assertion_ids m | Some ids \<Rightarrow> ids)"

text \<open>\<open>to_dict\<close>\<close>

definition match_to_dict :: "match_record \<Rightarrow> pydict" where
  "match_to_dict m =
     [(''away_team_id'', PStr (hm_away_team_id m)),
      (''competition_key'', opt_str (hm_competition_key m)),
      (''competition_type'', PStr (hm_competition_type m)),
      (''corners_away'', opt_int (hm_corners_away m)),
      (''corners_home'', opt_int (hm_corners_home m)),
      (''fixture_id'', PStr (hm_fixture_id m)),
      (''full_time_away_goals'', opt_int (hm_full_time_away_goals m)),
      (''full_time_home_goals'', opt_int (hm_full_time_home_goals m)),
      (''final_state'', PStr (evidence_state_text (hm_final_state m))),
      (''fixture_status'', PStr (hm_fixture_status m)),
      (''half_time_away_goals'', opt_int (hm_half_time_away_goals m)),
      (''half_time_home_goals'', opt_int (hm_half_time_home_goals m)),
      (''home_team_id'', PStr (hm_home_team_id m)),
      (''kickoff_utc'', PStr (hm_kickoff_utc m)),
      (''metric_input_ids'', PDict (map (\<lambda>(k, ids). (k, str_list ids)) (hm_metric_input_ids m))),
      (''metric_states'',
        PDict (map (\<lambda>(k, s). (k, PStr (evidence_state_text s))) (hm_metric_states m))),
      (''observed_at_utc'', opt_str (hm_observed_at_utc m)),
      (''origin_id'', opt_str (hm_origin_id m)),
      (''penalty_minutes'', PList (hm_penalty_minutes m)),
      (''published_at_utc'', opt_str (hm_published_at_utc m)),
      (''red_card_minutes'', PList (hm_red_card_minutes m)),
      (''regime_id'', opt_str (hm_regime_id m)),
      (''source_assertion_ids'', str_list (hm_source_assertion_ids m)),
      (''source_digest'', opt_str (hm_source_digest m)),
      (''source_key'', PStr (hm_source_key m)),
      (''shots_away'', opt_int (hm_shots_away m)), (''shots_home'', opt_int (hm_shots_home m)),
      (''shots_on_target_away'', opt_int (hm_shots_on_target_away m)),
      (''shots_on_target_home'', opt_int (hm_shots_on_target_home m)),
      (''yellow_cards_away'', opt_int (hm_yellow_cards_away m)),
      (''yellow_cards_home'', opt_int (hm_yellow_cards_home m)),
      (''red_cards_away'', opt_int (hm_red_cards_away m)),
      (''red_cards_home'', opt_int (hm_red_cards_home m))]"

section \<open>The facts a settlement reads\<close>

text \<open>\<open>metric_names\<close> of \<open>from_historical_match\<close>, and \<open>getattr(match, name)\<close> for them.\<close>

definition settlement_metrics :: "fact list" where
  "settlement_metrics = full_goal_facts @ [half_time_home_goals, half_time_away_goals] @ corner_facts"

fun match_metric :: "match_record \<Rightarrow> fact \<Rightarrow> int option" where
  "match_metric m full_time_home_goals = hm_full_time_home_goals m"
| "match_metric m full_time_away_goals = hm_full_time_away_goals m"
| "match_metric m half_time_home_goals = hm_half_time_home_goals m"
| "match_metric m half_time_away_goals = hm_half_time_away_goals m"
| "match_metric m corners_home = hm_corners_home m"
| "match_metric m corners_away = hm_corners_away m"

definition observed_metric :: "match_record \<Rightarrow> fact \<Rightarrow> int option" where
  "observed_metric m f =
     (if match_metric_state m (fact_text f) = OBSERVED then match_metric m f else None)"

lemma observed_provenance: "match_metric_state m k = OBSERVED \<Longrightarrow> match_has_provenance m k"
  by (auto simp: match_metric_state_def split: option.splits if_splits)

lemma observed_metric_Some:
  "observed_metric m f = Some v \<longleftrightarrow>
    match_metric m f = Some v \<and> match_metric_state m (fact_text f) = OBSERVED"
  by (auto simp: observed_metric_def)

text \<open>A metric without a state of its own is observed when it has a value and any provenance.\<close>

lemma match_metrics_fact: "map_of (match_metrics m) (fact_text f) = Some (match_metric m f)"
  by (cases f) (simp_all add: match_metrics_def)

lemma default_metric_state:
  "map_of (hm_metric_states m) (fact_text f) = None \<Longrightarrow>
    match_metric_state m (fact_text f) =
      (if match_has_provenance m (fact_text f) \<and> match_metric m f \<noteq> None then OBSERVED else UNKNOWN)"
  by (auto simp: match_metric_state_def match_metrics_fact split: option.splits)

end
