(* ===== verification/Settlement_Evidence.thy ===== *)
theory Settlement_Evidence
  imports Historical_Match
begin

text \<open>
  \<open>SettlementEvidence\<close> of \<open>t10.py\<close>: the validated, digested record of one source about one
  fixture, its status and completeness, its dictionary form and the way back, the grouping
  of records into evidence sets, and the records an explicit successor supersedes.
\<close>

section \<open>The record\<close>

record settlement_evidence =
  e_fixture_id :: string
  e_source_level :: settlement_source
  e_source_key :: string
  e_record_id :: string
  e_record_set_id :: string
  e_source_digest :: "string option"
  e_fixture_status :: string
  e_regulation_completed :: bool
  e_resumable :: bool
  e_administrative_award :: bool
  e_full_time_home_goals :: "int option"
  e_full_time_away_goals :: "int option"
  e_half_time_home_goals :: "int option"
  e_half_time_away_goals :: "int option"
  e_corners_home :: "int option"
  e_corners_away :: "int option"
  e_extra_time_home_goals :: "int option"
  e_extra_time_away_goals :: "int option"
  e_shootout_home_goals :: "int option"
  e_shootout_away_goals :: "int option"
  e_source_assertion_ids :: "string list"
  e_published_at_utc :: "string option"
  e_observed_at_utc :: "string option"
  e_retrieved_at_utc :: "string option"
  e_predecessor_id :: "string option"
  e_provenance :: pydict
  e_evidence_digest :: string

text \<open>
  The constructor's arguments. A field the constructor checks with \<open>isinstance\<close> is a dynamic
  value; the others have their annotated type.
\<close>

record evidence_args =
  ea_fixture_id :: pyval
  ea_source_level :: pyval
  ea_source_key :: pyval
  ea_record_id :: pyval
  ea_record_set_id :: pyval
  ea_source_digest :: "string option"
  ea_fixture_status :: pyval
  ea_regulation_completed :: pyval
  ea_resumable :: pyval
  ea_administrative_award :: pyval
  ea_full_time_home_goals :: pyval
  ea_full_time_away_goals :: pyval
  ea_half_time_home_goals :: pyval
  ea_half_time_away_goals :: pyval
  ea_corners_home :: pyval
  ea_corners_away :: pyval
  ea_extra_time_home_goals :: pyval
  ea_extra_time_away_goals :: pyval
  ea_shootout_home_goals :: pyval
  ea_shootout_away_goals :: pyval
  ea_source_assertion_ids :: pyval
  ea_published_at_utc :: "string option"
  ea_observed_at_utc :: "string option"
  ea_retrieved_at_utc :: "string option"
  ea_predecessor_id :: "string option"
  ea_provenance :: pyval
  ea_evidence_digest :: string

definition completed_statuses :: "string list" where
  "completed_statuses = [''COMPLETED'', ''COMPLETE'', ''FINAL'', ''FINISHED'', ''PLAYED'']"

definition pending_statuses :: "string list" where
  "pending_statuses =
     [''SCHEDULED'', ''UNKNOWN'', ''IN_PROGRESS'', ''LIVE'', ''SUSPENDED'',
      ''TEMPORARILY_SUSPENDED'']"

definition void_statuses :: "string list" where
  "void_statuses =
     [''POSTPONED'', ''CANCELLED'', ''CANCELED'', ''ABANDONED'', ''UNCOMPLETED'', ''FORFEITED'',
      ''FORFEIT'', ''WALKOVER'', ''AWARDED'', ''ADMIN_AWARDED'', ''ADMINISTRATIVE_AWARD'',
      ''WITHDRAWN'', ''VOID'', ''REPLAYED'', ''NOT_PLAYED'']"

definition played_admin_statuses :: "string list" where
  "played_admin_statuses =
     [''FORFEITED'', ''FORFEIT'', ''WALKOVER'', ''AWARDED'', ''ADMIN_AWARDED'',
      ''ADMINISTRATIVE_AWARD'']"

text \<open>\<open>_payload\<close> and \<open>to_dict\<close>\<close>

definition evidence_payload :: "settlement_evidence \<Rightarrow> pydict" where
  "evidence_payload e =
     [(''administrative_award'', PBool (e_administrative_award e)),
      (''corners_away'', opt_int (e_corners_away e)),
      (''corners_home'', opt_int (e_corners_home e)),
      (''extra_time_away_goals'', opt_int (e_extra_time_away_goals e)),
      (''extra_time_home_goals'', opt_int (e_extra_time_home_goals e)),
      (''fixture_id'', PStr (e_fixture_id e)),
      (''fixture_status'', PStr (e_fixture_status e)),
      (''full_time_away_goals'', opt_int (e_full_time_away_goals e)),
      (''full_time_home_goals'', opt_int (e_full_time_home_goals e)),
      (''half_time_away_goals'', opt_int (e_half_time_away_goals e)),
      (''half_time_home_goals'', opt_int (e_half_time_home_goals e)),
      (''predecessor_id'', opt_str (e_predecessor_id e)),
      (''published_at_utc'', opt_str (e_published_at_utc e)),
      (''record_id'', PStr (e_record_id e)),
      (''record_set_id'', PStr (e_record_set_id e)),
      (''regulation_completed'', PBool (e_regulation_completed e)),
      (''resumable'', PBool (e_resumable e)),
      (''retrieved_at_utc'', opt_str (e_retrieved_at_utc e)),
      (''observed_at_utc'', opt_str (e_observed_at_utc e)),
      (''shootout_away_goals'', opt_int (e_shootout_away_goals e)),
      (''shootout_home_goals'', opt_int (e_shootout_home_goals e)),
      (''source_assertion_ids'', str_list (e_source_assertion_ids e)),
      (''source_digest'', opt_str (e_source_digest e)),
      (''source_key'', PStr (e_source_key e)),
      (''source_level'', PStr (source_text (e_source_level e))),
      (''provenance'', PDict (e_provenance e))]"

definition evidence_id :: "hasher \<Rightarrow> settlement_evidence \<Rightarrow> string" where
  "evidence_id H e = stable_id H ''settlement_evidence'' (e_evidence_digest e)"

definition evidence_to_dict :: "hasher \<Rightarrow> settlement_evidence \<Rightarrow> pydict" where
  "evidence_to_dict H e =
     evidence_payload e @
     [(''evidence_digest'', PStr (e_evidence_digest e)), (''evidence_id'', PStr (evidence_id H e))]"

text \<open>One pass of the loop over the ten counts.\<close>

definition checked_count :: "string \<Rightarrow> pyval \<Rightarrow> (t10_error, int option) res" where
  "checked_count lab value =
     (let bad = T10ValidationError (lab @ '' must be a non-negative integer or null.'') in
      case value of
        PNone \<Rightarrow> Inr None
      | PInt i \<Rightarrow> if i < 0 then Inl bad else Inr (Some i)
      | _ \<Rightarrow> Inl bad)"

definition checked_bool :: "string \<Rightarrow> pyval \<Rightarrow> (t10_error, bool) res" where
  "checked_bool msg value =
     (case value of PBool b \<Rightarrow> Inr b | _ \<Rightarrow> Inl (T10ValidationError msg))"

text \<open>\<open>SettlementEvidence.__post_init__\<close>\<close>

definition evidence_init ::
  "hasher \<Rightarrow> evidence_args \<Rightarrow> (t10_error, settlement_evidence) res" where
  "evidence_init H a =
     bindR (t10_text (ea_fixture_id a) ''Settlement Evidence fixture ID'') (\<lambda>fid.
     bindR (t10_text (ea_source_key a) ''Settlement Evidence source key'') (\<lambda>skey.
     bindR (if truthy (ea_record_id a)
            then t10_text (ea_record_id a) ''Settlement Evidence record ID''
            else Inr (fid @ '':'' @ skey)) (\<lambda>rid.
     bindR (t10_source (ea_source_level a)) (\<lambda>level.
     bindR (t10_text (ea_fixture_status a) ''Settlement Evidence fixture status'') (\<lambda>st.
     let status = upper st in
     bindR (case ea_regulation_completed a of PNone \<Rightarrow> Inr None | PBool b \<Rightarrow> Inr (Some b)
            | _ \<Rightarrow> Inl (T10ValidationError ''regulation_completed must be boolean or null.'')) (\<lambda>reg.
     bindR (checked_bool ''resumable must be boolean.'' (ea_resumable a)) (\<lambda>resumable.
     bindR (checked_bool ''administrative_award must be boolean.''
       (ea_administrative_award a)) (\<lambda>award.
     bindR (checked_count ''full-time Home goals'' (ea_full_time_home_goals a)) (\<lambda>fh.
     bindR (checked_count ''full-time Away goals'' (ea_full_time_away_goals a)) (\<lambda>fa.
     bindR (checked_count ''half-time Home goals'' (ea_half_time_home_goals a)) (\<lambda>hh.
     bindR (checked_count ''half-time Away goals'' (ea_half_time_away_goals a)) (\<lambda>ha.
     bindR (checked_count ''Home corners'' (ea_corners_home a)) (\<lambda>ch.
     bindR (checked_count ''Away corners'' (ea_corners_away a)) (\<lambda>ca.
     bindR (checked_count ''extra-time Home goals'' (ea_extra_time_home_goals a)) (\<lambda>eh.
     bindR (checked_count ''extra-time Away goals'' (ea_extra_time_away_goals a)) (\<lambda>ea.
     bindR (checked_count ''shootout Home goals'' (ea_shootout_home_goals a)) (\<lambda>sh.
     bindR (checked_count ''shootout Away goals'' (ea_shootout_away_goals a)) (\<lambda>sa.
     bindR (t10_text (PStr rid) ''Settlement Evidence record ID'') (\<lambda>rid'.
     bindR (if truthy (ea_record_set_id a)
            then t10_text (ea_record_set_id a) ''Settlement Evidence record set ID''
            else Inr rid) (\<lambda>rset.
     bindR (t10_strings (ea_source_assertion_ids a)) (\<lambda>ids.
     bindR (t10_optional_utc (ea_published_at_utc a)) (\<lambda>pub.
     bindR (t10_optional_utc (ea_observed_at_utc a)) (\<lambda>obs.
     bindR (t10_optional_utc (ea_retrieved_at_utc a)) (\<lambda>ret.
     bindR (case ea_provenance a of PDict kvs \<Rightarrow> Inr kvs
            | _ \<Rightarrow> Inl (T10ValidationError
                     ''Settlement Evidence provenance must be an object.'')) (\<lambda>prov.
     let e = \<lparr>e_fixture_id = fid, e_source_level = level, e_source_key = skey,
              e_record_id = rid', e_record_set_id = rset, e_source_digest = ea_source_digest a,
              e_fixture_status = status,
              e_regulation_completed =
                (case reg of None \<Rightarrow> status \<in> set completed_statuses | Some b \<Rightarrow> b),
              e_resumable = resumable, e_administrative_award = award,
              e_full_time_home_goals = fh, e_full_time_away_goals = fa,
              e_half_time_home_goals = hh, e_half_time_away_goals = ha,
              e_corners_home = ch, e_corners_away = ca,
              e_extra_time_home_goals = eh, e_extra_time_away_goals = ea,
              e_shootout_home_goals = sh, e_shootout_away_goals = sa,
              e_source_assertion_ids = ids, e_published_at_utc = pub, e_observed_at_utc = obs,
              e_retrieved_at_utc = ret, e_predecessor_id = ea_predecessor_id a,
              e_provenance = prov, e_evidence_digest = []\<rparr>;
         expected = digest H (PDict (evidence_payload e)) in
     bindR (guardR (ea_evidence_digest a = [] \<or> ea_evidence_digest a = expected)
       (T10IntegrityError ''Settlement Evidence digest does not match its immutable record.'')) (\<lambda>_.
     Inr (e\<lparr>e_evidence_digest := expected\<rparr>)))))))))))))))))))))))))))"

section \<open>Reading a mapping\<close>

text \<open>The local function \<open>integer\<close>: the first of the keys that is present decides.\<close>

fun mapped_integer :: "pydict \<Rightarrow> string list \<Rightarrow> (t10_error, pyval) res" where
  "mapped_integer m [] = Inr PNone"
| "mapped_integer m (k # ks) =
     (case map_of m k of
        None \<Rightarrow> mapped_integer m ks
      | Some PNone \<Rightarrow> Inr PNone
      | Some (PInt i) \<Rightarrow>
          if i < 0 then Inl (T10ValidationError
            (''Settlement Evidence field '' @ k @ '' must be a non-negative integer or null.''))
          else Inr (PInt i)
      | Some _ \<Rightarrow> Inl (T10ValidationError
            (''Settlement Evidence field '' @ k @ '' must be a non-negative integer or null.'')))"

text \<open>\<open>str(v)\<close>; the text of a container is only ever compared with a digest or an identifier.\<close>

definition py_str :: "pyval \<Rightarrow> string" where
  "py_str v =
     (case v of PStr s \<Rightarrow> s | PNone \<Rightarrow> ''None'' | PBool b \<Rightarrow> (if b then ''True'' else ''False'')
      | PFrac r \<Rightarrow> (if denom r = 1 then int_text (numer r) else fraction_text r)
      | _ \<Rightarrow> json_text v)"

definition evidence_from_mapping ::
  "hasher \<Rightarrow> pydict \<Rightarrow> (t10_error, settlement_evidence) res" where
  "evidence_from_mapping H m =
     bindR (t10_text (dict_get m ''fixture_id'') ''Settlement Evidence fixture ID'') (\<lambda>fid.
     bindR (t10_optional_text (dict_get m ''record_set_id'') ''record_set_id'') (\<lambda>rset.
     bindR (t10_optional_text (dict_get m ''source_digest'') ''source_digest'') (\<lambda>sdig.
     bindR (if dict_get m ''regulation_completed'' = PNone then Inr PNone
            else bindR (t10_boolean (dict_get m ''regulation_completed'') ''regulation_completed''
                   False) (\<lambda>b. Inr (PBool b))) (\<lambda>reg.
     bindR (t10_boolean (dict_get m ''resumable'') ''resumable'' False) (\<lambda>resumable.
     bindR (t10_boolean (dict_get m ''administrative_award'') ''administrative_award'' False) (\<lambda>award.
     bindR (mapped_integer m [''full_time_home_goals'', ''home_goals'', ''HG'']) (\<lambda>fh.
     bindR (mapped_integer m [''full_time_away_goals'', ''away_goals'', ''AG'']) (\<lambda>fa.
     bindR (mapped_integer m [''half_time_home_goals'', ''H1G'']) (\<lambda>hh.
     bindR (mapped_integer m [''half_time_away_goals'', ''A1G'']) (\<lambda>ha.
     bindR (mapped_integer m [''corners_home'', ''home_corners'', ''HC'']) (\<lambda>ch.
     bindR (mapped_integer m [''corners_away'', ''away_corners'', ''AC'']) (\<lambda>ca.
     bindR (mapped_integer m [''extra_time_home_goals'']) (\<lambda>eh.
     bindR (mapped_integer m [''extra_time_away_goals'']) (\<lambda>ea.
     bindR (mapped_integer m [''shootout_home_goals'']) (\<lambda>sh.
     bindR (mapped_integer m [''shootout_away_goals'']) (\<lambda>sa.
     bindR (t10_strings (get_or m ''source_assertion_ids'' (PList []))) (\<lambda>ids.
     bindR (t10_optional_text (dict_get m ''published_at_utc'') ''published_at_utc'') (\<lambda>pub.
     bindR (t10_optional_text (dict_get m ''observed_at_utc'') ''observed_at_utc'') (\<lambda>obs.
     bindR (t10_optional_text (dict_get m ''retrieved_at_utc'') ''retrieved_at_utc'') (\<lambda>ret.
     bindR (t10_optional_text (dict_get m ''predecessor_id'') ''predecessor_id'') (\<lambda>pred.
     bindR (evidence_init H
       \<lparr>ea_fixture_id = PStr fid,
        ea_source_level = get_or m ''source_level''
          (get_or m ''source_authority'' (PStr ''FOOTBALL_DATA'')),
        ea_source_key = get_or m ''source_key'' (PStr ''football-data''),
        ea_record_id = get_or m ''record_id'' (get_or m ''source_record_id'' (PStr [])),
        ea_record_set_id = opt_str rset, ea_source_digest = sdig,
        ea_fixture_status = get_or m ''fixture_status'' (get_or m ''status'' (PStr ''UNKNOWN'')),
        ea_regulation_completed = reg, ea_resumable = PBool resumable,
        ea_administrative_award = PBool award,
        ea_full_time_home_goals = fh, ea_full_time_away_goals = fa,
        ea_half_time_home_goals = hh, ea_half_time_away_goals = ha,
        ea_corners_home = ch, ea_corners_away = ca,
        ea_extra_time_home_goals = eh, ea_extra_time_away_goals = ea,
        ea_shootout_home_goals = sh, ea_shootout_away_goals = sa,
        ea_source_assertion_ids = str_list ids, ea_published_at_utc = pub,
        ea_observed_at_utc = obs, ea_retrieved_at_utc = ret, ea_predecessor_id = pred,
        ea_provenance = get_or m ''provenance'' (PDict []),
        ea_evidence_digest = py_str (get_or m ''evidence_digest'' (PStr []))\<rparr>) (\<lambda>e.
     bindR (guardR (dict_get m ''evidence_id'' = PNone \<or>
                    py_str (dict_get m ''evidence_id'') = evidence_id H e)
       (T10IntegrityError ''Settlement Evidence ID does not match its immutable record.'')) (\<lambda>_.
     Inr e)))))))))))))))))))))))"

section \<open>Status and completeness of one record\<close>

datatype status_kind = VOID_KIND | PENDING_KIND | COMPLETE_KIND

fun kind_text :: "status_kind \<Rightarrow> string" where
  "kind_text VOID_KIND = ''VOID''" | "kind_text PENDING_KIND = ''PENDING''"
| "kind_text COMPLETE_KIND = ''COMPLETE''"

definition status_kind_of :: "settlement_evidence \<Rightarrow> status_kind" where
  "status_kind_of e =
     (if e_fixture_status e \<in> set void_statuses \<and>
         (e_fixture_status e \<notin> set played_admin_statuses \<or> \<not> e_regulation_completed e)
      then VOID_KIND
      else if e_administrative_award e \<and> \<not> e_regulation_completed e then VOID_KIND
      else if e_fixture_status e \<in> set pending_statuses \<or> \<not> e_regulation_completed e
      then PENDING_KIND
      else if e_regulation_completed e \<and>
         (e_fixture_status e \<in> set completed_statuses \<or>
          e_fixture_status e \<in> set played_admin_statuses)
      then COMPLETE_KIND
      else PENDING_KIND)"

text \<open>\<open>getattr(self, key)\<close> for the six fact names.\<close>

fun fact_value :: "settlement_evidence \<Rightarrow> fact \<Rightarrow> int option" where
  "fact_value e full_time_home_goals = e_full_time_home_goals e"
| "fact_value e full_time_away_goals = e_full_time_away_goals e"
| "fact_value e half_time_home_goals = e_half_time_home_goals e"
| "fact_value e half_time_away_goals = e_half_time_away_goals e"
| "fact_value e corners_home = e_corners_home e"
| "fact_value e corners_away = e_corners_away e"

definition exceeds :: "int option \<Rightarrow> int option \<Rightarrow> bool" where
  "exceeds half full = (case (full, half) of (Some f, Some h) \<Rightarrow> f < h | _ \<Rightarrow> False)"

definition invalid_phase_relationship :: "settlement_evidence \<Rightarrow> bool" where
  "invalid_phase_relationship e \<longleftrightarrow>
     exceeds (e_half_time_home_goals e) (e_full_time_home_goals e) \<or>
     exceeds (e_half_time_away_goals e) (e_full_time_away_goals e)"

definition evidence_complete_for :: "settlement_evidence \<Rightarrow> fact list \<Rightarrow> bool" where
  "evidence_complete_for e facts \<longleftrightarrow>
     status_kind_of e = COMPLETE_KIND \<and>
     (facts = half_goal_facts \<longrightarrow> \<not> invalid_phase_relationship e) \<and>
     list_all (\<lambda>f. fact_value e f \<noteq> None) facts"

definition evidence_values_for ::
  "settlement_evidence \<Rightarrow> fact list \<Rightarrow> (t10_error, int list) res" where
  "evidence_values_for e facts =
     mapR (\<lambda>f. case fact_value e f of Some v \<Rightarrow> Inr v
       | None \<Rightarrow> Inl (T10ValidationError
           ''Incomplete Settlement Evidence has no complete fact tuple.'')) facts"

section \<open>From a played match\<close>

text \<open>\<open>from_historical_match\<close>: a metric is passed on only when its state is observed.\<close>

definition match_provenance :: "match_record \<Rightarrow> pydict" where
  "match_provenance m =
     [(''origin_id'', opt_str (hm_origin_id m)), (''source_key'', PStr (hm_source_key m)),
      (''source_digest'', opt_str (hm_source_digest m)),
      (''source_assertion_ids'', str_list (hm_source_assertion_ids m)),
      (''fixture_status'', PStr (hm_fixture_status m)),
      (''historical_match'', PDict (match_to_dict m)),
      (''metric_input_ids'', PDict (map (\<lambda>(k, ids). (k, str_list ids)) (hm_metric_input_ids m))),
      (''metric_states'', PDict (map (\<lambda>f. (fact_text f,
         PStr (evidence_state_text (match_metric_state m (fact_text f))))) settlement_metrics))]"

definition match_assertion_ids :: "match_record \<Rightarrow> string list" where
  "match_assertion_ids m =
     sorted_set (hm_source_assertion_ids m @
       concat (map (\<lambda>f. match_metric_ids m (fact_text f)) settlement_metrics))"

definition evidence_from_match ::
  "hasher \<Rightarrow> match_record \<Rightarrow> pyval \<Rightarrow> string option \<Rightarrow> (t10_error, settlement_evidence) res" where
  "evidence_from_match H m source_level record_id =
     evidence_init H
       \<lparr>ea_fixture_id = PStr (hm_fixture_id m), ea_source_level = source_level,
        ea_source_key = PStr (hm_source_key m),
        ea_record_id = PStr (if record_id \<in> {None, Some []} then hm_fixture_id m else the record_id),
        ea_record_set_id = PNone, ea_source_digest = hm_source_digest m,
        ea_fixture_status = PStr (hm_fixture_status m),
        ea_regulation_completed = PBool (hm_final_state m = OBSERVED),
        ea_resumable = PBool False, ea_administrative_award = PBool False,
        ea_full_time_home_goals = opt_int (observed_metric m full_time_home_goals),
        ea_full_time_away_goals = opt_int (observed_metric m full_time_away_goals),
        ea_half_time_home_goals = opt_int (observed_metric m half_time_home_goals),
        ea_half_time_away_goals = opt_int (observed_metric m half_time_away_goals),
        ea_corners_home = opt_int (observed_metric m corners_home),
        ea_corners_away = opt_int (observed_metric m corners_away),
        ea_extra_time_home_goals = PNone, ea_extra_time_away_goals = PNone,
        ea_shootout_home_goals = PNone, ea_shootout_away_goals = PNone,
        ea_source_assertion_ids = str_list (match_assertion_ids m),
        ea_published_at_utc = hm_published_at_utc m, ea_observed_at_utc = hm_observed_at_utc m,
        ea_retrieved_at_utc = None, ea_predecessor_id = None,
        ea_provenance = PDict (match_provenance m), ea_evidence_digest = []\<rparr>"

section \<open>Inputs of a grade\<close>

text \<open>
  \<open>_coerce_evidence\<close>: a record as it is, a mapping through \<open>from_mapping\<close>, a played match through
  \<open>from_historical_match\<close>; anything else is refused.
\<close>

datatype evidence_input =
    EvidenceRecord settlement_evidence
  | EvidenceMapping pydict
  | EvidenceMatch match_record
  | OtherInput

fun coerce_evidence ::
  "hasher \<Rightarrow> evidence_input \<Rightarrow> (t10_error, settlement_evidence) res" where
  "coerce_evidence H (EvidenceRecord e) = Inr e"
| "coerce_evidence H (EvidenceMapping m) = evidence_from_mapping H m"
| "coerce_evidence H (EvidenceMatch m) =
     evidence_from_match H m (PStr (source_text FOOTBALL_DATA)) None"
| "coerce_evidence H OtherInput =
     Inl (T10ValidationError ''Settlement grading requires SettlementEvidence records.'')"

section \<open>Evidence groups\<close>

record evidence_group =
  g_source_level :: settlement_source
  g_source_key :: string
  g_record_set_id :: string
  g_records :: "settlement_evidence list"
  g_first_index :: nat

definition g_rank :: "evidence_group \<Rightarrow> nat" where
  "g_rank g = authority_rank (g_source_level g)"

definition g_status_kinds :: "evidence_group \<Rightarrow> status_kind set" where
  "g_status_kinds g = set (map status_kind_of (g_records g))"

definition g_status_conflict :: "evidence_group \<Rightarrow> bool" where
  "g_status_conflict g \<longleftrightarrow> 1 < card (g_status_kinds g)"

definition g_evidence_ids :: "hasher \<Rightarrow> evidence_group \<Rightarrow> string list" where
  "g_evidence_ids H g = map (evidence_id H) (g_records g)"

definition g_record_ids :: "evidence_group \<Rightarrow> string list" where
  "g_record_ids g = map e_record_id (g_records g)"

text \<open>\<open>_value\<close>: the one value the records give, or a conflict.\<close>

definition g_value :: "evidence_group \<Rightarrow> fact \<Rightarrow> int option \<times> bool" where
  "g_value g f =
     (case remdups (List.map_filter (\<lambda>e. fact_value e f) (g_records g)) of
        [] \<Rightarrow> (None, False)
      | [v] \<Rightarrow> (Some v, False)
      | _ \<Rightarrow> (None, True))"

definition g_complete_for :: "evidence_group \<Rightarrow> fact list \<Rightarrow> bool" where
  "g_complete_for g facts \<longleftrightarrow>
     \<not> g_status_conflict g \<and> g_status_kinds g = {COMPLETE_KIND} \<and>
     list_all (\<lambda>f. \<not> snd (g_value g f) \<and> fst (g_value g f) \<noteq> None) facts \<and>
     (facts = half_goal_facts \<longrightarrow>
        \<not> exceeds (fst (g_value g half_time_home_goals)) (fst (g_value g full_time_home_goals)) \<and>
        \<not> exceeds (fst (g_value g half_time_away_goals)) (fst (g_value g full_time_away_goals)))"

definition g_conflicts_for :: "evidence_group \<Rightarrow> fact list \<Rightarrow> bool" where
  "g_conflicts_for g facts \<longleftrightarrow>
     \<not> g_status_conflict g \<and> g_status_kinds g = {COMPLETE_KIND} \<and>
     list_ex (\<lambda>f. snd (g_value g f)) facts"

definition g_values_for :: "evidence_group \<Rightarrow> fact list \<Rightarrow> (t10_error, int list) res" where
  "g_values_for g facts =
     (if g_complete_for g facts then Inr (map (\<lambda>f. the (fst (g_value g f))) facts)
      else Inl (T10ValidationError ''An incomplete or conflicting evidence group has no values.''))"

definition g_signature :: "evidence_group \<Rightarrow> fact list \<Rightarrow> int option list" where
  "g_signature g facts = map (\<lambda>f. fst (g_value g f)) facts"

definition group_key :: "settlement_evidence \<Rightarrow> settlement_source \<times> string \<times> string" where
  "group_key e = (e_source_level e, e_source_key e, e_record_set_id e)"

definition evidence_groups :: "settlement_evidence list \<Rightarrow> evidence_group list" where
  "evidence_groups evidence =
     sort_key (\<lambda>g. (g_rank g, g_source_key g, g_record_set_id g))
       (map (\<lambda>((level, skey, rset), members).
          \<lparr>g_source_level = level, g_source_key = skey, g_record_set_id = rset,
           g_records = map snd members, g_first_index = Min (set (map fst members))\<rparr>)
        (group_by (\<lambda>(i, e). group_key e) (List.enumerate 0 evidence)))"

text \<open>\<open>_active_evidence_records\<close>: the later of two records with one identifier is the one found.\<close>

definition superseded_ids :: "hasher \<Rightarrow> settlement_evidence list \<Rightarrow> string list" where
  "superseded_ids H evidence =
     (let by_evidence_id = map_of (rev (map (\<lambda>e. (evidence_id H e, e)) evidence));
          by_record_id = map_of (rev (map (\<lambda>e. (e_record_id e, e)) evidence));
          predecessors = List.map_filter e_predecessor_id evidence
      in concat (map (\<lambda>p.
           (case by_evidence_id p of None \<Rightarrow> [] | Some e \<Rightarrow> [evidence_id H e]) @
           (case by_record_id p of None \<Rightarrow> [] | Some e \<Rightarrow> [evidence_id H e])) predecessors))"

definition active_evidence_records ::
  "hasher \<Rightarrow> settlement_evidence list \<Rightarrow> settlement_evidence list \<times> settlement_evidence list" where
  "active_evidence_records H evidence =
     (filter (\<lambda>e. evidence_id H e \<notin> set (superseded_ids H evidence)) evidence,
      filter (\<lambda>e. evidence_id H e \<in> set (superseded_ids H evidence)) evidence)"

definition aggregate_evidence_digest :: "hasher \<Rightarrow> settlement_evidence list \<Rightarrow> string" where
  "aggregate_evidence_digest H evidence =
     digest H (PDict [(''evidence_digests'', str_list (sort (map e_evidence_digest evidence)))])"

section \<open>What the constructor guarantees\<close>

definition count_ok :: "int option \<Rightarrow> bool" where
  "count_ok v = (case v of None \<Rightarrow> True | Some i \<Rightarrow> 0 \<le> i)"

definition utc_ok :: "string option \<Rightarrow> bool" where
  "utc_ok v \<longleftrightarrow> t10_optional_utc v = Inr v"

definition opt_trimmed :: "string option \<Rightarrow> bool" where
  "opt_trimmed v = (case v of None \<Rightarrow> True | Some s \<Rightarrow> trimmed s)"

definition counts_of :: "settlement_evidence \<Rightarrow> int option list" where
  "counts_of e =
     [e_full_time_home_goals e, e_full_time_away_goals e, e_half_time_home_goals e,
      e_half_time_away_goals e, e_corners_home e, e_corners_away e, e_extra_time_home_goals e,
      e_extra_time_away_goals e, e_shootout_home_goals e, e_shootout_away_goals e]"

definition valid_fields :: "settlement_evidence \<Rightarrow> bool" where
  "valid_fields e \<longleftrightarrow>
     trimmed (e_fixture_id e) \<and> trimmed (e_source_key e) \<and> trimmed (e_record_id e) \<and>
     trimmed (e_record_set_id e) \<and> trimmed (e_fixture_status e) \<and>
     upper (e_fixture_status e) = e_fixture_status e \<and>
     list_all count_ok (counts_of e) \<and>
     sorted (e_source_assertion_ids e) \<and> distinct (e_source_assertion_ids e) \<and>
     list_all (\<lambda>s. strip s \<noteq> []) (e_source_assertion_ids e) \<and>
     utc_ok (e_published_at_utc e) \<and> utc_ok (e_observed_at_utc e) \<and> utc_ok (e_retrieved_at_utc e)"

definition valid_evidence :: "hasher \<Rightarrow> settlement_evidence \<Rightarrow> bool" where
  "valid_evidence H e \<longleftrightarrow>
     valid_fields e \<and> e_evidence_digest e = digest H (PDict (evidence_payload e))"

lemma checked_count_Inr: "checked_count l v = Inr c \<Longrightarrow> count_ok c"
  by (auto simp: checked_count_def count_ok_def Let_def split: pyval.splits if_splits)

lemma checked_count_opt_int [simp]: "count_ok c \<Longrightarrow> checked_count l (opt_int c) = Inr c"
  by (cases c) (auto simp: checked_count_def count_ok_def)

lemma t10_optional_utc_utc_ok: "t10_optional_utc v = Inr w \<Longrightarrow> utc_ok w"
  by (simp add: utc_ok_def t10_optional_utc_idem)

lemma evidence_payload_digest_free [simp]:
  "evidence_payload (e\<lparr>e_evidence_digest := d\<rparr>) = evidence_payload e"
  by (simp add: evidence_payload_def)

lemma text_if_trimmed:
  "(if c then t10_text v l else Inr d) = Inr s \<Longrightarrow> trimmed d \<Longrightarrow> trimmed s"
  by (auto dest: t10_text_Inr split: if_splits)

lemma t10_strings_facts:
  assumes "t10_strings v = Inr ids"
  shows "sorted ids" "distinct ids" "list_all (\<lambda>s. strip s \<noteq> []) ids"
  using t10_strings_sorted [OF assms] by (simp_all add: list_all_iff)

lemma evidence_init_valid:
  assumes "evidence_init H a = Inr e"
  shows "valid_evidence H e"
  using assms unfolding evidence_init_def
proof (elim bindR_InrE Let_InrE)
  fix fid skey rid level st status reg resumable award fh fa hh ha ch ca eh ea sh sa rid' rset ids
    pub obs ret prov e0 expected
  assume t: "t10_text (ea_fixture_id a) ''Settlement Evidence fixture ID'' = Inr fid"
    "t10_text (ea_source_key a) ''Settlement Evidence source key'' = Inr skey"
    "t10_text (ea_fixture_status a) ''Settlement Evidence fixture status'' = Inr st"
    "t10_text (PStr rid) ''Settlement Evidence record ID'' = Inr rid'"
    and status: "status = upper st"
    and rset: "(if truthy (ea_record_set_id a)
        then t10_text (ea_record_set_id a) ''Settlement Evidence record set ID'' else Inr rid) = Inr rset"
    and rid: "(if truthy (ea_record_id a)
        then t10_text (ea_record_id a) ''Settlement Evidence record ID''
        else Inr (fid @ '':'' @ skey)) = Inr rid"
    and c: "checked_count ''full-time Home goals'' (ea_full_time_home_goals a) = Inr fh"
     "checked_count ''full-time Away goals'' (ea_full_time_away_goals a) = Inr fa"
     "checked_count ''half-time Home goals'' (ea_half_time_home_goals a) = Inr hh"
     "checked_count ''half-time Away goals'' (ea_half_time_away_goals a) = Inr ha"
     "checked_count ''Home corners'' (ea_corners_home a) = Inr ch"
     "checked_count ''Away corners'' (ea_corners_away a) = Inr ca"
     "checked_count ''extra-time Home goals'' (ea_extra_time_home_goals a) = Inr eh"
     "checked_count ''extra-time Away goals'' (ea_extra_time_away_goals a) = Inr ea"
     "checked_count ''shootout Home goals'' (ea_shootout_home_goals a) = Inr sh"
     "checked_count ''shootout Away goals'' (ea_shootout_away_goals a) = Inr sa"
    and ids: "t10_strings (ea_source_assertion_ids a) = Inr ids"
    and times: "t10_optional_utc (ea_published_at_utc a) = Inr pub"
     "t10_optional_utc (ea_observed_at_utc a) = Inr obs"
     "t10_optional_utc (ea_retrieved_at_utc a) = Inr ret"
    and e: "Inr (e0\<lparr>e_evidence_digest := expected\<rparr>) = Inr e"
    and expected: "expected = digest H (PDict (evidence_payload e0))"
    and e0: "e0 = \<lparr>e_fixture_id = fid, e_source_level = level, e_source_key = skey,
              e_record_id = rid', e_record_set_id = rset, e_source_digest = ea_source_digest a,
              e_fixture_status = status,
              e_regulation_completed =
                (case reg of None \<Rightarrow> status \<in> set completed_statuses | Some b \<Rightarrow> b),
              e_resumable = resumable, e_administrative_award = award,
              e_full_time_home_goals = fh, e_full_time_away_goals = fa,
              e_half_time_home_goals = hh, e_half_time_away_goals = ha,
              e_corners_home = ch, e_corners_away = ca,
              e_extra_time_home_goals = eh, e_extra_time_away_goals = ea,
              e_shootout_home_goals = sh, e_shootout_away_goals = sa,
              e_source_assertion_ids = ids, e_published_at_utc = pub, e_observed_at_utc = obs,
              e_retrieved_at_utc = ret, e_predecessor_id = ea_predecessor_id a,
              e_provenance = prov, e_evidence_digest = []\<rparr>"
  note trim = t10_text_Inr [OF t(1)] t10_text_Inr [OF t(2)] t10_text_Inr [OF t(3)]
    t10_text_Inr [OF t(4)]
  have "trimmed (fid @ '':'' @ skey)" using trim by (intro trimmed_append)
  then have "trimmed rid" using rid by (rule text_if_trimmed [rotated])
  then have "trimmed rset" using rset by (rule text_if_trimmed [rotated])
  moreover have "list_all count_ok [fh, fa, hh, ha, ch, ca, eh, ea, sh, sa]"
    using c by (simp add: checked_count_Inr)
  moreover have e_eq: "e = e0\<lparr>e_evidence_digest := expected\<rparr>" using e by simp
  moreover have "e_evidence_digest e = digest H (PDict (evidence_payload e))"
    by (simp add: e_eq expected)
  ultimately show ?thesis
    using trim t10_strings_facts [OF ids] times [THEN t10_optional_utc_utc_ok]
    unfolding valid_evidence_def valid_fields_def by (simp add: counts_of_def e0 status)
qed

section \<open>The dictionary form and back\<close>

text \<open>A record \<open>from_mapping\<close> can have made: the two optional identifiers are stripped.\<close>

definition storable_evidence :: "hasher \<Rightarrow> settlement_evidence \<Rightarrow> bool" where
  "storable_evidence H e \<longleftrightarrow>
     valid_evidence H e \<and> opt_trimmed (e_predecessor_id e) \<and> opt_trimmed (e_source_digest e)"

lemma t10_optional_text_opt_str [simp]: "opt_trimmed v \<Longrightarrow> t10_optional_text (opt_str v) l = Inr v"
  by (cases v) (simp_all add: t10_optional_text_def opt_trimmed_def)

lemma t10_optional_text_Inr: "t10_optional_text v l = Inr w \<Longrightarrow> opt_trimmed w"
  by (auto simp: t10_optional_text_def opt_trimmed_def dest: t10_text_Inr split: if_splits)

lemma utc_ok_trimmed: "utc_ok v \<Longrightarrow> opt_trimmed v"
  by (auto simp: utc_ok_def opt_trimmed_def t10_optional_utc_def t10_canonical_utc_def
      intro: canonical_text_trimmed split: option.splits sum.splits time_error.splits)

lemma checked_bool_PBool [simp]: "checked_bool m (PBool b) = Inr b"
  by (simp add: checked_bool_def)

lemma t10_boolean_PBool [simp]: "t10_boolean (PBool b) l d = Inr b"
  by (simp add: t10_boolean_def)

lemma mapped_integer_present [simp]:
  "map_of m k = Some (opt_int c) \<Longrightarrow> count_ok c \<Longrightarrow> mapped_integer m (k # ks) = Inr (opt_int c)"
  by (cases c) (auto simp: count_ok_def)

text \<open>What each field of the dictionary form is.\<close>

lemma evidence_dict_lookup:
  "map_of (evidence_to_dict H e) ''fixture_id'' = Some (PStr (e_fixture_id e))"
  "map_of (evidence_to_dict H e) ''record_set_id'' = Some (PStr (e_record_set_id e))"
  "map_of (evidence_to_dict H e) ''record_id'' = Some (PStr (e_record_id e))"
  "map_of (evidence_to_dict H e) ''source_key'' = Some (PStr (e_source_key e))"
  "map_of (evidence_to_dict H e) ''source_level'' = Some (PStr (source_text (e_source_level e)))"
  "map_of (evidence_to_dict H e) ''source_digest'' = Some (opt_str (e_source_digest e))"
  "map_of (evidence_to_dict H e) ''fixture_status'' = Some (PStr (e_fixture_status e))"
  "map_of (evidence_to_dict H e) ''regulation_completed'' = Some (PBool (e_regulation_completed e))"
  "map_of (evidence_to_dict H e) ''resumable'' = Some (PBool (e_resumable e))"
  "map_of (evidence_to_dict H e) ''administrative_award'' = Some (PBool (e_administrative_award e))"
  "map_of (evidence_to_dict H e) ''full_time_home_goals'' = Some (opt_int (e_full_time_home_goals e))"
  "map_of (evidence_to_dict H e) ''full_time_away_goals'' = Some (opt_int (e_full_time_away_goals e))"
  "map_of (evidence_to_dict H e) ''half_time_home_goals'' = Some (opt_int (e_half_time_home_goals e))"
  "map_of (evidence_to_dict H e) ''half_time_away_goals'' = Some (opt_int (e_half_time_away_goals e))"
  "map_of (evidence_to_dict H e) ''corners_home'' = Some (opt_int (e_corners_home e))"
  "map_of (evidence_to_dict H e) ''corners_away'' = Some (opt_int (e_corners_away e))"
  "map_of (evidence_to_dict H e) ''extra_time_home_goals'' = Some (opt_int (e_extra_time_home_goals e))"
  "map_of (evidence_to_dict H e) ''extra_time_away_goals'' = Some (opt_int (e_extra_time_away_goals e))"
  "map_of (evidence_to_dict H e) ''shootout_home_goals'' = Some (opt_int (e_shootout_home_goals e))"
  "map_of (evidence_to_dict H e) ''shootout_away_goals'' = Some (opt_int (e_shootout_away_goals e))"
  "map_of (evidence_to_dict H e) ''source_assertion_ids'' = Some (str_list (e_source_assertion_ids e))"
  "map_of (evidence_to_dict H e) ''published_at_utc'' = Some (opt_str (e_published_at_utc e))"
  "map_of (evidence_to_dict H e) ''observed_at_utc'' = Some (opt_str (e_observed_at_utc e))"
  "map_of (evidence_to_dict H e) ''retrieved_at_utc'' = Some (opt_str (e_retrieved_at_utc e))"
  "map_of (evidence_to_dict H e) ''predecessor_id'' = Some (opt_str (e_predecessor_id e))"
  "map_of (evidence_to_dict H e) ''provenance'' = Some (PDict (e_provenance e))"
  "map_of (evidence_to_dict H e) ''evidence_digest'' = Some (PStr (e_evidence_digest e))"
  "map_of (evidence_to_dict H e) ''evidence_id'' = Some (PStr (evidence_id H e))"
  by (simp_all add: evidence_to_dict_def evidence_payload_def)

text \<open>The constructor called on the fields of a record.\<close>

definition own_args :: "settlement_evidence \<Rightarrow> evidence_args" where
  "own_args e =
     \<lparr>ea_fixture_id = PStr (e_fixture_id e),
      ea_source_level = PStr (source_text (e_source_level e)),
      ea_source_key = PStr (e_source_key e), ea_record_id = PStr (e_record_id e),
      ea_record_set_id = PStr (e_record_set_id e), ea_source_digest = e_source_digest e,
      ea_fixture_status = PStr (e_fixture_status e),
      ea_regulation_completed = PBool (e_regulation_completed e),
      ea_resumable = PBool (e_resumable e),
      ea_administrative_award = PBool (e_administrative_award e),
      ea_full_time_home_goals = opt_int (e_full_time_home_goals e),
      ea_full_time_away_goals = opt_int (e_full_time_away_goals e),
      ea_half_time_home_goals = opt_int (e_half_time_home_goals e),
      ea_half_time_away_goals = opt_int (e_half_time_away_goals e),
      ea_corners_home = opt_int (e_corners_home e), ea_corners_away = opt_int (e_corners_away e),
      ea_extra_time_home_goals = opt_int (e_extra_time_home_goals e),
      ea_extra_time_away_goals = opt_int (e_extra_time_away_goals e),
      ea_shootout_home_goals = opt_int (e_shootout_home_goals e),
      ea_shootout_away_goals = opt_int (e_shootout_away_goals e),
      ea_source_assertion_ids = str_list (e_source_assertion_ids e),
      ea_published_at_utc = e_published_at_utc e, ea_observed_at_utc = e_observed_at_utc e,
      ea_retrieved_at_utc = e_retrieved_at_utc e, ea_predecessor_id = e_predecessor_id e,
      ea_provenance = PDict (e_provenance e), ea_evidence_digest = e_evidence_digest e\<rparr>"

lemma evidence_init_own:
  assumes "valid_evidence H e"
  shows "evidence_init H (own_args e) = Inr e"
proof -
  have v: "valid_fields e" and d: "e_evidence_digest e = digest H (PDict (evidence_payload e))"
    using assms by (simp_all add: valid_evidence_def)
  note v = v [unfolded valid_fields_def counts_of_def]
  have utc: "t10_optional_utc (e_published_at_utc e) = Inr (e_published_at_utc e)"
    "t10_optional_utc (e_observed_at_utc e) = Inr (e_observed_at_utc e)"
    "t10_optional_utc (e_retrieved_at_utc e) = Inr (e_retrieved_at_utc e)"
    using v by (simp_all add: utc_ok_def)
  have ids: "t10_strings (str_list (e_source_assertion_ids e)) = Inr (e_source_assertion_ids e)"
    using v by (intro t10_strings_str_list) (simp_all add: list_all_iff)
  have dig: "digest H (PDict (evidence_payload (e\<lparr>e_evidence_digest := []\<rparr>))) = e_evidence_digest e"
    using d by simp
  have up: "upper (e_fixture_status e) = e_fixture_status e" using v by blast
  have ne: "e_record_id e \<noteq> []" "e_record_set_id e \<noteq> []"
    using v by (auto simp: trimmed_def)
  have eta: "\<lparr>e_fixture_id = e_fixture_id e, e_source_level = e_source_level e,
      e_source_key = e_source_key e, e_record_id = e_record_id e,
      e_record_set_id = e_record_set_id e, e_source_digest = e_source_digest e,
      e_fixture_status = e_fixture_status e, e_regulation_completed = e_regulation_completed e,
      e_resumable = e_resumable e, e_administrative_award = e_administrative_award e,
      e_full_time_home_goals = e_full_time_home_goals e,
      e_full_time_away_goals = e_full_time_away_goals e,
      e_half_time_home_goals = e_half_time_home_goals e,
      e_half_time_away_goals = e_half_time_away_goals e, e_corners_home = e_corners_home e,
      e_corners_away = e_corners_away e, e_extra_time_home_goals = e_extra_time_home_goals e,
      e_extra_time_away_goals = e_extra_time_away_goals e,
      e_shootout_home_goals = e_shootout_home_goals e,
      e_shootout_away_goals = e_shootout_away_goals e,
      e_source_assertion_ids = e_source_assertion_ids e,
      e_published_at_utc = e_published_at_utc e, e_observed_at_utc = e_observed_at_utc e,
      e_retrieved_at_utc = e_retrieved_at_utc e, e_predecessor_id = e_predecessor_id e,
      e_provenance = e_provenance e, e_evidence_digest = []\<rparr> = e\<lparr>e_evidence_digest := []\<rparr>"
    by simp
  show ?thesis
    using v unfolding evidence_init_def own_args_def
    by (simp add: utc ids up ne Let_def eta dig del: evidence_payload_digest_free)
qed

lemma evidence_from_dict:
  assumes "storable_evidence H e"
  shows "evidence_from_mapping H (evidence_to_dict H e) = Inr e"
proof -
  have v: "valid_evidence H e" "opt_trimmed (e_predecessor_id e)" "opt_trimmed (e_source_digest e)"
    using assms by (simp_all add: storable_evidence_def)
  then have w: "valid_fields e" by (simp add: valid_evidence_def)
  note w = w [unfolded valid_fields_def counts_of_def]
  have ids: "t10_strings (str_list (e_source_assertion_ids e)) = Inr (e_source_assertion_ids e)"
    using w by (intro t10_strings_str_list) (simp_all add: list_all_iff)
  have utc: "opt_trimmed (e_published_at_utc e)" "opt_trimmed (e_observed_at_utc e)"
    "opt_trimmed (e_retrieved_at_utc e)" using w utc_ok_trimmed by blast+
  have "opt_trimmed (Some (e_record_set_id e))" using w by (simp add: opt_trimmed_def)
  from t10_optional_text_opt_str [OF this]
  have rset: "t10_optional_text (PStr (e_record_set_id e)) l = Inr (Some (e_record_set_id e))" for l
    by simp
  show ?thesis
    using w unfolding evidence_from_mapping_def get_or_def evidence_dict_lookup option.case
    by (simp add: v utc ids rset evidence_dict_lookup py_str_def
        evidence_init_own [OF v(1), unfolded own_args_def] del: mapped_integer.simps)
qed


text \<open>A completed or void record for the witnesses, with a short stand-in digest or its own.\<close>

definition raw_evidence ::
  "settlement_source \<Rightarrow> string \<Rightarrow> string \<Rightarrow> int \<Rightarrow> int \<Rightarrow> settlement_evidence" where
  "raw_evidence level rid status home away =
     \<lparr>e_fixture_id = ''F1'', e_source_level = level, e_source_key = ''src'',
      e_record_id = rid, e_record_set_id = rid, e_source_digest = None,
      e_fixture_status = status, e_regulation_completed = (status \<in> set completed_statuses),
      e_resumable = False, e_administrative_award = False,
      e_full_time_home_goals = Some home, e_full_time_away_goals = Some away,
      e_half_time_home_goals = Some 1, e_half_time_away_goals = Some 0,
      e_corners_home = Some 5, e_corners_away = Some 4,
      e_extra_time_home_goals = None, e_extra_time_away_goals = None,
      e_shootout_home_goals = None, e_shootout_away_goals = None,
      e_source_assertion_ids = [], e_published_at_utc = None, e_observed_at_utc = None,
      e_retrieved_at_utc = None, e_predecessor_id = None, e_provenance = [],
      e_evidence_digest = rid\<rparr>"

definition sample_evidence ::
  "hasher \<Rightarrow> settlement_source \<Rightarrow> string \<Rightarrow> string \<Rightarrow> int \<Rightarrow> int \<Rightarrow> settlement_evidence" where
  "sample_evidence H level rid status home away =
     (let e = raw_evidence level rid status home away
      in e\<lparr>e_evidence_digest := digest H (PDict (evidence_payload e))\<rparr>)"

abbreviation sample_group :: "settlement_source \<Rightarrow> string \<Rightarrow> int \<Rightarrow> int \<Rightarrow> evidence_group" where
  "sample_group level rid home away \<equiv>
     hd (evidence_groups [raw_evidence level rid ''COMPLETED'' home away])"

lemma evidence_init_links:
  "evidence_init H a = Inr e \<Longrightarrow>
     e_predecessor_id e = ea_predecessor_id a \<and> e_source_digest e = ea_source_digest a"
  unfolding evidence_init_def by (elim bindR_InrE Let_InrE) auto

lemma checked_count_of_opt_int: "checked_count l (opt_int c) = Inr d \<Longrightarrow> d = c"
  by (cases c) (auto simp: checked_count_def split: if_splits)

lemma evidence_init_counts:
  assumes "evidence_init H a = Inr e"
  shows "ea_full_time_home_goals a = opt_int c \<Longrightarrow> e_full_time_home_goals e = c"
    "ea_full_time_away_goals a = opt_int c \<Longrightarrow> e_full_time_away_goals e = c"
    "ea_half_time_home_goals a = opt_int c \<Longrightarrow> e_half_time_home_goals e = c"
    "ea_half_time_away_goals a = opt_int c \<Longrightarrow> e_half_time_away_goals e = c"
    "ea_corners_home a = opt_int c \<Longrightarrow> e_corners_home e = c"
    "ea_corners_away a = opt_int c \<Longrightarrow> e_corners_away e = c"
    "ea_regulation_completed a = PBool b \<Longrightarrow> e_regulation_completed e = b"
  using assms unfolding evidence_init_def
  by (elim bindR_InrE Let_InrE; auto dest!: checked_count_of_opt_int)+

text \<open>Evidence made from a match reports exactly the observed metrics, and a completed match only
  when the final state was observed.\<close>

lemma evidence_from_match_fields:
  assumes "evidence_from_match H m l r = Inr e"
  shows "fact_value e f = observed_metric m f" "e_regulation_completed e \<longleftrightarrow> hm_final_state m = OBSERVED"
proof -
  note c = evidence_init_counts [OF assms [unfolded evidence_from_match_def]]
  show "fact_value e f = observed_metric m f" by (cases f) (auto intro: c)
  show "e_regulation_completed e \<longleftrightarrow> hm_final_state m = OBSERVED" by (rule c(7)) simp
qed

lemma status_kind_complete: "status_kind_of e = COMPLETE_KIND \<Longrightarrow> e_regulation_completed e"
  by (auto simp: status_kind_of_def split: if_splits)

lemma evidence_init_storable:
  "evidence_init H a = Inr e \<Longrightarrow> opt_trimmed (ea_predecessor_id a) \<Longrightarrow>
     opt_trimmed (ea_source_digest a) \<Longrightarrow> storable_evidence H e"
  by (auto simp: storable_evidence_def evidence_init_valid dest: evidence_init_links)

lemma evidence_from_mapping_storable:
  assumes "evidence_from_mapping H m = Inr e"
  shows "storable_evidence H e"
  using assms unfolding evidence_from_mapping_def
  by (elim bindR_InrE) (drule sum.inject(2) [THEN iffD1], hypsubst,
      erule evidence_init_storable, simp_all add: t10_optional_text_Inr)

section \<open>Properties of the record\<close>

text \<open>C32: a Settlement Evidence record the constructor accepts is well formed: stripped
  identifiers, an upper-case status, non-negative counts, sorted distinct assertion identifiers,
  canonical UTC times, and a digest that is the digest of its own payload.\<close>

theorem evidence_constructor_valid:
  assumes "evidence_init H a = Inr e"
  shows "valid_evidence H e \<and> evidence_init H (own_args e) = Inr e"
  using evidence_init_valid [OF assms] evidence_init_own by blast

theorem evidence_constructor_valid_witness:
  "valid_evidence plain_hasher
     (sample_evidence plain_hasher CLUB ''r'' ''COMPLETED'' 2 1)"
proof -
  let ?e = "sample_evidence plain_hasher CLUB ''r'' ''COMPLETED'' 2 1"
  have "evidence_init plain_hasher (own_args ?e) = Inr ?e" by code_simp
  from evidence_constructor_valid [OF this] show ?thesis by blast
qed

text \<open>C31: the dictionary form of a record the constructor accepts reads back as the same record, digest and
  identifier included, exactly when its source digest and predecessor are stripped and not empty, or
  absent: the constructor keeps these two as they are given, and \<open>from_mapping\<close> strips them. Those are also
  just the records that \<open>from_mapping\<close> makes of any mapping.\<close>

theorem evidence_dict_roundtrip:
  assumes "evidence_init H a = Inr e"
  shows "(evidence_from_mapping H (evidence_to_dict H e) = Inr e \<longleftrightarrow> opt_trimmed (e_source_digest e) \<and> opt_trimmed (e_predecessor_id e)) \<and>
    ((\<exists>m. evidence_from_mapping H m = Inr e) \<longleftrightarrow> evidence_from_mapping H (evidence_to_dict H e) = Inr e)"
proof -
  have v: "valid_evidence H e" using assms by (rule evidence_init_valid)
  have trimmed: "opt_trimmed (e_source_digest e) \<and> opt_trimmed (e_predecessor_id e)" if "evidence_from_mapping H m = Inr e" for m
    using evidence_from_mapping_storable [OF that] by (simp add: storable_evidence_def)
  have "evidence_from_mapping H (evidence_to_dict H e) = Inr e"
    if "opt_trimmed (e_source_digest e) \<and> opt_trimmed (e_predecessor_id e)"
    using that v by (intro evidence_from_dict) (simp add: storable_evidence_def)
  with trimmed show ?thesis by blast
qed

text \<open>A record that is read back, and one, with a blank before its source digest, that the constructor accepts
  but no mapping gives.\<close>

definition unstripped_evidence :: "hasher \<Rightarrow> settlement_evidence" where
  "unstripped_evidence H =
     (let e = (raw_evidence CLUB ''r'' ''COMPLETED'' 2 1)\<lparr>e_source_digest := Some '' d''\<rparr>
      in e\<lparr>e_evidence_digest := digest H (PDict (evidence_payload e))\<rparr>)"

theorem evidence_dict_roundtrip_witness:
  "evidence_from_mapping plain_hasher (evidence_to_dict plain_hasher (sample_evidence plain_hasher CLUB ''r'' ''COMPLETED'' 2 1)) =
     Inr (sample_evidence plain_hasher CLUB ''r'' ''COMPLETED'' 2 1) \<and>
   evidence_init plain_hasher (own_args (unstripped_evidence plain_hasher)) = Inr (unstripped_evidence plain_hasher) \<and>
   evidence_from_mapping plain_hasher (evidence_to_dict plain_hasher (unstripped_evidence plain_hasher)) \<noteq>
     Inr (unstripped_evidence plain_hasher)"
proof -
  let ?e = "sample_evidence plain_hasher CLUB ''r'' ''COMPLETED'' 2 1" and ?u = "unstripped_evidence plain_hasher"
  have ok: "evidence_init plain_hasher (own_args ?e) = Inr ?e" "evidence_init plain_hasher (own_args ?u) = Inr ?u" by code_simp+
  have links: "opt_trimmed (e_source_digest ?e)" "opt_trimmed (e_predecessor_id ?e)" "\<not> opt_trimmed (e_source_digest ?u)"
    by code_simp+
  show ?thesis using evidence_dict_roundtrip [OF ok(1)] evidence_dict_roundtrip [OF ok(2)] ok(2) links by blast
qed

end
