(* ===== verification/Ranked_Selection.thy ===== *)
theory Ranked_Selection
  imports Prelude
begin

text \<open>
  The choice of a controlling group among groups of ranked authority, as \<open>_fact_group\<close> of
  \<open>t10.py\<close> makes it, over the questions it asks of a group. The locale states what the
  choice relies on and proves what it guarantees; \<open>Settlement_Rules\<close> interprets it on the
  evidence groups.
\<close>

section \<open>The choice\<close>

text \<open>
  The body of \<open>_fact_group\<close> over the four questions it asks of a group: its rank, whether it
  is complete for the fact set, whether it conflicts on it, and its signature.
\<close>

definition pick_group ::
  "('g \<Rightarrow> nat) \<Rightarrow> ('g \<Rightarrow> bool) \<Rightarrow> ('g \<Rightarrow> bool) \<Rightarrow> ('g \<Rightarrow> 's) \<Rightarrow> 'g list \<Rightarrow>
   'g option \<times> bool \<times> 'g list" where
  "pick_group rank ready clash sig groups =
     (let comp = filter ready groups in
      if comp \<noteq> [] then
        let first_rank = Min (set (map rank comp));
            blocking = filter (\<lambda>g. rank g \<le> first_rank \<and> clash g) groups
        in if blocking \<noteq> [] then
             let conflict_rank = Min (set (map rank blocking))
             in (None, True, filter (\<lambda>g. rank g = conflict_rank) blocking)
           else
             let same_rank = filter (\<lambda>g. rank g = first_rank) comp
             in if 1 < card (set (map sig same_rank)) then (None, True, same_rank)
                else (Some (hd same_rank), False,
                      filter (\<lambda>g. first_rank < rank g \<and> (ready g \<or> clash g)) groups)
      else
        let conflicts = filter clash groups
        in if conflicts \<noteq> [] then
             let first_rank = Min (set (map rank conflicts))
             in (None, True, filter (\<lambda>g. rank g = first_rank) conflicts)
           else (None, False, []))"

section \<open>The selection rule\<close>

definition top_groups :: "('g \<Rightarrow> nat) \<Rightarrow> ('g \<Rightarrow> bool) \<Rightarrow> 'g list \<Rightarrow> 'g list" where
  "top_groups rank relevant gs =
     filter (\<lambda>g. relevant g \<and> list_all (\<lambda>h. relevant h \<longrightarrow> rank g \<le> rank h) gs) gs"

definition pick_reference ::
  "('g \<Rightarrow> nat) \<Rightarrow> ('g \<Rightarrow> bool) \<Rightarrow> ('g \<Rightarrow> bool) \<Rightarrow> ('g \<Rightarrow> 's) \<Rightarrow> 'g list \<Rightarrow>
   'g option \<times> bool \<times> 'g list" where
  "pick_reference rank ready clash sig gs =
     (let top = top_groups rank (\<lambda>g. ready g \<or> clash g) gs in
      if top = [] then (None, False, [])
      else if list_ex clash top then (None, True, filter clash top)
      else if list_ex (\<lambda>h. sig h \<noteq> sig (hd top)) top then (None, True, top)
      else (Some (hd top), False,
            filter (\<lambda>g. rank (hd top) < rank g \<and> (ready g \<or> clash g)) gs))"

lemma filter_Min_in:
  "filter P gs \<noteq> [] \<Longrightarrow> Min (rank ` set (filter P gs)) \<in> rank ` set (filter P gs)"
  by (rule Min_in) (simp_all only: finite_imageI List.finite_set image_is_empty set_empty not_False_eq_True)

lemma top_groups_filter: "top_groups rank P gs = top_groups rank (\<lambda>_. True) (filter P gs)"
  by (auto simp: top_groups_def list_all_iff intro!: filter_cong)

lemma top_groups_Min:
  assumes "filter P gs \<noteq> []"
  shows "top_groups rank P gs = filter (\<lambda>g. P g \<and> rank g = Min (rank ` set (filter P gs))) gs"
proof -
  let ?m = "Min (rank ` set (filter P gs))"
  have le: "?m \<le> rank h" if "h \<in> set gs" "P h" for h
    using that by (intro Min_le) auto
  have "?m \<in> rank ` set (filter P gs)" using assms by (rule filter_Min_in)
  then obtain m where m: "m \<in> set gs" "P m" "rank m = ?m" by auto
  show ?thesis unfolding top_groups_def
  proof (rule filter_cong [OF refl])
    fix g assume g: "g \<in> set gs"
    have "rank g = ?m" if "P g" "\<forall>h \<in> set gs. P h \<longrightarrow> rank g \<le> rank h"
      using that m le [OF g] by (metis antisym)
    with le show "(P g \<and> list_all (\<lambda>h. P h \<longrightarrow> rank g \<le> rank h) gs) \<longleftrightarrow> (P g \<and> rank g = ?m)"
      by (auto simp: list_all_iff)
  qed
qed

lemma top_groups_rank:
  assumes "m \<in> set gs" "P m" "rank m = r" "\<And>h. h \<in> set gs \<Longrightarrow> P h \<Longrightarrow> r \<le> rank h"
  shows "top_groups rank P gs = filter (\<lambda>g. P g \<and> rank g = r) gs"
  using assms unfolding top_groups_def
  by (auto simp: list_all_iff intro!: filter_cong intro: antisym)

lemma top_groups_Nil_iff: "top_groups rank P gs = [] \<longleftrightarrow> filter P gs = []"
proof
  assume t: "top_groups rank P gs = []"
  show "filter P gs = []"
  proof (rule ccontr)
    assume f: "filter P gs \<noteq> []"
    then have "Min (rank ` set (filter P gs)) \<in> rank ` set (filter P gs)"
      by (rule filter_Min_in)
    with t show False unfolding top_groups_Min [OF f] filter_empty_conv by auto
  qed
qed (auto simp: top_groups_def filter_empty_conv)

lemma top_groups_mem:
  "g \<in> set (top_groups rank P gs) \<longleftrightarrow>
     g \<in> set gs \<and> P g \<and> (\<forall>h \<in> set gs. P h \<longrightarrow> rank g \<le> rank h)"
  by (auto simp: top_groups_def list_all_iff)

lemma card_distinct_iff:
  assumes "xs \<noteq> []"
  shows "1 < card (set (map f xs)) \<longleftrightarrow> list_ex (\<lambda>x. f x \<noteq> f (hd xs)) xs"
proof
  assume c: "1 < card (set (map f xs))"
  show "list_ex (\<lambda>x. f x \<noteq> f (hd xs)) xs"
  proof (rule ccontr)
    assume "\<not> list_ex (\<lambda>x. f x \<noteq> f (hd xs)) xs"
    then have "set (map f xs) \<subseteq> {f (hd xs)}" by (auto simp: list_ex_iff)
    then have "card (set (map f xs)) \<le> card {f (hd xs)}" by (rule card_mono [rotated]) simp
    with c show False by simp
  qed
next
  assume "list_ex (\<lambda>x. f x \<noteq> f (hd xs)) xs"
  then obtain x where x: "x \<in> set xs" "f x \<noteq> f (hd xs)" by (auto simp: list_ex_iff)
  have "{f x, f (hd xs)} \<subseteq> set (map f xs)" using x(1) assms by auto
  then have "card {f x, f (hd xs)} \<le> card (set (map f xs))" by (intro card_mono) auto
  then show "1 < card (set (map f xs))" using x(2) by simp
qed

lemma pick_group_reference: "pick_group rank ready clash sig gs = pick_reference rank ready clash sig gs"
proof -
  let ?P = "\<lambda>g. ready g \<or> clash g"
  let ?top = "top_groups rank ?P gs"
  define comp where "comp = filter ready gs"
  define r where "r = Min (set (map rank comp))"
  define blocking where "blocking = filter (\<lambda>g. rank g \<le> r \<and> clash g) gs"
  have r_le: "r \<le> rank h" if "h \<in> set gs" "ready h" for h
    unfolding r_def comp_def using that by (intro Min_le) auto
  have r_in: "\<exists>g \<in> set gs. ready g \<and> rank g = r" if "comp \<noteq> []"
  proof -
    have "r \<in> set (map rank comp)" unfolding r_def using that by (intro Min_in) auto
    then show ?thesis by (auto simp: comp_def)
  qed
  consider (none) "comp = []" "filter clash gs = []" | (clashes) "comp = []" "filter clash gs \<noteq> []"
    | (blocked) "comp \<noteq> []" "blocking \<noteq> []" | (picked) "comp \<noteq> []" "blocking = []" by blast
  then show ?thesis
  proof cases
    case none
    then have "?top = []" by (auto simp: comp_def top_groups_Nil_iff filter_empty_conv)
    then show ?thesis using none by (simp add: pick_group_def pick_reference_def comp_def)
  next
    case clashes
    have no: "\<And>g. g \<in> set gs \<Longrightarrow> \<not> ready g" using clashes(1) by (auto simp: comp_def filter_empty_conv)
    have P: "filter ?P gs = filter clash gs" by (rule filter_cong) (auto simp: no)
    have top: "?top = filter (\<lambda>g. rank g = Min (set (map rank (filter clash gs)))) (filter clash gs)"
      using clashes(2) by (subst top_groups_Min) (auto simp: P no intro!: filter_cong)
    have ne: "?top \<noteq> []" using clashes(2) by (simp add: top_groups_Nil_iff P)
    have all: "\<And>g. g \<in> set ?top \<Longrightarrow> clash g" by (simp add: top)
    then have "list_ex clash ?top" "filter clash ?top = ?top"
      unfolding list_ex_iff using hd_in_set [OF ne] by (blast, intro filter_True ballI)
    then show ?thesis using clashes ne
      unfolding pick_group_def pick_reference_def Let_def comp_def [symmetric] top [symmetric] by simp
  next
    case blocked
    define c where "c = Min (set (map rank blocking))"
    have "c \<in> set (map rank blocking)" unfolding c_def using blocked(2) by (intro Min_in) auto
    then obtain b where b: "b \<in> set gs" "clash b" "rank b = c" "c \<le> r" by (auto simp: blocking_def)
    have c_le: "c \<le> rank h" if "h \<in> set gs" "clash h" "rank h \<le> r" for h
      unfolding c_def blocking_def using that by (intro Min_le) auto
    have top: "?top = filter (\<lambda>g. ?P g \<and> rank g = c) gs"
    proof (rule top_groups_rank [of b])
      fix h assume "h \<in> set gs" "?P h"
      then show "c \<le> rank h" using r_le c_le b(4) by (meson le_trans nle_le)
    qed (use b in auto)
    have "b \<in> set ?top" using b by (simp add: top)
    then have "?top \<noteq> []" "list_ex clash ?top" using b(2) by (auto simp: list_ex_iff)
    moreover have "filter clash ?top = filter (\<lambda>g. rank g = c) blocking"
      using b(4) by (auto simp: top blocking_def intro!: filter_cong)
    ultimately show ?thesis
      using blocked unfolding pick_group_def pick_reference_def Let_def comp_def [symmetric]
        r_def [symmetric] blocking_def [symmetric] c_def [symmetric] by simp
  next
    case picked
    obtain m where m: "m \<in> set gs" "ready m" "rank m = r" using r_in [OF picked(1)] by auto
    have above: "r < rank h" if "h \<in> set gs" "clash h" for h
      using picked(2) that by (auto simp: blocking_def filter_empty_conv)
    have "?top = filter (\<lambda>g. ?P g \<and> rank g = r) gs"
      by (rule top_groups_rank [of m]) (use m r_le above in \<open>auto intro: less_imp_le\<close>)
    also have "\<dots> = filter (\<lambda>g. rank g = r) comp"
      using above by (auto simp: comp_def intro!: filter_cong)
    finally have top: "?top = filter (\<lambda>g. rank g = r) comp" .
    have mem: "m \<in> set ?top" using m by (simp add: top comp_def)
    then have ne: "?top \<noteq> []" by auto
    have "\<not> list_ex clash ?top"
      using above by (auto simp: top comp_def list_ex_iff)
    moreover have "rank (hd ?top) = r" using hd_in_set [OF ne] by (simp add: top)
    ultimately show ?thesis
      using picked ne card_distinct_iff [OF ne, of sig]
      unfolding pick_group_def pick_reference_def Let_def comp_def [symmetric]
        r_def [symmetric] blocking_def [symmetric] top [symmetric] by simp
  qed
qed


text \<open>
  The interface of the selection: a complete group does not conflict, and complete groups with
  equal signatures give equal answers.
\<close>

locale ranked_selection =
  fixes rank :: "'g \<Rightarrow> nat" and ready :: "'g \<Rightarrow> bool" and clash :: "'g \<Rightarrow> bool"
    and sig :: "'g \<Rightarrow> 's" and answer :: "'g \<Rightarrow> 'v"
  assumes ready_not_clash: "ready g \<Longrightarrow> \<not> clash g"
    and sig_answer: "ready g \<Longrightarrow> ready h \<Longrightarrow> sig g = sig h \<Longrightarrow> answer g = answer h"
begin

abbreviation pick :: "'g list \<Rightarrow> 'g option \<times> bool \<times> 'g list" where
  "pick \<equiv> pick_group rank ready clash sig"

abbreviation tops :: "'g list \<Rightarrow> 'g list" where
  "tops \<equiv> top_groups rank (\<lambda>g. ready g \<or> clash g)"

text \<open>A group that every rival leaves in control.\<close>

definition in_control :: "'g list \<Rightarrow> 'g \<Rightarrow> bool" where
  "in_control gs g \<longleftrightarrow> g \<in> set gs \<and> ready g \<and>
     (\<forall>h \<in> set gs. (clash h \<longrightarrow> rank g < rank h) \<and>
        (ready h \<longrightarrow> rank g \<le> rank h \<and> (rank h = rank g \<longrightarrow> sig h = sig g)))"

lemma in_control_top: "in_control gs g \<longleftrightarrow>
    g \<in> set (tops gs) \<and> (\<forall>h \<in> set (tops gs). \<not> clash h \<and> sig h = sig g)"
  (is "_ \<longleftrightarrow> ?R")
proof
  assume c: "in_control gs g"
  then have g: "g \<in> set (tops gs)" by (auto simp: in_control_def top_groups_mem intro: less_imp_le)
  have "\<not> clash h \<and> sig h = sig g" if h: "h \<in> set (tops gs)" for h
  proof -
    have "rank h = rank g" using g h by (auto simp: top_groups_mem intro: antisym)
    moreover have "h \<in> set gs" "ready h \<or> clash h" using h by (simp_all add: top_groups_mem)
    ultimately show ?thesis using c unfolding in_control_def by (metis less_irrefl)
  qed
  with g show ?R by blast
next
  assume R: ?R
  then have t: "g \<in> set (tops gs)" by (rule conjunct1)
  moreover have "\<not> clash g" using R t by blast
  ultimately have g: "g \<in> set gs" "ready g" by (simp_all add: top_groups_mem)
  have le: "rank g \<le> rank h" if "h \<in> set gs" "ready h \<or> clash h" for h
    using t that unfolding top_groups_mem by blast
  have same: "\<not> clash h \<and> sig h = sig g" if "h \<in> set gs" "ready h \<or> clash h" "rank h = rank g" for h
  proof -
    have "h \<in> set (tops gs)" using that le by (simp add: top_groups_mem)
    then show ?thesis using R by blast
  qed
  show "in_control gs g" unfolding in_control_def
    using g le same by (metis order.strict_iff_order)
qed

definition clashing :: "'g list \<Rightarrow> bool" where
  "clashing gs \<longleftrightarrow> (\<exists>h \<in> set (tops gs). clash h)"

definition disagreeing :: "'g list \<Rightarrow> bool" where
  "disagreeing gs \<longleftrightarrow> (\<exists>h \<in> set (tops gs). sig h \<noteq> sig (hd (tops gs)))"

lemma pick_tops:
  "pick gs =
     (if tops gs = [] then (None, False, [])
      else if clashing gs then (None, True, filter clash (tops gs))
      else if disagreeing gs then (None, True, tops gs)
      else (Some (hd (tops gs)), False,
            filter (\<lambda>g. rank (hd (tops gs)) < rank g \<and> (ready g \<or> clash g)) gs))"
  unfolding pick_group_reference pick_reference_def Let_def list_ex_iff clashing_def disagreeing_def ..

lemma in_control_hd:
  "tops gs \<noteq> [] \<Longrightarrow> in_control gs (hd (tops gs)) \<longleftrightarrow> \<not> clashing gs \<and> \<not> disagreeing gs"
  unfolding in_control_top clashing_def disagreeing_def using hd_in_set by blast

lemma pick_in_control:
  assumes "pick gs = (Some g, c, rel)"
  shows "in_control gs g" "\<not> c" "rel = filter (\<lambda>h. rank g < rank h \<and> (ready h \<or> clash h)) gs"
    "g = hd (tops gs)"
proof -
  have *: "tops gs \<noteq> []" "g = hd (tops gs)" "\<not> clashing gs" "\<not> disagreeing gs" "\<not> c"
    using assms unfolding pick_tops by (simp_all split: if_splits)
  show "in_control gs g" using in_control_hd [OF *(1)] * by simp
  show "\<not> c" "g = hd (tops gs)" using * by blast+
  show "rel = filter (\<lambda>h. rank g < rank h \<and> (ready h \<or> clash h)) gs"
    using assms unfolding pick_tops *(2) [symmetric] by (simp add: *(1,3,4))
qed

lemma in_control_pick:
  assumes "in_control gs g"
  shows "\<exists>h rel. pick gs = (Some h, False, rel) \<and> rank h = rank g \<and> answer h = answer g"
proof -
  have g: "g \<in> set (tops gs)" and R: "\<And>h. h \<in> set (tops gs) \<Longrightarrow> \<not> clash h \<and> sig h = sig g"
    using assms unfolding in_control_top by blast+
  from g have ne: "tops gs \<noteq> []" by auto
  let ?h = "hd (tops gs)"
  have h: "?h \<in> set (tops gs)" using ne by simp
  have "ready g" using assms by (simp add: in_control_def)
  moreover have "ready ?h" using h conjunct1 [OF R [OF h]] by (simp add: top_groups_mem)
  moreover have "rank ?h = rank g" using h g by (auto simp: top_groups_mem intro: antisym)
  moreover have "\<not> clashing gs" "\<not> disagreeing gs"
    unfolding clashing_def disagreeing_def using R h by metis+
  ultimately show ?thesis using ne sig_answer [of ?h g] R [OF h]
    unfolding pick_tops by simp
qed

text \<open>The answer does not depend on the order in which the groups are met.\<close>

lemma pick_answer_cong:
  assumes "\<And>g. in_control gs g \<longleftrightarrow> in_control gs' g" and "fst (pick gs) = Some g"
  shows "map_option answer (fst (pick gs)) = map_option answer (fst (pick gs'))"
proof -
  obtain c rel where "pick gs = (Some g, c, rel)" using assms(2) by (cases "pick gs") auto
  then have "in_control gs' g" using pick_in_control(1) assms(1) by blast
  then obtain h rel' where "pick gs' = (Some h, False, rel')" "answer h = answer g"
    using in_control_pick by blast
  then show ?thesis using assms(2) by simp
qed

lemma pick_conflict_iff:
  "fst (snd (pick gs)) \<longleftrightarrow> tops gs \<noteq> [] \<and> (\<nexists>g. in_control gs g)"
proof (cases "\<exists>g. in_control gs g")
  case True
  then show ?thesis using in_control_pick by fastforce
next
  case False
  then show ?thesis using in_control_hd [of gs] unfolding pick_tops
    by (cases "tops gs = []"; cases "clashing gs"; cases "disagreeing gs") simp_all
qed

lemma pick_order_independent:
  assumes "set gs = set gs'"
  shows "map_option answer (fst (pick gs)) = map_option answer (fst (pick gs'))"
    and "fst (snd (pick gs)) = fst (snd (pick gs'))"
proof -
  have eq: "in_control gs g \<longleftrightarrow> in_control gs' g" for g
    using assms by (simp add: in_control_def)
  have "set (tops gs) = set (tops gs')" using assms by (auto simp: top_groups_mem)
  then show "fst (snd (pick gs)) = fst (snd (pick gs'))"
    unfolding pick_conflict_iff eq by (metis set_empty)
  show "map_option answer (fst (pick gs)) = map_option answer (fst (pick gs'))"
    using pick_answer_cong [of gs gs'] pick_answer_cong [of gs' gs] eq
    by (cases "fst (pick gs)"; cases "fst (pick gs')") simp_all
qed

text \<open>Groups of lower authority than the selected one have no say.\<close>

lemma pick_lower_authority:
  assumes "pick gs = (Some g, False, rel)"
    and "filter (\<lambda>h. rank h \<le> rank g) gs' = filter (\<lambda>h. rank h \<le> rank g) gs"
  shows "fst (pick gs') = Some g \<and> \<not> fst (snd (pick gs'))"
proof -
  have c: "in_control gs g" using assms(1) by (rule pick_in_control)
  have same: "h \<in> set gs \<longleftrightarrow> h \<in> set gs'" if "rank h \<le> rank g" for h
    using arg_cong [OF assms(2), of set] that by auto
  have c': "in_control gs' g"
    using c same unfolding in_control_def by (metis le_refl linorder_le_less_linear nat_less_le)
  have tops: "tops xs = filter (\<lambda>h. (ready h \<or> clash h) \<and> rank h = rank g) (filter (\<lambda>h. rank h \<le> rank g) xs)"
    if "in_control xs g" for xs
  proof -
    have "tops xs = filter (\<lambda>h. (ready h \<or> clash h) \<and> rank h = rank g) xs"
      using that by (intro top_groups_rank [of g]) (auto simp: in_control_def intro: less_imp_le)
    also have "\<dots> = filter (\<lambda>h. (ready h \<or> clash h) \<and> rank h = rank g) (filter (\<lambda>h. rank h \<le> rank g) xs)"
      by (auto intro!: filter_cong)
    finally show ?thesis .
  qed
  have eq: "tops gs' = tops gs" using tops [OF c] tops [OF c'] assms(2) by simp
  obtain h rel' where h: "pick gs' = (Some h, False, rel')" using in_control_pick [OF c'] by blast
  then show ?thesis using pick_in_control(4) [OF h] pick_in_control(4) [OF assms(1)] eq by simp
qed

end

end
