(* ===== verification/Settlement_Rules.thy ===== *)
theory Settlement_Rules
  imports Settlement_Evidence Ranked_Selection
begin

text \<open>
  The pure rules of \<open>t10.py\<close> on evidence groups: which group controls the fixture status and
  which the required facts, and the exact settlement arithmetic of the twelve preference
  families. The properties say what the rules decide on every preference of the catalogue.
\<close>

section \<open>Choosing the controlling source\<close>

text \<open>\<open>_status_group\<close>\<close>

definition status_group :: "evidence_group list \<Rightarrow> evidence_group option \<times> bool" where
  "status_group groups =
     (if groups = [] then (None, False)
      else
        let first_rank = Min (set (map g_rank groups));
            highest = filter (\<lambda>g. g_rank g = first_rank) groups;
            kinds = \<Union> (set (map g_status_kinds highest))
        in if 1 < card kinds then (None, True) else (Some (hd highest), False))"

definition fact_group ::
  "evidence_group list \<Rightarrow> fact list \<Rightarrow> evidence_group option \<times> bool \<times> evidence_group list" where
  "fact_group groups facts =
     pick_group g_rank (\<lambda>g. g_complete_for g facts) (\<lambda>g. g_conflicts_for g facts)
       (\<lambda>g. g_signature g facts) groups"

section \<open>Settlement arithmetic\<close>

text \<open>\<open>_over_result\<close>\<close>

definition over_result :: "int \<Rightarrow> rat \<Rightarrow> (t10_error, settlement_result) res" where
  "over_result value lin =
     (let left = 2 * value; right = lin * 2 in
      if denom right \<noteq> 1
      then Inl (T10IntegrityError ''v1 Over settlement lines must be representable in half-units.'')
      else if numer right < left then Inr WIN
      else if left < numer right then Inr LOSS
      else Inl (T10IntegrityError ''An enabled v1 .5 Over line cannot settle at equality.''))"

text \<open>\<open>assert preference.line is not None\<close>, then use it.\<close>

definition with_line ::
  "betting_preference \<Rightarrow> (rat \<Rightarrow> (t10_error, settlement_result) res) \<Rightarrow>
   (t10_error, settlement_result) res" where
  "with_line p k = (case line p of None \<Rightarrow> Inl PyAssertionError | Some r \<Rightarrow> k r)"

text \<open>Unpacking a tuple into two or four names.\<close>

definition unpack2 ::
  "int list \<Rightarrow> (int \<Rightarrow> int \<Rightarrow> (t10_error, 'a) res) \<Rightarrow> (t10_error, 'a) res" where
  "unpack2 vs k = (case vs of [x, y] \<Rightarrow> k x y | _ \<Rightarrow> Inl PyValueError)"

definition unpack4 ::
  "int list \<Rightarrow> (int \<Rightarrow> int \<Rightarrow> int \<Rightarrow> int \<Rightarrow> (t10_error, 'a) res) \<Rightarrow> (t10_error, 'a) res" where
  "unpack4 vs k = (case vs of [x, y, z, w] \<Rightarrow> k x y z w | _ \<Rightarrow> Inl PyValueError)"

definition win_if :: "bool \<Rightarrow> settlement_result" where
  "win_if b = (if b then WIN else LOSS)"

definition three_way :: "string \<Rightarrow> int \<Rightarrow> int \<Rightarrow> bool" where
  "three_way sel home away =
     (if sel = ''Home'' then away < home else if sel = ''Away'' then home < away else home = away)"

text \<open>\<open>_settle_preference\<close>\<close>

definition settle_preference ::
  "betting_preference \<Rightarrow> evidence_group \<Rightarrow> (t10_error, settlement_result) res" where
  "settle_preference p g =
     (case family p of
        MATCH_WINNER \<Rightarrow>
          bindR (g_values_for g full_goal_facts) (\<lambda>vs. unpack2 vs (\<lambda>home away.
            Inr (win_if (three_way (selection p) home away))))
      | DOUBLE_CHANCE \<Rightarrow>
          bindR (g_values_for g full_goal_facts) (\<lambda>vs. unpack2 vs (\<lambda>home away.
            Inr (win_if (if selection p = ''1X'' then away \<le> home
                         else if selection p = ''X2'' then home \<le> away
                         else home \<noteq> away))))
      | ASIAN_HANDICAP \<Rightarrow>
          bindR (g_values_for g full_goal_facts) (\<lambda>vs. unpack2 vs (\<lambda>home away.
            with_line p (\<lambda>lin.
              let backed_difference = (if selection p = ''Home'' then home - away else away - home);
                  adjusted_margin = of_int (2 * backed_difference) + lin * 2
              in Inr (if 0 < adjusted_margin then WIN
                      else if adjusted_margin = 0 then PUSH else LOSS))))
      | FIRST_HALF_OVER \<Rightarrow>
          bindR (g_values_for g half_goal_facts) (\<lambda>vs. unpack4 vs
            (\<lambda>home away home_half away_half.
              with_line p (\<lambda>lin. over_result (home_half + away_half) lin)))
      | SECOND_HALF_OVER \<Rightarrow>
          bindR (g_values_for g half_goal_facts) (\<lambda>vs. unpack4 vs
            (\<lambda>home away home_half away_half.
              with_line p (\<lambda>lin. over_result (home - home_half + away - away_half) lin)))
      | MATCH_GOALS_OVER \<Rightarrow>
          bindR (g_values_for g full_goal_facts) (\<lambda>vs. unpack2 vs (\<lambda>home away.
            with_line p (\<lambda>lin. over_result (home + away) lin)))
      | HOME_TEAM_GOALS_OVER \<Rightarrow>
          bindR (g_values_for g full_goal_facts) (\<lambda>vs.
            with_line p (\<lambda>lin. over_result (vs ! 0) lin))
      | AWAY_TEAM_GOALS_OVER \<Rightarrow>
          bindR (g_values_for g full_goal_facts) (\<lambda>vs.
            with_line p (\<lambda>lin. over_result (vs ! 1) lin))
      | CORNER_WINNER \<Rightarrow>
          bindR (g_values_for g corner_facts) (\<lambda>vs. unpack2 vs (\<lambda>home away.
            Inr (win_if (three_way (selection p) home away))))
      | TOTAL_CORNERS_OVER \<Rightarrow>
          bindR (g_values_for g corner_facts) (\<lambda>vs. unpack2 vs (\<lambda>home away.
            with_line p (\<lambda>lin. over_result (home + away) lin)))
      | HOME_CORNERS_OVER \<Rightarrow>
          bindR (g_values_for g corner_facts) (\<lambda>vs. unpack2 vs (\<lambda>home away.
            with_line p (\<lambda>lin. over_result home lin)))
      | AWAY_CORNERS_OVER \<Rightarrow>
          bindR (g_values_for g corner_facts) (\<lambda>vs. unpack2 vs (\<lambda>home away.
            with_line p (\<lambda>lin. over_result away lin))))"

section \<open>Groups as ranked sources\<close>

lemma g_complete_not_conflict: "g_complete_for g facts \<Longrightarrow> \<not> g_conflicts_for g facts"
  by (auto simp: g_complete_for_def g_conflicts_for_def list_all_iff list_ex_iff)

lemma g_values_complete:
  "g_complete_for g facts \<Longrightarrow> g_values_for g facts = Inr (map the (g_signature g facts))"
  by (simp add: g_values_for_def g_signature_def)

interpretation fact_source: ranked_selection g_rank "\<lambda>g. g_complete_for g facts"
    "\<lambda>g. g_conflicts_for g facts" "\<lambda>g. g_signature g facts" "\<lambda>g. g_values_for g facts"
  for facts
  by unfold_locales (simp_all add: g_complete_not_conflict g_values_complete)

lemma fact_group_order_independent:
  assumes "set gs = set gs'"
  shows "map_option (\<lambda>g. g_values_for g facts) (fst (fact_group gs facts)) =
         map_option (\<lambda>g. g_values_for g facts) (fst (fact_group gs' facts))"
    and "fst (snd (fact_group gs facts)) = fst (snd (fact_group gs' facts))"
  unfolding fact_group_def using fact_source.pick_order_independent [OF assms] by blast+

lemma fact_group_selected:
  assumes "fact_group gs facts = (Some g, c, rel)"
  shows "fact_source.in_control facts gs g" "\<not> c"
  using assms unfolding fact_group_def by (rule fact_source.pick_in_control)+

section \<open>Settlement arithmetic\<close>

lemma denom_2_odd: "denom r = 2 \<Longrightarrow> odd (numer r)"
  using quotient_of_coprime [of r "numer r" "denom r"]
  by (auto simp: numer_def denom_def prod_eq_iff)

lemma over_result_half_line:
  assumes "denom r = 2"
  shows "over_result v r = Inr (win_if (r < of_int v))"
proof -
  have r: "r = of_int (numer r) / 2" using numer_denom [of r] assms by simp
  then have two: "r * 2 = of_int (numer r)" by simp
  have ne: "numer r \<noteq> 2 * v" using denom_2_odd [OF assms] by auto
  have "r < of_int v \<longleftrightarrow> r * 2 < of_int (2 * v)" by simp
  also have "\<dots> \<longleftrightarrow> numer r < 2 * v" unfolding two of_int_less_iff ..
  finally have lt: "r < of_int v \<longleftrightarrow> numer r < 2 * v" .
  show ?thesis unfolding over_result_def Let_def two using ne lt by (auto simp: win_if_def)
qed

text \<open>
  What a preference of each family looks like: the facts it needs, its selections, and a half
  line wherever equality must not happen.
\<close>

definition half_line :: "betting_preference \<Rightarrow> bool" where
  "half_line p \<longleftrightarrow> (case line p of None \<Rightarrow> False | Some r \<Rightarrow> denom r = 2)"

definition well_formed_preference :: "betting_preference \<Rightarrow> bool" where
  "well_formed_preference p \<longleftrightarrow>
     (case family p of
        MATCH_WINNER \<Rightarrow> required_facts p = full_goal_facts \<and>
          selection p \<in> {''Home'', ''Draw'', ''Away''} \<and> possible_results p = win_loss
      | DOUBLE_CHANCE \<Rightarrow> required_facts p = full_goal_facts \<and>
          selection p \<in> {''1X'', ''X2'', ''12''} \<and> possible_results p = win_loss
      | ASIAN_HANDICAP \<Rightarrow> required_facts p = full_goal_facts \<and>
          selection p \<in> {''Home'', ''Away''} \<and>
          (case line p of None \<Rightarrow> False
           | Some r \<Rightarrow> denom r = 1 \<and> possible_results p = [WIN, PUSH, LOSS] \<or>
               denom r = 2 \<and> possible_results p = win_loss)
      | CORNER_WINNER \<Rightarrow> required_facts p = corner_facts \<and>
          selection p \<in> {''Home'', ''Draw'', ''Away''} \<and> possible_results p = win_loss
      | f \<Rightarrow> selection p = ''Over'' \<and> half_line p \<and> possible_results p = win_loss \<and>
          required_facts p =
            (if f \<in> {FIRST_HALF_OVER, SECOND_HALF_OVER} then half_goal_facts
             else if f \<in> {TOTAL_CORNERS_OVER, HOME_CORNERS_OVER, AWAY_CORNERS_OVER}
             then corner_facts else full_goal_facts))"

lemma preference_set_well_formed: "list_all well_formed_preference preference_set"
  by code_simp

text \<open>
  The reference: the sign of the score difference against the backed outcomes, the counted
  quantity against the line, or the handicapped difference against zero.
\<close>

fun backed_signs :: "string \<Rightarrow> int list" where
  "backed_signs s =
     (if s = ''Home'' then [1] else if s = ''Draw'' then [0] else if s = ''Away'' then [-1]
      else if s = ''1X'' then [1, 0] else if s = ''X2'' then [0, -1] else [1, -1])"

fun counted :: "preference_family \<Rightarrow> (fact \<Rightarrow> int) \<Rightarrow> int" where
  "counted FIRST_HALF_OVER v = v half_time_home_goals + v half_time_away_goals"
| "counted SECOND_HALF_OVER v =
     (v full_time_home_goals + v full_time_away_goals) -
     (v half_time_home_goals + v half_time_away_goals)"
| "counted HOME_TEAM_GOALS_OVER v = v full_time_home_goals"
| "counted AWAY_TEAM_GOALS_OVER v = v full_time_away_goals"
| "counted TOTAL_CORNERS_OVER v = v corners_home + v corners_away"
| "counted HOME_CORNERS_OVER v = v corners_home"
| "counted AWAY_CORNERS_OVER v = v corners_away"
| "counted _ v = v full_time_home_goals + v full_time_away_goals"

definition goal_difference :: "(fact \<Rightarrow> int) \<Rightarrow> int" where
  "goal_difference v = v full_time_home_goals - v full_time_away_goals"

definition corner_difference :: "(fact \<Rightarrow> int) \<Rightarrow> int" where
  "corner_difference v = v corners_home - v corners_away"

definition handicap_margin :: "betting_preference \<Rightarrow> (fact \<Rightarrow> int) \<Rightarrow> rat" where
  "handicap_margin p v =
     of_int ((if selection p = ''Home'' then 1 else -1) * goal_difference v) +
     (case line p of None \<Rightarrow> 0 | Some r \<Rightarrow> r)"

definition line_exceeded :: "betting_preference \<Rightarrow> int \<Rightarrow> bool" where
  "line_exceeded p n = (case line p of None \<Rightarrow> False | Some r \<Rightarrow> r < of_int n)"

definition reference_result :: "betting_preference \<Rightarrow> (fact \<Rightarrow> int) \<Rightarrow> settlement_result" where
  "reference_result p v =
     (if family p \<in> {MATCH_WINNER, DOUBLE_CHANCE}
      then win_if (sgn (goal_difference v) \<in> set (backed_signs (selection p)))
      else if family p = CORNER_WINNER
      then win_if (sgn (corner_difference v) \<in> set (backed_signs (selection p)))
      else if family p = ASIAN_HANDICAP
      then (if handicap_margin p v > 0 then WIN else if handicap_margin p v = 0 then PUSH else LOSS)
      else win_if (line_exceeded p (counted (family p) v)))"

definition group_fact :: "evidence_group \<Rightarrow> fact \<Rightarrow> int" where
  "group_fact g f = (case fst (g_value g f) of None \<Rightarrow> 0 | Some v \<Rightarrow> v)"

lemma g_values_group_fact:
  assumes "g_complete_for g facts"
  shows "g_values_for g facts = Inr (map (group_fact g) facts)"
proof -
  have "\<And>f. f \<in> set facts \<Longrightarrow> fst (g_value g f) \<noteq> None"
    using assms by (simp add: g_complete_for_def list_all_iff)
  then show ?thesis using assms
    by (fastforce simp: g_values_for_def group_fact_def split: option.splits)
qed

lemma settle_well_formed:
  assumes wf: "well_formed_preference p" and c: "g_complete_for g (required_facts p)"
  shows "settle_preference p g = Inr (reference_result p (group_fact g))"
proof -
  note v = g_values_group_fact [OF c]
  have over: "with_line p (over_result n) = Inr (win_if (line_exceeded p n))" if "half_line p" for n
    using that
    by (auto simp: with_line_def half_line_def line_exceeded_def over_result_half_line
      split: option.splits)
  note unf = settle_preference_def reference_result_def unpack2_def unpack4_def three_way_def
    full_goal_facts_def half_goal_facts_def corner_facts_def well_formed_preference_def
    goal_difference_def corner_difference_def
  show ?thesis
  proof (cases "family p")
    case ASIAN_HANDICAP
    then have req: "required_facts p = full_goal_facts" and "line p \<noteq> None"
      using wf by (auto simp: well_formed_preference_def split: option.splits)
    then obtain r where r: "line p = Some r" by auto
    have "of_int (2 * d) + r * 2 = 2 * (of_int d + r)" for d by simp
    then show ?thesis using v r unfolding req
      by (simp add: unf ASIAN_HANDICAP with_line_def handicap_margin_def Let_def)
  qed (use wf v over in \<open>auto simp: unf win_if_def sgn_if algebra_simps split: if_splits\<close>)
qed

section \<open>Properties of the rules\<close>

lemma preference_well_formed: "p \<in> set preference_set \<Longrightarrow> well_formed_preference p"
  using preference_set_well_formed by (simp add: list_all_iff)

lemma settle_catalogue:
  "p \<in> set preference_set \<Longrightarrow> g_complete_for g (required_facts p) \<Longrightarrow>
     settle_preference p g = Inr (reference_result p (group_fact g))"
  by (rule settle_well_formed [OF preference_well_formed])

lemma sample_complete:
  "g_complete_for (sample_group CLUB ''r'' 2 1) full_goal_facts"
  "g_complete_for (sample_group CLUB ''r'' 2 1) half_goal_facts"
  by code_simp+

lemma preference_at: "n < 37 \<Longrightarrow> preference_set ! n \<in> set preference_set"
  by (simp add: preference_set_length)

lemma sample_preferences:
  "required_facts (preference_set ! 0) = full_goal_facts"
  "required_facts (preference_set ! 28) = full_goal_facts"
  "required_facts (preference_set ! 35) = full_goal_facts"
  by code_simp+

text \<open>C11: on a group that is complete for its required facts every catalogue preference settles,
  without an integrity error or a failed assertion, to the reference result: the sign of the
  score or corner difference against the backed outcomes, the counted total against the exact
  half line, and the handicapped difference against zero (WIN above, PUSH at, LOSS below).\<close>

theorem settlement_matches_reference:
  assumes "p \<in> set preference_set" and "g_complete_for g (required_facts p)"
  shows "settle_preference p g = Inr (reference_result p (group_fact g))"
  using assms by (rule settle_catalogue)

theorem settlement_matches_reference_witness:
  "settle_preference (preference_set ! 0) (sample_group CLUB ''r'' 2 1) =
     Inr (reference_result (preference_set ! 0) (group_fact (sample_group CLUB ''r'' 2 1)))"
  by (rule settlement_matches_reference)
    (simp_all add: preference_at sample_preferences sample_complete)

lemma reference_possible:
  assumes "well_formed_preference p"
  shows "reference_result p v \<in> set (possible_results p)"
    and "reference_result p v = PUSH \<Longrightarrow>
      family p = ASIAN_HANDICAP \<and> (\<exists>i. line p = Some (of_int i))"
proof -
  have level: "denom r = 1" if "of_int k + r = 0" for k r
  proof -
    have "r = of_int (- k)" using that by (simp add: eq_neg_iff_add_eq_0 add.commute)
    then show ?thesis by (metis denom_of_int(1))
  qed
  have "handicap_margin p v \<noteq> 0" if "line p = Some r" "denom r = 2" for r
  proof
    assume "handicap_margin p v = 0"
    then have "denom r = 1" unfolding handicap_margin_def that(1) option.case by (rule level)
    with that(2) show False by simp
  qed
  then show "reference_result p v \<in> set (possible_results p)"
    using assms by (cases "family p")
      (auto simp: well_formed_preference_def reference_result_def win_if_def win_loss_def
        split: option.splits)
  show "family p = ASIAN_HANDICAP \<and> (\<exists>i. line p = Some (of_int i))"
    if "reference_result p v = PUSH"
  proof -
    from that have fam: "family p = ASIAN_HANDICAP" and m: "handicap_margin p v = 0"
      by (auto simp: reference_result_def win_if_def split: if_splits)
    then obtain r where r: "line p = Some r"
      using assms by (auto simp: well_formed_preference_def split: option.splits)
    have "denom r = 1" using m unfolding handicap_margin_def r option.case by (rule level)
    then show ?thesis using fam r by (auto simp: denom_1_iff)
  qed
qed

lemma settle_needs_complete:
  assumes "well_formed_preference p" and "settle_preference p g = Inr r"
  shows "g_complete_for g (required_facts p)"
  using assms
  by (cases "family p")
    (auto simp: well_formed_preference_def settle_preference_def g_values_for_def split: if_splits)

text \<open>C29: a settled preference has one of the results its contract declares possible; VOID is
  never one of them, and PUSH occurs only for an Asian Handicap on a whole-goal line.\<close>

theorem settlement_result_possible:
  assumes "p \<in> set preference_set" and "settle_preference p g = Inr r"
  shows "r \<in> set (possible_results p) \<and> r \<noteq> VOID \<and>
    (r = PUSH \<longrightarrow> family p = ASIAN_HANDICAP \<and> (\<exists>i. line p = Some (of_int i)))"
proof -
  have wf: "well_formed_preference p" using assms(1) by (rule preference_well_formed)
  have r: "r = reference_result p (group_fact g)"
    using settle_well_formed [OF wf settle_needs_complete [OF wf assms(2)]] assms(2) by simp
  have "r \<noteq> VOID" by (simp add: r reference_result_def win_if_def)
  then show ?thesis using reference_possible [OF wf] unfolding r by blast
qed

theorem settlement_result_possible_witness:
  "PUSH \<in> set (possible_results (preference_set ! 35)) \<and> family (preference_set ! 35) = ASIAN_HANDICAP"
proof -
  have "settle_preference (preference_set ! 35) (sample_group CLUB ''r'' 1 2) = Inr PUSH"
    by code_simp
  from settlement_result_possible [OF _ this] show ?thesis by (simp add: preference_at)
qed

text \<open>The two sides of a handicap mirror each other: Home at a line wins exactly when Away at
  the opposite line loses, and pushes exactly when it pushes.\<close>

lemma handicap_mirror:
  assumes "p \<in> set preference_set" and "q \<in> set preference_set"
    and "family p = ASIAN_HANDICAP" and "family q = ASIAN_HANDICAP"
    and "selection p = ''Home''" and "selection q = ''Away''"
    and "line p = Some l" and "line q = Some (- l)"
  shows "(settle_preference p g = Inr WIN \<longleftrightarrow> settle_preference q g = Inr LOSS) \<and>
    (settle_preference p g = Inr PUSH \<longleftrightarrow> settle_preference q g = Inr PUSH)"
proof (cases "g_complete_for g full_goal_facts")
  case True
  have "required_facts p = full_goal_facts" "required_facts q = full_goal_facts"
    using assms preference_well_formed by (fastforce simp: well_formed_preference_def)+
  with True have "settle_preference p g = Inr (reference_result p (group_fact g))"
    "settle_preference q g = Inr (reference_result q (group_fact g))"
    using settle_catalogue assms(1,2) by simp_all
  moreover have "handicap_margin q (group_fact g) = - handicap_margin p (group_fact g)"
    using assms by (simp add: handicap_margin_def)
  ultimately show ?thesis using assms(3,4) by (auto simp: reference_result_def)
next
  case False
  then show ?thesis
    using assms(3,4) by (auto simp: settle_preference_def g_values_for_def)
qed

text \<open>A double chance wins exactly when the match-winner preference it leaves out loses.\<close>

lemma double_chance_complements_winner:
  assumes "p \<in> set preference_set" and "q \<in> set preference_set"
    and "family p = DOUBLE_CHANCE" and "family q = MATCH_WINNER"
    and "(selection p, selection q) \<in> {(''1X'', ''Away''), (''X2'', ''Home''), (''12'', ''Draw'')}"
  shows "settle_preference p g = Inr WIN \<longleftrightarrow> settle_preference q g = Inr LOSS"
  using assms(3-5)
  by (auto simp: settle_preference_def g_values_for_def full_goal_facts_def unpack2_def win_if_def
      three_way_def)

text \<open>C14: \<open>_fact_group\<close> selects a group exactly when some complete group is in control: every
  group that conflicts on the facts has strictly lower authority, and every complete group has
  no higher authority and, at the same authority, the same values. The group selected is such
  a group.\<close>

theorem fact_group_selects_controlling_group:
  "(\<exists>g rel. fact_group gs facts = (Some g, False, rel)) =
     list_ex (\<lambda>g. g_complete_for g facts \<and>
       list_all (\<lambda>h. \<not> (g_conflicts_for h facts \<and> g_rank h \<le> g_rank g) \<and>
         \<not> (g_complete_for h facts \<and>
             (g_rank h < g_rank g \<or>
              g_rank h = g_rank g \<and> g_signature h facts \<noteq> g_signature g facts))) gs) gs"
  (is "?L = ?R")
proof -
  have "?R \<longleftrightarrow> (\<exists>g. fact_source.in_control facts gs g)"
    unfolding fact_source.in_control_def list_ex_iff list_all_iff by (meson leI not_less)
  also have "\<dots> \<longleftrightarrow> ?L"
  proof
    assume "\<exists>g. fact_source.in_control facts gs g"
    then show ?L unfolding fact_group_def using fact_source.in_control_pick by blast
  next
    assume ?L
    then show "\<exists>g. fact_source.in_control facts gs g"
      using fact_group_selected(1) by blast
  qed
  finally show ?thesis ..
qed

text \<open>C28: evidence of lower authority than the selected group cannot change the selection: any
  other list of groups with the same groups down to that authority selects the same group.\<close>

theorem lower_authority_cannot_override:
  assumes "fact_group gs facts = (Some g, False, rel)"
    and "filter (\<lambda>h. g_rank h \<le> g_rank g) gs' = filter (\<lambda>h. g_rank h \<le> g_rank g) gs"
  shows "fst (fact_group gs' facts) = Some g \<and> \<not> fst (snd (fact_group gs' facts))"
  using fact_source.pick_lower_authority [OF assms(1) [unfolded fact_group_def] assms(2)]
  unfolding fact_group_def .

theorem lower_authority_cannot_override_witness:
  "fst (fact_group [sample_group FEDERATION ''a'' 2 1, sample_group CLUB ''b'' 0 3] full_goal_facts) =
     Some (sample_group FEDERATION ''a'' 2 1)"
proof -
  let ?g = "sample_group FEDERATION ''a'' 2 1"
  let ?h = "sample_group CLUB ''b'' 0 3"
  have "g_complete_for ?g full_goal_facts" "\<not> g_conflicts_for ?g full_goal_facts" by code_simp+
  then have "fact_group [?g] full_goal_facts = (Some ?g, False, [])"
    by (simp add: fact_group_def pick_group_def Let_def)
  moreover have "filter (\<lambda>h. g_rank h \<le> g_rank ?g) [?g, ?h] = filter (\<lambda>h. g_rank h \<le> g_rank ?g) [?g]"
  proof -
    have "\<not> g_rank ?h \<le> g_rank ?g" by code_simp
    then show ?thesis by simp
  qed
  ultimately have "fst (fact_group [?g, ?h] full_goal_facts) = Some ?g \<and>
      \<not> fst (snd (fact_group [?g, ?h] full_goal_facts))"
    by (rule lower_authority_cannot_override)
  then show ?thesis by simp
qed

text \<open>The values that control a preference, and whether the sources conflict, do not depend
  on the order in which the evidence groups are met.\<close>

lemma fact_values_order_independent:
  assumes "set gs = set gs'"
  shows "map_option (\<lambda>g. g_values_for g facts) (fst (fact_group gs facts)) =
         map_option (\<lambda>g. g_values_for g facts) (fst (fact_group gs' facts)) \<and>
    fst (snd (fact_group gs facts)) = fst (snd (fact_group gs' facts))"
  using fact_group_order_independent [OF assms] by blast

end
