(* ===== verification/Settlement_Grading.thy ===== *)
theory Settlement_Grading
  imports Settlement_Rules
begin

text \<open>
  The \<open>SettlementGrade\<close> record of \<open>t10.py\<close> with its constructor and dictionary form,
  \<open>FrozenRecommendation\<close>, and \<open>SettlementGrader\<close>: \<open>grade\<close> with every branch of the source
  and \<open>grade_all\<close>.
\<close>

section \<open>Settlement Grades\<close>

record settlement_grade =
  gr_fixture_id :: string
  gr_preference :: betting_preference
  gr_grading_state :: grading_state
  gr_settlement_result :: "settlement_result option"
  gr_reason_code :: string
  gr_reason :: string
  gr_evidence_digest :: string
  gr_evidence_ids :: "string list"
  gr_selected_evidence_set_id :: "string option"
  gr_selected_source_level :: "settlement_source option"
  gr_selected_source_key :: "string option"
  gr_selected_source_record_ids :: "string list"
  gr_provenance :: pydict
  gr_evidence :: "settlement_evidence list"
  gr_matchweek_id :: string
  gr_recommendation_id :: string
  gr_prediction_digest :: "string option"
  gr_frozen_evidence_digest :: "string option"
  gr_predecessor_grade_id :: "string option"
  gr_correction_sequence :: int
  gr_grade_id :: string
  gr_grade_digest :: string

definition grading_key :: "settlement_grade \<Rightarrow> string" where
  "grading_key g =
     join ''|'' [gr_fixture_id g, gr_matchweek_id g, gr_recommendation_id g,
               preference_id (gr_preference g)]"

definition grade_payload :: "hasher \<Rightarrow> settlement_grade \<Rightarrow> pydict" where
  "grade_payload H g =
     [(''evidence'', PList (map (PDict \<circ> evidence_to_dict H) (gr_evidence g))),
      (''evidence_digest'', PStr (gr_evidence_digest g)),
      (''evidence_ids'', str_list (gr_evidence_ids g)),
      (''fixture_id'', PStr (gr_fixture_id g)),
      (''frozen_evidence_digest'', opt_str (gr_frozen_evidence_digest g)),
      (''grading_state'', PStr (state_text (gr_grading_state g))),
      (''matchweek_id'', PStr (gr_matchweek_id g)),
      (''preference'', PDict (preference_to_dict (gr_preference g))),
      (''predecessor_grade_id'', opt_str (gr_predecessor_grade_id g)),
      (''prediction_digest'', opt_str (gr_prediction_digest g)),
      (''reason'', PStr (gr_reason g)),
      (''reason_code'', PStr (gr_reason_code g)),
      (''recommendation_id'', PStr (gr_recommendation_id g)),
      (''selected_evidence_set_id'', opt_str (gr_selected_evidence_set_id g)),
      (''selected_source_key'', opt_str (gr_selected_source_key g)),
      (''selected_source_level'', opt_str (map_option source_text (gr_selected_source_level g))),
      (''selected_source_record_ids'', str_list (gr_selected_source_record_ids g)),
      (''settlement_result'', opt_str (map_option result_text (gr_settlement_result g)))]"

definition grade_digest_of :: "hasher \<Rightarrow> settlement_grade \<Rightarrow> string" where
  "grade_digest_of H g =
     digest H (PDict (grade_payload H g @ [(''provenance'', PDict (gr_provenance g))]))"

definition grade_id_of :: "hasher \<Rightarrow> settlement_grade \<Rightarrow> string \<Rightarrow> string" where
  "grade_id_of H g dig = stable_id H ''settlement_grade'' (grading_key g @ '':'' @ dig)"

definition grade_to_dict :: "hasher \<Rightarrow> settlement_grade \<Rightarrow> pydict" where
  "grade_to_dict H g =
     grade_payload H g @
     [(''correction_sequence'', PInt (gr_correction_sequence g)),
      (''grade_digest'', PStr (gr_grade_digest g)), (''grade_id'', PStr (gr_grade_id g)),
      (''provenance'', PDict (gr_provenance g))]"

text \<open>
  \<open>SettlementGrade.__post_init__\<close>, on arguments of their annotated types: the checks of the
  source in its order, then the normalised identifiers and the three computed digests.
\<close>

definition grade_init ::
  "hasher \<Rightarrow> settlement_grade \<Rightarrow> (t10_error, settlement_grade) res" where
  "grade_init H a =
     bindR (guardR (\<not> (gr_grading_state a = PENDING \<and> gr_settlement_result a \<noteq> None))
       (T10ValidationError ''Pending grading has no Settlement Result.'')) (\<lambda>_.
     bindR (guardR (\<not> (gr_grading_state a = FINAL \<and> gr_settlement_result a = None))
       (T10ValidationError ''Final grading requires WIN, LOSS, PUSH, or VOID.'')) (\<lambda>_.
     bindR (guardR (0 \<le> gr_correction_sequence a)
       (T10ValidationError ''Correction sequence must not be negative.'')) (\<lambda>_.
     bindR (t10_text (PStr (gr_fixture_id a)) ''Settlement Grade fixture ID'') (\<lambda>fid.
     let evidence = gr_evidence a; ids = sort (map (evidence_id H) evidence) in
     bindR (guardR (sorted_set (gr_evidence_ids a) = ids)
       (T10IntegrityError ''Settlement Grade evidence IDs do not match its evidence.'')) (\<lambda>_.
     let expected = aggregate_evidence_digest H evidence in
     bindR (guardR (gr_evidence_digest a = [] \<or> gr_evidence_digest a = expected)
       (T10IntegrityError ''Settlement Grade evidence digest does not match its evidence.'')) (\<lambda>_.
     let g = a\<lparr>gr_fixture_id := fid, gr_evidence_ids := ids,
              gr_selected_source_record_ids := sorted_set (gr_selected_source_record_ids a),
              gr_evidence_digest := expected\<rparr>;
         dig = grade_digest_of H g in
     bindR (guardR (gr_grade_digest a = [] \<or> gr_grade_digest a = dig)
       (T10IntegrityError ''Settlement Grade digest does not match its immutable fields.'')) (\<lambda>_.
     let gid = grade_id_of H g dig in
     bindR (guardR (gr_grade_id a = [] \<or> gr_grade_id a = gid)
       (T10IntegrityError ''Settlement Grade ID does not match its immutable fields.'')) (\<lambda>_.
     Inr (g\<lparr>gr_grade_digest := dig, gr_grade_id := gid\<rparr>)))))))))"

section \<open>The grader\<close>

text \<open>\<open>FrozenRecommendation\<close> and its \<open>__post_init__\<close>\<close>

record frozen_recommendation =
  fr_recommendation_id :: string
  fr_fixture_id :: string
  fr_preference_id :: string
  fr_matchweek_id :: string
  fr_prediction_digest :: "string option"
  fr_frozen_evidence_digest :: "string option"

definition frozen_recommendation_init ::
  "frozen_recommendation \<Rightarrow> (t10_error, frozen_recommendation) res" where
  "frozen_recommendation_init a =
     bindR (t10_text (PStr (fr_recommendation_id a)) ''Recommendation ID'') (\<lambda>rid.
     bindR (t10_text (PStr (fr_fixture_id a)) ''Recommendation fixture ID'') (\<lambda>fid.
     bindR (t10_text (PStr (fr_preference_id a)) ''Recommendation preference ID'') (\<lambda>pid.
     bindR (if fr_matchweek_id a \<noteq> []
            then t10_text (PStr (fr_matchweek_id a)) ''Recommendation Matchweek ID''
            else Inr []) (\<lambda>mid.
     Inr (a\<lparr>fr_recommendation_id := rid, fr_fixture_id := fid, fr_preference_id := pid,
           fr_matchweek_id := mid\<rparr>)))))"

text \<open>The keyword arguments of \<open>grade\<close>.\<close>

record grade_request =
  q_fixture_id :: "string option"
  q_finalize :: bool
  q_close_unresolved :: "bool option"
  q_withdrawn :: bool
  q_matchweek_id :: string
  q_recommendation_id :: string
  q_prediction_digest :: "string option"
  q_frozen_evidence_digest :: "string option"
  q_frozen_recommendation :: "frozen_recommendation option"

definition grader_init ::
  "hasher \<Rightarrow> preference_catalog \<Rightarrow> (t10_error, preference_catalog) res" where
  "grader_init H c =
     (if catalog_name c \<noteq> preference_catalog_name \<or>
         catalog_version c \<noteq> preference_catalog_version \<or>
         length (preferences c) \<noteq> 37 \<or>
         set (map preference_id (preferences c)) \<noteq> set (map preference_id preference_set) \<or>
         catalog_digest c \<noteq> catalog_digest (default_catalog H)
      then Inl (T10ValidationError
        ''T10 grading requires the exact 37-contract preference catalog v1.'')
      else Inr c)"

definition settlement_rules_name :: string where
  "settlement_rules_name = ''matchvet-settlement-rules-v1''"

definition settlement_rules_version :: string where "settlement_rules_version = ''1.0.0''"

definition source_hierarchy_name :: string where
  "source_hierarchy_name = ''matchvet-settlement-source-hierarchy-v1''"

definition evidence_dicts :: "hasher \<Rightarrow> settlement_evidence list \<Rightarrow> pyval" where
  "evidence_dicts H es = PList (map (PDict \<circ> evidence_to_dict H) es)"

definition base_provenance ::
  "hasher \<Rightarrow> settlement_evidence list \<Rightarrow> settlement_evidence list \<Rightarrow> pydict" where
  "base_provenance H records superseded =
     [(''considered_evidence'', evidence_dicts H records),
      (''rules_name'', PStr settlement_rules_name),
      (''rules_version'', PStr settlement_rules_version),
      (''source_hierarchy_name'', PStr source_hierarchy_name),
      (''source_hierarchy_version'', PStr source_hierarchy_version),
      (''source_hierarchy'', str_list (map source_text source_hierarchy)),
      (''superseded_evidence'', evidence_dicts H superseded)]"

text \<open>What every grade of one call has in common; the branches below fill in the rest.\<close>

definition blank_grade ::
  "string \<Rightarrow> betting_preference \<Rightarrow> string \<Rightarrow> string list \<Rightarrow> settlement_evidence list \<Rightarrow>
   grade_request \<Rightarrow> settlement_grade" where
  "blank_grade fid p dig ids records q =
     \<lparr>gr_fixture_id = fid, gr_preference = p, gr_grading_state = PENDING,
      gr_settlement_result = None, gr_reason_code = [], gr_reason = [],
      gr_evidence_digest = dig, gr_evidence_ids = ids, gr_selected_evidence_set_id = None,
      gr_selected_source_level = None, gr_selected_source_key = None,
      gr_selected_source_record_ids = [], gr_provenance = [], gr_evidence = records,
      gr_matchweek_id = q_matchweek_id q, gr_recommendation_id = q_recommendation_id q,
      gr_prediction_digest = q_prediction_digest q,
      gr_frozen_evidence_digest = q_frozen_evidence_digest q, gr_predecessor_grade_id = None,
      gr_correction_sequence = 0, gr_grade_id = [], gr_grade_digest = []\<rparr>"

text \<open>The local function \<open>unresolved\<close>\<close>

definition unresolved_grade ::
  "hasher \<Rightarrow> settlement_grade \<Rightarrow> bool \<Rightarrow> pydict \<Rightarrow> string \<Rightarrow> string \<Rightarrow> evidence_group list \<Rightarrow>
   (t10_error, settlement_grade) res" where
  "unresolved_grade H blank finalize provenance rcode reason conflict_groups =
     grade_init H (blank
       \<lparr>gr_grading_state := (if finalize then FINAL else PENDING),
        gr_settlement_result := (if finalize then Some VOID else None),
        gr_reason_code := rcode,
        gr_reason := (if finalize then reason @ '' Grading closed unresolved.'' else reason),
        gr_provenance := provenance @
          [(''conflict_evidence_ids'', str_list (concat (map (g_evidence_ids H) conflict_groups)))]\<rparr>)"

text \<open>The last part of \<open>grade\<close>: the fixture is complete and the required facts decide.\<close>

definition grade_facts ::
  "hasher \<Rightarrow> settlement_grade \<Rightarrow> bool \<Rightarrow> pydict \<Rightarrow> settlement_evidence list \<Rightarrow>
   evidence_group list \<Rightarrow> (t10_error, settlement_grade) res" where
  "grade_facts H blank finalize prov records groups =
     (let p = gr_preference blank in
      case fact_group groups (required_facts p) of
        (selected, conflict, related) \<Rightarrow>
          if conflict then
            unresolved_grade H blank finalize prov ''SOURCE_CONFLICT''
              ''Complete records at the controlling source level disagree on required facts.'' related
          else
            (case selected of
               None \<Rightarrow>
                 unresolved_grade H blank finalize prov
                   (if list_ex invalid_phase_relationship records then ''INVALID_PHASE_RELATIONSHIP''
                    else ''MISSING_REQUIRED_FACTS'')
                   ''No complete authoritative record contains the required facts.'' []
             | Some g \<Rightarrow>
                 let prov' = prov @
                   [(''selected_evidence'', evidence_dicts H (g_records g)),
                    (''overridden_evidence'', evidence_dicts H (concat (map g_records related)))]
                 in (case settle_preference p g of
                       Inl (T10ValidationError _) \<Rightarrow>
                         unresolved_grade H blank finalize prov' ''INVALID_PHASE_RELATIONSHIP''
                           ''Required phase facts are contradictory.'' []
                     | Inl other \<Rightarrow> Inl other
                     | Inr result \<Rightarrow>
                         grade_init H (blank
                           \<lparr>gr_grading_state := FINAL, gr_settlement_result := Some result,
                            gr_reason_code := ''GRADED'',
                            gr_reason := ''The first complete applicable record in the fixed source hierarchy controls grading.'',
                            gr_selected_evidence_set_id := Some (evidence_id H (hd (g_records g))),
                            gr_selected_source_level := Some (g_source_level g),
                            gr_selected_source_key := Some (g_source_key g),
                            gr_selected_source_record_ids := g_record_ids g,
                            gr_provenance := prov'\<rparr>))))"

definition status_provenance :: "evidence_group \<Rightarrow> pydict" where
  "status_provenance status =
     [(''status_source'', PDict
        [(''source_level'', PStr (source_text (g_source_level status))),
         (''source_key'', PStr (g_source_key status)),
         (''record_ids'', str_list (g_record_ids status)),
         (''status'', str_list (sorted_set (map (kind_text \<circ> status_kind_of) (g_records status))))])]"

text \<open>From the coerced and sorted records on.\<close>

definition grade_records ::
  "hasher \<Rightarrow> betting_preference \<Rightarrow> string \<Rightarrow> settlement_evidence list \<Rightarrow> bool \<Rightarrow>
   grade_request \<Rightarrow> (t10_error, settlement_grade) res" where
  "grade_records H p fid records finalize q =
     (let blank = blank_grade fid p (aggregate_evidence_digest H records)
                    (map (evidence_id H) records) records q;
          active = fst (active_evidence_records H records);
          superseded = snd (active_evidence_records H records);
          groups = evidence_groups active;
          prov = base_provenance H records superseded
      in
      if q_withdrawn q then
        grade_init H (blank
          \<lparr>gr_grading_state := FINAL, gr_settlement_result := Some VOID,
           gr_reason_code := ''WITHDRAWN_RECOMMENDATION'',
           gr_reason := ''The frozen Matchweek recommendation was withdrawn after postponement or cancellation.'',
           gr_provenance := prov\<rparr>)
      else
        case status_group groups of (status, status_conflict) \<Rightarrow>
        if status_conflict then
          unresolved_grade H blank finalize prov ''SOURCE_CONFLICT''
            ''The highest-authority source level contains conflicting fixture statuses.''
            (filter (\<lambda>g. g_rank g = Min (set (map g_rank groups))) groups)
        else
          (case status of
             None \<Rightarrow>
               unresolved_grade H blank finalize prov ''MISSING_FIXTURE_STATUS''
                 ''No complete fixture status was supplied.'' []
           | Some st \<Rightarrow>
               let prov' = prov @ status_provenance st in
               if g_status_kinds st = {VOID_KIND} then
                 grade_init H (blank
                   \<lparr>gr_grading_state := FINAL, gr_settlement_result := Some VOID,
                    gr_reason_code := ''VOID_FIXTURE_STATUS'',
                    gr_reason := ''Fixture status '' @ e_fixture_status (hd (g_records st)) @
                      '' is a settled VOID condition.'',
                    gr_selected_source_level := Some (g_source_level st),
                    gr_selected_source_key := Some (g_source_key st),
                    gr_selected_source_record_ids := g_record_ids st,
                    gr_provenance := prov'\<rparr>)
               else if g_status_kinds st \<noteq> {COMPLETE_KIND} then
                 unresolved_grade H blank finalize prov' ''PENDING_FIXTURE_STATUS''
                   ''The fixture is not complete. A resumable suspension remains pending.'' []
               else grade_facts H blank finalize prov' records groups))"

text \<open>\<open>self._preference(value)\<close>\<close>

datatype preference_ref = PreferenceValue betting_preference | PreferenceName string

fun grader_preference ::
  "preference_catalog \<Rightarrow> preference_ref \<Rightarrow> (t10_error, betting_preference) res" where
  "grader_preference c (PreferenceValue p) = catalog_get c (preference_id p)"
| "grader_preference c (PreferenceName s) = catalog_get c s"

text \<open>The fields a frozen recommendation supplies replace those of the call.\<close>

definition apply_frozen ::
  "betting_preference \<Rightarrow> grade_request \<Rightarrow> (t10_error, grade_request) res" where
  "apply_frozen p q =
     (case q_frozen_recommendation q of
        None \<Rightarrow> Inr q
      | Some fr \<Rightarrow>
          if fr_preference_id fr \<noteq> preference_id p
          then Inl (T10ValidationError ''Frozen Recommendation preference does not match the grade.'')
          else if q_fixture_id q \<noteq> None \<and> q_fixture_id q \<noteq> Some (fr_fixture_id fr)
          then Inl (T10ValidationError ''Frozen Recommendation fixture does not match the grade.'')
          else Inr (q\<lparr>q_fixture_id := Some (fr_fixture_id fr),
                     q_matchweek_id := fr_matchweek_id fr,
                     q_recommendation_id := fr_recommendation_id fr,
                     q_prediction_digest := fr_prediction_digest fr,
                     q_frozen_evidence_digest := fr_frozen_evidence_digest fr\<rparr>))"

definition record_order :: "settlement_evidence \<Rightarrow> nat \<times> string \<times> string \<times> string \<times> string" where
  "record_order e = (authority_rank (e_source_level e), e_source_key e, e_record_set_id e,
     e_record_id e, e_evidence_digest e)"

text \<open>\<open>SettlementGrader.grade\<close>\<close>

definition grade ::
  "hasher \<Rightarrow> preference_catalog \<Rightarrow> preference_ref \<Rightarrow> evidence_input list \<Rightarrow> grade_request \<Rightarrow>
   (t10_error, settlement_grade) res" where
  "grade H c pref inputs q =
     (let finalize = (case q_close_unresolved q of None \<Rightarrow> q_finalize q | Some b \<Rightarrow> b) in
      bindR (grader_preference c pref) (\<lambda>p.
      bindR (apply_frozen p q) (\<lambda>q'.
      bindR (mapR (coerce_evidence H) inputs) (\<lambda>es.
      let records = sort_key record_order es in
      bindR (case q_fixture_id q' of
               Some f \<Rightarrow> Inr f
             | None \<Rightarrow>
                 (case records of
                    [] \<Rightarrow> Inl (T10ValidationError ''An empty evidence set requires a fixture_id.'')
                  | e # _ \<Rightarrow> Inr (e_fixture_id e))) (\<lambda>f.
      bindR (t10_text (PStr f) ''Settlement Grade fixture ID'') (\<lambda>fid.
      bindR (guardR (list_all (\<lambda>e. e_fixture_id e = fid) records)
        (T10ValidationError ''All Settlement Evidence must identify the same Fixture.'')) (\<lambda>_.
      grade_records H p fid records finalize q')))))))"

text \<open>\<open>SettlementGrader.grade_all\<close>: every preference of the catalogue, in its order.\<close>

definition grade_all ::
  "hasher \<Rightarrow> preference_catalog \<Rightarrow> evidence_input list \<Rightarrow> grade_request \<Rightarrow>
   (string \<rightharpoonup> string) \<Rightarrow> (string \<rightharpoonup> string) \<Rightarrow> (t10_error, settlement_grade list) res" where
  "grade_all H c inputs q recommendation_ids prediction_digests =
     bindR (mapR (coerce_evidence H) inputs) (\<lambda>es.
       mapR (\<lambda>p. grade H c (PreferenceValue p) (map EvidenceRecord es)
           (q\<lparr>q_recommendation_id :=
                (case recommendation_ids (preference_id p) of None \<Rightarrow> [] | Some r \<Rightarrow> r),
              q_prediction_digest := prediction_digests (preference_id p),
              q_frozen_recommendation := None\<rparr>))
         (preferences c))"

section \<open>What the constructor accepts and returns\<close>

definition grade_fields :: "hasher \<Rightarrow> settlement_grade \<Rightarrow> settlement_grade" where
  "grade_fields H a =
     a\<lparr>gr_fixture_id := strip (gr_fixture_id a),
       gr_evidence_ids := sort (map (evidence_id H) (gr_evidence a)),
       gr_selected_source_record_ids := sorted_set (gr_selected_source_record_ids a),
       gr_evidence_digest := aggregate_evidence_digest H (gr_evidence a)\<rparr>"

definition finish_grade :: "hasher \<Rightarrow> settlement_grade \<Rightarrow> settlement_grade" where
  "finish_grade H a =
     (let g = grade_fields H a; dig = grade_digest_of H g
      in g\<lparr>gr_grade_digest := dig, gr_grade_id := grade_id_of H g dig\<rparr>)"

definition grade_args_ok :: "hasher \<Rightarrow> settlement_grade \<Rightarrow> bool" where
  "grade_args_ok H a \<longleftrightarrow>
     (gr_grading_state a = PENDING \<longleftrightarrow> gr_settlement_result a = None) \<and>
     0 \<le> gr_correction_sequence a \<and> strip (gr_fixture_id a) \<noteq> [] \<and>
     sorted_set (gr_evidence_ids a) = sort (map (evidence_id H) (gr_evidence a)) \<and>
     gr_evidence_digest a \<in> {[], aggregate_evidence_digest H (gr_evidence a)} \<and>
     gr_grade_digest a \<in> {[], gr_grade_digest (finish_grade H a)} \<and>
     gr_grade_id a \<in> {[], gr_grade_id (finish_grade H a)}"

lemma grade_state_iff:
  "\<not> (s = PENDING \<and> r \<noteq> None) \<and> \<not> (s = FINAL \<and> r = None) \<longleftrightarrow> (s = PENDING \<longleftrightarrow> r = None)"
  by (cases s) auto

lemma t10_text_PStr_iff: "t10_text (PStr s) l = Inr t \<longleftrightarrow> strip s \<noteq> [] \<and> t = strip s"
  by (auto simp: t10_text_def)

lemma grade_init_iff:
  "grade_init H a = Inr g \<longleftrightarrow> grade_args_ok H a \<and> g = finish_grade H a"
  (is "?L \<longleftrightarrow> ?R")
proof -
  have "?L \<longleftrightarrow> (\<not> (gr_grading_state a = PENDING \<and> gr_settlement_result a \<noteq> None)) \<and>
      (\<not> (gr_grading_state a = FINAL \<and> gr_settlement_result a = None)) \<and>
      0 \<le> gr_correction_sequence a \<and> strip (gr_fixture_id a) \<noteq> [] \<and>
      sorted_set (gr_evidence_ids a) = sort (map (evidence_id H) (gr_evidence a)) \<and>
      (gr_evidence_digest a = [] \<or> gr_evidence_digest a = aggregate_evidence_digest H (gr_evidence a)) \<and>
      (gr_grade_digest a = [] \<or> gr_grade_digest a = gr_grade_digest (finish_grade H a)) \<and>
      (gr_grade_id a = [] \<or> gr_grade_id a = gr_grade_id (finish_grade H a)) \<and> g = finish_grade H a"
    unfolding grade_init_def bindR_eq_Inr guardR_eq_Inr t10_text_PStr_iff Let_def
      finish_grade_def grade_fields_def
    by (auto simp del: One_nat_def)
  then show ?thesis
    unfolding grade_args_ok_def insert_iff empty_iff grade_state_iff [symmetric] by blast
qed

text \<open>What \<open>replace\<close>, equality and the lookups see of a finished grade.\<close>

lemma finish_grade_simps [simp]:
  "gr_fixture_id (finish_grade H a) = strip (gr_fixture_id a)"
  "gr_preference (finish_grade H a) = gr_preference a"
  "gr_grading_state (finish_grade H a) = gr_grading_state a"
  "gr_settlement_result (finish_grade H a) = gr_settlement_result a"
  "gr_reason_code (finish_grade H a) = gr_reason_code a"
  "gr_reason (finish_grade H a) = gr_reason a"
  "gr_evidence_digest (finish_grade H a) = aggregate_evidence_digest H (gr_evidence a)"
  "gr_evidence_ids (finish_grade H a) = sort (map (evidence_id H) (gr_evidence a))"
  "gr_selected_evidence_set_id (finish_grade H a) = gr_selected_evidence_set_id a"
  "gr_selected_source_level (finish_grade H a) = gr_selected_source_level a"
  "gr_selected_source_key (finish_grade H a) = gr_selected_source_key a"
  "gr_selected_source_record_ids (finish_grade H a) = sorted_set (gr_selected_source_record_ids a)"
  "gr_provenance (finish_grade H a) = gr_provenance a"
  "gr_evidence (finish_grade H a) = gr_evidence a"
  "gr_matchweek_id (finish_grade H a) = gr_matchweek_id a"
  "gr_recommendation_id (finish_grade H a) = gr_recommendation_id a"
  "gr_prediction_digest (finish_grade H a) = gr_prediction_digest a"
  "gr_frozen_evidence_digest (finish_grade H a) = gr_frozen_evidence_digest a"
  "gr_predecessor_grade_id (finish_grade H a) = gr_predecessor_grade_id a"
  "gr_correction_sequence (finish_grade H a) = gr_correction_sequence a"
  by (simp_all add: finish_grade_def grade_fields_def Let_def)

lemma sorted_set_eq_sort_iff: "sorted_set xs = sort xs \<longleftrightarrow> distinct xs"
proof
  assume "sorted_set xs = sort xs"
  then have "distinct (sort xs)" by (metis sorted_set_sorted(2))
  then show "distinct xs" by simp
qed (simp add: sorted_set_def distinct_remdups_id)

text \<open>A blank grade with a consistent state is accepted exactly when no record occurs twice.\<close>

lemma blank_args_ok:
  assumes a: "gr_evidence a = records" "gr_evidence_ids a = map (evidence_id H) records"
    "gr_evidence_digest a = aggregate_evidence_digest H records"
    "gr_grade_digest a = []" "gr_grade_id a = []" "gr_correction_sequence a = 0"
    "gr_fixture_id a = fid" "trimmed fid"
    and s: "gr_grading_state a = PENDING \<longleftrightarrow> gr_settlement_result a = None"
  shows "grade_args_ok H a \<longleftrightarrow> distinct (map (evidence_id H) records)"
proof -
  have "strip fid \<noteq> []" using a(8) by (simp add: strip_trimmed trimmed_def)
  then show ?thesis unfolding grade_args_ok_def by (simp add: a s sorted_set_eq_sort_iff)
qed

section \<open>How a grade is decided\<close>

lemma status_group_selected:
  assumes "status_group gs = (Some g, c)"
  shows "g \<in> set gs \<and> \<not> c"
proof -
  let ?hi = "filter (\<lambda>h. g_rank h = Min (set (map g_rank gs))) gs"
  have ne: "gs \<noteq> []" and g: "g = hd ?hi" and c: "\<not> c"
    using assms by (auto simp: status_group_def Let_def split: if_splits)
  have "Min (set (map g_rank gs)) \<in> set (map g_rank gs)" using ne by (intro Min_in) auto
  then have "?hi \<noteq> []" by (auto simp: filter_empty_conv)
  from hd_in_set [OF this] show ?thesis using g c by auto
qed

text \<open>The arguments every branch hands to the constructor, apart from the decision itself.\<close>

definition grade_frame :: "hasher \<Rightarrow> betting_preference \<Rightarrow> string \<Rightarrow> settlement_evidence list \<Rightarrow>
    grade_request \<Rightarrow> settlement_grade \<Rightarrow> bool" where
  "grade_frame H p fid records q a \<longleftrightarrow>
     gr_evidence a = records \<and> gr_evidence_ids a = map (evidence_id H) records \<and>
     gr_evidence_digest a = aggregate_evidence_digest H records \<and>
     gr_grade_digest a = [] \<and> gr_grade_id a = [] \<and> gr_correction_sequence a = 0 \<and>
     gr_fixture_id a = fid \<and> gr_preference a = p \<and> gr_predecessor_grade_id a = None \<and>
     gr_matchweek_id a = q_matchweek_id q \<and> gr_recommendation_id a = q_recommendation_id q \<and>
     gr_prediction_digest a = q_prediction_digest q \<and>
     gr_frozen_evidence_digest a = q_frozen_evidence_digest q"

lemma grade_frame_init:
  assumes "grade_frame H p fid records q a" "trimmed fid"
    and "gr_grading_state a = PENDING \<longleftrightarrow> gr_settlement_result a = None"
  shows "distinct (map (evidence_id H) records) \<Longrightarrow> grade_init H a = Inr (finish_grade H a)"
    and "grade_init H a = Inr g \<Longrightarrow> distinct (map (evidence_id H) records) \<and> g = finish_grade H a"
  using blank_args_ok [of a records H fid] assms by (auto simp: grade_init_iff grade_frame_def)

text \<open>
  The decision of \<open>grade\<close>, read off the branches: the reason code, the settlement result when
  the branch settles (otherwise the call is left unresolved), and the controlling group.
\<close>

datatype decision =
    Settled string settlement_result "evidence_group option"
  | Unresolved string

definition decide_facts ::
  "betting_preference \<Rightarrow> settlement_evidence list \<Rightarrow> evidence_group list \<Rightarrow> decision" where
  "decide_facts p records groups =
     (if fst (snd (fact_group groups (required_facts p))) then Unresolved ''SOURCE_CONFLICT''
      else case fst (fact_group groups (required_facts p)) of
        None \<Rightarrow> Unresolved (if list_ex invalid_phase_relationship records
                             then ''INVALID_PHASE_RELATIONSHIP'' else ''MISSING_REQUIRED_FACTS'')
      | Some g \<Rightarrow> Settled ''GRADED'' (reference_result p (group_fact g)) (Some g))"

definition decide :: "hasher \<Rightarrow> betting_preference \<Rightarrow> settlement_evidence list \<Rightarrow> bool \<Rightarrow> decision" where
  "decide H p records withdrawn =
     (let groups = evidence_groups (fst (active_evidence_records H records)) in
      if withdrawn then Settled ''WITHDRAWN_RECOMMENDATION'' VOID None
      else if snd (status_group groups) then Unresolved ''SOURCE_CONFLICT''
      else case fst (status_group groups) of
        None \<Rightarrow> Unresolved ''MISSING_FIXTURE_STATUS''
      | Some st \<Rightarrow>
          if g_status_kinds st = {VOID_KIND} then Settled ''VOID_FIXTURE_STATUS'' VOID (Some st)
          else if g_status_kinds st \<noteq> {COMPLETE_KIND} then Unresolved ''PENDING_FIXTURE_STATUS''
          else decide_facts p records groups)"

definition decided :: "decision \<Rightarrow> bool \<Rightarrow> settlement_grade \<Rightarrow> bool" where
  "decided d finalize a \<longleftrightarrow>
     (case d of
        Settled rcode r ctrl \<Rightarrow>
          gr_grading_state a = FINAL \<and> gr_settlement_result a = Some r \<and> gr_reason_code a = rcode \<and>
          gr_selected_source_level a = map_option g_source_level ctrl \<and>
          gr_selected_source_key a = map_option g_source_key ctrl
      | Unresolved rcode \<Rightarrow>
          gr_grading_state a = (if finalize then FINAL else PENDING) \<and>
          gr_settlement_result a = (if finalize then Some VOID else None) \<and>
          gr_reason_code a = rcode \<and> gr_selected_source_level a = None \<and>
          gr_selected_source_key a = None \<and> gr_selected_evidence_set_id a = None)"

lemma decided_state: "decided d f a \<Longrightarrow> gr_grading_state a = PENDING \<longleftrightarrow> gr_settlement_result a = None"
  by (auto simp: decided_def split: decision.splits if_splits)

lemma blank_frame: "grade_frame H p fid records q
    (blank_grade fid p (aggregate_evidence_digest H records) (map (evidence_id H) records) records q)"
  by (simp add: grade_frame_def blank_grade_def)

lemma frame_updates [simp]:
  "grade_frame H p fid records q (a\<lparr>gr_grading_state := s\<rparr>) = grade_frame H p fid records q a"
  "grade_frame H p fid records q (a\<lparr>gr_settlement_result := r\<rparr>) = grade_frame H p fid records q a"
  "grade_frame H p fid records q (a\<lparr>gr_reason_code := c\<rparr>) = grade_frame H p fid records q a"
  "grade_frame H p fid records q (a\<lparr>gr_reason := c\<rparr>) = grade_frame H p fid records q a"
  "grade_frame H p fid records q (a\<lparr>gr_selected_evidence_set_id := i\<rparr>) = grade_frame H p fid records q a"
  "grade_frame H p fid records q (a\<lparr>gr_selected_source_level := l\<rparr>) = grade_frame H p fid records q a"
  "grade_frame H p fid records q (a\<lparr>gr_selected_source_key := k\<rparr>) = grade_frame H p fid records q a"
  "grade_frame H p fid records q (a\<lparr>gr_selected_source_record_ids := ids\<rparr>) = grade_frame H p fid records q a"
  "grade_frame H p fid records q (a\<lparr>gr_provenance := v\<rparr>) = grade_frame H p fid records q a"
  by (simp_all add: grade_frame_def)

lemma fact_group_ready:
  assumes "fact_group gs facts = (Some g, c, rel)"
  shows "g_complete_for g facts" "g \<in> set gs"
  using fact_group_selected(1) [OF assms] by (simp_all add: fact_source.in_control_def)

text \<open>Every branch of the code hands the constructor the frame and the decision.\<close>

definition decides :: "hasher \<Rightarrow> betting_preference \<Rightarrow> string \<Rightarrow> settlement_evidence list \<Rightarrow>
    grade_request \<Rightarrow> bool \<Rightarrow> decision \<Rightarrow> (t10_error, settlement_grade) res \<Rightarrow> bool" where
  "decides H p fid records q finalize d m \<longleftrightarrow>
     (\<exists>a. m = grade_init H a \<and> grade_frame H p fid records q a \<and> decided d finalize a)"

lemma decidesI:
  "grade_frame H p fid records q a \<Longrightarrow> decided d finalize a \<Longrightarrow>
     decides H p fid records q finalize d (grade_init H a)"
  unfolding decides_def by blast

lemma decides_unresolved:
  assumes "grade_frame H p fid records q blank" "gr_selected_source_level blank = None"
    "gr_selected_source_key blank = None" "gr_selected_evidence_set_id blank = None"
  shows "decides H p fid records q finalize (Unresolved rcode)
    (unresolved_grade H blank finalize prov rcode reason gs)"
  unfolding unresolved_grade_def using assms by (intro decidesI) (simp_all add: decided_def)

lemma grade_facts_decides:
  assumes wf: "well_formed_preference p" and frame: "grade_frame H p fid records q blank"
    and none: "gr_selected_source_level blank = None" "gr_selected_source_key blank = None"
      "gr_selected_evidence_set_id blank = None"
  shows "decides H p fid records q finalize (decide_facts p records groups)
    (grade_facts H blank finalize prov records groups)"
proof -
  have p: "gr_preference blank = p" using frame by (simp add: grade_frame_def)
  obtain sel c rel where fg: "fact_group groups (required_facts p) = (sel, c, rel)"
    by (cases "fact_group groups (required_facts p)")
  consider "c" | "\<not> c" "sel = None" | g where "\<not> c" "sel = Some g" by (cases sel) auto
  then show ?thesis
  proof cases
    case (3 g)
    have "settle_preference p g = Inr (reference_result p (group_fact g))"
      using fg unfolding 3(2) by (intro settle_well_formed [OF wf] fact_group_ready)
    then show ?thesis using 3 frame
      by (simp add: grade_facts_def p fg decide_facts_def Let_def)
        (rule decidesI, simp_all add: decided_def)
  qed (use frame none in
      \<open>simp_all add: grade_facts_def p fg decide_facts_def decides_unresolved\<close>)
qed

lemma grade_records_decides:
  assumes wf: "well_formed_preference p"
  shows "decides H p fid records q finalize (decide H p records (q_withdrawn q))
    (grade_records H p fid records finalize q)"
proof -
  let ?b = "blank_grade fid p (aggregate_evidence_digest H records)
    (map (evidence_id H) records) records q"
  let ?gs = "evidence_groups (fst (active_evidence_records H records))"
  note frame = blank_frame [of H p fid records q]
  have none: "gr_selected_source_level ?b = None" "gr_selected_source_key ?b = None"
    "gr_selected_evidence_set_id ?b = None" by (simp_all add: blank_grade_def)
  note u = decides_unresolved [OF frame none] and f = grade_facts_decides [OF wf frame none]
  obtain st c where sg: "status_group ?gs = (st, c)" by (cases "status_group ?gs")
  consider "q_withdrawn q" | "\<not> q_withdrawn q" "c" | "\<not> q_withdrawn q" "\<not> c" "st = None"
    | g where "\<not> q_withdrawn q" "\<not> c" "st = Some g" by (cases st) auto
  then show ?thesis
  proof cases
    case 1
    then show ?thesis using frame none
      by (simp add: grade_records_def decide_def Let_def) (rule decidesI, simp_all add: decided_def)
  next
    case (4 g)
    consider "g_status_kinds g = {VOID_KIND}"
      | "g_status_kinds g \<noteq> {VOID_KIND}" "g_status_kinds g \<noteq> {COMPLETE_KIND}"
      | "g_status_kinds g = {COMPLETE_KIND}" by blast
    then show ?thesis
    proof cases
      case 1
      then show ?thesis using 4 frame none
        by (simp add: grade_records_def decide_def Let_def sg)
          (rule decidesI, simp_all add: decided_def)
    qed (use 4 u f in \<open>simp_all add: grade_records_def decide_def Let_def sg\<close>)
  qed (use u in \<open>simp_all add: grade_records_def decide_def Let_def sg\<close>)
qed

lemma decides_ok:
  assumes "decides H p fid records q finalize d m" "trimmed fid" "distinct (map (evidence_id H) records)"
  shows "\<exists>a. m = Inr (finish_grade H a) \<and> grade_frame H p fid records q a \<and> decided d finalize a"
  using assms grade_frame_init(1) decided_state unfolding decides_def by blast

lemma decides_Inr:
  assumes "decides H p fid records q finalize d (Inr g)" "trimmed fid"
  shows "distinct (map (evidence_id H) records) \<and>
    (\<exists>a. g = finish_grade H a \<and> grade_frame H p fid records q a \<and> decided d finalize a)"
proof -
  obtain a where a: "grade_init H a = Inr g" "grade_frame H p fid records q a" "decided d finalize a"
    using assms(1) unfolding decides_def by metis
  show ?thesis
    using grade_frame_init(2) [OF a(2) assms(2) decided_state [OF a(3)] a(1)] a(2,3) by blast
qed

lemma decided_finish [simp]: "decided d f (finish_grade H a) = decided d f a"
  by (simp add: decided_def split: decision.split)

lemma catalog_get_member: "catalog_get c s = Inr p \<Longrightarrow> p \<in> set (preferences c)"
  by (auto simp: catalog_get_def split: option.splits dest: find_Some_props)

lemma grader_preference_member: "grader_preference c r = Inr p \<Longrightarrow> p \<in> set (preferences c)"
  by (cases r) (auto dest: catalog_get_member)

lemma grader_preference_well_formed:
  "grader_preference (default_catalog H) r = Inr p \<Longrightarrow> well_formed_preference p"
  using grader_preference_member [of "default_catalog H"] preference_well_formed
  by (simp add: default_catalog_def)

definition closing :: "grade_request \<Rightarrow> bool" where
  "closing q = (case q_close_unresolved q of None \<Rightarrow> q_finalize q | Some b \<Rightarrow> b)"

text \<open>A successful call, taken apart.\<close>

lemma grade_InrE:
  assumes "grade H c r inputs q = Inr g"
  obtains p q' es fid where "grader_preference c r = Inr p" "apply_frozen p q = Inr q'"
    "mapR (coerce_evidence H) inputs = Inr es" "trimmed fid"
    "list_all (\<lambda>e. e_fixture_id e = fid) es"
    "grade_records H p fid (sort_key record_order es) (closing q) q' = Inr g"
  using assms unfolding grade_def Let_def closing_def [symmetric]
  by (auto dest!: t10_text_Inr simp: list_all_iff)

lemma apply_frozen_withdrawn: "apply_frozen p q = Inr q' \<Longrightarrow> q_withdrawn q' = q_withdrawn q"
  by (auto simp: apply_frozen_def split: option.splits if_splits)

lemma coerce_records [simp]: "mapR (coerce_evidence H) (map EvidenceRecord es) = Inr es"
  by (induction es) simp_all

lemma grade_of_records:
  assumes "p \<in> set preference_set" "q_frozen_recommendation q = None"
    "q_fixture_id q = Some fid" "trimmed fid" "list_all (\<lambda>e. e_fixture_id e = fid) es"
  shows "grade H (default_catalog H) (PreferenceValue p) (map EvidenceRecord es) q =
    grade_records H p fid (sort_key record_order es) (closing q) q"
  using assms catalog_get_preference(1) [OF assms(1), of H]
  by (simp add: grade_def closing_def apply_frozen_def Let_def list_all_iff)

lemma grade_decided:
  assumes "grade H (default_catalog H) r inputs q = Inr g"
  obtains es where "mapR (coerce_evidence H) inputs = Inr es"
    "gr_evidence g = sort_key record_order es"
    "decided (decide H (gr_preference g) (gr_evidence g) (q_withdrawn q)) (closing q) g"
    "distinct (map (evidence_id H) es)" "gr_preference g \<in> set preference_set"
proof -
  obtain p q' es fid where c: "grader_preference (default_catalog H) r = Inr p"
    "apply_frozen p q = Inr q'" "mapR (coerce_evidence H) inputs = Inr es" "trimmed fid"
    "grade_records H p fid (sort_key record_order es) (closing q) q' = Inr g"
    using assms by (rule grade_InrE)
  have "decides H p fid (sort_key record_order es) q' (closing q)
      (decide H p (sort_key record_order es) (q_withdrawn q')) (Inr g)"
    using grade_records_decides [OF grader_preference_well_formed [OF c(1)], of H fid
        "sort_key record_order es" q' "closing q"] by (simp add: c(5))
  from decides_Inr [OF this c(4)] obtain a where a: "distinct (map (evidence_id H) (sort_key record_order es))"
    "g = finish_grade H a" "grade_frame H p fid (sort_key record_order es) q' a"
    "decided (decide H p (sort_key record_order es) (q_withdrawn q')) (closing q) a" by blast
  have "distinct (map (evidence_id H) es)"
    using a(1) by (metis distinct_map distinct_sort set_sort distinct_map mset_sort mset_map mset_eq_imp_distinct_iff)
  moreover have "p \<in> set preference_set"
    using grader_preference_member [OF c(1)] by (simp add: default_catalog_def)
  ultimately show ?thesis
    using a(3,4) apply_frozen_withdrawn [OF c(2)] c(3) that [of es]
    by (simp add: a(2) grade_frame_def)
qed

end
