(* ===== verification/Grading_Properties.thy ===== *)
theory Grading_Properties
  imports Settlement_Grading
begin

text \<open>
  What \<open>SettlementGrader.grade\<close> guarantees: when it raises, that the grade follows the rules,
  that VOID has a cause, that closing an attempt settles only what was pending, that the
  controlling source decides, and that the order of the evidence does not matter.
\<close>

section \<open>Properties of grading\<close>

definition sample_request :: grade_request where
  "sample_request =
     \<lparr>q_fixture_id = Some ''F1'', q_finalize = False, q_close_unresolved = None,
      q_withdrawn = False, q_matchweek_id = [], q_recommendation_id = [],
      q_prediction_digest = None, q_frozen_evidence_digest = None,
      q_frozen_recommendation = None\<rparr>"

definition sample_records :: "settlement_evidence list" where
  "sample_records =
     [raw_evidence CLUB ''b'' ''COMPLETED'' 0 3,
      raw_evidence COMPETITION ''a'' ''FINAL'' 2 1]"

lemma sample_ids: "distinct (map (evidence_id plain_hasher) sample_records)"
  by code_simp

lemma sample_fixture: "list_all (\<lambda>e. e_fixture_id e = ''F1'') sample_records"
  by code_simp

lemma sample_request_simps [simp]:
  "q_fixture_id sample_request = Some ''F1''" "q_frozen_recommendation sample_request = None"
  by (simp_all add: sample_request_def)

text \<open>A call about the records of one fixture.\<close>

definition grading_call ::
  "betting_preference \<Rightarrow> grade_request \<Rightarrow> string \<Rightarrow> settlement_evidence list \<Rightarrow> bool" where
  "grading_call p q fid es \<longleftrightarrow>
     p \<in> set preference_set \<and> q_frozen_recommendation q = None \<and> q_fixture_id q = Some fid \<and>
     trimmed fid \<and> list_all (\<lambda>e. e_fixture_id e = fid) es"

abbreviation grade_call ::
  "hasher \<Rightarrow> betting_preference \<Rightarrow> settlement_evidence list \<Rightarrow> grade_request \<Rightarrow>
   (t10_error, settlement_grade) res" where
  "grade_call H p es q \<equiv>
     grade H (default_catalog H) (PreferenceValue p) (map EvidenceRecord es) q"

lemma grade_call_records:
  "grading_call p q fid es \<Longrightarrow>
     grade_call H p es q = grade_records H p fid (sort_key record_order es) (closing q) q"
  unfolding grading_call_def by (elim conjE) (rule grade_of_records)

lemma sorted_records_distinct:
  "distinct (map (evidence_id H) (sort_key record_order es)) = distinct (map (evidence_id H) es)"
proof -
  have "mset (map (evidence_id H) (sort_key record_order es)) = mset (map (evidence_id H) es)" by simp
  then show ?thesis using mset_eq_imp_distinct_iff by blast
qed

lemma grade_call_ok:
  assumes "grading_call p q fid es" "distinct (map (evidence_id H) es)"
  shows "\<exists>a. grade_call H p es q = Inr (finish_grade H a) \<and>
    grade_frame H p fid (sort_key record_order es) q a \<and>
    decided (decide H p (sort_key record_order es) (q_withdrawn q)) (closing q) a"
proof -
  have wf: "well_formed_preference p" "trimmed fid"
    using assms(1) by (simp_all add: grading_call_def preference_well_formed)
  show ?thesis
    using decides_ok [OF grade_records_decides [OF wf(1), of H fid "sort_key record_order es" q "closing q"]
        wf(2)] assms(2) unfolding grade_call_records [OF assms(1)] sorted_records_distinct by blast
qed

lemma sample_call: "grading_call (preference_set ! 0) sample_request ''F1'' sample_records"
  using sample_fixture
  by (simp add: grading_call_def preference_at trimmed_def is_space_def code_def)

lemma sample_grade:
  obtains g where "grade_call plain_hasher (preference_set ! 0) sample_records sample_request = Inr g"
  using grade_call_ok [OF sample_call sample_ids] by blast

text \<open>C33: grading any catalogue preference against evidence of one fixture raises exactly when a
  record is given twice, an integrity error of the grade's constructor; otherwise it returns a
  grade whose state is PENDING exactly when it has no result.\<close>

theorem grade_succeeds_iff_distinct:
  assumes "grading_call p q fid es"
  shows "is_ok (grade H (default_catalog H) (PreferenceValue p) (map EvidenceRecord es) q) \<longleftrightarrow>
    distinct (map (evidence_id H) es)"
proof
  assume "is_ok (grade_call H p es q)"
  then obtain g where "grade_call H p es q = Inr g" by (rule is_okE)
  then show "distinct (map (evidence_id H) es)" by (rule grade_decided) simp
next
  assume "distinct (map (evidence_id H) es)"
  from grade_call_ok [OF assms this] show "is_ok (grade_call H p es q)" by auto
qed

theorem grade_succeeds_iff_distinct_witness:
  "is_ok (grade plain_hasher (default_catalog plain_hasher) (PreferenceValue (preference_set ! 0))
     (map EvidenceRecord sample_records) sample_request)"
  using grade_succeeds_iff_distinct [OF sample_call, of plain_hasher] sample_ids by simp

text \<open>C12: a grade records the decision of the rules on the active records, in the order the code
  asks: withdrawn, status conflict, missing status, VOID status, incomplete status, conflicting
  facts, missing facts, settled. A decision that does not settle leaves the grade PENDING, or
  FINAL with VOID when the grading attempt is closed.\<close>

theorem grade_follows_decision:
  assumes "grade H (default_catalog H) r inputs q = Inr g"
  shows "decided (decide H (gr_preference g) (gr_evidence g) (q_withdrawn q)) (closing q) g \<and>
    (gr_grading_state g = PENDING \<longleftrightarrow> gr_settlement_result g = None)"
proof -
  have "decided (decide H (gr_preference g) (gr_evidence g) (q_withdrawn q)) (closing q) g"
    using assms by (rule grade_decided)
  then show ?thesis using decided_state by blast
qed

theorem grade_follows_decision_witness:
  "\<exists>g. grade plain_hasher (default_catalog plain_hasher) (PreferenceValue (preference_set ! 0))
      (map EvidenceRecord sample_records) sample_request = Inr g \<and>
    (gr_grading_state g = PENDING \<longleftrightarrow> gr_settlement_result g = None)"
proof -
  obtain g where g: "grade_call plain_hasher (preference_set ! 0) sample_records sample_request = Inr g"
    by (rule sample_grade)
  show ?thesis using g conjunct2 [OF grade_follows_decision [OF g]] by (intro exI conjI)
qed

lemma status_group_rank:
  assumes "status_group gs = (Some g, c)"
  shows "g \<in> set gs \<and> \<not> c \<and> (\<forall>h \<in> set gs. g_rank g \<le> g_rank h)"
proof -
  let ?hi = "filter (\<lambda>h. g_rank h = Min (set (map g_rank gs))) gs"
  have ne: "gs \<noteq> []" and g: "g = hd ?hi" and c: "\<not> c"
    using assms by (auto simp: status_group_def Let_def split: if_splits)
  have "Min (set (map g_rank gs)) \<in> set (map g_rank gs)" using ne by (intro Min_in) auto
  then have "?hi \<noteq> []" by (auto simp: filter_empty_conv)
  from hd_in_set [OF this] have "g \<in> set gs" "g_rank g = Min (set (map g_rank gs))" using g by auto
  then show ?thesis using c by simp
qed

text \<open>C34: a grade of FINAL with VOID always has a reason: the recommendation was withdrawn, the
  grading attempt was closed unresolved, or every record of a highest-authority group reports a
  VOID status.\<close>

theorem void_only_with_cause:
  assumes "grade H (default_catalog H) r inputs q = Inr g"
    and "gr_settlement_result g = Some VOID"
  shows "q_withdrawn q \<or> closing q \<or>
    (gr_reason_code g = ''VOID_FIXTURE_STATUS'' \<and>
     list_ex (\<lambda>st. g_status_kinds st = {VOID_KIND} \<and>
         list_all (\<lambda>h. g_rank st \<le> g_rank h)
           (evidence_groups (fst (active_evidence_records H (gr_evidence g)))))
       (evidence_groups (fst (active_evidence_records H (gr_evidence g)))))"
proof -
  let ?gs = "evidence_groups (fst (active_evidence_records H (gr_evidence g)))"
  have d: "decided (decide H (gr_preference g) (gr_evidence g) (q_withdrawn q)) (closing q) g"
    using assms(1) by (rule grade_decided)
  have nv: "reference_result p v \<noteq> VOID" for p v by (simp add: reference_result_def win_if_def)
  show ?thesis
  proof (cases "q_withdrawn q \<or> closing q")
    case False
    with d assms(2) nv nv [symmetric] obtain st where st: "fst (status_group ?gs) = Some st"
      "g_status_kinds st = {VOID_KIND}" "gr_reason_code g = ''VOID_FIXTURE_STATUS''"
      by (auto simp: decide_def decide_facts_def decided_def Let_def split: option.splits if_splits)
    then have "st \<in> set ?gs \<and> (\<forall>h \<in> set ?gs. g_rank st \<le> g_rank h)"
      using status_group_rank by (metis prod.collapse)
    with st show ?thesis by (auto simp: list_ex_iff list_all_iff)
  qed auto
qed

lemma blank_grade_close: "blank_grade fid p dig ids rs (q\<lparr>q_close_unresolved := c\<rparr>) = blank_grade fid p dig ids rs q"
  by (simp add: blank_grade_def)

lemma grade_records_settled:
  assumes "well_formed_preference p" "\<exists>c r x. decide H p rs (q_withdrawn q) = Settled c r x"
  shows "grade_records H p fid rs True (q\<lparr>q_close_unresolved := Some True\<rparr>) =
    grade_records H p fid rs False (q\<lparr>q_close_unresolved := Some False\<rparr>)"
proof -
  let ?gs = "evidence_groups (fst (active_evidence_records H rs))"
  obtain st c where sg: "status_group ?gs = (st, c)" by (cases "status_group ?gs")
  obtain sel d rel where fg: "fact_group ?gs (required_facts p) = (sel, d, rel)"
    by (cases "fact_group ?gs (required_facts p)")
  have settle: "settle_preference p g = Inr (reference_result p (group_fact g))" if "sel = Some g" for g
    using fg unfolding that by (intro settle_well_formed [OF assms(1)] fact_group_ready)
  show ?thesis using assms(2) settle
    by (auto simp: grade_records_def decide_def decide_facts_def grade_facts_def Let_def sg fg
        blank_grade_close blank_grade_def split: option.splits if_splits)
qed

text \<open>C35: closing a grading attempt changes nothing but an unresolved grade: a grade that is FINAL
  is returned unchanged, and a PENDING one becomes FINAL with VOID for the same reason code.\<close>

theorem closing_only_settles_pending:
  assumes "grading_call p q fid es"
    and "grade H (default_catalog H) (PreferenceValue p) (map EvidenceRecord es)
      (q\<lparr>q_close_unresolved := Some False\<rparr>) = Inr g"
  shows "\<exists>g'. grade H (default_catalog H) (PreferenceValue p) (map EvidenceRecord es)
      (q\<lparr>q_close_unresolved := Some True\<rparr>) = Inr g' \<and>
    (if gr_grading_state g = FINAL then g' = g
     else gr_grading_state g' = FINAL \<and> gr_settlement_result g' = Some VOID \<and>
       gr_reason_code g' = gr_reason_code g \<and> gr_evidence g' = gr_evidence g)"
proof -
  let ?T = "q\<lparr>q_close_unresolved := Some True\<rparr>" and ?F = "q\<lparr>q_close_unresolved := Some False\<rparr>"
  let ?rs = "sort_key record_order es"
  let ?d = "decide H p ?rs (q_withdrawn q)"
  have calls: "grading_call p ?T fid es" "grading_call p ?F fid es"
    using assms(1) by (simp_all add: grading_call_def)
  have "distinct (map (evidence_id H) es)" using assms(2) by (rule grade_decided) simp
  from grade_call_ok [OF calls(1) this] grade_call_ok [OF calls(2) this] assms(2)
  obtain a b where a: "grade_call H p es ?T = Inr (finish_grade H a)" "decided ?d True a" "gr_evidence a = ?rs"
    and b: "g = finish_grade H b" "decided ?d False b" "gr_evidence b = ?rs"
    by (auto simp: closing_def grade_frame_def)
  show ?thesis
  proof (cases "gr_grading_state g = FINAL")
    case True
    then have "\<exists>c r x. ?d = Settled c r x"
      using b(1,2) by (cases ?d) (auto simp: decided_def)
    then have "grade_records H p fid ?rs True ?T = grade_records H p fid ?rs False ?F"
      using assms(1) by (intro grade_records_settled) (auto simp: grading_call_def preference_well_formed)
    then have "grade_call H p es ?T = grade_call H p es ?F"
      unfolding grade_call_records [OF calls(1)] grade_call_records [OF calls(2)] by (simp add: closing_def)
    then show ?thesis using True assms(2) by simp
  next
    case False
    then obtain c where "?d = Unresolved c" using b(1,2) by (cases ?d) (auto simp: decided_def)
    then show ?thesis using a b False by (simp add: decided_def)
  qed
qed

lemma decided_graded:
  assumes "decided (decide H p rs w) f g" "gr_reason_code g = ''GRADED''"
  obtains st c where "fst (status_group (evidence_groups (fst (active_evidence_records H rs)))) = Some st"
    "g_status_kinds st = {COMPLETE_KIND}"
    "fst (fact_group (evidence_groups (fst (active_evidence_records H rs))) (required_facts p)) = Some c"
    "gr_settlement_result g = Some (reference_result p (group_fact c))"
    "gr_selected_source_level g = Some (g_source_level c)"
  using assms
  by (auto simp: decide_def decide_facts_def decided_def Let_def split: option.splits if_splits)

text \<open>C13: a GRADED result is the reference result of the facts of a controlling group of the active
  evidence: complete for the required facts, of the selected source level, with no complete or
  conflicting group of higher authority and no conflicting one of the same authority; and the
  status of some highest-authority group is complete.\<close>

theorem graded_from_controlling_source:
  assumes "grade H (default_catalog H) r inputs q = Inr g" and "gr_reason_code g = ''GRADED''"
  shows "let gs = evidence_groups (fst (active_evidence_records H (gr_evidence g)));
             facts = required_facts (gr_preference g)
         in list_ex (\<lambda>c. g_complete_for c facts \<and>
              gr_selected_source_level g = Some (g_source_level c) \<and>
              gr_settlement_result g = Some (reference_result (gr_preference g) (group_fact c)) \<and>
              list_all (\<lambda>h. \<not> (g_rank h < g_rank c \<and> g_complete_for h facts) \<and>
                 \<not> (g_rank h \<le> g_rank c \<and> g_conflicts_for h facts)) gs) gs \<and>
            list_ex (\<lambda>st. g_status_kinds st = {COMPLETE_KIND} \<and>
              list_all (\<lambda>h. g_rank st \<le> g_rank h) gs) gs"
proof -
  let ?gs = "evidence_groups (fst (active_evidence_records H (gr_evidence g)))"
  have d: "decided (decide H (gr_preference g) (gr_evidence g) (q_withdrawn q)) (closing q) g"
    using assms(1) by (rule grade_decided)
  obtain st c where c: "fst (status_group ?gs) = Some st" "g_status_kinds st = {COMPLETE_KIND}"
    "fst (fact_group ?gs (required_facts (gr_preference g))) = Some c"
    "gr_settlement_result g = Some (reference_result (gr_preference g) (group_fact c))"
    "gr_selected_source_level g = Some (g_source_level c)"
    using d assms(2) by (rule decided_graded)
  have st: "st \<in> set ?gs \<and> (\<forall>h \<in> set ?gs. g_rank st \<le> g_rank h)"
    using c(1) status_group_rank by (metis prod.collapse)
  have "fact_source.in_control (required_facts (gr_preference g)) ?gs c"
    using c(3) fact_group_selected(1) by (metis prod.collapse)
  then show ?thesis using st c(2,4,5)
    unfolding Let_def list_ex_iff list_all_iff fact_source.in_control_def by (metis leD)
qed

text \<open>C36: the grade does not depend on the order in which the evidence is supplied, provided
  different records have different digests.\<close>

theorem grade_order_independent:
  assumes "mset inputs = mset inputs'" and "mapR (coerce_evidence H) inputs = Inr es"
    and "inj_on e_evidence_digest (set es)"
  shows "grade H c r inputs q = grade H c r inputs' q"
proof -
  obtain es' where es': "mapR (coerce_evidence H) inputs' = Inr es'" "mset es' = mset es"
    using mapR_mset [OF assms(2,1)] by blast
  have "sort_key record_order es = sort_key record_order es'"
    using assms(3) by (intro sort_key_inj_on_unique) (auto simp: es'(2) record_order_def inj_on_def)
  then show ?thesis by (simp add: grade_def assms(2) es'(1))
qed

theorem grade_order_independent_witness:
  "\<forall>r q. grade plain_hasher (default_catalog plain_hasher) r (map EvidenceRecord sample_records) q =
   grade plain_hasher (default_catalog plain_hasher) r (map EvidenceRecord (rev sample_records)) q"
proof (intro allI, rule grade_order_independent)
  show "mset (map EvidenceRecord sample_records) = mset (map EvidenceRecord (rev sample_records))" by simp
  have "distinct (map e_evidence_digest sample_records)" by code_simp
  then show "inj_on e_evidence_digest (set sample_records)" by (simp add: distinct_map)
qed (rule coerce_records)

text \<open>A withdrawn recommendation is graded FINAL and VOID whatever the evidence says.\<close>

lemma withdrawn_is_void:
  assumes "grade H (default_catalog H) r inputs q = Inr g" and "q_withdrawn q"
  shows "gr_grading_state g = FINAL \<and> gr_settlement_result g = Some VOID \<and>
    gr_reason_code g = ''WITHDRAWN_RECOMMENDATION'' \<and> gr_selected_source_level g = None"
proof -
  have "decided (decide H (gr_preference g) (gr_evidence g) (q_withdrawn q)) (closing q) g"
    using assms(1) by (rule grade_decided)
  then show ?thesis using assms(2) by (simp add: decided_def decide_def Let_def)
qed

section \<open>Witnesses\<close>

definition decision_code :: "decision \<Rightarrow> string" where
  "decision_code d = (case d of Settled c _ _ \<Rightarrow> c | Unresolved c \<Rightarrow> c)"

definition decision_result :: "decision \<Rightarrow> settlement_result option" where
  "decision_result d = (case d of Settled _ r _ \<Rightarrow> Some r | Unresolved _ \<Rightarrow> None)"

lemma decided_code: "decided d f g \<Longrightarrow> gr_reason_code g = decision_code d"
  by (auto simp: decided_def decision_code_def split: decision.splits)

lemma decided_result: "decided d f g \<Longrightarrow> decision_result d = Some r \<Longrightarrow> gr_settlement_result g = Some r"
  by (auto simp: decided_def decision_result_def split: decision.splits)

lemma grade_call_decision:
  assumes "grading_call p q fid es" "distinct (map (evidence_id H) es)"
  obtains g where "grade_call H p es q = Inr g"
    "decided (decide H p (sort_key record_order es) (q_withdrawn q)) (closing q) g"
  using grade_call_ok [OF assms] by force

definition void_records :: "settlement_evidence list" where
  "void_records = [raw_evidence FEDERATION ''v'' ''POSTPONED'' 0 0]"

definition sample_groups :: "settlement_evidence list \<Rightarrow> evidence_group list" where
  "sample_groups es =
     evidence_groups (fst (active_evidence_records plain_hasher (sort_key record_order es)))"

lemma sample_status:
  "map_option g_status_kinds (fst (status_group (sample_groups sample_records))) = Some {COMPLETE_KIND}"
  "snd (status_group (sample_groups sample_records)) = False"
  "map_option g_status_kinds (fst (status_group (sample_groups void_records))) = Some {VOID_KIND}"
  "snd (status_group (sample_groups void_records)) = False"
  by code_simp+

lemma sample_facts:
  "fst (snd (fact_group (sample_groups sample_records) full_goal_facts)) = False"
  "fst (fact_group (sample_groups sample_records) full_goal_facts) \<noteq> None"
  by code_simp+

lemma sample_decisions:
  "decision_code (decide plain_hasher (preference_set ! 0) (sort_key record_order sample_records) False)
     = ''GRADED''"
  "decision_result (decide plain_hasher (preference_set ! 0) (sort_key record_order void_records) False)
     = Some VOID"
  using sample_status sample_facts
  by (auto simp: decide_def decide_facts_def decision_code_def decision_result_def Let_def
      sample_preferences simp flip: sample_groups_def)

lemma void_call: "grading_call (preference_set ! 0) sample_request ''F1'' void_records"
proof -
  have "list_all (\<lambda>e. e_fixture_id e = ''F1'') void_records" by code_simp
  then show ?thesis using sample_call by (simp add: grading_call_def)
qed

lemma sample_open: "q_withdrawn sample_request = False"
  by (simp add: sample_request_def)

theorem void_only_with_cause_witness:
  "\<exists>g. grade plain_hasher (default_catalog plain_hasher) (PreferenceValue (preference_set ! 0))
      (map EvidenceRecord void_records) sample_request = Inr g \<and>
    gr_settlement_result g = Some VOID \<and> gr_reason_code g = ''VOID_FIXTURE_STATUS''"
proof -
  have "distinct (map (evidence_id plain_hasher) void_records)" by (simp add: void_records_def)
  with void_call obtain g where g: "grade_call plain_hasher (preference_set ! 0) void_records sample_request = Inr g"
    "decided (decide plain_hasher (preference_set ! 0) (sort_key record_order void_records)
      (q_withdrawn sample_request)) (closing sample_request) g"
    by (rule grade_call_decision)
  have v: "gr_settlement_result g = Some VOID"
    using g(2) unfolding sample_open by (rule decided_result) (rule sample_decisions)
  have "\<not> closing sample_request" by (simp add: closing_def sample_request_def)
  then have "gr_reason_code g = ''VOID_FIXTURE_STATUS''"
    using void_only_with_cause [OF g(1) v] by (elim disjE conjE) (simp_all add: sample_open)
  with g(1) v show ?thesis by (intro exI conjI)
qed

theorem graded_from_controlling_source_witness:
  "\<exists>g. grade plain_hasher (default_catalog plain_hasher) (PreferenceValue (preference_set ! 0))
      (map EvidenceRecord sample_records) sample_request = Inr g \<and>
    list_ex (\<lambda>st. g_status_kinds st = {COMPLETE_KIND})
      (evidence_groups (fst (active_evidence_records plain_hasher (gr_evidence g))))"
proof -
  from sample_call sample_ids obtain g
    where g: "grade_call plain_hasher (preference_set ! 0) sample_records sample_request = Inr g"
    "decided (decide plain_hasher (preference_set ! 0) (sort_key record_order sample_records)
      (q_withdrawn sample_request)) (closing sample_request) g"
    by (rule grade_call_decision)
  have "gr_reason_code g = ''GRADED''"
    using decided_code [OF g(2)] sample_decisions(1) unfolding sample_open by simp
  from graded_from_controlling_source [OF g(1) this]
  have "list_ex (\<lambda>st. g_status_kinds st = {COMPLETE_KIND})
      (evidence_groups (fst (active_evidence_records plain_hasher (gr_evidence g))))"
    unfolding Let_def list_ex_iff by blast
  with g(1) show ?thesis by (intro exI conjI)
qed

theorem closing_only_settles_pending_witness:
  "\<exists>g g'. grade plain_hasher (default_catalog plain_hasher) (PreferenceValue (preference_set ! 0))
      (map EvidenceRecord []) (sample_request\<lparr>q_close_unresolved := Some False\<rparr>) = Inr g \<and>
    grade plain_hasher (default_catalog plain_hasher) (PreferenceValue (preference_set ! 0))
      (map EvidenceRecord []) (sample_request\<lparr>q_close_unresolved := Some True\<rparr>) = Inr g'"
proof -
  have call: "grading_call (preference_set ! 0) sample_request ''F1'' []"
    using sample_call by (simp add: grading_call_def)
  then have "grading_call (preference_set ! 0) (sample_request\<lparr>q_close_unresolved := Some False\<rparr>) ''F1'' []"
    by (simp add: grading_call_def)
  then obtain g where g: "grade_call plain_hasher (preference_set ! 0) []
      (sample_request\<lparr>q_close_unresolved := Some False\<rparr>) = Inr g"
    by (rule grade_call_decision) simp
  from closing_only_settles_pending [OF call g] g show ?thesis by metis
qed

end
