(* ===== verification/Match_Settlement.thy ===== *)
theory Match_Settlement
  imports Grading_Properties
begin

text \<open>
  Settlement on the matches of the frozen research (\<open>t09.py\<close> into \<open>t10.py\<close>): what a grade made from
  \<open>HistoricalMatch\<close> records rests on.
\<close>

section \<open>From groups back to matches\<close>

lemma evidence_groups_records:
  assumes "c \<in> set (evidence_groups es)" and "e \<in> set (g_records c)"
  shows "e \<in> set es"
proof -
  obtain level skey rset members where m:
    "((level, skey, rset), members) \<in> set (group_by (\<lambda>(i, e). group_key e) (List.enumerate 0 es))"
    "g_records c = map snd members"
    using assms(1) by (auto simp: evidence_groups_def)
  have "members = filter (\<lambda>x. (case x of (i, e) \<Rightarrow> group_key e) = (level, skey, rset)) (List.enumerate 0 es)"
    using m(1) by (rule group_by_mem)
  then have "set members \<subseteq> set (List.enumerate 0 es)" by auto
  with assms(2) m(2) have "e \<in> snd ` set (List.enumerate 0 es)" by auto
  then show ?thesis by (simp flip: set_map)
qed

lemma group_fact_record:
  assumes "g_complete_for c facts" and "f \<in> set facts"
  obtains e where "e \<in> set (g_records c)" "fact_value e f = Some (group_fact c f)"
    "status_kind_of e = COMPLETE_KIND"
proof -
  have k: "g_status_kinds c = {COMPLETE_KIND}" and v: "fst (g_value c f) \<noteq> None"
    using assms by (simp_all add: g_complete_for_def list_all_iff)
  then obtain v where "fst (g_value c f) = Some v" by blast
  then have "set (List.map_filter (\<lambda>e. fact_value e f) (g_records c)) = {v}" and "group_fact c f = v"
    using set_remdups [of "List.map_filter (\<lambda>e. fact_value e f) (g_records c)"]
    by (auto simp: g_value_def group_fact_def simp del: set_remdups split: list.splits)
  then have "group_fact c f \<in> set (List.map_filter (\<lambda>e. fact_value e f) (g_records c))" by simp
  then obtain e where "e \<in> set (g_records c)" "fact_value e f = Some (group_fact c f)"
    by (auto simp: List.map_filter_def)
  with k that show ?thesis by (auto simp: g_status_kinds_def)
qed

lemma coerced_match:
  assumes "mapR (coerce_evidence H) (map EvidenceMatch ms) = Inr es" and "e \<in> set es"
  obtains m where "m \<in> set ms" "fact_value e f = observed_metric m f"
    "e_regulation_completed e \<longleftrightarrow> hm_final_state m = OBSERVED"
  using mapR_in_set [OF assms] by (auto dest: evidence_from_match_fields)

text \<open>C10: a grade settled on played matches of the frozen research is the reference result of values
  each of which some match reports as observed, with provenance, of a final state that was observed
  too: no count without a source, and none that a source did not observe, enters a settlement.\<close>

theorem graded_matches_observed:
  assumes "grade H (default_catalog H) r (map EvidenceMatch ms) q = Inr g"
    and "gr_reason_code g = ''GRADED''"
  shows "\<exists>v. gr_settlement_result g = Some (reference_result (gr_preference g) v) \<and>
    list_all (\<lambda>f. list_ex (\<lambda>m. match_metric m f = Some (v f) \<and>
        match_metric_state m (fact_text f) = OBSERVED \<and> match_has_provenance m (fact_text f) \<and>
        hm_final_state m = OBSERVED) ms)
      (required_facts (gr_preference g))"
proof -
  obtain es where es: "mapR (coerce_evidence H) (map EvidenceMatch ms) = Inr es"
    "gr_evidence g = sort_key record_order es"
    "decided (decide H (gr_preference g) (gr_evidence g) (q_withdrawn q)) (closing q) g"
    using assms(1) by (rule grade_decided)
  let ?gs = "evidence_groups (fst (active_evidence_records H (gr_evidence g)))"
  from es(3) assms(2) obtain c where c: "fst (fact_group ?gs (required_facts (gr_preference g))) = Some c"
    "gr_settlement_result g = Some (reference_result (gr_preference g) (group_fact c))"
    by (rule decided_graded)
  then have complete: "g_complete_for c (required_facts (gr_preference g))" and mem: "c \<in> set ?gs"
    using fact_group_ready by (metis prod.collapse)+
  have "\<exists>m \<in> set ms. match_metric m f = Some (group_fact c f) \<and>
      match_metric_state m (fact_text f) = OBSERVED \<and> match_has_provenance m (fact_text f) \<and>
      hm_final_state m = OBSERVED" if f: "f \<in> set (required_facts (gr_preference g))" for f
  proof -
    obtain e where e: "e \<in> set (g_records c)" "fact_value e f = Some (group_fact c f)"
      "status_kind_of e = COMPLETE_KIND"
      using complete f by (rule group_fact_record)
    have "e \<in> set es"
      using evidence_groups_records [OF mem e(1)] by (simp add: active_evidence_records_def es(2))
    with es(1) obtain m where "m \<in> set ms" "fact_value e f = observed_metric m f"
      "e_regulation_completed e \<longleftrightarrow> hm_final_state m = OBSERVED" by (rule coerced_match)
    then show ?thesis
      using e(2) status_kind_complete [OF e(3)] observed_metric_Some observed_provenance by metis
  qed
  with c(2) show ?thesis by (auto simp: list_all_iff list_ex_iff)
qed

section \<open>A sample match\<close>

definition sample_match_args :: match_args where
  "sample_match_args =
     \<lparr>hm_fixture_id = PStr ''F1'', hm_home_team_id = PStr ''H'', hm_away_team_id = PStr ''A'',
      hm_kickoff_utc = ''2026-08-14T19:00:00Z'',
      hm_full_time_home_goals = Some 2, hm_full_time_away_goals = Some 1,
      hm_half_time_home_goals = Some 1, hm_half_time_away_goals = None,
      hm_corners_home = None, hm_corners_away = None, hm_shots_home = None, hm_shots_away = None,
      hm_shots_on_target_home = None, hm_shots_on_target_away = None,
      hm_yellow_cards_home = None, hm_yellow_cards_away = None,
      hm_red_cards_home = None, hm_red_cards_away = None,
      hm_metric_states = [(''half_time_home_goals'', PStr '' unknown'')],
      hm_metric_input_ids = [], hm_source_assertion_ids = [''s2'', ''s1''],
      hm_source_digest = None, hm_source_key = PStr ''history'', hm_origin_id = None,
      hm_observed_at_utc = None, hm_published_at_utc = None, hm_red_card_minutes = [],
      hm_penalty_minutes = [], hm_regime_id = None, hm_competition_key = None,
      hm_competition_type = ''TARGET_LEAGUE'', hm_fixture_status = PStr ''completed'',
      hm_final_state = PStr ''OBSERVED''\<rparr>"

definition sample_match :: match_record where
  "sample_match =
     \<lparr>hm_fixture_id = ''F1'', hm_home_team_id = ''H'', hm_away_team_id = ''A'',
      hm_kickoff_utc = ''2026-08-14T19:00:00.000000+00:00'',
      hm_full_time_home_goals = Some 2, hm_full_time_away_goals = Some 1,
      hm_half_time_home_goals = Some 1, hm_half_time_away_goals = None,
      hm_corners_home = None, hm_corners_away = None, hm_shots_home = None, hm_shots_away = None,
      hm_shots_on_target_home = None, hm_shots_on_target_away = None,
      hm_yellow_cards_home = None, hm_yellow_cards_away = None,
      hm_red_cards_home = None, hm_red_cards_away = None,
      hm_metric_states = [(''half_time_home_goals'', UNKNOWN)],
      hm_metric_input_ids = [], hm_source_assertion_ids = [''s1'', ''s2''],
      hm_source_digest = None, hm_source_key = ''history'', hm_origin_id = None,
      hm_observed_at_utc = None, hm_published_at_utc = None, hm_red_card_minutes = [],
      hm_penalty_minutes = [], hm_regime_id = None, hm_competition_key = None,
      hm_competition_type = ''TARGET_LEAGUE'', hm_fixture_status = ''COMPLETED'',
      hm_final_state = OBSERVED\<rparr>"

lemma sample_match_init: "match_init sample_match_args = Inr sample_match"
  by code_simp

text \<open>The evidence it gives, up to its digest.\<close>

definition sample_match_evidence :: "string \<Rightarrow> settlement_evidence" where
  "sample_match_evidence d =
     \<lparr>e_fixture_id = ''F1'', e_source_level = FOOTBALL_DATA, e_source_key = ''history'',
      e_record_id = ''F1'', e_record_set_id = ''F1'', e_source_digest = None,
      e_fixture_status = ''COMPLETED'', e_regulation_completed = True, e_resumable = False,
      e_administrative_award = False, e_full_time_home_goals = Some 2,
      e_full_time_away_goals = Some 1, e_half_time_home_goals = None,
      e_half_time_away_goals = None, e_corners_home = None, e_corners_away = None,
      e_extra_time_home_goals = None, e_extra_time_away_goals = None,
      e_shootout_home_goals = None, e_shootout_away_goals = None,
      e_source_assertion_ids = [''s1'', ''s2''], e_published_at_utc = None,
      e_observed_at_utc = None, e_retrieved_at_utc = None, e_predecessor_id = None,
      e_provenance = match_provenance sample_match, e_evidence_digest = d\<rparr>"

lemma sample_match_observed:
  "observed_metric sample_match full_time_home_goals = Some 2"
  "observed_metric sample_match full_time_away_goals = Some 1"
  "observed_metric sample_match half_time_home_goals = None"
  "observed_metric sample_match half_time_away_goals = None"
  "observed_metric sample_match corners_home = None"
  "observed_metric sample_match corners_away = None"
  "match_assertion_ids sample_match = [''s1'', ''s2'']"
  by code_simp+

lemma sample_match_texts:
  "t10_text (PStr ''F1'') l = Inr ''F1''" "t10_text (PStr ''history'') l = Inr ''history''"
  "t10_text (PStr ''COMPLETED'') l = Inr ''COMPLETED''"
  by code_simp+

lemma sample_match_codes:
  "upper ''COMPLETED'' = ''COMPLETED''"
  "t10_source (PStr ''FOOTBALL_DATA'') = Inr FOOTBALL_DATA"
  "t10_strings (str_list [''s1'', ''s2'']) = Inr [''s1'', ''s2'']"
  by code_simp+

lemma sample_match_coerced:
  obtains d where "coerce_evidence H (EvidenceMatch sample_match) = Inr (sample_match_evidence d)"
proof -
  have "hm_fixture_id sample_match = ''F1''" "hm_source_key sample_match = ''history''"
    "hm_source_digest sample_match = None" "hm_fixture_status sample_match = ''COMPLETED''"
    "hm_final_state sample_match = OBSERVED" "hm_published_at_utc sample_match = None"
    "hm_observed_at_utc sample_match = None"
    by (simp_all add: sample_match_def)
  note m = this sample_match_observed sample_match_texts sample_match_codes
  let ?d = "digest H (PDict (evidence_payload (sample_match_evidence [])))"
  have "coerce_evidence H (EvidenceMatch sample_match) = Inr (sample_match_evidence ?d)"
    by (simp add: evidence_from_match_def evidence_init_def m checked_bool_def checked_count_def
      t10_optional_utc_def Let_def sample_match_evidence_def del: json_text.simps)
  then show ?thesis by (rule that)
qed

text \<open>Its grade for a Home win: one group, complete for the goals.\<close>

lemma sample_match_groups:
  "fst (active_evidence_records H [sample_match_evidence d]) = [sample_match_evidence d]"
  "map_option g_status_kinds (fst (status_group (evidence_groups [sample_match_evidence d]))) = Some {COMPLETE_KIND}"
  "snd (status_group (evidence_groups [sample_match_evidence d])) = False"
  "fst (snd (fact_group (evidence_groups [sample_match_evidence d]) full_goal_facts)) = False"
  "fst (fact_group (evidence_groups [sample_match_evidence d]) full_goal_facts) \<noteq> None"
      apply (simp add: active_evidence_records_def superseded_ids_def sample_match_evidence_def List.map_filter_def)
     apply code_simp
    apply code_simp
   apply code_simp
  apply code_simp
  done

lemma sample_match_decision:
  "decision_code (decide H (preference_set ! 0) [sample_match_evidence d] False) = ''GRADED''"
proof -
  let ?gs = "evidence_groups [sample_match_evidence d]"
  obtain st c where "fst (status_group ?gs) = Some st" "g_status_kinds st = {COMPLETE_KIND}"
    "fst (fact_group ?gs full_goal_facts) = Some c"
    using sample_match_groups(2,5) [of d] by auto
  then show ?thesis
    by (simp add: decide_def decide_facts_def decision_code_def sample_preferences sample_match_groups Let_def)
qed

theorem graded_matches_observed_witness:
  "\<exists>g. grade plain_hasher (default_catalog plain_hasher) (PreferenceValue (preference_set ! 0))
      (map EvidenceMatch [sample_match]) sample_request = Inr g \<and> gr_reason_code g = ''GRADED'' \<and>
    list_ex (\<lambda>m. hm_final_state m = OBSERVED) [sample_match]"
proof -
  obtain d where d: "coerce_evidence plain_hasher (EvidenceMatch sample_match) = Inr (sample_match_evidence d)"
    by (rule sample_match_coerced)
  let ?es = "[sample_match_evidence d]"
  have "grading_call (preference_set ! 0) sample_request ''F1'' ?es"
    using sample_call by (simp add: grading_call_def sample_match_evidence_def)
  then obtain g where g: "grade_call plain_hasher (preference_set ! 0) ?es sample_request = Inr g"
    "decided (decide plain_hasher (preference_set ! 0) (sort_key record_order ?es)
      (q_withdrawn sample_request)) (closing sample_request) g"
    by (rule grade_call_decision) simp
  have graded: "gr_reason_code g = ''GRADED''"
    using decided_code [OF g(2)] sample_match_decision by (simp add: sample_open)
  have call: "grade plain_hasher (default_catalog plain_hasher) (PreferenceValue (preference_set ! 0))
      (map EvidenceMatch [sample_match]) sample_request = Inr g"
    using g(1) d by (simp add: grade_def)
  from graded_matches_observed [OF call graded] call graded show ?thesis by (simp add: sample_match_def)
qed

end
