(* ===== verification/Store_Columns.thy ===== *)
theory Store_Columns
  imports Py_Value
begin

text \<open>
  What the columns of the store accept, whichever table they are in: the \<open>CHECK\<close> of a digest
  column, the identifiers \<open>CanonicalIdentifier\<close> lets through, and the values \<open>json.dumps\<close>
  can write.
\<close>

definition is_hex :: "char \<Rightarrow> bool" where
  "is_hex c \<longleftrightarrow> is_digit c \<or> 97 \<le> code c \<and> code c \<le> 102"

definition sha_shaped :: "string \<Rightarrow> bool" where
  "sha_shaped s \<longleftrightarrow> length s = 64 \<and> list_all is_hex s"

definition uuid_shaped :: "string \<Rightarrow> bool" where
  "uuid_shaped s \<longleftrightarrow> length s = 36 \<and>
     list_all (\<lambda>(i, c). if i \<in> {8, 13, 18, 23} then c = CHR ''-'' else is_hex c) (List.enumerate 0 s)"

text \<open>\<open>json.dumps\<close> without \<open>_jsonable\<close>: a \<open>Fraction\<close> is a \<open>TypeError\<close>.\<close>

fun json_encodable :: "pyval \<Rightarrow> bool" where
  "json_encodable (PFrac r) = False"
| "json_encodable (PList xs) = list_all json_encodable xs"
| "json_encodable (PDict kvs) = list_all (\<lambda>p. json_encodable (snd p)) kvs"
| "json_encodable _ = True"

section \<open>The canonical text of a list of digests\<close>

text \<open>The characters of a digest are written as they are, so lists of digests have distinct texts.\<close>

lemma hex_code: "is_hex c \<Longrightarrow> 48 \<le> code c \<and> code c \<le> 57 \<or> 97 \<le> code c \<and> code c \<le> 102"
  by (auto simp: is_hex_def is_digit_def)

lemma json_char_hex: "is_hex c \<Longrightarrow> json_char c = [c]"
  by (drule hex_code) (auto simp: json_char_def Let_def)

lemma json_string_hex: "list_all is_hex s \<Longrightarrow> json_string s = CHR 0x22 # s @ [CHR 0x22]"
  by (induction s) (simp_all add: json_string_def json_char_hex)

lemma join_Cons: "join sep (z # zs) = z @ (if zs = [] then [] else sep @ join sep zs)"
  by (cases zs) auto

lemma join_quoted_inj:
  assumes "list_all (\<lambda>s. length s = n) xs" "list_all (\<lambda>s. length s = n) ys"
    and "0 < n" "join '','' xs = join '','' ys"
  shows "xs = ys"
  using assms
proof (induction xs arbitrary: ys)
  case Nil
  then show ?case by (cases ys) (auto simp: join_Cons split: if_splits)
next
  case (Cons x xs)
  obtain y zs where ys: "ys = y # zs"
    using Cons.prems by (cases ys) (auto simp: join_Cons split: if_splits)
  have l: "length x = length y" using Cons.prems(1,2) ys by simp
  have eq: "x = y" "(if xs = [] then [] else '','' @ join '','' xs) = (if zs = [] then [] else '','' @ join '','' zs)"
    using Cons.prems(4) l unfolding ys join_Cons by simp_all
  then have "xs = zs"
    using Cons.IH [of zs] Cons.prems(1-3) ys by (auto split: if_splits)
  then show ?case by (simp add: ys eq)
qed

lemma digest_list_text_inj:
  assumes "list_all sha_shaped xs" "list_all sha_shaped ys"
    and "json_text (str_list xs) = json_text (str_list ys)"
  shows "xs = ys"
proof -
  have q: "map json_string zs = map (\<lambda>s. CHR 0x22 # s @ [CHR 0x22]) zs" if "list_all sha_shaped zs" for zs
    using that by (auto simp: list_all_iff sha_shaped_def intro!: json_string_hex)
  have "join '','' (map json_string xs) = join '','' (map json_string ys)"
    using assms(3) by (simp add: str_list_def comp_def)
  then have "map json_string xs = map json_string ys"
    using assms(1,2) by (intro join_quoted_inj [of 66]) (auto simp: q list_all_iff sha_shaped_def)
  then have "map (\<lambda>s. CHR 0x22 # s @ [CHR 0x22]) xs = map (\<lambda>s. CHR 0x22 # s @ [CHR 0x22]) ys"
    by (simp add: q [OF assms(1)] q [OF assms(2)])
  then show ?thesis by (rule map_injective) (auto intro: injI)
qed

end
