(* ===== verification/Settlement_Record.thy ===== *)
theory Settlement_Record
  imports Settlement_Grading Store_Columns
begin

text \<open>
  \<open>SettlementGradeRecorder\<close> of \<open>t10.py\<close>: the three settlement tables of the store with the
  constraints their schema declares, reading rows back, the rule that decides whether an incoming
  grade becomes a correction, and the transaction that records grades. A JSON column holds the
  value its text decodes to, or \<open>None\<close> for text that is not JSON; the time of a write is an
  argument. A call that fails leaves the store as it was: the transaction is rolled back.
\<close>

section \<open>The tables\<close>

datatype record_error =
    Raised t10_error
  | PyTypeError
  | SqliteIntegrityError

record evidence_row =
  er_id :: string
  er_fixture_id :: string
  er_source_level :: string
  er_source_key :: string
  er_record_id :: string
  er_record_set_id :: string
  er_digest :: string
  er_payload :: "pyval option"
  er_created :: string

record grade_row =
  w_grade_id :: string
  w_grading_key :: string
  w_fixture_id :: string
  w_matchweek_id :: string
  w_recommendation_id :: string
  w_preference_id :: string
  w_catalog_version :: string
  w_catalog_digest :: string
  w_grading_state :: string
  w_settlement_result :: "string option"
  w_reason_code :: string
  w_reason :: string
  w_selected_evidence_set_id :: "string option"
  w_selected_source_level :: "string option"
  w_selected_source_key :: "string option"
  w_input_evidence_digest :: string
  w_prediction_digest :: "string option"
  w_frozen_evidence_digest :: "string option"
  w_predecessor_grade_id :: "string option"
  w_correction_sequence :: int
  w_grade_digest :: string
  w_payload :: "pyval option"
  w_created :: string

record settlement_store =
  st_identifiers :: "(string \<times> string) list"
  st_evidence :: "evidence_row list"
  st_grades :: "grade_row list"
  st_links :: "(string \<times> string \<times> nat) list"

definition empty_store :: settlement_store where
  "empty_store = \<lparr>st_identifiers = [], st_evidence = [], st_grades = [], st_links = []\<rparr>"

definition lift_t10 :: "(t10_error, 'a) res \<Rightarrow> (record_error, 'a) res" where
  "lift_t10 m = (case m of Inl e \<Rightarrow> Inl (Raised e) | Inr x \<Rightarrow> Inr x)"

text \<open>\<open>StoreTransaction.add_identifier_if_missing(CanonicalIdentifier(kind, value))\<close>\<close>

definition add_identifier_if_missing ::
  "string \<Rightarrow> string \<Rightarrow> settlement_store \<Rightarrow> (record_error, settlement_store) res" where
  "add_identifier_if_missing kind value st =
     bindR (guardR (uuid_shaped value) (Raised PyValueError)) (\<lambda>_.
     if (value, kind) \<in> set (st_identifiers st) then Inr st
     else bindR (guardR (value \<notin> set (map fst (st_identifiers st))) SqliteIntegrityError) (\<lambda>_.
       Inr (st\<lparr>st_identifiers := st_identifiers st @ [(value, kind)]\<rparr>)))"

section \<open>Evidence rows\<close>

definition evidence_columns :: "hasher \<Rightarrow> settlement_evidence \<Rightarrow> string list" where
  "evidence_columns H e =
     [evidence_id H e, e_fixture_id e, source_text (e_source_level e), e_source_key e,
      e_record_id e, e_record_set_id e, e_evidence_digest e]"

definition evidence_row_columns :: "evidence_row \<Rightarrow> string list" where
  "evidence_row_columns r =
     [er_id r, er_fixture_id r, er_source_level r, er_source_key r, er_record_id r,
      er_record_set_id r, er_digest r]"

text \<open>\<open>_stored_evidence_from_row\<close>\<close>

definition stored_evidence_from_row ::
  "hasher \<Rightarrow> evidence_row \<Rightarrow> (t10_error, settlement_evidence) res" where
  "stored_evidence_from_row H r =
     (case er_payload r of
        None \<Rightarrow> Inl (T10IntegrityError ''Stored Settlement Evidence payload is malformed.'')
      | Some (PDict m) \<Rightarrow>
          bindR (evidence_from_mapping H m) (\<lambda>e.
          bindR (guardR (evidence_row_columns r = evidence_columns H e)
            (T10IntegrityError ''Stored Settlement Evidence columns do not match its payload.'')) (\<lambda>_.
          Inr e))
      | Some _ \<Rightarrow> Inl (T10IntegrityError ''Stored Settlement Evidence payload is not an object.''))"

definition new_evidence_row :: "hasher \<Rightarrow> string \<Rightarrow> settlement_evidence \<Rightarrow> evidence_row" where
  "new_evidence_row H now e =
     \<lparr>er_id = evidence_id H e, er_fixture_id = e_fixture_id e,
      er_source_level = source_text (e_source_level e), er_source_key = e_source_key e,
      er_record_id = e_record_id e, er_record_set_id = e_record_set_id e,
      er_digest = e_evidence_digest e, er_payload = Some (PDict (evidence_to_dict H e)),
      er_created =
        (case e_observed_at_utc e of Some t \<Rightarrow> t
         | None \<Rightarrow> (case e_retrieved_at_utc e of Some t \<Rightarrow> t | None \<Rightarrow> now))\<rparr>"

text \<open>\<open>INSERT ... ON CONFLICT(evidence_set_id) DO NOTHING\<close> under the table's constraints.\<close>

definition insert_evidence_row ::
  "evidence_row \<Rightarrow> settlement_store \<Rightarrow> (record_error, settlement_store) res" where
  "insert_evidence_row r st =
     bindR (guardR (sha_shaped (er_digest r)) SqliteIntegrityError) (\<lambda>_.
     if er_id r \<in> set (map er_id (st_evidence st)) then Inr st
     else bindR (guardR (er_digest r \<notin> set (map er_digest (st_evidence st)) \<and>
                         (er_id r, ''settlement_evidence'') \<in> set (st_identifiers st))
            SqliteIntegrityError) (\<lambda>_.
       Inr (st\<lparr>st_evidence := st_evidence st @ [r]\<rparr>)))"

text \<open>\<open>_insert_evidence\<close>\<close>

definition insert_evidence ::
  "hasher \<Rightarrow> string \<Rightarrow> settlement_store \<Rightarrow> settlement_evidence \<Rightarrow>
   (record_error, settlement_store) res" where
  "insert_evidence H now st e =
     bindR (add_identifier_if_missing ''settlement_evidence'' (evidence_id H e) st) (\<lambda>st1.
     bindR (guardR (json_encodable (PDict (evidence_to_dict H e))) PyTypeError) (\<lambda>_.
     bindR (insert_evidence_row (new_evidence_row H now e) st1) (\<lambda>st2.
     case find (\<lambda>r. er_id r = evidence_id H e) (st_evidence st2) of
       None \<Rightarrow> Inl (Raised (T10IntegrityError ''Settlement Evidence was not persisted with its identity.''))
     | Some r \<Rightarrow>
         bindR (lift_t10 (stored_evidence_from_row H r)) (\<lambda>stored.
         bindR (guardR (stored = e) (Raised (T10IntegrityError
           ''Settlement Evidence identity was reused with different content.''))) (\<lambda>_.
         bindR (guardR (map_option json_text (er_payload r) =
                        Some (json_text (PDict (evidence_to_dict H e))))
           (Raised (T10IntegrityError
             ''Settlement Evidence identity was reused with different content.''))) (\<lambda>_.
         Inr st2))))))"

section \<open>Grade rows\<close>

definition state_of_text :: "string \<Rightarrow> grading_state option" where
  "state_of_text s = find (\<lambda>t. state_text t = s) [PENDING, FINAL]"

definition opt_py_str :: "pyval \<Rightarrow> string option" where
  "opt_py_str v = (if v = PNone then None else Some (py_str v))"

definition as_dict :: "pyval \<Rightarrow> pydict option" where
  "as_dict v = (case v of PDict m \<Rightarrow> Some m | _ \<Rightarrow> None)"

text \<open>\<open>SettlementGrade.from_dict\<close>, with the catalogue of the module.\<close>

definition grade_from_dict :: "hasher \<Rightarrow> pydict \<Rightarrow> (t10_error, settlement_grade) res" where
  "grade_from_dict H m =
     (let pid = (case as_dict (dict_get m ''preference'') of
                   Some p \<Rightarrow> if dict_get p ''preference_id'' \<noteq> PNone
                             then py_str (dict_get p ''preference_id'')
                             else py_str (get_or m ''preference_id'' (PStr []))
                 | None \<Rightarrow> py_str (get_or m ''preference_id'' (PStr []))) in
     bindR (catalog_get (default_catalog H) pid) (\<lambda>p.
     bindR (case get_or m ''evidence'' (PList []) of
              PList xs \<Rightarrow>
                if list_all (\<lambda>x. as_dict x \<noteq> None) xs then Inr (List.map_filter as_dict xs)
                else Inl (T10ValidationError
                  ''Stored Settlement Grade evidence must be an array of objects.'')
            | _ \<Rightarrow> Inl (T10ValidationError
                  ''Stored Settlement Grade evidence must be an array of objects.'')) (\<lambda>raw.
     bindR (mapR (evidence_from_mapping H) raw) (\<lambda>evidence.
     bindR (case as_dict (get_or m ''provenance'' (PDict [])) of
              Some v \<Rightarrow> Inr v
            | None \<Rightarrow> Inl (T10ValidationError
                ''Stored Settlement Grade provenance must be an object.'')) (\<lambda>prov.
     bindR (t10_text (dict_get m ''fixture_id'') ''Stored Settlement Grade fixture ID'') (\<lambda>fid.
     bindR (case state_of_text (py_str (get_or m ''grading_state'' (PStr ''PENDING''))) of
              Some s \<Rightarrow> Inr s | None \<Rightarrow> Inl PyValueError) (\<lambda>gstate.
     bindR (if dict_get m ''settlement_result'' = PNone then Inr None
            else (case result_of_text (py_str (dict_get m ''settlement_result'')) of
                    Some r \<Rightarrow> Inr (Some r) | None \<Rightarrow> Inl PyValueError)) (\<lambda>result.
     bindR (t10_strings (get_or m ''evidence_ids'' (PList []))) (\<lambda>ids.
     bindR (if dict_get m ''selected_source_level'' = PNone then Inr None
            else bindR (t10_source (PStr (py_str (dict_get m ''selected_source_level'')))) (\<lambda>l.
              Inr (Some l))) (\<lambda>level.
     bindR (t10_strings (get_or m ''selected_source_record_ids'' (PList []))) (\<lambda>rids.
     grade_init H
       \<lparr>gr_fixture_id = fid, gr_preference = p, gr_grading_state = gstate,
        gr_settlement_result = result,
        gr_reason_code = py_str (get_or m ''reason_code'' (PStr [])),
        gr_reason = py_str (get_or m ''reason'' (PStr [])),
        gr_evidence_digest = py_str (get_or m ''evidence_digest'' (PStr [])),
        gr_evidence_ids = ids,
        gr_selected_evidence_set_id = opt_py_str (dict_get m ''selected_evidence_set_id''),
        gr_selected_source_level = level,
        gr_selected_source_key = opt_py_str (dict_get m ''selected_source_key''),
        gr_selected_source_record_ids = rids, gr_provenance = prov, gr_evidence = evidence,
        gr_matchweek_id = py_str (get_or m ''matchweek_id'' (PStr [])),
        gr_recommendation_id = py_str (get_or m ''recommendation_id'' (PStr [])),
        gr_prediction_digest = opt_py_str (dict_get m ''prediction_digest''),
        gr_frozen_evidence_digest = opt_py_str (dict_get m ''frozen_evidence_digest''),
        gr_predecessor_grade_id = opt_py_str (dict_get m ''predecessor_grade_id''),
        gr_correction_sequence = t10_int_value (get_or m ''correction_sequence'' (PInt 0)) 0,
        gr_grade_id = py_str (get_or m ''grade_id'' (PStr [])),
        gr_grade_digest = py_str (get_or m ''grade_digest'' (PStr []))\<rparr>)))))))))))"

text \<open>The first fifteen columns of the \<open>SELECT\<close>, as values.\<close>

definition grade_columns :: "settlement_grade \<Rightarrow> pyval list" where
  "grade_columns g =
     [PStr (gr_grade_id g), PStr (gr_fixture_id g), PStr (preference_id (gr_preference g)),
      PStr (gr_matchweek_id g), PStr (gr_recommendation_id g),
      PStr (state_text (gr_grading_state g)),
      opt_str (map_option result_text (gr_settlement_result g)), PStr (gr_reason_code g),
      PStr (gr_reason g), PStr (gr_evidence_digest g), opt_str (gr_prediction_digest g),
      opt_str (gr_frozen_evidence_digest g), PInt (gr_correction_sequence g),
      opt_str (gr_predecessor_grade_id g), PStr (gr_grade_digest g)]"

definition grade_row_columns :: "grade_row \<Rightarrow> pyval list" where
  "grade_row_columns r =
     [PStr (w_grade_id r), PStr (w_fixture_id r), PStr (w_preference_id r),
      PStr (w_matchweek_id r), PStr (w_recommendation_id r), PStr (w_grading_state r),
      opt_str (w_settlement_result r), PStr (w_reason_code r), PStr (w_reason r),
      PStr (w_input_evidence_digest r), opt_str (w_prediction_digest r),
      opt_str (w_frozen_evidence_digest r), PInt (w_correction_sequence r),
      opt_str (w_predecessor_grade_id r), PStr (w_grade_digest r)]"

text \<open>The evidence links of a grade, \<open>ORDER BY ordinal, evidence_set_id\<close>.\<close>

definition grade_links :: "settlement_store \<Rightarrow> string \<Rightarrow> (nat \<times> string) list" where
  "grade_links st gid =
     sort_key id (map (\<lambda>(g, e, n). (n, e)) (filter (\<lambda>(g, e, n). g = gid) (st_links st)))"

text \<open>\<open>_stored_grade_from_row\<close>\<close>

definition stored_grade_from_row ::
  "hasher \<Rightarrow> settlement_store \<Rightarrow> grade_row \<Rightarrow> string option \<Rightarrow> (t10_error, settlement_grade) res" where
  "stored_grade_from_row H st r expected_key =
     (case w_payload r of
        None \<Rightarrow> Inl (T10IntegrityError ''Stored Settlement Grade payload is malformed.'')
      | Some (PDict m) \<Rightarrow>
          bindR (grade_from_dict H m) (\<lambda>g.
          bindR (guardR (grade_row_columns r = grade_columns g)
            (T10IntegrityError ''Stored Settlement Grade columns do not match its payload.'')) (\<lambda>_.
          bindR (guardR (expected_key = None \<or> expected_key = Some (w_grading_key r))
            (T10IntegrityError ''Stored Settlement Grade key does not match its payload.'')) (\<lambda>_.
          let links = grade_links st (gr_grade_id g) in
          bindR (guardR (map snd links = gr_evidence_ids g \<and> map fst links = [0..<length links])
            (T10IntegrityError
              ''Stored Settlement Grade evidence links do not match its payload.'')) (\<lambda>_.
          Inr g))))
      | Some _ \<Rightarrow> Inl (T10IntegrityError ''Stored Settlement Grade payload is not an object.''))"

text \<open>\<open>_stored_grade_row\<close>: \<open>ORDER BY correction_sequence DESC, grade_id DESC LIMIT 1\<close>.\<close>

definition keyed_rows :: "settlement_store \<Rightarrow> string \<Rightarrow> grade_row list" where
  "keyed_rows st key = filter (\<lambda>r. w_grading_key r = key) (st_grades st)"

definition stored_grade_row :: "settlement_store \<Rightarrow> string \<Rightarrow> grade_row option" where
  "stored_grade_row st key =
     (case rev (sort_key (\<lambda>r. (w_correction_sequence r, w_grade_id r)) (keyed_rows st key)) of
        [] \<Rightarrow> None
      | r # _ \<Rightarrow> Some r)"

section \<open>Recording\<close>

text \<open>Python's \<open>a or b\<close> on a string and on an optional string.\<close>

definition str_or :: "string \<Rightarrow> string \<Rightarrow> string" where
  "str_or a b = (if a \<noteq> [] then a else b)"

definition opt_or :: "string option \<Rightarrow> string option \<Rightarrow> string option" where
  "opt_or a b = (if a \<noteq> None \<and> a \<noteq> Some [] then a else b)"

definition ranks_of :: "settlement_evidence list \<Rightarrow> nat list" where
  "ranks_of es = map (\<lambda>e. authority_rank (e_source_level e)) es"

text \<open>
  The ranks a stored source conflict holds against an incoming grade: those of the evidence its
  provenance names, or of all of it when none is named.
\<close>

definition conflict_ids :: "settlement_grade \<Rightarrow> pyval list" where
  "conflict_ids g =
     (case get_or (gr_provenance g) ''conflict_evidence_ids'' (PList []) of PList xs \<Rightarrow> xs | _ \<Rightarrow> [])"

definition conflict_ranks :: "hasher \<Rightarrow> settlement_grade \<Rightarrow> nat list" where
  "conflict_ranks H g =
     ranks_of (filter (\<lambda>e. conflict_ids g = [] \<or> PStr (evidence_id H e) \<in> set (conflict_ids g))
       (gr_evidence g))"

definition rank_above :: "nat list \<Rightarrow> nat list \<Rightarrow> bool" where
  "rank_above xs ys \<longleftrightarrow> xs \<noteq> [] \<and> ys \<noteq> [] \<and> Min (set xs) < Min (set ys)"

text \<open>The four conditions under which the stored grade stands.\<close>

definition keeps_current :: "hasher \<Rightarrow> settlement_grade \<Rightarrow> settlement_grade \<Rightarrow> bool" where
  "keeps_current H current g \<longleftrightarrow>
     (let incoming = ranks_of (gr_evidence g) in
      gr_reason_code current = ''SOURCE_CONFLICT'' \<and> rank_above (conflict_ranks H current) incoming \<or>
      (case gr_selected_source_level current of
         None \<Rightarrow> False
       | Some l \<Rightarrow> gr_selected_source_level g = None \<and>
           gr_reason_code g \<noteq> ''WITHDRAWN_RECOMMENDATION'' \<and>
           (incoming = [] \<or> authority_rank l < Min (set incoming))) \<or>
      gr_evidence_digest current = gr_evidence_digest g \<and>
      gr_grading_state current = gr_grading_state g \<and>
      gr_settlement_result current = gr_settlement_result g \<and>
      gr_reason_code current = gr_reason_code g \<or>
      (case (gr_selected_source_level current, gr_selected_source_level g) of
         (Some l, Some k) \<Rightarrow> authority_rank l < authority_rank k
       | _ \<Rightarrow> False))"

text \<open>The \<open>replace(grade, ...)\<close> that makes a grade the successor of the stored one.\<close>

definition successor_args :: "settlement_grade \<Rightarrow> settlement_grade \<Rightarrow> int \<Rightarrow> settlement_grade" where
  "successor_args current g sequence =
     g\<lparr>gr_matchweek_id := str_or (gr_matchweek_id current) (gr_matchweek_id g),
       gr_recommendation_id := str_or (gr_recommendation_id current) (gr_recommendation_id g),
       gr_prediction_digest := opt_or (gr_prediction_digest current) (gr_prediction_digest g),
       gr_frozen_evidence_digest :=
         opt_or (gr_frozen_evidence_digest current) (gr_frozen_evidence_digest g),
       gr_correction_sequence := sequence + 1,
       gr_predecessor_grade_id := Some (gr_grade_id current),
       gr_grade_id := [], gr_grade_digest := []\<rparr>"

text \<open>
  \<open>_effective_grade\<close>: \<open>None\<close> when no grade is stored under the key. Of the exceptions reading
  the stored grade may raise, \<open>OverflowError\<close> and \<open>AssertionError\<close> are not caught.
\<close>

definition frozen_unchanged :: "string \<Rightarrow> string option \<Rightarrow> string option \<Rightarrow> (t10_error, unit) res" where
  "frozen_unchanged lab incoming stored =
     guardR (incoming = None \<or> incoming = stored)
       (T10IntegrityError (''Frozen '' @ lab @ '' cannot be changed by a correction.''))"

definition effective_grade ::
  "hasher \<Rightarrow> settlement_store \<Rightarrow> settlement_grade \<Rightarrow> (t10_error, settlement_grade option) res" where
  "effective_grade H st g =
     (case stored_grade_row st (grading_key g) of
        None \<Rightarrow> Inr None
      | Some row \<Rightarrow>
          (case stored_grade_from_row H st row (Some (grading_key g)) of
             Inl e \<Rightarrow>
               if e = PyOverflowError \<or> e = PyAssertionError then Inl e
               else Inl (T10IntegrityError ''Stored Settlement Grade payload is invalid.'')
           | Inr current \<Rightarrow>
               bindR (frozen_unchanged ''prediction'' (gr_prediction_digest g)
                 (gr_prediction_digest current)) (\<lambda>_.
               bindR (frozen_unchanged ''frozen evidence'' (gr_frozen_evidence_digest g)
                 (gr_frozen_evidence_digest current)) (\<lambda>_.
               if keeps_current H current g then Inr (Some current)
               else bindR (grade_init H (successor_args current g (w_correction_sequence row)))
                 (\<lambda>s. Inr (Some s))))))"

definition new_grade_row :: "hasher \<Rightarrow> string \<Rightarrow> settlement_grade \<Rightarrow> grade_row" where
  "new_grade_row H now g =
     \<lparr>w_grade_id = gr_grade_id g, w_grading_key = grading_key g, w_fixture_id = gr_fixture_id g,
      w_matchweek_id = gr_matchweek_id g, w_recommendation_id = gr_recommendation_id g,
      w_preference_id = preference_id (gr_preference g),
      w_catalog_version = preference_catalog_version,
      w_catalog_digest = catalog_digest (default_catalog H),
      w_grading_state = state_text (gr_grading_state g),
      w_settlement_result = map_option result_text (gr_settlement_result g),
      w_reason_code = gr_reason_code g, w_reason = gr_reason g,
      w_selected_evidence_set_id = gr_selected_evidence_set_id g,
      w_selected_source_level = map_option source_text (gr_selected_source_level g),
      w_selected_source_key = gr_selected_source_key g,
      w_input_evidence_digest = gr_evidence_digest g,
      w_prediction_digest = gr_prediction_digest g,
      w_frozen_evidence_digest = gr_frozen_evidence_digest g,
      w_predecessor_grade_id = gr_predecessor_grade_id g,
      w_correction_sequence = gr_correction_sequence g, w_grade_digest = gr_grade_digest g,
      w_payload = Some (PDict (grade_to_dict H g)), w_created = now\<rparr>"

text \<open>The constraints of \<open>settlement_grades\<close> and of its links.\<close>

definition grade_row_allowed :: "settlement_store \<Rightarrow> grade_row \<Rightarrow> bool" where
  "grade_row_allowed st r \<longleftrightarrow>
     w_grade_id r \<notin> set (map w_grade_id (st_grades st)) \<and>
     (w_grade_id r, ''settlement_grade'') \<in> set (st_identifiers st) \<and>
     \<not> list_ex (\<lambda>s. w_grading_key s = w_grading_key r \<and>
         w_correction_sequence s = w_correction_sequence r) (st_grades st) \<and>
     sha_shaped (w_catalog_digest r) \<and> sha_shaped (w_input_evidence_digest r) \<and>
     sha_shaped (w_grade_digest r) \<and> 0 \<le> w_correction_sequence r \<and>
     (case w_selected_evidence_set_id r of None \<Rightarrow> True
      | Some i \<Rightarrow> i \<in> set (map er_id (st_evidence st))) \<and>
     (case w_predecessor_grade_id r of None \<Rightarrow> True
      | Some i \<Rightarrow> i \<in> set (map w_grade_id (st_grades st))) \<and>
     (w_grading_state r = ''PENDING'' \<and> w_settlement_result r = None \<or>
      w_grading_state r = ''FINAL'' \<and> w_settlement_result r \<noteq> None)"

definition insert_link ::
  "string \<Rightarrow> settlement_store \<Rightarrow> nat \<times> string \<Rightarrow> (record_error, settlement_store) res" where
  "insert_link gid st link =
     (case link of (ordinal, eid) \<Rightarrow>
        bindR (guardR (eid \<in> set (map er_id (st_evidence st)) \<and>
                       \<not> list_ex (\<lambda>(g, e, n). g = gid \<and> e = eid) (st_links st))
          SqliteIntegrityError) (\<lambda>_.
        Inr (st\<lparr>st_links := st_links st @ [(gid, eid, ordinal)]\<rparr>)))"

text \<open>\<open>_insert_grade\<close>\<close>

definition insert_grade ::
  "hasher \<Rightarrow> string \<Rightarrow> settlement_store \<Rightarrow> settlement_grade \<Rightarrow>
   (record_error, settlement_store) res" where
  "insert_grade H now st g =
     bindR (guardR (case gr_selected_evidence_set_id g of None \<Rightarrow> True
                    | Some i \<Rightarrow> i \<in> set (map (evidence_id H) (gr_evidence g)))
       (Raised (T10IntegrityError
         ''Selected Settlement Evidence is not part of the grade input.''))) (\<lambda>_.
     bindR (add_identifier_if_missing ''settlement_grade'' (gr_grade_id g) st) (\<lambda>st1.
     bindR (guardR (json_encodable (PDict (grade_to_dict H g))) PyTypeError) (\<lambda>_.
     bindR (guardR (grade_row_allowed st1 (new_grade_row H now g)) SqliteIntegrityError) (\<lambda>_.
     foldR (insert_link (gr_grade_id g))
       (st1\<lparr>st_grades := st_grades st1 @ [new_grade_row H now g]\<rparr>)
       (List.enumerate 0 (gr_evidence_ids g))))))"

text \<open>One pass of the loop of \<open>record_many\<close>.\<close>

definition record_step ::
  "hasher \<Rightarrow> string \<Rightarrow> settlement_store \<Rightarrow> settlement_grade \<Rightarrow>
   (record_error, settlement_store \<times> settlement_grade) res" where
  "record_step H now st g =
     bindR (foldR (insert_evidence H now) st (gr_evidence g)) (\<lambda>st1.
     bindR (lift_t10 (effective_grade H st1 g)) (\<lambda>effective.
     case stored_grade_row st1 (grading_key g) of
       None \<Rightarrow>
         bindR (guardR (gr_correction_sequence g = 0 \<and> gr_predecessor_grade_id g = None)
           (Raised (T10IntegrityError
             ''A first Settlement Grade cannot have correction metadata.''))) (\<lambda>_.
         bindR (insert_grade H now st1 g) (\<lambda>st2. Inr (st2, g)))
     | Some row \<Rightarrow>
         (case effective of
            None \<Rightarrow> Inl (Raised PyAssertionError)
          | Some e \<Rightarrow>
              if gr_grade_id e \<noteq> w_grade_id row
              then bindR (insert_grade H now st1 e) (\<lambda>st2. Inr (st2, e))
              else Inr (st1, e))))"

text \<open>\<open>record_many\<close>; \<open>hook\<close> is the failure hook, which may raise after a pass.\<close>

fun record_many_from ::
  "hasher \<Rightarrow> string \<Rightarrow> (nat \<Rightarrow> record_error option) \<Rightarrow> nat \<Rightarrow> settlement_store \<Rightarrow>
   settlement_grade list \<Rightarrow> (record_error, settlement_store \<times> settlement_grade list) res" where
  "record_many_from H now hook index st [] = Inr (st, [])"
| "record_many_from H now hook index st (g # gs) =
     bindR (record_step H now st g) (\<lambda>(st1, e).
     case hook index of
       Some failure \<Rightarrow> Inl failure
     | None \<Rightarrow> bindR (record_many_from H now hook (Suc index) st1 gs) (\<lambda>(st2, es).
         Inr (st2, e # es)))"

definition record_many ::
  "hasher \<Rightarrow> string \<Rightarrow> (nat \<Rightarrow> record_error option) \<Rightarrow> settlement_store \<Rightarrow>
   settlement_grade list \<Rightarrow> (record_error, settlement_store \<times> settlement_grade list) res" where
  "record_many H now hook st gs =
     (if gs = [] then Inr (st, []) else record_many_from H now hook 1 st gs)"

definition record_one ::
  "hasher \<Rightarrow> string \<Rightarrow> settlement_store \<Rightarrow> settlement_grade \<Rightarrow>
   (record_error, settlement_store \<times> settlement_grade) res" where
  "record_one H now st g =
     bindR (record_many H now (\<lambda>_. None) st [g]) (\<lambda>(st', es). Inr (st', hd es))"

text \<open>The store after the transaction: committed, or rolled back.\<close>

definition committed :: "settlement_store \<Rightarrow> ('e, settlement_store \<times> 'a) res \<Rightarrow> settlement_store" where
  "committed st m = (case m of Inl _ \<Rightarrow> st | Inr (st', _) \<Rightarrow> st')"

section \<open>Reading\<close>

text \<open>\<open>current_grade\<close>\<close>

definition current_grade ::
  "hasher \<Rightarrow> settlement_store \<Rightarrow> string \<Rightarrow> string \<Rightarrow> string \<Rightarrow> string \<Rightarrow>
   (t10_error, settlement_grade option) res" where
  "current_grade H st fid pid mid rid =
     (let key = fid @ ''|'' @ mid @ ''|'' @ rid @ ''|'' @ pid in
      case stored_grade_row st key of
        None \<Rightarrow> Inr None
      | Some row \<Rightarrow> bindR (stored_grade_from_row H st row (Some key)) (\<lambda>g. Inr (Some g)))"

text \<open>\<open>grades\<close>, with the rows in the order of the query; \<open>include_superseded=False\<close> keeps the
  last of each key.\<close>

definition all_grades ::
  "hasher \<Rightarrow> settlement_store \<Rightarrow> string option \<Rightarrow> bool \<Rightarrow> (t10_error, settlement_grade list) res" where
  "all_grades H st fid include_superseded =
     (let rows = sort_key (\<lambda>r. (w_fixture_id r, w_preference_id r, w_correction_sequence r, w_grade_id r))
        (filter (\<lambda>r. fid = None \<or> fid = Some (w_fixture_id r)) (st_grades st)) in
      bindR (mapR (\<lambda>r. stored_grade_from_row H st r None) rows) (\<lambda>selected.
      if include_superseded then Inr selected
      else Inr (sort_key (\<lambda>g. preference_id (gr_preference g))
        (map (\<lambda>(k, gs). last gs) (group_by grading_key selected)))))"

definition evidence_sets ::
  "hasher \<Rightarrow> settlement_store \<Rightarrow> string option \<Rightarrow> (t10_error, settlement_evidence list) res" where
  "evidence_sets H st fid =
     mapR (stored_evidence_from_row H)
       (sort_key er_id (filter (\<lambda>r. fid = None \<or> fid = Some (er_fixture_id r)) (st_evidence st)))"

section \<open>Grading and recording\<close>

text \<open>\<open>grade_and_record\<close>, \<open>grade_fixture_and_record\<close> (and \<open>T10GradingService.grade_fixture\<close>)\<close>

definition grade_and_record ::
  "hasher \<Rightarrow> string \<Rightarrow> settlement_store \<Rightarrow> preference_ref \<Rightarrow> evidence_input list \<Rightarrow> grade_request \<Rightarrow>
   (record_error, settlement_store \<times> settlement_grade) res" where
  "grade_and_record H now st pref inputs q =
     bindR (lift_t10 (grade H (default_catalog H) pref inputs q)) (\<lambda>g. record_one H now st g)"

definition grade_fixture_and_record ::
  "hasher \<Rightarrow> string \<Rightarrow> settlement_store \<Rightarrow> evidence_input list \<Rightarrow> grade_request \<Rightarrow>
   (string \<rightharpoonup> string) \<Rightarrow> (string \<rightharpoonup> string) \<Rightarrow>
   (record_error, settlement_store \<times> settlement_grade list) res" where
  "grade_fixture_and_record H now st inputs q recommendation_ids prediction_digests =
     bindR (lift_t10 (grade_all H (default_catalog H) inputs q recommendation_ids prediction_digests))
       (\<lambda>gs. record_many H now (\<lambda>_. None) st gs)"

text \<open>\<open>grade_preference\<close>, \<open>grade_all_preferences\<close>: the grader of the module's catalogue, built anew.\<close>

definition grade_preference ::
  "hasher \<Rightarrow> preference_ref \<Rightarrow> evidence_input list \<Rightarrow> grade_request \<Rightarrow> (t10_error, settlement_grade) res" where
  "grade_preference H pref inputs q =
     bindR (grader_init H (default_catalog H)) (\<lambda>c. grade H c pref inputs q)"

definition grade_all_preferences ::
  "hasher \<Rightarrow> evidence_input list \<Rightarrow> grade_request \<Rightarrow> (string \<rightharpoonup> string) \<Rightarrow> (string \<rightharpoonup> string) \<Rightarrow>
   (t10_error, settlement_grade list) res" where
  "grade_all_preferences H inputs q recommendation_ids prediction_digests =
     bindR (grader_init H (default_catalog H)) (\<lambda>c.
       grade_all H c inputs q recommendation_ids prediction_digests)"

text \<open>\<open>T10GradingService.grade_fixture\<close>\<close>

definition grade_fixture ::
  "hasher \<Rightarrow> string \<Rightarrow> settlement_store \<Rightarrow> evidence_input list \<Rightarrow> grade_request \<Rightarrow>
   (string \<rightharpoonup> string) \<Rightarrow> (string \<rightharpoonup> string) \<Rightarrow>
   (record_error, settlement_store \<times> settlement_grade list) res" where
  "grade_fixture H now st inputs q recommendation_ids prediction_digests =
     grade_fixture_and_record H now st inputs q recommendation_ids prediction_digests"

end
