(* ===== verification/Correction_History.thy ===== *)
theory Correction_History
  imports Prelude
begin

text \<open>
  The contract of an append-only table in which every key has a history of numbered versions:
  rows are added at the end, and the row a key is read through is the one with the greatest
  number. The clients rely on nothing else to prove that successors keep the histories linked.
\<close>

text \<open>Numbered from 0 without gaps, each row naming the row before it.\<close>

definition linked :: "('r \<Rightarrow> int) \<Rightarrow> ('r \<Rightarrow> 'i) \<Rightarrow> ('r \<Rightarrow> 'i option) \<Rightarrow> 'r list \<Rightarrow> bool" where
  "linked number ident pred rs \<longleftrightarrow>
     (\<forall>i < length rs. number (rs ! i) = int i \<and>
        pred (rs ! i) = (if i = 0 then None else Some (ident (rs ! (i - 1)))))"

lemma linked_Nil [simp]: "linked number ident pred []"
  by (simp add: linked_def)

lemma linked_snoc:
  "linked number ident pred (rs @ [r]) \<longleftrightarrow>
     linked number ident pred rs \<and> number r = int (length rs) \<and>
     pred r = (if rs = [] then None else Some (ident (last rs)))"
proof
  assume l: "linked number ident pred (rs @ [r])"
  have "number (rs ! i) = int i \<and> pred (rs ! i) = (if i = 0 then None else Some (ident (rs ! (i - 1))))"
    if "i < length rs" for i
    using l that unfolding linked_def
    by (auto simp: nth_append dest!: spec [of _ i] split: if_splits)
  moreover have "number r = int (length rs) \<and>
      pred r = (if rs = [] then None else Some (ident (last rs)))"
    using l unfolding linked_def
    by (auto simp: nth_append last_conv_nth dest!: spec [of _ "length rs"] split: if_splits)
  ultimately show "linked number ident pred rs \<and> number r = int (length rs) \<and>
      pred r = (if rs = [] then None else Some (ident (last rs)))"
    unfolding linked_def by blast
next
  assume a: "linked number ident pred rs \<and> number r = int (length rs) \<and>
     pred r = (if rs = [] then None else Some (ident (last rs)))"
  show "linked number ident pred (rs @ [r])"
    unfolding linked_def
  proof (intro allI impI)
    fix i assume "i < length (rs @ [r])"
    then consider "i < length rs" | "i = length rs" by fastforce
    then show "number ((rs @ [r]) ! i) = int i \<and>
        pred ((rs @ [r]) ! i) = (if i = 0 then None else Some (ident ((rs @ [r]) ! (i - 1))))"
    proof cases
      case 1
      then show ?thesis using a by (auto simp: linked_def nth_append)
    next
      case 2
      then show ?thesis using a by (auto simp: nth_append last_conv_nth)
    qed
  qed
qed

lemma linked_number_mono:
  assumes "linked number ident pred (rs @ [r])" and "x \<in> set rs"
  shows "number x < number r"
proof -
  obtain i where "i < length rs" "x = rs ! i" using assms(2) by (auto simp: in_set_conv_nth)
  then show ?thesis using assms(1) unfolding linked_snoc by (auto simp: linked_def)
qed

locale correction_history =
  fixes rows :: "'s \<Rightarrow> 'k \<Rightarrow> 'r list" and latest :: "'s \<Rightarrow> 'k \<Rightarrow> 'r option"
    and add :: "'s \<Rightarrow> 'r \<Rightarrow> 's" and key :: "'r \<Rightarrow> 'k" and number :: "'r \<Rightarrow> int"
    and ident :: "'r \<Rightarrow> 'i" and pred :: "'r \<Rightarrow> 'i option"
  assumes rows_add: "rows (add s r) k = (if key r = k then rows s k @ [r] else rows s k)"
    and latest_none: "latest s k = None \<longleftrightarrow> rows s k = []"
    and latest_greatest: "rows s k = rs @ [r] \<Longrightarrow> (\<And>x. x \<in> set rs \<Longrightarrow> number x < number r) \<Longrightarrow>
      latest s k = Some r"
begin

abbreviation history :: "'s \<Rightarrow> 'k \<Rightarrow> bool" where
  "history s k \<equiv> linked number ident pred (rows s k)"

lemma latest_history:
  assumes "history s k" "latest s k = Some r"
  obtains rs where "rows s k = rs @ [r]"
proof -
  have "rows s k \<noteq> []" using assms(2) latest_none by force
  then obtain rs x where x: "rows s k = rs @ [x]" by (metis rev_exhaust)
  have "latest s k = Some x"
    by (rule latest_greatest [OF x]) (use assms(1) x linked_number_mono in metis)
  with assms(2) x that show thesis by simp
qed

lemma history_add_first:
  assumes "history s k" "latest s (key r) = None" "number r = 0" "pred r = None"
  shows "history (add s r) k"
  using assms latest_none by (auto simp: rows_add linked_snoc)

lemma history_add_successor:
  assumes "history s k" "history s (key r)" "latest s (key r) = Some c"
    and "number r = number c + 1" "pred r = Some (ident c)"
  shows "history (add s r) k"
proof -
  obtain rs where rs: "rows s (key r) = rs @ [c]" using assms(2,3) by (rule latest_history)
  have "number c = int (length rs)" using assms(2) by (simp add: rs linked_snoc)
  then show ?thesis using assms rs by (auto simp: rows_add linked_snoc)
qed

lemma latest_add:
  assumes "history (add s r) (key r)"
  shows "latest (add s r) (key r) = Some r"
proof -
  have r: "rows (add s r) (key r) = rows s (key r) @ [r]" by (simp add: rows_add)
  show ?thesis
    by (rule latest_greatest [OF r]) (use assms linked_number_mono in \<open>simp add: r\<close>)
qed

end

end
