(* ===== verification/Record_Properties.thy ===== *)
theory Record_Properties
  imports Settlement_Record Correction_History Grading_Properties "HOL-Library.Sublist"
begin

text \<open>
  What \<open>SettlementGradeRecorder\<close> guarantees of the store: rows are only added, the grades of a
  key form a linked history, frozen digests and the authority of a grade are kept, a recorded
  grade is read back, and recording it again changes nothing.
\<close>

section \<open>The store only grows\<close>

definition store_extends :: "settlement_store \<Rightarrow> settlement_store \<Rightarrow> bool" where
  "store_extends s t \<longleftrightarrow>
     prefix (st_identifiers s) (st_identifiers t) \<and> prefix (st_evidence s) (st_evidence t) \<and>
     prefix (st_grades s) (st_grades t) \<and> prefix (st_links s) (st_links t)"

lemma store_extends_refl [simp]: "store_extends s s"
  by (simp add: store_extends_def)

lemma store_extends_trans: "store_extends s t \<Longrightarrow> store_extends t u \<Longrightarrow> store_extends s u"
  unfolding store_extends_def by (meson prefix_order.trans)

lemma lift_t10_Inr [simp]: "lift_t10 m = Inr x \<longleftrightarrow> m = Inr x"
  by (cases m) (simp_all add: lift_t10_def)

lemma add_identifier_effect:
  "add_identifier_if_missing kind v st = Inr st' \<Longrightarrow>
     st_evidence st' = st_evidence st \<and> st_grades st' = st_grades st \<and> st_links st' = st_links st \<and>
     prefix (st_identifiers st) (st_identifiers st') \<and> (v, kind) \<in> set (st_identifiers st') \<and>
     uuid_shaped v"
  by (auto simp: add_identifier_if_missing_def split: if_splits)

lemma insert_evidence_row_effect:
  "insert_evidence_row r st = Inr st' \<Longrightarrow>
     st_identifiers st' = st_identifiers st \<and> st_grades st' = st_grades st \<and> st_links st' = st_links st \<and>
     prefix (st_evidence st) (st_evidence st') \<and> er_id r \<in> set (map er_id (st_evidence st'))"
  by (auto simp: insert_evidence_row_def split: if_splits)

lemma insert_evidence_cases:
  assumes "insert_evidence H now st e = Inr st'"
  obtains st1 r stored where "add_identifier_if_missing ''settlement_evidence'' (evidence_id H e) st = Inr st1"
    "json_encodable (PDict (evidence_to_dict H e))"
    "insert_evidence_row (new_evidence_row H now e) st1 = Inr st'"
    "find (\<lambda>r. er_id r = evidence_id H e) (st_evidence st') = Some r"
    "stored_evidence_from_row H r = Inr e"
    "map_option json_text (er_payload r) = Some (json_text (PDict (evidence_to_dict H e)))"
  using assms
  by (auto simp: insert_evidence_def simp del: json_encodable.simps json_text.simps
      split: option.splits)

lemma insert_evidence_effect:
  assumes "insert_evidence H now st e = Inr st'"
  shows "st_grades st' = st_grades st \<and> st_links st' = st_links st \<and> store_extends st st'"
  using assms
  by (elim insert_evidence_cases)
    (auto dest!: add_identifier_effect insert_evidence_row_effect simp: store_extends_def)

lemma insert_evidences_effect:
  assumes "foldR (insert_evidence H now) st es = Inr st'"
  shows "st_grades st' = st_grades st \<and> st_links st' = st_links st \<and> store_extends st st'"
  by (rule foldR_invariant [OF _ assms, of "\<lambda>t. st_grades t = st_grades st \<and> st_links t = st_links st \<and> store_extends st t"])
    (auto dest: insert_evidence_effect intro: store_extends_trans)

lemma insert_links_effect:
  "foldR (insert_link gid) st ls = Inr st' \<Longrightarrow>
     st' = st\<lparr>st_links := st_links st @ map (\<lambda>(n, e). (gid, e, n)) ls\<rparr>"
proof (induction ls arbitrary: st)
  case (Cons l ls)
  then obtain st1 where l: "insert_link gid st l = Inr st1" "foldR (insert_link gid) st1 ls = Inr st'" by auto
  have "st1 = st\<lparr>st_links := st_links st @ [(case l of (n, e) \<Rightarrow> (gid, e, n))]\<rparr>"
    using l(1) by (cases l) (auto simp: insert_link_def)
  then show ?case using Cons.IH [OF l(2)] by (cases l) simp
qed simp

lemma insert_grade_effect:
  assumes "insert_grade H now st g = Inr st'"
  shows "st_grades st' = st_grades st @ [new_grade_row H now g]"
    and "st_links st' = st_links st @ map (\<lambda>(n, e). (gr_grade_id g, e, n)) (List.enumerate 0 (gr_evidence_ids g))"
    and "st_evidence st' = st_evidence st" and "store_extends st st'"
    and "gr_grade_id g \<notin> set (map w_grade_id (st_grades st))"
    and "json_encodable (PDict (grade_to_dict H g))"
proof -
  obtain st1 where s1: "add_identifier_if_missing ''settlement_grade'' (gr_grade_id g) st = Inr st1"
    and a: "grade_row_allowed st1 (new_grade_row H now g)"
    and j: "json_encodable (PDict (grade_to_dict H g))"
    and l: "foldR (insert_link (gr_grade_id g)) (st1\<lparr>st_grades := st_grades st1 @ [new_grade_row H now g]\<rparr>)
      (List.enumerate 0 (gr_evidence_ids g)) = Inr st'"
    using assms by (auto simp: insert_grade_def simp del: json_encodable.simps)
  note e1 = add_identifier_effect [OF s1] and e2 = insert_links_effect [OF l]
  show "st_grades st' = st_grades st @ [new_grade_row H now g]"
    "st_links st' = st_links st @ map (\<lambda>(n, e). (gr_grade_id g, e, n)) (List.enumerate 0 (gr_evidence_ids g))"
    "st_evidence st' = st_evidence st" "store_extends st st'"
    using e1 e2 by (simp_all add: store_extends_def)
  show "gr_grade_id g \<notin> set (map w_grade_id (st_grades st))"
    using a e1 by (simp add: grade_row_allowed_def new_grade_row_def)
  show "json_encodable (PDict (grade_to_dict H g))" by (rule j)
qed

text \<open>What one pass of \<open>record_many\<close> does: nothing to the grades, or one new row.\<close>

lemma record_step_cases:
  assumes "record_step H now st g = Inr (st', e)"
  obtains (first) st1 where "foldR (insert_evidence H now) st (gr_evidence g) = Inr st1"
      "stored_grade_row st (grading_key g) = None" "e = g" "gr_correction_sequence g = 0"
      "gr_predecessor_grade_id g = None" "insert_grade H now st1 g = Inr st'"
  | (kept) row where "foldR (insert_evidence H now) st (gr_evidence g) = Inr st'"
      "stored_grade_row st (grading_key g) = Some row"
      "effective_grade H st' g = Inr (Some e)" "gr_grade_id e = w_grade_id row"
  | (corrected) st1 row where "foldR (insert_evidence H now) st (gr_evidence g) = Inr st1"
      "stored_grade_row st (grading_key g) = Some row"
      "effective_grade H st1 g = Inr (Some e)" "gr_grade_id e \<noteq> w_grade_id row"
      "insert_grade H now st1 e = Inr st'"
proof -
  obtain st1 eff where st1: "foldR (insert_evidence H now) st (gr_evidence g) = Inr st1"
    and eff: "effective_grade H st1 g = Inr eff"
    using assms by (auto simp: record_step_def)
  have rows: "stored_grade_row st1 k = stored_grade_row st k" for k
    using insert_evidences_effect [OF st1] by (simp add: stored_grade_row_def keyed_rows_def)
  show thesis
  proof (cases "stored_grade_row st (grading_key g)")
    case None
    then show thesis using assms st1 eff rows
      by (intro first [of st1]) (auto simp: record_step_def)
  next
    case (Some row)
    then obtain e' where "eff = Some e'"
      using assms st1 eff rows by (auto simp: record_step_def split: option.splits)
    then show thesis
      using assms st1 eff rows Some kept [of row] corrected [of st1 row]
      by (auto simp: record_step_def split: if_splits)
  qed
qed

lemma record_step_extends:
  assumes "record_step H now st g = Inr (st', e)"
  shows "store_extends st st'"
  using assms
proof (cases rule: record_step_cases)
  case (first st1)
  then show ?thesis
    using insert_evidences_effect insert_grade_effect(4) store_extends_trans by metis
next
  case (kept row)
  then show ?thesis using insert_evidences_effect by metis
next
  case (corrected st1 row)
  then show ?thesis
    using insert_evidences_effect insert_grade_effect(4) store_extends_trans by metis
qed

lemma record_many_from_induct:
  assumes "record_many_from H now hook n st gs = Inr (st', es)" and "P st"
    and "\<And>s g t e. P s \<Longrightarrow> g \<in> set gs \<Longrightarrow> record_step H now s g = Inr (t, e) \<Longrightarrow> P t"
  shows "P st'"
  using assms
proof (induction gs arbitrary: n st es)
  case (Cons g gs)
  from Cons.prems(1) obtain s1 e1 es1 where s1: "record_step H now st g = Inr (s1, e1)"
    and rest: "record_many_from H now hook (Suc n) s1 gs = Inr (st', es1)"
    by (auto split: option.splits)
  have "P s1" using Cons.prems(2) _ s1 by (rule Cons.prems(3)) simp
  with rest show ?case
  proof (rule Cons.IH)
    show "P t" if "P u" "x \<in> set gs" "record_step H now u x = Inr (t, d)" for u x t d
      using that(1) _ that(3) by (rule Cons.prems(3)) (simp add: that(2))
  qed
qed simp

lemma record_many_induct:
  assumes "record_many H now hook st gs = Inr (st', es)" and "P st"
    and "\<And>s g t e. P s \<Longrightarrow> g \<in> set gs \<Longrightarrow> record_step H now s g = Inr (t, e) \<Longrightarrow> P t"
  shows "P st'"
  using assms record_many_from_induct [of H now hook 1 st gs st' es P]
  by (auto simp: record_many_def split: if_splits)

section \<open>Histories\<close>

lemma sort_key_Nil_iff: "sort_key f xs = [] \<longleftrightarrow> xs = []"
  by (metis length_0_conv length_sort)

lemma hd_of_rev: "(case rev xs of [] \<Rightarrow> None | x # _ \<Rightarrow> Some x) = (if xs = [] then None else Some (last xs))"
  by (cases xs rule: rev_cases) auto

lemma stored_grade_row_last:
  "stored_grade_row st k = (if keyed_rows st k = [] then None
     else Some (last (sort_key (\<lambda>r. (w_correction_sequence r, w_grade_id r)) (keyed_rows st k))))"
  unfolding stored_grade_row_def hd_of_rev sort_key_Nil_iff ..

lemma sort_key_last_greatest:
  assumes "\<And>y. y \<in> set ys \<Longrightarrow> f y < f (x::'a)"
  shows "last (sort_key f (ys @ [x])) = x"
proof -
  let ?zs = "sort_key f (ys @ [x])"
  have ne: "?zs \<noteq> []" by (simp add: sort_key_Nil_iff)
  have "f x \<le> f (last ?zs)"
  proof -
    obtain i where i: "i < length ?zs" "?zs ! i = x" using in_set_conv_nth [of x ?zs] by auto
    have "sorted (map f ?zs)" by simp
    then have "map f ?zs ! i \<le> map f ?zs ! (length ?zs - 1)"
      using i(1) by (intro sorted_nth_mono) auto
    then show ?thesis using i ne by (simp add: last_conv_nth)
  qed
  moreover have "last ?zs \<in> insert x (set ys)" using last_in_set [OF ne] by simp
  ultimately show ?thesis using assms by (metis insertE leD)
qed

definition add_row :: "settlement_store \<Rightarrow> grade_row \<Rightarrow> settlement_store" where
  "add_row st r = st\<lparr>st_grades := st_grades st @ [r]\<rparr>"

interpretation grades: correction_history keyed_rows stored_grade_row add_row w_grading_key
    w_correction_sequence w_grade_id w_predecessor_grade_id
proof
  show "keyed_rows (add_row s r) k = (if w_grading_key r = k then keyed_rows s k @ [r] else keyed_rows s k)"
    for s r k by (simp add: keyed_rows_def add_row_def)
  show "stored_grade_row s k = None \<longleftrightarrow> keyed_rows s k = []" for s k
    by (simp add: stored_grade_row_last)
  show "stored_grade_row s k = Some r"
    if "keyed_rows s k = rs @ [r]" "\<And>x. x \<in> set rs \<Longrightarrow> w_correction_sequence x < w_correction_sequence r"
    for s k rs r
  proof -
    let ?zs = "sort_key (\<lambda>r. (w_correction_sequence r, w_grade_id r)) (rs @ [r])"
    have "last ?zs = r" by (rule sort_key_last_greatest) (simp add: that(2) less_prod_def')
    then show ?thesis by (simp add: stored_grade_row_last that(1))
  qed
qed

text \<open>
  A grade object: what the constructor returned. Its identifiers name it unambiguously when the
  separator of the grading key does not occur in them.
\<close>

definition constructed :: "hasher \<Rightarrow> settlement_grade \<Rightarrow> bool" where
  "constructed H g \<longleftrightarrow> grade_init H g = Inr g"

definition bar_free :: "string \<Rightarrow> bool" where
  "bar_free s \<longleftrightarrow> CHR ''|'' \<notin> set s"

definition plain_key :: "settlement_grade \<Rightarrow> bool" where
  "plain_key g \<longleftrightarrow> bar_free (gr_fixture_id g) \<and> bar_free (gr_matchweek_id g) \<and>
     bar_free (gr_recommendation_id g)"

lemma finish_grade_idem: "finish_grade H (finish_grade H a) = finish_grade H a"
proof -
  have f: "grade_fields H (finish_grade H a) = (grade_fields H a)
      \<lparr>gr_grade_digest := gr_grade_digest (finish_grade H a), gr_grade_id := gr_grade_id (finish_grade H a)\<rparr>"
    by (simp add: grade_fields_def finish_grade_def Let_def)
  have d: "grade_digest_of H (g\<lparr>gr_grade_digest := x, gr_grade_id := y\<rparr>) = grade_digest_of H g" for g x y
    by (simp add: grade_digest_of_def grade_payload_def)
  have k: "grade_id_of H (g\<lparr>gr_grade_digest := x, gr_grade_id := y\<rparr>) z = grade_id_of H g z" for g x y z
    by (simp add: grade_id_of_def grading_key_def)
  show ?thesis
    unfolding finish_grade_def [of H "finish_grade H a"] f Let_def d k
    by (simp add: finish_grade_def Let_def)
qed

lemma grade_init_constructed:
  assumes "grade_init H a = Inr g"
  shows "constructed H g"
proof -
  have a: "grade_args_ok H a" and g: "g = finish_grade H a" using assms by (simp_all add: grade_init_iff)
  have "sorted_set (sort (map (evidence_id H) (gr_evidence a))) = sort (map (evidence_id H) (gr_evidence a))"
    using a by (metis grade_args_ok_def sorted_set_idem)
  then have "grade_args_ok H g"
    using a unfolding g by (simp add: grade_args_ok_def finish_grade_idem)
  then show ?thesis unfolding constructed_def grade_init_iff by (simp add: g finish_grade_idem)
qed

lemma constructed_facts:
  assumes "constructed H g"
  shows "finish_grade H g = g" "strip (gr_fixture_id g) = gr_fixture_id g" "gr_fixture_id g \<noteq> []"
    "gr_evidence_ids g = sort (map (evidence_id H) (gr_evidence g))"
    "distinct (gr_evidence_ids g)"
    "gr_evidence_digest g = aggregate_evidence_digest H (gr_evidence g)"
    "gr_selected_source_record_ids g = sorted_set (gr_selected_source_record_ids g)"
    "gr_grading_state g = PENDING \<longleftrightarrow> gr_settlement_result g = None"
proof -
  have a: "grade_args_ok H g" and f: "g = finish_grade H g"
    using assms unfolding constructed_def grade_init_iff by blast+
  from f show f': "finish_grade H g = g" by simp
  have fg: "P (finish_grade H g) \<Longrightarrow> P g" for P using f' by simp
  show s: "strip (gr_fixture_id g) = gr_fixture_id g"
    using arg_cong [OF f', of gr_fixture_id] by simp
  show "gr_evidence_ids g = sort (map (evidence_id H) (gr_evidence g))"
    using arg_cong [OF f', of gr_evidence_ids] by simp
  then show "distinct (gr_evidence_ids g)"
    using a unfolding grade_args_ok_def by (metis sorted_set_sorted(2))
  show "gr_evidence_digest g = aggregate_evidence_digest H (gr_evidence g)"
    using arg_cong [OF f', of gr_evidence_digest] by simp
  show "gr_selected_source_record_ids g = sorted_set (gr_selected_source_record_ids g)"
    using arg_cong [OF f', of gr_selected_source_record_ids] by simp
  show "gr_grading_state g = PENDING \<longleftrightarrow> gr_settlement_result g = None" "gr_fixture_id g \<noteq> []"
    using a s unfolding grade_args_ok_def by auto
qed

section \<open>The invariant of the store\<close>

text \<open>
  Every row is keyed by its own columns, the histories are linked, and every evidence link
  belongs to a stored grade.
\<close>

definition row_keyed :: "grade_row \<Rightarrow> bool" where
  "row_keyed r \<longleftrightarrow>
     w_grading_key r = join ''|'' [w_fixture_id r, w_matchweek_id r, w_recommendation_id r, w_preference_id r] \<and>
     bar_free (w_fixture_id r) \<and> bar_free (w_matchweek_id r) \<and> bar_free (w_recommendation_id r)"

definition store_inv :: "settlement_store \<Rightarrow> bool" where
  "store_inv st \<longleftrightarrow>
     list_all row_keyed (st_grades st) \<and>
     (\<forall>k. grades.history st k) \<and>
     fst ` set (st_links st) \<subseteq> w_grade_id ` set (st_grades st)"

lemma store_inv_empty: "store_inv empty_store"
  by (simp add: store_inv_def empty_store_def keyed_rows_def)

lemma append_bar_inj:
  assumes "bar_free a" "bar_free b" "a @ CHR ''|'' # x = b @ CHR ''|'' # y"
  shows "a = b \<and> x = y"
  using assms
proof (induction a arbitrary: b)
  case Nil
  then show ?case by (cases b) (auto simp: bar_free_def)
next
  case (Cons c a)
  then show ?case by (cases b) (auto simp: bar_free_def)
qed

lemma key_parts_eq:
  assumes "bar_free f" "bar_free m" "bar_free r" "bar_free f'" "bar_free m'" "bar_free r'"
    and "join ''|'' [f, m, r, p] = join ''|'' [f', m', r', p']"
  shows "f = f' \<and> m = m' \<and> r = r' \<and> p = p'"
proof -
  have 1: "f @ CHR ''|'' # (m @ CHR ''|'' # (r @ CHR ''|'' # p)) =
      f' @ CHR ''|'' # (m' @ CHR ''|'' # (r' @ CHR ''|'' # p'))"
    using assms(7) by simp
  note 2 = append_bar_inj [OF assms(1,4) 1]
  note 3 = append_bar_inj [OF assms(2,5) conjunct2 [OF 2]]
  note 4 = append_bar_inj [OF assms(3,6) conjunct2 [OF 3]]
  from 2 3 4 show ?thesis by blast
qed

lemma grade_columns_row:
  "grade_row_columns r = grade_columns g \<longleftrightarrow>
     w_grade_id r = gr_grade_id g \<and> w_fixture_id r = gr_fixture_id g \<and>
     w_preference_id r = preference_id (gr_preference g) \<and> w_matchweek_id r = gr_matchweek_id g \<and>
     w_recommendation_id r = gr_recommendation_id g \<and>
     w_grading_state r = state_text (gr_grading_state g) \<and>
     w_settlement_result r = map_option result_text (gr_settlement_result g) \<and>
     w_reason_code r = gr_reason_code g \<and> w_reason r = gr_reason g \<and>
     w_input_evidence_digest r = gr_evidence_digest g \<and>
     w_prediction_digest r = gr_prediction_digest g \<and>
     w_frozen_evidence_digest r = gr_frozen_evidence_digest g \<and>
     w_correction_sequence r = gr_correction_sequence g \<and>
     w_predecessor_grade_id r = gr_predecessor_grade_id g \<and> w_grade_digest r = gr_grade_digest g"
proof -
  have o: "opt_str a = opt_str b \<longleftrightarrow> a = b" for a b by (cases a; cases b) auto
  show ?thesis by (auto simp: grade_row_columns_def grade_columns_def o)
qed

lemma new_grade_row_columns: "grade_row_columns (new_grade_row H now g) = grade_columns g"
  by (simp add: grade_columns_row new_grade_row_def)

lemma new_grade_row_keyed: "plain_key g \<Longrightarrow> row_keyed (new_grade_row H now g)"
  by (simp add: row_keyed_def new_grade_row_def grading_key_def plain_key_def)

lemma stored_grade_from_row_Inr:
  assumes "stored_grade_from_row H st r k = Inr g"
  shows "grade_row_columns r = grade_columns g" "constructed H g"
    "map snd (grade_links st (gr_grade_id g)) = gr_evidence_ids g"
proof -
  obtain m where m: "w_payload r = Some (PDict m)" "grade_from_dict H m = Inr g"
    "grade_row_columns r = grade_columns g" "map snd (grade_links st (gr_grade_id g)) = gr_evidence_ids g"
    using assms by (auto simp: stored_grade_from_row_def Let_def split: option.splits pyval.splits)
  show "grade_row_columns r = grade_columns g" "map snd (grade_links st (gr_grade_id g)) = gr_evidence_ids g"
    using m by blast+
  obtain a where "grade_init H a = Inr g"
    using m(2) unfolding grade_from_dict_def Let_def by (elim bindR_InrE) blast
  then show "constructed H g" by (rule grade_init_constructed)
qed

lemma effective_grade_cases:
  assumes "effective_grade H st g = Inr (Some e)"
  obtains row current where "stored_grade_row st (grading_key g) = Some row"
    "stored_grade_from_row H st row (Some (grading_key g)) = Inr current"
    "gr_prediction_digest g = None \<or> gr_prediction_digest g = gr_prediction_digest current"
    "gr_frozen_evidence_digest g = None \<or> gr_frozen_evidence_digest g = gr_frozen_evidence_digest current"
    "if keeps_current H current g then e = current
     else grade_init H (successor_args current g (w_correction_sequence row)) = Inr e"
  using assms
  by (auto simp: effective_grade_def frozen_unchanged_def split: option.splits sum.splits if_splits)

lemma stored_grade_row_mem: "stored_grade_row st k = Some r \<Longrightarrow> r \<in> set (st_grades st) \<and> w_grading_key r = k"
proof -
  assume a: "stored_grade_row st k = Some r"
  have "r \<in> set (keyed_rows st k)"
    using a last_in_set [of "sort_key (\<lambda>r. (w_correction_sequence r, w_grade_id r)) (keyed_rows st k)"]
    by (auto simp: stored_grade_row_last sort_key_Nil_iff split: if_splits)
  then show ?thesis by (auto simp: keyed_rows_def)
qed

text \<open>The stored grade a key is read through names the same fixture, Matchweek and preference.\<close>

lemma current_same_identity:
  assumes "store_inv st" "plain_key g" "stored_grade_row st (grading_key g) = Some row"
    and "stored_grade_from_row H st row k = Inr current"
  shows "gr_fixture_id current = gr_fixture_id g" "gr_matchweek_id current = gr_matchweek_id g"
    "gr_recommendation_id current = gr_recommendation_id g"
    "preference_id (gr_preference current) = preference_id (gr_preference g)"
proof -
  have row: "row_keyed row" "w_grading_key row = grading_key g"
    using assms(1,3) stored_grade_row_mem [OF assms(3)] by (auto simp: store_inv_def list_all_iff)
  have col: "grade_row_columns row = grade_columns current"
    using assms(4) by (rule stored_grade_from_row_Inr)
  have "w_fixture_id row = gr_fixture_id g \<and> w_matchweek_id row = gr_matchweek_id g \<and>
      w_recommendation_id row = gr_recommendation_id g \<and>
      w_preference_id row = preference_id (gr_preference g)"
    using row assms(2) by (intro key_parts_eq) (auto simp: row_keyed_def plain_key_def grading_key_def)
  then show "gr_fixture_id current = gr_fixture_id g" "gr_matchweek_id current = gr_matchweek_id g"
    "gr_recommendation_id current = gr_recommendation_id g"
    "preference_id (gr_preference current) = preference_id (gr_preference g)"
    using col by (simp_all add: grade_columns_row)
qed

lemma successor_identity:
  assumes "store_inv st" "plain_key g" "constructed H g"
    and "stored_grade_row st (grading_key g) = Some row"
    and "stored_grade_from_row H st row k = Inr current"
    and "grade_init H (successor_args current g n) = Inr e"
  shows "grading_key e = grading_key g" "plain_key e" "constructed H e"
    "gr_correction_sequence e = n + 1" "gr_predecessor_grade_id e = Some (w_grade_id row)"
proof -
  have e: "e = finish_grade H (successor_args current g n)"
    using assms(6) by (simp add: grade_init_iff)
  note id = current_same_identity [OF assms(1,2,4,5)]
  have c: "strip (gr_fixture_id g) = gr_fixture_id g" using assms(3) by (rule constructed_facts)
  have f: "gr_fixture_id e = gr_fixture_id g" "gr_matchweek_id e = gr_matchweek_id g"
    "gr_recommendation_id e = gr_recommendation_id g" "gr_preference e = gr_preference g"
    by (simp_all add: e successor_args_def c id str_or_def)
  show "grading_key e = grading_key g" using f by (simp add: grading_key_def)
  show "plain_key e" using f assms(2) by (simp add: plain_key_def)
  show "constructed H e" using assms(6) by (rule grade_init_constructed)
  show "gr_correction_sequence e = n + 1" by (simp add: e successor_args_def)
  have "grade_row_columns row = grade_columns current"
    using assms(5) by (rule stored_grade_from_row_Inr)
  then show "gr_predecessor_grade_id e = Some (w_grade_id row)"
    by (simp add: e successor_args_def grade_columns_row)
qed

lemma insert_grade_add_row:
  assumes "insert_grade H now st g = Inr st'"
  shows "keyed_rows st' k = keyed_rows (add_row st (new_grade_row H now g)) k"
    "stored_grade_row st' k = stored_grade_row (add_row st (new_grade_row H now g)) k"
  using insert_grade_effect(1) [OF assms] by (simp_all add: keyed_rows_def stored_grade_row_def add_row_def)

lemma insert_evidences_inv:
  assumes "foldR (insert_evidence H now) st es = Inr st'"
  shows "store_inv st' = store_inv st" "stored_grade_row st' k = stored_grade_row st k"
    "grade_links st' gid = grade_links st gid"
  using insert_evidences_effect [OF assms]
  by (simp_all add: store_inv_def keyed_rows_def stored_grade_row_def grade_links_def)

lemma insert_grade_inv:
  assumes i: "insert_grade H now st g = Inr st'" and inv: "store_inv st" and p: "plain_key g"
    and h: "\<And>k. grades.history (add_row st (new_grade_row H now g)) k"
  shows "store_inv st'"
proof -
  note e = insert_grade_effect [OF i]
  have "list_all row_keyed (st_grades st')"
    using inv new_grade_row_keyed [OF p] by (simp add: e(1) store_inv_def)
  moreover have "fst ` set (st_links st') \<subseteq> w_grade_id ` set (st_grades st')"
    using inv unfolding e(1,2) by (auto simp: store_inv_def new_grade_row_def)
  ultimately show ?thesis using h unfolding store_inv_def insert_grade_add_row(1) [OF i] by blast
qed

lemma record_step_inv:
  assumes step: "record_step H now st g = Inr (st', e)" and inv: "store_inv st"
    and p: "plain_key g" and c: "constructed H g"
  shows "store_inv st'"
  using step
proof (cases rule: record_step_cases)
  case (first st1)
  have inv1: "store_inv st1" and none: "stored_grade_row st1 (grading_key g) = None"
    using insert_evidences_inv [OF first(1)] inv first(2) by simp_all
  have "grades.history (add_row st1 (new_grade_row H now g)) k" for k
    using inv1 none first(4,5)
    by (intro grades.history_add_first) (simp_all add: store_inv_def new_grade_row_def)
  then show ?thesis using insert_grade_inv [OF first(6) inv1 p] by blast
next
  case (kept row)
  then show ?thesis using insert_evidences_inv(1) inv by blast
next
  case (corrected st1 row)
  have inv1: "store_inv st1" and row: "stored_grade_row st1 (grading_key g) = Some row"
    using insert_evidences_inv [OF corrected(1)] inv corrected(2) by simp_all
  from corrected(3) obtain current where cur:
    "stored_grade_from_row H st1 row (Some (grading_key g)) = Inr current"
    "if keeps_current H current g then e = current
     else grade_init H (successor_args current g (w_correction_sequence row)) = Inr e"
    by (rule effective_grade_cases) (simp add: row)
  have "w_grade_id row = gr_grade_id current"
    using stored_grade_from_row_Inr(1) [OF cur(1)] by (simp add: grade_columns_row)
  then have e: "grade_init H (successor_args current g (w_correction_sequence row)) = Inr e"
    using cur(2) corrected(4) by (auto split: if_splits)
  note s = successor_identity [OF inv1 p c row cur(1) e]
  have "grades.history (add_row st1 (new_grade_row H now e)) k" for k
    using inv1 row s
    by (intro grades.history_add_successor [of _ _ _ row]) (simp_all add: store_inv_def new_grade_row_def)
  then show ?thesis using insert_grade_inv [OF corrected(5) inv1 s(2)] by blast
qed

section \<open>Reading back what was written\<close>

text \<open>A grade whose stored form can be read again: its preference is in the catalogue and its
  evidence records are ones \<open>from_mapping\<close> can have made.\<close>

definition storable_grade :: "hasher \<Rightarrow> settlement_grade \<Rightarrow> bool" where
  "storable_grade H g \<longleftrightarrow>
     constructed H g \<and> gr_preference g \<in> set preference_set \<and>
     list_all (storable_evidence H) (gr_evidence g) \<and>
     list_all (\<lambda>s. strip s \<noteq> []) (gr_evidence_ids g) \<and>
     list_all (\<lambda>s. strip s \<noteq> []) (gr_selected_source_record_ids g)"

lemma grade_dict_lookup:
  "map_of (grade_to_dict H g) ''preference'' = Some (PDict (preference_to_dict (gr_preference g)))"
  "map_of (grade_to_dict H g) ''evidence'' = Some (PList (map (PDict \<circ> evidence_to_dict H) (gr_evidence g)))"
  "map_of (grade_to_dict H g) ''provenance'' = Some (PDict (gr_provenance g))"
  "map_of (grade_to_dict H g) ''fixture_id'' = Some (PStr (gr_fixture_id g))"
  "map_of (grade_to_dict H g) ''grading_state'' = Some (PStr (state_text (gr_grading_state g)))"
  "map_of (grade_to_dict H g) ''settlement_result'' =
     Some (opt_str (map_option result_text (gr_settlement_result g)))"
  "map_of (grade_to_dict H g) ''evidence_ids'' = Some (str_list (gr_evidence_ids g))"
  "map_of (grade_to_dict H g) ''selected_source_level'' =
     Some (opt_str (map_option source_text (gr_selected_source_level g)))"
  "map_of (grade_to_dict H g) ''selected_source_record_ids'' =
     Some (str_list (gr_selected_source_record_ids g))"
  "map_of (grade_to_dict H g) ''reason_code'' = Some (PStr (gr_reason_code g))"
  "map_of (grade_to_dict H g) ''reason'' = Some (PStr (gr_reason g))"
  "map_of (grade_to_dict H g) ''evidence_digest'' = Some (PStr (gr_evidence_digest g))"
  "map_of (grade_to_dict H g) ''selected_evidence_set_id'' = Some (opt_str (gr_selected_evidence_set_id g))"
  "map_of (grade_to_dict H g) ''selected_source_key'' = Some (opt_str (gr_selected_source_key g))"
  "map_of (grade_to_dict H g) ''matchweek_id'' = Some (PStr (gr_matchweek_id g))"
  "map_of (grade_to_dict H g) ''recommendation_id'' = Some (PStr (gr_recommendation_id g))"
  "map_of (grade_to_dict H g) ''prediction_digest'' = Some (opt_str (gr_prediction_digest g))"
  "map_of (grade_to_dict H g) ''frozen_evidence_digest'' = Some (opt_str (gr_frozen_evidence_digest g))"
  "map_of (grade_to_dict H g) ''predecessor_grade_id'' = Some (opt_str (gr_predecessor_grade_id g))"
  "map_of (grade_to_dict H g) ''correction_sequence'' = Some (PInt (gr_correction_sequence g))"
  "map_of (grade_to_dict H g) ''grade_id'' = Some (PStr (gr_grade_id g))"
  "map_of (grade_to_dict H g) ''grade_digest'' = Some (PStr (gr_grade_digest g))"
  by (simp_all add: grade_to_dict_def grade_payload_def)

lemma preference_dict_id: "map_of (preference_to_dict p) ''preference_id'' = Some (PStr (preference_id p))"
  by (simp add: preference_to_dict_def)

lemma opt_py_str_opt_str [simp]: "opt_py_str (opt_str v) = v"
  by (cases v) (simp_all add: opt_py_str_def py_str_def)

lemma py_str_PStr [simp]: "py_str (PStr s) = s"
  by (simp add: py_str_def)

lemma state_of_text_text [simp]: "state_of_text (state_text s) = Some s"
  by (cases s) (simp_all add: state_of_text_def)

lemma result_of_text_text [simp]: "result_of_text (result_text r) = Some r"
  by (cases r) (simp_all add: result_of_text_def)

lemma as_dict_PDict [simp]: "as_dict (PDict m) = Some m"
  by (simp add: as_dict_def)

lemma map_filter_PDict [simp]: "List.map_filter as_dict (map (PDict \<circ> f) xs) = map f xs"
  by (induction xs) simp_all

lemma list_all_PDict [simp]: "list_all (\<lambda>x. as_dict x \<noteq> None) (map (PDict \<circ> f) xs)"
  by (induction xs) simp_all

lemma list_all_PDict' [simp]: "list_all (\<lambda>x. \<exists>y. as_dict x = Some y) (map (PDict \<circ> f) xs)"
  by (induction xs) simp_all

lemma mapR_evidence_dicts:
  "list_all (storable_evidence H) es \<Longrightarrow>
     mapR (evidence_from_mapping H) (map (evidence_to_dict H) es) = Inr es"
  by (induction es) (simp_all add: evidence_from_dict)

lemma grade_from_dict_to_dict:
  assumes "storable_grade H g"
  shows "grade_from_dict H (grade_to_dict H g) = Inr g"
proof -
  have c: "constructed H g" and p: "gr_preference g \<in> set preference_set"
    and e: "list_all (storable_evidence H) (gr_evidence g)"
    using assms by (simp_all add: storable_grade_def)
  note f = constructed_facts [OF c]
  have ids: "t10_strings (str_list (gr_evidence_ids g)) = Inr (gr_evidence_ids g)"
    using assms f(4,5) by (intro t10_strings_str_list) (simp_all add: storable_grade_def list_all_iff)
  have rids: "t10_strings (str_list (gr_selected_source_record_ids g)) = Inr (gr_selected_source_record_ids g)"
    using assms f(7) sorted_set_sorted [of "gr_selected_source_record_ids g"]
    by (intro t10_strings_str_list) (simp_all add: storable_grade_def list_all_iff)
  have fid: "t10_text (PStr (gr_fixture_id g)) l = Inr (gr_fixture_id g)" for l
    using f(2,3) by (simp add: t10_text_def)
  have result: "(if opt_str (map_option result_text (gr_settlement_result g)) = PNone then Inr None
      else case result_of_text (py_str (opt_str (map_option result_text (gr_settlement_result g)))) of
             None \<Rightarrow> Inl PyValueError | Some r \<Rightarrow> Inr (Some r)) = Inr (gr_settlement_result g)"
    by (cases "gr_settlement_result g") simp_all
  have level: "(if opt_str (map_option source_text (gr_selected_source_level g)) = PNone then Inr None
      else bindR (t10_source (PStr (py_str (opt_str (map_option source_text (gr_selected_source_level g))))))
             (\<lambda>l. Inr (Some l))) = Inr (gr_selected_source_level g)"
    by (cases "gr_selected_source_level g") simp_all
  have eta: "\<lparr>gr_fixture_id = gr_fixture_id g, gr_preference = gr_preference g,
       gr_grading_state = gr_grading_state g, gr_settlement_result = gr_settlement_result g,
       gr_reason_code = gr_reason_code g, gr_reason = gr_reason g,
       gr_evidence_digest = gr_evidence_digest g, gr_evidence_ids = gr_evidence_ids g,
       gr_selected_evidence_set_id = gr_selected_evidence_set_id g,
       gr_selected_source_level = gr_selected_source_level g,
       gr_selected_source_key = gr_selected_source_key g,
       gr_selected_source_record_ids = gr_selected_source_record_ids g,
       gr_provenance = gr_provenance g, gr_evidence = gr_evidence g,
       gr_matchweek_id = gr_matchweek_id g, gr_recommendation_id = gr_recommendation_id g,
       gr_prediction_digest = gr_prediction_digest g,
       gr_frozen_evidence_digest = gr_frozen_evidence_digest g,
       gr_predecessor_grade_id = gr_predecessor_grade_id g,
       gr_correction_sequence = gr_correction_sequence g, gr_grade_id = gr_grade_id g,
       gr_grade_digest = gr_grade_digest g\<rparr> = g"
    by simp
  have init: "grade_init H g = Inr g" using c by (simp add: constructed_def)
  have raw: "(if list_all (\<lambda>x. as_dict x \<noteq> None) (map (PDict \<circ> evidence_to_dict H) (gr_evidence g))
      then Inr (List.map_filter as_dict (map (PDict \<circ> evidence_to_dict H) (gr_evidence g)))
      else Inl err) = Inr (map (evidence_to_dict H) (gr_evidence g))" for err
    by simp
  have pref: "catalog_get (default_catalog H) (preference_id (gr_preference g)) = Inr (gr_preference g)"
    using p by (rule catalog_get_preference)
  show ?thesis
    unfolding grade_from_dict_def get_or_def grade_dict_lookup option.case Let_def pyval.case
      result level raw
    by (simp add: ids rids fid mapR_evidence_dicts [OF e] preference_dict_id pref t10_int_value_def eta init)
qed


text \<open>The evidence links of a grade written last.\<close>

lemma sort_enumerate [simp]: "sort_key id (List.enumerate n xs) = List.enumerate n xs"
proof -
  have "sorted (List.enumerate n xs)"
    by (induction xs arbitrary: n)
      (auto simp: in_set_enumerate_eq)
  then show ?thesis unfolding id_def by (rule sorted_sort_id)
qed

lemma links_after_insert:
  assumes i: "insert_grade H now st g = Inr st'" and inv: "store_inv st"
  shows "grade_links st' (gr_grade_id g) = List.enumerate 0 (gr_evidence_ids g)"
proof -
  note e = insert_grade_effect [OF i]
  have none: "filter (\<lambda>(gid, e, n). gid = gr_grade_id g) (st_links st) = []"
    using inv e(5) by (auto simp: store_inv_def filter_empty_conv)
  have every: "filter (\<lambda>(gid, e, n). gid = gr_grade_id g)
      (map (\<lambda>(n, e). (gr_grade_id g, e, n)) ls) = map (\<lambda>(n, e). (gr_grade_id g, e, n)) ls" for ls
    by (induction ls) auto
  have swap: "map (\<lambda>(g, e, n). (n, e)) (map (\<lambda>(n, e). (gid, e, n)) ls) = ls" for gid ls
    by (induction ls) auto
  show ?thesis by (simp only: grade_links_def e(2) filter_append none every append_Nil swap sort_enumerate)
qed

lemma enumerate_fst: "map fst (List.enumerate 0 xs) = [0..<length (List.enumerate 0 xs)]"
  by (simp add: map_fst_enumerate)

lemma stored_after_insert:
  assumes i: "insert_grade H now st g = Inr st'" and inv: "store_inv st" and s: "storable_grade H g"
    and k: "k = None \<or> k = Some (grading_key g)"
  shows "stored_grade_from_row H st' (new_grade_row H now g) k = Inr g"
proof -
  have "w_payload (new_grade_row H now g) = Some (PDict (grade_to_dict H g))"
    "w_grading_key (new_grade_row H now g) = grading_key g" by (simp_all add: new_grade_row_def)
  then show ?thesis using k
    by (auto simp: stored_grade_from_row_def grade_from_dict_to_dict [OF s] new_grade_row_columns
        links_after_insert [OF i inv] enumerate_fst Let_def)
qed

section \<open>Recording and recording again\<close>

text \<open>The identifier of a successor is not that of the grade it would succeed: what the identifier
  hash is relied on for.\<close>

definition successor_fresh :: "hasher \<Rightarrow> settlement_store \<Rightarrow> settlement_grade \<Rightarrow> bool" where
  "successor_fresh H st g \<longleftrightarrow>
     (case stored_grade_row st (grading_key g) of
        None \<Rightarrow> True
      | Some row \<Rightarrow>
          (case stored_grade_from_row H st row (Some (grading_key g)) of
             Inl _ \<Rightarrow> True
           | Inr current \<Rightarrow>
               (case grade_init H (successor_args current g (w_correction_sequence row)) of
                  Inl _ \<Rightarrow> True
                | Inr s \<Rightarrow> gr_grade_id s \<noteq> gr_grade_id current)))"

lemma stored_grade_from_row_same_links:
  "st_links st' = st_links st \<Longrightarrow> stored_grade_from_row H st' r k = stored_grade_from_row H st r k"
  by (simp add: stored_grade_from_row_def grade_links_def cong: pyval.case_cong option.case_cong)

lemma successor_storable:
  assumes "storable_grade H g" "grade_init H (successor_args current g n) = Inr e"
  shows "storable_grade H e"
proof -
  have e: "e = finish_grade H (successor_args current g n)" using assms(2) by (simp add: grade_init_iff)
  have c: "constructed H g" using assms(1) by (simp add: storable_grade_def)
  show ?thesis
    using assms(1) constructed_facts(4,7) [OF c] grade_init_constructed [OF assms(2)]
    by (simp add: storable_grade_def e successor_args_def)
qed

lemma grade_kept_again:
  assumes "constructed H g" "constructed H e" "gr_evidence e = gr_evidence g"
    "gr_grading_state e = gr_grading_state g" "gr_settlement_result e = gr_settlement_result g"
    "gr_reason_code e = gr_reason_code g"
  shows "keeps_current H e g"
proof -
  have "gr_evidence_digest e = gr_evidence_digest g"
    using constructed_facts(6) [OF assms(1)] constructed_facts(6) [OF assms(2)] assms(3) by simp
  then show ?thesis unfolding keeps_current_def Let_def using assms(4-6) by blast
qed

text \<open>After a pass, the stored grade of the key is the one returned, and it stands against the
  grade just recorded.\<close>

lemma record_step_current:
  assumes step: "record_step H now st g = Inr (st', e)" and inv: "store_inv st"
    and p: "plain_key g" and s: "storable_grade H g" and fresh: "successor_fresh H st g"
  obtains row where "stored_grade_row st' (grading_key g) = Some row"
    "stored_grade_from_row H st' row (Some (grading_key g)) = Inr e"
    "keeps_current H e g"
    "gr_prediction_digest g = None \<or> gr_prediction_digest g = gr_prediction_digest e"
    "gr_frozen_evidence_digest g = None \<or> gr_frozen_evidence_digest g = gr_frozen_evidence_digest e"
proof -
  have c: "constructed H g" using s by (simp add: storable_grade_def)
  have inv': "store_inv st'" using record_step_inv [OF step inv p c] .
  show thesis
    using step
  proof (cases rule: record_step_cases)
    case (first st1)
    have inv1: "store_inv st1" using insert_evidences_inv(1) [OF first(1)] inv by simp
    let ?r = "new_grade_row H now g"
    have key: "w_grading_key ?r = grading_key g" by (simp add: new_grade_row_def)
    have "grades.history (add_row st1 ?r) (grading_key g)"
      using inv' unfolding store_inv_def insert_grade_add_row(1) [OF first(6), symmetric] by blast
    then have "stored_grade_row st' (grading_key g) = Some ?r"
      using grades.latest_add [of st1 ?r] unfolding key insert_grade_add_row(2) [OF first(6)] by blast
    moreover have "stored_grade_from_row H st' ?r (Some (grading_key g)) = Inr g"
      using stored_after_insert [OF first(6) inv1 s] by simp
    moreover have "keeps_current H g g" using c by (intro grade_kept_again) simp_all
    ultimately show thesis using that first(3) by simp
  next
    case (kept row)
    have row: "stored_grade_row st' (grading_key g) = Some row"
      using insert_evidences_inv(2) [OF kept(1)] kept(2) by simp
    from kept(3) obtain current where cur:
      "stored_grade_from_row H st' row (Some (grading_key g)) = Inr current"
      "gr_prediction_digest g = None \<or> gr_prediction_digest g = gr_prediction_digest current"
      "gr_frozen_evidence_digest g = None \<or> gr_frozen_evidence_digest g = gr_frozen_evidence_digest current"
      "if keeps_current H current g then e = current
       else grade_init H (successor_args current g (w_correction_sequence row)) = Inr e"
      by (rule effective_grade_cases) (simp add: row)
    have col: "w_grade_id row = gr_grade_id current"
      using stored_grade_from_row_Inr(1) [OF cur(1)] by (simp add: grade_columns_row)
    have lk: "st_links st' = st_links st" using insert_evidences_effect [OF kept(1)] by simp
    have "stored_grade_from_row H st row (Some (grading_key g)) = Inr current"
      using cur(1) stored_grade_from_row_same_links [OF lk, of H row "Some (grading_key g)"]
      by (simp only:)
    note cur' = this
    have "keeps_current H current g"
    proof (rule ccontr)
      assume "\<not> keeps_current H current g"
      then have e: "grade_init H (successor_args current g (w_correction_sequence row)) = Inr e"
        using cur(4) by simp
      have "gr_grade_id e \<noteq> gr_grade_id current"
        using fresh unfolding successor_fresh_def kept(2) option.case cur' sum.case e .
      with kept(4) col show False by simp
    qed
    then show thesis using that [OF row] cur by simp
  next
    case (corrected st1 row)
    have inv1: "store_inv st1" and row: "stored_grade_row st1 (grading_key g) = Some row"
      using insert_evidences_inv [OF corrected(1)] inv corrected(2) by simp_all
    from corrected(3) obtain current where cur:
      "stored_grade_from_row H st1 row (Some (grading_key g)) = Inr current"
      "gr_prediction_digest g = None \<or> gr_prediction_digest g = gr_prediction_digest current"
      "gr_frozen_evidence_digest g = None \<or> gr_frozen_evidence_digest g = gr_frozen_evidence_digest current"
      "if keeps_current H current g then e = current
       else grade_init H (successor_args current g (w_correction_sequence row)) = Inr e"
      by (rule effective_grade_cases) (simp add: row)
    have "w_grade_id row = gr_grade_id current"
      using stored_grade_from_row_Inr(1) [OF cur(1)] by (simp add: grade_columns_row)
    then have e: "grade_init H (successor_args current g (w_correction_sequence row)) = Inr e"
      using cur(4) corrected(4) by (auto split: if_splits)
    note id = successor_identity [OF inv1 p c row cur(1) e]
    have es: "storable_grade H e" using successor_storable [OF s e] .
    have ef: "e = finish_grade H (successor_args current g (w_correction_sequence row))"
      using e by (simp add: grade_init_iff)
    let ?r = "new_grade_row H now e"
    have key: "w_grading_key ?r = grading_key g" by (simp add: new_grade_row_def id)
    have "grades.history (add_row st1 ?r) (grading_key g)"
      using inv' unfolding store_inv_def insert_grade_add_row(1) [OF corrected(5), symmetric] by blast
    then have "stored_grade_row st' (grading_key g) = Some ?r"
      using grades.latest_add [of st1 ?r] unfolding key insert_grade_add_row(2) [OF corrected(5)] by blast
    moreover have "stored_grade_from_row H st' ?r (Some (grading_key g)) = Inr e"
      using stored_after_insert [OF corrected(5) inv1 es, of "Some (grading_key g)"] id(1) by simp
    moreover have "keeps_current H e g"
      using c id(3) by (intro grade_kept_again) (simp_all add: ef successor_args_def)
    moreover have "gr_prediction_digest g = None \<or> gr_prediction_digest g = gr_prediction_digest e"
      "gr_frozen_evidence_digest g = None \<or> gr_frozen_evidence_digest g = gr_frozen_evidence_digest e"
      using cur(2,3) by (auto simp: ef successor_args_def opt_or_def)
    ultimately show thesis using that by blast
  qed
qed

lemma find_prefix: "prefix xs ys \<Longrightarrow> find P xs = Some x \<Longrightarrow> find P ys = Some x"
  by (induction xs arbitrary: ys) (auto simp: prefix_def split: if_splits)

lemma insert_evidence_again:
  assumes i: "insert_evidence H now st e = Inr st1" and x: "store_extends st1 st2"
  shows "insert_evidence H now' st2 e = Inr st2"
proof -
  from i obtain st0 r where a: "add_identifier_if_missing ''settlement_evidence'' (evidence_id H e) st = Inr st0"
    and j: "json_encodable (PDict (evidence_to_dict H e))"
    and row: "insert_evidence_row (new_evidence_row H now e) st0 = Inr st1"
    and r: "find (\<lambda>r. er_id r = evidence_id H e) (st_evidence st1) = Some r"
      "stored_evidence_from_row H r = Inr e"
      "map_option json_text (er_payload r) = Some (json_text (PDict (evidence_to_dict H e)))"
    by (rule insert_evidence_cases)
  note e0 = add_identifier_effect [OF a] and e1 = insert_evidence_row_effect [OF row]
  have "(evidence_id H e, ''settlement_evidence'') \<in> set (st_identifiers st1)" using e0 e1 by simp
  moreover have "set (st_identifiers st1) \<subseteq> set (st_identifiers st2)"
    by (rule set_mono_prefix) (use x in \<open>simp add: store_extends_def\<close>)
  ultimately have "(evidence_id H e, ''settlement_evidence'') \<in> set (st_identifiers st2)" by blast
  then have ident: "add_identifier_if_missing ''settlement_evidence'' (evidence_id H e) st2 = Inr st2"
    using e0 by (simp add: add_identifier_if_missing_def)
  have found: "find (\<lambda>r. er_id r = evidence_id H e) (st_evidence st2) = Some r"
    by (rule find_prefix [OF _ r(1)]) (use x in \<open>simp add: store_extends_def\<close>)
  have "evidence_id H e \<in> set (map er_id (st_evidence st2))"
    using find_Some_props [OF found] by (auto intro: rev_image_eqI)
  moreover have "sha_shaped (e_evidence_digest e)"
    using row by (auto simp: insert_evidence_row_def new_evidence_row_def)
  ultimately have again: "insert_evidence_row (new_evidence_row H now' e) st2 = Inr st2"
    by (simp add: insert_evidence_row_def new_evidence_row_def)
  show ?thesis
    using ident j again found r(2,3)
    by (simp add: insert_evidence_def lift_t10_def del: json_encodable.simps json_text.simps)
qed

lemma insert_evidences_again:
  assumes "foldR (insert_evidence H now) st es = Inr st1" "store_extends st1 st2"
  shows "foldR (insert_evidence H now') st2 es = Inr st2"
  using assms
proof (induction es arbitrary: st)
  case (Cons e es)
  then obtain s where s: "insert_evidence H now st e = Inr s" "foldR (insert_evidence H now) s es = Inr st1"
    by auto
  have "store_extends s st2" using insert_evidences_effect [OF s(2)] Cons.prems(2) store_extends_trans by blast
  then show ?case using insert_evidence_again [OF s(1)] Cons.IH [OF s(2) Cons.prems(2)] by simp
qed simp

lemma record_step_again:
  assumes step: "record_step H now st g = Inr (st', e)" and inv: "store_inv st"
    and p: "plain_key g" and s: "storable_grade H g" and fresh: "successor_fresh H st g"
  shows "record_step H now' st' g = Inr (st', e)"
proof -
  obtain row where row: "stored_grade_row st' (grading_key g) = Some row"
    "stored_grade_from_row H st' row (Some (grading_key g)) = Inr e" "keeps_current H e g"
    "gr_prediction_digest g = None \<or> gr_prediction_digest g = gr_prediction_digest e"
    "gr_frozen_evidence_digest g = None \<or> gr_frozen_evidence_digest g = gr_frozen_evidence_digest e"
    using assms by (rule record_step_current)
  have ev: "foldR (insert_evidence H now') st' (gr_evidence g) = Inr st'"
    using step
  proof (cases rule: record_step_cases)
    case (first st1)
    then show ?thesis using insert_evidences_again insert_grade_effect(4) by blast
  next
    case (kept row)
    then show ?thesis using insert_evidences_again store_extends_refl by blast
  next
    case (corrected st1 row)
    then show ?thesis using insert_evidences_again insert_grade_effect(4) by blast
  qed
  have "effective_grade H st' g = Inr (Some e)"
    using row by (simp add: effective_grade_def frozen_unchanged_def)
  moreover have "gr_grade_id e = w_grade_id row"
    using stored_grade_from_row_Inr(1) [OF row(2)] by (simp add: grade_columns_row)
  ultimately show ?thesis using ev row(1) by (simp add: record_step_def lift_t10_def)
qed

lemma record_one_step: "record_one H now st g = record_step H now st g"
proof (cases "record_step H now st g")
  case (Inr r)
  then show ?thesis by (cases r) (simp add: record_one_def record_many_def)
qed (simp add: record_one_def record_many_def)

end
