(* ===== verification/Correction_Properties.thy ===== *)
theory Correction_Properties
  imports Record_Properties
begin

text \<open>
  What the grade recorder of \<open>t10.py\<close> guarantees in the stores it reaches from an empty one: rows
  are only added, the grades of a key form a linked history of corrections, a recorded grade is what
  is read back, recording is idempotent, and a correction never loses authority. The samples the
  witnesses use come first.
\<close>

section \<open>Samples\<close>

text \<open>Hash functions of the right shape, two-valued, and a pending grade without evidence.\<close>

definition stamp_hasher :: hasher where
  "stamp_hasher =
     \<lparr>sha256_hex = (\<lambda>s. replicate 64 (if length s < 950 then CHR ''a'' else CHR ''b'')),
      uuid5_url = (\<lambda>s. ''00000000-0000-5000-8000-00000000000'' @
        [if last s = CHR ''b'' then CHR ''b'' else CHR ''a''])\<rparr>"

lemma stamp_shapes [simp]: "sha_shaped (digest stamp_hasher v)" "uuid_shaped (stable_id stamp_hasher k s)"
proof -
  have "list_all uuid_shaped [''00000000-0000-5000-8000-00000000000a'',
      ''00000000-0000-5000-8000-00000000000b'']"
    "list_all is_hex [CHR ''a'', CHR ''b'']"
    by code_simp+
  then show "sha_shaped (digest stamp_hasher v)" "uuid_shaped (stable_id stamp_hasher k s)"
    by (simp_all add: digest_def stable_id_def stamp_hasher_def sha_shaped_def list_all_iff)
qed

definition sample_args :: settlement_grade where
  "sample_args = (blank_grade ''F1'' (preference_set ! 0) [] [] [] sample_request)
     \<lparr>gr_reason_code := ''MISSING_FIXTURE_STATUS'', gr_prediction_digest := Some ''p''\<rparr>"

definition sample_grade :: settlement_grade where
  "sample_grade = finish_grade stamp_hasher sample_args"

text \<open>The withdrawal of the same recommendation, and the correction recording it makes.\<close>

definition sample_withdrawal :: settlement_grade where
  "sample_withdrawal = finish_grade stamp_hasher (sample_args
     \<lparr>gr_grading_state := FINAL, gr_settlement_result := Some VOID,
      gr_reason_code := ''WITHDRAWN_RECOMMENDATION''\<rparr>)"

definition sample_correction :: settlement_grade where
  "sample_correction = finish_grade stamp_hasher (successor_args sample_grade sample_withdrawal 0)"

lemma sample_strip [simp]: "strip ''F1'' = ''F1''"
  by code_simp

lemma finish_constructed: "grade_args_ok H a \<Longrightarrow> constructed H (finish_grade H a)"
  by (rule grade_init_constructed [of H a]) (simp add: grade_init_iff)

lemma sample_constructed:
  "constructed stamp_hasher sample_grade" "constructed stamp_hasher sample_withdrawal"
  unfolding sample_grade_def sample_withdrawal_def sample_args_def
  by (rule finish_constructed, simp add: grade_args_ok_def blank_grade_def sorted_set_def)+

lemmas sample_defs = sample_grade_def sample_withdrawal_def sample_correction_def sample_args_def
  blank_grade_def finish_grade_def grade_fields_def Let_def successor_args_def str_or_def opt_or_def
  aggregate_evidence_digest_def sample_request_def sorted_set_def

lemma sample_fields:
  assumes "g \<in> {sample_grade, sample_withdrawal, sample_correction}"
  shows "gr_evidence g = []" "gr_evidence_ids g = []" "gr_preference g = preference_set ! 0"
    "gr_selected_source_record_ids g = []" "gr_fixture_id g = ''F1''" "gr_matchweek_id g = []"
    "gr_recommendation_id g = []" "gr_selected_evidence_set_id g = None"
    "gr_selected_source_level g = None" "gr_selected_source_key g = None"
    "gr_prediction_digest g = Some ''p''" "gr_frozen_evidence_digest g = None" "gr_provenance g = []"
  using assms by (auto simp: sample_defs)

lemmas sample_grade_fields [simp] = sample_fields [of sample_grade, simplified]
lemmas sample_withdrawal_fields [simp] = sample_fields [of sample_withdrawal, simplified]
lemmas sample_correction_fields [simp] = sample_fields [of sample_correction, simplified]

lemma sample_states [simp]:
  "gr_grading_state sample_grade = PENDING" "gr_settlement_result sample_grade = None"
  "gr_grading_state sample_correction = FINAL" "gr_settlement_result sample_correction = Some VOID"
  "gr_grading_state sample_withdrawal = FINAL" "gr_reason_code sample_withdrawal = ''WITHDRAWN_RECOMMENDATION''"
  "gr_reason_code sample_grade = ''MISSING_FIXTURE_STATUS''"
  "gr_correction_sequence sample_grade = 0" "gr_predecessor_grade_id sample_grade = None"
  "gr_correction_sequence sample_correction = 1"
  "gr_predecessor_grade_id sample_correction = Some (gr_grade_id sample_grade)"
  by (simp_all add: sample_defs)

lemma sample_digest_shapes [simp]:
  "sha_shaped (gr_evidence_digest sample_grade)" "sha_shaped (gr_grade_digest sample_grade)"
  "sha_shaped (gr_evidence_digest sample_correction)" "sha_shaped (gr_grade_digest sample_correction)"
  "uuid_shaped (gr_grade_id sample_grade)" "uuid_shaped (gr_grade_id sample_correction)"
  by (simp_all add: sample_defs grade_digest_of_def grade_id_of_def)

text \<open>The text a grade's digest is taken of, and the last character of the identity it gives.\<close>

definition grade_text :: "hasher \<Rightarrow> settlement_grade \<Rightarrow> string" where
  "grade_text H g = json_text (PDict (grade_payload H g @ [(''provenance'', PDict (gr_provenance g))]))"

lemma stamped_id:
  "gr_grade_id (finish_grade stamp_hasher a) = ''00000000-0000-5000-8000-00000000000'' @
     [if length (grade_text stamp_hasher (grade_fields stamp_hasher a)) < 950 then CHR ''a'' else CHR ''b'']"
  by (simp add: finish_grade_def Let_def grade_id_of_def stable_id_def grade_digest_of_def digest_def
      grade_text_def stamp_hasher_def)

lemma sample_id: "gr_grade_id sample_grade = ''00000000-0000-5000-8000-00000000000a''"
proof -
  have "length (grade_text stamp_hasher (grade_fields stamp_hasher sample_args)) < 950"
    by code_simp
  then show ?thesis unfolding sample_grade_def stamped_id by simp
qed

lemma sample_ids_differ: "gr_grade_id sample_correction \<noteq> gr_grade_id sample_grade"
proof -
  have "successor_args sample_grade sample_withdrawal 0 = sample_args
      \<lparr>gr_grading_state := FINAL, gr_settlement_result := Some VOID,
       gr_reason_code := ''WITHDRAWN_RECOMMENDATION'', gr_correction_sequence := 1,
       gr_evidence_digest := gr_evidence_digest sample_withdrawal,
       gr_predecessor_grade_id := Some ''00000000-0000-5000-8000-00000000000a''\<rparr>"
    by (simp add: successor_args_def sample_id)
      (simp add: sample_withdrawal_def sample_args_def finish_grade_def grade_fields_def Let_def blank_grade_def
        str_or_def opt_or_def sample_request_def sorted_set_def)
  moreover have "\<not> length (grade_text stamp_hasher (grade_fields stamp_hasher (sample_args
      \<lparr>gr_grading_state := FINAL, gr_settlement_result := Some VOID,
       gr_reason_code := ''WITHDRAWN_RECOMMENDATION'', gr_correction_sequence := 1,
       gr_predecessor_grade_id := Some ''00000000-0000-5000-8000-00000000000a''\<rparr>))) < 950"
    by code_simp
  ultimately show ?thesis
    unfolding sample_id sample_correction_def stamped_id by (simp add: grade_fields_def)
qed

lemma sample_plain: "plain_key sample_grade" "plain_key sample_withdrawal"
  by (simp_all add: plain_key_def bar_free_def)

lemma sample_storable: "storable_grade stamp_hasher sample_grade"
  by (simp add: storable_grade_def sample_constructed preference_at)

lemma json_encodable_preference: "json_encodable (PDict (preference_to_dict p))"
  by (simp add: preference_to_dict_def str_list_def list_all_iff split: option.split)

lemma json_encodable_opt [simp]: "json_encodable (opt_str v)"
  by (cases v) simp_all

text \<open>Inserting a grade without evidence.\<close>

lemma insert_bare_grade:
  assumes "gr_evidence_ids g = []" "gr_selected_evidence_set_id g = None" "gr_provenance g = []"
    "gr_evidence g = []" "gr_selected_source_record_ids g = []"
    and "uuid_shaped (gr_grade_id g)" "gr_grade_id g \<notin> set (map fst (st_identifiers st))"
    and "sha_shaped (catalog_digest (default_catalog H))" "sha_shaped (gr_evidence_digest g)"
    "sha_shaped (gr_grade_digest g)" "gr_grade_id g \<notin> set (map w_grade_id (st_grades st))"
    "0 \<le> gr_correction_sequence g"
    and "\<forall>r \<in> set (keyed_rows st (grading_key g)). w_correction_sequence r \<noteq> gr_correction_sequence g"
    and "gr_predecessor_grade_id g = None \<or>
      gr_predecessor_grade_id g \<in> Some ` set (map w_grade_id (st_grades st))"
    and "gr_grading_state g = PENDING \<longleftrightarrow> gr_settlement_result g = None"
  shows "insert_grade H now st g = Inr (st
    \<lparr>st_identifiers := st_identifiers st @ [(gr_grade_id g, ''settlement_grade'')],
     st_grades := st_grades st @ [new_grade_row H now g]\<rparr>)"
proof -
  have j: "json_encodable (PDict (grade_to_dict H g))"
    using json_encodable_preference assms(1-5)
    by (simp add: grade_to_dict_def grade_payload_def str_list_def split: option.split)
  have new: "(gr_grade_id g, ''settlement_grade'') \<notin> set (st_identifiers st)"
    using assms(7) by (force simp: image_iff)
  have state: "gr_grading_state g = FINAL" if "gr_settlement_result g \<noteq> None"
    using assms(15) that by (cases "gr_grading_state g") auto
  have row: "grade_row_allowed (st\<lparr>st_identifiers := st_identifiers st @ [(gr_grade_id g, ''settlement_grade'')]\<rparr>)
      (new_grade_row H now g)"
    using assms state unfolding grade_row_allowed_def
    by (cases "gr_settlement_result g")
      (auto simp: new_grade_row_def list_ex_iff keyed_rows_def split: option.splits)
  show ?thesis
    using assms(1,2,4,6,7) j new row
    by (simp add: insert_grade_def add_identifier_if_missing_def)
qed

definition sample_store :: settlement_store where
  "sample_store =
     \<lparr>st_identifiers = [(gr_grade_id sample_grade, ''settlement_grade'')], st_evidence = [],
      st_grades = [new_grade_row stamp_hasher ''now'' sample_grade], st_links = []\<rparr>"

lemma empty_keyed [simp]: "keyed_rows empty_store k = []" "stored_grade_row empty_store k = None"
  by (simp_all add: stored_grade_row_last keyed_rows_def empty_store_def)

lemma sample_recorded: "record_one stamp_hasher ''now'' empty_store sample_grade = Inr (sample_store, sample_grade)"
proof -
  have "insert_grade stamp_hasher ''now'' empty_store sample_grade = Inr sample_store"
    by (subst insert_bare_grade) (simp_all add: empty_store_def sample_store_def default_catalog_def keyed_rows_def)
  then show ?thesis
    by (simp add: record_one_step record_step_def effective_grade_def lift_t10_def)
qed

lemma sample_corrected:
  obtains st where "record_one stamp_hasher ''later'' sample_store sample_withdrawal = Inr (st, sample_correction)"
proof -
  let ?row = "new_grade_row stamp_hasher ''now'' sample_grade"
  have key: "grading_key sample_withdrawal = grading_key sample_grade"
    "grading_key sample_correction = grading_key sample_grade"
    by (simp_all add: grading_key_def)
  have fresh: "successor_fresh stamp_hasher empty_store sample_grade" by (simp add: successor_fresh_def)
  have step: "record_step stamp_hasher ''now'' empty_store sample_grade = Inr (sample_store, sample_grade)"
    using sample_recorded by (simp add: record_one_step)
  obtain row where "stored_grade_row sample_store (grading_key sample_grade) = Some row"
    "stored_grade_from_row stamp_hasher sample_store row (Some (grading_key sample_grade)) = Inr sample_grade"
    using step store_inv_empty sample_plain(1) sample_storable fresh by (rule record_step_current)
  moreover have keyed: "keyed_rows sample_store (grading_key sample_grade) = [?row]"
    by (simp add: keyed_rows_def sample_store_def new_grade_row_def)
  ultimately have row: "stored_grade_row sample_store (grading_key sample_grade) = Some ?row"
    "stored_grade_from_row stamp_hasher sample_store ?row (Some (grading_key sample_grade)) = Inr sample_grade"
    by (simp_all add: stored_grade_row_last)
  have seq: "w_correction_sequence ?row = 0" "w_grade_id ?row = gr_grade_id sample_grade"
    by (simp_all add: new_grade_row_def)
  have init: "grade_init stamp_hasher (successor_args sample_grade sample_withdrawal 0) = Inr sample_correction"
    unfolding sample_correction_def
    by (simp add: grade_init_iff grade_args_ok_def successor_args_def sorted_set_def)
      (simp add: sample_defs)
  have "effective_grade stamp_hasher sample_store sample_withdrawal = Inr (Some sample_correction)"
    using row(2) init
    by (simp add: effective_grade_def key row(1) seq frozen_unchanged_def keeps_current_def)
  moreover obtain st where "insert_grade stamp_hasher ''later'' sample_store sample_correction = Inr st"
    using sample_ids_differ
    by (subst (asm) insert_bare_grade)
      (simp_all add: key keyed_rows_def seq sample_store_def default_catalog_def)
  ultimately have "record_step stamp_hasher ''later'' sample_store sample_withdrawal = Inr (st, sample_correction)"
    using sample_ids_differ by (simp add: record_step_def key row seq lift_t10_def)
  then show thesis using that by (simp add: record_one_step)
qed

section \<open>Properties of the recorder\<close>

text \<open>C38: recording never changes or removes a row: whatever the grades and the failure hook, the
  identifiers, evidence sets, grades and evidence links after the transaction extend those before.\<close>

theorem recording_appends_only:
  "store_extends st (committed st (record_many H now hook st gs))"
proof (cases "record_many H now hook st gs")
  case (Inr r)
  obtain st' es where r: "r = (st', es)" by (cases r)
  have "store_extends st st'"
    using Inr unfolding r
    by (rule record_many_induct) (auto dest: record_step_extends intro: store_extends_trans)
  then show ?thesis by (simp add: committed_def Inr r)
qed (simp add: committed_def)

text \<open>The stores a sequence of recording calls reaches from an empty one.\<close>

inductive reachable_store :: "hasher \<Rightarrow> settlement_store \<Rightarrow> bool" for H where
  opened: "reachable_store H empty_store"
| recorded: "reachable_store H st \<Longrightarrow> list_all (\<lambda>g. constructed H g \<and> plain_key g) gs \<Longrightarrow>
    reachable_store H (committed st (record_many H now hook st gs))"

lemma reachable_store_inv: "reachable_store H st \<Longrightarrow> store_inv st"
proof (induction rule: reachable_store.induct)
  case opened
  show ?case by (rule store_inv_empty)
next
  case (recorded st gs now hook)
  show ?case
  proof (cases "record_many H now hook st gs")
    case (Inr r)
    obtain st' es where r: "r = (st', es)" by (cases r)
    have "store_inv st'"
      using Inr [unfolded r] recorded.IH
    proof (rule record_many_induct)
      show "store_inv t" if "store_inv s" "g \<in> set gs" "record_step H now s g = Inr (t, e)" for s g t e
        using record_step_inv [OF that(3,1)] recorded.hyps(2) that(2) by (auto simp: list_all_iff)
    qed
    then show ?thesis by (simp add: committed_def Inr r)
  qed (simp add: committed_def recorded.IH)
qed

lemma reachable_record_one:
  assumes "reachable_store H st" "constructed H g" "plain_key g"
    and "record_one H now st g = Inr (st', e)"
  shows "reachable_store H st'"
proof -
  have "record_many H now (\<lambda>_. None) st [g] = Inr (st', [e])"
    using assms(4) by (auto simp: record_one_def record_many_def)
  then have "committed st (record_many H now (\<lambda>_. None) st [g]) = st'" by (simp add: committed_def)
  then show ?thesis
    using reachable_store.recorded [OF assms(1), of "[g]" now "\<lambda>_. None"] assms(2,3) by simp
qed

text \<open>C25: in every store reached by recording grades, the grades of each grading key form a history:
  their correction sequences are 0, 1, 2, ... in the order written and every correction names the
  grade before it as its predecessor; and the row the key is read through is the last one.\<close>

theorem grade_histories_linked:
  assumes "reachable_store H st"
  shows "linked w_correction_sequence w_grade_id w_predecessor_grade_id (keyed_rows st key) \<and>
    stored_grade_row st key =
      (if keyed_rows st key = [] then None else Some (last (keyed_rows st key)))"
proof -
  have h: "grades.history st key" using reachable_store_inv [OF assms] by (simp add: store_inv_def)
  show ?thesis
  proof (cases "stored_grade_row st key")
    case None
    then show ?thesis using h grades.latest_none by simp
  next
    case (Some r)
    obtain rs where "keyed_rows st key = rs @ [r]" using h Some by (rule grades.latest_history)
    then show ?thesis using h Some by simp
  qed
qed

theorem grade_histories_linked_witness:
  "\<exists>st e. record_one stamp_hasher ''now'' empty_store sample_grade = Inr (st, e) \<and>
     linked w_correction_sequence w_grade_id w_predecessor_grade_id
       (keyed_rows st (grading_key sample_grade))"
proof -
  have "reachable_store stamp_hasher sample_store"
    using reachable_store.opened sample_constructed(1) sample_plain(1) sample_recorded by (rule reachable_record_one)
  from grade_histories_linked [OF this] sample_recorded show ?thesis by blast
qed

lemma current_grade_key:
  "current_grade H st (gr_fixture_id g) (preference_id (gr_preference g)) (gr_matchweek_id g)
     (gr_recommendation_id g) =
   (case stored_grade_row st (grading_key g) of None \<Rightarrow> Inr None
    | Some row \<Rightarrow> bindR (stored_grade_from_row H st row (Some (grading_key g))) (\<lambda>g. Inr (Some g)))"
proof -
  have "gr_fixture_id g @ ''|'' @ gr_matchweek_id g @ ''|'' @ gr_recommendation_id g @ ''|'' @
      preference_id (gr_preference g) = grading_key g"
    by (simp add: grading_key_def)
  then show ?thesis unfolding current_grade_def Let_def by (simp only:)
qed

lemma stored_grade_row_cong: "keyed_rows s k = keyed_rows t k \<Longrightarrow> stored_grade_row s k = stored_grade_row t k"
  by (simp add: stored_grade_row_def)

lemma insert_grade_other_key:
  assumes "insert_grade H now st g = Inr st'" "k \<noteq> grading_key g"
  shows "stored_grade_row st' k = stored_grade_row st k"
proof -
  have "keyed_rows (add_row st (new_grade_row H now g)) k = keyed_rows st k"
    using assms(2) by (simp add: grades.rows_add) (simp add: new_grade_row_def)
  then show ?thesis using insert_grade_add_row(1) [OF assms(1)] by (intro stored_grade_row_cong) simp
qed

text \<open>The grade a recording call returns for a key that has a stored grade.\<close>

lemma record_step_effect:
  assumes step: "record_step H now st g = Inr (st', e)" and inv: "store_inv st"
    and p: "plain_key g" and c: "constructed H g"
  obtains (first) "stored_grade_row st (grading_key g) = None" "e = g"
  | (next_of) st1 row current where "stored_grade_row st (grading_key g) = Some row"
      "stored_grade_from_row H st1 row (Some (grading_key g)) = Inr current"
      "gr_grade_id current = w_grade_id row" "grading_key e = grading_key g"
      "if keeps_current H current g then e = current
       else grade_init H (successor_args current g (w_correction_sequence row)) = Inr e"
  using step
proof (cases rule: record_step_cases)
  case (first st1)
  then show thesis using that(1) by blast
next
  case (kept row)
  note ev = insert_evidences_inv(2) [OF kept(1)]
  from kept(3) obtain row' current where cur: "stored_grade_row st' (grading_key g) = Some row'"
    "stored_grade_from_row H st' row' (Some (grading_key g)) = Inr current"
    "if keeps_current H current g then e = current
     else grade_init H (successor_args current g (w_correction_sequence row')) = Inr e"
    by (rule effective_grade_cases)
  have r: "row' = row" using cur(1) kept(2) ev by simp
  have col: "gr_grade_id current = w_grade_id row"
    using stored_grade_from_row_Inr(1) [OF cur(2)] r by (simp add: grade_columns_row)
  have inv1: "store_inv st'" using insert_evidences_inv(1) [OF kept(1)] inv by simp
  have key: "grading_key e = grading_key g"
  proof (cases "keeps_current H current g")
    case True
    then show ?thesis
      using current_same_identity [OF inv1 p cur(1,2)] cur(3) by (simp add: grading_key_def)
  next
    case False
    then show ?thesis using successor_identity(1) [OF inv1 p c cur(1,2)] cur(3) by simp
  qed
  show thesis using that(2) [OF kept(2) _ col key] cur(2,3) r by blast
next
  case (corrected st1 row)
  note ev = insert_evidences_inv(2) [OF corrected(1)]
  from corrected(3) obtain row' current where cur: "stored_grade_row st1 (grading_key g) = Some row'"
    "stored_grade_from_row H st1 row' (Some (grading_key g)) = Inr current"
    "if keeps_current H current g then e = current
     else grade_init H (successor_args current g (w_correction_sequence row')) = Inr e"
    by (rule effective_grade_cases)
  have r: "row' = row" using cur(1) corrected(2) ev by simp
  have col: "gr_grade_id current = w_grade_id row"
    using stored_grade_from_row_Inr(1) [OF cur(2)] r by (simp add: grade_columns_row)
  have inv1: "store_inv st1" using insert_evidences_inv(1) [OF corrected(1)] inv by simp
  have key: "grading_key e = grading_key g"
  proof (cases "keeps_current H current g")
    case True
    then show ?thesis using cur(3) col corrected(4) by simp
  next
    case False
    then show ?thesis using successor_identity(1) [OF inv1 p c cur(1,2)] cur(3) by simp
  qed
  show thesis using that(2) [OF corrected(2) _ col key] cur(2,3) r by blast
qed

lemma record_step_other_key:
  assumes step: "record_step H now st g = Inr (st', e)" and inv: "store_inv st"
    and p: "plain_key g" and c: "constructed H g" and k: "k \<noteq> grading_key g"
  shows "stored_grade_row st' k = stored_grade_row st k"
proof -
  have key: "grading_key e = grading_key g"
    using step inv p c by (cases rule: record_step_effect) simp_all
  show ?thesis using step
  proof (cases rule: record_step_cases)
    case (first st1)
    then show ?thesis using insert_evidences_inv(2) [OF first(1)] insert_grade_other_key [OF first(6)] k by simp
  next
    case (kept row)
    then show ?thesis using insert_evidences_inv(2) by blast
  next
    case (corrected st1 row)
    then show ?thesis
      using insert_evidences_inv(2) [OF corrected(1)] insert_grade_other_key [OF corrected(5)] k key by simp
  qed
qed

text \<open>C26: reading after writing: after a grade has been recorded the current grade under its key is
  the grade the call returned, the grades under every other key are untouched, and what was frozen
  for the recommendation is what the incoming grade was checked against.\<close>

theorem recorded_grade_is_current:
  assumes "reachable_store H st" "plain_key g" "storable_grade H g" "successor_fresh H st g"
    and "record_one H now st g = Inr (st', e)"
  shows "current_grade H st' (gr_fixture_id g) (preference_id (gr_preference g)) (gr_matchweek_id g)
      (gr_recommendation_id g) = Inr (Some e) \<and>
    (\<forall>k. k \<noteq> grading_key g \<longrightarrow> stored_grade_row st' k = stored_grade_row st k) \<and>
    (gr_prediction_digest g = None \<or> gr_prediction_digest g = gr_prediction_digest e) \<and>
    (gr_frozen_evidence_digest g = None \<or> gr_frozen_evidence_digest g = gr_frozen_evidence_digest e)"
proof -
  note inv = reachable_store_inv [OF assms(1)]
  have step: "record_step H now st g = Inr (st', e)" using assms(5) by (simp add: record_one_step)
  have c: "constructed H g" using assms(3) by (simp add: storable_grade_def)
  obtain row where "stored_grade_row st' (grading_key g) = Some row"
    "stored_grade_from_row H st' row (Some (grading_key g)) = Inr e"
    "gr_prediction_digest g = None \<or> gr_prediction_digest g = gr_prediction_digest e"
    "gr_frozen_evidence_digest g = None \<or> gr_frozen_evidence_digest g = gr_frozen_evidence_digest e"
    using step inv assms(2-4) by (rule record_step_current)
  then show ?thesis
    using record_step_other_key [OF step inv assms(2) c] by (simp add: current_grade_key)
qed

lemma sample_fresh: "successor_fresh H empty_store g"
  by (simp add: successor_fresh_def)

theorem recorded_grade_is_current_witness:
  "\<exists>st. record_one stamp_hasher ''now'' empty_store sample_grade = Inr (st, sample_grade) \<and>
     current_grade stamp_hasher st (gr_fixture_id sample_grade)
       (preference_id (gr_preference sample_grade)) (gr_matchweek_id sample_grade)
       (gr_recommendation_id sample_grade) = Inr (Some sample_grade)"
proof -
  from recorded_grade_is_current [OF reachable_store.opened sample_plain(1) sample_storable
      sample_fresh sample_recorded] sample_recorded
  show ?thesis by blast
qed

text \<open>C37: recording the same grade again, at any later time, returns the same grade and writes
  nothing: no second row, identifier, evidence set or link.\<close>

theorem recording_is_idempotent:
  assumes "reachable_store H st" "plain_key g" "storable_grade H g" "successor_fresh H st g"
    and "record_one H now st g = Inr (st', e)"
  shows "record_one H later st' g = Inr (st', e)"
  using record_step_again [OF _ reachable_store_inv] assms by (simp add: record_one_step)

theorem recording_is_idempotent_witness:
  "\<exists>st. record_one stamp_hasher ''now'' empty_store sample_grade = Inr (st, sample_grade) \<and>
     record_one stamp_hasher ''later'' st sample_grade = Inr (st, sample_grade)"
proof -
  from recording_is_idempotent [OF reachable_store.opened sample_plain(1) sample_storable
      sample_fresh sample_recorded] sample_recorded
  show ?thesis by blast
qed

text \<open>C27: a correction changes what is settled only with enough authority: when recording replaces
  the current grade, the replaced grade did not rest on a source of higher authority than the one
  the new grade rests on, and a grade that rests on no source replaces one that does only as a
  withdrawal or with evidence of at least that authority at hand; the new grade numbers itself after
  the one it replaces and keeps its frozen digests.\<close>

theorem correction_keeps_authority:
  assumes "reachable_store H st" "plain_key g" "constructed H g"
    and "current_grade H st (gr_fixture_id g) (preference_id (gr_preference g)) (gr_matchweek_id g)
      (gr_recommendation_id g) = Inr (Some current)"
    and "record_one H now st g = Inr (st', e)" and "e \<noteq> current"
  shows "gr_correction_sequence e = gr_correction_sequence current + 1 \<and>
    gr_predecessor_grade_id e = Some (gr_grade_id current) \<and>
    opt_or (gr_prediction_digest current) (gr_prediction_digest e) = gr_prediction_digest e \<and>
    opt_or (gr_frozen_evidence_digest current) (gr_frozen_evidence_digest e) = gr_frozen_evidence_digest e \<and>
    (case gr_selected_source_level current of None \<Rightarrow> True
     | Some l \<Rightarrow>
         (case gr_selected_source_level e of
            Some k \<Rightarrow> authority_rank k \<le> authority_rank l
          | None \<Rightarrow> gr_reason_code e = ''WITHDRAWN_RECOMMENDATION'' \<or>
              (\<exists>x \<in> set (gr_evidence e). authority_rank (e_source_level x) \<le> authority_rank l)))"
proof -
  note inv = reachable_store_inv [OF assms(1)]
  have step: "record_step H now st g = Inr (st', e)" using assms(5) by (simp add: record_one_step)
  from assms(4) obtain row where row: "stored_grade_row st (grading_key g) = Some row"
    "stored_grade_from_row H st row (Some (grading_key g)) = Inr current"
    by (auto simp: current_grade_key split: option.splits elim: bindR_InrE)
  from step inv assms(2,3) row(1) obtain st1 c where c:
    "stored_grade_from_row H st1 row (Some (grading_key g)) = Inr c"
    "if keeps_current H c g then e = c
     else grade_init H (successor_args c g (w_correction_sequence row)) = Inr e"
    by (cases rule: record_step_effect) auto
  have "c = current" using c(1) row(2) by (auto simp: stored_grade_from_row_def Let_def
      split: option.splits pyval.splits elim!: bindR_InrE)
  then have e: "e = finish_grade H (successor_args current g (w_correction_sequence row))"
    and k: "\<not> keeps_current H current g"
    using c(2) assms(6) by (auto simp: grade_init_iff split: if_splits)
  have seq: "w_correction_sequence row = gr_correction_sequence current"
    using stored_grade_from_row_Inr(1) [OF row(2)] by (simp add: grade_columns_row)
  have lvl: "gr_selected_source_level e = gr_selected_source_level g"
    "gr_reason_code e = gr_reason_code g" "gr_evidence e = gr_evidence g"
    by (simp_all add: e successor_args_def)
  have ranked: "\<exists>x \<in> set (gr_evidence g). authority_rank (e_source_level x) \<le> n"
    if "ranks_of (gr_evidence g) \<noteq> []" "\<not> n < Min (set (ranks_of (gr_evidence g)))" for n
    using that Min_in [of "set (ranks_of (gr_evidence g))"] unfolding ranks_of_def
    by (metis (no_types, lifting) List.finite_set imageE list.set_map not_less set_empty)
  have authority: "case gr_selected_source_level current of None \<Rightarrow> True
     | Some l \<Rightarrow>
         (case gr_selected_source_level g of
            Some k \<Rightarrow> authority_rank k \<le> authority_rank l
          | None \<Rightarrow> gr_reason_code g = ''WITHDRAWN_RECOMMENDATION'' \<or>
              (\<exists>x \<in> set (gr_evidence g). authority_rank (e_source_level x) \<le> authority_rank l))"
  proof (cases "gr_selected_source_level current")
    case (Some l)
    then show ?thesis
      using k ranked [of "authority_rank l"] unfolding keeps_current_def Let_def
      by (cases "gr_selected_source_level g") auto
  qed simp
  show ?thesis
    unfolding lvl using authority
    by (intro conjI) (simp_all add: e seq successor_args_def opt_or_def)
qed

theorem correction_keeps_authority_witness:
  "\<exists>st. record_one stamp_hasher ''later'' sample_store sample_withdrawal = Inr (st, sample_correction) \<and>
     gr_correction_sequence sample_correction = gr_correction_sequence sample_grade + 1 \<and>
     gr_predecessor_grade_id sample_correction = Some (gr_grade_id sample_grade)"
proof -
  obtain st where st:
    "record_one stamp_hasher ''later'' sample_store sample_withdrawal = Inr (st, sample_correction)"
    by (rule sample_corrected)
  have r: "reachable_store stamp_hasher sample_store"
    using reachable_store.opened sample_constructed(1) sample_plain(1) sample_recorded by (rule reachable_record_one)
  have "record_step stamp_hasher ''now'' empty_store sample_grade = Inr (sample_store, sample_grade)"
    using sample_recorded by (simp add: record_one_step)
  then obtain row where "stored_grade_row sample_store (grading_key sample_grade) = Some row"
    "stored_grade_from_row stamp_hasher sample_store row (Some (grading_key sample_grade)) = Inr sample_grade"
    using store_inv_empty sample_plain(1) sample_storable sample_fresh by (rule record_step_current)
  then have "current_grade stamp_hasher sample_store (gr_fixture_id sample_withdrawal)
      (preference_id (gr_preference sample_withdrawal)) (gr_matchweek_id sample_withdrawal)
      (gr_recommendation_id sample_withdrawal) = Inr (Some sample_grade)"
    unfolding current_grade_key by (simp add: grading_key_def)
  from correction_keeps_authority [OF r sample_plain(2) sample_constructed(2) this st] sample_ids_differ st
  show ?thesis by auto
qed

end
