(* ===== verification/Json_Reader.thy ===== *)
theory Json_Reader
  imports Store_Columns "HOL-Library.AList"
begin

text \<open>
  \<open>json.loads\<close> of Python as far as the sources use it: the readers the scanner of the standard
  library is made of (strings with their escapes, numbers, arrays, objects in which a repeated key
  keeps its last value), each returning what it read and the rest of the text. Every call spends one
  unit of fuel; a call chain spends at most two per character, so the fuel \<open>json_loads\<close> starts with
  is never exhausted. A \<open>float\<close> is kept as it is written. An escape of a code point from 256 up is
  outside the strings of this library and is refused.

  What \<open>json_text\<close> writes is read back, with the keys of every object in order.
\<close>

section \<open>Readers\<close>

definition json_ws :: "char \<Rightarrow> bool" where
  "json_ws c \<longleftrightarrow> code c \<in> {32, 9, 10, 13}"

definition skip_ws :: "string \<Rightarrow> string" where
  "skip_ws s = dropWhile json_ws s"

definition hex_val :: "char \<Rightarrow> nat option" where
  "hex_val c =
     (let n = code c in
      if is_digit c then Some (n - 48)
      else if 97 \<le> n \<and> n \<le> 102 then Some (n - 87)
      else if 65 \<le> n \<and> n \<le> 70 then Some (n - 55) else None)"

definition hex4 :: "string \<Rightarrow> char option" where
  "hex4 s =
     (case map hex_val s of
        [Some a, Some b, Some c, Some d] \<Rightarrow>
          (let n = ((a * 16 + b) * 16 + c) * 16 + d in if n < 256 then Some (char_of n) else None)
      | _ \<Rightarrow> None)"

definition short_escape :: "char \<Rightarrow> char option" where
  "short_escape c =
     (if code c = 34 \<or> code c = 92 \<or> code c = 47 then Some c
      else if c = CHR ''b'' then Some (CHR 0x08) else if c = CHR ''f'' then Some (CHR 0x0C)
      else if c = CHR ''n'' then Some (CHR 0x0A) else if c = CHR ''r'' then Some (CHR 0x0D)
      else if c = CHR ''t'' then Some (CHR 0x09) else None)"

text \<open>The text after an opening quote, up to the closing one.\<close>

function read_chars :: "string \<Rightarrow> (string \<times> string) option" where
  "read_chars s =
     (case s of [] \<Rightarrow> None
      | c # r \<Rightarrow>
          if code c = 34 then Some ([], r)
          else if code c < 32 then None
          else if code c \<noteq> 92 then map_option (\<lambda>(t, q). (c # t, q)) (read_chars r)
          else if r = [] then None
          else if hd r = CHR ''u'' then
            (case hex4 (take 4 (tl r)) of None \<Rightarrow> None
             | Some d \<Rightarrow> map_option (\<lambda>(t, q). (d # t, q)) (read_chars (drop 4 (tl r))))
          else (case short_escape (hd r) of None \<Rightarrow> None
             | Some d \<Rightarrow> map_option (\<lambda>(t, q). (d # t, q)) (read_chars (tl r))))"
  by pat_completeness auto
termination
  by (relation "measure length") auto

declare read_chars.simps [simp del]

definition read_fraction :: "string \<Rightarrow> string" where
  "read_fraction s =
     (if s \<noteq> [] \<and> hd s = CHR ''.'' then
        (let ds = takeWhile is_digit (tl s) in if ds = [] then [] else CHR ''.'' # ds)
      else [])"

definition read_exponent :: "string \<Rightarrow> string" where
  "read_exponent s =
     (if s \<noteq> [] \<and> hd s \<in> {CHR ''e'', CHR ''E''} then
        (let t = tl s; g = (if t \<noteq> [] \<and> hd t \<in> {CHR ''+'', CHR ''-''} then [hd t] else []);
             ds = takeWhile is_digit (drop (length g) t)
         in if ds = [] then [] else hd s # g @ ds)
      else [])"

definition read_number :: "string \<Rightarrow> (pyval \<times> string) option" where
  "read_number s =
     (let g = (if s \<noteq> [] \<and> hd s = CHR ''-'' then [CHR ''-''] else []);
          ds = takeWhile is_digit (drop (length g) s);
          whole = (if ds \<noteq> [] \<and> hd ds = CHR ''0'' then [CHR ''0''] else ds);
          r = drop (length (g @ whole)) s;
          f = read_fraction r;
          e = read_exponent (drop (length f) r);
          q = drop (length (f @ e)) r
      in if whole = [] then None
         else if f = [] \<and> e = [] then
           Some (PInt (if g = [] then int (num_of whole) else - int (num_of whole)), q)
         else Some (PFloat (g @ whole @ f @ e), q))"

definition keyword :: "string \<Rightarrow> pyval \<Rightarrow> string \<Rightarrow> (pyval \<times> string) option \<Rightarrow> (pyval \<times> string) option" where
  "keyword w v s other = (if take (length w) s = w then Some (v, drop (length w) s) else other)"

definition read_atom :: "string \<Rightarrow> (pyval \<times> string) option" where
  "read_atom s =
     keyword ''null'' PNone s (keyword ''true'' (PBool True) s (keyword ''false'' (PBool False) s
     (keyword ''NaN'' (PFloat ''nan'') s (keyword ''Infinity'' (PFloat ''inf'') s
     (keyword ''-Infinity'' (PFloat ''-inf'') s (read_number s))))))"

definition at_char :: "char \<Rightarrow> string \<Rightarrow> bool" where
  "at_char c s \<longleftrightarrow> s \<noteq> [] \<and> hd s = c"

text \<open>The dict of the pairs of an object: a repeated key keeps its place and takes the last value.\<close>

definition dict_of_pairs :: "(string \<times> pyval) list \<Rightarrow> pydict" where
  "dict_of_pairs kvs = fold (\<lambda>(k, v). AList.update k v) kvs []"

fun read_value :: "nat \<Rightarrow> string \<Rightarrow> (pyval \<times> string) option"
and read_items :: "nat \<Rightarrow> string \<Rightarrow> (pyval list \<times> string) option"
and read_pairs :: "nat \<Rightarrow> string \<Rightarrow> ((string \<times> pyval) list \<times> string) option" where
  "read_value 0 s = None"
| "read_value (Suc n) s =
     (if at_char (CHR 0x22) s then map_option (\<lambda>(t, q). (PStr t, q)) (read_chars (tl s))
      else if at_char (CHR ''['') s then
        (let r = skip_ws (tl s) in
         if at_char (CHR '']'') r then Some (PList [], tl r)
         else map_option (\<lambda>(vs, q). (PList vs, q)) (read_items n r))
      else if at_char (CHR ''{'') s then
        (let r = skip_ws (tl s) in
         if at_char (CHR ''}'') r then Some (PDict [], tl r)
         else map_option (\<lambda>(kvs, q). (PDict (dict_of_pairs kvs), q)) (read_pairs n r))
      else read_atom s)"
| "read_items 0 s = None"
| "read_items (Suc n) s =
     Option.bind (read_value n s) (\<lambda>(v, r).
       let q = skip_ws r in
       if at_char (CHR '']'') q then Some ([v], tl q)
       else if at_char (CHR '','') q
       then map_option (\<lambda>(vs, t). (v # vs, t)) (read_items n (skip_ws (tl q)))
       else None)"
| "read_pairs 0 s = None"
| "read_pairs (Suc n) s =
     (if at_char (CHR 0x22) s then
        Option.bind (read_chars (tl s)) (\<lambda>(k, r).
          let c = skip_ws r in
          if at_char (CHR '':'') c then
            Option.bind (read_value n (skip_ws (tl c))) (\<lambda>(v, r').
              let q = skip_ws r' in
              if at_char (CHR ''}'') q then Some ([(k, v)], tl q)
              else if at_char (CHR '','') q
              then map_option (\<lambda>(kvs, t). ((k, v) # kvs, t)) (read_pairs n (skip_ws (tl q)))
              else None)
          else None)
      else None)"

text \<open>\<open>json.loads(s)\<close>; \<^const>\<open>None\<close> is the JSONDecodeError.\<close>

definition json_loads :: "string \<Rightarrow> pyval option" where
  "json_loads s =
     (case read_value (2 * length s + 2) (skip_ws s) of
        Some (v, r) \<Rightarrow> if skip_ws r = [] then Some v else None
      | None \<Rightarrow> None)"

section \<open>Reading back what is written\<close>

text \<open>The values whose text is read back: no fractions and floats, no repeated keys.\<close>

fun json_plain :: "pyval \<Rightarrow> bool" where
  "json_plain (PFloat s) = False"
| "json_plain (PFrac r) = False"
| "json_plain (PList xs) = list_all json_plain xs"
| "json_plain (PDict kvs) = (distinct (map fst kvs) \<and> list_all (\<lambda>p. json_plain (snd p)) kvs)"
| "json_plain _ = True"

text \<open>The value with the keys of every object in order.\<close>

fun json_norm :: "pyval \<Rightarrow> pyval" where
  "json_norm (PList xs) = PList (map json_norm xs)"
| "json_norm (PDict kvs) = PDict (sort_key fst (map (\<lambda>p. (fst p, json_norm (snd p))) kvs))"
| "json_norm v = v"

definition value_end :: "string \<Rightarrow> bool" where
  "value_end s \<longleftrightarrow> s = [] \<or> hd s \<in> {CHR '','', CHR '']'', CHR ''}''}"

lemma sort_key_map:
  "(\<And>x. k (f x) = h x) \<Longrightarrow> sort_key k (map f xs) = map f (sort_key h xs)"
proof -
  assume k: "\<And>x. k (f x) = h x"
  have "insort_key k (f x) (map f ys) = map f (insort_key h x ys)" for x ys
    by (induction ys) (simp_all add: k)
  then show ?thesis by (induction xs) simp_all
qed

lemma map_of_sort_key: "distinct (map fst kvs) \<Longrightarrow> map_of (sort_key fst kvs) = map_of kvs"
proof -
  assume d: "distinct (map fst kvs)"
  have "mset (map fst (sort_key fst kvs)) = mset (map fst kvs)" by simp
  then have "distinct (map fst (sort_key fst kvs))"
    using d by (metis mset_eq_imp_distinct_iff)
  with d show ?thesis by (intro map_of_inject_set [THEN iffD2]) simp_all
qed

lemma code_simps [simp]:
  "code (CHR 0x22) = 34" "code (CHR 0x5C) = 92" "code (CHR ''u'') = 117" "code (CHR ''0'') = 48"
  "code (CHR ''b'') = 98" "code (CHR ''f'') = 102" "code (CHR ''n'') = 110" "code (CHR ''r'') = 114"
  "code (CHR ''t'') = 116" "code (CHR ''['') = 91" "code (CHR '']'') = 93" "code (CHR ''{'') = 123"
  "code (CHR ''}'') = 125" "code (CHR '','') = 44" "code (CHR '':'') = 58" "code (CHR 0x08) = 8" "code (CHR 0x09) = 9" "code (CHR 0x0A) = 10"
  "code (CHR 0x0C) = 12" "code (CHR 0x0D) = 13" "code (CHR ''-'') = 45"
  by (simp_all add: code_def)

lemma code_less: "code c < 256"
  unfolding code_def by (rule nat_of_char_less_256)

lemma char_of_code [simp]: "char_of (code c) = c"
  by (simp add: code_def)

lemma hex_val_digit: "d < 16 \<Longrightarrow> hex_val (hex_digit d) = Some d"
  by (auto simp: hex_val_def hex_digit_def is_digit_def Let_def)

lemma hex4_code: "hex4 [CHR ''0'', CHR ''0'', hex_digit (code c div 16), hex_digit (code c mod 16)] = Some c"
proof -
  have "code c div 16 < 16" using code_less [of c] by simp
  moreover have "hex_val (CHR ''0'') = Some 0" by (simp add: hex_val_def is_digit_def)
  moreover have "code c div 16 * 16 + code c mod 16 = code c" by simp
  ultimately show ?thesis using code_less [of c] by (simp add: hex4_def hex_val_digit Let_def)
qed

lemma read_char_text: "read_chars (json_char c @ s) = map_option (\<lambda>(t, q). (c # t, q)) (read_chars s)"
proof -
  consider (esc) "code c = 34 \<or> code c = 92" | (ctl) "code c \<in> {8, 9, 10, 12, 13}"
    | (hex) "code c \<notin> {34, 92, 8, 9, 10, 12, 13}" "code c < 32 \<or> 126 < code c"
    | (plain) "code c \<noteq> 34" "code c \<noteq> 92" "32 \<le> code c" "code c \<le> 126" by fastforce
  then show ?thesis
  proof cases
    case esc
    then have "c \<in> {CHR 0x22, CHR 0x5C}"
      by (auto simp: code_inj [symmetric])
    then show ?thesis
      by (elim insertE emptyE; hypsubst; subst read_chars.simps)
        (simp_all add: json_char_def Let_def short_escape_def)
  next
    case ctl
    then have "c \<in> {CHR 0x08, CHR 0x09, CHR 0x0A, CHR 0x0C, CHR 0x0D}"
      by (auto simp: code_inj [symmetric])
    then show ?thesis
      by (elim insertE emptyE; hypsubst; subst read_chars.simps)
        (simp_all add: json_char_def Let_def short_escape_def)
  next
    case hex
    then have "json_char c @ s =
        CHR 0x5C # CHR ''u'' # [CHR ''0'', CHR ''0'', hex_digit (code c div 16), hex_digit (code c mod 16)] @ s"
      by (auto simp: json_char_def Let_def)
    then show ?thesis using hex4_code [of c] by (subst read_chars.simps) simp
  next
    case plain
    then show ?thesis by (subst read_chars.simps) (simp add: json_char_def Let_def)
  qed
qed

lemma read_chars_text: "read_chars (concat (map json_char s) @ CHR 0x22 # r) = Some (s, r)"
  by (induction s) (simp_all add: read_char_text read_chars.simps [of "CHR 0x22 # r"])

lemma read_string_text: "json_string s @ r = CHR 0x22 # concat (map json_char s) @ CHR 0x22 # r"
  by (simp add: json_string_def)


lemma value_end_not_digit: "value_end r \<Longrightarrow> r = [] \<or> \<not> is_digit (hd r) \<and> hd r \<notin> {CHR ''.'', CHR ''e'', CHR ''E''}"
  by (auto simp: value_end_def is_digit_def)

lemma digit_char_0 [simp]: "digit_char 0 = CHR ''0''"
  by (simp add: digit_char_def flip: code_inj)

lemma nat_text_0 [simp]: "nat_text 0 = ''0''"
  by (simp add: nat_text.simps [of 0])

lemma nat_text_zero: "hd (nat_text n) = CHR ''0'' \<Longrightarrow> nat_text n = ''0''"
proof (induction n rule: nat_text.induct)
  case (1 n)
  have z: "d = 0" if "digit_char d = CHR ''0''" "d < 10" for d
  proof -
    have "digit_val (digit_char d) = 0" using that(1) by (simp add: digit_val_def)
    then show ?thesis using that(2) by simp
  qed
  show ?case
  proof (cases "n < 10")
    case True
    with 1 z [of n] show ?thesis by (simp add: nat_text.simps [of n])
  next
    case False
    then have e: "nat_text n = nat_text (n div 10) @ [digit_char (n mod 10)]" by (simp add: nat_text.simps [of n])
    then have "nat_text (n div 10) = ''0''" using 1 False by simp
    then have "n div 10 = num_of ''0''" using num_of_nat_text [of "n div 10"] by simp
    then show ?thesis using False by (simp add: num_of_def digit_val_def)
  qed
qed

lemma takeWhile_digits: "list_all is_digit ds \<Longrightarrow> r = [] \<or> \<not> is_digit (hd r) \<Longrightarrow> takeWhile is_digit (ds @ r) = ds"
  by (induction ds) (auto simp: takeWhile_eq_Nil_iff)

lemma read_nat_text:
  assumes "value_end r" and g: "g = [] \<or> g = ''-''"
  shows "read_number (g @ nat_text n @ r) = Some (PInt (if g = [] then int n else - int n), r)"
proof -
  have r: "r = [] \<or> \<not> is_digit (hd r)" "read_fraction r = []" "read_exponent r = []"
    using value_end_not_digit [OF assms(1)] by (auto simp: read_fraction_def read_exponent_def)
  have ds: "takeWhile is_digit (nat_text n @ r) = nat_text n"
    using nat_text_digits r(1) by (rule takeWhile_digits)
  have ds0: "takeWhile is_digit (nat_text n) = nat_text n"
    using nat_text_digits by (auto simp: list_all_iff)
  have hd: "hd (nat_text n @ r) \<noteq> CHR ''-''"
    using nat_text_digits [of n] is_digit_not_minus by (cases "nat_text n") auto
  have n: "num_of (nat_text n) = n" by (rule num_of_nat_text)
  consider (zero) "nat_text n = ''0''" | (other) "hd (nat_text n) \<noteq> CHR ''0''"
    using nat_text_zero by blast
  then show ?thesis
  proof cases
    case zero
    show ?thesis using g r ds n unfolding zero by (elim disjE) (simp_all add: read_number_def Let_def)
  next
    case other
    then show ?thesis using g hd r by (elim disjE) (simp_all add: read_number_def Let_def ds ds0 n)
  qed
qed

lemma read_int_text: "value_end r \<Longrightarrow> read_number (int_text i @ r) = Some (PInt i, r)"
  using read_nat_text [of r "[]" "nat i"] read_nat_text [of r "''-''" "nat (- i)"]
  by (simp add: int_text_def)

definition int_start :: "string \<Rightarrow> bool" where
  "int_start s \<longleftrightarrow> s \<noteq> [] \<and> (is_digit (hd s) \<or> hd s = CHR ''-'' \<and> tl s \<noteq> [] \<and> is_digit (hd (tl s)))"

lemma int_text_start: "int_start (int_text i @ r)"
  using nat_text_digits [of "nat i"] nat_text_digits [of "nat (- i)"]
  by (cases "nat_text (nat i)"; cases "nat_text (nat (- i))") (auto simp: int_start_def int_text_def)

lemma keyword_other: "hd s \<noteq> c \<Longrightarrow> keyword (c # w) v s m = m"
  by (cases s) (simp_all add: keyword_def)

lemma keyword_other2: "hd (tl s) \<noteq> c \<Longrightarrow> keyword (b # c # w) v s m = m"
  by (cases s; cases "tl s") (simp_all add: keyword_def)

lemma read_atom_int: "int_start s \<Longrightarrow> read_atom s = read_number s"
proof -
  have no: "c \<notin> {CHR ''n'', CHR ''t'', CHR ''f'', CHR ''N'', CHR ''I'', CHR ''-''}" if "is_digit c" for c
    using that by (auto simp: is_digit_def code_def)
  assume "int_start s"
  then show ?thesis
    using no [of "hd s"] no [of "hd (tl s)"] is_digit_not_minus
    by (auto simp: int_start_def read_atom_def keyword_other keyword_other2)
qed

definition value_start :: "char \<Rightarrow> bool" where
  "value_start c \<longleftrightarrow> \<not> json_ws c \<and> c \<notin> {CHR '']'', CHR ''}'', CHR '','', CHR '':''}"

lemma int_start_value: "int_start s \<Longrightarrow> value_start (hd s) \<and> hd s \<notin> {CHR 0x22, CHR ''['', CHR ''{''}"
  by (auto simp: int_start_def value_start_def json_ws_def is_digit_def)

lemma json_text_start: "json_plain v \<Longrightarrow> json_text v \<noteq> [] \<and> value_start (hd (json_text v))"
proof (cases v)
  case (PInt i)
  then show ?thesis using int_start_value [OF int_text_start [of i "[]"]] int_text_start [of i "[]"]
    by (simp add: int_start_def)
qed (auto simp: value_start_def json_ws_def json_string_def code_def)

lemma skip_value: "json_plain v \<Longrightarrow> skip_ws (json_text v @ r) = json_text v @ r"
  using json_text_start [of v] by (cases "json_text v") (auto simp: skip_ws_def value_start_def)

lemma skip_punct [simp]:
  "skip_ws (CHR '','' # s) = CHR '','' # s" "skip_ws (CHR '']'' # s) = CHR '']'' # s"
  "skip_ws (CHR ''}'' # s) = CHR ''}'' # s" "skip_ws (CHR '':'' # s) = CHR '':'' # s"
  "skip_ws (CHR 0x22 # s) = CHR 0x22 # s" "skip_ws [] = []"
  by (simp_all add: skip_ws_def json_ws_def)

lemma at_char_simps [simp]: "at_char c (d # s) \<longleftrightarrow> d = c" "\<not> at_char c []"
  by (auto simp: at_char_def)

lemma value_end_simps [simp]: "value_end []" "value_end (CHR '','' # s)" "value_end (CHR '']'' # s)" "value_end (CHR ''}'' # s)"
  by (simp_all add: value_end_def)

text \<open>What is to be shown of a value.\<close>

definition reads_back :: "pyval \<Rightarrow> bool" where
  "reads_back v \<longleftrightarrow> (\<forall>n r. value_end r \<longrightarrow> 2 * length (json_text v) \<le> n \<longrightarrow>
     read_value n (json_text v @ r) = Some (json_norm v, r))"

lemma read_items_text:
  assumes "vs \<noteq> []" "\<And>v. v \<in> set vs \<Longrightarrow> json_plain v \<and> reads_back v"
    and "2 * length (join '','' (map json_text vs)) + 1 \<le> n"
  shows "read_items n (join '','' (map json_text vs) @ CHR '']'' # r) = Some (map json_norm vs, r)"
  using assms
proof (induction vs arbitrary: n)
  case Nil
  then show ?case by simp
next
  case (Cons v vs)
  obtain m where n: "n = Suc m" using Cons.prems(3) by (cases n) simp_all
  have v: "read_value m (json_text v @ s) = Some (json_norm v, s)" if "value_end s" for s
    using that Cons.prems(2) [of v] Cons.prems(3) n by (auto simp: reads_back_def join_Cons)
  show ?case
  proof (cases "vs = []")
    case True
    then show ?thesis using v [of "CHR '']'' # r"] by (simp add: n Let_def)
  next
    case False
    then have "read_items m (join '','' (map json_text vs) @ CHR '']'' # r) = Some (map json_norm vs, r)"
      using Cons.prems n by (intro Cons.IH) (auto simp: join_Cons)
    moreover have "skip_ws (join '','' (map json_text vs) @ CHR '']'' # r) = join '','' (map json_text vs) @ CHR '']'' # r"
      using False Cons.prems(2) by (cases vs) (simp_all add: join_Cons skip_value)
    ultimately show ?thesis
      using False v [of "CHR '','' # join '','' (map json_text vs) @ CHR '']'' # r"]
      by (simp add: n Let_def join_Cons)
  qed
qed

definition pair_text :: "string \<times> pyval \<Rightarrow> string" where
  "pair_text p = json_string (fst p) @ '':'' @ json_text (snd p)"

lemma pair_text_eq: "pair_text (k, v) = CHR 0x22 # concat (map json_char k) @ CHR 0x22 # CHR '':'' # json_text v"
  by (simp add: pair_text_def json_string_def)

lemma pair_text_read:
  "at_char (CHR 0x22) (pair_text p @ s)" "skip_ws (pair_text p @ s) = pair_text p @ s"
  "read_chars (tl (pair_text p @ s)) = Some (fst p, CHR '':'' # json_text (snd p) @ s)"
  by (cases p; simp add: pair_text_eq read_chars_text)+

lemma read_pairs_text:
  assumes "kvs \<noteq> []" "\<And>p. p \<in> set kvs \<Longrightarrow> json_plain (snd p) \<and> reads_back (snd p)"
    and "2 * length (join '','' (map pair_text kvs)) + 1 \<le> n"
  shows "read_pairs n (join '','' (map pair_text kvs) @ CHR ''}'' # r) = Some (map (\<lambda>p. (fst p, json_norm (snd p))) kvs, r)"
  using assms
proof (induction kvs arbitrary: n)
  case Nil
  then show ?case by simp
next
  case (Cons p kvs)
  obtain m where n: "n = Suc m" using Cons.prems(3) by (cases n) simp_all
  obtain k v where p: "p = (k, v)" by (cases p)
  have v: "read_value m (json_text v @ s) = Some (json_norm v, s)" if "value_end s" for s
    using that Cons.prems(2) [of p] Cons.prems(3) n p by (auto simp: reads_back_def join_Cons pair_text_eq)
  have skip: "skip_ws (json_text v @ s) = json_text v @ s" for s
    using Cons.prems(2) [of p] p by (simp add: skip_value)
  show ?case
  proof (cases "kvs = []")
    case True
    then show ?thesis using v [of "CHR ''}'' # r"]
      by (simp add: n p Let_def pair_text_read skip)
  next
    case False
    then have "read_pairs m (join '','' (map pair_text kvs) @ CHR ''}'' # r) = Some (map (\<lambda>p. (fst p, json_norm (snd p))) kvs, r)"
      using Cons.prems n by (intro Cons.IH) (auto simp: join_Cons)
    moreover have "skip_ws (join '','' (map pair_text kvs) @ CHR ''}'' # r) = join '','' (map pair_text kvs) @ CHR ''}'' # r"
      using False by (cases kvs) (simp_all add: join_Cons pair_text_read)
    ultimately show ?thesis
      using False v [of "CHR '','' # join '','' (map pair_text kvs) @ CHR ''}'' # r"]
      by (simp add: n p Let_def join_Cons pair_text_read skip)
  qed
qed

lemma json_text_pairs:
  "json_text (PDict kvs) = ''{'' @ join '','' (map pair_text (sort_key fst kvs)) @ ''}''"
proof -
  have "map (\<lambda>(k, v). (k, json_text v)) kvs = map (\<lambda>p. (fst p, json_text (snd p))) kvs"
    by (rule map_cong) auto
  then show ?thesis
    by (simp add: sort_key_map [where h = fst] comp_def pair_text_def [abs_def] split_beta)
qed

lemma dict_of_pairs_distinct: "distinct (map fst kvs) \<Longrightarrow> dict_of_pairs kvs = kvs"
proof -
  have up: "AList.update k v xs = xs @ [(k, v)]" if "k \<notin> fst ` set xs" for k v and xs :: pydict
    using that by (induction xs) auto
  have "fold (\<lambda>(k, v). AList.update k v) kvs acc = acc @ kvs" if "distinct (map fst (acc @ kvs))" for acc
    using that
  proof (induction kvs arbitrary: acc)
    case (Cons p kvs)
    then show ?case using Cons.IH [of "acc @ [p]"] by (cases p) (simp add: up)
  qed simp
  from this [of "[]"] show "distinct (map fst kvs) \<Longrightarrow> dict_of_pairs kvs = kvs"
    by (simp add: dict_of_pairs_def)
qed


lemma json_text_length: "json_plain v \<Longrightarrow> 0 < length (json_text v)"
  using json_text_start [of v] by simp

lemma read_value_keyword:
  "read_value (Suc n) (''null'' @ r) = Some (PNone, r)"
  "read_value (Suc n) (''true'' @ r) = Some (PBool True, r)"
  "read_value (Suc n) (''false'' @ r) = Some (PBool False, r)"
  by (simp_all add: read_atom_def keyword_def)

lemma reads_backI:
  assumes "json_plain v"
    and "\<And>n r. value_end r \<Longrightarrow> read_value (Suc n) (json_text v @ r) = Some (json_norm v, r)"
  shows "reads_back v"
  unfolding reads_back_def
proof (intro allI impI)
  fix n r
  assume *: "value_end r" "2 * length (json_text v) \<le> n"
  then obtain m where "n = Suc m" using json_text_length [OF assms(1)] by (cases n) simp_all
  with * assms(2) show "read_value n (json_text v @ r) = Some (json_norm v, r)" by simp
qed

lemma json_reads_back: "json_plain v \<Longrightarrow> reads_back v"
proof (induction v)
  case (PInt i)
  have "read_value (Suc n) (int_text i @ r) = Some (PInt i, r)" if "value_end r" for n r
    using int_text_start [of i r] int_start_value [of "int_text i @ r"] read_int_text [OF that]
    by (auto simp: at_char_def read_atom_int)
  then show ?case
    by (intro reads_backI) simp_all
next
  case (PList vs)
  have IH: "json_plain v \<and> reads_back v" if "v \<in> set vs" for v
    using that PList by (auto simp: list_all_iff)
  have "read_value n (json_text (PList vs) @ r) = Some (json_norm (PList vs), r)"
    if n: "2 * length (json_text (PList vs)) \<le> n" for n r
  proof (cases "vs = []")
    case True
    with n show ?thesis by (cases n) simp_all
  next
    case False
    then obtain v ws where vs: "vs = v # ws" by (cases vs) auto
    let ?t = "join '','' (map json_text vs) @ CHR '']'' # r"
    have s: "skip_ws ?t = ?t" "\<not> at_char (CHR '']'') ?t"
      using IH [of v] json_text_start [of v] vs by (auto simp: join_Cons skip_value at_char_def value_start_def)
    obtain m where m: "n = Suc m" "2 * length (join '','' (map json_text vs)) + 1 \<le> m"
      using n by (cases n) simp_all
    have "read_items m ?t = Some (map json_norm vs, r)"
      using False IH m(2) by (rule read_items_text)
    then show ?thesis using s by (simp add: m(1) Let_def)
  qed
  then show ?case by (simp add: reads_back_def)
next
  case (PDict kvs)
  let ?kvs = "sort_key fst kvs"
  have d: "distinct (map fst kvs)" and IH: "\<And>p. p \<in> set ?kvs \<Longrightarrow> json_plain (snd p) \<and> reads_back (snd p)"
    using PDict by (auto simp: list_all_iff)
  have ds: "distinct (map fst ?kvs)"
    using d by (metis mset_eq_imp_distinct_iff mset_map mset_sort)
  have "read_value n (json_text (PDict kvs) @ r) = Some (json_norm (PDict kvs), r)"
    if n: "2 * length (json_text (PDict kvs)) \<le> n" for n r
  proof (cases "kvs = []")
    case True
    with n show ?thesis by (cases n) simp_all
  next
    case False
    then have ne: "?kvs \<noteq> []" by (metis length_0_conv length_sort)
    then obtain p ps where ps: "?kvs = p # ps" by (cases ?kvs) auto
    let ?t = "join '','' (map pair_text ?kvs) @ CHR ''}'' # r"
    have s: "skip_ws ?t = ?t" "\<not> at_char (CHR ''}'') ?t"
      unfolding ps using pair_text_read(1) [of p "s" for s]
      by (cases p; simp add: join_Cons pair_text_read pair_text_eq)+
    obtain m where m: "n = Suc m" "2 * length (join '','' (map pair_text ?kvs)) + 1 \<le> m"
      using n unfolding json_text_pairs by (cases n) simp_all
    have "read_pairs m ?t = Some (map (\<lambda>p. (fst p, json_norm (snd p))) ?kvs, r)"
      using ne IH m(2) by (rule read_pairs_text)
    moreover have "dict_of_pairs (map (\<lambda>p. (fst p, json_norm (snd p))) ?kvs) =
        sort_key fst (map (\<lambda>p. (fst p, json_norm (snd p))) kvs)"
      using ds by (subst dict_of_pairs_distinct) (simp_all add: comp_def sort_key_map [where h = fst])
    ultimately show ?thesis
      using s unfolding json_text_pairs by (simp add: m(1) Let_def)
  qed
  then show ?case by (simp add: reads_back_def)
next
  case (PStr s)
  have "read_value (Suc n) (json_text (PStr s) @ r) = Some (PStr s, r)" for n r
    by (simp add: json_string_def read_chars_text)
  then show ?case
    by (intro reads_backI) simp_all
next
  case (PBool b)
  show ?case
    using read_value_keyword(2,3) by (cases b) (intro reads_backI; simp)+
next
  case PNone
  show ?case
    using read_value_keyword(1) by (intro reads_backI) simp_all
qed simp_all

text \<open>\<open>json.loads\<close> reads what \<open>json.dumps\<close> wrote.\<close>

lemma json_loads_text: "json_plain v \<Longrightarrow> json_loads (json_text v) = Some (json_norm v)"
proof -
  assume v: "json_plain v"
  have "read_value (2 * length (json_text v) + 2) (json_text v @ []) = Some (json_norm v, [])"
    using json_reads_back [OF v] unfolding reads_back_def
    by (elim allE [of _ "2 * length (json_text v) + 2"] allE [of _ "[]"]) (simp del: read_value.simps)
  then show ?thesis
    using skip_value [OF v, of "[]"] by (simp add: json_loads_def del: read_value.simps)
qed


section \<open>The fuel is enough\<close>

lemma skip_ws_length: "length (skip_ws s) \<le> length s"
  by (simp add: skip_ws_def length_dropWhile_le)

lemma read_chars_length: "read_chars s = Some (t, r) \<Longrightarrow> length r < length s"
proof (induction s arbitrary: t rule: read_chars.induct)
  case (1 s)
  from 1(4) show ?case
    using 1(1-3) by (subst (asm) read_chars.simps)
      (fastforce split: list.splits if_splits option.splits)
qed

lemma keyword_length: "keyword w v s m = Some (x, r) \<Longrightarrow> w \<noteq> [] \<Longrightarrow> length r < length s \<or> m = Some (x, r)"
  by (cases s) (auto simp: keyword_def split: if_splits)

lemma read_number_length: "read_number s = Some (x, r) \<Longrightarrow> length r < length s"
  by (cases s) (auto simp: read_number_def Let_def split: if_splits)

lemma read_atom_length: "read_atom s = Some (x, r) \<Longrightarrow> length r < length s"
  unfolding read_atom_def by (auto dest!: keyword_length read_number_length)

lemma at_char_tl: "at_char c s \<Longrightarrow> length (tl s) < length s" "at_char c s \<Longrightarrow> length (skip_ws (tl s)) < length s"
  using skip_ws_length [of "tl s"] by (cases s; auto simp: at_char_def)+

lemma read_length:
  "read_value n s = Some (v, r) \<Longrightarrow> length r < length s"
  "read_items n s = Some (vs, r) \<Longrightarrow> length r < length s"
  "read_pairs n s = Some (kvs, r) \<Longrightarrow> length r < length s"
proof (induction n s and n s and n s arbitrary: v r and vs r and kvs r
    rule: read_value_read_items_read_pairs.induct)
  case (2 n s)
  let ?q = "skip_ws (tl s)"
  consider (str) "at_char (CHR 0x22) s" | (arr) "\<not> at_char (CHR 0x22) s" "at_char (CHR ''['') s"
    | (obj) "\<not> at_char (CHR 0x22) s" "\<not> at_char (CHR ''['') s" "at_char (CHR ''{'') s"
    | (atom) "\<not> at_char (CHR 0x22) s" "\<not> at_char (CHR ''['') s" "\<not> at_char (CHR ''{'') s" by blast
  then show ?case
  proof cases
    case str
    then show ?thesis using 2(3) at_char_tl(1) [OF str] by (auto dest!: read_chars_length)
  next
    case arr
    show ?thesis
      using 2(3) arr at_char_tl(1) [of "CHR '']''" ?q] at_char_tl(2) [OF arr(2)]
        2(1) [OF arr refl, of _ r] by (auto simp: Let_def split: if_splits dest: less_trans)
  next
    case obj
    show ?thesis
      using 2(3) obj at_char_tl(1) [of "CHR ''}''" ?q] at_char_tl(2) [OF obj(3)]
        2(2) [OF obj refl, of _ r] by (auto simp: Let_def split: if_splits dest: less_trans)
  next
    case atom
    then show ?thesis using 2(3) by (auto dest!: read_atom_length)
  qed
next
  case (4 n s)
  from 4(3) obtain v' r' where v: "read_value n s = Some (v', r')" by (auto simp: bind_eq_Some_conv)
  let ?q = "skip_ws r'"
  have l: "length r' < length s" using 4(1) [OF v] .
  have q: "length ?q \<le> length r'" by (rule skip_ws_length)
  show ?case
  proof (cases "at_char (CHR '']'') ?q")
    case True
    then show ?thesis using 4(3) l q at_char_tl(1) [OF True] by (simp add: v Let_def)
  next
    case False
    with 4(3) obtain ws where *: "at_char (CHR '','') ?q" "read_items n (skip_ws (tl ?q)) = Some (ws, r)"
      by (auto simp: v Let_def split: if_splits)
    then show ?thesis
      using 4(2) [OF v refl refl False *(1) *(2)] at_char_tl(2) [OF *(1)] l q by simp
  qed
next
  case (6 n s)
  from 6(3) obtain k r' where k: "at_char (CHR 0x22) s" "read_chars (tl s) = Some (k, r')"
    by (auto simp: bind_eq_Some_conv split: if_splits)
  let ?c = "skip_ws r'"
  from 6(3) obtain v' r'' where v: "at_char (CHR '':'') ?c" "read_value n (skip_ws (tl ?c)) = Some (v', r'')"
    by (auto simp: bind_eq_Some_conv k Let_def split: if_splits)
  let ?q = "skip_ws r''"
  have l: "length r'' < length s" "length ?q \<le> length r''"
    using 6(1) [OF k(1) k(2) refl refl v] at_char_tl(2) [OF v(1)] skip_ws_length [of r'] skip_ws_length [of r'']
      at_char_tl(1) [OF k(1)] read_chars_length [OF k(2)] by simp_all
  show ?case
  proof (cases "at_char (CHR ''}'') ?q")
    case True
    then show ?thesis using 6(3) l at_char_tl(1) [OF True] by (simp add: k v Let_def)
  next
    case False
    with 6(3) obtain ws where *: "at_char (CHR '','') ?q" "read_pairs n (skip_ws (tl ?q)) = Some (ws, r)"
      by (auto simp: k v Let_def split: if_splits)
    then show ?thesis
      using 6(2) [OF k refl refl v refl refl False *(1) *(2)] at_char_tl(2) [OF *(1)] l by simp
  qed
qed simp_all

text \<open>With two units per character, more fuel changes nothing.\<close>

lemma read_fuel:
  "2 * length s + 1 \<le> n \<Longrightarrow> n \<le> m \<Longrightarrow> read_value m s = read_value n s"
  "2 * length s + 2 \<le> n \<Longrightarrow> n \<le> m \<Longrightarrow> read_items m s = read_items n s"
  "2 * length s + 2 \<le> n \<Longrightarrow> n \<le> m \<Longrightarrow> read_pairs m s = read_pairs n s"
proof (induction n s and n s and n s arbitrary: m and m and m
    rule: read_value_read_items_read_pairs.induct)
  case (2 n s)
  obtain k where m: "m = Suc k" "n \<le> k" using 2(4) by (cases m) simp_all
  have "read_items k (skip_ws (tl s)) = read_items n (skip_ws (tl s))"
    if "\<not> at_char (CHR 0x22) s" "at_char (CHR ''['') s" "\<not> at_char (CHR '']'') (skip_ws (tl s))"
    using 2(1) [OF that(1,2) refl that(3) _ m(2)] 2(3) at_char_tl(2) [OF that(2)] by simp
  moreover have "read_pairs k (skip_ws (tl s)) = read_pairs n (skip_ws (tl s))"
    if "\<not> at_char (CHR 0x22) s" "\<not> at_char (CHR ''['') s" "at_char (CHR ''{'') s" "\<not> at_char (CHR ''}'') (skip_ws (tl s))"
    using 2(2) [OF that(1-3) refl that(4) _ m(2)] 2(3) at_char_tl(2) [OF that(3)] by simp
  ultimately show ?case unfolding m(1) by (simp add: Let_def)
next
  case (4 n s)
  obtain k where m: "m = Suc k" "n \<le> k" using 4(4) by (cases m) simp_all
  have v: "read_value k s = read_value n s" using 4(1) [OF _ m(2)] 4(3) by simp
  have "read_items k (skip_ws (tl (skip_ws r))) = read_items n (skip_ws (tl (skip_ws r)))"
    if "read_value n s = Some (x, r)" "\<not> at_char (CHR '']'') (skip_ws r)" "at_char (CHR '','') (skip_ws r)" for x r
    using 4(2) [OF that(1) refl refl that(2,3) _ m(2)] 4(3) at_char_tl(2) [OF that(3)]
      skip_ws_length [of r] read_length(1) [OF that(1)] by simp
  then show ?case unfolding m(1) by (auto simp: v Let_def intro!: Option.bind_cong)
next
  case (6 n s)
  obtain k where m: "m = Suc k" "n \<le> k" using 6(4) by (cases m) simp_all
  have v: "read_value k (skip_ws (tl (skip_ws r))) = read_value n (skip_ws (tl (skip_ws r)))"
    if "at_char (CHR 0x22) s" "read_chars (tl s) = Some (y, r)" "at_char (CHR '':'') (skip_ws r)" for y r
    using 6(1) [OF that(1,2) refl refl that(3) _ m(2)] 6(3) at_char_tl(2) [OF that(3)]
      skip_ws_length [of r] read_chars_length [OF that(2)] at_char_tl(1) [OF that(1)] by simp
  have "read_pairs k (skip_ws (tl (skip_ws q))) = read_pairs n (skip_ws (tl (skip_ws q)))"
    if "at_char (CHR 0x22) s" "read_chars (tl s) = Some (y, r)" "at_char (CHR '':'') (skip_ws r)"
      "read_value n (skip_ws (tl (skip_ws r))) = Some (x, q)"
      "\<not> at_char (CHR ''}'') (skip_ws q)" "at_char (CHR '','') (skip_ws q)" for y r x q
    using 6(2) [OF that(1,2) refl refl that(3,4) refl refl that(5,6) _ m(2)] 6(3) at_char_tl(2) [OF that(3)]
      skip_ws_length [of r] read_chars_length [OF that(2)] at_char_tl(1) [OF that(1)]
      read_length(1) [OF that(4)] skip_ws_length [of q] at_char_tl(2) [OF that(6)] by simp
  with v show ?case unfolding m(1) by (auto simp: Let_def intro!: Option.bind_cong)
qed simp_all

lemma json_loads_fuel:
  "2 * length s + 2 \<le> n \<Longrightarrow> read_value n (skip_ws s) = read_value (2 * length s + 2) (skip_ws s)"
  using skip_ws_length [of s] by (intro read_fuel(1)) simp_all

end
