(* ===== verification/Matchweek_Window.thy ===== *)
theory Matchweek_Window
  imports Json_Reader
begin

text \<open>
  The errors, timestamps, identifiers and digests of \<open>matchweek.py\<close>, the calendar window of a
  Matchweek and its Research Cutoff. A timestamp is the text the source keeps; \<open>instant_at\<close> is the
  instant a canonical text denotes, in microseconds. Africa/Lagos is UTC+1 (as it has been since
  September 1919, and as the fallback of the source has it). The Friday 9999-12-31, whose window ends
  after the last day of the calendar, is the one window whose end the source cannot compute.
\<close>

section \<open>Errors\<close>

datatype mw_error =
    MatchweekError string string
  | MwValueError string
  | MwPermissionError string
  | MwOverflowError
  | MwIntegrityError
  | MwStoreError string

fun mw_time_error :: "time_error \<Rightarrow> mw_error" where
  "mw_time_error MalformedIso =
     MwValueError ''Timestamp must be an ISO-8601 value with a timezone offset.''"
| "mw_time_error MissingOffset = MwValueError ''Timestamp must include a timezone offset.''"
| "mw_time_error CalendarOverflow = MwOverflowError"

section \<open>Identifiers and digests\<close>

text \<open>\<open>hashlib.sha256(...).hexdigest()\<close> and \<open>uuid5\<close> in the namespace of the T06 identities.\<close>

record mw_hasher =
  sha_text :: "string \<Rightarrow> string"
  uuid5_source :: "string \<Rightarrow> string"

definition mw_digest :: "mw_hasher \<Rightarrow> pyval \<Rightarrow> string" where
  "mw_digest H v = sha_text H (json_text v)"

definition deterministic_identifier :: "mw_hasher \<Rightarrow> string \<Rightarrow> string \<Rightarrow> string" where
  "deterministic_identifier H kind key = uuid5_source H (kind @ '':'' @ key)"

section \<open>Timestamps\<close>

datatype time_arg = TimeText string | TimeValue dt

text \<open>\<open>_canonical_utc\<close> and \<open>_parse_utc\<close>\<close>

definition mw_canonical_utc :: "time_arg \<Rightarrow> (mw_error, string) res" where
  "mw_canonical_utc t =
     (case t of
        TimeText s \<Rightarrow> (case canonical_text True s of Inl e \<Rightarrow> Inl (mw_time_error e) | Inr u \<Rightarrow> Inr u)
      | TimeValue d \<Rightarrow>
          if dt_off d = None then Inl (mw_time_error MissingOffset)
          else (case astimezone_utc d of
                  None \<Rightarrow> Inl (mw_time_error CalendarOverflow)
                | Some e \<Rightarrow> Inr (utc_text True e)))"

definition mw_parse_utc :: "string \<Rightarrow> (mw_error, int) res" where
  "mw_parse_utc s = (case text_instant s of Inl e \<Rightarrow> Inl (mw_time_error e) | Inr i \<Rightarrow> Inr i)"

definition canonical_stamp :: "string \<Rightarrow> bool" where
  "canonical_stamp s \<longleftrightarrow> mw_canonical_utc (TimeText s) = Inr s"

definition instant_at :: "string \<Rightarrow> int" where
  "instant_at s = (case mw_parse_utc s of Inl _ \<Rightarrow> 0 | Inr i \<Rightarrow> i)"

text \<open>\<open>isoformat(timespec="microseconds")\<close> and \<open>isoformat()\<close> of the UTC datetime at an instant.\<close>

definition iso_text :: "int \<Rightarrow> string" where
  "iso_text i = utc_text True (dt_of_us i (Some 0))"

definition iso_short :: "int \<Rightarrow> string" where
  "iso_short i = utc_text False (dt_of_us i (Some 0))"

lemma canonical_stampE:
  assumes "canonical_stamp s"
  obtains e where "valid_dt e" "dt_off e = Some 0" "s = utc_text True e" "instant_at s = instant e"
    "mw_parse_utc s = Inr (instant e)"
proof -
  have "canonical_text True s = Inr s"
    using assms by (auto simp: canonical_stamp_def mw_canonical_utc_def split: sum.splits)
  then obtain e where "valid_dt e" "dt_off e = Some 0" "s = utc_text True e" "text_instant s = Inr (instant e)"
    by (rule canonical_text_Inr)
  then show ?thesis by (intro that) (simp_all add: instant_at_def mw_parse_utc_def)
qed

lemma canonical_utc_stamp: "mw_canonical_utc (TimeText s) = Inr t \<Longrightarrow> canonical_stamp t \<and> instant_at t = instant_at s"
  using canonical_text_idem canonical_text_instant
  by (auto simp: canonical_stamp_def mw_canonical_utc_def instant_at_def mw_parse_utc_def split: sum.splits)

lemma stamp_parse: "canonical_stamp s \<Longrightarrow> mw_parse_utc s = Inr (instant_at s)"
  by (elim canonical_stampE) simp

lemma dt_of_us_instant: "valid_dt e \<Longrightarrow> dt_off e = Some 0 \<Longrightarrow> dt_of_us (instant e) (Some 0) = e"
  using dt_of_us_local_us [of e] by (simp add: instant_def)

lemma iso_text_instant_at: "canonical_stamp s \<Longrightarrow> iso_text (instant_at s) = s"
  by (elim canonical_stampE) (simp add: iso_text_def dt_of_us_instant)

lemma stamp_eq_iff: "canonical_stamp s \<Longrightarrow> canonical_stamp t \<Longrightarrow> instant_at s = instant_at t \<longleftrightarrow> s = t"
  by (metis iso_text_instant_at)

lemma iso_text_stamp: "us_in_range i \<Longrightarrow> canonical_stamp (iso_text i) \<and> instant_at (iso_text i) = i"
proof -
  assume "us_in_range i"
  then have v: "valid_dt (dt_of_us i (Some 0))" "local_us (dt_of_us i (Some 0)) = i"
    using dt_of_us_props [of i "Some 0"] by (simp_all add: us_in_range_def)
  then show ?thesis
    by (simp add: iso_text_def canonical_stamp_def mw_canonical_utc_def canonical_text_utc_text instant_at_def
        mw_parse_utc_def text_instant_utc_text instant_def)
qed

section \<open>Dates\<close>

text \<open>
  A Friday argument: a \<open>date\<close> by its ordinal, a \<open>datetime\<close>, or text. \<open>date.fromisoformat\<close> reads
  the calendar forms and the ISO week forms (\<open>2026-W47-5\<close>, \<open>2026W475\<close>, \<open>2026-W47\<close>, \<open>2026W47\<close>).
\<close>

datatype day_arg = DayDate nat | DayTime dt | DayText string

definition iso_week_start :: "nat \<Rightarrow> nat" where
  "iso_week_start y =
     (let first = date_ord y 1 1; wd = weekday first
      in if 3 < wd then first + 7 - wd else first - wd)"

definition iso_week_date :: "nat \<Rightarrow> nat \<Rightarrow> nat \<Rightarrow> nat option" where
  "iso_week_date y w d =
     (let wd = weekday (date_ord y 1 1); n = iso_week_start y + (w - 1) * 7 + (d - 1) in
      if 1 \<le> y \<and> 1 \<le> w \<and> (w \<le> 52 \<or> w = 53 \<and> (wd = 3 \<or> wd = 2 \<and> is_leap y)) \<and> 1 \<le> d \<and> d \<le> 7 \<and>
         1 \<le> n \<and> n \<le> max_ord
      then Some n else None)"

definition parse_week_date :: "string \<Rightarrow> nat option" where
  "parse_week_date s =
     (let sep = (4 < length s \<and> s ! 4 = CHR ''-'');
          t = drop (if sep then 5 else 4) s;
          week = take 2 (tl t); rest = drop 2 (tl t);
          day = (if sep then drop 1 rest else rest) in
      if all_digits (take 4 s) \<and> t \<noteq> [] \<and> hd t = CHR ''W'' \<and> length week = 2 \<and> all_digits week \<and>
         (rest = [] \<or> (sep \<longrightarrow> hd rest = CHR ''-'') \<and> length day = 1 \<and> all_digits day)
      then iso_week_date (num_of (take 4 s)) (num_of week) (if rest = [] then 1 else num_of day)
      else None)"

definition date_fromisoformat :: "string \<Rightarrow> nat option" where
  "date_fromisoformat s =
     (case parse_date s of
        Some (y, m, d) \<Rightarrow> if valid_date y m d then Some (date_ord y m d) else None
      | None \<Rightarrow> if length s \<in> {7, 8, 10} then parse_week_date s else None)"

definition lagos_us :: int where "lagos_us = 3600000000"

text \<open>\<open>_date_value\<close>\<close>

definition date_value :: "day_arg \<Rightarrow> (mw_error, nat) res" where
  "date_value v =
     (case v of
        DayDate n \<Rightarrow> Inr n
      | DayTime d \<Rightarrow>
          if dt_off d = None then Inr (date_ord (dt_year d) (dt_month d) (dt_day d))
          else if us_in_range (instant d) \<and> us_in_range (instant d + lagos_us)
          then Inr (nat ((instant d + lagos_us) div day_us))
          else Inl MwOverflowError
      | DayText s \<Rightarrow>
          (case date_fromisoformat s of
             None \<Rightarrow> Inl (MwValueError ''Matchweek Friday must use YYYY-MM-DD.'')
           | Some n \<Rightarrow> Inr n))"

definition iso_date :: "nat \<Rightarrow> string" where
  "iso_date n = (let (y, m, d) = ord_date n in date_text y m d)"

section \<open>MatchweekWindow\<close>

record mw_window =
  friday_local :: nat

definition window_init :: "nat \<Rightarrow> (mw_error, mw_window) res" where
  "window_init n =
     bindR (guardR (weekday n = 4) (MwValueError ''Matchweek boundaries must start on Friday.'')) (\<lambda>_.
     Inr \<lparr>friday_local = n\<rparr>)"

definition window_for_friday :: "day_arg \<Rightarrow> (mw_error, mw_window) res" where
  "window_for_friday v = bindR (date_value v) window_init"

definition window_start :: "mw_window \<Rightarrow> int" where
  "window_start w = int (friday_local w) * day_us - lagos_us"

definition window_end :: "mw_window \<Rightarrow> int" where
  "window_end w = window_start w + 4 * day_us"

definition window_start_utc :: "mw_window \<Rightarrow> string" where
  "window_start_utc w = iso_text (window_start w)"

definition window_end_utc :: "mw_window \<Rightarrow> string" where
  "window_end_utc w = iso_text (window_end w)"

definition window_contains :: "mw_window \<Rightarrow> string \<Rightarrow> bool" where
  "window_contains w s \<longleftrightarrow> window_start w \<le> instant_at s \<and> instant_at s < window_end w"

section \<open>MatchweekResearchCutoff\<close>

definition lead_time_us :: int where "lead_time_us = 6 * 3600000000"

definition lead_time_seconds :: int where "lead_time_seconds = 21600"

record mw_cutoff =
  co_id :: string
  co_matchweek_id :: string
  co_utc :: string
  co_earliest_fixture_id :: string
  co_earliest_kickoff_utc :: string
  co_lead_time_seconds :: int
  co_digest :: string

definition cutoff_payload :: "mw_cutoff \<Rightarrow> pyval" where
  "cutoff_payload c = PDict
     [(''cutoff_id'', PStr (co_id c)), (''cutoff_utc'', PStr (co_utc c)),
      (''earliest_included_fixture_id'', PStr (co_earliest_fixture_id c)),
      (''earliest_included_kickoff_utc'', PStr (co_earliest_kickoff_utc c)),
      (''lead_time_seconds'', PInt (co_lead_time_seconds c)),
      (''matchweek_id'', PStr (co_matchweek_id c))]"

definition cutoff_init :: "mw_hasher \<Rightarrow> mw_cutoff \<Rightarrow> (mw_error, mw_cutoff) res" where
  "cutoff_init H c =
     bindR (mw_canonical_utc (TimeText (co_utc c))) (\<lambda>cutoff.
     bindR (mw_canonical_utc (TimeText (co_earliest_kickoff_utc c))) (\<lambda>kickoff.
     bindR (guardR (cutoff = co_utc c \<and> kickoff = co_earliest_kickoff_utc c)
       (MwValueError ''Research Cutoff timestamps must be canonical UTC values.'')) (\<lambda>_.
     bindR (guardR (co_lead_time_seconds c = lead_time_seconds)
       (MwValueError ''The T05 Matchweek Research Cutoff lead time is six hours.'')) (\<lambda>_.
     let expected = mw_digest H (cutoff_payload c) in
     bindR (guardR (co_digest c = [] \<or> co_digest c = expected)
       (MwValueError ''Research Cutoff digest does not match its immutable fields.'')) (\<lambda>_.
     Inr (c\<lparr>co_digest := expected\<rparr>))))))"

end
