(* ===== verification/Matchweek_Membership.thy ===== *)
theory Matchweek_Membership
  imports Matchweek_Window
begin

text \<open>
  The immutable records of a frozen Matchweek in \<open>matchweek.py\<close>: \<open>FrozenMembership\<close>,
  \<open>PostCutoffValidityReview\<close>, \<open>PostCutoffFixtureAppendixEntry\<close> and \<open>MembershipManifest\<close>, with the
  checks of their constructors, their dictionary forms and the bytes of the manifest. A constructor
  takes the record as the caller fills it in and returns it with its digest.
\<close>

section \<open>Reading fields\<close>

definition field_error :: "string \<Rightarrow> mw_error" where
  "field_error k = MatchweekError ''MV-T05-MANIFEST_MALFORMED'' (''Manifest field '' @ k @ '' is invalid.'')"

definition mw_string :: "pydict \<Rightarrow> string \<Rightarrow> (mw_error, string) res" where
  "mw_string m k = (case dict_get m k of PStr s \<Rightarrow> Inr s | _ \<Rightarrow> Inl (field_error k))"

definition mw_optional_string :: "pydict \<Rightarrow> string \<Rightarrow> (mw_error, string option) res" where
  "mw_optional_string m k =
     (case dict_get m k of PNone \<Rightarrow> Inr None | PStr s \<Rightarrow> Inr (Some s) | _ \<Rightarrow> Inl (field_error k))"

definition mw_bool :: "pydict \<Rightarrow> string \<Rightarrow> (mw_error, bool) res" where
  "mw_bool m k = (case dict_get m k of PBool b \<Rightarrow> Inr b | _ \<Rightarrow> Inl (field_error k))"

definition mw_int :: "pydict \<Rightarrow> string \<Rightarrow> (mw_error, int) res" where
  "mw_int m k = (case dict_get m k of PInt i \<Rightarrow> Inr i | _ \<Rightarrow> Inl (field_error k))"

text \<open>A list all of whose items are strings.\<close>

fun strings_of :: "pyval list \<Rightarrow> string list option" where
  "strings_of [] = Some []"
| "strings_of (PStr s # vs) = map_option ((#) s) (strings_of vs)"
| "strings_of _ = None"

section \<open>FrozenMembership\<close>

datatype membership_state = INCLUDED | EXCLUDED | INDETERMINATE

fun membership_text :: "membership_state \<Rightarrow> string" where
  "membership_text INCLUDED = ''INCLUDED''"
| "membership_text EXCLUDED = ''EXCLUDED''"
| "membership_text INDETERMINATE = ''INDETERMINATE''"

definition membership_state_of :: "string \<Rightarrow> (mw_error, membership_state) res" where
  "membership_state_of s =
     (case find (\<lambda>m. membership_text m = s) [INCLUDED, EXCLUDED, INDETERMINATE] of
        Some m \<Rightarrow> Inr m
      | None \<Rightarrow> Inl (MwValueError (repr_text s @ '' is not a valid MembershipState'')))"

record frozen_membership =
  fm_id :: string
  fm_matchweek_id :: string
  fm_subject_kind :: string
  fm_subject_id :: string
  fm_state :: membership_state
  fm_target :: bool
  fm_revision_id :: "string option"
  fm_revision_digest :: "string option"
  fm_authority_rank :: int
  fm_authority :: string
  fm_kickoff_utc :: "string option"
  fm_kickoff_local :: "string option"
  fm_material_conflict :: bool
  fm_conflict_predicates :: "string list"
  fm_reason_code :: string
  fm_reason :: string
  fm_decision_state :: string
  fm_digest :: string

definition membership_payload :: "frozen_membership \<Rightarrow> pydict" where
  "membership_payload m =
     [(''conflict_predicates'', str_list (fm_conflict_predicates m)),
      (''controlling_revision_digest'', opt_str (fm_revision_digest m)),
      (''controlling_revision_id'', opt_str (fm_revision_id m)),
      (''decision_state'', PStr (fm_decision_state m)),
      (''matchweek_id'', PStr (fm_matchweek_id m)),
      (''material_conflict'', PBool (fm_material_conflict m)),
      (''membership_id'', PStr (fm_id m)),
      (''membership_state'', PStr (membership_text (fm_state m))),
      (''original_kickoff_local_text'', opt_str (fm_kickoff_local m)),
      (''original_kickoff_utc'', opt_str (fm_kickoff_utc m)),
      (''reason'', PStr (fm_reason m)),
      (''reason_code'', PStr (fm_reason_code m)),
      (''source_authority'', PStr (fm_authority m)),
      (''source_authority_rank'', PInt (fm_authority_rank m)),
      (''subject_id'', PStr (fm_subject_id m)),
      (''subject_kind'', PStr (fm_subject_kind m)),
      (''target_match'', PBool (fm_target m))]"

definition membership_expected_digest :: "mw_hasher \<Rightarrow> frozen_membership \<Rightarrow> string" where
  "membership_expected_digest H m = mw_digest H (PDict (membership_payload m))"

definition check_stamp :: "string option \<Rightarrow> string \<Rightarrow> (mw_error, unit) res" where
  "check_stamp t message =
     (case t of None \<Rightarrow> Inr ()
      | Some s \<Rightarrow> bindR (mw_canonical_utc (TimeText s)) (\<lambda>u. guardR (u = s) (MwValueError message)))"

text \<open>\<open>FrozenMembership.__post_init__\<close>\<close>

definition membership_init :: "mw_hasher \<Rightarrow> frozen_membership \<Rightarrow> (mw_error, frozen_membership) res" where
  "membership_init H m =
     bindR (guardR (fm_subject_kind m \<in> {''FIXTURE'', ''UNRESOLVED_FIXTURE_ROW''})
       (MwValueError ''Frozen membership subject kind is invalid.'')) (\<lambda>_.
     bindR (guardR (\<not> (fm_state m = INCLUDED \<and> \<not> fm_target m))
       (MwValueError ''INCLUDED membership must be a Target Match.'')) (\<lambda>_.
     bindR (guardR (\<not> (fm_state m \<noteq> INCLUDED \<and> fm_target m))
       (MwValueError ''Only INCLUDED membership can be a Target Match.'')) (\<lambda>_.
     bindR (guardR ((fm_revision_id m = None) = (fm_revision_digest m = None))
       (MwValueError ''A controlling Fixture Revision requires both ID and digest.'')) (\<lambda>_.
     bindR (guardR (sorted_set (fm_conflict_predicates m) = fm_conflict_predicates m)
       (MwValueError ''Membership conflict predicates must be sorted and unique.'')) (\<lambda>_.
     bindR (check_stamp (fm_kickoff_utc m)
       ''Membership kickoff timestamps must be canonical UTC values.'') (\<lambda>_.
     let expected = membership_expected_digest H m in
     bindR (guardR (fm_digest m = [] \<or> fm_digest m = expected)
       (MwValueError ''Frozen membership digest does not match its immutable fields.'')) (\<lambda>_.
     Inr (m\<lparr>fm_digest := expected\<rparr>))))))))"

definition membership_to_dict :: "frozen_membership \<Rightarrow> pydict" where
  "membership_to_dict m = membership_payload m @ [(''digest'', PStr (fm_digest m))]"

definition membership_from_dict :: "mw_hasher \<Rightarrow> pydict \<Rightarrow> (mw_error, frozen_membership) res" where
  "membership_from_dict H d =
     (case (case dict_get d ''conflict_predicates'' of PList vs \<Rightarrow> strings_of vs | _ \<Rightarrow> None) of
        None \<Rightarrow> Inl (MatchweekError ''MV-T05-MANIFEST_MALFORMED''
                 ''Membership conflict predicates are invalid.'')
      | Some predicates \<Rightarrow>
          bindR (mw_string d ''membership_id'') (\<lambda>membership_id.
          bindR (mw_string d ''matchweek_id'') (\<lambda>matchweek_id.
          bindR (mw_string d ''subject_kind'') (\<lambda>subject_kind.
          bindR (mw_string d ''subject_id'') (\<lambda>subject_id.
          bindR (mw_string d ''membership_state'') (\<lambda>state_text.
          bindR (membership_state_of state_text) (\<lambda>state.
          bindR (mw_bool d ''target_match'') (\<lambda>target.
          bindR (mw_optional_string d ''controlling_revision_id'') (\<lambda>revision_id.
          bindR (mw_optional_string d ''controlling_revision_digest'') (\<lambda>revision_digest.
          bindR (mw_int d ''source_authority_rank'') (\<lambda>rank.
          bindR (mw_string d ''source_authority'') (\<lambda>authority.
          bindR (mw_optional_string d ''original_kickoff_utc'') (\<lambda>kickoff.
          bindR (mw_optional_string d ''original_kickoff_local_text'') (\<lambda>kickoff_local.
          bindR (mw_bool d ''material_conflict'') (\<lambda>conflict.
          bindR (mw_string d ''reason_code'') (\<lambda>reason_code.
          bindR (mw_string d ''reason'') (\<lambda>reason.
          bindR (mw_string d ''decision_state'') (\<lambda>decision_state.
          bindR (mw_string d ''digest'') (\<lambda>stored_digest.
          membership_init H
            \<lparr>fm_id = membership_id, fm_matchweek_id = matchweek_id, fm_subject_kind = subject_kind,
             fm_subject_id = subject_id, fm_state = state, fm_target = target,
             fm_revision_id = revision_id, fm_revision_digest = revision_digest,
             fm_authority_rank = rank, fm_authority = authority, fm_kickoff_utc = kickoff,
             fm_kickoff_local = kickoff_local, fm_material_conflict = conflict,
             fm_conflict_predicates = predicates, fm_reason_code = reason_code,
             fm_reason = reason, fm_decision_state = decision_state,
             fm_digest = stored_digest\<rparr>)))))))))))))))))))"

section \<open>PostCutoffValidityReview\<close>

record validity_review =
  vr_identity_unchanged :: "bool option"
  vr_scope_unchanged :: "bool option"
  vr_kickoff_after_cutoff :: "bool option"
  vr_no_postponement :: "bool option"
  vr_pre_match_valid :: "bool option"
  vr_critical_evidence_valid :: "bool option"
  vr_research_sufficiency_valid :: "bool option"
  vr_information_boundary_valid :: "bool option"

definition empty_review :: validity_review where
  "empty_review =
     \<lparr>vr_identity_unchanged = None, vr_scope_unchanged = None, vr_kickoff_after_cutoff = None,
      vr_no_postponement = None, vr_pre_match_valid = None, vr_critical_evidence_valid = None,
      vr_research_sufficiency_valid = None, vr_information_boundary_valid = None\<rparr>"

definition review_passed :: "validity_review \<Rightarrow> bool" where
  "review_passed v \<longleftrightarrow> list_all (\<lambda>x. x = Some True)
     [vr_identity_unchanged v, vr_scope_unchanged v, vr_kickoff_after_cutoff v, vr_no_postponement v,
      vr_pre_match_valid v, vr_critical_evidence_valid v, vr_research_sufficiency_valid v,
      vr_information_boundary_valid v]"

definition opt_bool :: "bool option \<Rightarrow> pyval" where
  "opt_bool x = (case x of None \<Rightarrow> PNone | Some b \<Rightarrow> PBool b)"

definition review_to_dict :: "validity_review \<Rightarrow> pydict" where
  "review_to_dict v =
     [(''critical_evidence_valid'', opt_bool (vr_critical_evidence_valid v)),
      (''identity_unchanged'', opt_bool (vr_identity_unchanged v)),
      (''information_boundary_valid'', opt_bool (vr_information_boundary_valid v)),
      (''kickoff_after_cutoff'', opt_bool (vr_kickoff_after_cutoff v)),
      (''no_postponement_or_cancellation'', opt_bool (vr_no_postponement v)),
      (''pre_match_valid'', opt_bool (vr_pre_match_valid v)),
      (''research_sufficiency_valid'', opt_bool (vr_research_sufficiency_valid v)),
      (''scope_unchanged'', opt_bool (vr_scope_unchanged v))]"

text \<open>\<open>_validity_review_from_json\<close>\<close>

definition review_malformed :: mw_error where
  "review_malformed = MatchweekError ''MV-T05-STORED_APPENDIX_MALFORMED''
     ''Stored appendix validity review is malformed.''"

definition review_field :: "pydict \<Rightarrow> string \<Rightarrow> (mw_error, bool option) res" where
  "review_field d k =
     (case dict_get d k of PNone \<Rightarrow> Inr None | PBool b \<Rightarrow> Inr (Some b)
      | _ \<Rightarrow> Inl (MatchweekError ''MV-T05-STORED_APPENDIX_MALFORMED''
               (''Stored appendix validity field '' @ k @ '' is malformed.'')))"

definition review_from_json :: "string \<Rightarrow> (mw_error, validity_review) res" where
  "review_from_json s =
     (case json_loads s of
        Some (PDict d) \<Rightarrow>
          bindR (review_field d ''identity_unchanged'') (\<lambda>identity.
          bindR (review_field d ''scope_unchanged'') (\<lambda>scope.
          bindR (review_field d ''kickoff_after_cutoff'') (\<lambda>kickoff.
          bindR (review_field d ''no_postponement_or_cancellation'') (\<lambda>postponement.
          bindR (review_field d ''pre_match_valid'') (\<lambda>pre_match.
          bindR (review_field d ''critical_evidence_valid'') (\<lambda>critical.
          bindR (review_field d ''research_sufficiency_valid'') (\<lambda>sufficiency.
          bindR (review_field d ''information_boundary_valid'') (\<lambda>boundary.
          Inr \<lparr>vr_identity_unchanged = identity, vr_scope_unchanged = scope,
               vr_kickoff_after_cutoff = kickoff, vr_no_postponement = postponement,
               vr_pre_match_valid = pre_match, vr_critical_evidence_valid = critical,
               vr_research_sufficiency_valid = sufficiency,
               vr_information_boundary_valid = boundary\<rparr>))))))))
      | _ \<Rightarrow> Inl review_malformed)"

section \<open>PostCutoffFixtureAppendixEntry\<close>

datatype appendix_event =
    FIXTURE_ADDED_AFTER_CUTOFF | MOVED_IN_AFTER_CUTOFF | SAME_WINDOW_KICKOFF_CHANGE
  | MOVED_OUTSIDE_WINDOW | POSTPONED | CANCELLED | INVALID_PREMATCH_TIMING | IDENTITY_CONFLICT
  | MATERIAL_CONFLICT | REVISION_LEARNED_AFTER_CUTOFF

fun appendix_event_text :: "appendix_event \<Rightarrow> string" where
  "appendix_event_text FIXTURE_ADDED_AFTER_CUTOFF = ''FIXTURE_ADDED_AFTER_CUTOFF''"
| "appendix_event_text MOVED_IN_AFTER_CUTOFF = ''MOVED_IN_AFTER_CUTOFF''"
| "appendix_event_text SAME_WINDOW_KICKOFF_CHANGE = ''SAME_WINDOW_KICKOFF_CHANGE''"
| "appendix_event_text MOVED_OUTSIDE_WINDOW = ''MOVED_OUTSIDE_WINDOW''"
| "appendix_event_text POSTPONED = ''POSTPONED''"
| "appendix_event_text CANCELLED = ''CANCELLED''"
| "appendix_event_text INVALID_PREMATCH_TIMING = ''INVALID_PREMATCH_TIMING''"
| "appendix_event_text IDENTITY_CONFLICT = ''IDENTITY_CONFLICT''"
| "appendix_event_text MATERIAL_CONFLICT = ''MATERIAL_CONFLICT''"
| "appendix_event_text REVISION_LEARNED_AFTER_CUTOFF = ''REVISION_LEARNED_AFTER_CUTOFF''"

datatype appendix_disposition = APPENDIX_ONLY | PRESERVED | WITHDRAWN

fun disposition_text :: "appendix_disposition \<Rightarrow> string" where
  "disposition_text APPENDIX_ONLY = ''APPENDIX_ONLY''"
| "disposition_text PRESERVED = ''PRESERVED''"
| "disposition_text WITHDRAWN = ''WITHDRAWN''"

record appendix_entry =
  ae_id :: string
  ae_event_key :: string
  ae_matchweek_id :: string
  ae_subject_kind :: string
  ae_subject_id :: string
  ae_fixture_id :: "string option"
  ae_membership_id :: "string option"
  ae_revision_id :: "string option"
  ae_revision_digest :: "string option"
  ae_event :: appendix_event
  ae_disposition :: appendix_disposition
  ae_settlement :: "string option"
  ae_original_kickoff :: "string option"
  ae_current_kickoff :: "string option"
  ae_observed_at :: string
  ae_review :: validity_review
  ae_reason_code :: string
  ae_reason :: string
  ae_digest :: string

definition appendix_payload :: "appendix_entry \<Rightarrow> pydict" where
  "appendix_payload e =
     [(''current_kickoff_utc'', opt_str (ae_current_kickoff e)),
      (''event_key'', PStr (ae_event_key e)),
      (''event_kind'', PStr (appendix_event_text (ae_event e))),
      (''fixture_id'', opt_str (ae_fixture_id e)),
      (''matchweek_id'', PStr (ae_matchweek_id e)),
      (''membership_id'', opt_str (ae_membership_id e)),
      (''observed_at_utc'', PStr (ae_observed_at e)),
      (''original_kickoff_utc'', opt_str (ae_original_kickoff e)),
      (''reason'', PStr (ae_reason e)),
      (''reason_code'', PStr (ae_reason_code e)),
      (''revision_digest'', opt_str (ae_revision_digest e)),
      (''revision_id'', opt_str (ae_revision_id e)),
      (''settlement_result'', opt_str (ae_settlement e)),
      (''subject_id'', PStr (ae_subject_id e)),
      (''subject_kind'', PStr (ae_subject_kind e)),
      (''validity_review'', PDict (review_to_dict (ae_review e))),
      (''disposition'', PStr (disposition_text (ae_disposition e)))]"

definition appendix_expected_digest :: "mw_hasher \<Rightarrow> appendix_entry \<Rightarrow> string" where
  "appendix_expected_digest H e = mw_digest H (PDict (appendix_payload e))"

text \<open>\<open>PostCutoffFixtureAppendixEntry.__post_init__\<close>\<close>

definition appendix_init :: "mw_hasher \<Rightarrow> appendix_entry \<Rightarrow> (mw_error, appendix_entry) res" where
  "appendix_init H e =
     bindR (if ae_disposition e = WITHDRAWN
            then guardR (ae_settlement e = Some ''VOID'')
              (MwValueError ''Withdrawn appendix entries must have a VOID settlement state.'')
            else guardR (ae_settlement e = None)
              (MwValueError ''Only withdrawn appendix entries can have a settlement state.'')) (\<lambda>_.
     bindR (mapR (\<lambda>t. check_stamp t ''Appendix timestamps must be canonical UTC values.'')
       [ae_original_kickoff e, ae_current_kickoff e, Some (ae_observed_at e)]) (\<lambda>_.
     let expected = appendix_expected_digest H e in
     bindR (guardR (ae_digest e = [] \<or> ae_digest e = expected)
       (MwValueError ''Appendix entry digest does not match its immutable fields.'')) (\<lambda>_.
     Inr (e\<lparr>ae_digest := expected\<rparr>))))"

definition appendix_to_dict :: "appendix_entry \<Rightarrow> pydict" where
  "appendix_to_dict e =
     appendix_payload e @ [(''appendix_id'', PStr (ae_id e)), (''digest'', PStr (ae_digest e))]"

section \<open>MembershipManifest\<close>

record membership_manifest =
  mm_matchweek_id :: string
  mm_season :: string
  mm_friday_local :: string
  mm_window_start :: string
  mm_window_end :: string
  mm_cutoff_id :: string
  mm_cutoff_utc :: string
  mm_memberships :: "frozen_membership list"
  mm_rules_version :: string
  mm_schema_version :: int

definition rules_name :: string where "rules_name = ''t05-v1''"

definition manifest_schema_version :: int where "manifest_schema_version = 1"

text \<open>\<open>MembershipManifest.__post_init__\<close>\<close>

definition manifest_init :: "membership_manifest \<Rightarrow> (mw_error, membership_manifest) res" where
  "manifest_init m =
     bindR (guardR (mm_schema_version m = manifest_schema_version)
       (MwValueError ''Unsupported T05 membership manifest schema.'')) (\<lambda>_.
     bindR (guardR (map fm_id (mm_memberships m) = sort (map fm_id (mm_memberships m)))
       (MwValueError ''Membership manifest entries must be sorted by immutable ID.'')) (\<lambda>_.
     bindR (guardR (distinct (map fm_id (mm_memberships m)))
       (MwValueError ''Membership manifest entries must be unique.'')) (\<lambda>_.
     bindR (mapR (\<lambda>t. check_stamp (Some t)
         ''Membership manifest timestamps must be canonical UTC values.'')
       [mm_window_start m, mm_window_end m, mm_cutoff_utc m]) (\<lambda>_.
     Inr m))))"

definition manifest_payload :: "membership_manifest \<Rightarrow> pydict" where
  "manifest_payload m =
     [(''cutoff_id'', PStr (mm_cutoff_id m)),
      (''cutoff_utc'', PStr (mm_cutoff_utc m)),
      (''friday_local'', PStr (mm_friday_local m)),
      (''matchweek_id'', PStr (mm_matchweek_id m)),
      (''memberships'', PList (map (\<lambda>x. PDict (membership_to_dict x)) (mm_memberships m))),
      (''rules_version'', PStr (mm_rules_version m)),
      (''schema_version'', PInt (mm_schema_version m)),
      (''season'', PStr (mm_season m)),
      (''window_end_utc'', PStr (mm_window_end m)),
      (''window_start_utc'', PStr (mm_window_start m))]"

definition manifest_aggregate :: "mw_hasher \<Rightarrow> membership_manifest \<Rightarrow> string" where
  "manifest_aggregate H m = mw_digest H (PDict (manifest_payload m))"

definition manifest_object :: "mw_hasher \<Rightarrow> membership_manifest \<Rightarrow> pydict" where
  "manifest_object H m =
     manifest_payload m @ [(''aggregate_sha256'', PStr (manifest_aggregate H m))]"

definition manifest_bytes :: "mw_hasher \<Rightarrow> membership_manifest \<Rightarrow> string" where
  "manifest_bytes H m = json_text (PDict (manifest_object H m))"

definition manifest_digest :: "mw_hasher \<Rightarrow> membership_manifest \<Rightarrow> string" where
  "manifest_digest H m = sha_text H (manifest_bytes H m)"

fun dicts_of :: "pyval list \<Rightarrow> pydict list option" where
  "dicts_of [] = Some []"
| "dicts_of (PDict d # vs) = map_option ((#) d) (dicts_of vs)"
| "dicts_of _ = None"

definition manifest_keys :: "string list" where
  "manifest_keys =
     [''aggregate_sha256'', ''cutoff_id'', ''cutoff_utc'', ''friday_local'', ''matchweek_id'',
      ''memberships'', ''rules_version'', ''schema_version'', ''season'', ''window_end_utc'',
      ''window_start_utc'']"

definition manifest_malformed :: "string \<Rightarrow> mw_error" where
  "manifest_malformed message = MatchweekError ''MV-T05-MANIFEST_MALFORMED'' message"

text \<open>
  \<open>MembershipManifest.from_bytes\<close>. Bytes from 128 up are refused as malformed: the source refuses
  them as well, with the code of the first of its checks that fails, since canonical text is ASCII.
\<close>

definition manifest_from_bytes :: "mw_hasher \<Rightarrow> string \<Rightarrow> (mw_error, membership_manifest) res" where
  "manifest_from_bytes H data =
     (case (if list_all (\<lambda>c. code c < 128) data then json_loads data else None) of
        None \<Rightarrow> Inl (manifest_malformed ''Membership manifest JSON is malformed.'')
      | Some v \<Rightarrow> (case v of PDict d \<Rightarrow>
          bindR (guardR (set (map fst d) = set manifest_keys)
            (manifest_malformed ''Membership manifest keys are invalid.'')) (\<lambda>_.
          (case (case dict_get d ''memberships'' of PList vs \<Rightarrow> dicts_of vs | _ \<Rightarrow> None) of
             None \<Rightarrow> Inl (manifest_malformed ''Membership manifest entries are invalid.'')
           | Some items \<Rightarrow>
               bindR (mw_string d ''matchweek_id'') (\<lambda>matchweek_id.
               bindR (mw_string d ''season'') (\<lambda>season.
               bindR (mw_string d ''friday_local'') (\<lambda>friday_local.
               bindR (mw_string d ''window_start_utc'') (\<lambda>start_utc.
               bindR (mw_string d ''window_end_utc'') (\<lambda>end_utc.
               bindR (mw_string d ''cutoff_id'') (\<lambda>cutoff_id.
               bindR (mw_string d ''cutoff_utc'') (\<lambda>cutoff_utc.
               bindR (mapR (membership_from_dict H) items) (\<lambda>memberships.
               bindR (mw_string d ''rules_version'') (\<lambda>rules_version.
               bindR (mw_int d ''schema_version'') (\<lambda>schema_version.
               bindR (manifest_init
                 \<lparr>mm_matchweek_id = matchweek_id, mm_season = season, mm_friday_local = friday_local,
                  mm_window_start = start_utc, mm_window_end = end_utc, mm_cutoff_id = cutoff_id,
                  mm_cutoff_utc = cutoff_utc, mm_memberships = memberships,
                  mm_rules_version = rules_version, mm_schema_version = schema_version\<rparr>) (\<lambda>m.
               bindR (mw_string d ''aggregate_sha256'') (\<lambda>aggregate.
               bindR (guardR (aggregate = manifest_aggregate H m)
                 (MatchweekError ''MV-T05-MANIFEST_DIGEST_MISMATCH''
                   ''Membership aggregate digest is invalid.'')) (\<lambda>_.
               bindR (guardR (manifest_bytes H m = data)
                 (MatchweekError ''MV-T05-MANIFEST_NONCANONICAL''
                   ''Membership manifest JSON is not canonical.'')) (\<lambda>_.
               Inr m))))))))))))))))
        | _ \<Rightarrow> Inl (manifest_malformed ''Membership manifest root is not an object.'')))"

end
