(* ===== verification/Matchweek_Selection.thy ===== *)
theory Matchweek_Selection
  imports Matchweek_Membership
begin

text \<open>
  The choice of the controlling Fixture Revision in \<open>matchweek.py\<close>: what is known of a revision at
  a boundary, the authority of its sources, the revision of the highest authority, and the search
  for a Research Cutoff that is six hours before the earliest fixture known by it. A boundary is an
  instant; every timestamp of a candidate is canonical text, as the loader makes it.
\<close>

section \<open>First maximum and minimum\<close>

text \<open>\<open>max(xs, key=k)\<close> and \<open>min(xs, key=k)\<close> return the first best element of a list that is not empty.\<close>

definition first_max :: "('a \<Rightarrow> 'k::linorder) \<Rightarrow> 'a list \<Rightarrow> 'a" where
  "first_max k xs = foldl (\<lambda>m x. if k m < k x then x else m) (hd xs) (tl xs)"

definition first_min :: "('a \<Rightarrow> 'k::linorder) \<Rightarrow> 'a list \<Rightarrow> 'a" where
  "first_min k xs = foldl (\<lambda>m x. if k x < k m then x else m) (hd xs) (tl xs)"

lemma foldl_max:
  fixes k :: "'a \<Rightarrow> 'k::linorder"
  defines "F \<equiv> foldl (\<lambda>m x. if k m < k x then x else m)"
  shows "F a ys \<in> insert a (set ys)" and "k a \<le> k (F a ys)" and "y \<in> set ys \<Longrightarrow> k y \<le> k (F a ys)"
proof -
  have "F a ys \<in> insert a (set ys) \<and> k a \<le> k (F a ys) \<and> (\<forall>y \<in> set ys. k y \<le> k (F a ys))" for a ys
  proof (induction ys arbitrary: a)
    case (Cons y ys)
    show ?case
    proof (cases "k a < k y")
      case True
      then have "F a (y # ys) = F y ys" by (simp add: F_def)
      moreover have "k a \<le> k (F y ys)"
        using Cons.IH [of y] True by (meson less_imp_le order_trans)
      ultimately show ?thesis using Cons.IH [of y] by auto
    next
      case False
      then have "F a (y # ys) = F a ys" by (simp add: F_def)
      moreover have "k y \<le> k (F a ys)"
        using Cons.IH [of a] False by (meson not_le order_trans)
      ultimately show ?thesis using Cons.IH [of a] by auto
    qed
  qed (simp add: F_def)
  then show "F a ys \<in> insert a (set ys)" "k a \<le> k (F a ys)" "y \<in> set ys \<Longrightarrow> k y \<le> k (F a ys)" by blast+
qed

lemma first_max_props:
  assumes "xs \<noteq> []"
  shows "first_max k xs \<in> set xs" and "y \<in> set xs \<Longrightarrow> k y \<le> k (first_max k xs)"
  using assms foldl_max(1) [of k "hd xs" "tl xs"] foldl_max(2) [of k "hd xs" "tl xs"] foldl_max(3) [of y "tl xs" k "hd xs"]
  unfolding first_max_def by (cases xs; auto)+

lemma foldl_min:
  fixes k :: "'a \<Rightarrow> 'k::linorder"
  defines "F \<equiv> foldl (\<lambda>m x. if k x < k m then x else m)"
  shows "F a ys \<in> insert a (set ys)" and "k (F a ys) \<le> k a" and "y \<in> set ys \<Longrightarrow> k (F a ys) \<le> k y"
proof -
  have "F a ys \<in> insert a (set ys) \<and> k (F a ys) \<le> k a \<and> (\<forall>y \<in> set ys. k (F a ys) \<le> k y)" for a ys
  proof (induction ys arbitrary: a)
    case (Cons y ys)
    show ?case
    proof (cases "k y < k a")
      case True
      then have "F a (y # ys) = F y ys" by (simp add: F_def)
      moreover have "k (F y ys) \<le> k a"
        using Cons.IH [of y] True by (meson less_imp_le order_trans)
      ultimately show ?thesis using Cons.IH [of y] by auto
    next
      case False
      then have "F a (y # ys) = F a ys" by (simp add: F_def)
      moreover have "k (F a ys) \<le> k y"
        using Cons.IH [of a] False by (meson not_le order_trans)
      ultimately show ?thesis using Cons.IH [of a] by auto
    qed
  qed (simp add: F_def)
  then show "F a ys \<in> insert a (set ys)" "k (F a ys) \<le> k a" "y \<in> set ys \<Longrightarrow> k (F a ys) \<le> k y" by blast+
qed

lemma first_min_props:
  assumes "xs \<noteq> []"
  shows "first_min k xs \<in> set xs" and "y \<in> set xs \<Longrightarrow> k (first_min k xs) \<le> k y"
  using assms foldl_min(1) [of k "hd xs" "tl xs"] foldl_min(2) [of k "hd xs" "tl xs"] foldl_min(3) [of y "tl xs" k "hd xs"]
  unfolding first_min_def by (cases xs; auto)+

lemma first_max_map: "xs \<noteq> [] \<Longrightarrow> (\<And>x. x \<in> set xs \<Longrightarrow> k (f x) = h x) \<Longrightarrow> first_max k (map f xs) = f (first_max h xs)"
proof -
  assume ne: "xs \<noteq> []" and k: "\<And>x. x \<in> set xs \<Longrightarrow> k (f x) = h x"
  have "foldl (\<lambda>m x. if k m < k x then x else m) (f a) (map f ys) = f (foldl (\<lambda>m x. if h m < h x then x else m) a ys)"
    if "a \<in> set xs" "set ys \<subseteq> set xs" for a ys
    using that by (induction ys arbitrary: a) (auto simp: k)
  from this [of "hd xs" "tl xs"] ne show ?thesis
    by (cases xs) (auto simp: first_max_def)
qed

section \<open>Sources and revisions\<close>

record source_support =
  sp_retrieved_at :: string
  sp_published_at :: "string option"
  sp_content :: string
  sp_key :: string
  sp_class :: string

record revision_candidate =
  cd_fixture_id :: string
  cd_identity_state :: string
  cd_league_key :: string
  cd_season :: string
  cd_home :: string
  cd_away :: string
  cd_revision_id :: string
  cd_revision_digest :: string
  cd_kickoff_state :: string
  cd_kickoff_utc :: "string option"
  cd_kickoff_local :: "string option"
  cd_kickoff_precision :: string
  cd_status :: string
  cd_observed_at :: string
  cd_supports :: "source_support list"

text \<open>\<open>_RevisionCandidate.valid_supports\<close> and \<open>post_cutoff_supports\<close>\<close>

definition known_support :: "int \<Rightarrow> source_support \<Rightarrow> bool" where
  "known_support boundary s \<longleftrightarrow> instant_at (sp_retrieved_at s) \<le> boundary \<and>
     (case sp_published_at s of None \<Rightarrow> True | Some p \<Rightarrow> instant_at p \<le> boundary)"

definition observation_support :: "revision_candidate \<Rightarrow> source_support" where
  "observation_support c =
     \<lparr>sp_retrieved_at = cd_observed_at c, sp_published_at = None, sp_content = [],
      sp_key = ''fixture_revision_observed_at'', sp_class = ''OBSERVATION''\<rparr>"

definition valid_supports :: "revision_candidate \<Rightarrow> int \<Rightarrow> source_support list" where
  "valid_supports c boundary =
     (if boundary < instant_at (cd_observed_at c) then []
      else let supports = filter (known_support boundary) (cd_supports c)
      in if supports \<noteq> [] then supports
         else if cd_supports c = [] \<and> instant_at (cd_observed_at c) \<le> boundary
         then [observation_support c] else [])"

definition post_cutoff_supports :: "revision_candidate \<Rightarrow> int \<Rightarrow> int \<Rightarrow> source_support list" where
  "post_cutoff_supports c cutoff as_of =
     filter (\<lambda>s. cutoff < instant_at (sp_retrieved_at s) \<and> instant_at (sp_retrieved_at s) \<le> as_of)
       (cd_supports c)"

section \<open>Authority\<close>

definition text_occurs :: "string \<Rightarrow> string \<Rightarrow> bool" where
  "text_occurs t s \<longleftrightarrow> list_ex (\<lambda>i. take (length t) (drop i s) = t) [0..<Suc (length s)]"

definition support_rank :: "string \<Rightarrow> string \<Rightarrow> int" where
  "support_rank source_key source_class =
     (let c = replace_char (CHR '' '') ''_'' (upper (strip source_class)); k = lower (strip source_key) in
      if c \<in> {''OFFICIAL_COMPETITION'', ''OFFICIAL_LEAGUE''} then 500
      else if c \<in> {''OFFICIAL_FEDERATION'', ''OFFICIAL_ASSOCIATION''} then 490
      else if c = ''OFFICIAL_CLUB'' then 480
      else if c = ''OFFICIAL'' then 470
      else if c = ''STRUCTURED_PROVIDER'' then 300
      else if c \<in> {''OPEN_DATASET'', ''OPEN_SOURCE_DATASET''} then 200
      else if text_occurs ''football-data.co.uk'' k then 300
      else if text_occurs ''openfootball'' k then 200
      else 100)"

definition authority_label :: "source_support list \<Rightarrow> int \<times> string" where
  "authority_label supports =
     (if supports = [] then (0, ''UNKNOWN'')
      else let (rank, source_class, source_key) = last (sort (map (\<lambda>s.
             (support_rank (sp_key s) (sp_class s),
              (if sp_class s = [] then ''UNKNOWN'' else sp_class s), sp_key s)) supports))
      in (rank, source_class @ '':'' @ source_key))"

section \<open>The controlling revision\<close>

definition revision_key :: "int \<Rightarrow> revision_candidate \<Rightarrow> int \<times> int \<times> string \<times> string" where
  "revision_key boundary c =
     (let supports = valid_supports c boundary in
      (fst (authority_label supports), Max (set (map (instant_at \<circ> sp_retrieved_at) supports)),
       cd_revision_id c, cd_revision_digest c))"

definition select_revision :: "revision_candidate list \<Rightarrow> int \<Rightarrow> revision_candidate option" where
  "select_revision candidates boundary =
     (let valid = filter (\<lambda>c. valid_supports c boundary \<noteq> []) candidates
      in if valid = [] then None else Some (first_max (revision_key boundary) valid))"

definition latest_candidate_by_fixture ::
  "revision_candidate list \<Rightarrow> int \<Rightarrow> (string \<times> revision_candidate) list" where
  "latest_candidate_by_fixture candidates boundary =
     List.map_filter (\<lambda>(k, cs). map_option (Pair k) (select_revision cs boundary))
       (group_by cd_fixture_id candidates)"

definition scheduled_status :: "string \<Rightarrow> bool" where
  "scheduled_status s \<longleftrightarrow> upper (strip s) \<in> {''SCHEDULED'', ''CONFIRMED''}"

definition eligible_schedule :: "mw_window \<Rightarrow> revision_candidate \<Rightarrow> bool" where
  "eligible_schedule w c \<longleftrightarrow>
     cd_identity_state c = ''CONFIRMED'' \<and> cd_kickoff_state c = ''OBSERVED'' \<and>
     scheduled_status (cd_status c) \<and>
     (case cd_kickoff_utc c of None \<Rightarrow> False | Some k \<Rightarrow> window_contains w k)"

section \<open>The Research Cutoff\<close>

definition opt_instant :: "string option \<Rightarrow> int" where
  "opt_instant t = (case t of None \<Rightarrow> instant_at [] | Some s \<Rightarrow> instant_at s)"

definition kickoff_key :: "revision_candidate \<Rightarrow> int \<times> string" where
  "kickoff_key c = (opt_instant (cd_kickoff_utc c), cd_fixture_id c)"

definition cutoff_of :: "revision_candidate \<Rightarrow> int" where
  "cutoff_of c = opt_instant (cd_kickoff_utc c) - lead_time_us"

text \<open>The body of \<open>for _ in range(8)\<close>, with the cutoffs seen so far.\<close>

fun cutoff_loop ::
  "nat \<Rightarrow> revision_candidate list \<Rightarrow> mw_window \<Rightarrow> string list \<Rightarrow> int \<Rightarrow> revision_candidate \<Rightarrow>
   (mw_error, int \<times> revision_candidate) res" where
  "cutoff_loop 0 candidates w seen cutoff earliest = Inr (cutoff, earliest)"
| "cutoff_loop (Suc n) candidates w seen cutoff earliest =
     (let included = filter (eligible_schedule w)
            (map snd (latest_candidate_by_fixture candidates cutoff)) in
      if included = [] then Inl (MatchweekError ''MV-T05-NO_CUTOFF_VALID_FIXTURE''
        ''No scheduled fixture was known by the derived Research Cutoff.'')
      else let e = first_min kickoff_key included; next_cutoff = cutoff_of e in
        if next_cutoff = cutoff \<or> iso_short cutoff \<in> set seen then Inr (cutoff, e)
        else cutoff_loop n candidates w (iso_short cutoff # seen) next_cutoff e)"

text \<open>\<open>_derive_cutoff\<close>\<close>

definition derive_cutoff ::
  "revision_candidate list \<Rightarrow> mw_window \<Rightarrow> int \<Rightarrow> (mw_error, int \<times> revision_candidate) res" where
  "derive_cutoff candidates w as_of =
     (let eligible = filter (\<lambda>c. valid_supports c as_of \<noteq> [] \<and> eligible_schedule w c) candidates in
      if eligible = [] then Inl (MatchweekError ''MV-T05-NO_ELIGIBLE_FIXTURE''
        ''No cutoff candidate has a scheduled kickoff in the requested Matchweek.'')
      else let earliest = first_min kickoff_key eligible
        in cutoff_loop 8 candidates w [] (cutoff_of earliest) earliest)"

end
