(* ===== verification/Matchweek_Store.thy ===== *)
theory Matchweek_Store
  imports Matchweek_Selection
begin

text \<open>
  The tables \<open>matchweek.py\<close> works on: the fixture and source tables that the ingestion fills, which
  it only reads, and the tables of frozen Matchweeks with the constraints and triggers of their
  schema (\<open>store.py\<close>). The columns that no query of the module reads are left out. The loaders are
  the module's queries: a join is a comprehension over the rows, \<open>ORDER BY\<close> a stable sort.
\<close>

section \<open>Fixture and source tables\<close>

record fixture_row =
  fx_id :: string
  fx_league_id :: string
  fx_season_id :: string
  fx_home_id :: string
  fx_away_id :: string
  fx_identity_state :: string

record revision_row =
  fr_id :: string
  fr_fixture_id :: string
  fr_digest :: string
  fr_kickoff_state :: string
  fr_kickoff_utc :: "string option"
  fr_kickoff_local :: "string option"
  fr_kickoff_precision :: string
  fr_status :: string
  fr_observed_at :: string
  fr_capture_id :: string

record capture_row =
  cp_id :: string
  cp_source_id :: string
  cp_retrieved_at :: string
  cp_published_at :: "string option"
  cp_content :: string

record source_row =
  so_id :: string
  so_key :: string
  so_class :: string

record assertion_row =
  sa_id :: string
  sa_capture_id :: string
  sa_subject_kind :: string
  sa_subject_key :: string
  sa_predicate :: string
  sa_value_json :: "string option"

record unresolved_row =
  un_id :: string
  un_capture_id :: string
  un_league_id :: string
  un_season_id :: string
  un_home :: string
  un_away :: string
  un_state :: string

record conflict_row =
  cf_id :: string
  cf_subject_kind :: string
  cf_subject_key :: string
  cf_predicate :: string
  cf_status :: string

record source_tables =
  tb_leagues :: "(string \<times> string) list"
  tb_seasons :: "(string \<times> string) list"
  tb_teams :: "(string \<times> string) list"
  tb_fixtures :: "fixture_row list"
  tb_revisions :: "revision_row list"
  tb_captures :: "capture_row list"
  tb_sources :: "source_row list"
  tb_revision_assertions :: "(string \<times> string) list"
  tb_assertions :: "assertion_row list"
  tb_unresolved :: "unresolved_row list"
  tb_conflicts :: "conflict_row list"
  tb_conflict_assertions :: "(string \<times> string) list"

section \<open>Loading revisions\<close>

definition opt_canonical :: "string option \<Rightarrow> (mw_error, string option) res" where
  "opt_canonical t =
     (case t of None \<Rightarrow> Inr None | Some s \<Rightarrow> bindR (mw_canonical_utc (TimeText s)) (\<lambda>u. Inr (Some u)))"

definition capture_support :: "capture_row \<times> source_row \<Rightarrow> (mw_error, source_support) res" where
  "capture_support p =
     (case p of (c, s) \<Rightarrow>
        bindR (mw_canonical_utc (TimeText (cp_retrieved_at c))) (\<lambda>retrieved.
        bindR (opt_canonical (cp_published_at c)) (\<lambda>published.
        Inr \<lparr>sp_retrieved_at = retrieved, sp_published_at = published, sp_content = cp_content c,
             sp_key = so_key s, sp_class = so_class s\<rparr>)))"

text \<open>The columns the support query selects, in the order it sorts by, and the publication time.\<close>

definition support_columns ::
  "capture_row \<times> source_row \<Rightarrow> string \<times> string \<times> string \<times> string \<times> string option" where
  "support_columns p =
     (case p of (c, s) \<Rightarrow> (cp_retrieved_at c, so_class s, so_key s, cp_content c, cp_published_at c))"

fun distinct_by :: "('a \<Rightarrow> 'k) \<Rightarrow> 'a list \<Rightarrow> 'a list" where
  "distinct_by k [] = []"
| "distinct_by k (x # xs) = (if k x \<in> set (map k xs) then distinct_by k xs else x # distinct_by k xs)"

definition support_rows :: "source_tables \<Rightarrow> revision_row \<Rightarrow> (capture_row \<times> source_row) list" where
  "support_rows t r =
     sort_key (\<lambda>p. let (retrieved, source_class, source_key, content, published) = support_columns p
                   in (retrieved, source_class, source_key, content))
       (distinct_by support_columns
         ([(c, s). c \<leftarrow> tb_captures t, s \<leftarrow> tb_sources t, so_id s = cp_source_id c, cp_id c = fr_capture_id r] @
          [(c, s). (rid, aid) \<leftarrow> tb_revision_assertions t, a \<leftarrow> tb_assertions t, sa_id a = aid,
             c \<leftarrow> tb_captures t, cp_id c = sa_capture_id a, s \<leftarrow> tb_sources t, so_id s = cp_source_id c,
             rid = fr_id r]))"

definition candidate_of_row ::
  "source_tables \<Rightarrow> fixture_row \<times> string \<times> string \<times> string \<times> string \<Rightarrow> revision_row \<Rightarrow>
   (mw_error, revision_candidate) res" where
  "candidate_of_row t fixture r =
     (case fixture of (f, league_key, season, home, away) \<Rightarrow>
        bindR (mapR capture_support (support_rows t r)) (\<lambda>supports.
        bindR (opt_canonical (fr_kickoff_utc r)) (\<lambda>kickoff.
        bindR (mw_canonical_utc (TimeText (fr_observed_at r))) (\<lambda>observed.
        Inr \<lparr>cd_fixture_id = fx_id f, cd_identity_state = fx_identity_state f,
             cd_league_key = league_key, cd_season = season, cd_home = home, cd_away = away,
             cd_revision_id = fr_id r, cd_revision_digest = fr_digest r,
             cd_kickoff_state = fr_kickoff_state r, cd_kickoff_utc = kickoff,
             cd_kickoff_local = fr_kickoff_local r, cd_kickoff_precision = fr_kickoff_precision r,
             cd_status = fr_status r, cd_observed_at = observed, cd_supports = supports\<rparr>))))"

definition season_fixtures ::
  "source_tables \<Rightarrow> string \<Rightarrow> (fixture_row \<times> string \<times> string \<times> string \<times> string) list" where
  "season_fixtures t season =
     sort_key (fx_id \<circ> fst)
       [(f, league_key, label, home, away). f \<leftarrow> tb_fixtures t,
          (lid, league_key) \<leftarrow> tb_leagues t, lid = fx_league_id f,
          (sid, label) \<leftarrow> tb_seasons t, sid = fx_season_id f,
          (hid, home) \<leftarrow> tb_teams t, hid = fx_home_id f,
          (aid, away) \<leftarrow> tb_teams t, aid = fx_away_id f, label = season]"

definition fixture_revisions :: "source_tables \<Rightarrow> string \<Rightarrow> revision_row list" where
  "fixture_revisions t fixture_id =
     sort_key (\<lambda>r. (fr_observed_at r, fr_id r))
       (filter (\<lambda>r. fr_fixture_id r = fixture_id) (tb_revisions t))"

text \<open>\<open>_load_revision_candidates\<close>\<close>

definition load_revision_candidates ::
  "source_tables \<Rightarrow> string \<Rightarrow> (mw_error, revision_candidate list) res" where
  "load_revision_candidates t season =
     bindR (mapR (\<lambda>f. mapR (candidate_of_row t f) (fixture_revisions t (fx_id (fst f))))
       (season_fixtures t season)) (\<lambda>css.
     Inr (concat css))"

section \<open>Loading unresolved rows\<close>

record unresolved_fixture =
  uf_id :: string
  uf_league_key :: string
  uf_season :: string
  uf_home :: string
  uf_away :: string
  uf_state :: string
  uf_kickoff_utc :: "string option"
  uf_observed_at :: string

text \<open>A row of the query: the unresolved row, its league and season, the kickoff assertion's value and
  the retrieval time of the assertion's capture, else of the row's own.\<close>

type_synonym unresolved_join = "unresolved_row \<times> string \<times> string \<times> string option \<times> string"

definition kickoff_assertions :: "source_tables \<Rightarrow> unresolved_row \<Rightarrow> assertion_row list" where
  "kickoff_assertions t u =
     filter (\<lambda>a. sa_subject_kind a = ''UNRESOLVED_FIXTURE_ROW'' \<and> sa_subject_key a = un_id u \<and>
                 sa_predicate a = ''kickoff'') (tb_assertions t)"

definition unresolved_rows :: "source_tables \<Rightarrow> string \<Rightarrow> unresolved_join list" where
  "unresolved_rows t season =
     sort_key (\<lambda>(u, league_key, label, value_json, retrieved). (un_id u, retrieved))
       [(u, league_key, label, value_json, retrieved). u \<leftarrow> tb_unresolved t,
          (lid, league_key) \<leftarrow> tb_leagues t, lid = un_league_id u,
          (sid, label) \<leftarrow> tb_seasons t, sid = un_season_id u, label = season,
          base \<leftarrow> tb_captures t, cp_id base = un_capture_id u,
          (value_json, retrieved) \<leftarrow>
            (if kickoff_assertions t u = [] then [(None, cp_retrieved_at base)]
             else map (\<lambda>a. (sa_value_json a,
                     (case find (\<lambda>c. cp_id c = sa_capture_id a) (tb_captures t) of
                        Some c \<Rightarrow> cp_retrieved_at c | None \<Rightarrow> cp_retrieved_at base)))
                    (kickoff_assertions t u))]"

text \<open>
  The kickoff a row leaves: a JSON string that is a timestamp sets it, one that is not clears it,
  anything else keeps it.
\<close>

definition kickoff_step :: "string option \<Rightarrow> string option \<Rightarrow> (mw_error, string option) res" where
  "kickoff_step kickoff value_json =
     (case value_json of None \<Rightarrow> Inr kickoff
      | Some text \<Rightarrow>
          (case json_loads text of
             Some (PStr s) \<Rightarrow>
               (case mw_canonical_utc (TimeText s) of
                  Inr u \<Rightarrow> Inr (Some u)
                | Inl (MwValueError _) \<Rightarrow> Inr None
                | Inl e \<Rightarrow> Inl e)
           | _ \<Rightarrow> Inr kickoff))"

definition unresolved_step ::
  "string option \<times> string option \<Rightarrow> unresolved_join \<Rightarrow> (mw_error, string option \<times> string option) res" where
  "unresolved_step acc row =
     (case row of (u, league_key, label, value_json, retrieved) \<Rightarrow>
        bindR (kickoff_step (fst acc) value_json) (\<lambda>kickoff.
        bindR (mw_canonical_utc (TimeText retrieved)) (\<lambda>observed. Inr (kickoff, Some observed))))"

definition unresolved_of_group ::
  "string \<times> unresolved_join list \<Rightarrow> (mw_error, unresolved_fixture option) res" where
  "unresolved_of_group g =
     bindR (foldR unresolved_step (None, None) (snd g)) (\<lambda>(kickoff, observed).
     (case (observed, hd (snd g)) of
        (None, _) \<Rightarrow> Inr None
      | (Some stamp, u, league_key, label, _) \<Rightarrow>
          Inr (Some \<lparr>uf_id = fst g, uf_league_key = league_key, uf_season = label, uf_home = un_home u,
                     uf_away = un_away u, uf_state = un_state u, uf_kickoff_utc = kickoff,
                     uf_observed_at = stamp\<rparr>)))"

text \<open>\<open>_load_unresolved_fixtures\<close>\<close>

definition load_unresolved_fixtures ::
  "source_tables \<Rightarrow> string \<Rightarrow> (mw_error, unresolved_fixture list) res" where
  "load_unresolved_fixtures t season =
     bindR (mapR unresolved_of_group
       (sort_key fst (group_by (\<lambda>row. un_id (fst row)) (unresolved_rows t season)))) (\<lambda>us.
     Inr (List.map_filter id us))"

section \<open>Material conflicts\<close>

definition material_predicates :: "string list" where
  "material_predicates =
     [''kickoff'', ''home_team'', ''away_team'', ''venue'', ''competition'', ''status'', ''fixture_status'']"

definition python_str :: "string option \<Rightarrow> string" where
  "python_str v = (case v of None \<Rightarrow> ''None'' | Some s \<Rightarrow> s)"

text \<open>The rows of the conflict query: the predicate and the value of an assertion of an open conflict.\<close>

definition conflict_values :: "source_tables \<Rightarrow> string \<Rightarrow> int \<Rightarrow> (string \<times> string) list" where
  "conflict_values t fixture_id boundary =
     [(cf_predicate c, python_str (sa_value_json a)). c \<leftarrow> tb_conflicts t,
        (cid, aid) \<leftarrow> tb_conflict_assertions t, cid = cf_id c,
        a \<leftarrow> tb_assertions t, sa_id a = aid,
        p \<leftarrow> tb_captures t, cp_id p = sa_capture_id a,
        cf_subject_kind c = ''FIXTURE'', cf_subject_key c = fixture_id, cf_status c \<noteq> ''RESOLVED'',
        cf_predicate c \<in> set material_predicates, cp_retrieved_at p \<le> iso_short boundary]"

text \<open>\<open>_material_conflicts\<close>\<close>

definition material_conflicts :: "source_tables \<Rightarrow> string \<Rightarrow> int \<Rightarrow> string list" where
  "material_conflicts t fixture_id boundary =
     (let rows = conflict_values t fixture_id boundary in
      sort (filter (\<lambda>p. 2 \<le> card (set (map snd (filter (\<lambda>r. fst r = p) rows))))
        (remdups (map fst rows))))"

section \<open>Tables of frozen Matchweeks\<close>

record matchweek_row =
  mr_id :: string
  mr_season :: string
  mr_friday :: string
  mr_start :: string
  mr_end :: string
  mr_created :: string

record cutoff_row =
  cr_cutoff :: mw_cutoff
  cr_created :: string

record membership_row =
  br_id :: string
  br_matchweek_id :: string
  br_subject_kind :: string
  br_subject_id :: string
  br_fixture_id :: "string option"
  br_unresolved_id :: "string option"
  br_state :: string
  br_target :: bool
  br_revision_id :: "string option"
  br_revision_digest :: "string option"
  br_rank :: int
  br_authority :: string
  br_kickoff_utc :: "string option"
  br_kickoff_local :: "string option"
  br_conflict :: bool
  br_predicates_json :: string
  br_reason_code :: string
  br_reason :: string
  br_decision_state :: string
  br_digest :: string
  br_created :: string

record freeze_row =
  zr_matchweek_id :: string
  zr_cutoff_id :: string
  zr_snapshot_digest :: string
  zr_membership_digest :: string
  zr_revision_digest :: string
  zr_frozen_at :: string

record appendix_row =
  pr_id :: string
  pr_matchweek_id :: string
  pr_event_key :: string
  pr_subject_kind :: string
  pr_subject_id :: string
  pr_fixture_id :: "string option"
  pr_membership_id :: "string option"
  pr_revision_id :: "string option"
  pr_revision_digest :: "string option"
  pr_event :: string
  pr_disposition :: string
  pr_settlement :: "string option"
  pr_original_kickoff :: "string option"
  pr_current_kickoff :: "string option"
  pr_observed_at :: string
  pr_review_json :: string
  pr_reason_code :: string
  pr_reason :: string
  pr_digest :: string
  pr_created :: string

record version_identity =
  vi_id :: string
  vi_definition_id :: string
  vi_kind :: string
  vi_name :: string
  vi_content :: string
  vi_contract_version :: int
  vi_created :: string
  vi_predecessor :: "string option"

record mw_store =
  ms_writable :: bool
  ms_source :: source_tables
  ms_identifiers :: "(string \<times> string) list"
  ms_versions :: "version_identity list"
  ms_artifacts :: "string list"
  ms_snapshots :: "string list"
  ms_matchweeks :: "matchweek_row list"
  ms_cutoffs :: "cutoff_row list"
  ms_memberships :: "membership_row list"
  ms_freezes :: "freeze_row list"
  ms_appendix :: "appendix_row list"

section \<open>Inserting\<close>

type_synonym mw_update = "mw_store \<Rightarrow> (mw_error, mw_store) res"

text \<open>\<open>StoreTransaction.add_identifier_if_missing(CanonicalIdentifier(kind, value))\<close>\<close>

definition mw_add_identifier :: "string \<Rightarrow> string \<Rightarrow> mw_update" where
  "mw_add_identifier kind value st =
     bindR (guardR (uuid_shaped value) (MwValueError ''Canonical identifier values must be UUIDs.'')) (\<lambda>_.
     if (value, kind) \<in> set (ms_identifiers st) then Inr st
     else bindR (guardR (value \<notin> set (map fst (ms_identifiers st))) MwIntegrityError) (\<lambda>_.
       Inr (st\<lparr>ms_identifiers := ms_identifiers st @ [(value, kind)]\<rparr>)))"

definition typed_identifier :: "string \<Rightarrow> string \<Rightarrow> mw_store \<Rightarrow> (mw_error, unit) res" where
  "typed_identifier kind value st = guardR ((value, kind) \<in> set (ms_identifiers st)) MwIntegrityError"

definition opt_sha_shaped :: "string option \<Rightarrow> bool" where
  "opt_sha_shaped d = (case d of None \<Rightarrow> True | Some s \<Rightarrow> sha_shaped s)"

definition references :: "string option \<Rightarrow> string list \<Rightarrow> bool" where
  "references k keys = (case k of None \<Rightarrow> True | Some s \<Rightarrow> s \<in> set keys)"

definition insert_matchweek :: "matchweek_row \<Rightarrow> mw_update" where
  "insert_matchweek r st =
     bindR (typed_identifier ''matchweek'' (mr_id r) st) (\<lambda>_.
     if mr_id r \<in> set (map mr_id (ms_matchweeks st)) then Inr st
     else bindR (guardR ((mr_season r, mr_friday r) \<notin> set (map (\<lambda>x. (mr_season x, mr_friday x)) (ms_matchweeks st)))
            MwIntegrityError) (\<lambda>_.
       Inr (st\<lparr>ms_matchweeks := ms_matchweeks st @ [r]\<rparr>)))"

definition insert_cutoff :: "cutoff_row \<Rightarrow> mw_update" where
  "insert_cutoff r st =
     (let c = cr_cutoff r in
      bindR (typed_identifier ''research_cutoff'' (co_id c) st) (\<lambda>_.
      bindR (guardR (co_lead_time_seconds c = 21600 \<and> sha_shaped (co_digest c)) MwIntegrityError) (\<lambda>_.
      if co_id c \<in> set (map (co_id \<circ> cr_cutoff) (ms_cutoffs st)) then Inr st
      else bindR (guardR (co_matchweek_id c \<notin> set (map (co_matchweek_id \<circ> cr_cutoff) (ms_cutoffs st)) \<and>
               co_matchweek_id c \<in> set (map mr_id (ms_matchweeks st)) \<and>
               co_earliest_fixture_id c \<in> set (map fx_id (tb_fixtures (ms_source st))))
             MwIntegrityError) (\<lambda>_.
        Inr (st\<lparr>ms_cutoffs := ms_cutoffs st @ [r]\<rparr>)))))"

text \<open>The \<open>CHECK\<close>s of a membership row.\<close>

definition membership_row_ok :: "membership_row \<Rightarrow> bool" where
  "membership_row_ok r \<longleftrightarrow>
     br_state r \<in> {''INCLUDED'', ''EXCLUDED'', ''INDETERMINATE''} \<and>
     opt_sha_shaped (br_revision_digest r) \<and> 0 \<le> br_rank r \<and> sha_shaped (br_digest r) \<and>
     (br_subject_kind r = ''FIXTURE'' \<and> br_fixture_id r = Some (br_subject_id r) \<and> br_unresolved_id r = None \<or>
      br_subject_kind r = ''UNRESOLVED_FIXTURE_ROW'' \<and> br_unresolved_id r = Some (br_subject_id r) \<and>
        br_fixture_id r = None) \<and>
     (br_state r = ''INCLUDED'') = br_target r \<and>
     (br_revision_id r = None) = (br_revision_digest r = None)"

definition insert_membership :: "membership_row \<Rightarrow> mw_update" where
  "insert_membership r st =
     bindR (typed_identifier ''frozen_membership'' (br_id r) st) (\<lambda>_.
     bindR (guardR (membership_row_ok r) MwIntegrityError) (\<lambda>_.
     if br_id r \<in> set (map br_id (ms_memberships st)) then Inr st
     else bindR (guardR ((br_matchweek_id r, br_subject_kind r, br_subject_id r) \<notin>
                set (map (\<lambda>x. (br_matchweek_id x, br_subject_kind x, br_subject_id x)) (ms_memberships st)) \<and>
              br_matchweek_id r \<in> set (map mr_id (ms_matchweeks st)) \<and>
              references (br_fixture_id r) (map fx_id (tb_fixtures (ms_source st))) \<and>
              references (br_unresolved_id r) (map un_id (tb_unresolved (ms_source st))) \<and>
              references (br_revision_id r) (map fr_id (tb_revisions (ms_source st)))) MwIntegrityError) (\<lambda>_.
       Inr (st\<lparr>ms_memberships := ms_memberships st @ [r]\<rparr>))))"

definition insert_freeze_record :: "freeze_row \<Rightarrow> mw_update" where
  "insert_freeze_record r st =
     bindR (typed_identifier ''matchweek'' (zr_matchweek_id r) st) (\<lambda>_.
     if zr_matchweek_id r \<in> set (map zr_matchweek_id (ms_freezes st)) then Inr st
     else bindR (guardR (zr_matchweek_id r \<in> set (map mr_id (ms_matchweeks st)) \<and>
              zr_cutoff_id r \<in> set (map (co_id \<circ> cr_cutoff) (ms_cutoffs st)) \<and>
              zr_snapshot_digest r \<in> set (ms_snapshots st) \<and>
              zr_membership_digest r \<in> set (ms_artifacts st) \<and>
              zr_revision_digest r \<in> set (ms_artifacts st)) MwIntegrityError) (\<lambda>_.
       Inr (st\<lparr>ms_freezes := ms_freezes st @ [r]\<rparr>)))"

text \<open>The \<open>CHECK\<close>s of an appendix row.\<close>

definition appendix_row_ok :: "appendix_row \<Rightarrow> bool" where
  "appendix_row_ok r \<longleftrightarrow>
     opt_sha_shaped (pr_revision_digest r) \<and> sha_shaped (pr_digest r) \<and>
     (pr_subject_kind r = ''FIXTURE'' \<and> pr_fixture_id r = Some (pr_subject_id r) \<or>
      pr_subject_kind r = ''UNRESOLVED_FIXTURE_ROW'' \<and> pr_fixture_id r = None) \<and>
     pr_disposition r \<in> {''APPENDIX_ONLY'', ''PRESERVED'', ''WITHDRAWN''} \<and>
     (if pr_disposition r = ''WITHDRAWN'' then pr_settlement r = Some ''VOID'' else pr_settlement r = None)"

definition insert_appendix :: "appendix_row \<Rightarrow> mw_update" where
  "insert_appendix r st =
     bindR (typed_identifier ''post_cutoff_appendix'' (pr_id r) st) (\<lambda>_.
     bindR (guardR (appendix_row_ok r) MwIntegrityError) (\<lambda>_.
     if pr_event_key r \<in> set (map pr_event_key (ms_appendix st)) then Inr st
     else bindR (guardR (pr_id r \<notin> set (map pr_id (ms_appendix st)) \<and>
              pr_matchweek_id r \<in> set (map mr_id (ms_matchweeks st)) \<and>
              references (pr_fixture_id r) (map fx_id (tb_fixtures (ms_source st))) \<and>
              references (pr_membership_id r) (map br_id (ms_memberships st)) \<and>
              references (pr_revision_id r) (map fr_id (tb_revisions (ms_source st)))) MwIntegrityError) (\<lambda>_.
       Inr (st\<lparr>ms_appendix := ms_appendix st @ [r]\<rparr>))))"

text \<open>\<open>StoreTransaction.add_version\<close>, for a version without predecessor.\<close>

definition insert_version :: "version_identity \<Rightarrow> mw_update" where
  "insert_version v st =
     bindR (mw_add_identifier ''version'' (vi_id v) st) (\<lambda>st1.
     bindR (mw_add_identifier ''version_definition'' (vi_definition_id v) st1) (\<lambda>st2.
     bindR (guardR (sha_shaped (vi_content v) \<and> 1 \<le> vi_contract_version v \<and>
         vi_id v \<notin> set (map vi_id (ms_versions st2)) \<and>
         (vi_definition_id v, vi_name v) \<notin> set (map (\<lambda>x. (vi_definition_id x, vi_name x)) (ms_versions st2)) \<and>
         (vi_kind v, vi_name v, vi_content v) \<notin>
           set (map (\<lambda>x. (vi_kind x, vi_name x, vi_content x)) (ms_versions st2))) MwIntegrityError) (\<lambda>_.
     Inr (st2\<lparr>ms_versions := ms_versions st2 @ [v]\<rparr>))))"

end
