(* ===== verification/Matchweek_Freeze.thy ===== *)
theory Matchweek_Freeze
  imports Matchweek_Store
begin

text \<open>
  \<open>freeze_matchweek\<close> and \<open>read_frozen_matchweek\<close> of \<open>matchweek.py\<close>: the membership of every fixture
  at the Research Cutoff, the manifest and the revision snapshot, their publication, and the rows
  read back. A computation returns a result and the store it leaves, since what was published before
  an error stays; a transaction that raises leaves the store as it was. The artifact store, which
  keeps its contents in files, is a parameter: it accepts or refuses a content or a manifest.
\<close>

section \<open>Computations on the store\<close>

type_synonym 'a mw_action = "mw_store \<Rightarrow> (mw_error, 'a) res \<times> mw_store"

definition bindA :: "'a mw_action \<Rightarrow> ('a \<Rightarrow> 'b mw_action) \<Rightarrow> 'b mw_action" where
  "bindA m f st = (case m st of (Inl e, st') \<Rightarrow> (Inl e, st') | (Inr x, st') \<Rightarrow> f x st')"

definition liftA :: "(mw_error, 'a) res \<Rightarrow> 'a mw_action" where
  "liftA r st = (r, st)"

definition readA :: "(mw_store \<Rightarrow> (mw_error, 'a) res) \<Rightarrow> 'a mw_action" where
  "readA f st = (f st, st)"

definition transactionA :: "mw_update \<Rightarrow> unit mw_action" where
  "transactionA u st = (case u st of Inl e \<Rightarrow> (Inl e, st) | Inr st' \<Rightarrow> (Inr (), st'))"

section \<open>Identifiers and the rules version\<close>

definition membership_id :: "mw_hasher \<Rightarrow> string \<Rightarrow> string \<Rightarrow> string \<Rightarrow> string" where
  "membership_id H matchweek kind subject =
     deterministic_identifier H ''frozen_membership'' (matchweek @ '':'' @ kind @ '':'' @ subject)"

definition matchweek_id :: "mw_hasher \<Rightarrow> string \<Rightarrow> nat \<Rightarrow> string" where
  "matchweek_id H season friday =
     deterministic_identifier H ''matchweek'' (season @ '':'' @ iso_date friday)"

definition cutoff_id :: "mw_hasher \<Rightarrow> string \<Rightarrow> string" where
  "cutoff_id H matchweek = deterministic_identifier H ''research_cutoff'' matchweek"

definition snapshot_id :: "mw_hasher \<Rightarrow> string \<Rightarrow> string" where
  "snapshot_id H matchweek = deterministic_identifier H ''snapshot_manifest'' (''t05:'' @ matchweek)"

definition version_manifest_id :: "mw_hasher \<Rightarrow> string" where
  "version_manifest_id H =
     deterministic_identifier H ''version_manifest'' ''t05:matchweek-membership:v1''"

definition rules_kind :: string where "rules_kind = ''matchweek_membership''"

definition rules_payload :: pyval where
  "rules_payload = PDict
     [(''authority_levels'', PDict
        [(''official_competition'', PInt 500), (''official_federation'', PInt 490),
         (''official_club'', PInt 480), (''official'', PInt 470),
         (''structured_provider'', PInt 300), (''open_dataset'', PInt 200)]),
      (''lead_time_seconds'', PInt lead_time_seconds),
      (''rules_name'', PStr rules_name),
      (''timezone'', PStr ''Africa/Lagos''),
      (''window'', PStr ''FRIDAY_00_INCLUSIVE_TO_TUESDAY_00_EXCLUSIVE'')]"

definition need_uuid :: "string \<Rightarrow> (mw_error, unit) res" where
  "need_uuid s = guardR (uuid_shaped s) (MwValueError ''Canonical identifier values must be UUIDs.'')"

text \<open>\<open>_membership_rules_version\<close>\<close>

definition membership_rules_version :: "mw_hasher \<Rightarrow> (mw_error, version_identity) res" where
  "membership_rules_version H =
     (let content = mw_digest H rules_payload;
          v = deterministic_identifier H ''version'' (rules_kind @ '':'' @ content);
          d = deterministic_identifier H ''version_definition'' rules_kind in
      bindR (need_uuid v) (\<lambda>_.
      bindR (need_uuid d) (\<lambda>_.
      bindR (guardR (sha_shaped content)
        (MwValueError ''Version content digests must be lowercase SHA-256 values.'')) (\<lambda>_.
      Inr \<lparr>vi_id = v, vi_definition_id = d, vi_kind = rules_kind, vi_name = rules_name,
           vi_content = content, vi_contract_version = 1,
           vi_created = ''2026-01-01T00:00:00.000000+00:00'', vi_predecessor = None\<rparr>))))"

text \<open>\<open>_ensure_membership_version\<close>\<close>

definition ensure_membership_version :: "mw_hasher \<Rightarrow> version_identity mw_action" where
  "ensure_membership_version H =
     bindA (liftA (membership_rules_version H)) (\<lambda>v.
     bindA (readA (\<lambda>st. Inr (find (\<lambda>x. vi_id x = vi_id v) (ms_versions st)))) (\<lambda>existing.
     case existing of
       Some x \<Rightarrow> liftA (if x = v then Inr v else Inl (MatchweekError ''MV-T05-RULE_VERSION_CONFLICT''
         ''The stored T05 membership rules version does not match the immutable contract.''))
     | None \<Rightarrow> bindA (transactionA (insert_version v)) (\<lambda>_. liftA (Inr v))))"

section \<open>Memberships\<close>

definition max_instant :: "string list \<Rightarrow> int" where
  "max_instant ts = Max (set (map instant_at ts))"

text \<open>The state, reason code, reason and decision state \<open>_build_memberships\<close> gives a fixture.\<close>

definition membership_decision ::
  "mw_window \<Rightarrow> string \<Rightarrow> revision_candidate option \<Rightarrow> bool \<Rightarrow>
   membership_state \<times> string \<times> string \<times> string" where
  "membership_decision w identity chosen conflict =
     (if identity \<noteq> ''CONFIRMED'' then
        (INDETERMINATE, ''IDENTITY_UNRESOLVED'',
         ''Canonical Fixture identity was not confirmed at the Research Cutoff.'',
         ''NO_DECISION_INDETERMINATE'')
      else case chosen of
        None \<Rightarrow>
          (EXCLUDED, ''NO_CUTOFF_VALID_REVISION'',
           ''No Fixture Revision for this confirmed fixture was valid at the Research Cutoff.'',
           ''NO_DECISION_EXCLUDED'')
      | Some c \<Rightarrow>
          (case (if cd_kickoff_state c = ''OBSERVED'' then cd_kickoff_utc c else None) of
             None \<Rightarrow>
               (INDETERMINATE, ''KICKOFF_UNKNOWN'',
                ''The confirmed fixture had no cutoff-valid observed kickoff.'',
                ''NO_DECISION_INDETERMINATE'')
           | Some kickoff \<Rightarrow>
               if \<not> scheduled_status (cd_status c) then
                 (EXCLUDED, ''NOT_SCHEDULED_AT_CUTOFF'',
                  ''Fixture status was '' @ upper (cd_status c) @ '' at the Research Cutoff.'',
                  ''NO_DECISION_EXCLUDED'')
               else if \<not> window_contains w kickoff then
                 (EXCLUDED, ''OUTSIDE_MATCHWEEK_WINDOW'',
                  ''The cutoff-valid scheduled kickoff was outside the Friday-to-Monday window.'',
                  ''NO_DECISION_EXCLUDED'')
               else if conflict then
                 (INCLUDED, ''MATERIAL_CONFLICT'',
                  ''Confirmed identity is in-window, but material fixture details remain unresolved.'',
                  ''MATERIAL_CONFLICT_BLOCKED'')
               else
                 (INCLUDED, ''IN_WINDOW_SCHEDULED'',
                  ''Confirmed scheduled fixture falls inside the Africa/Lagos Matchweek window.'',
                  ''ELIGIBLE_FOR_VETTING'')))"

text \<open>\<open>chosen or latest_known or fixture_candidates[0]\<close>\<close>

definition reference_candidate :: "revision_candidate list \<Rightarrow> int \<Rightarrow> revision_candidate" where
  "reference_candidate cs cutoff =
     (case select_revision cs cutoff of
        Some c \<Rightarrow> c
      | None \<Rightarrow> (case select_revision cs (max_instant (map cd_observed_at cs)) of
                   Some c \<Rightarrow> c | None \<Rightarrow> hd cs))"

definition fixture_membership ::
  "mw_hasher \<Rightarrow> source_tables \<Rightarrow> string \<Rightarrow> mw_window \<Rightarrow> int \<Rightarrow> string \<times> revision_candidate list \<Rightarrow>
   (mw_error, frozen_membership) res" where
  "fixture_membership H t mid w cutoff g =
     (let (fixture_id, cs) = g;
          chosen = select_revision cs cutoff;
          reference = reference_candidate cs cutoff;
          (rank, authority) = authority_label (case chosen of None \<Rightarrow> [] | Some c \<Rightarrow> valid_supports c cutoff);
          predicates = (if chosen = None then [] else material_conflicts t fixture_id cutoff);
          (state, reason_code, reason, decision) =
            membership_decision w (cd_identity_state reference) chosen (predicates \<noteq> [])
      in membership_init H
        \<lparr>fm_id = membership_id H mid ''FIXTURE'' fixture_id, fm_matchweek_id = mid,
         fm_subject_kind = ''FIXTURE'', fm_subject_id = fixture_id, fm_state = state,
         fm_target = (state = INCLUDED), fm_revision_id = map_option cd_revision_id chosen,
         fm_revision_digest = map_option cd_revision_digest chosen, fm_authority_rank = rank,
         fm_authority = authority, fm_kickoff_utc = Option.bind chosen cd_kickoff_utc,
         fm_kickoff_local = Option.bind chosen cd_kickoff_local,
         fm_material_conflict = (predicates \<noteq> []), fm_conflict_predicates = predicates,
         fm_reason_code = reason_code, fm_reason = reason, fm_decision_state = decision,
         fm_digest = []\<rparr>)"

definition unresolved_membership ::
  "mw_hasher \<Rightarrow> string \<Rightarrow> unresolved_fixture \<Rightarrow> (mw_error, frozen_membership) res" where
  "unresolved_membership H mid u =
     membership_init H
       \<lparr>fm_id = membership_id H mid ''UNRESOLVED_FIXTURE_ROW'' (uf_id u), fm_matchweek_id = mid,
        fm_subject_kind = ''UNRESOLVED_FIXTURE_ROW'', fm_subject_id = uf_id u, fm_state = INDETERMINATE,
        fm_target = False, fm_revision_id = None, fm_revision_digest = None, fm_authority_rank = 0,
        fm_authority = ''UNKNOWN'', fm_kickoff_utc = uf_kickoff_utc u,
        fm_kickoff_local = Some (uf_home u @ '' v '' @ uf_away u), fm_material_conflict = False,
        fm_conflict_predicates = [], fm_reason_code = ''IDENTITY_UNRESOLVED'',
        fm_reason = ''Source rows could not be mapped to one canonical Fixture identity.'',
        fm_decision_state = ''NO_DECISION_INDETERMINATE'', fm_digest = []\<rparr>"

text \<open>\<open>_build_memberships\<close>\<close>

definition build_memberships ::
  "mw_hasher \<Rightarrow> source_tables \<Rightarrow> string \<Rightarrow> mw_window \<Rightarrow> string \<Rightarrow> int \<Rightarrow> revision_candidate list \<Rightarrow>
   (mw_error, frozen_membership list) res" where
  "build_memberships H t mid w season cutoff candidates =
     bindR (mapR (fixture_membership H t mid w cutoff)
       (sort_key fst (group_by cd_fixture_id candidates))) (\<lambda>fixtures.
     bindR (load_unresolved_fixtures t season) (\<lambda>unresolved.
     bindR (mapR (unresolved_membership H mid)
       (filter (\<lambda>u. instant_at (uf_observed_at u) \<le> cutoff) unresolved)) (\<lambda>rows.
     Inr (sort_key fm_id (fixtures @ rows)))))"

section \<open>Rows and records\<close>

definition membership_to_row :: "string \<Rightarrow> string \<Rightarrow> frozen_membership \<Rightarrow> membership_row" where
  "membership_to_row mid frozen_at m =
     \<lparr>br_id = fm_id m, br_matchweek_id = mid, br_subject_kind = fm_subject_kind m,
      br_subject_id = fm_subject_id m,
      br_fixture_id = (if fm_subject_kind m = ''FIXTURE'' then Some (fm_subject_id m) else None),
      br_unresolved_id =
        (if fm_subject_kind m = ''UNRESOLVED_FIXTURE_ROW'' then Some (fm_subject_id m) else None),
      br_state = membership_text (fm_state m), br_target = fm_target m,
      br_revision_id = fm_revision_id m, br_revision_digest = fm_revision_digest m,
      br_rank = fm_authority_rank m, br_authority = fm_authority m,
      br_kickoff_utc = fm_kickoff_utc m, br_kickoff_local = fm_kickoff_local m,
      br_conflict = fm_material_conflict m,
      br_predicates_json = json_text (str_list (fm_conflict_predicates m)),
      br_reason_code = fm_reason_code m, br_reason = fm_reason m,
      br_decision_state = fm_decision_state m, br_digest = fm_digest m, br_created = frozen_at\<rparr>"

text \<open>\<open>_membership_from_row\<close>\<close>

definition stored_membership_error :: "string \<Rightarrow> mw_error" where
  "stored_membership_error message = MatchweekError ''MV-T05-STORED_MEMBERSHIP_MALFORMED'' message"

definition membership_from_row :: "mw_hasher \<Rightarrow> membership_row \<Rightarrow> (mw_error, frozen_membership) res" where
  "membership_from_row H r =
     (case json_loads (br_predicates_json r) of
        None \<Rightarrow> Inl (stored_membership_error ''Stored membership conflict predicates are not valid JSON.'')
      | Some v \<Rightarrow>
          (case (case v of PList vs \<Rightarrow> strings_of vs | _ \<Rightarrow> None) of
             None \<Rightarrow> Inl (stored_membership_error ''Stored membership conflict predicates are malformed.'')
           | Some predicates \<Rightarrow>
               bindR (membership_state_of (br_state r)) (\<lambda>state.
               membership_init H
                 \<lparr>fm_id = br_id r, fm_matchweek_id = br_matchweek_id r,
                  fm_subject_kind = br_subject_kind r, fm_subject_id = br_subject_id r,
                  fm_state = state, fm_target = br_target r, fm_revision_id = br_revision_id r,
                  fm_revision_digest = br_revision_digest r, fm_authority_rank = br_rank r,
                  fm_authority = br_authority r, fm_kickoff_utc = br_kickoff_utc r,
                  fm_kickoff_local = br_kickoff_local r, fm_material_conflict = br_conflict r,
                  fm_conflict_predicates = predicates, fm_reason_code = br_reason_code r,
                  fm_reason = br_reason r, fm_decision_state = br_decision_state r,
                  fm_digest = br_digest r\<rparr>)))"

definition appendix_event_of :: "string \<Rightarrow> (mw_error, appendix_event) res" where
  "appendix_event_of s =
     (case find (\<lambda>e. appendix_event_text e = s)
        [FIXTURE_ADDED_AFTER_CUTOFF, MOVED_IN_AFTER_CUTOFF, SAME_WINDOW_KICKOFF_CHANGE,
         MOVED_OUTSIDE_WINDOW, POSTPONED, CANCELLED, INVALID_PREMATCH_TIMING, IDENTITY_CONFLICT,
         MATERIAL_CONFLICT, REVISION_LEARNED_AFTER_CUTOFF] of
        Some e \<Rightarrow> Inr e
      | None \<Rightarrow> Inl (MwValueError (repr_text s @ '' is not a valid AppendixEventKind'')))"

definition disposition_of :: "string \<Rightarrow> (mw_error, appendix_disposition) res" where
  "disposition_of s =
     (case find (\<lambda>d. disposition_text d = s) [APPENDIX_ONLY, PRESERVED, WITHDRAWN] of
        Some d \<Rightarrow> Inr d
      | None \<Rightarrow> Inl (MwValueError (repr_text s @ '' is not a valid AppendixDisposition'')))"

text \<open>\<open>_appendix_from_row\<close>\<close>

definition appendix_from_row :: "mw_hasher \<Rightarrow> appendix_row \<Rightarrow> (mw_error, appendix_entry) res" where
  "appendix_from_row H r =
     bindR (review_from_json (pr_review_json r)) (\<lambda>review.
     bindR (appendix_event_of (pr_event r)) (\<lambda>event.
     bindR (disposition_of (pr_disposition r)) (\<lambda>disposition.
     appendix_init H
       \<lparr>ae_id = pr_id r, ae_event_key = pr_event_key r, ae_matchweek_id = pr_matchweek_id r,
        ae_subject_kind = pr_subject_kind r, ae_subject_id = pr_subject_id r,
        ae_fixture_id = pr_fixture_id r, ae_membership_id = pr_membership_id r,
        ae_revision_id = pr_revision_id r, ae_revision_digest = pr_revision_digest r,
        ae_event = event, ae_disposition = disposition, ae_settlement = pr_settlement r,
        ae_original_kickoff = pr_original_kickoff r, ae_current_kickoff = pr_current_kickoff r,
        ae_observed_at = pr_observed_at r, ae_review = review, ae_reason_code = pr_reason_code r,
        ae_reason = pr_reason r, ae_digest = pr_digest r\<rparr>)))"

section \<open>Reading a frozen Matchweek\<close>

record matchweek_freeze =
  fz_window :: mw_window
  fz_season :: string
  fz_cutoff :: mw_cutoff
  fz_memberships :: "frozen_membership list"
  fz_snapshot_digest :: string
  fz_membership_digest :: string
  fz_revision_digest :: string
  fz_appendix :: "appendix_entry list"

definition target_matches :: "matchweek_freeze \<Rightarrow> frozen_membership list" where
  "target_matches f = filter fm_target (fz_memberships f)"

definition indeterminate_memberships :: "matchweek_freeze \<Rightarrow> frozen_membership list" where
  "indeterminate_memberships f = filter (\<lambda>m. fm_state m = INDETERMINATE) (fz_memberships f)"

definition excluded_memberships :: "matchweek_freeze \<Rightarrow> frozen_membership list" where
  "excluded_memberships f = filter (\<lambda>m. fm_state m = EXCLUDED) (fz_memberships f)"

definition coverage_denominator :: "matchweek_freeze \<Rightarrow> nat" where
  "coverage_denominator f = length (target_matches f)"

definition withdrawn_fixture_ids :: "matchweek_freeze \<Rightarrow> string list" where
  "withdrawn_fixture_ids f =
     sorted_set (map ae_subject_id
       (filter (\<lambda>e. ae_disposition e = WITHDRAWN \<and> ae_fixture_id e \<noteq> None) (fz_appendix f)))"

text \<open>The row of the header query: the Matchweek with its cutoff and its freeze record.\<close>

definition freeze_headers :: "mw_store \<Rightarrow> string \<Rightarrow> (matchweek_row \<times> mw_cutoff \<times> freeze_row) list" where
  "freeze_headers st mid =
     [(m, cr_cutoff c, z). m \<leftarrow> ms_matchweeks st, mr_id m = mid,
        c \<leftarrow> ms_cutoffs st, co_matchweek_id (cr_cutoff c) = mr_id m,
        z \<leftarrow> ms_freezes st, zr_matchweek_id z = mr_id m]"

text \<open>\<open>_load_freeze\<close>\<close>

definition load_freeze :: "mw_hasher \<Rightarrow> string \<Rightarrow> mw_store \<Rightarrow> (mw_error, matchweek_freeze option) res" where
  "load_freeze H mid st =
     (case freeze_headers st mid of
        [] \<Rightarrow> Inr None
      | (m, c, z) # _ \<Rightarrow>
          bindR (cutoff_init H (c\<lparr>co_matchweek_id := mid\<rparr>)) (\<lambda>cutoff.
          bindR (window_for_friday (DayText (mr_friday m))) (\<lambda>w.
          bindR (mapR (membership_from_row H)
            (sort_key br_id (filter (\<lambda>r. br_matchweek_id r = mid) (ms_memberships st)))) (\<lambda>memberships.
          bindR (mapR (appendix_from_row H)
            (sort_key (\<lambda>r. (pr_observed_at r, pr_id r))
              (filter (\<lambda>r. pr_matchweek_id r = mid) (ms_appendix st)))) (\<lambda>appendix.
          Inr (Some \<lparr>fz_window = w, fz_season = mr_season m, fz_cutoff = cutoff,
                     fz_memberships = memberships, fz_snapshot_digest = zr_snapshot_digest z,
                     fz_membership_digest = zr_membership_digest z,
                     fz_revision_digest = zr_revision_digest z, fz_appendix = appendix\<rparr>))))))"

text \<open>\<open>read_frozen_matchweek\<close>\<close>

definition read_frozen_matchweek ::
  "mw_hasher \<Rightarrow> day_arg \<Rightarrow> string \<Rightarrow> mw_store \<Rightarrow> (mw_error, matchweek_freeze) res" where
  "read_frozen_matchweek H friday season st =
     bindR (date_value friday) (\<lambda>n.
     bindR (load_freeze H (matchweek_id H season n) st) (\<lambda>found.
     case found of
       None \<Rightarrow> Inl (MatchweekError ''MV-T05-MATCHWEEK_NOT_FROZEN'' ''The requested Matchweek is not frozen.'')
     | Some f \<Rightarrow> Inr f))"

end
