(* ===== verification/Matchweek_Publish.thy ===== *)
theory Matchweek_Publish
  imports Matchweek_Freeze
begin

text \<open>
  \<open>freeze_matchweek\<close> of \<open>matchweek.py\<close> with the two artifacts it publishes, the Snapshot Manifest over
  them, and the transaction that writes the rows of the freeze.
\<close>

section \<open>The artifact store as a parameter\<close>

text \<open>
  What the module asks of \<open>ArtifactStore\<close>: whether a content is stored (an error when not), the digest
  a Snapshot Manifest is published under, the content of a digest, and the identity and artifact
  digests of a verified manifest.
\<close>

record snapshot_request =
  sq_snapshot_id :: string
  sq_matchweek_id :: string
  sq_cutoff_id :: string
  sq_version_manifest_id :: string
  sq_cutoff_utc :: string
  sq_artifacts :: "string list"
  sq_version :: version_identity
  sq_created :: string
  sq_verified_at :: "string option"

record artifact_env =
  store_content :: "string \<Rightarrow> mw_error option"
  store_snapshot :: "snapshot_request \<Rightarrow> (mw_error, string) res"
  read_content :: "string \<Rightarrow> (mw_error, string) res"
  verify_snapshot :: "string \<Rightarrow> (mw_error, string \<times> string list) res"

definition publish_artifactA :: "mw_hasher \<Rightarrow> artifact_env \<Rightarrow> string \<Rightarrow> string mw_action" where
  "publish_artifactA H env content st =
     (case store_content env content of
        Some e \<Rightarrow> (Inl e, st)
      | None \<Rightarrow> (let d = sha_text H content in
          (Inr d, st\<lparr>ms_artifacts := List.insert d (ms_artifacts st)\<rparr>)))"

definition publish_manifestA :: "artifact_env \<Rightarrow> snapshot_request \<Rightarrow> string mw_action" where
  "publish_manifestA env request st =
     (case store_snapshot env request of
        Inl e \<Rightarrow> (Inl e, st)
      | Inr d \<Rightarrow> (Inr d, st\<lparr>ms_snapshots := List.insert d (ms_snapshots st)\<rparr>))"

section \<open>The revision snapshot\<close>

definition support_dict :: "source_support \<Rightarrow> pyval" where
  "support_dict s = PDict
     [(''content_sha256'', PStr (sp_content s)),
      (''retrieved_at_utc'', PStr (sp_retrieved_at s)),
      (''source_published_at_utc'', opt_str (sp_published_at s)),
      (''source_class'', PStr (sp_class s)),
      (''source_key'', PStr (sp_key s))]"

definition support_dicts :: "revision_candidate \<Rightarrow> pyval" where
  "support_dicts c =
     PList (map support_dict
       (sort_key (\<lambda>s. (sp_retrieved_at s, sp_class s, sp_key s, sp_content s)) (cd_supports c)))"

text \<open>\<open>_revision_snapshot_bytes\<close>\<close>

definition revision_snapshot_bytes :: "revision_candidate list \<Rightarrow> int \<Rightarrow> string" where
  "revision_snapshot_bytes candidates as_of =
     json_text (PDict
       [(''as_of_utc'', PStr (iso_text as_of)),
        (''candidates'', PList (map (\<lambda>c. PDict
           [(''away_team_name'', PStr (cd_away c)), (''fixture_id'', PStr (cd_fixture_id c)),
            (''home_team_name'', PStr (cd_home c)), (''identity_state'', PStr (cd_identity_state c)),
            (''kickoff_utc'', opt_str (cd_kickoff_utc c)), (''league_key'', PStr (cd_league_key c)),
            (''revision_digest'', PStr (cd_revision_digest c)),
            (''revision_id'', PStr (cd_revision_id c)), (''season'', PStr (cd_season c)),
            (''supports'', support_dicts c)])
           (filter (\<lambda>c. instant_at (cd_observed_at c) \<le> as_of)
             (sort_key cd_revision_id candidates)))),
        (''schema_version'', PInt 1)])"

text \<open>\<open>_source_snapshot_digest\<close>\<close>

definition source_snapshot_digest :: "mw_hasher \<Rightarrow> revision_candidate list \<Rightarrow> string" where
  "source_snapshot_digest H candidates =
     mw_digest H (PList (map (\<lambda>c. PDict
       [(''fixture_id'', PStr (cd_fixture_id c)), (''identity_state'', PStr (cd_identity_state c)),
        (''revision_digest'', PStr (cd_revision_digest c)), (''revision_id'', PStr (cd_revision_id c)),
        (''supports'', support_dicts c)])
       (sort_key cd_revision_id candidates)))"

section \<open>The rows of a freeze\<close>

definition matchweek_to_row :: "mw_window \<Rightarrow> string \<Rightarrow> string \<Rightarrow> string \<Rightarrow> matchweek_row" where
  "matchweek_to_row w mid season frozen_at =
     \<lparr>mr_id = mid, mr_season = season, mr_friday = iso_date (friday_local w),
      mr_start = window_start_utc w, mr_end = window_end_utc w, mr_created = frozen_at\<rparr>"

definition insert_membershipR :: "string \<Rightarrow> string \<Rightarrow> mw_store \<Rightarrow> frozen_membership \<Rightarrow> (mw_error, mw_store) res" where
  "insert_membershipR mid frozen_at st m =
     bindR (mw_add_identifier ''frozen_membership'' (fm_id m) st) (\<lambda>st1.
     insert_membership (membership_to_row mid frozen_at m) st1)"

text \<open>\<open>_insert_freeze\<close>\<close>

definition insert_freeze ::
  "mw_window \<Rightarrow> string \<Rightarrow> mw_cutoff \<Rightarrow> frozen_membership list \<Rightarrow> string \<Rightarrow> string \<Rightarrow> string \<Rightarrow> string \<Rightarrow> mw_update" where
  "insert_freeze w season cutoff memberships snapshot_digest membership_digest revision_digest frozen_at st =
     (let mid = co_matchweek_id cutoff in
      bindR (mw_add_identifier ''matchweek'' mid st) (\<lambda>st1.
      bindR (mw_add_identifier ''research_cutoff'' (co_id cutoff) st1) (\<lambda>st2.
      bindR (insert_matchweek (matchweek_to_row w mid season frozen_at) st2) (\<lambda>st3.
      bindR (insert_cutoff \<lparr>cr_cutoff = cutoff, cr_created = frozen_at\<rparr> st3) (\<lambda>st4.
      bindR (foldR (insert_membershipR mid frozen_at) st4 memberships) (\<lambda>st5.
      insert_freeze_record
        \<lparr>zr_matchweek_id = mid, zr_cutoff_id = co_id cutoff, zr_snapshot_digest = snapshot_digest,
         zr_membership_digest = membership_digest, zr_revision_digest = revision_digest,
         zr_frozen_at = frozen_at\<rparr> st5))))))"

section \<open>freeze_matchweek\<close>

text \<open>What is computed before anything is published: the observation time, the cutoff, the memberships
  and the manifest.\<close>

record freeze_plan =
  pl_candidates :: "revision_candidate list"
  pl_as_of :: int
  pl_cutoff :: mw_cutoff
  pl_memberships :: "frozen_membership list"
  pl_manifest :: membership_manifest

definition observation_time :: "time_arg option \<Rightarrow> string list \<Rightarrow> (mw_error, int) res" where
  "observation_time as_of observed =
     (case as_of of None \<Rightarrow> Inr (max_instant observed)
      | Some t \<Rightarrow> bindR (mw_canonical_utc t) mw_parse_utc)"

definition membership_kickoff_key :: "frozen_membership \<Rightarrow> int \<times> string" where
  "membership_kickoff_key m = (opt_instant (fm_kickoff_utc m), fm_subject_id m)"

definition plan_freeze ::
  "mw_hasher \<Rightarrow> source_tables \<Rightarrow> mw_window \<Rightarrow> string \<Rightarrow> time_arg option \<Rightarrow> (mw_error, freeze_plan) res" where
  "plan_freeze H t w season as_of_utc =
     (let mid = matchweek_id H season (friday_local w) in
      bindR (load_revision_candidates t season) (\<lambda>candidates.
      bindR (guardR (candidates \<noteq> []) (MatchweekError ''MV-T05-NO_FIXTURE_REVISIONS''
        ''No T06 Fixture Revisions are available for the requested season.'')) (\<lambda>_.
      bindR (observation_time as_of_utc (map cd_observed_at candidates)) (\<lambda>as_of.
      bindR (derive_cutoff candidates w as_of) (\<lambda>(cutoff, _).
      bindR (build_memberships H t mid w season cutoff candidates) (\<lambda>memberships.
      let included = filter (\<lambda>m. fm_state m = INCLUDED) memberships in
      bindR (guardR (included \<noteq> []) (MatchweekError ''MV-T05-NO_INCLUDED_MEMBERSHIP''
        ''The derived Research Cutoff produced no INCLUDED Target Match.'')) (\<lambda>_.
      let earliest = first_min membership_kickoff_key included in
      bindR (guardR (opt_instant (fm_kickoff_utc earliest) - lead_time_us = cutoff)
        (MatchweekError ''MV-T05-CUTOFF_NOT_STABLE''
          ''The Matchweek Research Cutoff did not stabilize at six hours before the earliest INCLUDED kickoff.'')) (\<lambda>_.
      bindR (cutoff_init H
        \<lparr>co_id = cutoff_id H mid, co_matchweek_id = mid, co_utc = iso_text cutoff,
         co_earliest_fixture_id = fm_subject_id earliest,
         co_earliest_kickoff_utc = (case fm_kickoff_utc earliest of None \<Rightarrow> [] | Some k \<Rightarrow> k),
         co_lead_time_seconds = lead_time_seconds, co_digest = []\<rparr>) (\<lambda>c.
      bindR (manifest_init
        \<lparr>mm_matchweek_id = mid, mm_season = season, mm_friday_local = iso_date (friday_local w),
         mm_window_start = window_start_utc w, mm_window_end = window_end_utc w,
         mm_cutoff_id = co_id c, mm_cutoff_utc = co_utc c, mm_memberships = memberships,
         mm_rules_version = rules_name, mm_schema_version = manifest_schema_version\<rparr>) (\<lambda>m.
      Inr \<lparr>pl_candidates = candidates, pl_as_of = as_of, pl_cutoff = c, pl_memberships = memberships,
           pl_manifest = m\<rparr>))))))))))"

definition created_or_cutoff :: "time_arg option \<Rightarrow> mw_cutoff \<Rightarrow> time_arg" where
  "created_or_cutoff created c =
     (case created of None \<Rightarrow> TimeText (co_utc c)
      | Some t \<Rightarrow> if t = TimeText [] then TimeText (co_utc c) else t)"

definition snapshot_identifiers :: "mw_hasher \<Rightarrow> mw_cutoff \<Rightarrow> (mw_error, unit list) res" where
  "snapshot_identifiers H c =
     mapR need_uuid [snapshot_id H (co_matchweek_id c), co_matchweek_id c, co_id c, version_manifest_id H]"

definition snapshot_of ::
  "mw_hasher \<Rightarrow> mw_cutoff \<Rightarrow> string list \<Rightarrow> version_identity \<Rightarrow> string \<Rightarrow> string option \<Rightarrow> snapshot_request" where
  "snapshot_of H c artifacts version created verified_at =
     \<lparr>sq_snapshot_id = snapshot_id H (co_matchweek_id c), sq_matchweek_id = co_matchweek_id c,
      sq_cutoff_id = co_id c, sq_version_manifest_id = version_manifest_id H,
      sq_cutoff_utc = co_utc c, sq_artifacts = sort artifacts, sq_version = version,
      sq_created = created, sq_verified_at = verified_at\<rparr>"

definition freeze_matchweek ::
  "mw_hasher \<Rightarrow> artifact_env \<Rightarrow> day_arg \<Rightarrow> string \<Rightarrow> time_arg option \<Rightarrow> time_arg option \<Rightarrow> string option \<Rightarrow>
   matchweek_freeze mw_action" where
  "freeze_matchweek H env friday season as_of_utc created_at_utc verified_at =
     bindA (readA (\<lambda>st. guardR (ms_writable st)
       (MwPermissionError ''Matchweek freezing requires a healthy writable store.''))) (\<lambda>_.
     bindA (liftA (window_for_friday friday)) (\<lambda>w.
     let mid = matchweek_id H season (friday_local w) in
     bindA (readA (load_freeze H mid)) (\<lambda>existing.
     case existing of Some f \<Rightarrow> liftA (Inr f) | None \<Rightarrow>
     bindA (readA (\<lambda>st. plan_freeze H (ms_source st) w season as_of_utc)) (\<lambda>p.
     bindA (publish_artifactA H env (manifest_bytes H (pl_manifest p))) (\<lambda>membership_digest.
     bindA (publish_artifactA H env (revision_snapshot_bytes (pl_candidates p) (pl_as_of p))) (\<lambda>revision_digest.
     bindA (ensure_membership_version H) (\<lambda>version.
     bindA (liftA (snapshot_identifiers H (pl_cutoff p))) (\<lambda>_.
     bindA (liftA (mw_canonical_utc (created_or_cutoff created_at_utc (pl_cutoff p)))) (\<lambda>frozen_at.
     bindA (publish_manifestA env (snapshot_of H (pl_cutoff p) [membership_digest, revision_digest] version frozen_at verified_at)) (\<lambda>snapshot_digest.
     bindA (transactionA (insert_freeze w season (pl_cutoff p) (pl_memberships p) snapshot_digest
       membership_digest revision_digest frozen_at)) (\<lambda>_.
     bindA (readA (load_freeze H mid)) (\<lambda>result.
     case result of
       None \<Rightarrow> liftA (Inl (MatchweekError ''MV-T05-FREEZE_NOT_PUBLISHED''
         ''Frozen Matchweek publication was not durable.''))
     | Some f \<Rightarrow> liftA (Inr f)))))))))))))"

end
