(* ===== verification/Matchweek_Admission.thy ===== *)
theory Matchweek_Admission
  imports Matchweek_Publish
begin

text \<open>
  The fixed scopes of leagues (\<open>active_scope.py\<close>) and the admission of the retained fixtures of the
  six-league scope (\<open>ActiveFixtureAdmission\<close> and \<open>load_active_fixture_admission\<close> of \<open>matchweek.py\<close>).
\<close>

section \<open>Scopes\<close>

definition five_keys :: "string list" where
  "five_keys = [''premier_league'', ''serie_a'', ''la_liga'', ''bundesliga'', ''ligue_1'']"

definition six_keys :: "string list" where
  "six_keys = five_keys @ [''liga_portugal'']"

record active_scope =
  as_contract_id :: string
  as_version :: pyval
  as_season :: string
  as_league_keys :: "string list"
  as_digest :: string

definition scope_digest :: "mw_hasher \<Rightarrow> active_scope \<Rightarrow> string" where
  "scope_digest H s = ''sha256:'' @ mw_digest H (PDict
     [(''contract_id'', PStr (as_contract_id s)), (''version'', as_version s),
      (''season'', PStr (as_season s)), (''league_keys'', str_list (as_league_keys s))])"

definition active_scope_init :: "mw_hasher \<Rightarrow> active_scope \<Rightarrow> (mw_error, active_scope) res" where
  "active_scope_init H s =
     (let unsupported = MwValueError ''Unsupported active-scope version.'' in
      case as_version s of
        PInt v \<Rightarrow>
          bindR (guardR (v \<in> {1, 2, 3}) unsupported) (\<lambda>_.
          let keys = (if v = 1 then six_keys @ [''belgian_pro_league''] else if v = 2 then six_keys else five_keys) in
          bindR (guardR (as_contract_id s = ''matchvet-active-scope-v'' @ int_text v \<and> as_season s = ''2026-27'' \<and>
              as_league_keys s = keys)
            (MwValueError ''Active scope must match its fixed identity, season and ordered leagues.'')) (\<lambda>_.
          bindR (guardR (as_digest s = [] \<or> as_digest s = scope_digest H s)
            (MwValueError ''Active-scope digest does not match its canonical contract.'')) (\<lambda>_.
          Inr (s\<lparr>as_digest := scope_digest H s\<rparr>))))
      | _ \<Rightarrow> Inl unsupported)"

definition fixed_scope :: "mw_hasher \<Rightarrow> string \<Rightarrow> int \<Rightarrow> string list \<Rightarrow> active_scope" where
  "fixed_scope H cid v keys =
     (let s = \<lparr>as_contract_id = cid, as_version = PInt v, as_season = ''2026-27'', as_league_keys = keys, as_digest = []\<rparr>
      in s\<lparr>as_digest := scope_digest H s\<rparr>)"

definition legacy_seven_scope :: "mw_hasher \<Rightarrow> active_scope" where
  "legacy_seven_scope H = fixed_scope H ''matchvet-active-scope-v1'' 1 (six_keys @ [''belgian_pro_league''])"

definition successor_five_scope :: "mw_hasher \<Rightarrow> active_scope" where
  "successor_five_scope H = fixed_scope H ''matchvet-active-scope-v3'' 3 five_keys"

definition successor_six_scope :: "mw_hasher \<Rightarrow> active_scope" where
  "successor_six_scope H = fixed_scope H ''matchvet-active-scope-v2'' 2 six_keys"

lemmas scope_defs = legacy_seven_scope_def successor_five_scope_def successor_six_scope_def fixed_scope_def

lemma version_texts: "int_text 1 = ''1''" "int_text 2 = ''2''" "int_text 3 = ''3''"
  by code_simp+

text \<open>There are no other scopes than the three.\<close>

lemma active_scopes:
  assumes "active_scope_init H s = Inr s'"
  shows "s' \<in> {legacy_seven_scope H, successor_six_scope H, successor_five_scope H}"
proof -
  from assms obtain v where v: "as_version s = PInt v" "v \<in> {1, 2, 3}"
    and s: "as_contract_id s = ''matchvet-active-scope-v'' @ int_text v" "as_season s = ''2026-27''"
      "as_league_keys s = (if v = 1 then six_keys @ [''belgian_pro_league''] else if v = 2 then six_keys else five_keys)"
    and s': "s' = s\<lparr>as_digest := scope_digest H s\<rparr>"
    by (auto simp: active_scope_init_def Let_def guardR_def bindR_def split: pyval.splits if_splits sum.splits)
  show ?thesis
    using v s by (cases s) (auto simp: s' scope_defs Let_def scope_digest_def version_texts)
qed

lemma scope_accepted:
  "s \<in> {legacy_seven_scope H, successor_six_scope H, successor_five_scope H} \<Longrightarrow> active_scope_init H s = Inr s"
  by (auto simp: active_scope_init_def scope_defs scope_digest_def version_texts Let_def)

section \<open>Admission\<close>

record fixture_admission =
  fa_scope :: active_scope
  fa_candidates :: "revision_candidate list"
  fa_unresolved :: "unresolved_fixture list"
  fa_contract_id :: string

definition admission_fixture_ids :: "fixture_admission \<Rightarrow> string list" where
  "admission_fixture_ids a = sorted_set (map cd_fixture_id (fa_candidates a))"

definition load_active_fixture_admission ::
  "mw_hasher \<Rightarrow> source_tables \<Rightarrow> active_scope \<Rightarrow> (mw_error, fixture_admission) res" where
  "load_active_fixture_admission H t scope =
     bindR (guardR (scope = successor_six_scope H)
       (MwValueError ''Active fixture admission requires the exact six scope contract.'')) (\<lambda>_.
     bindR (load_revision_candidates t (as_season scope)) (\<lambda>candidates.
     bindR (load_unresolved_fixtures t (as_season scope)) (\<lambda>unresolved.
     Inr \<lparr>fa_scope = scope,
          fa_candidates = filter (\<lambda>c. cd_league_key c \<in> set (as_league_keys scope)) candidates,
          fa_unresolved = filter (\<lambda>u. uf_league_key u \<in> set (as_league_keys scope)) unresolved,
          fa_contract_id = ''t05-active-fixture-admission-v2''\<rparr>)))"

text \<open>An admission holds every fixture of the six leagues that the season has, and no other.\<close>

lemma admission_exact:
  assumes "load_active_fixture_admission H t scope = Inr a"
  obtains candidates where "load_revision_candidates t ''2026-27'' = Inr candidates" "scope = successor_six_scope H"
    "set (admission_fixture_ids a) = {cd_fixture_id c | c. c \<in> set candidates \<and> cd_league_key c \<in> set six_keys}"
    "sorted (admission_fixture_ids a)" "distinct (admission_fixture_ids a)"
proof -
  from assms obtain candidates where c: "load_revision_candidates t (as_season scope) = Inr candidates" "scope = successor_six_scope H"
    "fa_candidates a = filter (\<lambda>c. cd_league_key c \<in> set (as_league_keys scope)) candidates"
    by (auto simp: load_active_fixture_admission_def)
  then have "as_season scope = ''2026-27''" "as_league_keys scope = six_keys" by (simp_all add: scope_defs Let_def)
  with c show thesis by (intro that [of candidates]) (auto simp: admission_fixture_ids_def)
qed

end
