(* ===== verification/Run_Preflight.thy ===== *)
theory Run_Preflight
  imports Py_Text
begin

text \<open>
  The resource preflight of \<open>runs.py\<close>: the budgets of a run, what an estimate and an observation
  may hold, and the decision that admits a run and fixes its CPU concurrency. The lemmas show the
  decision is exactly the conjunction of the limits and that every admitted run stays within the
  settled budget.
\<close>

section \<open>Budgets, estimates, observations\<close>

definition mib :: int where "mib = 1024 * 1024"
definition gib :: int where "gib = 1024 * mib"

record resource_budget =
  managed_storage_cap_bytes :: int
  minimum_free_space_bytes :: int
  target_memory_bytes :: int
  absolute_memory_bytes :: int
  minimum_available_memory_bytes :: int
  target_duration_seconds :: int
  hard_duration_seconds :: int
  maximum_cpu_heavy_operations :: int
  reserved_cpus :: int
  routine_network_bytes :: int
  historical_network_bytes :: int

definition cleanup_trigger_bytes :: "resource_budget \<Rightarrow> int" where
  "cleanup_trigger_bytes b = managed_storage_cap_bytes b * 4 div 5"

definition cleanup_target_bytes :: "resource_budget \<Rightarrow> int" where
  "cleanup_target_bytes b = managed_storage_cap_bytes b * 3 div 5"

definition settled_budget :: resource_budget where
  "settled_budget =
     \<lparr>managed_storage_cap_bytes = 1536 * mib, minimum_free_space_bytes = 3 * gib,
      target_memory_bytes = gib, absolute_memory_bytes = 1536 * mib,
      minimum_available_memory_bytes = 1536 * mib, target_duration_seconds = 7200,
      hard_duration_seconds = 14400, maximum_cpu_heavy_operations = 2, reserved_cpus = 1,
      routine_network_bytes = 250 * mib, historical_network_bytes = 2 * gib\<rparr>"

record resource_estimate =
  storage_growth_bytes :: int
  peak_memory_bytes :: int
  duration_seconds :: int
  network_bytes :: int
  cpu_heavy_operations :: int

text \<open>The two \<open>__post_init__\<close> checks; \<open>Inl\<close> is the message of the \<open>ValueError\<close>.\<close>

definition estimate_init :: "resource_estimate \<Rightarrow> (string, resource_estimate) res" where
  "estimate_init e =
     (if min (storage_growth_bytes e) (min (peak_memory_bytes e)
           (min (duration_seconds e) (network_bytes e))) < 0
      then Inl ''Resource estimates cannot be negative.''
      else if cpu_heavy_operations e < 1
      then Inl ''A run requires at least one foreground CPU operation.''
      else Inr e)"

record resource_observation =
  managed_storage_bytes :: int
  free_space_bytes :: int
  available_memory_bytes :: int
  available_cpus :: int
  memory_pressure :: bool
  thermal_pressure :: bool
  active_coordinators :: int

definition observation_init :: "resource_observation \<Rightarrow> (string, resource_observation) res" where
  "observation_init x =
     (if min (managed_storage_bytes x) (min (free_space_bytes x)
           (min (available_memory_bytes x) (active_coordinators x))) < 0
      then Inl ''Resource observations cannot be negative.''
      else if available_cpus x < 1 then Inl ''At least one available CPU must be reported.''
      else Inr x)"

definition default_resource_estimate :: resource_estimate where
  "default_resource_estimate =
     \<lparr>storage_growth_bytes = mib, peak_memory_bytes = 128 * mib, duration_seconds = 1,
      network_bytes = 0, cpu_heavy_operations = 1\<rparr>"

section \<open>The decision\<close>

record run_error =
  re_status :: string
  re_code :: string
  re_explanation :: string
  re_last_checkpoint :: string
  re_reuse_state :: string
  re_recovery :: string
  re_checkpoint_at :: "string option"

record preflight_result =
  pf_accepted :: bool
  pf_budget :: resource_budget
  pf_concurrency :: int
  pf_warnings :: "string list"
  pf_error :: "run_error option"

definition refusal :: "string \<Rightarrow> string \<Rightarrow> resource_budget \<Rightarrow> preflight_result" where
  "refusal rcode explanation b =
     \<lparr>pf_accepted = False, pf_budget = b, pf_concurrency = 0, pf_warnings = [],
      pf_error = Some
        \<lparr>re_status = ''REFUSED'', re_code = rcode, re_explanation = explanation,
         re_last_checkpoint = ''none'', re_reuse_state = ''NONE'', re_recovery = ''matchvet run'',
         re_checkpoint_at = None\<rparr>\<rparr>"

text \<open>The part of \<open>preflight_resources\<close> after the refusals: concurrency and warnings.\<close>

definition cpu_capacity :: "resource_observation \<Rightarrow> resource_budget \<Rightarrow> int" where
  "cpu_capacity x b = max 1 (available_cpus x - reserved_cpus b)"

definition admitted_concurrency ::
  "resource_estimate \<Rightarrow> resource_observation \<Rightarrow> resource_budget \<Rightarrow> int" where
  "admitted_concurrency e x b =
     (let c0 = min (cpu_heavy_operations e) (cpu_capacity x b);
          c1 = (if memory_pressure x \<or> thermal_pressure x then min c0 1 else c0)
      in if peak_memory_bytes e > target_memory_bytes b then min c1 1 else c1)"

definition admitted_warnings ::
  "resource_estimate \<Rightarrow> resource_observation \<Rightarrow> resource_budget \<Rightarrow> string list" where
  "admitted_warnings e x b =
     (if managed_storage_bytes x + storage_growth_bytes e \<ge> cleanup_trigger_bytes b
      then [''Projected storage reaches the 80% cleanup threshold; disposable cache cleanup '' @
            ''should target 60% of the normal cap.''] else []) @
     (if peak_memory_bytes e > target_memory_bytes b
      then [''Projected peak memory exceeds the 1 GiB target.''] else []) @
     (if duration_seconds e > target_duration_seconds b
      then [''Projected execution exceeds the two-hour target.''] else []) @
     (if memory_pressure x \<or> thermal_pressure x
      then [''CPU concurrency reduced to one because of '' @
            (if memory_pressure x then ''memory pressure'' else ''thermal pressure'') @ ''.'']
      else if min (cpu_heavy_operations e) (cpu_capacity x b) < cpu_heavy_operations e
      then [''CPU concurrency reduced to reserve one CPU for Android.''] else [])"

definition preflight_resources ::
  "resource_estimate \<Rightarrow> resource_observation \<Rightarrow> resource_budget \<Rightarrow> preflight_result" where
  "preflight_resources e x b =
     (if active_coordinators x > 0
      then refusal ''MV-PREFLIGHT-COORDINATOR_BUSY''
             ''Another foreground MatchVet coordinator is active.'' b
      else if managed_storage_bytes x + storage_growth_bytes e > managed_storage_cap_bytes b
      then refusal ''MV-PREFLIGHT-STORAGE_CAP''
             ''Projected managed storage exceeds the 1.5 GiB normal cap.'' b
      else if free_space_bytes x - storage_growth_bytes e < minimum_free_space_bytes b
      then refusal ''MV-PREFLIGHT-FREE_SPACE''
             ''Projected work would leave less than 3 GiB of device free space.'' b
      else if peak_memory_bytes e > absolute_memory_bytes b
      then refusal ''MV-PREFLIGHT-MEMORY_LIMIT''
             ''Projected peak memory exceeds the 1.5 GiB absolute process budget.'' b
      else if available_memory_bytes x < minimum_available_memory_bytes b
      then refusal ''MV-PREFLIGHT-AVAILABLE_MEMORY''
             ''Available system memory is below the 1.5 GiB start threshold.'' b
      else if duration_seconds e > hard_duration_seconds b
      then refusal ''MV-PREFLIGHT-TIME_HARD_LIMIT''
             ''Projected execution exceeds the four-hour hard limit.'' b
      else if network_bytes e > routine_network_bytes b
      then refusal ''MV-PREFLIGHT-NETWORK_LIMIT''
             ''Projected routine network use exceeds 250 MiB.'' b
      else if cpu_heavy_operations e > maximum_cpu_heavy_operations b
      then refusal ''MV-PREFLIGHT-CONCURRENCY_LIMIT''
             ''Projected CPU-heavy concurrency exceeds the two-operation limit.'' b
      else \<lparr>pf_accepted = True, pf_budget = b, pf_concurrency = admitted_concurrency e x b,
            pf_warnings = admitted_warnings e x b, pf_error = None\<rparr>)"

section \<open>What an accepted preflight means\<close>

definition within_budget :: "resource_estimate \<Rightarrow> resource_observation \<Rightarrow> resource_budget \<Rightarrow> bool" where
  "within_budget e x b \<longleftrightarrow>
     active_coordinators x \<le> 0 \<and>
     managed_storage_bytes x + storage_growth_bytes e \<le> managed_storage_cap_bytes b \<and>
     minimum_free_space_bytes b \<le> free_space_bytes x - storage_growth_bytes e \<and>
     peak_memory_bytes e \<le> absolute_memory_bytes b \<and>
     minimum_available_memory_bytes b \<le> available_memory_bytes x \<and>
     duration_seconds e \<le> hard_duration_seconds b \<and>
     network_bytes e \<le> routine_network_bytes b \<and>
     cpu_heavy_operations e \<le> maximum_cpu_heavy_operations b"

lemma refusal_not_accepted [simp]: "\<not> pf_accepted (refusal c m b)" "pf_concurrency (refusal c m b) = 0"
  "pf_error (refusal c m b) \<noteq> None"
  by (simp_all add: refusal_def)

lemma preflight_accepted_iff: "pf_accepted (preflight_resources e x b) \<longleftrightarrow> within_budget e x b"
  unfolding preflight_resources_def within_budget_def by (auto simp: not_less not_le)

lemma refusal_branch:
  assumes "\<not> P \<Longrightarrow> \<exists>c m. r = refusal c m b"
  shows "\<exists>c m. (if P then refusal c' m' b else r) = refusal c m b"
  using assms by (cases P) auto

lemma preflight_refused: "\<not> within_budget e x b \<Longrightarrow> \<exists>c m. preflight_resources e x b = refusal c m b"
  unfolding preflight_resources_def
  by (intro refusal_branch) (simp add: within_budget_def not_less not_le)

lemma preflight_cases:
  obtains (refused) c m where "\<not> within_budget e x b" "preflight_resources e x b = refusal c m b"
  | (admitted) "within_budget e x b"
      "pf_concurrency (preflight_resources e x b) = admitted_concurrency e x b"
      "pf_warnings (preflight_resources e x b) = admitted_warnings e x b"
      "pf_error (preflight_resources e x b) = None"
proof (cases "within_budget e x b")
  case True
  then show thesis
    by (intro admitted) (simp_all add: preflight_resources_def within_budget_def not_less not_le)
next
  case False
  then show thesis using refused preflight_refused by blast
qed

lemma preflight_budget [simp]: "pf_budget (preflight_resources e x b) = b"
  by (simp add: preflight_resources_def refusal_def)

lemma admitted_concurrency_bounds:
  assumes "1 \<le> cpu_heavy_operations e"
  shows "1 \<le> admitted_concurrency e x b" "admitted_concurrency e x b \<le> cpu_heavy_operations e"
    "admitted_concurrency e x b \<le> cpu_capacity x b"
  using assms by (auto simp: admitted_concurrency_def cpu_capacity_def Let_def)

lemma admitted_concurrency_one:
  assumes "1 \<le> cpu_heavy_operations e"
    and "memory_pressure x \<or> thermal_pressure x \<or> target_memory_bytes b < peak_memory_bytes e"
  shows "admitted_concurrency e x b = 1"
  using assms by (auto simp: admitted_concurrency_def cpu_capacity_def Let_def)

text \<open>A run is admitted exactly when every limit of the budget holds. An admitted run gets at
  least one CPU-heavy operation and no more than it asked for and the budget allows, leaves the
  reserved CPU free whenever there is another one, and runs one operation at a time under memory
  or thermal pressure or above the memory target; a refused run gets no concurrency and an error.\<close>

lemma preflight_decision:
  assumes "estimate_init e = Inr e" and "observation_init x = Inr x"
  shows "let r = preflight_resources e x b in
    (pf_accepted r \<longleftrightarrow> within_budget e x b) \<and>
    (if pf_accepted r
     then 1 \<le> pf_concurrency r \<and> pf_concurrency r \<le> cpu_heavy_operations e \<and>
       pf_concurrency r \<le> maximum_cpu_heavy_operations b \<and>
       (available_cpus x \<le> reserved_cpus b \<or>
        pf_concurrency r \<le> available_cpus x - reserved_cpus b) \<and>
       (memory_pressure x \<or> thermal_pressure x \<or> target_memory_bytes b < peak_memory_bytes e \<longrightarrow>
        pf_concurrency r = 1) \<and> pf_error r = None
     else pf_concurrency r = 0 \<and> pf_error r \<noteq> None)"
proof -
  have n: "1 \<le> cpu_heavy_operations e"
    using assms(1) by (simp add: estimate_init_def split: if_splits)
  show ?thesis
  proof (cases rule: preflight_cases [of e x b])
    case (refused c m)
    then show ?thesis by (simp add: Let_def preflight_accepted_iff)
  next
    case admitted
    moreover have "available_cpus x \<le> reserved_cpus b \<or>
        admitted_concurrency e x b \<le> available_cpus x - reserved_cpus b"
      using admitted_concurrency_bounds(3) [OF n, of x b] by (auto simp: cpu_capacity_def max_def split: if_splits)
    ultimately show ?thesis
      using admitted_concurrency_bounds [OF n, of x b] admitted_concurrency_one [OF n]
      by (simp add: Let_def preflight_accepted_iff within_budget_def)
  qed
qed

text \<open>The settled budget keeps every admitted run within the documented limits: 1.5 GiB of
  managed storage, 3 GiB of free space left, 1.5 GiB of memory, four hours, 250 MiB of network and
  two CPU-heavy operations; the cleanup threshold and its target are 80% and 60% of the cap, in
  whole bytes.\<close>

lemma settled_budget_limits:
  assumes "pf_accepted (preflight_resources e x settled_budget)"
  shows "managed_storage_bytes x + storage_growth_bytes e \<le> 1610612736 \<and>
    3221225472 \<le> free_space_bytes x - storage_growth_bytes e \<and>
    peak_memory_bytes e \<le> 1610612736 \<and> 1610612736 \<le> available_memory_bytes x \<and>
    duration_seconds e \<le> 14400 \<and> network_bytes e \<le> 262144000 \<and> cpu_heavy_operations e \<le> 2 \<and>
    5 * cleanup_trigger_bytes settled_budget \<le> 4 * managed_storage_cap_bytes settled_budget \<and>
    4 * managed_storage_cap_bytes settled_budget < 5 * (cleanup_trigger_bytes settled_budget + 1) \<and>
    5 * cleanup_target_bytes settled_budget \<le> 3 * managed_storage_cap_bytes settled_budget"
  using assms unfolding preflight_accepted_iff
  by (simp add: within_budget_def settled_budget_def mib_def gib_def cleanup_trigger_bytes_def
      cleanup_target_bytes_def)

end
