(* ===== verification/Run_Contract.thy ===== *)
theory Run_Contract
  imports Run_Preflight Store_Columns
begin

text \<open>
  What identifies the work of a run in \<open>runs.py\<close>: the seven phases, the input contract with its
  digests, the keys of the work units and the digest each of them is executed under; and what a
  work unit returns.
\<close>

section \<open>Failures\<close>

text \<open>
  The exceptions that leave the coordinator or are caught in it. \<open>LifecycleError\<close> carries the
  \<open>RunError\<close> and the run it is about; \<open>OtherError\<close> stands for any further exception.
\<close>

datatype run_failure =
    LifecycleError run_error string
  | RunValueError string
  | RunTypeError
  | RunLookupError string
  | ArtifactFailure string string
  | DatabaseFailure string
  | OsFailure string
  | RunAssertion
  | OtherError string

section \<open>Phases\<close>

datatype run_phase =
    PREFLIGHT
  | EVIDENCE_ACQUISITION
  | FROZEN_EVIDENCE_STATE
  | PREFERENCE_VETTING
  | ADVERSARIAL_REVIEW
  | AUDIT_VERIFICATION
  | ATOMIC_PUBLICATION

fun phase_text :: "run_phase \<Rightarrow> string" where
  "phase_text PREFLIGHT = ''preflight''"
| "phase_text EVIDENCE_ACQUISITION = ''evidence_acquisition_and_cutoff_classification''"
| "phase_text FROZEN_EVIDENCE_STATE = ''frozen_evidence_state_construction''"
| "phase_text PREFERENCE_VETTING = ''full_preference_set_vetting''"
| "phase_text ADVERSARIAL_REVIEW = ''adversarial_review_gates_and_ranking''"
| "phase_text AUDIT_VERIFICATION = ''audit_verification''"
| "phase_text ATOMIC_PUBLICATION = ''atomic_report_and_audit_publication''"

definition run_phases :: "run_phase list" where
  "run_phases =
     [PREFLIGHT, EVIDENCE_ACQUISITION, FROZEN_EVIDENCE_STATE, PREFERENCE_VETTING,
      ADVERSARIAL_REVIEW, AUDIT_VERIFICATION, ATOMIC_PUBLICATION]"

text \<open>\<open>RUN_PHASES.index(phase)\<close>\<close>

fun phase_index :: "run_phase \<Rightarrow> nat" where
  "phase_index PREFLIGHT = 0"
| "phase_index EVIDENCE_ACQUISITION = 1"
| "phase_index FROZEN_EVIDENCE_STATE = 2"
| "phase_index PREFERENCE_VETTING = 3"
| "phase_index ADVERSARIAL_REVIEW = 4"
| "phase_index AUDIT_VERIFICATION = 5"
| "phase_index ATOMIC_PUBLICATION = 6"

lemma length_run_phases [simp]: "length run_phases = 7"
  by (simp add: run_phases_def)

lemma phase_index_less [simp]: "phase_index p < 7"
  by (cases p) simp_all

lemma run_phases_index [simp]: "run_phases ! phase_index p = p"
  by (cases p) (simp_all add: run_phases_def)

lemma phase_index_nth [simp]: "i < 7 \<Longrightarrow> phase_index (run_phases ! i) = i"
  by (auto simp: run_phases_def less_Suc_eq numeral_eq_Suc)

lemma phase_index_inj: "phase_index p = phase_index q \<longleftrightarrow> p = q"
  by (metis run_phases_index)

section \<open>The input contract\<close>

definition required_identity_inputs :: "string list" where
  "required_identity_inputs =
     [''source'', ''cutoff'', ''preference_set'', ''policy'', ''model'', ''feature'',
      ''research_rule'', ''canonical_contract'', ''schema'', ''environment'', ''software'']"

text \<open>The two mappings are association lists in the order the code inserts their keys.\<close>

record run_contract =
  rc_identity_values :: "(string \<times> string) list"
  rc_digests :: "(string \<times> string) list"
  rc_artifact_digests :: "string list"
  rc_predecessor_digests :: "string list"

text \<open>\<open>str\<close> of a list of strings, for the message of \<open>from_values\<close>.\<close>

definition list_text :: "string list \<Rightarrow> string" where
  "list_text xs = ''['' @ join '', '' (map repr_text xs) @ '']''"

text \<open>\<open>_require_digest\<close>, \<open>_require_digest_list\<close>\<close>

definition require_digest :: "string \<Rightarrow> string \<Rightarrow> (run_failure, unit) res" where
  "require_digest v lab =
     guardR (sha_shaped v) (RunValueError (lab @ '' digests must be lowercase SHA-256 values.''))"

definition require_digest_list :: "string list \<Rightarrow> string \<Rightarrow> (run_failure, unit) res" where
  "require_digest_list vs lab =
     bindR (guardR (distinct vs) (RunValueError (lab @ '' digests must be unique.''))) (\<lambda>_.
     bindR (mapR (\<lambda>v. require_digest v lab) vs) (\<lambda>_. Inr ()))"

definition value_of :: "(string \<times> string) list \<Rightarrow> string \<Rightarrow> string" where
  "value_of m k = (case map_of m k of None \<Rightarrow> [] | Some v \<Rightarrow> v)"

definition contract_of ::
  "hasher \<Rightarrow> (string \<times> string) list \<Rightarrow> string list \<Rightarrow> string list \<Rightarrow> run_contract" where
  "contract_of H m artifacts predecessors =
     (let vs = map (\<lambda>n. (n, value_of m n)) required_identity_inputs in
      \<lparr>rc_identity_values = vs,
       rc_digests = map (\<lambda>(n, v). (n, sha256_hex H v)) vs @
         [(''artifacts'', digest H (str_list (sort artifacts))),
          (''predecessors'', digest H (str_list (sort predecessors)))],
       rc_artifact_digests = sort artifacts, rc_predecessor_digests = sort predecessors\<rparr>)"

text \<open>\<open>RunInputContract.from_values\<close>; \<open>m\<close> is a mapping, so its keys are distinct.\<close>

definition contract_from_values ::
  "hasher \<Rightarrow> (string \<times> string) list \<Rightarrow> string list \<Rightarrow> string list \<Rightarrow>
   (run_failure, run_contract) res" where
  "contract_from_values H m artifacts predecessors =
     (let missing = sort (filter (\<lambda>n. n \<notin> set (map fst m)) required_identity_inputs);
          unexpected = sort (filter (\<lambda>n. n \<notin> set required_identity_inputs) (map fst m)) in
      bindR (guardR (missing = [] \<and> unexpected = [])
        (RunValueError (''Run input identities must be exact; missing='' @ list_text missing @
          ''; unexpected='' @ list_text unexpected @ ''.''))) (\<lambda>_.
      bindR (require_digest_list artifacts ''artifact'') (\<lambda>_.
      bindR (require_digest_list predecessors ''predecessor'') (\<lambda>_.
      Inr (contract_of H m artifacts predecessors)))))"

text \<open>\<open>to_json\<close>, as the value its text decodes to.\<close>

definition contract_json :: "run_contract \<Rightarrow> pyval" where
  "contract_json c =
     PDict [(''artifact_digests'', str_list (rc_artifact_digests c)),
            (''identity_values'', PDict (map (\<lambda>(k, v). (k, PStr v)) (rc_identity_values c))),
            (''predecessor_digests'', str_list (rc_predecessor_digests c))]"

fun py_strings :: "pyval list \<Rightarrow> string list option" where
  "py_strings [] = Some []"
| "py_strings (PStr s # vs) = map_option (Cons s) (py_strings vs)"
| "py_strings (v # vs) = None"

fun py_string_items :: "(string \<times> pyval) list \<Rightarrow> (string \<times> string) list option" where
  "py_string_items [] = Some []"
| "py_string_items ((k, PStr s) # kvs) = map_option (Cons (k, s)) (py_string_items kvs)"
| "py_string_items ((k, v) # kvs) = None"

definition string_list_of :: "pyval \<Rightarrow> string list option" where
  "string_list_of v = (case v of PList vs \<Rightarrow> py_strings vs | _ \<Rightarrow> None)"

text \<open>\<open>from_stored_json\<close>: \<open>None\<close> is text that is not JSON (a \<open>JSONDecodeError\<close>).\<close>

definition contract_from_stored ::
  "hasher \<Rightarrow> pyval option \<Rightarrow> (run_failure, run_contract) res" where
  "contract_from_stored H stored =
     (case stored of
        None \<Rightarrow> Inl (RunValueError ''Expecting value'')
      | Some (PDict m) \<Rightarrow>
          bindR (case dict_get m ''identity_values'' of
                   PDict kvs \<Rightarrow>
                     (case py_string_items kvs of
                        Some items \<Rightarrow> Inr items
                      | None \<Rightarrow> Inl (RunValueError ''Stored run identity values are malformed.''))
                 | _ \<Rightarrow> Inl (RunValueError ''Stored run identity values are malformed.'')) (\<lambda>items.
          bindR (case string_list_of (dict_get m ''artifact_digests'') of
                   Some xs \<Rightarrow> Inr xs
                 | None \<Rightarrow> Inl (RunValueError ''Stored run artifact digests are malformed.'')) (\<lambda>arts.
          bindR (case string_list_of (dict_get m ''predecessor_digests'') of
                   Some xs \<Rightarrow> Inr xs
                 | None \<Rightarrow> Inl (RunValueError ''Stored run predecessor digests are malformed.'')) (\<lambda>preds.
          contract_from_values H items arts preds)))
      | Some _ \<Rightarrow> Inl (RunValueError ''Stored run input contract must be an object.''))"

definition aggregate_digest :: "hasher \<Rightarrow> run_contract \<Rightarrow> string" where
  "aggregate_digest H c = digest H (PDict (map (\<lambda>(k, v). (k, PStr v)) (rc_digests c)))"

definition contract_names :: "string list" where
  "contract_names = required_identity_inputs @ [''artifacts'', ''predecessors'']"

definition contract_differences :: "run_contract \<Rightarrow> run_contract \<Rightarrow> string list" where
  "contract_differences a b =
     filter (\<lambda>n. value_of (rc_digests a) n \<noteq> value_of (rc_digests b) n) contract_names"

section \<open>Work units\<close>

definition subject_char :: "char \<Rightarrow> char" where
  "subject_char c =
     (if is_digit c \<or> 97 \<le> code c \<and> code c \<le> 122 \<or> 65 \<le> code c \<and> code c \<le> 90 \<or>
         c \<in> {CHR ''_'', CHR ''.'', CHR ''-''} then c else CHR ''_'')"

definition work_key :: "nat \<Rightarrow> run_phase \<Rightarrow> string \<Rightarrow> string" where
  "work_key i p matchweek =
     fixed 2 (i + 1) @ '':'' @ phase_text p @ '':matchweek:'' @ map subject_char matchweek"

definition work_input_digest :: "hasher \<Rightarrow> string \<Rightarrow> string \<Rightarrow> string \<Rightarrow> string" where
  "work_input_digest H contract_digest stable_key predecessor =
     digest H (PDict [(''contract_digest'', PStr contract_digest),
                      (''predecessor_digest'', PStr predecessor),
                      (''stable_key'', PStr stable_key)])"

record work_context =
  wc_run_id :: string
  wc_stable_key :: string
  wc_matchweek :: string
  wc_phase :: run_phase
  wc_attempt :: nat
  wc_mode :: string
  wc_input_digest :: string
  wc_predecessor_digest :: string
  wc_cpu_concurrency :: int

record work_result =
  wr_result_digest :: string
  wr_artifact_digests :: "string list"

definition work_result_init :: "work_result \<Rightarrow> (run_failure, work_result) res" where
  "work_result_init r =
     bindR (require_digest (wr_result_digest r) ''work result'') (\<lambda>_.
     bindR (require_digest_list (wr_artifact_digests r) ''work result artifact'') (\<lambda>_. Inr r))"

definition work_result_for_phase ::
  "hasher \<Rightarrow> run_phase \<Rightarrow> string list \<Rightarrow> (run_failure, work_result) res" where
  "work_result_for_phase H p artifacts =
     work_result_init
       \<lparr>wr_result_digest = sha256_hex H (''matchvet-t04-boundary:'' @ phase_text p),
        wr_artifact_digests = artifacts\<rparr>"

definition work_output_digest :: "hasher \<Rightarrow> work_result \<Rightarrow> string" where
  "work_output_digest H r =
     digest H (PDict [(''artifact_digests'', str_list (wr_artifact_digests r)),
                      (''result_digest'', PStr (wr_result_digest r))])"

lemma work_key_inj: "i < 99 \<Longrightarrow> j < 99 \<Longrightarrow> work_key i p m = work_key j q m \<Longrightarrow> i = j"
proof -
  assume ij: "i < 99" "j < 99" and eq: "work_key i p m = work_key j q m"
  have "take 2 (work_key k r m) = fixed 2 (k + 1)" for k r by (simp add: work_key_def del: fixed.simps)
  then have "num_of (fixed 2 (i + 1)) = num_of (fixed 2 (j + 1))" using eq by metis
  then show "i = j" using ij by (simp add: num_of_fixed del: fixed.simps)
qed

section \<open>Properties of the contract\<close>

lemma contract_from_values_Inr:
  assumes "contract_from_values H m artifacts predecessors = Inr c"
  shows "c = contract_of H m artifacts predecessors"
    "set (map fst m) = set required_identity_inputs"
    "distinct artifacts" "list_all sha_shaped artifacts"
    "distinct predecessors" "list_all sha_shaped predecessors"
proof -
  have d: "distinct vs \<and> list_all sha_shaped vs" if "require_digest_list vs lab = Inr u" for vs lab u
    using that mapR_set_in unfolding require_digest_list_def require_digest_def list_all_iff
    by (fastforce elim!: bindR_InrE)
  from assms show "c = contract_of H m artifacts predecessors"
    "distinct artifacts" "list_all sha_shaped artifacts"
    "distinct predecessors" "list_all sha_shaped predecessors"
    unfolding contract_from_values_def Let_def by (auto dest: d)
  have "filter (\<lambda>n. n \<notin> set (map fst m)) required_identity_inputs = []"
    "filter (\<lambda>n. n \<notin> set required_identity_inputs) (map fst m) = []"
    using assms unfolding contract_from_values_def Let_def by (auto elim!: bindR_InrE simp flip: length_0_conv)
  then show "set (map fst m) = set required_identity_inputs"
    unfolding filter_empty_conv by auto
qed

lemma contract_from_values_ok:
  assumes "set (map fst m) = set required_identity_inputs"
    "distinct artifacts" "list_all sha_shaped artifacts"
    "distinct predecessors" "list_all sha_shaped predecessors"
  shows "contract_from_values H m artifacts predecessors = Inr (contract_of H m artifacts predecessors)"
proof -
  have d: "require_digest_list vs lab = Inr ()" if "distinct vs" "list_all sha_shaped vs" for vs lab
  proof -
    have "mapR (\<lambda>v. require_digest v lab) vs = Inr (map (\<lambda>_. ()) vs)"
      using that(2) by (intro mapR_Inr_map) (simp add: require_digest_def list_all_iff)
    then show ?thesis using that(1) by (simp add: require_digest_list_def)
  qed
  have "filter (\<lambda>n. n \<notin> set (map fst m)) required_identity_inputs = []"
    "filter (\<lambda>n. n \<notin> set required_identity_inputs) (map fst m) = []"
    using assms(1) unfolding filter_empty_conv by auto
  then show ?thesis using assms(2-5) by (simp add: contract_from_values_def d)
qed

lemma required_distinct: "distinct required_identity_inputs" "distinct contract_names"
  by code_simp+

lemma map_of_pairs: "map_of (map (\<lambda>n. (n, f n)) ns) k = (if k \<in> set ns then Some (f k) else None)"
  by (induction ns) auto

lemma py_strings_map [simp]: "py_strings (map PStr xs) = Some xs"
  by (induction xs) simp_all

lemma string_list_of_str_list [simp]: "string_list_of (str_list xs) = Some xs"
  by (simp add: string_list_of_def str_list_def)

lemma py_string_items_map [simp]: "py_string_items (map (\<lambda>(k, v). (k, PStr v)) kvs) = Some kvs"
  by (induction kvs) auto

lemma contract_of_again:
  "contract_of H (rc_identity_values (contract_of H m a p)) (sort a) (sort p) = contract_of H m a p"
proof -
  have "map (\<lambda>n. (n, value_of (map (\<lambda>n. (n, value_of m n)) ns) n)) ns = map (\<lambda>n. (n, value_of m n)) ns" for ns
    by (rule map_cong) (simp_all add: value_of_def map_of_pairs)
  then show ?thesis by (simp add: contract_of_def Let_def sorted_sort_id)
qed

lemma contract_stored_same:
  assumes "contract_from_values H m artifacts predecessors = Inr c"
  shows "contract_from_stored H (Some (contract_json c)) = Inr c"
proof -
  note c = contract_from_values_Inr [OF assms]
  have f: "rc_artifact_digests c = sort artifacts" "rc_predecessor_digests c = sort predecessors"
    "set (map fst (rc_identity_values c)) = set required_identity_inputs"
    by (simp_all add: c(1) contract_of_def Let_def image_image)
  have "contract_from_stored H (Some (contract_json c)) =
      contract_from_values H (rc_identity_values c) (sort artifacts) (sort predecessors)"
    by (simp add: contract_from_stored_def contract_json_def get_or_def f)
  also have "\<dots> = Inr (contract_of H (rc_identity_values c) (sort artifacts) (sort predecessors))"
    using c(3-6) f(3) by (intro contract_from_values_ok) (simp_all add: list_all_iff)
  also have "\<dots> = Inr c" unfolding c(1) contract_of_again ..
  finally show ?thesis .
qed

text \<open>C40: a stored input contract reads back as the contract that was stored, digests recomputed.\<close>

theorem contract_stored_roundtrip:
  assumes "contract_from_values H m artifacts predecessors = Inr c"
  shows "contract_from_stored H (Some (contract_json c)) = Inr c"
  by (rule contract_stored_same [OF assms])

definition sample_values :: "(string \<times> string) list" where
  "sample_values = map (\<lambda>n. (n, n)) required_identity_inputs"

lemma sample_contract: "contract_from_values H sample_values [] [] = Inr (contract_of H sample_values [] [])"
  by (rule contract_from_values_ok) (simp_all add: sample_values_def image_image)

theorem contract_stored_roundtrip_witness:
  "contract_from_stored plain_hasher (Some (contract_json (contract_of plain_hasher sample_values [] []))) =
     Inr (contract_of plain_hasher sample_values [] [])"
  using sample_contract by (rule contract_stored_roundtrip)

lemma contract_digest_value:
  assumes "n \<in> set required_identity_inputs"
  shows "value_of (rc_digests (contract_of H m a p)) n = sha256_hex H (value_of m n)"
proof -
  have "map_of (map (\<lambda>(n, v). (n, sha256_hex H v)) (map (\<lambda>n. (n, value_of m n)) required_identity_inputs)) n =
      Some (sha256_hex H (value_of m n))"
    using assms by (simp add: comp_def map_of_pairs)
  then show ?thesis by (simp add: contract_of_def Let_def value_of_def map_add_Some_iff)
qed

lemma contract_list_digests:
  "value_of (rc_digests (contract_of H m a p)) ''artifacts'' = digest H (str_list (sort a))"
  "value_of (rc_digests (contract_of H m a p)) ''predecessors'' = digest H (str_list (sort p))"
  by (simp_all add: contract_of_def value_of_def required_identity_inputs_def)

lemma contract_digest_pairs:
  "rc_digests (contract_of H m a p) =
     map (\<lambda>n. (n, value_of (rc_digests (contract_of H m a p)) n)) contract_names"
proof -
  have d: "rc_digests (contract_of H m a p) =
      map (\<lambda>n. (n, sha256_hex H (value_of m n))) required_identity_inputs @
      [(''artifacts'', digest H (str_list (sort a))), (''predecessors'', digest H (str_list (sort p)))]"
    by (simp add: contract_of_def Let_def comp_def)
  have "map (\<lambda>n. (n, value_of (rc_digests (contract_of H m a p)) n)) required_identity_inputs =
      map (\<lambda>n. (n, sha256_hex H (value_of m n))) required_identity_inputs"
    by (simp add: contract_digest_value)
  then show ?thesis
    unfolding contract_names_def map_append list.map contract_list_digests by (simp only: d)
qed

lemma no_differences_iff:
  assumes "contract_from_values H m1 a1 p1 = Inr x" and "contract_from_values H m2 a2 p2 = Inr y"
  shows "contract_differences x y = [] \<longleftrightarrow> rc_digests x = rc_digests y"
proof
  note c1 = contract_from_values_Inr [OF assms(1)] and c2 = contract_from_values_Inr [OF assms(2)]
  assume "contract_differences x y = []"
  then have "map (\<lambda>n. (n, value_of (rc_digests x) n)) contract_names =
      map (\<lambda>n. (n, value_of (rc_digests y) n)) contract_names"
    by (simp add: contract_differences_def filter_empty_conv)
  then show "rc_digests x = rc_digests y"
    using contract_digest_pairs [of H m1 a1 p1] contract_digest_pairs [of H m2 a2 p2]
    unfolding c1(1) [symmetric] c2(1) [symmetric] by simp
qed (simp add: contract_differences_def)

text \<open>The differences between two contracts name exactly the inputs whose digests differ; they
  are empty just when the contracts have the same digests, hence the same aggregate; and then the
  contracts are equal, unless the hash function maps two different texts to one digest.\<close>

lemma contract_differences_exact:
  assumes "contract_from_values H m1 a1 p1 = Inr x" and "contract_from_values H m2 a2 p2 = Inr y"
  shows "(contract_differences x y = [] \<longleftrightarrow> rc_digests x = rc_digests y) \<and>
    (\<forall>n \<in> set required_identity_inputs.
       n \<in> set (contract_differences x y) \<longleftrightarrow> sha256_hex H (value_of m1 n) \<noteq> sha256_hex H (value_of m2 n)) \<and>
    (contract_differences x y = [] \<longrightarrow> aggregate_digest H x = aggregate_digest H y) \<and>
    (contract_differences x y = [] \<longrightarrow>
       x = y \<or> (\<exists>s t. s \<noteq> t \<and> sha256_hex H s = sha256_hex H t))"
proof -
  note c1 = contract_from_values_Inr [OF assms(1)] and c2 = contract_from_values_Inr [OF assms(2)]
  note iff = no_differences_iff [OF assms]
  have eq: "x = y" if d: "rc_digests x = rc_digests y" and inj: "\<And>s t. sha256_hex H s = sha256_hex H t \<Longrightarrow> s = t"
  proof -
    have v: "value_of m1 n = value_of m2 n" if "n \<in> set required_identity_inputs" for n
      using d contract_digest_value [OF that, of H m1 a1 p1] contract_digest_value [OF that, of H m2 a2 p2]
      unfolding c1(1) c2(1) by - (rule inj, simp)
    have "json_text (str_list (sort a1)) = json_text (str_list (sort a2))"
      "json_text (str_list (sort p1)) = json_text (str_list (sort p2))"
      using d contract_list_digests [of H m1 a1 p1] contract_list_digests [of H m2 a2 p2]
      unfolding c1(1) c2(1) digest_def by - (rule inj, simp)+
    then have "sort a1 = sort a2" "sort p1 = sort p2"
      using c1(4,6) c2(4,6) by (auto intro!: digest_list_text_inj simp: list_all_iff)
    moreover have "map (\<lambda>n. (n, value_of m1 n)) required_identity_inputs =
        map (\<lambda>n. (n, value_of m2 n)) required_identity_inputs"
      using v by simp
    ultimately show ?thesis unfolding c1(1) c2(1) contract_of_def Let_def by (simp only:)
  qed
  have "n \<in> set (contract_differences x y) \<longleftrightarrow> sha256_hex H (value_of m1 n) \<noteq> sha256_hex H (value_of m2 n)"
    if "n \<in> set required_identity_inputs" for n
  proof -
    have "n \<in> set contract_names" using that by (simp add: contract_names_def)
    then show ?thesis
      using that unfolding c1(1) c2(1) by (simp add: contract_differences_def contract_digest_value)
  qed
  moreover have "aggregate_digest H x = aggregate_digest H y" if "rc_digests x = rc_digests y"
    by (simp add: aggregate_digest_def that)
  ultimately show ?thesis using iff eq by metis
qed

end
