(* ===== verification/Run_Store.thy ===== *)
theory Run_Store
  imports Run_Contract Matchweek_Store
begin

text \<open>
  The run tables of the store and \<open>_RunRepository\<close> of \<open>runs.py\<close>: every transaction as a function
  from tables to tables, with the constraints and triggers the schema puts on its statements (a
  transaction that raises leaves the tables as they were), and the status read from them. The
  \<open>CHECK\<close>s that only restrict a column to an enumeration are types here; the column \<open>mode\<close>, which
  can only hold \<open>RESEARCH_ONLY\<close>, is left out; a JSON column holds the value its text decodes to. The
  tables of \<open>matchweek.py\<close> are in the same store, beside them: the run module never touches them, but
  the executors of its phases do.
\<close>

section \<open>Times\<close>

text \<open>\<open>_utc\<close>\<close>

definition utc_stamp :: "dt \<Rightarrow> (run_failure, string) res" where
  "utc_stamp d =
     (if dt_off d = None
      then Inl (RunValueError ''Run lifecycle timestamps must be timezone-aware.'')
      else (case astimezone_utc d of
              None \<Rightarrow> Inl (OtherError ''date value out of range'')
            | Some e \<Rightarrow> Inr (utc_text True e)))"

text \<open>
  \<open>max(0, int((ended - started).total_seconds()))\<close>. The quotient is exact for spans below 285
  years, where the \<open>float\<close> of \<open>total_seconds\<close> has the same whole part.
\<close>

definition seconds_between :: "dt \<Rightarrow> dt \<Rightarrow> (run_failure, int) res" where
  "seconds_between started ended =
     (if (dt_off started = None) \<noteq> (dt_off ended = None) then Inl RunTypeError
      else Inr (max 0 ((instant ended - instant started) div 1000000)))"

text \<open>\<open>_elapsed_between\<close>\<close>

definition elapsed_between :: "string \<Rightarrow> string \<Rightarrow> (run_failure, int) res" where
  "elapsed_between started ended =
     (case (fromisoformat started, fromisoformat ended) of
        (Some s, Some e) \<Rightarrow> seconds_between s e
      | _ \<Rightarrow> Inl (RunValueError ''Invalid isoformat string''))"

section \<open>Tables\<close>

datatype run_state = RUN_INCOMPLETE | RUN_COMPLETE
datatype unit_state = UNIT_PENDING | UNIT_RUNNING | UNIT_COMPLETE
datatype attempt_status = ATTEMPT_RUNNING | ATTEMPT_COMPLETED | ATTEMPT_INTERRUPTED | ATTEMPT_FAILED
datatype reuse_state = REUSE_NONE | NOT_REUSED | REUSABLE | REUSED | BLOCKED

fun attempt_text :: "attempt_status \<Rightarrow> string" where
  "attempt_text ATTEMPT_RUNNING = ''RUNNING''"
| "attempt_text ATTEMPT_COMPLETED = ''COMPLETED''"
| "attempt_text ATTEMPT_INTERRUPTED = ''INTERRUPTED''"
| "attempt_text ATTEMPT_FAILED = ''FAILED''"

fun reuse_text :: "reuse_state \<Rightarrow> string" where
  "reuse_text REUSE_NONE = ''NONE''"
| "reuse_text NOT_REUSED = ''NOT_REUSED''"
| "reuse_text REUSABLE = ''REUSABLE''"
| "reuse_text REUSED = ''REUSED''"
| "reuse_text BLOCKED = ''BLOCKED''"

record run_row =
  rr_run_id :: string
  rr_matchweek :: string
  rr_state :: run_state
  rr_phase :: run_phase
  rr_started_at :: string
  rr_updated_at :: string
  rr_completed_at :: "string option"
  rr_elapsed :: int
  rr_contract :: "pyval option"
  rr_input_digest :: string
  rr_resource :: pyval
  rr_cpu :: int
  rr_warnings :: "string list"
  rr_last_checkpoint :: "string option"
  rr_last_checkpoint_at :: "string option"
  rr_error_code :: "string option"
  rr_error_explanation :: "string option"
  rr_reuse :: reuse_state
  rr_token :: string

record unit_row =
  u_run_id :: string
  u_key :: string
  u_phase :: run_phase
  u_order :: nat
  u_input_digest :: string
  u_state :: unit_state
  u_attempts :: nat
  u_checkpoint_at :: "string option"
  u_elapsed :: int
  u_output :: "string option"
  u_artifacts :: "string list"

record attempt_row =
  a_run_id :: string
  a_key :: string
  a_attempt :: nat
  a_status :: attempt_status
  a_started_at :: string
  a_ended_at :: "string option"
  a_elapsed :: int
  a_owner :: string
  a_error_code :: "string option"
  a_error_explanation :: "string option"

record checkpoint_row =
  c_run_id :: string
  c_key :: string
  c_phase :: run_phase
  c_order :: nat
  c_attempt :: nat
  c_input_digest :: string
  c_output :: string
  c_artifacts :: "string list"
  c_at :: string
  c_elapsed :: int

record completion_row =
  k_run_id :: string
  k_digest :: string
  k_at :: string

record run_db =
  db_identifiers :: "(string \<times> string) list"
  db_artifacts :: "string list"
  db_runs :: "run_row list"
  db_inputs :: "(string \<times> string \<times> string) list"
  db_units :: "unit_row list"
  db_attempts :: "attempt_row list"
  db_checkpoints :: "checkpoint_row list"
  db_completions :: "completion_row list"
  db_matchweek :: mw_store

text \<open>A store that was just created.\<close>

definition empty_source :: source_tables where
  "empty_source =
     \<lparr>tb_leagues = [], tb_seasons = [], tb_teams = [], tb_fixtures = [], tb_revisions = [], tb_captures = [],
      tb_sources = [], tb_revision_assertions = [], tb_assertions = [], tb_unresolved = [], tb_conflicts = [],
      tb_conflict_assertions = []\<rparr>"

definition empty_matchweek :: mw_store where
  "empty_matchweek =
     \<lparr>ms_writable = True, ms_source = empty_source, ms_identifiers = [], ms_versions = [], ms_artifacts = [],
      ms_snapshots = [], ms_matchweeks = [], ms_cutoffs = [], ms_memberships = [], ms_freezes = [], ms_appendix = []\<rparr>"

definition empty_db :: run_db where
  "empty_db =
     \<lparr>db_identifiers = [], db_artifacts = [], db_runs = [], db_inputs = [], db_units = [],
      db_attempts = [], db_checkpoints = [], db_completions = [], db_matchweek = empty_matchweek\<rparr>"

text \<open>\<open>UPDATE ... SET f WHERE P\<close>\<close>

definition update_where :: "('r \<Rightarrow> bool) \<Rightarrow> ('r \<Rightarrow> 'r) \<Rightarrow> 'r list \<Rightarrow> 'r list" where
  "update_where P f rows = map (\<lambda>r. if P r then f r else r) rows"

definition update_run :: "string \<Rightarrow> (run_row \<Rightarrow> run_row) \<Rightarrow> run_db \<Rightarrow> run_db" where
  "update_run rid f db =
     db\<lparr>db_runs := update_where (\<lambda>r. rr_run_id r = rid \<and> rr_state r = RUN_INCOMPLETE) f (db_runs db)\<rparr>"

definition integrity :: run_failure where
  "integrity = DatabaseFailure ''IntegrityError''"

section \<open>Transactions\<close>

text \<open>The rows \<open>create_run\<close> writes.\<close>

definition new_run_row ::
  "hasher \<Rightarrow> string \<Rightarrow> string \<Rightarrow> run_contract \<Rightarrow> pyval \<Rightarrow> int \<Rightarrow> string list \<Rightarrow> string \<Rightarrow> string \<Rightarrow> run_row" where
  "new_run_row H rid matchweek inputs resource_json cpu warnings now owner =
     \<lparr>rr_run_id = rid, rr_matchweek = matchweek, rr_state = RUN_INCOMPLETE, rr_phase = PREFLIGHT,
      rr_started_at = now, rr_updated_at = now, rr_completed_at = None, rr_elapsed = 0,
      rr_contract = Some (contract_json inputs), rr_input_digest = aggregate_digest H inputs,
      rr_resource = resource_json, rr_cpu = cpu, rr_warnings = warnings, rr_last_checkpoint = None,
      rr_last_checkpoint_at = None, rr_error_code = None, rr_error_explanation = None,
      rr_reuse = NOT_REUSED, rr_token = owner\<rparr>"

definition new_unit_row :: "hasher \<Rightarrow> string \<Rightarrow> string \<Rightarrow> run_contract \<Rightarrow> nat \<Rightarrow> run_phase \<Rightarrow> unit_row" where
  "new_unit_row H rid matchweek inputs i p =
     \<lparr>u_run_id = rid, u_key = work_key i p matchweek, u_phase = p, u_order = i,
      u_input_digest = digest H (PDict [(''input_digest'', PStr (aggregate_digest H inputs)),
        (''phase'', PStr (phase_text p)), (''stable_key'', PStr (work_key i p matchweek))]),
      u_state = UNIT_PENDING, u_attempts = 0, u_checkpoint_at = None, u_elapsed = 0,
      u_output = None, u_artifacts = []\<rparr>"

definition new_unit_rows :: "hasher \<Rightarrow> string \<Rightarrow> string \<Rightarrow> run_contract \<Rightarrow> unit_row list" where
  "new_unit_rows H rid matchweek inputs =
     map (\<lambda>(i, p). new_unit_row H rid matchweek inputs i p) (List.enumerate 0 run_phases)"

text \<open>\<open>create_run\<close>\<close>

definition create_run ::
  "hasher \<Rightarrow> string \<Rightarrow> string \<Rightarrow> run_contract \<Rightarrow> pyval \<Rightarrow> int \<Rightarrow> string list \<Rightarrow> string \<Rightarrow> string \<Rightarrow>
   run_db \<Rightarrow> (run_failure, run_db) res" where
  "create_run H rid matchweek inputs resource_json cpu warnings now owner db =
     (let row = new_run_row H rid matchweek inputs resource_json cpu warnings now owner;
          unit_rows = new_unit_rows H rid matchweek inputs in
      bindR (guardR (uuid_shaped rid)
        (RunValueError ''Canonical identifier values must be UUIDs.'')) (\<lambda>_.
      bindR (guardR (rid \<notin> set (map fst (db_identifiers db))) integrity) (\<lambda>_.
      bindR (guardR (rid \<notin> set (map rr_run_id (db_runs db)) \<and> matchweek \<noteq> [] \<and>
          sha_shaped (rr_input_digest row) \<and> 1 \<le> cpu \<and> cpu \<le> 2) integrity) (\<lambda>_.
      bindR (guardR (list_all (\<lambda>(_, d). sha_shaped d) (rc_digests inputs)) integrity) (\<lambda>_.
      bindR (guardR (list_all (\<lambda>u. sha_shaped (u_input_digest u)) unit_rows) integrity) (\<lambda>_.
      Inr (db\<lparr>db_identifiers := db_identifiers db @ [(rid, ''research_run'')],
              db_runs := db_runs db @ [row],
              db_inputs := db_inputs db @ map (\<lambda>(n, d). (rid, n, d)) (sort (rc_digests inputs)),
              db_units := db_units db @ unit_rows\<rparr>)))))))"

text \<open>\<open>start_attempt\<close>\<close>

definition find_unit :: "run_db \<Rightarrow> string \<Rightarrow> string \<Rightarrow> unit_row option" where
  "find_unit db rid key = find (\<lambda>u. u_run_id u = rid \<and> u_key u = key) (db_units db)"

definition new_attempt_row :: "string \<Rightarrow> string \<Rightarrow> nat \<Rightarrow> string \<Rightarrow> string \<Rightarrow> attempt_row" where
  "new_attempt_row rid key n started_at owner =
     \<lparr>a_run_id = rid, a_key = key, a_attempt = n, a_status = ATTEMPT_RUNNING,
      a_started_at = started_at, a_ended_at = None, a_elapsed = 0, a_owner = owner,
      a_error_code = None, a_error_explanation = None\<rparr>"

definition start_attempt ::
  "string \<Rightarrow> string \<Rightarrow> run_phase \<Rightarrow> string \<Rightarrow> string \<Rightarrow> string \<Rightarrow> run_db \<Rightarrow>
   (run_failure, nat \<times> run_db) res" where
  "start_attempt rid key p input_digest owner started_at db =
     (case find (\<lambda>u. u_run_id u = rid \<and> u_key u = key \<and> u_state u \<noteq> UNIT_COMPLETE) (db_units db) of
        None \<Rightarrow> Inl (DatabaseFailure ''work unit is missing or already complete'')
      | Some u \<Rightarrow>
          let n = u_attempts u + 1 in
          bindR (guardR (sha_shaped input_digest) integrity) (\<lambda>_.
          bindR (guardR (\<not> list_ex (\<lambda>a. a_run_id a = rid \<and> a_key a = key \<and> a_attempt a = n)
            (db_attempts db)) integrity) (\<lambda>_.
          Inr (n, update_run rid
            (\<lambda>r. r\<lparr>rr_phase := p, rr_updated_at := started_at, rr_token := owner,
                   rr_error_code := None, rr_error_explanation := None\<rparr>)
            (db\<lparr>db_units := update_where (\<lambda>u. u_run_id u = rid \<and> u_key u = key)
                  (\<lambda>u. u\<lparr>u_state := UNIT_RUNNING, u_attempts := n, u_input_digest := input_digest\<rparr>)
                  (db_units db),
                db_attempts := db_attempts db @ [new_attempt_row rid key n started_at owner]\<rparr>)))))"

text \<open>\<open>checkpoint\<close>\<close>

definition close_attempt ::
  "string \<Rightarrow> string \<Rightarrow> nat \<Rightarrow> (attempt_row \<Rightarrow> attempt_row) \<Rightarrow> attempt_row list \<Rightarrow> attempt_row list" where
  "close_attempt rid key n f rows =
     update_where (\<lambda>a. a_run_id a = rid \<and> a_key a = key \<and> a_attempt a = n \<and>
       a_status a = ATTEMPT_RUNNING) f rows"

definition update_running_unit ::
  "string \<Rightarrow> string \<Rightarrow> (unit_row \<Rightarrow> unit_row) \<Rightarrow> unit_row list \<Rightarrow> unit_row list" where
  "update_running_unit rid key f rows =
     update_where (\<lambda>u. u_run_id u = rid \<and> u_key u = key \<and> u_state u = UNIT_RUNNING) f rows"

definition checkpoint_allowed :: "run_db \<Rightarrow> checkpoint_row \<Rightarrow> bool" where
  "checkpoint_allowed db c \<longleftrightarrow>
     \<not> list_ex (\<lambda>d. c_run_id d = c_run_id c \<and> (c_key d = c_key c \<or> c_order d = c_order c))
         (db_checkpoints db) \<and>
     list_ex (\<lambda>a. a_run_id a = c_run_id c \<and> a_key a = c_key c \<and> a_attempt a = c_attempt c)
         (db_attempts db) \<and>
     sha_shaped (c_input_digest c) \<and> sha_shaped (c_output c) \<and> 0 \<le> c_elapsed c"

definition completed_attempt :: "string \<Rightarrow> int \<Rightarrow> attempt_row \<Rightarrow> attempt_row" where
  "completed_attempt stamp elapsed a =
     a\<lparr>a_status := ATTEMPT_COMPLETED, a_ended_at := Some stamp, a_elapsed := elapsed\<rparr>"

definition completed_unit :: "string \<Rightarrow> int \<Rightarrow> string \<Rightarrow> string list \<Rightarrow> unit_row \<Rightarrow> unit_row" where
  "completed_unit stamp elapsed output_digest artifacts u =
     u\<lparr>u_state := UNIT_COMPLETE, u_checkpoint_at := Some stamp, u_elapsed := elapsed,
       u_output := Some output_digest, u_artifacts := artifacts\<rparr>"

definition checkpointed_run :: "run_phase \<Rightarrow> string \<Rightarrow> int \<Rightarrow> run_row \<Rightarrow> run_row" where
  "checkpointed_run p stamp elapsed r =
     r\<lparr>rr_last_checkpoint := Some (phase_text p), rr_last_checkpoint_at := Some stamp,
       rr_updated_at := stamp, rr_elapsed := rr_elapsed r + elapsed,
       rr_reuse := (if rr_reuse r = REUSED then REUSED else REUSABLE)\<rparr>"

definition checkpoint ::
  "string \<Rightarrow> string \<Rightarrow> run_phase \<Rightarrow> nat \<Rightarrow> string \<Rightarrow> string \<Rightarrow> string list \<Rightarrow> string \<Rightarrow> int \<Rightarrow>
   run_db \<Rightarrow> (run_failure, run_db) res" where
  "checkpoint rid key p n input_digest output_digest artifacts stamp elapsed db =
     (let c = \<lparr>c_run_id = rid, c_key = key, c_phase = p, c_order = phase_index p, c_attempt = n,
               c_input_digest = input_digest, c_output = output_digest, c_artifacts = artifacts,
               c_at = stamp, c_elapsed = elapsed\<rparr> in
      bindR (guardR (checkpoint_allowed db c) integrity) (\<lambda>_.
      Inr (update_run rid (checkpointed_run p stamp elapsed)
        (db\<lparr>db_checkpoints := db_checkpoints db @ [c],
            db_attempts := close_attempt rid key n (completed_attempt stamp elapsed) (db_attempts db),
            db_units := update_running_unit rid key
              (completed_unit stamp elapsed output_digest artifacts) (db_units db)\<rparr>))))"

text \<open>\<open>finish_attempt\<close>\<close>

definition stopped_attempt ::
  "attempt_status \<Rightarrow> string \<Rightarrow> int \<Rightarrow> string \<Rightarrow> string \<Rightarrow> attempt_row \<Rightarrow> attempt_row" where
  "stopped_attempt status ended_at elapsed rcode explanation a =
     a\<lparr>a_status := status, a_ended_at := Some ended_at, a_elapsed := elapsed,
       a_error_code := Some rcode, a_error_explanation := Some explanation\<rparr>"

definition reuse_of_text :: "string \<Rightarrow> reuse_state option" where
  "reuse_of_text s = find (\<lambda>r. reuse_text r = s) [REUSE_NONE, NOT_REUSED, REUSABLE, REUSED, BLOCKED]"

definition finish_attempt ::
  "string \<Rightarrow> string \<Rightarrow> nat \<Rightarrow> attempt_status \<Rightarrow> string \<Rightarrow> int \<Rightarrow> run_error \<Rightarrow> run_db \<Rightarrow>
   (run_failure, run_db) res" where
  "finish_attempt rid key n status ended_at elapsed e db =
     (case reuse_of_text (re_reuse_state e) of
        None \<Rightarrow> Inl integrity
      | Some reuse \<Rightarrow>
          Inr (update_run rid
            (\<lambda>r. r\<lparr>rr_updated_at := ended_at, rr_elapsed := rr_elapsed r + elapsed,
                   rr_error_code := Some (re_code e), rr_error_explanation := Some (re_explanation e),
                   rr_reuse := reuse\<rparr>)
            (db\<lparr>db_attempts := close_attempt rid key n
                  (stopped_attempt status ended_at elapsed (re_code e) (re_explanation e)) (db_attempts db),
                db_units := update_running_unit rid key (\<lambda>u. u\<lparr>u_state := UNIT_PENDING\<rparr>)
                  (db_units db)\<rparr>)))"

text \<open>The transaction of \<open>interrupt_abandoned\<close>, on the attempts that were read as running.\<close>

definition abandoned_code :: string where
  "abandoned_code = ''MV-RUN-ABANDONED_ATTEMPT''"

definition abandoned_text :: string where
  "abandoned_text = ''The prior foreground coordinator ended without closing.''"

definition interrupt_attempt ::
  "string \<Rightarrow> run_db \<times> (string \<times> int) list \<Rightarrow> attempt_row \<Rightarrow>
   (run_failure, run_db \<times> (string \<times> int) list) res" where
  "interrupt_attempt now state a =
     (case state of (db, elapsed_by_run) \<Rightarrow>
        bindR (elapsed_between (a_started_at a) now) (\<lambda>elapsed.
        Inr (db\<lparr>db_attempts := close_attempt (a_run_id a) (a_key a) (a_attempt a)
                  (stopped_attempt ATTEMPT_INTERRUPTED now elapsed abandoned_code abandoned_text)
                  (db_attempts db),
                db_units := update_running_unit (a_run_id a) (a_key a)
                  (\<lambda>u. u\<lparr>u_state := UNIT_PENDING\<rparr>) (db_units db)\<rparr>,
             elapsed_by_run @ [(a_run_id a, elapsed)])))"

definition abandoned_run :: "string \<Rightarrow> (string \<times> int) list \<Rightarrow> string \<Rightarrow> run_row \<Rightarrow> run_row" where
  "abandoned_run now elapsed_by_run rid r =
     r\<lparr>rr_updated_at := now,
       rr_elapsed := rr_elapsed r + sum_list (map snd (filter (\<lambda>(i, _). i = rid) elapsed_by_run)),
       rr_error_code := Some abandoned_code, rr_error_explanation := Some abandoned_text,
       rr_reuse := (if rr_last_checkpoint r = None then REUSE_NONE else REUSABLE)\<rparr>"

definition interrupt_all :: "string \<Rightarrow> attempt_row list \<Rightarrow> run_db \<Rightarrow> (run_failure, run_db) res" where
  "interrupt_all now running db =
     bindR (foldR (interrupt_attempt now) (db, []) running) (\<lambda>(db', elapsed_by_run).
     Inr (fold (\<lambda>rid. update_run rid (abandoned_run now elapsed_by_run rid))
       (sorted_set (map fst elapsed_by_run)) db'))"

definition running_attempts :: "run_db \<Rightarrow> attempt_row list" where
  "running_attempts db = filter (\<lambda>a. a_status a = ATTEMPT_RUNNING) (db_attempts db)"

text \<open>\<open>record_error\<close>, \<open>mark_resumed\<close>, \<open>complete_run\<close>\<close>

definition record_error ::
  "string \<Rightarrow> run_error \<Rightarrow> string \<Rightarrow> reuse_state \<Rightarrow> run_db \<Rightarrow> (run_failure, run_db) res" where
  "record_error rid e now reuse db =
     Inr (update_run rid
       (\<lambda>r. r\<lparr>rr_updated_at := now, rr_error_code := Some (re_code e),
              rr_error_explanation := Some (re_explanation e), rr_reuse := reuse\<rparr>) db)"

definition mark_resumed ::
  "string \<Rightarrow> pyval \<Rightarrow> int \<Rightarrow> string list \<Rightarrow> string \<Rightarrow> string \<Rightarrow> run_db \<Rightarrow> (run_failure, run_db) res" where
  "mark_resumed rid resource_json cpu warnings owner now db =
     bindR (guardR (1 \<le> cpu \<and> cpu \<le> 2 \<or>
         \<not> list_ex (\<lambda>r. rr_run_id r = rid \<and> rr_state r = RUN_INCOMPLETE) (db_runs db)) integrity) (\<lambda>_.
     Inr (update_run rid
       (\<lambda>r. r\<lparr>rr_updated_at := now, rr_resource := resource_json, rr_cpu := cpu,
              rr_warnings := warnings, rr_token := owner, rr_reuse := REUSED,
              rr_error_code := None, rr_error_explanation := None\<rparr>) db))"

definition run_checkpoints :: "run_db \<Rightarrow> string \<Rightarrow> checkpoint_row list" where
  "run_checkpoints db rid = sort_key c_order (filter (\<lambda>c. c_run_id c = rid) (db_checkpoints db))"

definition complete_run :: "string \<Rightarrow> string \<Rightarrow> string \<Rightarrow> run_db \<Rightarrow> (run_failure, run_db) res" where
  "complete_run rid publication now db =
     bindR (guardR (length (run_checkpoints db rid) = 7 \<and>
         rid \<in> set (map rr_run_id (db_runs db)) \<and>
         rid \<notin> set (map k_run_id (db_completions db)) \<and>
         publication \<notin> set (map k_digest (db_completions db)) \<and>
         publication \<in> set (db_artifacts db)) integrity) (\<lambda>_.
     Inr (update_run rid
       (\<lambda>r. r\<lparr>rr_state := RUN_COMPLETE, rr_completed_at := Some now, rr_updated_at := now,
              rr_reuse := (if rr_reuse r = REUSED then REUSED else NOT_REUSED),
              rr_error_code := None, rr_error_explanation := None\<rparr>)
       (db\<lparr>db_completions := db_completions db @
             [\<lparr>k_run_id = rid, k_digest = publication, k_at = now\<rparr>]\<rparr>)))"

section \<open>Reading\<close>

definition find_run :: "run_db \<Rightarrow> string \<Rightarrow> run_row option" where
  "find_run db rid = find (\<lambda>r. rr_run_id r = rid) (db_runs db)"

definition completion_digest :: "run_db \<Rightarrow> string \<Rightarrow> string option" where
  "completion_digest db rid =
     map_option k_digest (find (\<lambda>k. k_run_id k = rid) (db_completions db))"

text \<open>\<open>compatible_incomplete\<close>: \<open>ORDER BY started_at_utc DESC, run_id DESC LIMIT 1\<close>.\<close>

definition compatible_incomplete :: "run_db \<Rightarrow> string \<Rightarrow> string \<Rightarrow> run_row option" where
  "compatible_incomplete db matchweek input_digest =
     (case rev (sort_key (\<lambda>r. (rr_started_at r, rr_run_id r))
        (filter (\<lambda>r. rr_matchweek r = matchweek \<and> rr_input_digest r = input_digest \<and>
           rr_state r = RUN_INCOMPLETE) (db_runs db))) of
        [] \<Rightarrow> None
      | r # _ \<Rightarrow> Some r)"

text \<open>\<open>matchweek\<close>\<close>

definition run_matchweek :: "run_db \<Rightarrow> string \<Rightarrow> (run_failure, string) res" where
  "run_matchweek db rid =
     (case find_run db rid of None \<Rightarrow> Inl (RunLookupError rid) | Some r \<Rightarrow> Inr (rr_matchweek r))"

record unit_status =
  us_key :: string
  us_phase :: run_phase
  us_attempt :: nat
  us_attempt_state :: string
  us_complete :: bool
  us_checkpoint_at :: "string option"
  us_elapsed :: int
  us_mode :: string
  us_input_digest :: string
  us_output :: "string option"
  us_artifacts :: "string list"

record run_status =
  rs_schema_version :: int
  rs_run_id :: string
  rs_matchweek :: string
  rs_state :: run_state
  rs_phase :: run_phase
  rs_current_attempt :: nat
  rs_mode :: string
  rs_completed_units :: nat
  rs_total_units :: nat
  rs_last_checkpoint :: string
  rs_checkpoint_at :: "string option"
  rs_elapsed :: int
  rs_input_digest :: string
  rs_input_digests :: "(string \<times> string) list"
  rs_resource :: pyval
  rs_reuse :: reuse_state
  rs_stale :: bool
  rs_warnings :: "string list"
  rs_error_code :: "string option"
  rs_error_explanation :: "string option"
  rs_recovery :: string
  rs_publication :: "string option"
  rs_decision_state :: string
  rs_units :: "unit_status list"

text \<open>The row of \<open>run_attempts\<close> the \<open>LEFT JOIN\<close> puts beside a unit.\<close>

definition unit_attempt :: "run_db \<Rightarrow> unit_row \<Rightarrow> attempt_row option" where
  "unit_attempt db u =
     find (\<lambda>a. a_run_id a = u_run_id u \<and> a_key a = u_key u \<and> a_attempt a = u_attempts u)
       (db_attempts db)"

definition unit_status_of :: "run_db \<Rightarrow> string \<Rightarrow> unit_row \<Rightarrow> (run_failure, unit_status) res" where
  "unit_status_of db now u =
     (let att = unit_attempt db u in
      bindR (case att of
               None \<Rightarrow> Inr (u_elapsed u)
             | Some a \<Rightarrow> if a_status a = ATTEMPT_RUNNING then elapsed_between (a_started_at a) now
                         else Inr (a_elapsed a)) (\<lambda>elapsed.
      Inr \<lparr>us_key = u_key u, us_phase = u_phase u, us_attempt = u_attempts u,
           us_attempt_state = (case att of None \<Rightarrow> ''PENDING'' | Some a \<Rightarrow> attempt_text (a_status a)),
           us_complete = (u_state u = UNIT_COMPLETE), us_checkpoint_at = u_checkpoint_at u,
           us_elapsed = elapsed, us_mode = ''RESEARCH_ONLY'', us_input_digest = u_input_digest u,
           us_output = u_output u, us_artifacts = u_artifacts u\<rparr>))"

definition run_units :: "run_db \<Rightarrow> string \<Rightarrow> unit_row list" where
  "run_units db rid = sort_key u_order (filter (\<lambda>u. u_run_id u = rid) (db_units db))"

definition stale_text :: string where
  "stale_text = ''The RUNNING attempt has no matching live coordinator and is stale.''"

text \<open>
  \<open>_status_from_connection\<close>; \<open>alive\<close> is \<open>_process_token_is_alive\<close>, \<open>wall\<close> the wall clock.
\<close>

definition run_status_of ::
  "hasher \<Rightarrow> (string \<Rightarrow> bool) \<Rightarrow> dt \<Rightarrow> run_db \<Rightarrow> string \<Rightarrow> (run_failure, run_status) res" where
  "run_status_of H alive wall db rid =
     (case find_run db rid of
        None \<Rightarrow> Inl (RunLookupError (''Run '' @ rid @ '' does not exist.''))
      | Some r \<Rightarrow>
          bindR (utc_stamp wall) (\<lambda>now.
          bindR (mapR (unit_status_of db now) (run_units db rid)) (\<lambda>us.
          let stale = list_ex (\<lambda>u. case unit_attempt db u of None \<Rightarrow> False
                | Some a \<Rightarrow> a_status a = ATTEMPT_RUNNING \<and> \<not> alive (a_owner a)) (run_units db rid) in
          bindR (contract_from_stored H (rr_contract r)) (\<lambda>contract.
          bindR (case rr_resource r of PDict m \<Rightarrow> Inr (PDict m)
                 | _ \<Rightarrow> Inl (RunValueError ''Stored JSON object is malformed.'')) (\<lambda>resource.
          Inr \<lparr>rs_schema_version = 1, rs_run_id = rr_run_id r, rs_matchweek = rr_matchweek r,
               rs_state = rr_state r, rs_phase = rr_phase r,
               rs_current_attempt =
                 (case find (\<lambda>u. us_phase u = rr_phase r) us of None \<Rightarrow> 0 | Some u \<Rightarrow> us_attempt u),
               rs_mode = ''RESEARCH_ONLY'',
               rs_completed_units = length (filter us_complete us), rs_total_units = length us,
               rs_last_checkpoint = (case rr_last_checkpoint r of
                   Some s \<Rightarrow> (if s \<noteq> [] then s else ''none'') | None \<Rightarrow> ''none''),
               rs_checkpoint_at = rr_last_checkpoint_at r,
               rs_elapsed = rr_elapsed r +
                 sum_list (map us_elapsed (filter (\<lambda>u. us_attempt_state u = ''RUNNING'') us)),
               rs_input_digest = rr_input_digest r, rs_input_digests = rc_digests contract,
               rs_resource = resource, rs_reuse = rr_reuse r, rs_stale = stale,
               rs_warnings = rr_warnings r @ (if stale then [stale_text] else []),
               rs_error_code = rr_error_code r, rs_error_explanation = rr_error_explanation r,
               rs_recovery = (if rr_state r = RUN_COMPLETE then ''matchvet status '' @ rid
                              else ''matchvet resume '' @ rid),
               rs_publication = completion_digest db rid, rs_decision_state = ''NO_DECISION'',
               rs_units = us\<rparr>)))))"

text \<open>\<open>read_run_status\<close> and \<open>read_resume_candidate\<close>, on the tables of a store found healthy.\<close>

definition latest_first :: "run_row list \<Rightarrow> run_row list" where
  "latest_first rows = rev (sort_key (\<lambda>r. (rr_started_at r, rr_run_id r)) rows)"

definition read_run_status ::
  "hasher \<Rightarrow> (string \<Rightarrow> bool) \<Rightarrow> dt \<Rightarrow> run_db \<Rightarrow> string option \<Rightarrow> (run_failure, run_status) res" where
  "read_run_status H alive wall db rid =
     (case rid of
        Some i \<Rightarrow> run_status_of H alive wall db i
      | None \<Rightarrow>
          (case latest_first (db_runs db) of
             [] \<Rightarrow> Inl (RunLookupError ''No MatchVet runs exist.'')
           | r # _ \<Rightarrow> run_status_of H alive wall db (rr_run_id r)))"

definition read_resume_candidate ::
  "hasher \<Rightarrow> (string \<Rightarrow> bool) \<Rightarrow> dt \<Rightarrow> run_db \<Rightarrow> (string \<Rightarrow> (run_failure, run_contract) res) \<Rightarrow>
   (run_failure, run_status) res" where
  "read_resume_candidate H alive wall db builder =
     bindR (mapR (\<lambda>r. bindR (run_status_of H alive wall db (rr_run_id r)) (\<lambda>s.
              bindR (builder (rs_matchweek s)) (\<lambda>c. Inr (s, c))))
       (latest_first (filter (\<lambda>r. rr_state r = RUN_INCOMPLETE) (db_runs db)))) (\<lambda>candidates.
     case filter (\<lambda>(s, c). rs_input_digests s = rc_digests c) candidates of
       [] \<Rightarrow> Inl (RunLookupError
         ''No compatible incomplete MatchVet run is available to resume.'')
     | [(s, _)] \<Rightarrow> Inr s
     | _ \<Rightarrow> Inl (RunLookupError
         ''Multiple compatible incomplete runs exist; pass an exact RUN_ID.''))"

end
