(* ===== verification/Run_Effects.thy ===== *)
theory Run_Effects
  imports Run_Store
begin

text \<open>
  The effects of the run coordinator of \<open>runs.py\<close>: computations that read and change the run tables,
  may raise, and meet an environment. The environment answers everything the code asks of the world:
  the write guard, the clocks, \<open>/proc\<close>, the artifact files, the executor and the fate of each
  transaction. A transaction may commit, fail and leave the tables as they were, or fail after it has
  committed; a process killed anywhere is the failure of its next transaction. An exception does not
  undo the transactions before it. The last section gives the rules that prove an invariant of the
  tables for whatever the environment does.
\<close>

section \<open>The environment\<close>

datatype tx_fate =
    Commits
  | Fails run_failure
  | CommitsThenFails run_failure

datatype work_outcome =
    Work_done work_result
  | Work_interrupted string
  | Work_keyboard_interrupt
  | Work_deadline
  | Work_error string

text \<open>Every field but the constants is asked at a tick: the world may answer differently each time.\<close>

record run_env =
  env_hasher :: hasher
  env_budget :: resource_budget
  env_pid :: int
  env_store_path :: string
  env_guard :: "nat \<Rightarrow> run_failure option"
  env_transaction :: "nat \<Rightarrow> tx_fate"
  env_clock :: "nat \<Rightarrow> dt"
  env_wall :: "nat \<Rightarrow> dt"
  env_token :: "nat \<Rightarrow> int \<Rightarrow> string"
  env_uuid :: "nat \<Rightarrow> string"
  env_file :: "nat \<Rightarrow> string \<Rightarrow> (string \<times> string) option"
  env_discard :: "nat \<Rightarrow> run_failure option"
  env_publish :: "nat \<Rightarrow> tx_fate"

text \<open>
  An executor is asked at a tick, with the remaining seconds and the Matchweek tables as it finds them;
  it answers with its outcome, the digests of the artifacts it published before it ended, whose
  catalogue is in the tables, and the Matchweek tables as it leaves them.
\<close>

type_synonym executor = "nat \<Rightarrow> work_context \<Rightarrow> int \<Rightarrow> mw_store \<Rightarrow> work_outcome \<times> string list \<times> mw_store"
type_synonym progress = "nat \<Rightarrow> run_status \<Rightarrow> run_failure option"

record world =
  w_db :: run_db
  w_tick :: nat

type_synonym 'a run = "world \<Rightarrow> (run_failure + 'a) \<times> world"

section \<open>Computations\<close>

definition ret :: "'a \<Rightarrow> 'a run" where
  "ret x = (\<lambda>w. (Inr x, w))"

definition throw :: "run_failure \<Rightarrow> 'a run" where
  "throw e = (\<lambda>w. (Inl e, w))"

definition bindM :: "'a run \<Rightarrow> ('a \<Rightarrow> 'b run) \<Rightarrow> 'b run" where
  "bindM m f = (\<lambda>w. case m w of (Inl e, w') \<Rightarrow> (Inl e, w') | (Inr x, w') \<Rightarrow> f x w')"

text \<open>\<open>try: m except: ...\<close>, where \<open>h\<close> raises again what it does not handle.\<close>

definition catchM :: "'a run \<Rightarrow> (run_failure \<Rightarrow> 'a run) \<Rightarrow> 'a run" where
  "catchM m h = (\<lambda>w. case m w of (Inl e, w') \<Rightarrow> h e w' | (Inr x, w') \<Rightarrow> (Inr x, w'))"

definition liftM :: "(run_failure, 'a) res \<Rightarrow> 'a run" where
  "liftM r = (\<lambda>w. (r, w))"

definition readM :: "(run_db \<Rightarrow> 'a) \<Rightarrow> 'a run" where
  "readM f = (\<lambda>w. (Inr (f (w_db w)), w))"

definition askM :: "(nat \<Rightarrow> 'a) \<Rightarrow> 'a run" where
  "askM f = (\<lambda>w. (Inr (f (w_tick w)), w\<lparr>w_tick := Suc (w_tick w)\<rparr>))"

definition transactM :: "run_env \<Rightarrow> (run_db \<Rightarrow> (run_failure, 'a \<times> run_db) res) \<Rightarrow> 'a run" where
  "transactM env f = (\<lambda>w.
     let w' = w\<lparr>w_tick := Suc (w_tick w)\<rparr> in
     case env_transaction env (w_tick w) of
       Fails e \<Rightarrow> (Inl e, w')
     | Commits \<Rightarrow>
         (case f (w_db w) of Inl e \<Rightarrow> (Inl e, w') | Inr (x, db) \<Rightarrow> (Inr x, w'\<lparr>w_db := db\<rparr>))
     | CommitsThenFails e \<Rightarrow>
         (case f (w_db w) of Inl e' \<Rightarrow> (Inl e', w') | Inr (x, db) \<Rightarrow> (Inl e, w'\<lparr>w_db := db\<rparr>)))"

definition writeM :: "run_env \<Rightarrow> (run_db \<Rightarrow> (run_failure, run_db) res) \<Rightarrow> unit run" where
  "writeM env f = transactM env (\<lambda>db. bindR (f db) (\<lambda>db'. Inr ((), db')))"

definition checkM :: "(nat \<Rightarrow> run_failure option) \<Rightarrow> unit run" where
  "checkM f = bindM (askM f) (\<lambda>r. case r of None \<Rightarrow> ret () | Some e \<Rightarrow> throw e)"

section \<open>The world of the coordinator\<close>

definition clockM :: "run_env \<Rightarrow> dt run" where
  "clockM env = askM (env_clock env)"

text \<open>\<open>_utc(self._clock())\<close>\<close>

definition stampM :: "run_env \<Rightarrow> string run" where
  "stampM env = bindM (clockM env) (\<lambda>t. liftM (utc_stamp t))"

text \<open>\<open>_process_token(os.getpid())\<close> and \<open>_process_token_is_alive\<close>\<close>

definition own_tokenM :: "run_env \<Rightarrow> string run" where
  "own_tokenM env = askM (\<lambda>t. env_token env t (env_pid env))"

definition token_alive :: "run_env \<Rightarrow> nat \<Rightarrow> string \<Rightarrow> bool" where
  "token_alive env t token =
     (let pid = takeWhile (\<lambda>c. c \<noteq> CHR '':'') token
      in CHR '':'' \<in> set token \<and> pid \<noteq> [] \<and> all_digits pid \<and>
         env_token env t (int (num_of pid)) = token)"

text \<open>\<open>self._repository.status\<close>, and a progress report when there is a reporter.\<close>

definition statusM :: "run_env \<Rightarrow> string \<Rightarrow> run_status run" where
  "statusM env rid =
     bindM (readM id) (\<lambda>db.
     bindM (askM (\<lambda>t. run_status_of (env_hasher env) (token_alive env t) (env_wall env t) db rid)) liftM)"

definition reportM :: "run_env \<Rightarrow> progress option \<Rightarrow> string \<Rightarrow> unit run" where
  "reportM env progress rid =
     (case progress of
        None \<Rightarrow> ret ()
      | Some f \<Rightarrow> bindM (statusM env rid) (\<lambda>s. checkM (\<lambda>t. f t s)))"

text \<open>\<open>ArtifactStore.verify_artifact\<close>: the catalogue is in the tables, the file in the world.\<close>

definition verify_artifactM :: "run_env \<Rightarrow> string \<Rightarrow> unit run" where
  "verify_artifactM env d =
     (if \<not> sha_shaped d
      then throw (ArtifactFailure ''MV-ARTIFACT-DIGEST_INVALID''
        ''artifact digest must be lowercase SHA-256.'')
      else bindM (readM (\<lambda>db. d \<in> set (db_artifacts db))) (\<lambda>known.
        if \<not> known
        then throw (ArtifactFailure ''MV-ARTIFACT-NOT_CATALOGUED''
          (''Artifact '' @ d @ '' is not catalogued.''))
        else bindM (askM (\<lambda>t. env_file env t d)) (\<lambda>r.
          case r of None \<Rightarrow> ret () | Some (rcode, msg) \<Rightarrow> throw (ArtifactFailure rcode msg))))"

fun verify_allM :: "run_env \<Rightarrow> string list \<Rightarrow> unit run" where
  "verify_allM env [] = ret ()"
| "verify_allM env (d # ds) = bindM (verify_artifactM env d) (\<lambda>_. verify_allM env ds)"

text \<open>
  \<open>ArtifactStore.publish_artifact\<close>: the content is addressed by its digest and catalogued once; its
  files, guards and transaction meet one fate.
\<close>

definition catalogue :: "string \<Rightarrow> run_db \<Rightarrow> run_db" where
  "catalogue d db = (if d \<in> set (db_artifacts db) then db else db\<lparr>db_artifacts := db_artifacts db @ [d]\<rparr>)"

definition publish_artifactM :: "run_env \<Rightarrow> string \<Rightarrow> string run" where
  "publish_artifactM env content = (\<lambda>w.
     let w' = w\<lparr>w_tick := Suc (w_tick w)\<rparr>; d = sha256_hex (env_hasher env) content;
         w'' = w'\<lparr>w_db := catalogue d (w_db w)\<rparr> in
     case env_publish env (w_tick w) of
       Commits \<Rightarrow> (Inr d, w'')
     | Fails e \<Rightarrow> (Inl e, w')
     | CommitsThenFails e \<Rightarrow> (Inl e, w''))"

text \<open>Asking an executor, and what it leaves in the store.\<close>

definition executed :: "string list \<Rightarrow> mw_store \<Rightarrow> run_db \<Rightarrow> run_db" where
  "executed ds st db = fold catalogue ds (db\<lparr>db_matchweek := st\<rparr>)"

definition workM :: "executor \<Rightarrow> work_context \<Rightarrow> int \<Rightarrow> work_outcome run" where
  "workM execute ctx remaining = (\<lambda>w.
     case execute (w_tick w) ctx remaining (db_matchweek (w_db w)) of
       (x, ds, st) \<Rightarrow> (Inr x, \<lparr>w_db = executed ds st (w_db w), w_tick = Suc (w_tick w)\<rparr>))"

text \<open>\<open>_RunRepository.interrupt_abandoned\<close>\<close>

fun find_liveM :: "run_env \<Rightarrow> attempt_row list \<Rightarrow> string option run" where
  "find_liveM env [] = ret None"
| "find_liveM env (a # as) =
     bindM (askM (\<lambda>t. token_alive env t (a_owner a))) (\<lambda>alive.
     if alive then ret (Some (a_run_id a)) else find_liveM env as)"

definition interrupt_abandonedM :: "run_env \<Rightarrow> string \<Rightarrow> string option run" where
  "interrupt_abandonedM env now =
     bindM (readM running_attempts) (\<lambda>running.
     bindM (find_liveM env running) (\<lambda>live.
     if live \<noteq> None then ret live
     else if running = [] then ret None
     else bindM (writeM env (interrupt_all now running)) (\<lambda>_. ret None)))"

section \<open>What holds whatever the environment does\<close>

definition preserves :: "(run_db \<Rightarrow> bool) \<Rightarrow> 'a run \<Rightarrow> bool" where
  "preserves I m \<longleftrightarrow> (\<forall>w. I (w_db w) \<longrightarrow> I (w_db (snd (m w))))"

named_theorems preserving \<open>invariants of the tables under computations\<close>

lemma preservesD: "preserves I m \<Longrightarrow> I (w_db w) \<Longrightarrow> m w = (r, w') \<Longrightarrow> I (w_db w')"
  unfolding preserves_def by (metis snd_conv)

lemma preserves_ret [preserving]: "preserves I (ret x)"
  by (simp add: preserves_def ret_def)

lemma preserves_throw [preserving]: "preserves I (throw e)"
  by (simp add: preserves_def throw_def)

lemma preserves_liftM [preserving]: "preserves I (liftM r)"
  by (simp add: preserves_def liftM_def)

lemma preserves_readM [preserving]: "preserves I (readM f)"
  by (simp add: preserves_def readM_def)

lemma preserves_askM [preserving]: "preserves I (askM f)"
  by (simp add: preserves_def askM_def)

lemma preserves_bindM [preserving]:
  assumes "preserves I m" and "\<And>x. preserves I (f x)"
  shows "preserves I (bindM m f)"
  using assms unfolding preserves_def bindM_def
  by (auto split: prod.splits sum.splits)

lemma preserves_catchM [preserving]:
  assumes "preserves I m" and "\<And>e. preserves I (h e)"
  shows "preserves I (catchM m h)"
  using assms unfolding preserves_def catchM_def
  by (auto split: prod.splits sum.splits)

lemma preserves_if [preserving]: "preserves I m \<Longrightarrow> preserves I n \<Longrightarrow> preserves I (if b then m else n)"
  by simp

lemma preserves_option [preserving]:
  "preserves I m \<Longrightarrow> (\<And>x. preserves I (f x)) \<Longrightarrow> preserves I (case r of None \<Rightarrow> m | Some x \<Rightarrow> f x)"
  by (cases r) simp_all

lemma preserves_handler [preserving]:
  assumes "\<And>a b. preserves I (f1 a b)" "\<And>m. preserves I (f2 m)" "preserves I f3" "\<And>m. preserves I (f4 m)"
    "\<And>a b. preserves I (f5 a b)" "\<And>m. preserves I (f6 m)" "\<And>m. preserves I (f7 m)" "preserves I f8"
    "\<And>m. preserves I (f9 m)"
  shows "preserves I (case_run_failure f1 f2 f3 f4 f5 f6 f7 f8 f9 e)"
  using assms by (cases e) simp_all

lemma preserves_outcome [preserving]:
  assumes "\<And>r. preserves I (f1 r)" "\<And>m. preserves I (f2 m)" "preserves I f3" "preserves I f4" "\<And>m. preserves I (f5 m)"
  shows "preserves I (case_work_outcome f1 f2 f3 f4 f5 x)"
  using assms by (cases x) simp_all

lemma preserves_sum [preserving]:
  "(\<And>e. preserves I (f e)) \<Longrightarrow> (\<And>x. preserves I (g x)) \<Longrightarrow> preserves I (case_sum f g r)"
  by (cases r) simp_all

lemma preserves_Let [preserving]: "(\<And>x. preserves I (f x)) \<Longrightarrow> preserves I (Let t f)"
  by (simp add: Let_def)

lemma preserves_pair [preserving]: "(\<And>x y. preserves I (f x y)) \<Longrightarrow> preserves I (case p of (x, y) \<Rightarrow> f x y)"
  by (cases p) simp

lemma preserves_checkM [preserving]: "preserves I (checkM f)"
  unfolding checkM_def by (intro preserving)

lemma preserves_transactM:
  assumes "\<And>db x db'. I db \<Longrightarrow> f db = Inr (x, db') \<Longrightarrow> I db'"
  shows "preserves I (transactM env f)"
  using assms unfolding preserves_def transactM_def Let_def
  by (auto split: tx_fate.splits sum.splits prod.splits)

lemma preserves_writeM:
  assumes "\<And>db db'. I db \<Longrightarrow> f db = Inr db' \<Longrightarrow> I db'"
  shows "preserves I (writeM env f)"
  unfolding writeM_def by (rule preserves_transactM) (use assms in auto)

lemma preserves_world [preserving]:
  "preserves I (clockM env)" "preserves I (stampM env)" "preserves I (own_tokenM env)"
  "preserves I (statusM env rid)" "preserves I (reportM env progress rid)"
  unfolding clockM_def stampM_def own_tokenM_def statusM_def reportM_def
  by (intro preserving)+

lemma preserves_verify [preserving]: "preserves I (verify_artifactM env d)" "preserves I (verify_allM env ds)"
proof -
  show one: "preserves I (verify_artifactM env d)" for d
    unfolding verify_artifactM_def by (intro preserving)
  show "preserves I (verify_allM env ds)"
    by (induction ds) (auto intro!: preserving one)
qed

lemma preserves_publish:
  assumes "\<And>db d. I db \<Longrightarrow> I (catalogue d db)"
  shows "preserves I (publish_artifactM env content)"
  using assms unfolding preserves_def publish_artifactM_def Let_def by (auto split: tx_fate.splits)

lemma fold_catalogue: "(\<And>db d. I db \<Longrightarrow> I (catalogue d db)) \<Longrightarrow> I db \<Longrightarrow> I (fold catalogue ds db)"
  by (induction ds arbitrary: db) simp_all

lemma fold_catalogue_same [simp]:
  "db_matchweek (fold catalogue ds db) = db_matchweek db" "db_checkpoints (fold catalogue ds db) = db_checkpoints db"
  by (induction ds arbitrary: db) (simp_all add: catalogue_def)

lemma executed_same [simp]:
  "db_matchweek (executed ds st db) = st" "db_checkpoints (executed ds st db) = db_checkpoints db"
  by (simp_all add: executed_def)

lemma executed_nothing [simp]: "executed [] (db_matchweek db) db = db"
  by (simp add: executed_def)

text \<open>\<open>leaves T x\<close>: every store the executor leaves stands in the relation \<open>T\<close> to the one it found.\<close>

definition leaves :: "(mw_store \<Rightarrow> mw_store \<Rightarrow> bool) \<Rightarrow> executor \<Rightarrow> bool" where
  "leaves T x \<longleftrightarrow> (\<forall>t ctx remaining st. T st (snd (snd (x t ctx remaining st))))"

lemma preserves_workM:
  assumes "leaves T x" and "\<And>db st. I db \<Longrightarrow> T (db_matchweek db) st \<Longrightarrow> I (db\<lparr>db_matchweek := st\<rparr>)"
    and "\<And>db d. I db \<Longrightarrow> I (catalogue d db)"
  shows "preserves I (workM x ctx remaining)"
  unfolding preserves_def
proof (intro allI impI)
  fix w :: world assume w: "I (w_db w)"
  obtain y ds st where x: "x (w_tick w) ctx remaining (db_matchweek (w_db w)) = (y, ds, st)" by (metis prod_cases3)
  then have "T (db_matchweek (w_db w)) st" using assms(1) unfolding leaves_def by (metis snd_conv)
  then have "I ((w_db w)\<lparr>db_matchweek := st\<rparr>)" using assms(2) w by blast
  then have "I (executed ds st (w_db w))" unfolding executed_def using assms(3) by (rule fold_catalogue [rotated])
  then show "I (w_db (snd (workM x ctx remaining w)))" by (simp add: workM_def x)
qed

lemma preserves_find_live [preserving]: "preserves I (find_liveM env as)"
  by (induction as) (auto intro!: preserving)

section \<open>Triples\<close>

text \<open>
  From tables that satisfy \<open>P\<close> the computation returns into \<open>Q\<close>, and when it raises the tables
  satisfy \<open>E\<close>.
\<close>

definition hoareM ::
  "(run_db \<Rightarrow> bool) \<Rightarrow> 'a run \<Rightarrow> ('a \<Rightarrow> run_db \<Rightarrow> bool) \<Rightarrow> (run_db \<Rightarrow> bool) \<Rightarrow> bool" where
  "hoareM P m Q E \<longleftrightarrow>
     (\<forall>w r w'. P (w_db w) \<longrightarrow> m w = (r, w') \<longrightarrow>
        (case r of Inr x \<Rightarrow> Q x (w_db w') | Inl e \<Rightarrow> E (w_db w')))"

lemma hoareD_Inr: "hoareM P m Q E \<Longrightarrow> P (w_db w) \<Longrightarrow> m w = (Inr x, w') \<Longrightarrow> Q x (w_db w')"
  unfolding hoareM_def by (metis (no_types, lifting) sum.case(2))

lemma hoareD: "hoareM P m (\<lambda>_. E) E \<Longrightarrow> P (w_db w) \<Longrightarrow> E (w_db (snd (m w)))"
  unfolding hoareM_def by (cases "m w") (auto split: sum.splits)

lemma hoare_conseq:
  assumes "hoareM P' m Q' E'" "\<And>db. P db \<Longrightarrow> P' db" "\<And>x db. Q' x db \<Longrightarrow> Q x db" "\<And>db. E' db \<Longrightarrow> E db"
  shows "hoareM P m Q E"
  using assms unfolding hoareM_def by (fastforce split: sum.splits)

lemma hoare_ret: "(\<And>db. P db \<Longrightarrow> Q x db) \<Longrightarrow> hoareM P (ret x) Q E"
  by (simp add: hoareM_def ret_def)

lemma hoare_throw: "(\<And>db. P db \<Longrightarrow> E db) \<Longrightarrow> hoareM P (throw e) Q E"
  by (simp add: hoareM_def throw_def)

lemma hoare_bind:
  assumes "hoareM P m R E" and "\<And>x. hoareM (R x) (f x) Q E"
  shows "hoareM P (bindM m f) Q E"
  unfolding hoareM_def
proof (intro allI impI)
  fix w r w' assume w: "P (w_db w)" "bindM m f w = (r, w')"
  obtain r1 w1 where m: "m w = (r1, w1)" by (cases "m w")
  show "case r of Inl e \<Rightarrow> E (w_db w') | Inr x \<Rightarrow> Q x (w_db w')"
  proof (cases r1)
    case (Inl e)
    then show ?thesis using assms(1) w m unfolding hoareM_def by (fastforce simp: bindM_def)
  next
    case (Inr x)
    have "R x (w_db w1)" using assms(1) w(1) m unfolding Inr by (rule hoareD_Inr)
    moreover have "f x w1 = (r, w')" using w(2) m Inr by (simp add: bindM_def)
    ultimately show ?thesis using assms(2) [of x] unfolding hoareM_def by blast
  qed
qed

lemma hoare_catch:
  assumes "hoareM P m Q R" and "\<And>e. hoareM R (h e) Q E"
  shows "hoareM P (catchM m h) Q E"
  unfolding hoareM_def
proof (intro allI impI)
  fix w r w' assume w: "P (w_db w)" "catchM m h w = (r, w')"
  obtain r1 w1 where m: "m w = (r1, w1)" by (cases "m w")
  have post: "case r1 of Inl e \<Rightarrow> R (w_db w1) | Inr x \<Rightarrow> Q x (w_db w1)"
    using assms(1) w(1) m unfolding hoareM_def by blast
  show "case r of Inl e \<Rightarrow> E (w_db w') | Inr x \<Rightarrow> Q x (w_db w')"
  proof (cases r1)
    case (Inl e)
    then have "h e w1 = (r, w')" "R (w_db w1)" using w(2) m post by (simp_all add: catchM_def)
    then show ?thesis using assms(2) [of e] unfolding hoareM_def by blast
  next
    case (Inr x)
    then show ?thesis using w(2) m post by (auto simp: catchM_def)
  qed
qed

lemma hoare_preserves: "preserves P m \<Longrightarrow> (\<And>db. P db \<Longrightarrow> E db) \<Longrightarrow> hoareM P m (\<lambda>_. P) E"
  unfolding hoareM_def by (auto dest: preservesD split: sum.splits)

text \<open>Computations that never write.\<close>

lemma hoare_bind_passive:
  assumes "\<And>I. preserves I m" and "\<And>x. hoareM P (f x) Q E" and "\<And>db. P db \<Longrightarrow> E db"
  shows "hoareM P (bindM m f) Q E"
  by (rule hoare_bind [OF hoare_preserves]) (use assms in auto)

lemma hoare_bind_read:
  assumes "\<And>x. hoareM (\<lambda>db. P db \<and> x = g db) (f x) Q E"
  shows "hoareM P (bindM (readM g) f) Q E"
  by (rule hoare_bind [of _ _ "\<lambda>x db. P db \<and> x = g db"]) (use assms in \<open>auto simp: hoareM_def readM_def\<close>)

lemma hoare_bind_lift:
  assumes "\<And>x. r = Inr x \<Longrightarrow> hoareM P (f x) Q E" and "\<And>db. P db \<Longrightarrow> E db"
  shows "hoareM P (bindM (liftM r) f) Q E"
  using assms by (cases r) (auto simp: hoareM_def bindM_def liftM_def)

lemma hoare_transact:
  assumes "\<And>db x db'. P db \<Longrightarrow> f db = Inr (x, db') \<Longrightarrow> Q x db' \<and> E db'" and "\<And>db. P db \<Longrightarrow> E db"
  shows "hoareM P (transactM env f) Q E"
  using assms unfolding hoareM_def transactM_def Let_def
  by (auto split: tx_fate.splits sum.splits prod.splits)

lemma hoare_write:
  assumes "\<And>db db'. P db \<Longrightarrow> f db = Inr db' \<Longrightarrow> Q () db' \<and> E db'" and "\<And>db. P db \<Longrightarrow> E db"
  shows "hoareM P (writeM env f) Q E"
  unfolding writeM_def by (rule hoare_transact) (use assms in auto)

text \<open>A computation that always raises only has to keep what holds after a raise.\<close>

definition raises :: "'a run \<Rightarrow> bool" where
  "raises m \<longleftrightarrow> (\<forall>w. \<exists>e w'. m w = (Inl e, w'))"

lemma raises_throw: "raises (throw e)"
  by (simp add: raises_def throw_def)

lemma raises_bind: "(\<And>x. raises (f x)) \<Longrightarrow> raises (bindM m f)"
  unfolding raises_def bindM_def by (auto split: prod.splits sum.splits)

lemma raises_Let: "raises (f t) \<Longrightarrow> raises (Let t f)"
  by simp

lemma hoare_raises:
  assumes "raises m" "preserves E m" "\<And>db. P db \<Longrightarrow> E db"
  shows "hoareM P m Q E"
  unfolding hoareM_def
proof (intro allI impI)
  fix w r w' assume w: "P (w_db w)" "m w = (r, w')"
  obtain e where "r = Inl e" using assms(1) w(2) unfolding raises_def by (metis prod.inject)
  then show "case r of Inl e \<Rightarrow> E (w_db w') | Inr x \<Rightarrow> Q x (w_db w')"
    using preservesD [OF assms(2) assms(3) [OF w(1)] w(2)] by simp
qed

lemma hoare_publish:
  assumes "\<And>db d. P db \<Longrightarrow> P (catalogue d db)" and "\<And>db. P db \<Longrightarrow> E db"
  shows "hoareM P (publish_artifactM env content)
    (\<lambda>d db. P db \<and> d = sha256_hex (env_hasher env) content) E"
  using assms unfolding hoareM_def publish_artifactM_def Let_def by (auto split: tx_fate.splits)

lemma hoare_if: "(b \<Longrightarrow> hoareM P m Q E) \<Longrightarrow> (\<not> b \<Longrightarrow> hoareM P n Q E) \<Longrightarrow> hoareM P (if b then m else n) Q E"
  by simp

lemma hoare_option:
  "(r = None \<Longrightarrow> hoareM P m Q E) \<Longrightarrow> (\<And>x. r = Some x \<Longrightarrow> hoareM P (f x) Q E) \<Longrightarrow>
   hoareM P (case r of None \<Rightarrow> m | Some x \<Rightarrow> f x) Q E"
  by (cases r) simp_all

lemma hoare_handler:
  assumes "\<And>a b. hoareM P (f1 a b) Q E" "\<And>m. hoareM P (f2 m) Q E" "hoareM P f3 Q E" "\<And>m. hoareM P (f4 m) Q E"
    "\<And>a b. hoareM P (f5 a b) Q E" "\<And>m. hoareM P (f6 m) Q E" "\<And>m. hoareM P (f7 m) Q E" "hoareM P f8 Q E"
    "\<And>m. hoareM P (f9 m) Q E"
  shows "hoareM P (case_run_failure f1 f2 f3 f4 f5 f6 f7 f8 f9 e) Q E"
  using assms by (cases e) simp_all

lemma hoare_outcome:
  assumes "\<And>r. hoareM P (f1 r) Q E" "\<And>m. hoareM P (f2 m) Q E" "hoareM P f3 Q E" "hoareM P f4 Q E"
    "\<And>m. hoareM P (f5 m) Q E"
  shows "hoareM P (case_work_outcome f1 f2 f3 f4 f5 x) Q E"
  using assms by (cases x) simp_all

lemma hoare_Let: "hoareM P (f t) Q E \<Longrightarrow> hoareM P (Let t f) Q E"
  by simp

lemma hoare_ex: "(\<And>x. hoareM (P x) m Q E) \<Longrightarrow> hoareM (\<lambda>db. \<exists>x. P x db) m Q E"
  unfolding hoareM_def by blast

lemma hoare_pre: "hoareM P' m Q E \<Longrightarrow> (\<And>db. P db \<Longrightarrow> P' db) \<Longrightarrow> hoareM P m Q E"
  unfolding hoareM_def by blast

lemma hoare_assume: "(\<And>db0. P db0 \<Longrightarrow> hoareM (\<lambda>db. db = db0) m Q E) \<Longrightarrow> hoareM P m Q E"
  unfolding hoareM_def by blast

end
