(* ===== verification/Run_Coordinator.thy ===== *)
theory Run_Coordinator
  imports Run_Effects
begin

text \<open>
  \<open>RunCoordinator\<close> of \<open>runs.py\<close>: starting and resuming a run, executing its phases one by one and
  checkpointing each, closing an attempt that did not finish, checking what a resumed run rests on,
  and publishing its completion.
\<close>

section \<open>Errors\<close>

definition raise_lifecycle :: "run_error \<Rightarrow> string \<Rightarrow> 'a run" where
  "raise_lifecycle e rid = throw (LifecycleError e rid)"

text \<open>\<open>_with_recovery\<close>, \<open>_coordinator_busy_error\<close>\<close>

definition with_recovery :: "run_error \<Rightarrow> string \<Rightarrow> run_error" where
  "with_recovery e recovery = e\<lparr>re_recovery := recovery\<rparr>"

definition coordinator_busy_error :: "string \<Rightarrow> run_error" where
  "coordinator_busy_error rid =
     \<lparr>re_status = ''REFUSED'', re_code = ''MV-RUN-COORDINATOR_BUSY'',
      re_explanation = ''A live foreground MatchVet coordinator already owns a run attempt.'',
      re_last_checkpoint = ''none'', re_reuse_state = ''NONE'',
      re_recovery = ''matchvet status '' @ rid, re_checkpoint_at = None\<rparr>"

text \<open>Python's \<open>s or "none"\<close> on an optional string.\<close>

definition or_none :: "string option \<Rightarrow> string" where
  "or_none s = (case s of None \<Rightarrow> ''none'' | Some t \<Rightarrow> (if t \<noteq> [] then t else ''none''))"

section \<open>Executing the phases\<close>

text \<open>\<open>_BoundaryExecutor\<close>; a \<open>ValueError\<close> of \<open>WorkResult\<close> is an exception of the executor.\<close>

definition boundary_executor :: "hasher \<Rightarrow> executor" where
  "boundary_executor H t ctx remaining st =
     ((case work_result_for_phase H (wc_phase ctx) [] of
         Inr r \<Rightarrow> Work_done r
       | Inl (RunValueError m) \<Rightarrow> Work_error m
       | Inl _ \<Rightarrow> Work_error []), [], st)"

definition valid_outcome :: "work_outcome \<Rightarrow> work_outcome" where
  "valid_outcome x =
     (case x of
        Work_done r \<Rightarrow>
          (case work_result_init r of
             Inr r' \<Rightarrow> Work_done r'
           | Inl (RunValueError m) \<Rightarrow> Work_error m
           | Inl _ \<Rightarrow> Work_error [])
      | _ \<Rightarrow> x)"

text \<open>
  The body of the \<open>try\<close> around the executor, with \<open>_execute_with_deadline\<close>: the executor is given the
  remaining seconds, after which the alarm ends it with \<open>Work_deadline\<close>.
\<close>

definition run_workM :: "run_env \<Rightarrow> executor \<Rightarrow> work_context \<Rightarrow> dt \<Rightarrow> dt \<Rightarrow> work_outcome run" where
  "run_workM env execute ctx session_started started =
     (case seconds_between session_started started of
        Inl _ \<Rightarrow> ret (Work_error ''can't subtract offset-naive and offset-aware datetimes'')
      | Inr spent \<Rightarrow>
          let remaining = hard_duration_seconds (env_budget env) - spent in
          if remaining \<le> 0 then ret Work_deadline
          else bindM (workM execute ctx remaining) (\<lambda>x. ret (valid_outcome x)))"

text \<open>\<open>_stop_attempt\<close>\<close>

definition stop_error :: "string \<Rightarrow> string \<Rightarrow> run_status \<Rightarrow> string \<Rightarrow> run_error" where
  "stop_error rcode explanation s rid =
     \<lparr>re_status = ''INCOMPLETE'', re_code = rcode, re_explanation = explanation,
      re_last_checkpoint = rs_last_checkpoint s,
      re_reuse_state = (if rs_completed_units s \<noteq> 0 then ''REUSABLE'' else ''NONE''),
      re_recovery = ''matchvet resume '' @ rid, re_checkpoint_at = rs_checkpoint_at s\<rparr>"

definition stop_attemptM ::
  "run_env \<Rightarrow> string \<Rightarrow> string \<Rightarrow> nat \<Rightarrow> dt \<Rightarrow> attempt_status \<Rightarrow> string \<Rightarrow> string \<Rightarrow> dt option \<Rightarrow> 'a run" where
  "stop_attemptM env rid key n started status rcode explanation ended =
     bindM (case ended of None \<Rightarrow> clockM env | Some e \<Rightarrow> ret e) (\<lambda>stopped.
     bindM (liftM (seconds_between started stopped)) (\<lambda>elapsed.
     bindM (statusM env rid) (\<lambda>s.
     let e = stop_error rcode explanation s rid in
     bindM (liftM (utc_stamp stopped)) (\<lambda>stamp.
     bindM (writeM env (finish_attempt rid key n status stamp elapsed e)) (\<lambda>_.
     raise_lifecycle e rid)))))"

definition hard_limit_text :: string where
  "hard_limit_text = ''The run reached the four-hour hard execution limit.''"

text \<open>Verifying and checkpointing what the executor returned.\<close>

definition save_workM ::
  "run_env \<Rightarrow> string \<Rightarrow> string \<Rightarrow> run_phase \<Rightarrow> nat \<Rightarrow> string \<Rightarrow> dt \<Rightarrow> dt \<Rightarrow> int \<Rightarrow> work_result \<Rightarrow> string run" where
  "save_workM env rid key p n input_digest started ended elapsed r =
     (let output = work_output_digest (env_hasher env) r in
      catchM
        (bindM (verify_allM env (wr_artifact_digests r)) (\<lambda>_.
         bindM (liftM (utc_stamp ended)) (\<lambda>stamp.
         bindM (writeM env (checkpoint rid key p n input_digest output (wr_artifact_digests r) stamp elapsed))
           (\<lambda>_. ret output))))
        (\<lambda>e. case e of
           ArtifactFailure rcode _ \<Rightarrow>
             stop_attemptM env rid key n started ATTEMPT_FAILED ''MV-RUN-CHECKPOINT_ARTIFACT_INVALID''
               (''Checkpoint output artifact failed verification: '' @ rcode @ ''.'') (Some ended)
         | OsFailure m \<Rightarrow>
             stop_attemptM env rid key n started ATTEMPT_FAILED ''MV-RUN-CHECKPOINT_FAILED''
               (''Checkpoint publication failed: '' @ m @ ''.'') (Some ended)
         | DatabaseFailure m \<Rightarrow>
             stop_attemptM env rid key n started ATTEMPT_FAILED ''MV-RUN-CHECKPOINT_FAILED''
               (''Checkpoint publication failed: '' @ m @ ''.'') (Some ended)
         | _ \<Rightarrow> throw e))"

text \<open>What follows the executor in one pass of the loop of \<open>_execute\<close>: the new predecessor digest.\<close>

definition after_workM ::
  "run_env \<Rightarrow> string \<Rightarrow> string \<Rightarrow> run_phase \<Rightarrow> nat \<Rightarrow> string \<Rightarrow> dt \<Rightarrow> dt \<Rightarrow> work_outcome \<Rightarrow> string run" where
  "after_workM env rid key p n input_digest session_started started outcome =
     (case outcome of
        Work_deadline \<Rightarrow>
          stop_attemptM env rid key n started ATTEMPT_FAILED ''MV-RUN-HARD_TIME_LIMIT'' hard_limit_text None
      | Work_interrupted m \<Rightarrow>
          stop_attemptM env rid key n started ATTEMPT_INTERRUPTED ''MV-RUN-INTERRUPTED''
            (if m \<noteq> [] then m else ''The foreground coordinator was interrupted.'') None
      | Work_keyboard_interrupt \<Rightarrow>
          stop_attemptM env rid key n started ATTEMPT_INTERRUPTED ''MV-RUN-INTERRUPTED''
            ''The foreground coordinator was interrupted by the terminal.'' None
      | Work_error m \<Rightarrow>
          stop_attemptM env rid key n started ATTEMPT_FAILED ''MV-RUN-WORK_FAILED''
            (''Work unit '' @ key @ '' failed: '' @ m) None
      | Work_done r \<Rightarrow>
          bindM (clockM env) (\<lambda>ended.
          bindM (liftM (seconds_between started ended)) (\<lambda>attempt_elapsed.
          bindM (liftM (seconds_between session_started ended)) (\<lambda>session_elapsed.
          if session_elapsed > hard_duration_seconds (env_budget env)
          then stop_attemptM env rid key n started ATTEMPT_FAILED ''MV-RUN-HARD_TIME_LIMIT''
                 hard_limit_text (Some ended)
          else save_workM env rid key p n input_digest started ended attempt_elapsed r))))"

definition execute_phaseM ::
  "run_env \<Rightarrow> executor \<Rightarrow> string \<Rightarrow> string \<Rightarrow> string \<Rightarrow> int \<Rightarrow> dt \<Rightarrow> string \<Rightarrow> run_phase \<Rightarrow> string \<Rightarrow> string run" where
  "execute_phaseM env execute rid matchweek aggregate cpu session_started key p predecessor =
     bindM (clockM env) (\<lambda>started.
     let input_digest = work_input_digest (env_hasher env) aggregate key predecessor in
     bindM (own_tokenM env) (\<lambda>token.
     bindM (liftM (utc_stamp started)) (\<lambda>stamp.
     bindM (transactM env (start_attempt rid key p input_digest token stamp)) (\<lambda>n.
     let ctx = \<lparr>wc_run_id = rid, wc_stable_key = key, wc_matchweek = matchweek, wc_phase = p,
                wc_attempt = n, wc_mode = ''RESEARCH_ONLY'', wc_input_digest = input_digest,
                wc_predecessor_digest = predecessor, wc_cpu_concurrency = cpu\<rparr> in
     bindM (run_workM env execute ctx session_started started) (\<lambda>outcome.
     after_workM env rid key p n input_digest session_started started outcome)))))"

text \<open>The loop over \<open>enumerate(RUN_PHASES)\<close>; \<open>completed\<close> is what was read before it began.\<close>

fun execute_phasesM ::
  "run_env \<Rightarrow> executor \<Rightarrow> progress option \<Rightarrow> string \<Rightarrow> string \<Rightarrow> string \<Rightarrow> int \<Rightarrow> dt \<Rightarrow> string list \<Rightarrow>
   (nat \<times> run_phase) list \<Rightarrow> string \<Rightarrow> unit run" where
  "execute_phasesM env execute progress rid matchweek aggregate cpu session_started completed [] predecessor =
     ret ()"
| "execute_phasesM env execute progress rid matchweek aggregate cpu session_started completed
     ((i, p) # ps) predecessor =
     (if work_key i p matchweek \<in> set completed
      then execute_phasesM env execute progress rid matchweek aggregate cpu session_started completed
        ps predecessor
      else bindM (execute_phaseM env execute rid matchweek aggregate cpu session_started
             (work_key i p matchweek) p predecessor) (\<lambda>output.
           bindM (reportM env progress rid) (\<lambda>_.
           execute_phasesM env execute progress rid matchweek aggregate cpu session_started completed
             ps output)))"

section \<open>Completion\<close>

text \<open>\<open>_publish_completion\<close>\<close>

definition completion_payload :: "run_contract \<Rightarrow> hasher \<Rightarrow> string \<Rightarrow> checkpoint_row list \<Rightarrow> pyval" where
  "completion_payload inputs H rid cs =
     PDict [(''checkpoint_output_digests'', str_list (map c_output cs)),
            (''input_digest'', PStr (aggregate_digest H inputs)), (''mode'', PStr ''RESEARCH_ONLY''),
            (''run_id'', PStr rid), (''schema_version'', PInt 1)]"

definition completion_failedM :: "run_env \<Rightarrow> string \<Rightarrow> string \<Rightarrow> unit run" where
  "completion_failedM env rid m =
     bindM (statusM env rid) (\<lambda>s.
     let e = \<lparr>re_status = ''INCOMPLETE'', re_code = ''MV-RUN-COMPLETION_PUBLICATION_FAILED'',
              re_explanation = ''Atomic run completion publication failed: '' @ m @ ''.'',
              re_last_checkpoint = rs_last_checkpoint s, re_reuse_state = ''REUSABLE'',
              re_recovery = ''matchvet resume '' @ rid, re_checkpoint_at = rs_checkpoint_at s\<rparr> in
     bindM (stampM env) (\<lambda>now.
     bindM (writeM env (record_error rid e now REUSABLE)) (\<lambda>_. raise_lifecycle e rid)))"

definition publish_completionM :: "run_env \<Rightarrow> string \<Rightarrow> run_contract \<Rightarrow> unit run" where
  "publish_completionM env rid inputs =
     bindM (readM (\<lambda>db. run_checkpoints db rid)) (\<lambda>cs.
     catchM
       (bindM (publish_artifactM env (json_text (completion_payload inputs (env_hasher env) rid cs)))
         (\<lambda>published.
        bindM (stampM env) (\<lambda>now. writeM env (complete_run rid published now))))
       (\<lambda>e. case e of
          ArtifactFailure _ m \<Rightarrow> completion_failedM env rid m
        | OsFailure m \<Rightarrow> completion_failedM env rid m
        | DatabaseFailure m \<Rightarrow> completion_failedM env rid m
        | _ \<Rightarrow> throw e))"

text \<open>\<open>_execute\<close>\<close>

definition executeM ::
  "run_env \<Rightarrow> executor option \<Rightarrow> progress option \<Rightarrow> string \<Rightarrow> run_contract \<Rightarrow> int \<Rightarrow> run_status run" where
  "executeM env executor progress rid inputs cpu =
     (let execute = (case executor of None \<Rightarrow> boundary_executor (env_hasher env) | Some x \<Rightarrow> x) in
      bindM (clockM env) (\<lambda>session_started.
      bindM (readM (\<lambda>db. run_checkpoints db rid)) (\<lambda>cs.
      bindM (readM (\<lambda>db. find_run db rid)) (\<lambda>found.
      case found of
        None \<Rightarrow> throw RunAssertion
      | Some r \<Rightarrow>
          let predecessor = (if cs \<noteq> [] then c_output (last cs)
                             else value_of (rc_digests inputs) ''predecessors'') in
          bindM (execute_phasesM env execute progress rid (rr_matchweek r)
            (aggregate_digest (env_hasher env) inputs) cpu session_started (map c_key cs)
            (List.enumerate 0 run_phases) predecessor) (\<lambda>_.
          bindM (publish_completionM env rid inputs) (\<lambda>_. statusM env rid))))))"

section \<open>Checks before executing\<close>

text \<open>\<open>_verify_input_artifacts\<close>\<close>

definition input_artifact_error :: "string \<Rightarrow> string \<Rightarrow> string \<Rightarrow> run_error" where
  "input_artifact_error rcode acode recovery =
     \<lparr>re_status = ''REFUSED'', re_code = rcode,
      re_explanation = ''Required artifact failed verification: '' @ acode @ ''.'',
      re_last_checkpoint = ''none'', re_reuse_state = ''BLOCKED'', re_recovery = recovery,
      re_checkpoint_at = None\<rparr>"

definition input_artifact_failedM :: "run_env \<Rightarrow> run_error \<Rightarrow> string \<Rightarrow> unit run" where
  "input_artifact_failedM env failure rid =
     (if rid \<noteq> []
      then bindM (statusM env rid) (\<lambda>s.
           let failure' = failure\<lparr>re_last_checkpoint := rs_last_checkpoint s,
                 re_checkpoint_at := rs_checkpoint_at s\<rparr> in
           bindM (stampM env) (\<lambda>now.
           bindM (writeM env (record_error rid failure' now BLOCKED)) (\<lambda>_.
           raise_lifecycle failure' rid)))
      else raise_lifecycle failure rid)"

definition verify_input_artifactsM :: "run_env \<Rightarrow> run_contract \<Rightarrow> string \<Rightarrow> string \<Rightarrow> string \<Rightarrow> unit run" where
  "verify_input_artifactsM env inputs rcode recovery rid =
     catchM (verify_allM env (rc_artifact_digests inputs))
       (\<lambda>e. case e of
          ArtifactFailure acode _ \<Rightarrow>
            input_artifact_failedM env (input_artifact_error rcode acode recovery) rid
        | _ \<Rightarrow> throw e)"

text \<open>\<open>_validate_checkpoints\<close>\<close>

definition block_runM :: "run_env \<Rightarrow> string \<Rightarrow> run_error \<Rightarrow> unit run" where
  "block_runM env rid e =
     bindM (stampM env) (\<lambda>now.
     bindM (writeM env (record_error rid e now BLOCKED)) (\<lambda>_. raise_lifecycle e rid))"

definition checkpoint_error :: "string \<Rightarrow> string \<Rightarrow> string \<Rightarrow> checkpoint_row \<Rightarrow> run_error" where
  "checkpoint_error rcode explanation recovery c =
     \<lparr>re_status = ''REFUSED'', re_code = rcode, re_explanation = explanation,
      re_last_checkpoint = c_key c, re_reuse_state = ''BLOCKED'', re_recovery = recovery,
      re_checkpoint_at = Some (c_at c)\<rparr>"

fun verify_checkpoint_artifactsM :: "run_env \<Rightarrow> string \<Rightarrow> checkpoint_row \<Rightarrow> string list \<Rightarrow> unit run" where
  "verify_checkpoint_artifactsM env rid c [] = ret ()"
| "verify_checkpoint_artifactsM env rid c (d # ds) =
     bindM (catchM (verify_artifactM env d)
       (\<lambda>e. case e of
          ArtifactFailure acode _ \<Rightarrow>
            block_runM env rid (checkpoint_error ''MV-RESUME-CHECKPOINT_ARTIFACT_INVALID''
              (''Checkpoint artifact failed verification: '' @ acode @ ''.'')
              (''matchvet doctor --store '' @ env_store_path env) c)
        | _ \<Rightarrow> throw e)) (\<lambda>_. verify_checkpoint_artifactsM env rid c ds)"

fun validate_checkpointsM :: "run_env \<Rightarrow> string \<Rightarrow> string \<Rightarrow> checkpoint_row list \<Rightarrow> string \<Rightarrow> unit run" where
  "validate_checkpointsM env rid aggregate [] predecessor = ret ()"
| "validate_checkpointsM env rid aggregate (c # cs) predecessor =
     (if c_input_digest c \<noteq> work_input_digest (env_hasher env) aggregate (c_key c) predecessor
      then bindM (readM (\<lambda>db. run_matchweek db rid)) (\<lambda>m. bindM (liftM m) (\<lambda>matchweek.
           block_runM env rid (checkpoint_error ''MV-RESUME-CHECKPOINT_MISMATCH''
             (''Checkpoint input digest differs for '' @ c_key c @ ''.'')
             (''matchvet run '' @ matchweek) c)))
      else bindM (verify_checkpoint_artifactsM env rid c (c_artifacts c)) (\<lambda>_.
           validate_checkpointsM env rid aggregate cs (c_output c)))"

section \<open>Start and resume\<close>

text \<open>\<open>_resource_json\<close>, as the value its text decodes to.\<close>

definition resource_json :: "resource_estimate \<Rightarrow> resource_observation \<Rightarrow> preflight_result \<Rightarrow> pyval" where
  "resource_json e x r =
     (let b = pf_budget r in
      PDict
       [(''budget'', PDict
          [(''absolute_memory_bytes'', PInt (absolute_memory_bytes b)),
           (''hard_duration_seconds'', PInt (hard_duration_seconds b)),
           (''historical_network_bytes'', PInt (historical_network_bytes b)),
           (''managed_storage_cap_bytes'', PInt (managed_storage_cap_bytes b)),
           (''maximum_cpu_heavy_operations'', PInt (maximum_cpu_heavy_operations b)),
           (''minimum_available_memory_bytes'', PInt (minimum_available_memory_bytes b)),
           (''minimum_free_space_bytes'', PInt (minimum_free_space_bytes b)),
           (''reserved_cpus'', PInt (reserved_cpus b)),
           (''routine_network_bytes'', PInt (routine_network_bytes b)),
           (''target_duration_seconds'', PInt (target_duration_seconds b)),
           (''target_memory_bytes'', PInt (target_memory_bytes b))]),
        (''cpu_concurrency'', PInt (pf_concurrency r)),
        (''estimate'', PDict
          [(''cpu_heavy_operations'', PInt (cpu_heavy_operations e)),
           (''duration_seconds'', PInt (duration_seconds e)),
           (''network_bytes'', PInt (network_bytes e)),
           (''peak_memory_bytes'', PInt (peak_memory_bytes e)),
           (''storage_growth_bytes'', PInt (storage_growth_bytes e))]),
        (''observation'', PDict
          [(''active_coordinators'', PInt (active_coordinators x)),
           (''available_cpus'', PInt (available_cpus x)),
           (''available_memory_bytes'', PInt (available_memory_bytes x)),
           (''free_space_bytes'', PInt (free_space_bytes x)),
           (''managed_storage_bytes'', PInt (managed_storage_bytes x)),
           (''memory_pressure'', PBool (memory_pressure x)),
           (''thermal_pressure'', PBool (thermal_pressure x))]),
        (''warnings'', str_list (pf_warnings r))])"

text \<open>The refusal of a compatible unfinished run.\<close>

definition resume_required_error :: "run_row \<Rightarrow> run_error" where
  "resume_required_error r =
     \<lparr>re_status = ''REFUSED'', re_code = ''MV-RUN-RESUME_REQUIRED'',
      re_explanation = ''A compatible unfinished run already exists.'',
      re_last_checkpoint = or_none (rr_last_checkpoint r), re_reuse_state = ''REUSABLE'',
      re_recovery = ''matchvet resume '' @ rr_run_id r, re_checkpoint_at = rr_last_checkpoint_at r\<rparr>"

text \<open>\<open>start\<close>\<close>

definition start_runM ::
  "run_env \<Rightarrow> string \<Rightarrow> run_contract \<Rightarrow> resource_estimate \<Rightarrow> resource_observation \<Rightarrow>
   executor option \<Rightarrow> progress option \<Rightarrow> run_status run" where
  "start_runM env matchweek inputs estimate observation executor progress =
     bindM (checkM (env_guard env)) (\<lambda>_.
     let preflight = preflight_resources estimate observation (env_budget env) in
     if \<not> pf_accepted preflight
     then (case pf_error preflight of None \<Rightarrow> throw RunAssertion | Some e \<Rightarrow> raise_lifecycle e [])
     else
     bindM (checkM (env_discard env)) (\<lambda>_.
     bindM (checkM (env_guard env)) (\<lambda>_.
     bindM (verify_input_artifactsM env inputs ''MV-PREFLIGHT-ARTIFACT_INVALID'' ''matchvet run'' []) (\<lambda>_.
     bindM (stampM env) (\<lambda>now.
     bindM (own_tokenM env) (\<lambda>owner.
     bindM (interrupt_abandonedM env now) (\<lambda>active.
     case active of
       Some other \<Rightarrow> raise_lifecycle (coordinator_busy_error other) other
     | None \<Rightarrow>
     bindM (readM (\<lambda>db. compatible_incomplete db matchweek (aggregate_digest (env_hasher env) inputs)))
       (\<lambda>compatible.
     case compatible of
       Some r \<Rightarrow> raise_lifecycle (resume_required_error r) (rr_run_id r)
     | None \<Rightarrow>
     bindM (askM (env_uuid env)) (\<lambda>rid.
     bindM (writeM env (create_run (env_hasher env) rid matchweek inputs
       (resource_json estimate observation preflight) (pf_concurrency preflight)
       (pf_warnings preflight) now owner)) (\<lambda>_.
     bindM (reportM env progress rid) (\<lambda>_.
     executeM env executor progress rid inputs (pf_concurrency preflight))))))))))))"

definition not_found_error :: "string \<Rightarrow> run_error" where
  "not_found_error rid =
     \<lparr>re_status = ''REFUSED'', re_code = ''MV-RESUME-RUN_NOT_FOUND'',
      re_explanation = ''Run '' @ rid @ '' does not exist.'', re_last_checkpoint = ''none'',
      re_reuse_state = ''NONE'', re_recovery = ''matchvet status'', re_checkpoint_at = None\<rparr>"

definition already_complete_error :: "run_row \<Rightarrow> run_error" where
  "already_complete_error r =
     \<lparr>re_status = ''REFUSED'', re_code = ''MV-RESUME-ALREADY_COMPLETE'',
      re_explanation = ''Run '' @ rr_run_id r @ '' is already complete.'',
      re_last_checkpoint = or_none (rr_last_checkpoint r), re_reuse_state = ''NOT_NEEDED'',
      re_recovery = ''matchvet status '' @ rr_run_id r, re_checkpoint_at = rr_last_checkpoint_at r\<rparr>"

definition digest_mismatch_error :: "run_row \<Rightarrow> string list \<Rightarrow> run_error" where
  "digest_mismatch_error r differences =
     \<lparr>re_status = ''REFUSED'', re_code = ''MV-RESUME-DIGEST_MISMATCH'',
      re_explanation = ''Resume inputs differ: '' @ join '', '' differences @ ''.'',
      re_last_checkpoint = or_none (rr_last_checkpoint r), re_reuse_state = ''BLOCKED'',
      re_recovery = ''matchvet run '' @ rr_matchweek r, re_checkpoint_at = rr_last_checkpoint_at r\<rparr>"

text \<open>\<open>resume\<close>\<close>

definition resume_runM ::
  "run_env \<Rightarrow> string \<Rightarrow> run_contract \<Rightarrow> resource_estimate \<Rightarrow> resource_observation \<Rightarrow>
   executor option \<Rightarrow> progress option \<Rightarrow> run_status run" where
  "resume_runM env rid inputs estimate observation executor progress =
     bindM (checkM (env_guard env)) (\<lambda>_.
     let preflight = preflight_resources estimate observation (env_budget env) in
     if \<not> pf_accepted preflight
     then (case pf_error preflight of None \<Rightarrow> throw RunAssertion
           | Some e \<Rightarrow> raise_lifecycle (with_recovery e (''matchvet resume '' @ rid)) rid)
     else
     bindM (checkM (env_discard env)) (\<lambda>_.
     bindM (checkM (env_guard env)) (\<lambda>_.
     bindM (stampM env) (\<lambda>now.
     bindM (interrupt_abandonedM env now) (\<lambda>active.
     case active of
       Some other \<Rightarrow> raise_lifecycle (coordinator_busy_error other) other
     | None \<Rightarrow>
     bindM (readM (\<lambda>db. find_run db rid)) (\<lambda>found.
     case found of
       None \<Rightarrow> raise_lifecycle (not_found_error rid) rid
     | Some r \<Rightarrow>
     if rr_state r = RUN_COMPLETE then raise_lifecycle (already_complete_error r) rid
     else
     bindM (liftM (contract_from_stored (env_hasher env) (rr_contract r))) (\<lambda>stored.
     let differences = contract_differences stored inputs in
     if differences \<noteq> []
     then let e = digest_mismatch_error r differences in
       bindM (writeM env (record_error rid e now BLOCKED)) (\<lambda>_. raise_lifecycle e rid)
     else
     bindM (verify_input_artifactsM env inputs ''MV-RESUME-ARTIFACT_INVALID''
       (''matchvet doctor --store '' @ env_store_path env) rid) (\<lambda>_.
     bindM (readM (\<lambda>db. run_checkpoints db rid)) (\<lambda>cs.
     bindM (validate_checkpointsM env rid (aggregate_digest (env_hasher env) inputs) cs
       (value_of (rc_digests inputs) ''predecessors'')) (\<lambda>_.
     bindM (own_tokenM env) (\<lambda>owner.
     bindM (writeM env (mark_resumed rid (resource_json estimate observation preflight)
       (pf_concurrency preflight) (pf_warnings preflight) owner now)) (\<lambda>_.
     bindM (reportM env progress rid) (\<lambda>_.
     executeM env executor progress rid inputs (pf_concurrency preflight))))))))))))))"

end
