(* ===== verification/Run_Invariant.thy ===== *)
theory Run_Invariant
  imports Run_Coordinator
begin

text \<open>
  The invariant of the run tables: the checkpoints of a run are those of its first phases, in order,
  each executed under the digest of its key, the run's contract and the output before it; the work
  units agree with them; attempts are numbered and closed consistently; and a run is complete exactly
  when its completion is published over seven checkpoints. Every transaction of the repository keeps it.
\<close>

section \<open>The invariant\<close>

definition checkpoints_of :: "run_db \<Rightarrow> string \<Rightarrow> checkpoint_row list" where
  "checkpoints_of db rid = filter (\<lambda>c. c_run_id c = rid) (db_checkpoints db)"

definition units_of :: "run_db \<Rightarrow> string \<Rightarrow> unit_row list" where
  "units_of db rid = filter (\<lambda>u. u_run_id u = rid) (db_units db)"

definition phase_key :: "string \<Rightarrow> nat \<Rightarrow> string" where
  "phase_key matchweek i = work_key i (run_phases ! i) matchweek"

text \<open>What the first phases of a run leave behind: an unbroken chain of digests.\<close>

definition chained :: "hasher \<Rightarrow> string \<Rightarrow> string \<Rightarrow> string \<Rightarrow> checkpoint_row list \<Rightarrow> bool" where
  "chained H matchweek aggregate first cs \<longleftrightarrow>
     length cs \<le> 7 \<and>
     (\<forall>i < length cs. c_order (cs ! i) = i \<and> c_phase (cs ! i) = run_phases ! i \<and>
        c_key (cs ! i) = phase_key matchweek i \<and>
        c_input_digest (cs ! i) = work_input_digest H aggregate (c_key (cs ! i))
          (if i = 0 then first else c_output (cs ! (i - 1))))"

definition chain_end :: "string \<Rightarrow> checkpoint_row list \<Rightarrow> string" where
  "chain_end first cs = (if cs = [] then first else c_output (last cs))"

definition valid_contract :: "hasher \<Rightarrow> run_contract \<Rightarrow> bool" where
  "valid_contract H c \<longleftrightarrow> (\<exists>m as ps. contract_from_values H m as ps = Inr c)"

definition first_digest :: "run_contract \<Rightarrow> string" where
  "first_digest c = value_of (rc_digests c) ''predecessors''"

definition run_ok :: "hasher \<Rightarrow> run_db \<Rightarrow> run_row \<Rightarrow> bool" where
  "run_ok H db r \<longleftrightarrow>
     (\<exists>c. valid_contract H c \<and> rr_contract r = Some (contract_json c) \<and>
        rr_input_digest r = aggregate_digest H c \<and>
        chained H (rr_matchweek r) (rr_input_digest r) (first_digest c) (checkpoints_of db (rr_run_id r)) \<and>
        (rr_state r = RUN_COMPLETE \<longleftrightarrow> rr_run_id r \<in> k_run_id ` set (db_completions db)) \<and>
        (\<forall>k \<in> set (db_completions db). k_run_id k = rr_run_id r \<longrightarrow>
           length (checkpoints_of db (rr_run_id r)) = 7 \<and>
           k_digest k = digest H (completion_payload c H (rr_run_id r) (checkpoints_of db (rr_run_id r))))) \<and>
     rr_last_checkpoint r = (if checkpoints_of db (rr_run_id r) = [] then None
       else Some (phase_text (c_phase (last (checkpoints_of db (rr_run_id r))))))"

definition unit_names :: "string \<Rightarrow> (string \<times> run_phase \<times> nat) list" where
  "unit_names matchweek = map (\<lambda>(i, p). (work_key i p matchweek, p, i)) (List.enumerate 0 run_phases)"

definition unit_name :: "unit_row \<Rightarrow> string \<times> run_phase \<times> nat" where
  "unit_name u = (u_key u, u_phase u, u_order u)"

definition units_ok :: "run_db \<Rightarrow> run_row \<Rightarrow> bool" where
  "units_ok db r \<longleftrightarrow>
     map unit_name (units_of db (rr_run_id r)) = unit_names (rr_matchweek r) \<and>
     (\<forall>u \<in> set (units_of db (rr_run_id r)).
        u_state u = UNIT_COMPLETE \<longleftrightarrow> u_order u < length (checkpoints_of db (rr_run_id r)))"

definition attempt_ok :: "run_db \<Rightarrow> attempt_row \<Rightarrow> bool" where
  "attempt_ok db a \<longleftrightarrow>
     (\<exists>u \<in> set (db_units db). u_run_id u = a_run_id a \<and> u_key u = a_key a \<and>
        1 \<le> a_attempt a \<and> a_attempt a \<le> u_attempts u \<and>
        (a_status a = ATTEMPT_RUNNING \<longrightarrow> u_state u \<noteq> UNIT_COMPLETE \<and> a_attempt a = u_attempts u) \<and>
        (a_status a = ATTEMPT_COMPLETED \<longrightarrow> u_state u = UNIT_COMPLETE \<and> a_attempt a = u_attempts u)) \<and>
     (\<exists>d. valid_dt d \<and> dt_off d = Some 0 \<and> a_started_at a = utc_text True d)"

definition known_runs :: "run_db \<Rightarrow> bool" where
  "known_runs db \<longleftrightarrow>
     u_run_id ` set (db_units db) \<subseteq> rr_run_id ` set (db_runs db) \<and>
     c_run_id ` set (db_checkpoints db) \<subseteq> rr_run_id ` set (db_runs db) \<and>
     k_run_id ` set (db_completions db) \<subseteq> rr_run_id ` set (db_runs db)"

definition db_inv :: "hasher \<Rightarrow> run_db \<Rightarrow> bool" where
  "db_inv H db \<longleftrightarrow>
     distinct (map rr_run_id (db_runs db)) \<and> known_runs db \<and>
     (\<forall>r \<in> set (db_runs db). run_ok H db r \<and> units_ok db r) \<and>
     (\<forall>a \<in> set (db_attempts db). attempt_ok db a) \<and> length (running_attempts db) \<le> 1"

lemma db_inv_empty: "db_inv H empty_db"
  by (simp add: db_inv_def empty_db_def known_runs_def running_attempts_def)

section \<open>Chains and keys\<close>

lemma chained_Nil [simp]: "chained H m a f []"
  by (simp add: chained_def)

lemma chained_snoc:
  "chained H m a f (cs @ [c]) \<longleftrightarrow>
     chained H m a f cs \<and> length cs < 7 \<and> c_order c = length cs \<and> c_phase c = run_phases ! length cs \<and>
     c_key c = phase_key m (length cs) \<and> c_input_digest c = work_input_digest H a (c_key c) (chain_end f cs)"
proof -
  have e: "(if length cs = 0 then f else c_output ((cs @ [c]) ! (length cs - 1))) = chain_end f cs"
    by (auto simp: chain_end_def nth_append last_conv_nth)
  have p: "(if i = 0 then f else c_output ((cs @ [c]) ! (i - 1))) = (if i = 0 then f else c_output (cs ! (i - 1)))"
    if "i < length cs" for i
    using that by (auto simp: nth_append)
  show ?thesis
    unfolding chained_def length_append list.size add_0_left less_Suc_eq all_conj_distrib
    using e p by (auto simp: nth_append less_Suc_eq all_conj_distrib)
qed

lemma phase_key_inj: "i < 7 \<Longrightarrow> j < 7 \<Longrightarrow> phase_key m i = phase_key m j \<longleftrightarrow> i = j"
  using work_key_inj [of i j] by (auto simp: phase_key_def)

lemma chained_keys: "chained H m a f cs \<Longrightarrow> map c_key cs = map (phase_key m) [0..<length cs]"
  by (rule nth_equalityI) (simp_all add: chained_def)

lemma chained_orders: "chained H m a f cs \<Longrightarrow> map c_order cs = [0..<length cs]"
  by (rule nth_equalityI) (simp_all add: chained_def)

lemma chained_sorted: "chained H m a f cs \<Longrightarrow> sort_key c_order cs = cs"
  by (rule sort_key_id_if_sorted) (simp add: chained_orders)

lemma unit_names_nth: "unit_names m = map (\<lambda>i. (phase_key m i, run_phases ! i, i)) [0..<7]"
  by (rule nth_equalityI) (simp_all add: unit_names_def phase_key_def nth_enumerate_eq)

lemma unit_names_member:
  "(k, p, i) \<in> set (unit_names m) \<longleftrightarrow> i < 7 \<and> p = run_phases ! i \<and> k = phase_key m i"
  by (auto simp: unit_names_nth)

lemma unit_nameD:
  assumes "units_ok db r" "u \<in> set (db_units db)" "u_run_id u = rr_run_id r"
  shows "u_order u < 7" "u_phase u = run_phases ! u_order u" "u_key u = phase_key (rr_matchweek r) (u_order u)"
proof -
  have "u \<in> set (units_of db (rr_run_id r))" using assms(2,3) by (simp add: units_of_def)
  then have "unit_name u \<in> set (map unit_name (units_of db (rr_run_id r)))" by simp
  also have "\<dots> = set (unit_names (rr_matchweek r))" using assms(1) by (simp add: units_ok_def)
  finally show "u_order u < 7" "u_phase u = run_phases ! u_order u"
    "u_key u = phase_key (rr_matchweek r) (u_order u)"
    by (simp_all add: unit_name_def unit_names_member)
qed

lemma unit_exists:
  assumes "units_ok db r" "i < 7"
  obtains u where "u \<in> set (db_units db)" "u_run_id u = rr_run_id r" "u_order u = i"
    "u_key u = phase_key (rr_matchweek r) i" "u_phase u = run_phases ! i"
proof -
  have "(phase_key (rr_matchweek r) i, run_phases ! i, i) \<in> set (map unit_name (units_of db (rr_run_id r)))"
    using assms unfolding units_ok_def by (simp add: unit_names_member del: set_map)
  then show thesis using that by (auto simp: unit_name_def units_of_def)
qed

text \<open>A run has one unit per key.\<close>

lemma unit_unique:
  assumes "units_ok db r" "u \<in> set (db_units db)" "v \<in> set (db_units db)"
    and "u_run_id u = rr_run_id r" "u_run_id v = rr_run_id r" "u_key u = u_key v"
  shows "u = v"
proof -
  have n: "distinct (map unit_name (units_of db (rr_run_id r)))"
    using assms(1) by (simp add: units_ok_def unit_names_nth distinct_map inj_on_def)
  have "u_order u = u_order v"
    using unit_nameD [OF assms(1,2,4)] unit_nameD [OF assms(1,3,5)] assms(6) phase_key_inj by metis
  then have "unit_name u = unit_name v"
    using unit_nameD [OF assms(1,2,4)] unit_nameD [OF assms(1,3,5)] assms(6) by (simp add: unit_name_def)
  then show ?thesis
    using n assms(2-5) by (auto simp: distinct_map inj_on_def units_of_def)
qed

section \<open>Updates\<close>

lemma set_update_where: "set (update_where P f rows) = (\<lambda>r. if P r then f r else r) ` set rows"
  by (simp add: update_where_def)

lemma map_update_where: "(\<And>r. g (f r) = g r) \<Longrightarrow> map g (update_where P f rows) = map g rows"
  by (simp add: update_where_def)

lemma filter_update_where:
  "(\<And>r. Q (f r) = Q r) \<Longrightarrow> filter Q (update_where P f rows) = update_where P f (filter Q rows)"
  by (induction rows) (auto simp: update_where_def)

lemma update_run_simps [simp]:
  "db_identifiers (update_run rid f db) = db_identifiers db"
  "db_artifacts (update_run rid f db) = db_artifacts db"
  "db_inputs (update_run rid f db) = db_inputs db" "db_units (update_run rid f db) = db_units db"
  "db_attempts (update_run rid f db) = db_attempts db"
  "db_checkpoints (update_run rid f db) = db_checkpoints db"
  "db_completions (update_run rid f db) = db_completions db"
  by (simp_all add: update_run_def)

text \<open>The columns of a run the invariant reads; the quiet updates leave them alone.\<close>

definition core :: "run_row \<Rightarrow> string \<times> string \<times> run_state \<times> pyval option \<times> string \<times> string option" where
  "core r = (rr_run_id r, rr_matchweek r, rr_state r, rr_contract r, rr_input_digest r, rr_last_checkpoint r)"

lemma core_ok:
  assumes "core r = core s"
  shows "run_ok H db r = run_ok H db s" "units_ok db r = units_ok db s" "rr_run_id r = rr_run_id s"
  using assms by (simp_all add: core_def run_ok_def units_ok_def)

text \<open>Two tables that agree on the cores of their runs, and on everything else the invariant reads.\<close>

lemma db_inv_cong:
  assumes "db_inv H db" and "map core (db_runs db') = map core (db_runs db)"
    and "db_units db' = db_units db" "db_attempts db' = db_attempts db"
    and "db_checkpoints db' = db_checkpoints db" "db_completions db' = db_completions db"
  shows "db_inv H db'"
proof -
  have ids: "map rr_run_id (db_runs db') = map rr_run_id (db_runs db)"
  proof -
    have "map rr_run_id rs = map fst (map core rs)" for rs by (simp add: core_def comp_def)
    then show ?thesis using assms(2) by metis
  qed
  have same: "run_ok H db' r = run_ok H db r" "units_ok db' r = units_ok db r" "attempt_ok db' a = attempt_ok db a" for r a
    using assms(3-6) by (simp_all add: run_ok_def units_ok_def attempt_ok_def checkpoints_of_def units_of_def)
  have "run_ok H db' r \<and> units_ok db' r" if "r \<in> set (db_runs db')" for r
  proof -
    have "core r \<in> set (map core (db_runs db))" using that assms(2) by (metis image_eqI set_map)
    then obtain s where "s \<in> set (db_runs db)" "core r = core s" by auto
    then show ?thesis using assms(1) core_ok [of r s] same by (simp add: db_inv_def)
  qed
  moreover have "rr_run_id ` set (db_runs db') = rr_run_id ` set (db_runs db)"
    using ids by (metis set_map)
  ultimately show ?thesis
    using assms ids same by (simp add: db_inv_def known_runs_def running_attempts_def)
qed

lemma db_inv_quiet:
  assumes "db_inv H db" and "\<And>r. core (f r) = core r"
  shows "db_inv H (update_run rid f db)"
  by (rule db_inv_cong [OF assms(1)]) (simp_all add: update_run_def map_update_where assms(2))

lemma db_inv_matchweek: "db_inv H db \<Longrightarrow> db_inv H (db\<lparr>db_matchweek := st\<rparr>)"
  by (rule db_inv_cong [of H db]) simp_all

lemma db_inv_catalogue: "db_inv H db \<Longrightarrow> db_inv H (catalogue d db)"
  by (rule db_inv_cong [of H db]) (simp_all add: catalogue_def)

lemma record_error_inv: "db_inv H db \<Longrightarrow> record_error rid e now reuse db = Inr db' \<Longrightarrow> db_inv H db'"
  by (auto simp: record_error_def core_def intro!: db_inv_quiet)

lemma mark_resumed_inv: "db_inv H db \<Longrightarrow> mark_resumed rid j cpu ws owner now db = Inr db' \<Longrightarrow> db_inv H db'"
  by (auto simp: mark_resumed_def core_def intro!: db_inv_quiet)

section \<open>Opening and closing attempts\<close>

lemma run_of_unit:
  assumes "db_inv H db" "u \<in> set (db_units db)"
  obtains r where "r \<in> set (db_runs db)" "rr_run_id r = u_run_id u" "units_ok db r" "run_ok H db r"
  using assms unfolding db_inv_def known_runs_def by (auto simp: image_subset_iff)

text \<open>
  What changes when units and attempts change but keep their names, runs, checkpoints and completions:
  only the states of the units and the attempts have to be looked at again.
\<close>

lemma db_inv_units:
  assumes inv: "db_inv H db"
    and names: "\<And>u. u_run_id (f u) = u_run_id u" "\<And>u. unit_name (f u) = unit_name u"
    and state: "\<And>u. u \<in> set (db_units db) \<Longrightarrow> P u \<Longrightarrow> u_state (f u) = UNIT_COMPLETE \<longleftrightarrow> u_state u = UNIT_COMPLETE"
    and db': "db_units db' = update_where P f (db_units db)" "map core (db_runs db') = map core (db_runs db)"
      "db_checkpoints db' = db_checkpoints db" "db_completions db' = db_completions db"
    and attempts: "\<And>a. a \<in> set (db_attempts db') \<Longrightarrow> attempt_ok db' a" "length (running_attempts db') \<le> 1"
  shows "db_inv H db'"
proof -
  have cps: "checkpoints_of db' rid = checkpoints_of db rid" for rid by (simp add: checkpoints_of_def db'(3))
  have us: "units_of db' rid = update_where P f (units_of db rid)" for rid
    by (simp add: units_of_def db'(1) filter_update_where names(1))
  have run_ok: "run_ok H db' r = run_ok H db r" for r by (simp add: run_ok_def cps db'(4))
  have order: "u_order (f u) = u_order u" for u using names(2) [of u] by (simp add: unit_name_def)
  have units_ok: "units_ok db' r" if "units_ok db r" for r
    using that state unfolding units_ok_def us cps map_update_where [of unit_name, OF names(2)]
    by (auto simp: set_update_where units_of_def order)
  have uids: "u_run_id ` set (db_units db') = u_run_id ` set (db_units db)"
    using map_update_where [of u_run_id f P "db_units db", OF names(1)] unfolding db'(1) by (metis set_map)
  have ids: "map rr_run_id (db_runs db') = map rr_run_id (db_runs db)"
  proof -
    have "map rr_run_id rs = map fst (map core rs)" for rs by (simp add: core_def comp_def)
    then show ?thesis using db'(2) by metis
  qed
  have "run_ok H db' r \<and> units_ok db' r" if "r \<in> set (db_runs db')" for r
  proof -
    have "core r \<in> set (map core (db_runs db))" using that db'(2) by (metis image_eqI set_map)
    then obtain s where "s \<in> set (db_runs db)" "core r = core s" by auto
    then show ?thesis using inv core_ok [of r s] run_ok units_ok by (simp add: db_inv_def)
  qed
  moreover have "rr_run_id ` set (db_runs db') = rr_run_id ` set (db_runs db)"
    using ids by (metis set_map)
  ultimately show ?thesis
    using inv attempts ids uids by (simp add: db_inv_def known_runs_def db'(3,4))
qed

lemma attempt_ok_units:
  assumes "attempt_ok db a" and "db_units db' = update_where P f (db_units db)"
    and "\<And>u. u_run_id (f u) = u_run_id u" "\<And>u. u_key (f u) = u_key u"
    and "a_run_id b = a_run_id a" "a_key b = a_key a" "a_attempt b = a_attempt a" "a_started_at b = a_started_at a"
    and "\<And>u. u \<in> set (db_units db) \<Longrightarrow> u_run_id u = a_run_id a \<Longrightarrow> u_key u = a_key a \<Longrightarrow>
      1 \<le> a_attempt a \<Longrightarrow> a_attempt a \<le> u_attempts u \<Longrightarrow>
      (a_status a = ATTEMPT_RUNNING \<Longrightarrow> u_state u \<noteq> UNIT_COMPLETE \<and> a_attempt a = u_attempts u) \<Longrightarrow>
      (a_status a = ATTEMPT_COMPLETED \<Longrightarrow> u_state u = UNIT_COMPLETE \<and> a_attempt a = u_attempts u) \<Longrightarrow>
      let v = (if P u then f u else u) in a_attempt a \<le> u_attempts v \<and>
        (a_status b = ATTEMPT_RUNNING \<longrightarrow> u_state v \<noteq> UNIT_COMPLETE \<and> a_attempt a = u_attempts v) \<and>
        (a_status b = ATTEMPT_COMPLETED \<longrightarrow> u_state v = UNIT_COMPLETE \<and> a_attempt a = u_attempts v)"
  shows "attempt_ok db' b"
proof -
  from assms(1) obtain u where u: "u \<in> set (db_units db)" "u_run_id u = a_run_id a" "u_key u = a_key a"
    "1 \<le> a_attempt a" "a_attempt a \<le> u_attempts u"
    "a_status a = ATTEMPT_RUNNING \<Longrightarrow> u_state u \<noteq> UNIT_COMPLETE \<and> a_attempt a = u_attempts u"
    "a_status a = ATTEMPT_COMPLETED \<Longrightarrow> u_state u = UNIT_COMPLETE \<and> a_attempt a = u_attempts u"
    unfolding attempt_ok_def by blast
  let ?v = "if P u then f u else u"
  have "?v \<in> set (db_units db')" using u(1) by (auto simp: assms(2) set_update_where)
  moreover have "u_run_id ?v = a_run_id b" "u_key ?v = a_key b" using u(2,3) assms(3-6) by simp_all
  moreover note assms(9) [OF u]
  ultimately have "\<exists>v \<in> set (db_units db'). u_run_id v = a_run_id b \<and> u_key v = a_key b \<and>
      1 \<le> a_attempt b \<and> a_attempt b \<le> u_attempts v \<and>
      (a_status b = ATTEMPT_RUNNING \<longrightarrow> u_state v \<noteq> UNIT_COMPLETE \<and> a_attempt b = u_attempts v) \<and>
      (a_status b = ATTEMPT_COMPLETED \<longrightarrow> u_state v = UNIT_COMPLETE \<and> a_attempt b = u_attempts v)"
    using u(4) unfolding Let_def assms(7) by (intro bexI [of _ ?v]) blast+
  moreover have "\<exists>d. valid_dt d \<and> dt_off d = Some 0 \<and> a_started_at b = utc_text True d"
    using assms(1) unfolding assms(8) attempt_ok_def by blast
  ultimately show ?thesis unfolding attempt_ok_def by blast
qed

lemma running_attempts_update:
  assumes "\<And>a. a_status (f a) \<noteq> ATTEMPT_RUNNING"
  shows "filter (\<lambda>a. a_status a = ATTEMPT_RUNNING) (update_where P f rows) =
    filter (\<lambda>a. a_status a = ATTEMPT_RUNNING \<and> \<not> P a) rows"
  using assms by (induction rows) (auto simp: update_where_def)

text \<open>Closing attempts without a checkpoint, and putting their units back.\<close>

lemma db_inv_close:
  assumes inv: "db_inv H db"
    and db': "db_units db' = update_running_unit rid key (\<lambda>u. u\<lparr>u_state := UNIT_PENDING\<rparr>) (db_units db)"
      "db_attempts db' = close_attempt rid key n f (db_attempts db)"
      "map core (db_runs db') = map core (db_runs db)"
      "db_checkpoints db' = db_checkpoints db" "db_completions db' = db_completions db"
    and f: "\<And>a. a_run_id (f a) = a_run_id a" "\<And>a. a_key (f a) = a_key a" "\<And>a. a_attempt (f a) = a_attempt a"
      "\<And>a. a_started_at (f a) = a_started_at a" "\<And>a. a_status (f a) \<in> {ATTEMPT_INTERRUPTED, ATTEMPT_FAILED}"
  shows "db_inv H db'" and "running_attempts db' =
    filter (\<lambda>a. \<not> (a_run_id a = rid \<and> a_key a = key \<and> a_attempt a = n)) (running_attempts db)"
proof -
  have nr: "a_status (f a) \<noteq> ATTEMPT_RUNNING" "a_status (f a) \<noteq> ATTEMPT_COMPLETED" for a
    using f(5) [of a] by auto
  show run: "running_attempts db' =
      filter (\<lambda>a. \<not> (a_run_id a = rid \<and> a_key a = key \<and> a_attempt a = n)) (running_attempts db)"
    unfolding running_attempts_def db'(2) close_attempt_def running_attempts_update [OF nr(1)] filter_filter
    by (rule filter_cong) auto
  let ?P = "\<lambda>u. u_run_id u = rid \<and> u_key u = key \<and> u_state u = UNIT_RUNNING"
  show "db_inv H db'"
  proof (rule db_inv_units [OF inv, of "\<lambda>u. u\<lparr>u_state := UNIT_PENDING\<rparr>" ?P])
    show "attempt_ok db' a" if a': "a \<in> set (db_attempts db')" for a
    proof -
      obtain b where b: "b \<in> set (db_attempts db)" "a = f b \<or> a = b"
        using a' by (auto simp: db'(2) close_attempt_def set_update_where split: if_splits)
      have "attempt_ok db b" using inv b(1) by (simp add: db_inv_def)
      then show ?thesis
        using db'(1) unfolding update_running_unit_def
        by (rule attempt_ok_units) (use b(2) f nr in \<open>auto simp: Let_def\<close>)
    qed
    have "length (running_attempts db') \<le> length (running_attempts db)" by (simp add: run)
    then show "length (running_attempts db') \<le> 1" using inv by (simp add: db_inv_def)
  qed (use db' in \<open>simp_all add: update_running_unit_def unit_name_def\<close>)
qed

lemma finish_attempt_inv:
  assumes "db_inv H db" and "finish_attempt rid key n status ended elapsed e db = Inr db'"
    and "status \<in> {ATTEMPT_INTERRUPTED, ATTEMPT_FAILED}"
  shows "db_inv H db'"
proof -
  from assms(2) obtain reuse where db': "db' = update_run rid
      (\<lambda>r. r\<lparr>rr_updated_at := ended, rr_elapsed := rr_elapsed r + elapsed,
             rr_error_code := Some (re_code e), rr_error_explanation := Some (re_explanation e),
             rr_reuse := reuse\<rparr>)
      (db\<lparr>db_attempts := close_attempt rid key n
            (stopped_attempt status ended elapsed (re_code e) (re_explanation e)) (db_attempts db),
          db_units := update_running_unit rid key (\<lambda>u. u\<lparr>u_state := UNIT_PENDING\<rparr>) (db_units db)\<rparr>)"
    by (auto simp: finish_attempt_def split: option.splits)
  show ?thesis
    by (rule db_inv_close [OF assms(1), of db' rid key n
          "stopped_attempt status ended elapsed (re_code e) (re_explanation e)"])
      (use assms(3) in \<open>auto simp: db' update_run_def map_update_where core_def stopped_attempt_def\<close>)
qed

lemma interrupt_attempt_inv:
  assumes "db_inv H db" and "interrupt_attempt now (db, l) a = Inr (db', l')"
  shows "db_inv H db'" "running_attempts db' = filter (\<lambda>b. \<not> (a_run_id b = a_run_id a \<and>
    a_key b = a_key a \<and> a_attempt b = a_attempt a)) (running_attempts db)"
    "db_checkpoints db' = db_checkpoints db" "db_completions db' = db_completions db" "db_runs db' = db_runs db"
proof -
  from assms(2) obtain el where db': "db' = db\<lparr>db_attempts := close_attempt (a_run_id a) (a_key a) (a_attempt a)
        (stopped_attempt ATTEMPT_INTERRUPTED now el abandoned_code abandoned_text) (db_attempts db),
      db_units := update_running_unit (a_run_id a) (a_key a) (\<lambda>u. u\<lparr>u_state := UNIT_PENDING\<rparr>) (db_units db)\<rparr>"
    by (auto simp: interrupt_attempt_def)
  note c = db_inv_close [OF assms(1), of db' "a_run_id a" "a_key a" "a_attempt a"
      "stopped_attempt ATTEMPT_INTERRUPTED now el abandoned_code abandoned_text"]
  show "db_inv H db'" by (rule c(1)) (auto simp: db' stopped_attempt_def)
  show "running_attempts db' = filter (\<lambda>b. \<not> (a_run_id b = a_run_id a \<and> a_key b = a_key a \<and>
      a_attempt b = a_attempt a)) (running_attempts db)"
    by (rule c(2)) (auto simp: db' stopped_attempt_def)
  show "db_checkpoints db' = db_checkpoints db" "db_completions db' = db_completions db" "db_runs db' = db_runs db"
    by (simp_all add: db')
qed

text \<open>Interrupting every running attempt leaves none running, and changes nothing else that matters.\<close>

lemma update_runs_quiet:
  assumes "\<And>rid r. core (f rid r) = core r"
  shows "map core (db_runs (fold (\<lambda>rid. update_run rid (f rid)) rids db)) = map core (db_runs db)"
    "db_units (fold (\<lambda>rid. update_run rid (f rid)) rids db) = db_units db"
    "db_attempts (fold (\<lambda>rid. update_run rid (f rid)) rids db) = db_attempts db"
    "db_checkpoints (fold (\<lambda>rid. update_run rid (f rid)) rids db) = db_checkpoints db"
    "db_completions (fold (\<lambda>rid. update_run rid (f rid)) rids db) = db_completions db"
proof (induction rids arbitrary: db)
  case (Cons rid rids)
  case 1
  then show ?case using Cons(1) [of "update_run rid (f rid) db"] assms
    by (simp add: update_run_def map_update_where)
next
  case (Cons rid rids) case 2 then show ?case using Cons(2) by simp
next
  case (Cons rid rids) case 3 then show ?case using Cons(3) by simp
next
  case (Cons rid rids) case 4 then show ?case using Cons(4) by simp
next
  case (Cons rid rids) case 5 then show ?case using Cons(5) by simp
qed simp_all

lemma interrupt_all_effect:
  assumes inv: "db_inv H db" and i: "interrupt_all now as db = Inr db'"
  shows "db_inv H db'" "as = running_attempts db \<Longrightarrow> running_attempts db' = []"
    "db_checkpoints db' = db_checkpoints db" "db_completions db' = db_completions db"
    "map core (db_runs db') = map core (db_runs db)"
proof -
  obtain db1 l where f: "foldR (interrupt_attempt now) (db, []) as = Inr (db1, l)"
    and db': "db' = fold (\<lambda>rid. update_run rid (abandoned_run now l rid)) (sorted_set (map fst l)) db1"
    using i by (auto simp: interrupt_all_def)
  have loop: "db_inv H d1 \<and> running_attempts d1 = filter (\<lambda>b. \<not> list_ex (\<lambda>a. a_run_id b = a_run_id a \<and>
      a_key b = a_key a \<and> a_attempt b = a_attempt a) xs) (running_attempts d0) \<and>
      db_checkpoints d1 = db_checkpoints d0 \<and> db_completions d1 = db_completions d0 \<and> db_runs d1 = db_runs d0"
    if "db_inv H d0" "foldR (interrupt_attempt now) (d0, l0) xs = Inr (d1, l1)" for d0 d1 l0 l1 xs
    using that
  proof (induction xs arbitrary: d0 l0)
    case (Cons x xs)
    then obtain d2 l2 where s: "interrupt_attempt now (d0, l0) x = Inr (d2, l2)"
      "foldR (interrupt_attempt now) (d2, l2) xs = Inr (d1, l1)"
      by auto
    note one = interrupt_attempt_inv [OF Cons.prems(1) s(1)]
    show ?case
      using Cons.IH [OF one(1) s(2)] one(2-5) by (auto intro!: filter_cong)
  qed simp
  note one = loop [OF inv f]
  have "core (abandoned_run now l rid r) = core r" for rid r by (simp add: core_def abandoned_run_def)
  note quiet = update_runs_quiet [of "abandoned_run now l", OF this, of "sorted_set (map fst l)" db1]
  have q: "map core (db_runs db') = map core (db_runs db1)" "db_units db' = db_units db1"
    "db_attempts db' = db_attempts db1" "db_checkpoints db' = db_checkpoints db1"
    "db_completions db' = db_completions db1"
    unfolding db' by (fact quiet)+
  show "db_inv H db'" using one q by - (rule db_inv_cong [of H db1], simp_all)
  show "db_checkpoints db' = db_checkpoints db" "db_completions db' = db_completions db"
    "map core (db_runs db') = map core (db_runs db)"
    using one q by simp_all
  show "running_attempts db' = []" if "as = running_attempts db"
  proof -
    have "running_attempts db' = running_attempts db1" using q(3) by (simp add: running_attempts_def)
    then show ?thesis using one that by (auto simp: filter_empty_conv list_ex_iff)
  qed
qed

section \<open>One phase\<close>

lemma valid_contract_json_inj:
  assumes "valid_contract H c" "valid_contract H d" "contract_json c = contract_json d"
  shows "c = d"
  using assms contract_stored_same unfolding valid_contract_def by (metis sum.inject(2))

lemma find_run_iff:
  assumes "db_inv H db"
  shows "find_run db rid = Some r \<longleftrightarrow> r \<in> set (db_runs db) \<and> rr_run_id r = rid"
proof
  assume "find_run db rid = Some r"
  then show "r \<in> set (db_runs db) \<and> rr_run_id r = rid"
    unfolding find_run_def by (auto dest: find_Some_props)
next
  assume "r \<in> set (db_runs db) \<and> rr_run_id r = rid"
  then show "find_run db rid = Some r"
    using assms unfolding find_run_def db_inv_def by (intro find_unique [of rr_run_id]) auto
qed

text \<open>The run a coordinator works on: incomplete, with the given Matchweek and contract.\<close>

definition open_run :: "hasher \<Rightarrow> run_db \<Rightarrow> string \<Rightarrow> string \<Rightarrow> run_contract \<Rightarrow> run_row \<Rightarrow> bool" where
  "open_run H db rid matchweek c r \<longleftrightarrow>
     r \<in> set (db_runs db) \<and> rr_run_id r = rid \<and> rr_state r = RUN_INCOMPLETE \<and>
     rr_matchweek r = matchweek \<and> valid_contract H c \<and> rr_contract r = Some (contract_json c)"

definition at_phase ::
  "hasher \<Rightarrow> string \<Rightarrow> string \<Rightarrow> run_contract \<Rightarrow> nat \<Rightarrow> string \<Rightarrow> run_db \<Rightarrow> bool" where
  "at_phase H rid matchweek c i predecessor db \<longleftrightarrow>
     db_inv H db \<and> running_attempts db = [] \<and> (\<exists>r. open_run H db rid matchweek c r) \<and>
     length (checkpoints_of db rid) = i \<and> predecessor = chain_end (first_digest c) (checkpoints_of db rid)"

definition in_attempt ::
  "hasher \<Rightarrow> string \<Rightarrow> string \<Rightarrow> run_contract \<Rightarrow> nat \<Rightarrow> string \<Rightarrow> nat \<Rightarrow> run_db \<Rightarrow> bool" where
  "in_attempt H rid matchweek c i predecessor n db \<longleftrightarrow>
     db_inv H db \<and> (\<exists>r. open_run H db rid matchweek c r) \<and>
     length (checkpoints_of db rid) = i \<and> predecessor = chain_end (first_digest c) (checkpoints_of db rid) \<and>
     (\<exists>u \<in> set (db_units db). u_run_id u = rid \<and> u_key u = phase_key matchweek i \<and>
        u_state u = UNIT_RUNNING \<and> u_attempts u = n) \<and>
     (\<exists>a. running_attempts db = [a] \<and> a_run_id a = rid \<and> a_key a = phase_key matchweek i \<and> a_attempt a = n)"

lemma open_runD:
  assumes "db_inv H db" "open_run H db rid matchweek c r"
  shows "units_ok db r" "rr_input_digest r = aggregate_digest H c"
    "chained H matchweek (aggregate_digest H c) (first_digest c) (checkpoints_of db rid)"
    "rid \<notin> k_run_id ` set (db_completions db)"
proof -
  have r: "r \<in> set (db_runs db)" "rr_run_id r = rid" "rr_state r = RUN_INCOMPLETE"
    "rr_matchweek r = matchweek" "valid_contract H c" "rr_contract r = Some (contract_json c)"
    using assms(2) by (simp_all add: open_run_def)
  have ok: "run_ok H db r" and "units_ok db r" using assms(1) r(1) by (simp_all add: db_inv_def)
  then show "units_ok db r" by simp
  from ok obtain d where d: "valid_contract H d" "rr_contract r = Some (contract_json d)"
    "rr_input_digest r = aggregate_digest H d"
    "chained H (rr_matchweek r) (rr_input_digest r) (first_digest d) (checkpoints_of db (rr_run_id r))"
    "rr_state r = RUN_COMPLETE \<longleftrightarrow> rr_run_id r \<in> k_run_id ` set (db_completions db)"
    unfolding run_ok_def by blast
  have "d = c" using d(1,2) r(5,6) by (auto dest: valid_contract_json_inj)
  then show "rr_input_digest r = aggregate_digest H c"
    "chained H matchweek (aggregate_digest H c) (first_digest c) (checkpoints_of db rid)"
    "rid \<notin> k_run_id ` set (db_completions db)"
    using d r(2-4) by simp_all
qed

lemma open_run_core:
  assumes "open_run H db rid matchweek c r" "map core (db_runs db') = map core (db_runs db)"
  obtains s where "open_run H db' rid matchweek c s"
proof -
  have "core r \<in> set (map core (db_runs db'))" using assms by (simp add: open_run_def del: set_map) auto
  then obtain s where "s \<in> set (db_runs db')" "core s = core r" by auto
  then show thesis using that assms(1) by (auto simp: open_run_def core_def)
qed

lemma start_attempt_effect:
  assumes pre: "at_phase H rid matchweek c i predecessor db" and i: "i < 7"
    and s: "start_attempt rid (phase_key matchweek i) p input_digest owner (utc_text True d) db = Inr (n, db')"
    and d: "valid_dt d" "dt_off d = Some 0"
  shows "in_attempt H rid matchweek c i predecessor n db'"
proof -
  let ?key = "phase_key matchweek i"
  have inv: "db_inv H db" and none: "running_attempts db = []" using pre by (simp_all add: at_phase_def)
  obtain r where r: "open_run H db rid matchweek c r" using pre by (auto simp: at_phase_def)
  note uok = open_runD(1) [OF inv r]
  have rid: "rr_run_id r = rid" using r by (simp add: open_run_def)
  from s obtain u0 where u0: "u0 \<in> set (db_units db)" "u_run_id u0 = rid" "u_key u0 = ?key"
    "u_state u0 \<noteq> UNIT_COMPLETE" and n: "n = u_attempts u0 + 1"
    and db': "db' = update_run rid
            (\<lambda>r. r\<lparr>rr_phase := p, rr_updated_at := utc_text True d, rr_token := owner,
                   rr_error_code := None, rr_error_explanation := None\<rparr>)
            (db\<lparr>db_units := update_where (\<lambda>u. u_run_id u = rid \<and> u_key u = ?key)
                  (\<lambda>u. u\<lparr>u_state := UNIT_RUNNING, u_attempts := n, u_input_digest := input_digest\<rparr>)
                  (db_units db),
                db_attempts := db_attempts db @ [new_attempt_row rid ?key n (utc_text True d) owner]\<rparr>)"
    by (auto simp: start_attempt_def Let_def dest!: find_Some_props split: option.splits)
  let ?P = "\<lambda>u. u_run_id u = rid \<and> u_key u = ?key"
  let ?f = "\<lambda>u. u\<lparr>u_state := UNIT_RUNNING, u_attempts := n, u_input_digest := input_digest\<rparr>"
  have only: "u = u0" if "u \<in> set (db_units db)" "?P u" for u
    using unit_unique [OF uok that(1) u0(1)] that(2) u0(2,3) rid by simp
  have cores: "map core (db_runs db') = map core (db_runs db)"
    by (simp add: db' update_run_def map_update_where core_def)
  have run: "running_attempts db' = [new_attempt_row rid ?key n (utc_text True d) owner]"
    using none by (simp add: db' running_attempts_def new_attempt_row_def)
  have fresh: "?f u0 \<in> set (db_units db')"
    using u0(1-3) by (auto simp: db' set_update_where)
  have inv': "db_inv H db'"
  proof (rule db_inv_units [OF inv, of ?f ?P])
    show "u_state (?f u) = UNIT_COMPLETE \<longleftrightarrow> u_state u = UNIT_COMPLETE"
      if "u \<in> set (db_units db)" "?P u" for u
      using only [OF that] u0(4) by simp
    show "attempt_ok db' a" if a: "a \<in> set (db_attempts db')" for a
    proof (cases "a \<in> set (db_attempts db)")
      case True
      have nr: "a_status a \<noteq> ATTEMPT_RUNNING"
        using none True by (auto simp: running_attempts_def filter_empty_conv)
      have "attempt_ok db a" using inv True by (simp add: db_inv_def)
      then show ?thesis
      proof (rule attempt_ok_units)
        show "db_units db' = update_where ?P ?f (db_units db)" by (simp add: db')
        fix u assume u: "u \<in> set (db_units db)" "a_attempt a \<le> u_attempts u"
          "a_status a = ATTEMPT_COMPLETED \<Longrightarrow> u_state u = UNIT_COMPLETE \<and> a_attempt a = u_attempts u"
        then show "let v = if ?P u then ?f u else u in
            a_attempt a \<le> u_attempts v \<and>
            (a_status a = ATTEMPT_RUNNING \<longrightarrow> u_state v \<noteq> UNIT_COMPLETE \<and> a_attempt a = u_attempts v) \<and>
            (a_status a = ATTEMPT_COMPLETED \<longrightarrow> u_state v = UNIT_COMPLETE \<and> a_attempt a = u_attempts v)"
          using only [OF u(1)] u0(4) nr n by (auto simp: Let_def)
      qed simp_all
    next
      case False
      then have a: "a = new_attempt_row rid ?key n (utc_text True d) owner" using a by (simp add: db')
      show ?thesis
        unfolding attempt_ok_def
        using fresh u0(2,3) d n by (intro conjI bexI [of _ "?f u0"] exI [of _ d]) (simp_all add: a new_attempt_row_def)
    qed
    show "length (running_attempts db') \<le> 1" by (simp add: run)
  qed (simp_all add: db' unit_name_def cores [unfolded db'])
  obtain r' where "open_run H db' rid matchweek c r'" using r cores by (rule open_run_core)
  moreover have "checkpoints_of db' rid = checkpoints_of db rid" by (simp add: checkpoints_of_def db')
  moreover have "\<exists>u \<in> set (db_units db'). u_run_id u = rid \<and> u_key u = ?key \<and>
      u_state u = UNIT_RUNNING \<and> u_attempts u = n"
    using fresh u0(2,3) by (intro bexI [of _ "?f u0"]) simp_all
  ultimately show ?thesis
    using pre inv' run unfolding in_attempt_def at_phase_def by (auto simp: new_attempt_row_def)
qed

text \<open>
  What a checkpoint writes, in the situation in which the coordinator writes it: the unit and the
  attempt it is about are the only ones that change.
\<close>

lemma checkpoint_rows:
  assumes pre: "in_attempt H rid matchweek c i predecessor n db" and i: "i < 7"
    and s: "checkpoint rid (phase_key matchweek i) (run_phases ! i) n input_digest output artifacts stamp elapsed db = Inr db'"
  obtains row u0 a0 where "c_run_id row = rid" "c_key row = phase_key matchweek i" "c_order row = i"
    "c_phase row = run_phases ! i" "c_input_digest row = input_digest" "c_output row = output"
    "db_checkpoints db' = db_checkpoints db @ [row]" "db_completions db' = db_completions db"
    "db_runs db' = update_where (\<lambda>r. rr_run_id r = rid \<and> rr_state r = RUN_INCOMPLETE)
      (checkpointed_run (run_phases ! i) stamp elapsed) (db_runs db)"
    "u0 \<in> set (db_units db)" "u_run_id u0 = rid" "u_key u0 = phase_key matchweek i" "u_order u0 = i"
    "u_attempts u0 = n" "db_units db' = update_where (\<lambda>u. u = u0) (completed_unit stamp elapsed output artifacts) (db_units db)"
    "running_attempts db = [a0]" "a_run_id a0 = rid" "a_key a0 = phase_key matchweek i" "a_attempt a0 = n"
    "db_attempts db' = update_where (\<lambda>a. a = a0) (completed_attempt stamp elapsed) (db_attempts db)"
proof -
  let ?key = "phase_key matchweek i"
  have inv: "db_inv H db" using pre by (simp add: in_attempt_def)
  obtain r where r: "open_run H db rid matchweek c r" using pre by (auto simp: in_attempt_def)
  note uok = open_runD(1) [OF inv r]
  have rr: "rr_run_id r = rid" "rr_matchweek r = matchweek" using r by (simp_all add: open_run_def)
  obtain u0 where u0: "u0 \<in> set (db_units db)" "u_run_id u0 = rid" "u_key u0 = ?key"
    "u_state u0 = UNIT_RUNNING" "u_attempts u0 = n"
    using pre by (auto simp: in_attempt_def)
  obtain a0 where a0: "running_attempts db = [a0]" "a_run_id a0 = rid" "a_key a0 = ?key" "a_attempt a0 = n"
    using pre by (auto simp: in_attempt_def)
  have "(u_run_id u = rid \<and> u_key u = ?key \<and> u_state u = UNIT_RUNNING) = (u = u0)"
    if "u \<in> set (db_units db)" for u
    using unit_unique [OF uok that u0(1)] u0(2-4) rr(1) by metis
  then have units: "update_running_unit rid ?key f (db_units db) = update_where (\<lambda>u. u = u0) f (db_units db)" for f
    unfolding update_running_unit_def update_where_def by (intro map_cong) simp_all
  have "a0 \<in> set (db_attempts db)" "a_status a0 = ATTEMPT_RUNNING"
    "\<And>a. a \<in> set (db_attempts db) \<Longrightarrow> a_status a = ATTEMPT_RUNNING \<Longrightarrow> a = a0"
    using arg_cong [OF a0(1), of set] by (auto simp: running_attempts_def)
  then have "(a_run_id a = rid \<and> a_key a = ?key \<and> a_attempt a = n \<and> a_status a = ATTEMPT_RUNNING) = (a = a0)"
    if "a \<in> set (db_attempts db)" for a
    using that a0(2-4) by metis
  then have attempts: "close_attempt rid ?key n f (db_attempts db) = update_where (\<lambda>a. a = a0) f (db_attempts db)" for f
    unfolding close_attempt_def update_where_def by (intro map_cong) simp_all
  have "u_order u0 = i" using unit_nameD [OF uok u0(1)] u0(2,3) rr phase_key_inj i by auto
  moreover have "db' = update_run rid (checkpointed_run (run_phases ! i) stamp elapsed)
      (db\<lparr>db_checkpoints := db_checkpoints db @
            [\<lparr>c_run_id = rid, c_key = ?key, c_phase = run_phases ! i, c_order = phase_index (run_phases ! i),
              c_attempt = n, c_input_digest = input_digest, c_output = output, c_artifacts = artifacts,
              c_at = stamp, c_elapsed = elapsed\<rparr>],
          db_attempts := update_where (\<lambda>a. a = a0) (completed_attempt stamp elapsed) (db_attempts db),
          db_units := update_where (\<lambda>u. u = u0) (completed_unit stamp elapsed output artifacts) (db_units db)\<rparr>)"
    using s unfolding checkpoint_def Let_def units attempts by (elim bindR_InrE) simp
  ultimately show thesis
    using u0(1-3,5) a0 i
    by (intro that [of "\<lparr>c_run_id = rid, c_key = ?key, c_phase = run_phases ! i,
        c_order = phase_index (run_phases ! i), c_attempt = n, c_input_digest = input_digest,
        c_output = output, c_artifacts = artifacts, c_at = stamp, c_elapsed = elapsed\<rparr>" u0 a0])
      (simp_all add: update_run_def)
qed

lemma completed_unit_simps [simp]:
  "u_run_id (completed_unit t e out as u) = u_run_id u" "u_key (completed_unit t e out as u) = u_key u"
  "u_order (completed_unit t e out as u) = u_order u" "u_state (completed_unit t e out as u) = UNIT_COMPLETE"
  "u_attempts (completed_unit t e out as u) = u_attempts u" "unit_name (completed_unit t e out as u) = unit_name u"
  by (simp_all add: completed_unit_def unit_name_def)

lemma completed_attempt_simps [simp]:
  "a_run_id (completed_attempt t e a) = a_run_id a" "a_key (completed_attempt t e a) = a_key a"
  "a_attempt (completed_attempt t e a) = a_attempt a" "a_started_at (completed_attempt t e a) = a_started_at a"
  "a_status (completed_attempt t e a) = ATTEMPT_COMPLETED"
  by (simp_all add: completed_attempt_def)

lemma checkpointed_run_simps [simp]:
  "rr_run_id (checkpointed_run p t e r) = rr_run_id r" "rr_matchweek (checkpointed_run p t e r) = rr_matchweek r"
  "rr_state (checkpointed_run p t e r) = rr_state r" "rr_contract (checkpointed_run p t e r) = rr_contract r"
  "rr_input_digest (checkpointed_run p t e r) = rr_input_digest r"
  "rr_last_checkpoint (checkpointed_run p t e r) = Some (phase_text p)"
  by (simp_all add: checkpointed_run_def)

lemma checkpoint_attempts_ok:
  assumes inv: "db_inv H db" and uok: "units_ok db r" "rr_run_id r = rid"
    and u0: "u0 \<in> set (db_units db)" "u_run_id u0 = rid" "u_key u0 = key" "u_attempts u0 = n"
    and units: "db_units db' = update_where (\<lambda>u. u = u0) (completed_unit t e out as) (db_units db)"
    and a0: "running_attempts db = [a0]" "a_run_id a0 = rid" "a_key a0 = key" "a_attempt a0 = n"
    and attempts: "db_attempts db' = update_where (\<lambda>a. a = a0) (completed_attempt t e) (db_attempts db)"
  shows "a \<in> set (db_attempts db') \<Longrightarrow> attempt_ok db' a" "running_attempts db' = []"
proof -
  have only: "a = a0" if "a \<in> set (db_attempts db)" "a_status a = ATTEMPT_RUNNING" for a
    using arg_cong [OF a0(1), of set] that by (auto simp: running_attempts_def)
  show "running_attempts db' = []"
    using only by (auto simp: running_attempts_def attempts filter_empty_conv set_update_where)
  assume "a \<in> set (db_attempts db')"
  then obtain b where b: "b \<in> set (db_attempts db)" "a = (if b = a0 then completed_attempt t e b else b)"
    by (auto simp: attempts set_update_where)
  have "attempt_ok db b" using inv b(1) by (simp add: db_inv_def)
  then show "attempt_ok db' a"
  proof (rule attempt_ok_units [OF _ units])
    fix u assume u: "u \<in> set (db_units db)" "u_run_id u = a_run_id b" "u_key u = a_key b"
      "a_attempt b \<le> u_attempts u"
      "a_status b = ATTEMPT_COMPLETED \<Longrightarrow> u_state u = UNIT_COMPLETE \<and> a_attempt b = u_attempts u"
    have "u = u0" if "b = a0"
      using unit_unique [OF uok(1) u(1) u0(1)] u(2,3) u0 uok(2) a0 that by simp
    then show "let v = if u = u0 then completed_unit t e out as u else u in
        a_attempt b \<le> u_attempts v \<and>
        (a_status a = ATTEMPT_RUNNING \<longrightarrow> u_state v \<noteq> UNIT_COMPLETE \<and> a_attempt b = u_attempts v) \<and>
        (a_status a = ATTEMPT_COMPLETED \<longrightarrow> u_state v = UNIT_COMPLETE \<and> a_attempt b = u_attempts v)"
      using b(2) u(4,5) only [OF b(1)] a0(4) u0(4) by (auto simp: Let_def)
  qed (use b(2) in auto)
qed

lemma checkpoint_units_ok:
  assumes uok: "units_ok db r" and u0: "u0 \<in> set (db_units db)" "u_run_id u0 = rr_run_id r" "u_order u0 = i"
    and units: "db_units db' = update_where (\<lambda>u. u = u0) (completed_unit t e out as) (db_units db)"
    and len: "length (checkpoints_of db (rr_run_id r)) = i" "length (checkpoints_of db' (rr_run_id r)) = Suc i"
  shows "units_ok db' r"
proof -
  have us: "units_of db' k = update_where (\<lambda>u. u = u0) (completed_unit t e out as) (units_of db k)" for k
    by (simp add: units_of_def units filter_update_where)
  have "u_state u = UNIT_COMPLETE \<longleftrightarrow> u_order u < Suc i"
    if u: "u \<in> set (units_of db (rr_run_id r))" "u \<noteq> u0" for u
  proof -
    have m: "u \<in> set (db_units db)" "u_run_id u = rr_run_id r" using u(1) by (simp_all add: units_of_def)
    have "u_order u \<noteq> i"
    proof
      assume "u_order u = i"
      then have "u_key u = u_key u0" using unit_nameD(3) [OF uok m] unit_nameD(3) [OF uok u0(1,2)] u0(3) by simp
      then show False using unit_unique [OF uok m(1) u0(1) m(2) u0(2)] u(2) by blast
    qed
    moreover have "u_state u = UNIT_COMPLETE \<longleftrightarrow> u_order u < i"
      using uok u(1) unfolding units_ok_def len(1) by blast
    ultimately show ?thesis by linarith
  qed
  then have "u_state v = UNIT_COMPLETE \<longleftrightarrow> u_order v < Suc i"
    if "v \<in> set (units_of db' (rr_run_id r))" for v
    using that u0(3) unfolding us set_update_where by (elim imageE) (simp split: if_splits)
  moreover have "map unit_name (units_of db' (rr_run_id r)) = unit_names (rr_matchweek r)"
    using uok unfolding us by (simp add: units_ok_def map_update_where)
  ultimately show ?thesis unfolding units_ok_def len(2) by blast
qed

lemma checkpoint_effect:
  assumes pre: "in_attempt H rid matchweek c i predecessor n db" and i: "i < 7"
    and s: "checkpoint rid (phase_key matchweek i) (run_phases ! i) n
      (work_input_digest H (aggregate_digest H c) (phase_key matchweek i) predecessor)
      output artifacts stamp elapsed db = Inr db'"
  shows "at_phase H rid matchweek c (Suc i) output db'"
proof -
  have inv: "db_inv H db" and len: "length (checkpoints_of db rid) = i"
    and pred: "predecessor = chain_end (first_digest c) (checkpoints_of db rid)"
    using pre by (simp_all add: in_attempt_def)
  obtain r where r: "open_run H db rid matchweek c r" using pre by (auto simp: in_attempt_def)
  note ok = open_runD [OF inv r]
  have rr: "r \<in> set (db_runs db)" "rr_run_id r = rid" "rr_state r = RUN_INCOMPLETE" "rr_matchweek r = matchweek"
    "valid_contract H c" "rr_contract r = Some (contract_json c)"
    using r by (simp_all add: open_run_def)
  from pre i s obtain row u0 a0 where row: "c_run_id row = rid" "c_key row = phase_key matchweek i" "c_order row = i"
      "c_phase row = run_phases ! i" "c_output row = output"
      "c_input_digest row = work_input_digest H (aggregate_digest H c) (phase_key matchweek i) predecessor"
      "db_checkpoints db' = db_checkpoints db @ [row]" "db_completions db' = db_completions db"
    and runs: "db_runs db' = update_where (\<lambda>r. rr_run_id r = rid \<and> rr_state r = RUN_INCOMPLETE)
      (checkpointed_run (run_phases ! i) stamp elapsed) (db_runs db)"
    and u0: "u0 \<in> set (db_units db)" "u_run_id u0 = rid" "u_key u0 = phase_key matchweek i" "u_order u0 = i"
      "u_attempts u0 = n" "db_units db' = update_where (\<lambda>u. u = u0) (completed_unit stamp elapsed output artifacts) (db_units db)"
    and a0: "running_attempts db = [a0]" "a_run_id a0 = rid" "a_key a0 = phase_key matchweek i" "a_attempt a0 = n"
      "db_attempts db' = update_where (\<lambda>a. a = a0) (completed_attempt stamp elapsed) (db_attempts db)"
    by (rule checkpoint_rows) blast
  note att = checkpoint_attempts_ok [OF inv ok(1) rr(2) u0(1-3,5,6) a0]
  have cps: "checkpoints_of db' k = (if k = rid then checkpoints_of db rid @ [row] else checkpoints_of db k)" for k
    using row(1) by (simp add: checkpoints_of_def row(7))
  have chain: "chained H matchweek (aggregate_digest H c) (first_digest c) (checkpoints_of db rid @ [row])"
    using ok(3) len i pred row by (simp add: chained_snoc)
  have run': "run_ok H db' x \<and> units_ok db' x" if x: "x \<in> set (db_runs db')" for x
  proof -
    obtain y where y: "y \<in> set (db_runs db)"
      "x = (if rr_run_id y = rid \<and> rr_state y = RUN_INCOMPLETE then checkpointed_run (run_phases ! i) stamp elapsed y else y)"
      using x unfolding runs set_update_where by auto
    have oy: "run_ok H db y" "units_ok db y" using inv y(1) by (simp_all add: db_inv_def)
    show ?thesis
    proof (cases "rr_run_id y = rid")
      case False
      then have "units_of db' (rr_run_id y) = units_of db (rr_run_id y)"
        using u0(2) unfolding units_of_def u0(6) by (simp add: filter_update_where) (auto simp: update_where_def intro!: map_idI)
      then show ?thesis using oy y(2) False by (simp add: run_ok_def units_ok_def cps row(8))
    next
      case True
      then have yr: "y = r" using inv y(1) rr(1,2) by (auto simp: db_inv_def distinct_map inj_on_def)
      have "k_run_id k \<noteq> rid" if "k \<in> set (db_completions db)" for k using ok(4) that by blast
      then have "run_ok H db' x"
        unfolding run_ok_def row(8) using chain ok(2,4) rr y(2) yr row(4)
        by (intro conjI exI [of _ c]) (auto simp: cps)
      moreover have "units_ok db' r"
        using checkpoint_units_ok [OF ok(1) u0(1) _ u0(4,6)] u0(2) rr(2) len by (simp add: cps)
      ultimately show ?thesis using y(2) yr rr by (simp add: units_ok_def)
    qed
  qed
  have ids: "map rr_run_id (db_runs db') = map rr_run_id (db_runs db)"
    unfolding runs by (rule map_update_where) simp
  have "map u_run_id (db_units db') = map u_run_id (db_units db)"
    unfolding u0(6) by (rule map_update_where) simp
  then have "u_run_id ` set (db_units db') = u_run_id ` set (db_units db)"
    "rr_run_id ` set (db_runs db') = rr_run_id ` set (db_runs db)"
    using ids by (metis set_map)+
  moreover have "rid \<in> rr_run_id ` set (db_runs db)" using rr(1,2) by blast
  ultimately have "db_inv H db'"
    using inv run' att ids row(1) unfolding db_inv_def known_runs_def by (auto simp: row(7,8))
  moreover have "open_run H db' rid matchweek c (checkpointed_run (run_phases ! i) stamp elapsed r)"
    using rr by (auto simp: open_run_def runs set_update_where image_iff intro!: bexI [of _ r])
  ultimately show ?thesis
    using att(2) len row(5) by (auto simp: at_phase_def cps chain_end_def)
qed

section \<open>Creating and completing a run\<close>

lemma run_checkpoints_eq:
  assumes "db_inv H db" "r \<in> set (db_runs db)" "rr_run_id r = rid"
  shows "run_checkpoints db rid = checkpoints_of db rid"
proof -
  have "run_ok H db r" using assms(1,2) by (simp add: db_inv_def)
  then obtain c where "chained H (rr_matchweek r) (rr_input_digest r) (first_digest c) (checkpoints_of db rid)"
    using assms(3) unfolding run_ok_def by blast
  then show ?thesis
    using chained_sorted unfolding run_checkpoints_def checkpoints_of_def by blast
qed

lemma no_rows_of_new_run:
  assumes "known_runs db" "rid \<notin> rr_run_id ` set (db_runs db)"
  shows "checkpoints_of db rid = []" "units_of db rid = []" "rid \<notin> k_run_id ` set (db_completions db)"
  using assms unfolding known_runs_def checkpoints_of_def units_of_def filter_empty_conv by auto

lemma create_run_effect:
  assumes inv: "db_inv H db" and none: "running_attempts db = []" and c: "valid_contract H inputs"
    and s: "create_run H rid matchweek inputs j cpu ws now owner db = Inr db'"
  shows "at_phase H rid matchweek inputs 0 (first_digest inputs) db'"
proof -
  let ?row = "new_run_row H rid matchweek inputs j cpu ws now owner"
  have db': "db' = db\<lparr>db_identifiers := db_identifiers db @ [(rid, ''research_run'')],
      db_runs := db_runs db @ [?row],
      db_inputs := db_inputs db @ map (\<lambda>(n, d). (rid, n, d)) (sort (rc_digests inputs)),
      db_units := db_units db @ new_unit_rows H rid matchweek inputs\<rparr>"
    and new: "rid \<notin> rr_run_id ` set (db_runs db)"
    using s by (auto simp: create_run_def Let_def)
  have same: "db_completions db' = db_completions db" "db_attempts db' = db_attempts db"
    "db_checkpoints db' = db_checkpoints db" "db_units db' = db_units db @ new_unit_rows H rid matchweek inputs"
    "db_runs db' = db_runs db @ [?row]"
    by (simp_all add: db')
  have known: "known_runs db" using inv by (simp add: db_inv_def)
  note empty = no_rows_of_new_run [OF known new]
  have row: "rr_run_id ?row = rid" "rr_matchweek ?row = matchweek" "rr_state ?row = RUN_INCOMPLETE"
    "rr_contract ?row = Some (contract_json inputs)" "rr_input_digest ?row = aggregate_digest H inputs"
    "rr_last_checkpoint ?row = None"
    by (simp_all add: new_run_row_def)
  have unit_ids: "u_run_id u = rid" "u_state u = UNIT_PENDING" if "u \<in> set (new_unit_rows H rid matchweek inputs)" for u
    using that by (auto simp: new_unit_rows_def new_unit_row_def)
  have names: "map unit_name (new_unit_rows H rid matchweek inputs) = unit_names matchweek"
    by (auto simp: new_unit_rows_def unit_names_def new_unit_row_def unit_name_def)
  have cps: "checkpoints_of db' k = checkpoints_of db k" for k by (simp add: checkpoints_of_def same)
  have us: "units_of db' k = units_of db k @ (if k = rid then new_unit_rows H rid matchweek inputs else [])" for k
    using unit_ids(1) by (auto simp: units_of_def same filter_id_conv filter_empty_conv)
  have old: "run_ok H db' r \<and> units_ok db' r" if "r \<in> set (db_runs db)" for r
  proof -
    have "rr_run_id r \<noteq> rid" using that new by blast
    then show ?thesis using inv that by (simp add: db_inv_def run_ok_def units_ok_def cps us same)
  qed
  have "run_ok H db' ?row"
    unfolding run_ok_def cps row empty(1) using c empty(3) by (auto simp: same intro!: exI [of _ inputs])
  moreover have "units_ok db' ?row"
    unfolding units_ok_def us cps row empty if_True using names unit_ids(2) by simp
  moreover have "attempt_ok db' a" if "a \<in> set (db_attempts db')" for a
  proof -
    have "attempt_ok db a" using that inv by (simp add: db_inv_def same)
    then show ?thesis unfolding attempt_ok_def same by auto
  qed
  ultimately have "db_inv H db'"
    using inv old new none unit_ids(1) unfolding db_inv_def known_runs_def running_attempts_def
    by (auto simp: same row)
  moreover have "open_run H db' rid matchweek inputs ?row"
    using row c by (simp add: open_run_def same)
  ultimately show ?thesis
    using none empty(1) by (auto simp: at_phase_def cps chain_end_def running_attempts_def same)
qed

lemma complete_run_effect:
  assumes inv: "db_inv H db" and r: "open_run H db rid matchweek c r"
    and s: "complete_run rid (digest H (completion_payload c H rid (checkpoints_of db rid))) now db = Inr db'"
  shows "db_inv H db'" "\<exists>r. find_run db' rid = Some r \<and> rr_state r = RUN_COMPLETE"
    "length (checkpoints_of db rid) = 7"
proof -
  let ?g = "\<lambda>r. r\<lparr>rr_state := RUN_COMPLETE, rr_completed_at := Some now, rr_updated_at := now,
    rr_reuse := (if rr_reuse r = REUSED then REUSED else NOT_REUSED),
    rr_error_code := None, rr_error_explanation := None\<rparr>"
  let ?k = "\<lparr>k_run_id = rid, k_digest = digest H (completion_payload c H rid (checkpoints_of db rid)), k_at = now\<rparr>"
  note ok = open_runD [OF inv r]
  have rr: "r \<in> set (db_runs db)" "rr_run_id r = rid" "rr_state r = RUN_INCOMPLETE" "rr_matchweek r = matchweek"
    "valid_contract H c" "rr_contract r = Some (contract_json c)"
    using r by (simp_all add: open_run_def)
  have db': "db' = update_run rid ?g (db\<lparr>db_completions := db_completions db @ [?k]\<rparr>)"
    and len: "length (checkpoints_of db rid) = 7"
    using s run_checkpoints_eq [OF inv rr(1,2)] by (auto simp: complete_run_def)
  show "length (checkpoints_of db rid) = 7" by (rule len)
  have runs: "db_runs db' = update_where (\<lambda>r. rr_run_id r = rid \<and> rr_state r = RUN_INCOMPLETE) ?g (db_runs db)"
    by (simp add: db' update_run_def)
  have same: "db_completions db' = db_completions db @ [?k]" "db_attempts db' = db_attempts db"
    "db_checkpoints db' = db_checkpoints db" "db_units db' = db_units db"
    by (simp_all add: db')
  have views: "checkpoints_of db' k = checkpoints_of db k" "units_of db' k = units_of db k" for k
    by (simp_all add: checkpoints_of_def units_of_def same)
  have run': "run_ok H db' x \<and> units_ok db' x" if x: "x \<in> set (db_runs db')" for x
  proof -
    obtain y where y: "y \<in> set (db_runs db)"
      "x = (if rr_run_id y = rid \<and> rr_state y = RUN_INCOMPLETE then ?g y else y)"
      using x unfolding runs set_update_where by auto
    have oy: "run_ok H db y" "units_ok db y" using inv y(1) by (simp_all add: db_inv_def)
    show ?thesis
    proof (cases "rr_run_id y = rid")
      case False
      then show ?thesis using oy y(2) by (simp add: run_ok_def units_ok_def views same)
    next
      case True
      then have yr: "y = r" using inv y(1) rr(1,2) by (auto simp: db_inv_def distinct_map inj_on_def)
      have "k_run_id k \<noteq> rid" if "k \<in> set (db_completions db)" for k using ok(4) that by blast
      moreover have "rr_last_checkpoint r = Some (phase_text (c_phase (last (checkpoints_of db rid))))"
        using oy(1) len unfolding yr run_ok_def rr(2) by auto
      ultimately have "run_ok H db' x"
        unfolding run_ok_def views using ok(2,3) rr y(2) yr len
        by (intro conjI exI [of _ c]) (auto simp: same)
      moreover have "units_ok db' x" using oy(2) y(2) by (auto simp: units_ok_def views)
      ultimately show ?thesis by blast
    qed
  qed
  have ids: "map rr_run_id (db_runs db') = map rr_run_id (db_runs db)"
    unfolding runs by (rule map_update_where) simp
  then have rids: "rr_run_id ` set (db_runs db') = rr_run_id ` set (db_runs db)"
    by (metis set_map)
  have "rid \<in> rr_run_id ` set (db_runs db)" using rr(1,2) by blast
  then show inv': "db_inv H db'"
    using inv run' ids rids unfolding db_inv_def known_runs_def running_attempts_def attempt_ok_def
    by (auto simp: same)
  have "?g r \<in> set (db_runs db')"
    using rr(1-3) by (auto simp: runs set_update_where image_iff intro!: bexI [of _ r])
  then show "\<exists>r. find_run db' rid = Some r \<and> rr_state r = RUN_COMPLETE"
    using find_run_iff [OF inv'] rr(2) by (intro exI [of _ "?g r"]) simp
qed

end
