(* ===== verification/Run_Safety.thy ===== *)
theory Run_Safety
  imports Run_Invariant "HOL-Library.Sublist"
begin

text \<open>
  What starting and resuming runs keep and reach, whatever the environment does: the invariant of the
  run tables survives every call, however it ends; a call that returns has completed the run; and the
  tables only ever advance.
\<close>

section \<open>Advancing tables\<close>

text \<open>
  Checkpoints and completions are only added, attempts that have ended and runs that are complete stay
  as they are, and every run keeps its identity, Matchweek, start and input contract.
\<close>

definition identity_of :: "run_row \<Rightarrow> string \<times> string \<times> string \<times> pyval option \<times> string" where
  "identity_of r = (rr_run_id r, rr_matchweek r, rr_started_at r, rr_contract r, rr_input_digest r)"

definition advances :: "run_db \<Rightarrow> run_db \<Rightarrow> bool" where
  "advances db db' \<longleftrightarrow>
     prefix (db_checkpoints db) (db_checkpoints db') \<and> prefix (db_completions db) (db_completions db') \<and>
     prefix (map identity_of (db_runs db)) (map identity_of (db_runs db')) \<and>
     {r \<in> set (db_runs db). rr_state r = RUN_COMPLETE} \<subseteq> set (db_runs db') \<and>
     {a \<in> set (db_attempts db). a_status a \<noteq> ATTEMPT_RUNNING} \<subseteq> set (db_attempts db')"

lemma advances_refl [simp]: "advances db db"
  by (simp add: advances_def)

lemma advances_trans: "advances db1 db2 \<Longrightarrow> advances db2 db3 \<Longrightarrow> advances db1 db3"
  unfolding advances_def by (auto elim: prefix_order.trans)

lemma update_where_keeps: "{r \<in> set rows. \<not> P r} \<subseteq> set (update_where P f rows)"
  by (auto simp: set_update_where)

lemma advances_update_run:
  assumes "\<And>r. identity_of (f r) = identity_of r"
  shows "advances db (update_run rid f db)"
proof -
  have "map identity_of (db_runs (update_run rid f db)) = map identity_of (db_runs db)"
    using assms by (simp add: update_run_def map_update_where)
  moreover have "{r \<in> set (db_runs db). rr_state r = RUN_COMPLETE} \<subseteq> set (db_runs (update_run rid f db))"
    by (auto simp: update_run_def set_update_where image_iff intro!: bexI)
  ultimately show ?thesis by (auto simp: advances_def)
qed

lemma advances_rows:
  assumes "db_runs db' = db_runs db" "prefix (db_checkpoints db) (db_checkpoints db')"
    "prefix (db_completions db) (db_completions db')"
    "{a \<in> set (db_attempts db). a_status a \<noteq> ATTEMPT_RUNNING} \<subseteq> set (db_attempts db')"
  shows "advances db db'"
  using assms by (auto simp: advances_def)

lemma close_attempt_keeps:
  "a \<in> set rows \<Longrightarrow> a_status a \<noteq> ATTEMPT_RUNNING \<Longrightarrow> a \<in> set (close_attempt rid key n f rows)"
  by (auto simp: close_attempt_def set_update_where image_iff intro!: bexI)

lemmas row_advances = advances_trans [OF advances_rows advances_update_run]

lemma start_attempt_advances: "start_attempt rid key p d owner t db = Inr (n, db') \<Longrightarrow> advances db db'"
  by (auto simp: start_attempt_def Let_def identity_of_def intro!: row_advances split: option.splits)

lemma checkpoint_advances: "checkpoint rid key p n d out as t e db = Inr db' \<Longrightarrow> advances db db'"
  by (auto simp: checkpoint_def Let_def identity_of_def checkpointed_run_def close_attempt_keeps intro!: row_advances)

lemma finish_attempt_advances: "finish_attempt rid key n s t e err db = Inr db' \<Longrightarrow> advances db db'"
  by (auto simp: finish_attempt_def identity_of_def close_attempt_keeps intro!: row_advances split: option.splits)

lemma interrupt_attempt_advances: "interrupt_attempt now (db, l) a = Inr (db', l') \<Longrightarrow> advances db db'"
  by (auto simp: interrupt_attempt_def close_attempt_keeps intro!: advances_rows)

lemma interrupt_all_advances:
  assumes "interrupt_all now as db = Inr db'"
  shows "advances db db'"
proof -
  obtain db1 l where f: "foldR (interrupt_attempt now) (db, []) as = Inr (db1, l)"
    and db': "db' = fold (\<lambda>rid. update_run rid (abandoned_run now l rid)) (sorted_set (map fst l)) db1"
    using assms by (auto simp: interrupt_all_def)
  have "advances db (fst (db1, l))"
    by (rule foldR_invariant [of "\<lambda>s. advances db (fst s)", OF _ f])
      (auto dest!: interrupt_attempt_advances intro: advances_trans)
  moreover have "advances d (fold (\<lambda>rid. update_run rid (abandoned_run now l rid)) rids d)" for rids d
  proof (induction rids arbitrary: d)
    case (Cons i rids)
    have "advances d (update_run i (abandoned_run now l i) d)"
      by (rule advances_update_run) (simp add: abandoned_run_def identity_of_def)
    then show ?case using Cons.IH [of "update_run i (abandoned_run now l i) d"] by (auto intro: advances_trans)
  qed simp
  ultimately show ?thesis unfolding db' by (auto intro: advances_trans)
qed

lemma record_error_advances: "record_error rid e now reuse db = Inr db' \<Longrightarrow> advances db db'"
  by (auto simp: record_error_def identity_of_def intro!: advances_update_run)

lemma mark_resumed_advances: "mark_resumed rid j cpu ws owner now db = Inr db' \<Longrightarrow> advances db db'"
  by (auto simp: mark_resumed_def identity_of_def intro!: advances_update_run)

lemma complete_run_advances: "complete_run rid p now db = Inr db' \<Longrightarrow> advances db db'"
  by (auto simp: complete_run_def identity_of_def intro!: row_advances)

lemma create_run_advances: "create_run H rid m c j cpu ws now owner db = Inr db' \<Longrightarrow> advances db db'"
  by (auto simp: create_run_def Let_def advances_def)

lemma catalogue_advances: "advances db (catalogue d db)"
  by (rule advances_rows) (auto simp: catalogue_def)

lemma matchweek_advances: "advances db (db\<lparr>db_matchweek := st\<rparr>)"
  by (rule advances_rows) auto

definition own_executor :: "run_env \<Rightarrow> executor option \<Rightarrow> executor" where
  "own_executor env ex = (case ex of None \<Rightarrow> boundary_executor (env_hasher env) | Some x \<Rightarrow> x)"

lemma leaves_any: "leaves (\<lambda>_ _. True) x"
  by (simp add: leaves_def)

text \<open>
  An invariant that the transactions of the phases keep, and every change of the Matchweek tables in
  the relation \<open>T\<close>, is kept while the phases are executed by an executor that leaves such stores; one
  that the other transactions of a run keep too is kept by every resume, and one that creating a run
  keeps as well is kept by every start. With the relation that always holds the executor is any.
\<close>

locale work_invariant =
  fixes I :: "run_db \<Rightarrow> bool" and T :: "mw_store \<Rightarrow> mw_store \<Rightarrow> bool"
  assumes start_attempt_keeps: "I db \<Longrightarrow> start_attempt rid key p d owner t db = Inr (n, db') \<Longrightarrow> I db'"
    and checkpoint_keeps: "I db \<Longrightarrow> checkpoint rid key p n d out as t e db = Inr db' \<Longrightarrow> I db'"
    and finish_attempt_keeps: "I db \<Longrightarrow> finish_attempt rid key n s t e err db = Inr db' \<Longrightarrow> I db'"
    and catalogue_keeps: "I db \<Longrightarrow> I (catalogue d db)"
    and matchweek_keeps: "I db \<Longrightarrow> T (db_matchweek db) st \<Longrightarrow> I (db\<lparr>db_matchweek := st\<rparr>)"
begin

lemma stop_keeps: "preserves I (stop_attemptM env rid key n started status rcode explanation ended)"
  unfolding stop_attemptM_def raise_lifecycle_def
  by (intro preserving preserves_writeM) (rule finish_attempt_keeps)

lemma save_keeps: "preserves I (save_workM env rid key p n d started ended elapsed r)"
  unfolding save_workM_def Let_def
  by (intro preserving preserves_writeM stop_keeps) (rule checkpoint_keeps)

lemma after_keeps: "preserves I (after_workM env rid key p n d st started x)"
  unfolding after_workM_def
  by (cases x) (auto intro!: preserving stop_keeps save_keeps)

lemma work_from:
  assumes "leaves T ex"
  shows "preserves I (run_workM env ex ctx st started)"
  unfolding run_workM_def
  by (intro preserving) (rule preserves_workM [OF assms matchweek_keeps catalogue_keeps])

lemma phase_from:
  assumes "leaves T ex"
  shows "preserves I (execute_phaseM env ex rid m agg cpu st key p pred)"
  unfolding execute_phaseM_def Let_def
  by (intro preserving preserves_transactM work_from [OF assms] after_keeps) (rule start_attempt_keeps)

lemma phases_from:
  assumes "leaves T ex"
  shows "preserves I (execute_phasesM env ex pr rid m agg cpu st done ps pred)"
  by (induction ps arbitrary: pred) (auto intro!: preserving phase_from assms)

end

locale work_session = work_invariant +
  assumes interrupt_all_keeps: "I db \<Longrightarrow> interrupt_all now running db = Inr db' \<Longrightarrow> I db'"
    and record_error_keeps: "I db \<Longrightarrow> record_error rid err now reuse db = Inr db' \<Longrightarrow> I db'"
    and mark_resumed_keeps: "I db \<Longrightarrow> mark_resumed rid (PDict j) cpu ws owner now db = Inr db' \<Longrightarrow> I db'"
    and complete_run_keeps: "I db \<Longrightarrow> complete_run rid out now db = Inr db' \<Longrightarrow> I db'"
begin

lemma interrupt_keeps: "preserves I (interrupt_abandonedM env now)"
  unfolding interrupt_abandonedM_def
  by (intro preserving preserves_writeM) (rule interrupt_all_keeps)

lemma completion_keeps: "preserves I (publish_completionM env rid inputs)"
  unfolding publish_completionM_def completion_failedM_def raise_lifecycle_def
  by (intro preserving preserves_publish preserves_writeM)
    (assumption | rule catalogue_keeps record_error_keeps complete_run_keeps)+

lemma execute_from:
  assumes "leaves T (own_executor env ex)"
  shows "preserves I (executeM env ex pr rid inputs cpu)"
  unfolding executeM_def Let_def
  by (intro preserving phases_from [OF assms [unfolded own_executor_def]] completion_keeps)

lemma block_keeps: "preserves I (block_runM env rid e)"
  unfolding block_runM_def raise_lifecycle_def
  by (intro preserving preserves_writeM) (rule record_error_keeps)

lemma verify_inputs_keep: "preserves I (verify_input_artifactsM env inputs rcode recovery rid)"
  unfolding verify_input_artifactsM_def input_artifact_failedM_def raise_lifecycle_def
  by (intro preserving preserves_writeM) (rule record_error_keeps)

lemma verify_checkpoint_keeps: "preserves I (verify_checkpoint_artifactsM env rid c ds)"
  by (induction ds) (auto intro!: preserving block_keeps)

lemma validate_keeps: "preserves I (validate_checkpointsM env rid agg cs pred)"
  by (induction cs arbitrary: pred) (auto intro!: preserving block_keeps verify_checkpoint_keeps)

lemma resume_from:
  assumes "leaves T (own_executor env ex)"
  shows "preserves I (resume_runM env rid inputs est obs ex pr)"
  unfolding resume_runM_def raise_lifecycle_def resource_json_def Let_def
  by (intro preserving preserves_writeM verify_inputs_keep interrupt_keeps execute_from [OF assms] validate_keeps)
    (auto intro: record_error_keeps mark_resumed_keeps)

end

locale work_transaction = work_session +
  assumes create_run_keeps: "I db \<Longrightarrow> create_run H rid m c (PDict j) cpu ws now owner db = Inr db' \<Longrightarrow> I db'"
begin

lemma start_from:
  assumes "leaves T (own_executor env ex)"
  shows "preserves I (start_runM env m inputs est obs ex pr)"
  unfolding start_runM_def raise_lifecycle_def resource_json_def Let_def
  by (intro preserving preserves_writeM verify_inputs_keep interrupt_keeps execute_from [OF assms])
    (rule create_run_keeps)

end

locale phase_invariant = work_invariant I "\<lambda>_ _. True" for I :: "run_db \<Rightarrow> bool"
begin

lemma phase_keeps: "preserves I (execute_phaseM env ex rid m agg cpu st key p pred)"
  by (rule phase_from [OF leaves_any])

lemma phases_keep: "preserves I (execute_phasesM env ex pr rid m agg cpu st done ps pred)"
  by (rule phases_from [OF leaves_any])

end

locale session_invariant = phase_invariant I + work_session I "\<lambda>_ _. True" for I :: "run_db \<Rightarrow> bool"
begin

lemma execute_keeps: "preserves I (executeM env ex pr rid inputs cpu)"
  by (rule execute_from [OF leaves_any])

lemma resume_keeps: "preserves I (resume_runM env rid inputs est obs ex pr)"
  by (rule resume_from [OF leaves_any])

end

locale transaction_invariant = session_invariant I + work_transaction I "\<lambda>_ _. True" for I :: "run_db \<Rightarrow> bool"
begin

lemma start_keeps: "preserves I (start_runM env m inputs est obs ex pr)"
  by (rule start_from [OF leaves_any])

end

interpretation advancing: transaction_invariant "advances db0" for db0
  by unfold_locales
    (auto intro: advances_trans start_attempt_advances checkpoint_advances finish_attempt_advances
      interrupt_all_advances record_error_advances mark_resumed_advances complete_run_advances
      create_run_advances catalogue_advances matchweek_advances)

text \<open>C39: whatever happens during a call, the run tables only advance: no checkpoint or completion is
  changed or removed, attempts that have ended and runs that are complete stay as they are, and no
  run changes its Matchweek, start or input contract.\<close>

theorem run_calls_advance:
  "advances (w_db w) (w_db (snd (start_runM env matchweek inputs estimate observation executor progress w))) \<and>
   advances (w_db w) (w_db (snd (resume_runM env rid inputs estimate observation executor progress w)))"
  using advancing.start_keeps [of "w_db w"] advancing.resume_keeps [of "w_db w"]
  unfolding preserves_def by simp

section \<open>Executing a run\<close>

definition sane_env :: "hasher \<Rightarrow> run_env \<Rightarrow> bool" where
  "sane_env H env \<longleftrightarrow> env_hasher env = H \<and> (\<forall>t. valid_dt (env_clock env t))"

lemma utc_stamp_Inr:
  assumes "valid_dt t" "utc_stamp t = Inr s"
  obtains d where "valid_dt d" "dt_off d = Some 0" "s = utc_text True d"
proof -
  obtain e where e: "astimezone_utc t = Some e" "s = utc_text True e"
    using assms(2) by (auto simp: utc_stamp_def split: if_splits option.splits)
  show thesis
    using that [OF astimezone_utc_props(1,2) [OF assms(1) e(1)] e(2)] .
qed

lemma at_phase_inv: "at_phase H rid m c i p db \<Longrightarrow> db_inv H db"
  by (simp add: at_phase_def)

lemma in_attempt_inv: "in_attempt H rid m c i p n db \<Longrightarrow> db_inv H db"
  by (simp add: in_attempt_def)

lemma at_phase_catalogue: "at_phase H rid m c i p db \<Longrightarrow> at_phase H rid m c i p (catalogue d db)"
  using db_inv_catalogue [of H db d]
  by (simp add: at_phase_def open_run_def running_attempts_def checkpoints_of_def catalogue_def)

lemma in_attempt_catalogue: "in_attempt H rid m c i p n db \<Longrightarrow> in_attempt H rid m c i p n (catalogue d db)"
  using db_inv_catalogue [of H db d]
  by (simp add: in_attempt_def open_run_def running_attempts_def checkpoints_of_def units_of_def catalogue_def)

lemma in_attempt_matchweek: "in_attempt H rid m c i p n db \<Longrightarrow> in_attempt H rid m c i p n (db\<lparr>db_matchweek := st\<rparr>)"
  using db_inv_matchweek [of H db st]
  by (simp add: in_attempt_def open_run_def running_attempts_def checkpoints_of_def units_of_def)

text \<open>Closing an attempt always raises, and keeps the invariant.\<close>

lemma hoare_stop:
  assumes "\<And>db. P db \<Longrightarrow> db_inv H db" and "status \<in> {ATTEMPT_INTERRUPTED, ATTEMPT_FAILED}"
  shows "hoareM P (stop_attemptM env rid key n started status rcode explanation ended) Q (db_inv H)"
proof (rule hoare_raises)
  show "raises (stop_attemptM env rid key n started status rcode explanation ended)"
    unfolding stop_attemptM_def raise_lifecycle_def by (intro raises_bind raises_Let raises_throw)
  show "preserves (db_inv H) (stop_attemptM env rid key n started status rcode explanation ended)"
    unfolding stop_attemptM_def raise_lifecycle_def
    by (intro preserving preserves_writeM) (erule (1) finish_attempt_inv, rule assms(2))
qed (rule assms(1))

lemma hoare_bind_clock:
  assumes "sane_env H env" and "\<And>t. valid_dt t \<Longrightarrow> hoareM P (f t) Q E"
  shows "hoareM P (bindM (clockM env) f) Q E"
  unfolding hoareM_def
proof (intro allI impI)
  fix w r w' assume w: "P (w_db w)" "bindM (clockM env) f w = (r, w')"
  have "hoareM P (f (env_clock env (w_tick w))) Q E" using assms by (simp add: sane_env_def)
  moreover have "f (env_clock env (w_tick w)) (w\<lparr>w_tick := Suc (w_tick w)\<rparr>) = (r, w')"
    using w(2) by (simp add: bindM_def clockM_def askM_def)
  ultimately show "case r of Inl e \<Rightarrow> E (w_db w') | Inr x \<Rightarrow> Q x (w_db w')"
    using w(1) unfolding hoareM_def by (metis world.select_convs(1) world.surjective world.update_convs(2))
qed

lemma hoare_save:
  assumes i: "i < 7" and H: "env_hasher env = H"
  shows "hoareM (in_attempt H rid m c i pred n)
    (save_workM env rid (phase_key m i) (run_phases ! i) n
      (work_input_digest H (aggregate_digest H c) (phase_key m i) pred) started ended elapsed r)
    (\<lambda>out. at_phase H rid m c (Suc i) out) (db_inv H)"
proof -
  let ?P = "in_attempt H rid m c i pred n" and ?out = "work_output_digest H r"
  have written: "hoareM ?P (bindM (writeM env (checkpoint rid (phase_key m i) (run_phases ! i) n
       (work_input_digest H (aggregate_digest H c) (phase_key m i) pred) ?out (wr_artifact_digests r) stamp elapsed))
       (\<lambda>_. ret ?out)) (\<lambda>out. at_phase H rid m c (Suc i) out) (db_inv H)" for stamp
  proof (rule hoare_bind [OF hoare_write])
    fix db db' assume "?P db" "checkpoint rid (phase_key m i) (run_phases ! i) n
       (work_input_digest H (aggregate_digest H c) (phase_key m i) pred) ?out (wr_artifact_digests r) stamp elapsed db = Inr db'"
    then have "at_phase H rid m c (Suc i) ?out db'" using i by (blast intro: checkpoint_effect)
    then show "at_phase H rid m c (Suc i) ?out db' \<and> db_inv H db'" by (simp add: at_phase_inv)
  qed (auto intro: in_attempt_inv hoare_ret)
  have body: "hoareM ?P
    (bindM (verify_allM env (wr_artifact_digests r)) (\<lambda>_.
     bindM (liftM (utc_stamp ended)) (\<lambda>stamp.
     bindM (writeM env (checkpoint rid (phase_key m i) (run_phases ! i) n
       (work_input_digest H (aggregate_digest H c) (phase_key m i) pred) ?out (wr_artifact_digests r) stamp elapsed))
       (\<lambda>_. ret ?out))))
    (\<lambda>out. at_phase H rid m c (Suc i) out) (db_inv H)"
    by (rule hoare_bind_passive hoare_bind_lift written preserving | erule in_attempt_inv)+
  show ?thesis
    unfolding save_workM_def Let_def H
    by (rule hoare_catch [OF body]) (rule hoare_handler hoare_stop hoare_throw | assumption | simp)+
qed

lemma hoare_after:
  assumes i: "i < 7" and H: "env_hasher env = H"
  shows "hoareM (in_attempt H rid m c i pred n)
    (after_workM env rid (phase_key m i) (run_phases ! i) n
      (work_input_digest H (aggregate_digest H c) (phase_key m i) pred) st started x)
    (\<lambda>out. at_phase H rid m c (Suc i) out) (db_inv H)"
  unfolding after_workM_def
  by (rule hoare_outcome hoare_bind_passive hoare_if hoare_stop hoare_save [OF i H] preserving
      | erule in_attempt_inv | simp)+

lemma hoare_phase:
  assumes i: "i < 7" and env: "sane_env H env"
  shows "hoareM (at_phase H rid m c i pred)
    (execute_phaseM env ex rid m (aggregate_digest H c) cpu st (phase_key m i) (run_phases ! i) pred)
    (\<lambda>out. at_phase H rid m c (Suc i) out) (db_inv H)"
proof -
  have H: "env_hasher env = H" using env by (simp add: sane_env_def)
  have start: "hoareM (at_phase H rid m c i pred)
      (transactM env (start_attempt rid (phase_key m i) (run_phases ! i) d token stamp))
      (\<lambda>n. in_attempt H rid m c i pred n) (db_inv H)"
    if t: "valid_dt t" "utc_stamp t = Inr stamp" for t stamp d token
  proof -
    obtain e where e: "valid_dt e" "dt_off e = Some 0" "stamp = utc_text True e"
      using t by (rule utc_stamp_Inr)
    show ?thesis
    proof (rule hoare_transact)
      fix db n db' assume "at_phase H rid m c i pred db"
        "start_attempt rid (phase_key m i) (run_phases ! i) d token stamp db = Inr (n, db')"
      then have "in_attempt H rid m c i pred n db'"
        using i e(1,2) unfolding e(3) by (blast intro: start_attempt_effect)
      then show "in_attempt H rid m c i pred n db' \<and> db_inv H db'" by (simp add: in_attempt_inv)
    qed (rule at_phase_inv)
  qed
  have work: "hoareM (in_attempt H rid m c i pred n) (run_workM env ex ctx st started)
      (\<lambda>_. in_attempt H rid m c i pred n) (db_inv H)" for n ctx started
    unfolding run_workM_def
    by (intro hoare_preserves preserving)
      (rule preserves_workM [OF leaves_any in_attempt_matchweek in_attempt_catalogue], assumption+, erule in_attempt_inv)
  show ?thesis
    unfolding execute_phaseM_def Let_def H
    apply (rule hoare_bind_clock [OF env])
    apply (rule hoare_bind_passive [OF preserves_world(3)])
     apply (rule hoare_bind_lift)
      apply (rule hoare_bind [OF start], assumption, assumption)
      apply (rule hoare_bind [OF work hoare_after [OF i H]])
     apply (erule at_phase_inv)+
    done
qed

lemma enumerate_phases: "List.enumerate 0 run_phases = map (\<lambda>i. (i, run_phases ! i)) [0..<7]"
  by (rule nth_equalityI) (simp_all add: nth_enumerate_eq)

text \<open>The loop skips the phases with a checkpoint and executes the others in order.\<close>

lemma hoare_phases:
  assumes env: "sane_env H env" and "i \<le> 7" and k: "k \<le> 7"
  shows "hoareM (at_phase H rid m c (max i k) pred)
    (execute_phasesM env ex pr rid m (aggregate_digest H c) cpu st (map (phase_key m) [0..<k])
      (map (\<lambda>i. (i, run_phases ! i)) [i..<7]) pred)
    (\<lambda>_ db. \<exists>p. at_phase H rid m c 7 p db) (db_inv H)"
  using \<open>i \<le> 7\<close>
proof (induction "7 - i" arbitrary: i pred)
  case 0
  then have "i = 7" by simp
  then show ?case using k by (auto intro: hoare_ret simp: max_def)
next
  case (Suc n)
  then have i: "i < 7" by simp
  have list: "[i..<7] = i # [Suc i..<7]" using i by (simp add: upt_rec)
  have key: "work_key i (run_phases ! i) m = phase_key m i" by (simp add: phase_key_def)
  have IH: "hoareM (at_phase H rid m c (max (Suc i) k) p)
    (execute_phasesM env ex pr rid m (aggregate_digest H c) cpu st (map (phase_key m) [0..<k])
      (map (\<lambda>i. (i, run_phases ! i)) [Suc i..<7]) p)
    (\<lambda>_ db. \<exists>p. at_phase H rid m c 7 p db) (db_inv H)" for p
    using Suc by simp
  have skipped: "phase_key m i \<in> set (map (phase_key m) [0..<k]) \<longleftrightarrow> i < k"
    using phase_key_inj i k by fastforce
  show ?case
  proof (cases "i < k")
    case True
    then have "max i k = max (Suc i) k" by simp
    then show ?thesis
      using IH [of pred] True skipped unfolding list by (simp add: key del: set_map set_upt)
  next
    case False
    then have "max i k = i" "max (Suc i) k = Suc i" by simp_all
    then show ?thesis
      using False skipped unfolding list
      by (auto simp: key simp del: set_map set_upt intro!: hoare_bind [OF hoare_phase [OF i env]]
          hoare_bind_passive preserving at_phase_inv IH [unfolded \<open>max (Suc i) k = Suc i\<close>])
  qed
qed

text \<open>A completed run, and the status that reports it.\<close>

definition completed :: "hasher \<Rightarrow> string \<Rightarrow> run_db \<Rightarrow> bool" where
  "completed H rid db \<longleftrightarrow>
     db_inv H db \<and> (\<exists>r. find_run db rid = Some r \<and> rr_state r = RUN_COMPLETE)"

lemma completion_payload_same:
  "rc_digests inputs = rc_digests c \<Longrightarrow> completion_payload inputs H rid cs = completion_payload c H rid cs"
  by (simp add: completion_payload_def aggregate_digest_def)

lemma hoare_completion:
  assumes env: "sane_env H env" and same: "rc_digests inputs = rc_digests c"
  shows "hoareM (at_phase H rid m c 7 p) (publish_completionM env rid inputs) (\<lambda>_. completed H rid) (db_inv H)"
proof -
  have H: "env_hasher env = H" using env by (simp add: sane_env_def)
  have failed: "hoareM (db_inv H) (completion_failedM env rid msg) Q (db_inv H)" for msg Q
  proof (rule hoare_raises)
    show "raises (completion_failedM env rid msg)"
      unfolding completion_failedM_def raise_lifecycle_def by (intro raises_bind raises_Let raises_throw)
    show "preserves (db_inv H) (completion_failedM env rid msg)"
      unfolding completion_failedM_def raise_lifecycle_def
      by (intro preserving preserves_writeM) (erule (1) record_error_inv)
  qed
  let ?P = "\<lambda>cs db. at_phase H rid m c 7 p db \<and> cs = checkpoints_of db rid"
  have complete: "completed H rid db'"
    if at: "at_phase H rid m c 7 p db"
      "complete_run rid (sha256_hex H (json_text (completion_payload inputs H rid (checkpoints_of db rid)))) now db = Inr db'"
    for db db' now
  proof -
    obtain r where "open_run H db rid m c r" using at(1) by (auto simp: at_phase_def)
    from complete_run_effect [OF at_phase_inv [OF at(1)] this, of now db'] at(2)
    show ?thesis by (simp add: completion_payload_same [OF same] digest_def completed_def)
  qed
  have body: "hoareM (?P cs)
    (bindM (publish_artifactM env (json_text (completion_payload inputs H rid cs))) (\<lambda>published.
     bindM (stampM env) (\<lambda>now. writeM env (complete_run rid published now)))) (\<lambda>_. completed H rid) (db_inv H)" for cs
  proof (rule hoare_bind [OF hoare_publish])
    show "?P cs db \<Longrightarrow> ?P cs (catalogue d db)" for db d
      using at_phase_catalogue [of H rid m c 7 p db d] by (simp add: checkpoints_of_def catalogue_def)
    fix d
    show "hoareM (\<lambda>db. ?P cs db \<and> d = sha256_hex (env_hasher env) (json_text (completion_payload inputs H rid cs)))
        (bindM (stampM env) (\<lambda>now. writeM env (complete_run rid d now))) (\<lambda>_. completed H rid) (db_inv H)"
    proof (rule hoare_bind_passive [OF _ hoare_write])
      fix now db db' assume a: "(?P cs db \<and> d = sha256_hex (env_hasher env) (json_text (completion_payload inputs H rid cs)))"
        "complete_run rid d now db = Inr db'"
      have "completed H rid db'" using a complete [of db now db'] by (simp add: H)
      then show "completed H rid db' \<and> db_inv H db'" by (simp add: completed_def)
    qed (auto intro: preserving at_phase_inv)
  qed (auto intro: at_phase_inv)
  show ?thesis
    unfolding publish_completionM_def H
  proof (rule hoare_bind_read, rule hoare_pre)
    fix cs
    show "hoareM (?P cs)
      (catchM (bindM (publish_artifactM env (json_text (completion_payload inputs H rid cs))) (\<lambda>published.
         bindM (stampM env) (\<lambda>now. writeM env (complete_run rid published now))))
       (\<lambda>e. case e of ArtifactFailure _ msg \<Rightarrow> completion_failedM env rid msg
          | OsFailure msg \<Rightarrow> completion_failedM env rid msg
          | DatabaseFailure msg \<Rightarrow> completion_failedM env rid msg | _ \<Rightarrow> throw e))
      (\<lambda>_. completed H rid) (db_inv H)"
      by (rule hoare_catch [OF body]) (rule hoare_handler failed hoare_throw | assumption)+
    show "?P cs db" if "at_phase H rid m c 7 p db \<and> cs = run_checkpoints db rid" for db
      using that run_checkpoints_eq unfolding at_phase_def open_run_def by blast
  qed
qed

lemma run_status_state:
  assumes "run_status_of H alive wall db rid = Inr s"
  obtains r where "find_run db rid = Some r" "rs_state s = rr_state r" "rs_run_id s = rr_run_id r"
    "rs_publication s = completion_digest db rid" "rs_last_checkpoint s = or_none (rr_last_checkpoint r)"
  using assms unfolding run_status_of_def Let_def or_none_def
  by (auto split: option.splits elim!: bindR_InrE)

text \<open>What a call that returns has brought about.\<close>

definition reported :: "hasher \<Rightarrow> string \<Rightarrow> run_status \<Rightarrow> run_db \<Rightarrow> bool" where
  "reported H rid s db \<longleftrightarrow>
     completed H rid db \<and> rs_run_id s = rid \<and> rs_state s = RUN_COMPLETE \<and> rs_publication s = completion_digest db rid"

lemma hoare_status: "hoareM (completed H rid) (statusM env rid) (reported H rid) (db_inv H)"
  unfolding hoareM_def
proof (intro allI impI)
  fix w r w' assume w: "completed H rid (w_db w)" "statusM env rid w = (r, w')"
  have db: "w_db w' = w_db w" and r: "r = run_status_of (env_hasher env) (token_alive env (w_tick w)) (env_wall env (w_tick w)) (w_db w) rid"
    using w(2) by (auto simp: statusM_def bindM_def readM_def askM_def liftM_def)
  show "case r of Inl e \<Rightarrow> db_inv H (w_db w') | Inr s \<Rightarrow> reported H rid s (w_db w')"
  proof (cases r)
    case (Inr s)
    then obtain x where "find_run (w_db w) rid = Some x" "rs_state s = rr_state x" "rs_run_id s = rr_run_id x"
      "rs_publication s = completion_digest (w_db w) rid"
      using r run_status_state by metis
    then show ?thesis using w(1) Inr db by (auto simp: reported_def completed_def find_run_iff)
  qed (use w(1) db in \<open>simp add: completed_def\<close>)
qed

lemma hoare_execute:
  assumes env: "sane_env H env" and same: "rc_digests inputs = rc_digests c"
  shows "hoareM (\<lambda>db. \<exists>i p. at_phase H rid m c i p db) (executeM env ex pr rid inputs cpu) (reported H rid) (db_inv H)"
proof -
  have agg: "aggregate_digest (env_hasher env) inputs = aggregate_digest H c"
    using env same by (simp add: sane_env_def aggregate_digest_def)
  let ?x = "case ex of None \<Rightarrow> boundary_executor (env_hasher env) | Some x \<Rightarrow> x"
  have loop: "hoareM (\<lambda>db. at_phase H rid m c i p db)
      (bindM (execute_phasesM env ?x pr rid m (aggregate_digest H c) cpu st (map (phase_key m) [0..<i])
        (map (\<lambda>i. (i, run_phases ! i)) [0..<7]) p) (\<lambda>_.
       bindM (publish_completionM env rid inputs) (\<lambda>_. statusM env rid))) (reported H rid) (db_inv H)"
    if "i \<le> 7" for i p st
  proof (rule hoare_bind)
    show "hoareM (at_phase H rid m c i p) (execute_phasesM env ?x pr rid m (aggregate_digest H c) cpu st
        (map (phase_key m) [0..<i]) (map (\<lambda>i. (i, run_phases ! i)) [0..<7]) p)
        (\<lambda>_ db. \<exists>p. at_phase H rid m c 7 p db) (db_inv H)"
      using hoare_phases [OF env, of 0 i rid m c p ?x pr cpu st] that by simp
    show "hoareM (\<lambda>db. \<exists>p. at_phase H rid m c 7 p db)
        (bindM (publish_completionM env rid inputs) (\<lambda>_. statusM env rid)) (reported H rid) (db_inv H)"
      by (rule hoare_ex, rule hoare_bind [OF hoare_completion [OF env same] hoare_status])
  qed
  show ?thesis
    unfolding executeM_def Let_def
  proof (rule hoare_bind_passive [OF preserves_world(1)])
    fix st
    show "hoareM (\<lambda>db. \<exists>i p. at_phase H rid m c i p db)
      (bindM (readM (\<lambda>db. run_checkpoints db rid)) (\<lambda>cs.
       bindM (readM (\<lambda>db. find_run db rid)) (\<lambda>found. case found of None \<Rightarrow> throw RunAssertion
        | Some r \<Rightarrow> bindM (execute_phasesM env ?x pr rid (rr_matchweek r) (aggregate_digest (env_hasher env) inputs)
            cpu st (map c_key cs) (List.enumerate 0 run_phases)
            (if cs \<noteq> [] then c_output (last cs) else value_of (rc_digests inputs) ''predecessors''))
          (\<lambda>_. bindM (publish_completionM env rid inputs) (\<lambda>_. statusM env rid))))) (reported H rid) (db_inv H)"
    proof (rule hoare_bind_read, rule hoare_bind_read, rule hoare_assume, rule hoare_option)
      fix cs found db0
      assume a: "((\<exists>i p. at_phase H rid m c i p db0) \<and> cs = run_checkpoints db0 rid) \<and> found = find_run db0 rid"
      then obtain i p where at: "at_phase H rid m c i p db0" by blast
      then obtain r where r: "open_run H db0 rid m c r" by (auto simp: at_phase_def)
      note inv = at_phase_inv [OF at] and ok = open_runD [OF at_phase_inv [OF at] r]
      have rr: "r \<in> set (db_runs db0)" "rr_run_id r = rid" "rr_matchweek r = m" using r by (simp_all add: open_run_def)
      have cs: "cs = checkpoints_of db0 rid" using a run_checkpoints_eq [OF inv rr(1,2)] by simp
      have found: "found = Some r" using a find_run_iff [OF inv] rr by simp
      show "hoareM (\<lambda>db. db = db0) (throw RunAssertion) (reported H rid) (db_inv H)" if "found = None"
        using found that by simp
      fix x assume x: "found = Some x"
      have len: "length cs = i" and pred: "p = chain_end (first_digest c) cs" using at cs by (simp_all add: at_phase_def)
      have i: "i \<le> 7" using ok(3) cs len by (simp add: chained_def)
      have keys: "map c_key cs = map (phase_key m) [0..<i]" using chained_keys [OF ok(3)] cs len by simp
      have p: "(if cs \<noteq> [] then c_output (last cs) else value_of (rc_digests inputs) ''predecessors'') = p"
        by (simp add: pred chain_end_def first_digest_def same)
      have xr: "x = r" using x found by simp
      show "hoareM (\<lambda>db. db = db0) (bindM (execute_phasesM env ?x pr rid (rr_matchweek x)
            (aggregate_digest (env_hasher env) inputs) cpu st (map c_key cs) (List.enumerate 0 run_phases)
            (if cs \<noteq> [] then c_output (last cs) else value_of (rc_digests inputs) ''predecessors''))
          (\<lambda>_. bindM (publish_completionM env rid inputs) (\<lambda>_. statusM env rid))) (reported H rid) (db_inv H)"
        unfolding xr rr(3) agg keys p enumerate_phases
        by (rule hoare_conseq [OF loop [OF i]]) (use at in auto)
    qed
  qed (auto intro: at_phase_inv)
qed

section \<open>Starting and resuming\<close>

definition idle :: "hasher \<Rightarrow> run_db \<Rightarrow> bool" where
  "idle H db \<longleftrightarrow> db_inv H db \<and> running_attempts db = []"

lemma hoare_interrupt:
  "hoareM (db_inv H) (interrupt_abandonedM env now)
     (\<lambda>active db. db_inv H db \<and> (active = None \<longrightarrow> idle H db)) (db_inv H)"
  unfolding interrupt_abandonedM_def
proof (rule hoare_bind_read, rule hoare_bind_passive [OF preserves_find_live])
  fix running live
  let ?Q = "\<lambda>active db. db_inv H db \<and> (active = None \<longrightarrow> idle H db)"
  have "hoareM (\<lambda>db. db_inv H db \<and> running = running_attempts db)
      (bindM (writeM env (interrupt_all now running)) (\<lambda>_. ret None)) ?Q (db_inv H)"
  proof (rule hoare_bind [OF hoare_write])
    fix db db' assume "db_inv H db \<and> running = running_attempts db" "interrupt_all now running db = Inr db'"
    then show "idle H db' \<and> db_inv H db'"
      using interrupt_all_effect [of H db now running db'] by (simp add: idle_def)
  qed (auto intro: hoare_ret simp: idle_def)
  then show "hoareM (\<lambda>db. db_inv H db \<and> running = running_attempts db)
      (if live \<noteq> None then ret live else if running = [] then ret None
       else bindM (writeM env (interrupt_all now running)) (\<lambda>_. ret None)) ?Q (db_inv H)"
    by (auto intro!: hoare_ret simp: idle_def)
qed simp

lemma raises_record_error:
  "raises (bindM (writeM env f) (\<lambda>_. raise_lifecycle e rid))"
  unfolding raise_lifecycle_def by (intro raises_bind raises_throw)

lemma hoare_refuse:
  "(\<And>db. P db \<Longrightarrow> db_inv H db) \<Longrightarrow> hoareM P (raise_lifecycle e rid) Q (db_inv H)"
  unfolding raise_lifecycle_def by (rule hoare_throw)

lemma hoare_block:
  assumes "\<And>db. P db \<Longrightarrow> db_inv H db"
  shows "hoareM P (block_runM env rid e) Q (db_inv H)"
proof (rule hoare_raises)
  show "raises (block_runM env rid e)"
    unfolding block_runM_def by (intro raises_bind raises_record_error)
  show "preserves (db_inv H) (block_runM env rid e)"
    unfolding block_runM_def raise_lifecycle_def
    by (intro preserving preserves_writeM) (erule (1) record_error_inv)
qed (rule assms)

lemma hoare_input_artifact_failed:
  assumes "\<And>db. P db \<Longrightarrow> db_inv H db"
  shows "hoareM P (input_artifact_failedM env failure rid) Q (db_inv H)"
proof (rule hoare_raises)
  show "raises (input_artifact_failedM env failure rid)"
    unfolding input_artifact_failedM_def raise_lifecycle_def
    by (auto intro!: raises_bind raises_throw simp: Let_def)
  show "preserves (db_inv H) (input_artifact_failedM env failure rid)"
    unfolding input_artifact_failedM_def raise_lifecycle_def
    by (intro preserving preserves_writeM) (erule (1) record_error_inv)
qed (rule assms)

lemma hoare_verify_inputs:
  assumes "\<And>db. P db \<Longrightarrow> db_inv H db"
  shows "hoareM P (verify_input_artifactsM env inputs rcode recovery rid) (\<lambda>_. P) (db_inv H)"
  unfolding verify_input_artifactsM_def
  by (rule hoare_catch [of _ _ _ P], rule hoare_preserves [OF preserves_verify(2)])
    (rule hoare_handler hoare_input_artifact_failed hoare_throw assms | assumption)+

lemma hoare_validate:
  assumes "\<And>db. P db \<Longrightarrow> db_inv H db"
  shows "hoareM P (validate_checkpointsM env rid agg cs pred) (\<lambda>_. P) (db_inv H)"
proof -
  have "hoareM P (verify_checkpoint_artifactsM env rid c ds) (\<lambda>_. P) (db_inv H)" for c ds
  proof (induction ds)
    case (Cons d ds)
    show ?case
      unfolding verify_checkpoint_artifactsM.simps
    proof (rule hoare_bind [OF _ Cons.IH])
      show "hoareM P (catchM (verify_artifactM env d) (\<lambda>e. case e of ArtifactFailure acode _ \<Rightarrow>
            block_runM env rid (checkpoint_error ''MV-RESUME-CHECKPOINT_ARTIFACT_INVALID''
              (''Checkpoint artifact failed verification: '' @ acode @ ''.'')
              (''matchvet doctor --store '' @ env_store_path env) c) | _ \<Rightarrow> throw e)) (\<lambda>_. P) (db_inv H)"
        by (rule hoare_catch [of _ _ _ P], rule hoare_preserves [OF preserves_verify(1)])
          (rule hoare_handler hoare_block hoare_throw assms | assumption)+
    qed
  qed (simp add: hoare_ret)
  then show ?thesis
  proof (induction cs arbitrary: pred)
    case (Cons c cs)
    show ?case
      unfolding validate_checkpointsM.simps
      by (rule hoare_if hoare_bind_passive hoare_bind [OF Cons.prems Cons.IH [OF Cons.prems]] hoare_block
          preserving assms | assumption)+
  qed (simp add: hoare_ret)
qed

text \<open>Starting a run.\<close>

lemma hoare_start:
  assumes env: "sane_env H env" and inputs: "valid_contract H inputs"
  shows "hoareM (db_inv H) (start_runM env m inputs est obs ex pr) (\<lambda>s. reported H (rs_run_id s) s) (db_inv H)"
proof -
  have H: "env_hasher env = H" using env by (simp add: sane_env_def)
  have exe: "hoareM (\<lambda>db. \<exists>i p. at_phase H rid m inputs i p db) (executeM env ex pr rid inputs cpu)
      (\<lambda>s. reported H (rs_run_id s) s) (db_inv H)" for rid cpu
    by (rule hoare_conseq [OF hoare_execute [OF env refl]]) (auto simp: reported_def)
  have create: "hoareM (idle H) (writeM env (create_run H rid m inputs j cpu ws now owner))
      (\<lambda>_ db. \<exists>i p. at_phase H rid m inputs i p db) (db_inv H)" for rid j cpu ws now owner
  proof (rule hoare_write)
    fix db db' assume "idle H db" "create_run H rid m inputs j cpu ws now owner db = Inr db'"
    then have "at_phase H rid m inputs 0 (first_digest inputs) db'"
      using inputs by (auto simp: idle_def intro: create_run_effect)
    then show "(\<exists>i p. at_phase H rid m inputs i p db') \<and> db_inv H db'" by (auto intro: at_phase_inv)
  qed (simp add: idle_def)
  have idle: "idle H db \<Longrightarrow> db_inv H db" for db by (simp add: idle_def)
  have later: "hoareM (idle H)
      (bindM (readM (\<lambda>db. compatible_incomplete db m (aggregate_digest (env_hasher env) inputs))) (\<lambda>compatible.
       case compatible of
         Some r \<Rightarrow> raise_lifecycle (resume_required_error r) (rr_run_id r)
       | None \<Rightarrow>
       bindM (askM (env_uuid env)) (\<lambda>rid.
       bindM (writeM env (create_run (env_hasher env) rid m inputs j cpu ws now owner)) (\<lambda>_.
       bindM (reportM env pr rid) (\<lambda>_.
       executeM env ex pr rid inputs cpu)))))
      (\<lambda>s. reported H (rs_run_id s) s) (db_inv H)" for j cpu ws now owner
    unfolding H
    by (rule hoare_bind_passive hoare_option hoare_refuse hoare_bind [OF create] exe preserving
        | erule idle at_phase_inv | (elim exE, erule at_phase_inv))+
  show ?thesis
    unfolding start_runM_def Let_def
    apply (rule hoare_bind_passive [OF preserves_checkM], rule hoare_if)
      apply (rule hoare_option hoare_refuse hoare_throw | assumption)+
    apply (rule hoare_bind_passive [OF preserves_checkM])
      apply (rule hoare_bind_passive [OF preserves_checkM])
       apply (rule hoare_bind [OF hoare_verify_inputs], assumption)
       apply (rule hoare_bind_passive [OF preserves_world(2)])
        apply (rule hoare_bind_passive [OF preserves_world(3)])
         apply (rule hoare_bind [OF hoare_interrupt], rule hoare_option)
          apply (rule hoare_pre [OF later], simp)
         apply (rule hoare_refuse, simp)
        apply assumption+
    done
qed

text \<open>Resuming a run: the stored contract is valid, and its digests are those of the inputs.\<close>

lemma stored_contract:
  assumes "db_inv H db" "find_run db rid = Some r" "contract_from_stored H (rr_contract r) = Inr c"
  shows "valid_contract H c" "rr_contract r = Some (contract_json c)"
proof -
  have "r \<in> set (db_runs db)" using find_run_iff [OF assms(1)] assms(2) by blast
  then have "run_ok H db r" using assms(1) by (simp add: db_inv_def)
  then obtain d where d: "valid_contract H d" "rr_contract r = Some (contract_json d)"
    unfolding run_ok_def by blast
  then have "contract_from_stored H (rr_contract r) = Inr d"
    using contract_stored_same by (auto simp: valid_contract_def)
  then show "valid_contract H c" "rr_contract r = Some (contract_json c)" using assms(3) d by simp_all
qed

lemma same_digests:
  assumes "valid_contract H c" "valid_contract H d" "contract_differences c d = []"
  shows "rc_digests c = rc_digests d"
  using assms no_differences_iff unfolding valid_contract_def by blast

definition resumable :: "hasher \<Rightarrow> string \<Rightarrow> string \<Rightarrow> run_contract \<Rightarrow> run_db \<Rightarrow> bool" where
  "resumable H rid m c db \<longleftrightarrow> idle H db \<and> (\<exists>r. open_run H db rid m c r)"

lemma resumable_inv: "resumable H rid m c db \<Longrightarrow> db_inv H db"
  by (simp add: resumable_def idle_def)

lemma resumable_phase: "resumable H rid m c db \<Longrightarrow> \<exists>i p. at_phase H rid m c i p db"
  by (auto simp: resumable_def idle_def at_phase_def)

lemma mark_resumed_resumable:
  assumes "resumable H rid m c db" "mark_resumed k j cpu ws owner now db = Inr db'"
  shows "resumable H rid m c db'"
proof -
  obtain r where r: "open_run H db rid m c r" using assms(1) by (auto simp: resumable_def)
  have "map core (db_runs db') = map core (db_runs db)" "db_attempts db' = db_attempts db"
    using assms(2) by (auto simp: mark_resumed_def update_run_def map_update_where core_def)
  moreover from r this(1) obtain s where "open_run H db' rid m c s" by (rule open_run_core)
  ultimately show ?thesis
    using assms mark_resumed_inv by (auto simp: resumable_def idle_def running_attempts_def)
qed

lemma hoare_resume:
  assumes env: "sane_env H env" and inputs: "valid_contract H inputs"
  shows "hoareM (db_inv H) (resume_runM env rid inputs est obs ex pr) (reported H rid) (db_inv H)"
proof -
  have H: "env_hasher env = H" using env by (simp add: sane_env_def)
  have go: "hoareM (resumable H rid m c)
      (bindM (verify_input_artifactsM env inputs ''MV-RESUME-ARTIFACT_INVALID''
         (''matchvet doctor --store '' @ env_store_path env) rid) (\<lambda>_.
       bindM (readM (\<lambda>db. run_checkpoints db rid)) (\<lambda>cs.
       bindM (validate_checkpointsM env rid (aggregate_digest H inputs) cs
         (value_of (rc_digests inputs) ''predecessors'')) (\<lambda>_.
       bindM (own_tokenM env) (\<lambda>owner.
       bindM (writeM env (mark_resumed rid j cpu ws owner now)) (\<lambda>_.
       bindM (reportM env pr rid) (\<lambda>_. executeM env ex pr rid inputs cpu)))))))
      (reported H rid) (db_inv H)"
    if same: "rc_digests inputs = rc_digests c" for m c j cpu ws now
  proof -
    have "hoareM (resumable H rid m c) (executeM env ex pr rid inputs cpu) (reported H rid) (db_inv H)"
      by (rule hoare_pre [OF hoare_execute [OF env same]]) (rule resumable_phase)
    moreover have "hoareM (resumable H rid m c) (writeM env (mark_resumed rid j cpu ws owner now))
        (\<lambda>_. resumable H rid m c) (db_inv H)" for owner
      by (rule hoare_write) (auto dest: mark_resumed_resumable resumable_inv)
    ultimately have rest: "hoareM (resumable H rid m c) (bindM (own_tokenM env) (\<lambda>owner.
       bindM (writeM env (mark_resumed rid j cpu ws owner now)) (\<lambda>_.
       bindM (reportM env pr rid) (\<lambda>_. executeM env ex pr rid inputs cpu)))) (reported H rid) (db_inv H)"
      by - (rule hoare_bind_passive [OF preserves_world(3)],
          rule hoare_bind [where R = "\<lambda>_. resumable H rid m c"], assumption,
          rule hoare_bind_passive [OF preserves_world(5)], assumption, (erule resumable_inv)+)
    show ?thesis
      by (rule hoare_bind [OF hoare_verify_inputs [OF resumable_inv]], assumption, rule hoare_bind_read,
          rule hoare_pre [of "resumable H rid m c"],
          rule hoare_bind [OF hoare_validate [OF resumable_inv] rest], assumption, simp)
  qed
  have found: "hoareM (\<lambda>db. idle H db \<and> found = find_run db rid)
      (case found of
         None \<Rightarrow> raise_lifecycle (not_found_error rid) rid
       | Some r \<Rightarrow>
       if rr_state r = RUN_COMPLETE then raise_lifecycle (already_complete_error r) rid
       else bindM (liftM (contract_from_stored H (rr_contract r))) (\<lambda>stored.
       let differences = contract_differences stored inputs in
       if differences \<noteq> []
       then let e = digest_mismatch_error r differences in
         bindM (writeM env (record_error rid e now BLOCKED)) (\<lambda>_. raise_lifecycle e rid)
       else bindM (verify_input_artifactsM env inputs ''MV-RESUME-ARTIFACT_INVALID''
         (''matchvet doctor --store '' @ env_store_path env) rid) (\<lambda>_.
       bindM (readM (\<lambda>db. run_checkpoints db rid)) (\<lambda>cs.
       bindM (validate_checkpointsM env rid (aggregate_digest H inputs) cs
         (value_of (rc_digests inputs) ''predecessors'')) (\<lambda>_.
       bindM (own_tokenM env) (\<lambda>owner.
       bindM (writeM env (mark_resumed rid j cpu ws owner now)) (\<lambda>_.
       bindM (reportM env pr rid) (\<lambda>_. executeM env ex pr rid inputs cpu)))))))) (reported H rid) (db_inv H)"
    for found now j cpu ws
  proof (rule hoare_assume, rule hoare_option)
    fix db0 r assume db0: "idle H db0 \<and> found = find_run db0 rid"
    let ?P = "\<lambda>db. db = db0"
    have inv: "?P db \<Longrightarrow> db_inv H db" for db using db0 by (simp add: idle_def)
    show "hoareM ?P (raise_lifecycle (not_found_error rid) rid) (reported H rid) (db_inv H)"
      using inv by (rule hoare_refuse)
    assume r: "found = Some r"
    have mismatch: "hoareM ?P (bindM (writeM env (record_error rid e now BLOCKED)) (\<lambda>_. raise_lifecycle e rid))
        (reported H rid) (db_inv H)" for e
      by (rule hoare_raises [OF raises_record_error], unfold raise_lifecycle_def,
          intro preserving preserves_writeM, erule (1) record_error_inv, rule inv)
    have resume: "hoareM ?P (bindM (verify_input_artifactsM env inputs ''MV-RESUME-ARTIFACT_INVALID''
         (''matchvet doctor --store '' @ env_store_path env) rid) (\<lambda>_.
       bindM (readM (\<lambda>db. run_checkpoints db rid)) (\<lambda>cs.
       bindM (validate_checkpointsM env rid (aggregate_digest H inputs) cs
         (value_of (rc_digests inputs) ''predecessors'')) (\<lambda>_.
       bindM (own_tokenM env) (\<lambda>owner.
       bindM (writeM env (mark_resumed rid j cpu ws owner now)) (\<lambda>_.
       bindM (reportM env pr rid) (\<lambda>_. executeM env ex pr rid inputs cpu))))))) (reported H rid) (db_inv H)"
      if c: "contract_from_stored H (rr_contract r) = Inr c" "contract_differences c inputs = []"
        "rr_state r \<noteq> RUN_COMPLETE" for c
    proof -
      have i: "db_inv H db0" and f: "find_run db0 rid = Some r" using db0 r by (simp_all add: idle_def)
      note v = stored_contract [OF i f c(1)]
      have "open_run H db0 rid (rr_matchweek r) c r"
        using v f c(3) find_run_iff [OF i] by (cases "rr_state r") (auto simp: open_run_def)
      then have "resumable H rid (rr_matchweek r) c db0" using db0 by (auto simp: resumable_def)
      then show ?thesis
        by (intro hoare_pre [OF go [OF same_digests [OF v(1) inputs c(2), symmetric]]]) simp
    qed
    show "hoareM ?P (if rr_state r = RUN_COMPLETE then raise_lifecycle (already_complete_error r) rid
       else bindM (liftM (contract_from_stored H (rr_contract r))) (\<lambda>stored.
       let differences = contract_differences stored inputs in
       if differences \<noteq> []
       then let e = digest_mismatch_error r differences in
         bindM (writeM env (record_error rid e now BLOCKED)) (\<lambda>_. raise_lifecycle e rid)
       else bindM (verify_input_artifactsM env inputs ''MV-RESUME-ARTIFACT_INVALID''
         (''matchvet doctor --store '' @ env_store_path env) rid) (\<lambda>_.
       bindM (readM (\<lambda>db. run_checkpoints db rid)) (\<lambda>cs.
       bindM (validate_checkpointsM env rid (aggregate_digest H inputs) cs
         (value_of (rc_digests inputs) ''predecessors'')) (\<lambda>_.
       bindM (own_tokenM env) (\<lambda>owner.
       bindM (writeM env (mark_resumed rid j cpu ws owner now)) (\<lambda>_.
       bindM (reportM env pr rid) (\<lambda>_. executeM env ex pr rid inputs cpu)))))))) (reported H rid) (db_inv H)"
      unfolding Let_def
      by (rule hoare_if hoare_refuse hoare_bind_lift mismatch resume inv | assumption | simp)+
  qed
  show ?thesis
    unfolding resume_runM_def Let_def H
    apply (rule hoare_bind_passive [OF preserves_checkM], rule hoare_if)
      apply (rule hoare_option hoare_refuse hoare_throw | assumption)+
    apply (rule hoare_bind_passive [OF preserves_checkM])
      apply (rule hoare_bind_passive [OF preserves_checkM])
       apply (rule hoare_bind_passive [OF preserves_world(2)])
        apply (rule hoare_bind [OF hoare_interrupt], rule hoare_option)
         apply (rule hoare_pre [of "idle H"], rule hoare_bind_read, rule found [unfolded Let_def], simp)
        apply (rule hoare_refuse, simp)
       apply assumption+
    done
qed

end
