(* ===== verification/Run_Liveness.thy ===== *)
theory Run_Liveness
  imports Run_Safety
begin

text \<open>
  When a call returns: in a world that answers (transactions commit, files verify, clocks stay within
  the hard limit, no other coordinator is alive) and with an executor that returns valid results, no
  step of the coordinator raises, so an admitted resume carries the run to its end.
\<close>

section \<open>Computations that return\<close>

definition returnsM :: "(run_db \<Rightarrow> bool) \<Rightarrow> 'a run \<Rightarrow> bool" where
  "returnsM P m \<longleftrightarrow> (\<forall>w. P (w_db w) \<longrightarrow> (\<exists>x w'. m w = (Inr x, w')))"

lemma returnsD: "returnsM P m \<Longrightarrow> P (w_db w) \<Longrightarrow> \<exists>x w'. m w = (Inr x, w')"
  unfolding returnsM_def by blast

lemma bind_lift_Inr: "bindM (liftM (Inr x)) f = f x"
  by (simp add: bindM_def liftM_def)

lemma returns_ret: "returnsM P (ret x)"
  by (simp add: returnsM_def ret_def)

lemma returns_pre: "returnsM P' m \<Longrightarrow> (\<And>db. P db \<Longrightarrow> P' db) \<Longrightarrow> returnsM P m"
  unfolding returnsM_def by blast

lemma returns_ask: "returnsM P (askM f)"
  by (simp add: returnsM_def askM_def)

lemma returns_bind:
  assumes "returnsM P m" "hoareM P m R E" "\<And>x. returnsM (R x) (f x)"
  shows "returnsM P (bindM m f)"
  unfolding returnsM_def
proof (intro allI impI)
  fix w :: world assume w: "P (w_db w)"
  then obtain x w1 where m: "m w = (Inr x, w1)" using assms(1) unfolding returnsM_def by blast
  then have "R x (w_db w1)" using assms(2) w by (blast intro: hoareD_Inr)
  then show "\<exists>y w'. bindM m f w = (Inr y, w')"
    using assms(3) [of x] m unfolding returnsM_def by (simp add: bindM_def)
qed

text \<open>What answers without touching the tables.\<close>

lemma returns_bind_passive:
  assumes "\<And>I. preserves I m" "returnsM P m" "\<And>x. returnsM P (f x)"
  shows "returnsM P (bindM m f)"
  by (rule returns_bind [OF assms(2) hoare_preserves [OF assms(1), where E = "\<lambda>_. True"] assms(3)]) simp

lemma returns_bind_ask: "(\<And>t. returnsM P (f (g t))) \<Longrightarrow> returnsM P (bindM (askM g) f)"
  unfolding returnsM_def bindM_def askM_def by auto

lemma returns_bind_read: "(\<And>x. returnsM (\<lambda>db. P db \<and> x = g db) (f x)) \<Longrightarrow> returnsM P (bindM (readM g) f)"
  unfolding returnsM_def bindM_def readM_def by auto

lemma returns_bind_lift: "r = Inr x \<Longrightarrow> returnsM P (f x) \<Longrightarrow> returnsM P (bindM (liftM r) f)"
  unfolding returnsM_def bindM_def liftM_def by simp

lemma returns_check: "(\<And>t. g t = None) \<Longrightarrow> returnsM P (checkM g)"
  unfolding returnsM_def checkM_def bindM_def askM_def ret_def by simp

lemma returns_catch: "returnsM P m \<Longrightarrow> returnsM P (catchM m h)"
  unfolding returnsM_def catchM_def by (metis (no_types, lifting) case_prod_conv sum.case(2))

lemma returns_transact:
  assumes "\<And>t. env_transaction env t = Commits" "\<And>db. P db \<Longrightarrow> \<exists>x db'. f db = Inr (x, db')"
  shows "returnsM P (transactM env f)"
  unfolding returnsM_def transactM_def Let_def using assms by (fastforce split: sum.splits)

lemma returns_write:
  assumes "\<And>t. env_transaction env t = Commits" "\<And>db. P db \<Longrightarrow> \<exists>db'. f db = Inr db'"
  shows "returnsM P (writeM env f)"
  unfolding writeM_def by (rule returns_transact [OF assms(1)]) (use assms(2) in force)

lemma returns_publish: "(\<And>t. env_publish env t = Commits) \<Longrightarrow> returnsM P (publish_artifactM env s)"
  unfolding returnsM_def publish_artifactM_def Let_def by simp

text \<open>An invariant of the tables beside a postcondition.\<close>

lemma hoare_with:
  assumes "hoareM P m R E" "preserves I m"
  shows "hoareM (\<lambda>db. P db \<and> I db) m (\<lambda>x db. R x db \<and> I db) E"
  using assms unfolding hoareM_def preserves_def by (fastforce split: sum.splits)

section \<open>A world that answers\<close>

definition on_time :: "dt \<Rightarrow> bool" where
  "on_time d \<longleftrightarrow> valid_dt d \<and> dt_off d \<noteq> None \<and> astimezone_utc d \<noteq> None"

definition benign_env :: "hasher \<Rightarrow> run_env \<Rightarrow> bool" where
  "benign_env H env \<longleftrightarrow>
     env_hasher env = H \<and> (\<forall>s. sha_shaped (sha256_hex H s)) \<and>
     (\<forall>t. env_guard env t = None \<and> env_discard env t = None \<and> env_transaction env t = Commits \<and>
          env_publish env t = Commits \<and> on_time (env_clock env t) \<and> on_time (env_wall env t)) \<and>
     (\<forall>t d. env_file env t d = None) \<and>
     (\<forall>t u. (instant (env_clock env u) - instant (env_clock env t)) div 1000000
        < hard_duration_seconds (env_budget env)) \<and>
     0 < hard_duration_seconds (env_budget env)"

lemma benign_simps:
  assumes "benign_env H env"
  shows "env_hasher env = H" "sha_shaped (sha256_hex H s)" "env_guard env t = None" "env_discard env t = None"
    "env_transaction env t = Commits" "env_publish env t = Commits" "on_time (env_clock env t)"
    "on_time (env_wall env t)" "env_file env t d = None" "sane_env H env" "sha_shaped (digest H v)"
  using assms by (simp_all add: benign_env_def sane_env_def on_time_def digest_def)

lemma on_time_stamp:
  assumes "on_time d"
  obtains e where "valid_dt e" "dt_off e = Some 0" "utc_stamp d = Inr (utc_text True e)"
proof -
  obtain e where e: "astimezone_utc d = Some e" using assms by (auto simp: on_time_def)
  show thesis
    using that astimezone_utc_props(1,2) [OF _ e] assms e by (simp add: on_time_def utc_stamp_def)
qed

lemma returns_bind_clock:
  assumes "benign_env H env" "\<And>u. returnsM P (f (env_clock env u))"
  shows "returnsM P (bindM (clockM env) f)"
  using assms(2) unfolding clockM_def by (intro returns_bind_ask) simp

lemma returns_stamp:
  assumes "benign_env H env"
  shows "returnsM P (stampM env)"
  unfolding stampM_def
proof (rule returns_bind_clock [OF assms])
  fix u
  obtain e where "utc_stamp (env_clock env u) = Inr (utc_text True e)"
    using on_time_stamp benign_simps(7) [OF assms] by metis
  then show "returnsM P (liftM (utc_stamp (env_clock env u)))" by (simp add: returnsM_def liftM_def)
qed

lemma session_seconds:
  assumes "benign_env H env"
  obtains n where "seconds_between (env_clock env t) (env_clock env u) = Inr n"
    "n < hard_duration_seconds (env_budget env)"
proof -
  let ?d = "(instant (env_clock env u) - instant (env_clock env t)) div 1000000"
  have "dt_off (env_clock env v) \<noteq> None" for v using benign_simps(7) [OF assms] by (simp add: on_time_def)
  then have "seconds_between (env_clock env t) (env_clock env u) = Inr (max 0 ?d)"
    by (simp add: seconds_between_def)
  moreover have "max 0 ?d < hard_duration_seconds (env_budget env)"
    using assms by (simp add: benign_env_def)
  ultimately show thesis by (rule that)
qed

section \<open>What the store holds\<close>

text \<open>The artifacts \<open>A\<close> are catalogued, and the resource column of every run holds an object.\<close>

definition well_stored :: "string set \<Rightarrow> run_db \<Rightarrow> bool" where
  "well_stored A db \<longleftrightarrow>
     A \<subseteq> set (db_artifacts db) \<and> (\<forall>r \<in> set (db_runs db). \<exists>m. rr_resource r = PDict m)"

lemma well_stored_update_run:
  assumes "well_stored A db" "\<And>r. (\<exists>m. rr_resource r = PDict m) \<Longrightarrow> (\<exists>m. rr_resource (f r) = PDict m)"
  shows "well_stored A (update_run rid f db)"
  using assms by (auto simp: well_stored_def update_run_def set_update_where)

lemma well_stored_rows: "db_runs db' = db_runs db \<Longrightarrow> db_artifacts db' = db_artifacts db \<Longrightarrow> well_stored A db' = well_stored A db"
  by (simp add: well_stored_def)

lemma well_stored_interrupt:
  assumes "well_stored A db" "interrupt_all now running db = Inr db'"
  shows "well_stored A db'"
proof -
  obtain db1 l where f: "foldR (interrupt_attempt now) (db, []) running = Inr (db1, l)"
    and db': "db' = fold (\<lambda>rid. update_run rid (abandoned_run now l rid)) (sorted_set (map fst l)) db1"
    using assms(2) by (auto simp: interrupt_all_def)
  have "well_stored A d1" if "well_stored A d0" "foldR (interrupt_attempt now) (d0, l0) xs = Inr (d1, l1)" for d0 d1 l0 l1 xs
    using that
  proof (induction xs arbitrary: d0 l0)
    case (Cons x xs)
    then obtain d2 l2 where s: "interrupt_attempt now (d0, l0) x = Inr (d2, l2)"
      "foldR (interrupt_attempt now) (d2, l2) xs = Inr (d1, l1)"
      by auto
    have "well_stored A d2" using s(1) Cons.prems(1) by (auto simp: interrupt_attempt_def well_stored_def)
    then show ?case using Cons.IH s(2) by blast
  qed simp
  moreover have "well_stored A (fold (\<lambda>rid. update_run rid (abandoned_run now l rid)) rids d)"
    if "well_stored A d" for rids d
    using that
  proof (induction rids arbitrary: d)
    case (Cons rid rids)
    have "well_stored A (update_run rid (abandoned_run now l rid) d)"
      using Cons.prems by (rule well_stored_update_run) (simp add: abandoned_run_def)
    then show ?case using Cons.IH by simp
  qed simp
  ultimately show ?thesis using assms(1) f unfolding db' by blast
qed

lemma well_stored_start:
  "well_stored A db \<Longrightarrow> start_attempt rid key p d owner t db = Inr (n, db') \<Longrightarrow> well_stored A db'"
  unfolding start_attempt_def Let_def
  by (auto split: option.splits intro!: well_stored_update_run) (simp add: well_stored_def)

lemma well_stored_checkpoint:
  "well_stored A db \<Longrightarrow> checkpoint rid key p n d out as t e db = Inr db' \<Longrightarrow> well_stored A db'"
  unfolding checkpoint_def Let_def
  by (auto simp: checkpointed_run_def intro!: well_stored_update_run) (simp add: well_stored_def)

lemma well_stored_finish:
  "well_stored A db \<Longrightarrow> finish_attempt rid key n s t e err db = Inr db' \<Longrightarrow> well_stored A db'"
  unfolding finish_attempt_def
  by (auto split: option.splits intro!: well_stored_update_run) (simp add: well_stored_def)

lemma well_stored_complete:
  "well_stored A db \<Longrightarrow> complete_run rid out now db = Inr db' \<Longrightarrow> well_stored A db'"
  unfolding complete_run_def by (auto intro!: well_stored_update_run) (simp add: well_stored_def)

lemma well_stored_resumed:
  "well_stored A db \<Longrightarrow> mark_resumed rid (PDict j) cpu ws owner now db = Inr db' \<Longrightarrow> well_stored A db'"
  unfolding mark_resumed_def by (auto intro!: well_stored_update_run)

lemma well_stored_error:
  "well_stored A db \<Longrightarrow> record_error rid err now reuse db = Inr db' \<Longrightarrow> well_stored A db'"
  unfolding record_error_def by (auto intro!: well_stored_update_run)

lemma well_stored_create:
  "well_stored A db \<Longrightarrow> create_run H rid m c (PDict j) cpu ws now owner db = Inr db' \<Longrightarrow> well_stored A db'"
  by (auto simp: create_run_def Let_def well_stored_def new_run_row_def)

interpretation stored: transaction_invariant "well_stored A" for A
proof
  show "well_stored A db \<Longrightarrow> well_stored A (catalogue d db)" for d db
    by (auto simp: well_stored_def catalogue_def)
  show "well_stored A db \<Longrightarrow> well_stored A (db\<lparr>db_matchweek := st\<rparr>)" for db st
    by (simp add: well_stored_def)
qed (erule (1) well_stored_start well_stored_checkpoint well_stored_finish well_stored_interrupt
    well_stored_error well_stored_resumed well_stored_complete well_stored_create)+

section \<open>Transactions that succeed\<close>

lemma start_attempt_succeeds:
  assumes pre: "at_phase H rid m c i pred db" and i: "i < 7" and d: "sha_shaped d"
  shows "\<exists>n db'. start_attempt rid (phase_key m i) p d owner t db = Inr (n, db')"
proof -
  have inv: "db_inv H db" and len: "length (checkpoints_of db rid) = i" using pre by (simp_all add: at_phase_def)
  obtain r where r: "open_run H db rid m c r" using pre by (auto simp: at_phase_def)
  note uok = open_runD(1) [OF inv r]
  have rr: "rr_run_id r = rid" "rr_matchweek r = m" using r by (simp_all add: open_run_def)
  obtain u where u: "u \<in> set (db_units db)" "u_run_id u = rid" "u_order u = i" "u_key u = phase_key m i"
    using unit_exists [OF uok i] rr by metis
  have "u_state u \<noteq> UNIT_COMPLETE" using uok u rr len by (auto simp: units_ok_def units_of_def)
  with u have "find (\<lambda>u. u_run_id u = rid \<and> u_key u = phase_key m i \<and> u_state u \<noteq> UNIT_COMPLETE) (db_units db) \<noteq> None"
    by (auto simp: find_None_iff)
  then obtain v where find: "find (\<lambda>u. u_run_id u = rid \<and> u_key u = phase_key m i \<and> u_state u \<noteq> UNIT_COMPLETE) (db_units db) = Some v"
    by blast
  then have v: "v \<in> set (db_units db)" "u_run_id v = rid" "u_key v = phase_key m i"
    by (auto dest!: find_Some_props)
  have "\<not> (a_run_id a = rid \<and> a_key a = phase_key m i \<and> a_attempt a = u_attempts v + 1)"
    if "a \<in> set (db_attempts db)" for a
  proof
    assume a: "a_run_id a = rid \<and> a_key a = phase_key m i \<and> a_attempt a = u_attempts v + 1"
    have "attempt_ok db a" using inv that by (simp add: db_inv_def)
    then obtain x where x: "x \<in> set (db_units db)" "u_run_id x = rid" "u_key x = phase_key m i"
      "a_attempt a \<le> u_attempts x"
      using a unfolding attempt_ok_def by auto
    have "x = v" using unit_unique [OF uok x(1) v(1)] x v rr by simp
    then show False using a x(4) by simp
  qed
  then show ?thesis using d by (simp add: start_attempt_def find list_ex_iff)
qed

lemma checkpoint_succeeds:
  assumes pre: "in_attempt H rid m c i pred n db" and i: "i < 7"
    and d: "sha_shaped d" "sha_shaped out" "0 \<le> e"
  shows "\<exists>db'. checkpoint rid (phase_key m i) (run_phases ! i) n d out as t e db = Inr db'"
proof -
  have inv: "db_inv H db" and len: "length (checkpoints_of db rid) = i" using pre by (simp_all add: in_attempt_def)
  obtain r where r: "open_run H db rid m c r" using pre by (auto simp: in_attempt_def)
  note chain = open_runD(3) [OF inv r]
  obtain a where a: "running_attempts db = [a]" "a_run_id a = rid" "a_key a = phase_key m i" "a_attempt a = n"
    using pre by (auto simp: in_attempt_def)
  have "a \<in> set (running_attempts db)" by (simp add: a(1))
  then have "a \<in> set (db_attempts db)" by (simp add: running_attempts_def)
  with a have att: "\<exists>a \<in> set (db_attempts db). a_run_id a = rid \<and> a_key a = phase_key m i \<and> a_attempt a = n"
    by blast
  have "\<not> (c_key x = phase_key m i \<or> c_order x = i)"
    if "x \<in> set (db_checkpoints db)" "c_run_id x = rid" for x
  proof -
    have "x \<in> set (checkpoints_of db rid)" using that by (simp add: checkpoints_of_def)
    then obtain j where "j < i" "x = checkpoints_of db rid ! j" using len by (metis in_set_conv_nth)
    then have "c_key x = phase_key m j" "c_order x = j" using chain len by (auto simp: chained_def)
    then show ?thesis using \<open>j < i\<close> i phase_key_inj by auto
  qed
  then have fresh: "\<not> (\<exists>x \<in> set (db_checkpoints db). c_run_id x = rid \<and> (c_key x = phase_key m i \<or> c_order x = i))"
    by blast
  show ?thesis
    using fresh att d i by (simp add: checkpoint_def Let_def checkpoint_allowed_def list_ex_iff)
qed

lemma interrupt_attempt_succeeds:
  assumes "attempt_ok db0 a" "valid_dt e" "dt_off e = Some 0"
  shows "\<exists>s'. interrupt_attempt (utc_text True e) s a = Inr s'"
proof -
  obtain d where d: "valid_dt d" "dt_off d = Some 0" "a_started_at a = utc_text True d"
    using assms(1) unfolding attempt_ok_def by blast
  show ?thesis
    using d assms(2,3) fromisoformat_utc_text
    by (cases s) (simp add: interrupt_attempt_def elapsed_between_def seconds_between_def)
qed

lemma interrupt_all_succeeds:
  assumes "db_inv H db" "valid_dt e" "dt_off e = Some 0"
  shows "\<exists>db'. interrupt_all (utc_text True e) (running_attempts db) db = Inr db'"
proof -
  have "\<exists>s'. foldR (interrupt_attempt (utc_text True e)) s xs = Inr s'"
    if "\<forall>a \<in> set xs. attempt_ok db a" for s xs
    using that
  proof (induction xs arbitrary: s)
    case (Cons x xs)
    then obtain s1 where "interrupt_attempt (utc_text True e) s x = Inr s1"
      using interrupt_attempt_succeeds assms(2,3) by (metis list.set_intros(1))
    then show ?case using Cons by simp
  qed simp
  moreover have "\<forall>a \<in> set (running_attempts db). attempt_ok db a"
    using assms(1) by (simp add: db_inv_def running_attempts_def)
  ultimately obtain s where "foldR (interrupt_attempt (utc_text True e)) (db, []) (running_attempts db) = Inr s"
    by blast
  then show ?thesis by (cases s) (simp add: interrupt_all_def)
qed

section \<open>Reading the status\<close>

lemma unit_status_succeeds:
  assumes "db_inv H db" "valid_dt e" "dt_off e = Some 0"
  shows "\<exists>s. unit_status_of db (utc_text True e) u = Inr s"
proof (cases "unit_attempt db u")
  case None
  then show ?thesis by (simp add: unit_status_of_def)
next
  case (Some a)
  then have "a \<in> set (db_attempts db)" by (auto simp: unit_attempt_def dest!: find_Some_props)
  then have "attempt_ok db a" using assms(1) by (simp add: db_inv_def)
  then obtain d where "valid_dt d" "dt_off d = Some 0" "a_started_at a = utc_text True d"
    unfolding attempt_ok_def by blast
  then show ?thesis
    using Some assms(2,3) fromisoformat_utc_text
    by (simp add: unit_status_of_def elapsed_between_def seconds_between_def)
qed

lemma run_status_succeeds:
  assumes inv: "db_inv H db" and ws: "well_stored A db" and wall: "on_time wall"
    and r: "find_run db rid = Some r"
  shows "\<exists>s. run_status_of H alive wall db rid = Inr s"
proof -
  obtain e where e: "valid_dt e" "dt_off e = Some 0" "utc_stamp wall = Inr (utc_text True e)"
    using wall by (rule on_time_stamp)
  have "\<exists>us. mapR (unit_status_of db (utc_text True e)) xs = Inr us" for xs
    by (induction xs) (use unit_status_succeeds [OF inv e(1,2)] in force)+
  then obtain us where us: "mapR (unit_status_of db (utc_text True e)) (run_units db rid) = Inr us" by blast
  have mem: "r \<in> set (db_runs db)" using r inv find_run_iff by blast
  then obtain m where m: "rr_resource r = PDict m" using ws by (auto simp: well_stored_def)
  have "run_ok H db r" using inv mem by (simp add: db_inv_def)
  then obtain c where "valid_contract H c" "rr_contract r = Some (contract_json c)" unfolding run_ok_def by blast
  then have "contract_from_stored H (rr_contract r) = Inr c"
    using contract_stored_same by (auto simp: valid_contract_def)
  then show ?thesis by (simp add: run_status_of_def Let_def r e(3) us m)
qed

lemma returns_status:
  assumes "benign_env H env"
    and "\<And>db. P db \<Longrightarrow> db_inv H db \<and> well_stored A db \<and> find_run db rid \<noteq> None"
  shows "returnsM P (statusM env rid)"
  unfolding returnsM_def
proof (intro allI impI)
  fix w :: world assume "P (w_db w)"
  then obtain s where "run_status_of H (token_alive env (w_tick w)) (env_wall env (w_tick w)) (w_db w) rid = Inr s"
    using run_status_succeeds assms(2) benign_simps(8) [OF assms(1)] by (metis not_None_eq)
  then show "\<exists>x w'. statusM env rid w = (Inr x, w')"
    by (simp add: statusM_def bindM_def readM_def askM_def liftM_def benign_simps(1) [OF assms(1)])
qed

definition quiet :: "progress option \<Rightarrow> bool" where
  "quiet pr \<longleftrightarrow> (\<forall>f t s. pr = Some f \<longrightarrow> f t s = None)"

lemma returns_report:
  assumes "benign_env H env" "quiet pr"
    and "\<And>db. P db \<Longrightarrow> db_inv H db \<and> well_stored A db \<and> find_run db rid \<noteq> None"
  shows "returnsM P (reportM env pr rid)"
  unfolding reportM_def using assms(2)
  by (auto simp: quiet_def split: option.split intro!: returns_ret returns_bind_passive preserving
      returns_status [OF assms(1,3)] returns_check)

section \<open>Executing the phases\<close>

text \<open>
  An executor that, on Matchweek tables in \<open>S\<close>, returns valid results, whose artifacts are in \<open>A\<close> or
  published by it, and leaves tables in \<open>S\<close>.
\<close>

definition dutiful :: "mw_store set \<Rightarrow> string set \<Rightarrow> executor \<Rightarrow> bool" where
  "dutiful S A x \<longleftrightarrow>
     (\<forall>t ctx s st. st \<in> S \<longrightarrow> (\<exists>r ds st'. x t ctx s st = (Work_done r, ds, st') \<and> work_result_init r = Inr r \<and>
        set (wr_artifact_digests r) \<subseteq> A \<union> set ds \<and> st' \<in> S))"

lemma dutiful_leaves: "dutiful S A x \<Longrightarrow> leaves (\<lambda>st st'. st \<in> S \<longrightarrow> st' \<in> S) x"
  unfolding dutiful_def leaves_def by (metis snd_conv)

lemma fold_catalogue_artifacts:
  "set (db_artifacts (fold catalogue ds db)) = set ds \<union> set (db_artifacts db)"
  by (induction ds arbitrary: db) (auto simp: catalogue_def)

lemma executed_artifacts: "set (db_artifacts (executed ds st db)) = set ds \<union> set (db_artifacts db)"
  unfolding executed_def fold_catalogue_artifacts by simp

lemma dutiful_boundary:
  assumes "\<And>s. sha_shaped (sha256_hex H s)"
  shows "dutiful S A (boundary_executor H)"
  using assms by (simp add: dutiful_def boundary_executor_def work_result_for_phase_def work_result_init_def
      require_digest_def require_digest_list_def)

lemma returns_verify_all:
  assumes "benign_env H env" "\<And>d. d \<in> set ds \<Longrightarrow> sha_shaped d" "set ds \<subseteq> A" "\<And>db. P db \<Longrightarrow> well_stored A db"
  shows "returnsM P (verify_allM env ds)"
  using assms(2,3)
proof (induction ds)
  case (Cons d ds)
  have "returnsM P (verify_artifactM env d)"
    unfolding returnsM_def verify_artifactM_def
    using Cons.prems assms(4) benign_simps(9) [OF assms(1)]
    by (fastforce simp: bindM_def readM_def askM_def ret_def well_stored_def)
  moreover have "returnsM P (verify_allM env ds)" using Cons by simp
  ultimately show ?case by (simp add: returns_bind_passive preserves_verify)
qed (simp add: returns_ret)

lemma work_result_shapes:
  assumes "work_result_init r = Inr r" "d \<in> set (wr_artifact_digests r)"
  shows "sha_shaped d"
proof -
  obtain ys where "mapR (\<lambda>v. require_digest v ''work result artifact'') (wr_artifact_digests r) = Inr ys"
    using assms(1) by (auto simp: work_result_init_def require_digest_list_def elim!: bindR_InrE)
  from mapR_set_in [OF this assms(2)] show ?thesis by (auto simp: require_digest_def)
qed

lemma returns_save:
  assumes env: "benign_env H env" and i: "i < 7" and e: "0 \<le> elapsed"
    and r: "work_result_init r = Inr r" "set (wr_artifact_digests r) \<subseteq> A"
  shows "returnsM (\<lambda>db. in_attempt H rid m c i pred n db \<and> well_stored A db)
    (save_workM env rid (phase_key m i) (run_phases ! i) n
      (work_input_digest H g (phase_key m i) pred) started (env_clock env u) elapsed r)"
proof -
  obtain s where s: "utc_stamp (env_clock env u) = Inr s" using on_time_stamp benign_simps(7) [OF env] by metis
  have d: "sha_shaped (work_input_digest H g (phase_key m i) pred)" "sha_shaped (work_output_digest H r)"
    using benign_simps(11) [OF env] by (simp_all add: work_input_digest_def work_output_digest_def)
  show ?thesis
    unfolding save_workM_def Let_def benign_simps(1) [OF env]
    apply (rule returns_catch)
    apply (rule returns_bind_passive [OF preserves_verify(2)])
     apply (rule returns_verify_all [OF env work_result_shapes [OF r(1)] r(2)], assumption, simp)
    apply (rule returns_bind_lift [OF s])
    apply (rule returns_bind [where R = "\<lambda>_ _. True" and E = "\<lambda>_. True"])
      apply (rule returns_write [OF benign_simps(5) [OF env]])
      apply (erule conjunct1 [THEN checkpoint_succeeds [OF _ i d e]])
     apply (simp add: hoareM_def split: sum.splits)
    apply (rule returns_ret)
    done
qed

lemma returns_phase:
  assumes env: "benign_env H env" and i: "i < 7" and x: "dutiful S A x"
  shows "returnsM (\<lambda>db. at_phase H rid m c i pred db \<and> well_stored A db \<and> db_matchweek db \<in> S)
    (execute_phaseM env x rid m (aggregate_digest H c) cpu (env_clock env t) (phase_key m i) (run_phases ! i) pred)"
proof -
  note H = benign_simps(1) [OF env]
  let ?J = "\<lambda>B n db. in_attempt H rid m c i pred n db \<and> well_stored B db"
  let ?I = "\<lambda>n db. ?J A n db \<and> db_matchweek db \<in> S"
  let ?d = "work_input_digest H (aggregate_digest H c) (phase_key m i) pred"
  have d: "sha_shaped ?d" using benign_simps(11) [OF env] by (simp add: work_input_digest_def)
  have after: "returnsM (?J B n) (after_workM env rid (phase_key m i) (run_phases ! i) n ?d (env_clock env t) (env_clock env u) (Work_done r))"
    if r: "work_result_init r = Inr r" "set (wr_artifact_digests r) \<subseteq> B" for n u r B
    unfolding after_workM_def work_outcome.case
  proof (rule returns_bind_clock [OF env])
    fix v
    obtain k1 where k1: "seconds_between (env_clock env u) (env_clock env v) = Inr k1"
      using session_seconds [OF env] by blast
    obtain k2 where k2: "seconds_between (env_clock env t) (env_clock env v) = Inr k2"
      "k2 < hard_duration_seconds (env_budget env)"
      using session_seconds [OF env] by blast
    have "0 \<le> k1" using k1 by (auto simp: seconds_between_def split: if_splits)
    then show "returnsM (?J B n) (bindM (liftM (seconds_between (env_clock env u) (env_clock env v))) (\<lambda>attempt_elapsed.
       bindM (liftM (seconds_between (env_clock env t) (env_clock env v))) (\<lambda>session_elapsed.
       if hard_duration_seconds (env_budget env) < session_elapsed
       then stop_attemptM env rid (phase_key m i) n (env_clock env u) ATTEMPT_FAILED ''MV-RUN-HARD_TIME_LIMIT'' hard_limit_text (Some (env_clock env v))
       else save_workM env rid (phase_key m i) (run_phases ! i) n ?d (env_clock env u) (env_clock env v) attempt_elapsed r)))"
      using k2(2) by (intro returns_bind_lift [OF k1] returns_bind_lift [OF k2(1)]) (simp add: returns_save [OF env i _ r])
  qed
  let ?R = "\<lambda>n o' db. \<exists>r. o' = Work_done r \<and> work_result_init r = Inr r \<and> ?J (set (wr_artifact_digests r)) n db"
  have work: "returnsM (?I n) (run_workM env x ctx (env_clock env t) (env_clock env u)) \<and>
      hoareM (?I n) (run_workM env x ctx (env_clock env t) (env_clock env u)) (?R n) (\<lambda>_. False)"
    for n ctx u
  proof -
    obtain k where k: "seconds_between (env_clock env t) (env_clock env u) = Inr k"
      "k < hard_duration_seconds (env_budget env)"
      using session_seconds [OF env] by blast
    have finished: "\<exists>r w'. run_workM env x ctx (env_clock env t) (env_clock env u) w = (Inr (Work_done r), w') \<and>
        work_result_init r = Inr r \<and> ?J (set (wr_artifact_digests r)) n (w_db w')" if w: "?I n (w_db w)" for w :: world
    proof -
      obtain r ds st where r: "x (w_tick w) ctx (hard_duration_seconds (env_budget env) - k) (db_matchweek (w_db w)) = (Work_done r, ds, st)"
        "work_result_init r = Inr r" "set (wr_artifact_digests r) \<subseteq> A \<union> set ds"
        using x w unfolding dutiful_def by blast
      let ?db = "executed ds st (w_db w)" and ?found = "(w_db w)\<lparr>db_matchweek := st\<rparr>"
      have "in_attempt H rid m c i pred n ?found \<and> well_stored A ?found"
        using w in_attempt_matchweek stored.matchweek_keeps by blast
      then have "in_attempt H rid m c i pred n ?db \<and> well_stored A ?db"
        unfolding executed_def
        by (rule fold_catalogue [rotated]) (use in_attempt_catalogue stored.catalogue_keeps in blast)
      moreover have "set (db_artifacts ?db) = set ds \<union> set (db_artifacts (w_db w))" by (rule executed_artifacts)
      ultimately have "?J (set (wr_artifact_digests r)) n ?db"
        using r(3) w unfolding well_stored_def by blast
      then show ?thesis
        using k r by (simp add: run_workM_def Let_def bindM_def workM_def ret_def valid_outcome_def)
    qed
    show ?thesis
      unfolding returnsM_def hoareM_def using finished by fastforce
  qed
  have start: "returnsM (\<lambda>db. at_phase H rid m c i pred db \<and> well_stored A db \<and> db_matchweek db \<in> S)
      (transactM env (start_attempt rid (phase_key m i) (run_phases ! i) ?d token stamp))"
    for token stamp
    by (rule returns_transact [OF benign_simps(5) [OF env]]) (use start_attempt_succeeds [OF _ i d] in blast)
  show ?thesis
    unfolding execute_phaseM_def Let_def H
  proof (rule returns_bind_clock [OF env], rule returns_bind_passive [OF preserves_world(3)])
    show "returnsM P (own_tokenM env)" for P unfolding own_tokenM_def by (rule returns_ask)
    fix u token
    obtain e where e: "valid_dt e" "dt_off e = Some 0" "utc_stamp (env_clock env u) = Inr (utc_text True e)"
      using benign_simps(7) [OF env] by (rule on_time_stamp)
    let ?A = "start_attempt rid (phase_key m i) (run_phases ! i) ?d token (utc_text True e)"
    have started: "hoareM (\<lambda>db. at_phase H rid m c i pred db \<and> well_stored A db \<and> db_matchweek db \<in> S) (transactM env ?A) ?I (\<lambda>_. True)"
    proof (rule hoare_transact)
      fix db n db' assume a: "at_phase H rid m c i pred db \<and> well_stored A db \<and> db_matchweek db \<in> S" "?A db = Inr (n, db')"
      have "db_matchweek db' = db_matchweek db"
        using a(2) by (auto simp: start_attempt_def update_run_def Let_def split: option.splits)
      then show "?I n db' \<and> True"
        using start_attempt_effect [OF a(1) [THEN conjunct1] i a(2) e(1,2)]
          well_stored_start [OF a(1) [THEN conjunct2, THEN conjunct1] a(2)] a(1) by simp
    qed simp
    show "returnsM (\<lambda>db. at_phase H rid m c i pred db \<and> well_stored A db \<and> db_matchweek db \<in> S)
        (bindM (liftM (utc_stamp (env_clock env u))) (\<lambda>stamp.
         bindM (transactM env (start_attempt rid (phase_key m i) (run_phases ! i) ?d token stamp)) (\<lambda>n.
         bindM (run_workM env x \<lparr>wc_run_id = rid, wc_stable_key = phase_key m i, wc_matchweek = m, wc_phase = run_phases ! i,
                wc_attempt = n, wc_mode = ''RESEARCH_ONLY'', wc_input_digest = ?d,
                wc_predecessor_digest = pred, wc_cpu_concurrency = cpu\<rparr> (env_clock env t) (env_clock env u))
           (after_workM env rid (phase_key m i) (run_phases ! i) n ?d (env_clock env t) (env_clock env u)))))"
    proof (rule returns_bind_lift [OF e(3)], rule returns_bind [OF start started],
        rule returns_bind [OF work [THEN conjunct1] work [THEN conjunct2]])
      fix n o'
      show "returnsM (?R n o')
          (after_workM env rid (phase_key m i) (run_phases ! i) n ?d (env_clock env t) (env_clock env u) o')"
        using after [OF _ subset_refl, of _ n u] unfolding returnsM_def by blast
    qed
  qed
qed

text \<open>The digests already published are in \<open>D\<close>, which no phase changes.\<close>

definition published_in :: "string set \<Rightarrow> run_db \<Rightarrow> bool" where
  "published_in D db \<longleftrightarrow> k_digest ` set (db_completions db) \<subseteq> D"

interpretation published: phase_invariant "published_in D" for D
  by unfold_locales
    (auto simp: start_attempt_def checkpoint_def finish_attempt_def published_in_def catalogue_def Let_def split: option.splits)

definition ready :: "mw_store set \<Rightarrow> string set \<Rightarrow> string set \<Rightarrow> run_db \<Rightarrow> bool" where
  "ready S A D db \<longleftrightarrow> well_stored A db \<and> published_in D db \<and> db_matchweek db \<in> S"

interpretation found_in: work_invariant "\<lambda>db. db_matchweek db \<in> S" "\<lambda>st st'. st \<in> S \<longrightarrow> st' \<in> S" for S
  by unfold_locales
    (auto simp: start_attempt_def checkpoint_def finish_attempt_def update_run_def catalogue_def Let_def split: option.splits)

interpretation ready: work_invariant "ready S A D" "\<lambda>st st'. st \<in> S \<longrightarrow> st' \<in> S" for S A D
  by unfold_locales
    (auto simp: ready_def intro: well_stored_start well_stored_checkpoint well_stored_finish
      published.start_attempt_keeps published.checkpoint_keeps published.finish_attempt_keeps
      found_in.start_attempt_keeps found_in.checkpoint_keeps found_in.finish_attempt_keeps found_in.catalogue_keeps
      stored.catalogue_keeps published.catalogue_keeps stored.matchweek_keeps published.matchweek_keeps)

lemma at_phase_run: "at_phase H rid m c i p db \<Longrightarrow> find_run db rid \<noteq> None"
  unfolding at_phase_def open_run_def using find_run_iff by (metis option.distinct(1))

lemma returns_phases:
  assumes env: "benign_env H env" and "i \<le> 7" and k: "k \<le> 7" and x: "dutiful S A x" and pr: "quiet pr"
  shows "returnsM (\<lambda>db. at_phase H rid m c (max i k) pred db \<and> ready S A D db)
    (execute_phasesM env x pr rid m (aggregate_digest H c) cpu (env_clock env t) (map (phase_key m) [0..<k])
      (map (\<lambda>i. (i, run_phases ! i)) [i..<7]) pred)"
  using \<open>i \<le> 7\<close>
proof (induction "7 - i" arbitrary: i pred)
  case 0
  then show ?case by (simp add: returns_ret)
next
  case (Suc n)
  then have i: "i < 7" by simp
  have list: "[i..<7] = i # [Suc i..<7]" using i by (simp add: upt_rec)
  have key: "work_key i (run_phases ! i) m = phase_key m i" by (simp add: phase_key_def)
  have IH: "returnsM (\<lambda>db. at_phase H rid m c (max (Suc i) k) p db \<and> ready S A D db)
    (execute_phasesM env x pr rid m (aggregate_digest H c) cpu (env_clock env t) (map (phase_key m) [0..<k])
      (map (\<lambda>i. (i, run_phases ! i)) [Suc i..<7]) p)" for p
    using Suc by simp
  have skipped: "phase_key m i \<in> set (map (phase_key m) [0..<k]) \<longleftrightarrow> i < k"
    using phase_key_inj i k by fastforce
  show ?case
  proof (cases "i < k")
    case True
    then have "max i k = max (Suc i) k" by simp
    then show ?thesis
      using IH [of pred] True skipped unfolding list by (simp add: key del: set_map set_upt)
  next
    case False
    then have m: "max i k = i" "max (Suc i) k = Suc i" by simp_all
    let ?e = "execute_phaseM env x rid m (aggregate_digest H c) cpu (env_clock env t) (phase_key m i) (run_phases ! i) pred"
    let ?P = "\<lambda>i p db. at_phase H rid m c i p db \<and> ready S A D db"
    let ?rest = "execute_phasesM env x pr rid m (aggregate_digest H c) cpu (env_clock env t) (map (phase_key m) [0..<k])
      (map (\<lambda>i. (i, run_phases ! i)) [Suc i..<7])"
    have one: "returnsM (?P i pred) ?e"
      by (rule returns_pre [OF returns_phase [OF env i x]]) (simp add: ready_def)
    have after: "hoareM (?P i pred) ?e (?P (Suc i)) (db_inv H)"
      by (rule hoare_with [OF hoare_phase [OF i benign_simps(10) [OF env]] ready.phase_from [OF dutiful_leaves [OF x]]])
    have report: "returnsM (?P (Suc i) out) (reportM env pr rid)" for out
      by (rule returns_report [OF env pr, of _ A]) (auto simp: ready_def dest: at_phase_inv at_phase_run)
    have "returnsM (?P i pred) (bindM ?e (\<lambda>out. bindM (reportM env pr rid) (\<lambda>_. ?rest out)))"
      by (rule returns_bind [OF one after], rule returns_bind_passive [OF preserves_world(5) report],
          rule IH [unfolded m(2)])
    then show ?thesis
      using False skipped unfolding list m(1) by (simp add: key del: set_map set_upt)
  qed
qed

lemma complete_run_succeeds:
  assumes pre: "at_phase H rid m c 7 p db" and out: "out \<in> set (db_artifacts db)" "published_in D db" "out \<notin> D"
  shows "\<exists>db'. complete_run rid out now db = Inr db'"
proof -
  have inv: "db_inv H db" and len: "length (checkpoints_of db rid) = 7" using pre by (simp_all add: at_phase_def)
  obtain r where r: "open_run H db rid m c r" using pre by (auto simp: at_phase_def)
  have rr: "r \<in> set (db_runs db)" "rr_run_id r = rid" using r by (simp_all add: open_run_def)
  have "rid \<in> set (map rr_run_id (db_runs db))" using rr by force
  moreover have "rid \<notin> set (map k_run_id (db_completions db))" using open_runD(4) [OF inv r] by simp
  moreover have "out \<notin> set (map k_digest (db_completions db))" using out by (auto simp: published_in_def)
  ultimately show ?thesis
    using len out(1) run_checkpoints_eq [OF inv rr] by (simp add: complete_run_def)
qed

lemma returns_completion:
  assumes env: "benign_env H env" and same: "rc_digests inputs = rc_digests c"
    and D: "\<And>cs. digest H (completion_payload inputs H rid cs) \<notin> D"
  shows "returnsM (\<lambda>db. at_phase H rid m c 7 p db \<and> ready S A D db) (publish_completionM env rid inputs)"
proof -
  let ?P = "\<lambda>db. at_phase H rid m c 7 p db \<and> ready S A D db"
  have body: "returnsM ?P (bindM (publish_artifactM env (json_text (completion_payload inputs H rid cs))) (\<lambda>out.
      bindM (stampM env) (\<lambda>now. writeM env (complete_run rid out now))))" for cs
  proof (rule returns_bind [OF returns_publish [OF benign_simps(6) [OF env]]])
    let ?out = "sha256_hex H (json_text (completion_payload inputs H rid cs))"
    let ?R = "\<lambda>out db. ?P db \<and> out = ?out \<and> out \<in> set (db_artifacts db)"
    show "hoareM ?P (publish_artifactM env (json_text (completion_payload inputs H rid cs))) ?R (\<lambda>_. True)"
      using at_phase_catalogue stored.catalogue_keeps
      by (auto simp: hoareM_def publish_artifactM_def Let_def benign_simps(1,6) [OF env] ready_def
          published_in_def catalogue_def split: if_splits)
    show "returnsM (?R out) (bindM (stampM env) (\<lambda>now. writeM env (complete_run rid out now)))" for out
    proof (rule returns_bind_passive [OF preserves_world(2) returns_stamp [OF env]],
        rule returns_write [OF benign_simps(5) [OF env]])
      fix now db assume "?R out db"
      then show "\<exists>db'. complete_run rid out now db = Inr db'"
        using D [of cs] by (intro complete_run_succeeds [of H rid m c p]) (auto simp: ready_def digest_def)
    qed
  qed
  show ?thesis
    unfolding publish_completionM_def benign_simps(1) [OF env]
    by (intro returns_bind_read returns_catch, rule returns_pre [OF body]) simp
qed

lemma returns_execute:
  assumes env: "benign_env H env" and same: "rc_digests inputs = rc_digests c"
    and D: "\<And>cs. digest H (completion_payload inputs H rid cs) \<notin> D"
    and x: "dutiful S A (case ex of None \<Rightarrow> boundary_executor H | Some x \<Rightarrow> x)" and pr: "quiet pr"
  shows "returnsM (\<lambda>db. (\<exists>i p. at_phase H rid m c i p db) \<and> ready S A D db) (executeM env ex pr rid inputs cpu)"
proof -
  note H = benign_simps(1) [OF env] and sane = benign_simps(10) [OF env]
  have agg: "aggregate_digest H inputs = aggregate_digest H c" using same by (simp add: aggregate_digest_def)
  let ?x = "case ex of None \<Rightarrow> boundary_executor H | Some x \<Rightarrow> x"
  have finish: "returnsM (\<lambda>db. at_phase H rid m c 7 p db \<and> ready S A D db)
      (bindM (publish_completionM env rid inputs) (\<lambda>_. statusM env rid))" for p
  proof (rule returns_bind [OF returns_completion [OF env same D]])
    show "hoareM (\<lambda>db. at_phase H rid m c 7 p db \<and> ready S A D db) (publish_completionM env rid inputs)
        (\<lambda>_ db. completed H rid db \<and> well_stored A db) (db_inv H)"
      by (rule hoare_pre [OF hoare_with [OF hoare_completion [OF sane same, where m = m and p = p] stored.completion_keeps]])
        (simp add: ready_def)
    show "returnsM (\<lambda>db. completed H rid db \<and> well_stored A db) (statusM env rid)"
      by (rule returns_status [OF env, of _ A]) (auto simp: completed_def)
  qed
  have loop: "returnsM (\<lambda>db. at_phase H rid m c i p db \<and> ready S A D db)
      (bindM (execute_phasesM env ?x pr rid m (aggregate_digest H c) cpu (env_clock env t) (map (phase_key m) [0..<i])
        (map (\<lambda>i. (i, run_phases ! i)) [0..<7]) p) (\<lambda>_.
       bindM (publish_completionM env rid inputs) (\<lambda>_. statusM env rid)))"
    if "i \<le> 7" for i p t
  proof (rule returns_bind)
    let ?e = "execute_phasesM env ?x pr rid m (aggregate_digest H c) cpu (env_clock env t) (map (phase_key m) [0..<i])
        (map (\<lambda>i. (i, run_phases ! i)) [0..<7]) p"
    show "returnsM (\<lambda>db. at_phase H rid m c i p db \<and> ready S A D db) ?e"
      using returns_phases [OF env _ that x pr, of 0] by simp
    have "hoareM (at_phase H rid m c i p) ?e (\<lambda>_ db. \<exists>p. at_phase H rid m c 7 p db) (db_inv H)"
      using hoare_phases [OF sane, of 0 i] that by simp
    then show "hoareM (\<lambda>db. at_phase H rid m c i p db \<and> ready S A D db) ?e
        (\<lambda>_ db. (\<exists>p. at_phase H rid m c 7 p db) \<and> ready S A D db) (db_inv H)"
      by (rule hoare_with [OF _ ready.phases_from [OF dutiful_leaves [OF x]]])
    show "returnsM (\<lambda>db. (\<exists>p. at_phase H rid m c 7 p db) \<and> ready S A D db)
        (bindM (publish_completionM env rid inputs) (\<lambda>_. statusM env rid))"
      using finish unfolding returnsM_def by blast
  qed
  show ?thesis
    unfolding executeM_def Let_def H agg
  proof (rule returns_bind_clock [OF env], rule returns_bind_read, rule returns_bind_read)
    fix t cs found
    show "returnsM (\<lambda>db. (((\<exists>i p. at_phase H rid m c i p db) \<and> ready S A D db) \<and> cs = run_checkpoints db rid) \<and> found = find_run db rid)
      (case found of None \<Rightarrow> throw RunAssertion
       | Some r \<Rightarrow> bindM (execute_phasesM env ?x pr rid (rr_matchweek r) (aggregate_digest H c)
            cpu (env_clock env t) (map c_key cs) (List.enumerate 0 run_phases)
            (if cs \<noteq> [] then c_output (last cs) else value_of (rc_digests inputs) ''predecessors''))
          (\<lambda>_. bindM (publish_completionM env rid inputs) (\<lambda>_. statusM env rid)))" (is "returnsM _ ?m")
      unfolding returnsM_def
    proof (intro allI impI)
      fix w :: world
      assume a: "(((\<exists>i p. at_phase H rid m c i p (w_db w)) \<and> ready S A D (w_db w)) \<and> cs = run_checkpoints (w_db w) rid) \<and> found = find_run (w_db w) rid"
      then obtain i p where at: "at_phase H rid m c i p (w_db w)" by blast
      then obtain r where r: "open_run H (w_db w) rid m c r" by (auto simp: at_phase_def)
      note inv = at_phase_inv [OF at] and ok = open_runD [OF at_phase_inv [OF at] r]
      have rr: "r \<in> set (db_runs (w_db w))" "rr_run_id r = rid" "rr_matchweek r = m" using r by (simp_all add: open_run_def)
      have cs: "cs = checkpoints_of (w_db w) rid" using a run_checkpoints_eq [OF inv rr(1,2)] by simp
      have found: "found = Some r" using a find_run_iff [OF inv] rr by simp
      have len: "length cs = i" and pred: "p = chain_end (first_digest c) cs" using at cs by (simp_all add: at_phase_def)
      have i: "i \<le> 7" using ok(3) cs len by (simp add: chained_def)
      have keys: "map c_key cs = map (phase_key m) [0..<i]" using chained_keys [OF ok(3)] cs len by simp
      have p: "(if cs \<noteq> [] then c_output (last cs) else value_of (rc_digests inputs) ''predecessors'') = p"
        by (simp add: pred chain_end_def first_digest_def same)
      show "\<exists>x w'. ?m w = (Inr x, w')"
        using loop [OF i, of p t] at a unfolding found option.case rr(3) keys p enumerate_phases returnsM_def by blast
    qed
  qed
qed

section \<open>Resuming\<close>

text \<open>No attempt that is still marked as running has a live owner.\<close>

definition abandoned :: "run_env \<Rightarrow> run_db \<Rightarrow> bool" where
  "abandoned env db \<longleftrightarrow> (\<forall>a \<in> set (running_attempts db). \<forall>t. \<not> token_alive env t (a_owner a))"

lemma interrupt_all_same:
  assumes "interrupt_all now as db = Inr db'"
  shows "db_checkpoints db' = db_checkpoints db" "db_matchweek db' = db_matchweek db"
proof -
  obtain db1 l where f: "foldR (interrupt_attempt now) (db, []) as = Inr (db1, l)"
    and db': "db' = fold (\<lambda>rid. update_run rid (abandoned_run now l rid)) (sorted_set (map fst l)) db1"
    using assms by (auto simp: interrupt_all_def)
  let ?f = "\<lambda>db. (db_checkpoints db, db_matchweek db)"
  have "?f (fst (db1, l)) = ?f db"
    by (rule foldR_invariant [of "\<lambda>s. ?f (fst s) = ?f db", OF _ f]) (auto simp: interrupt_attempt_def)
  moreover have "?f (fold (\<lambda>rid. update_run rid (abandoned_run now l rid)) rids d) = ?f d" for rids d
    by (induction rids arbitrary: d) (simp_all add: update_run_def)
  ultimately show "db_checkpoints db' = db_checkpoints db" "db_matchweek db' = db_matchweek db" by (simp_all add: db')
qed

text \<open>The run can be resumed: it is open, and what its checkpoints rest on is catalogued.\<close>

definition resumes :: "hasher \<Rightarrow> string \<Rightarrow> string \<Rightarrow> run_contract \<Rightarrow> mw_store set \<Rightarrow> string set \<Rightarrow> string set \<Rightarrow> run_db \<Rightarrow> bool" where
  "resumes H rid m c S A D db \<longleftrightarrow>
     db_inv H db \<and> ready S A D db \<and> (\<exists>r. open_run H db rid m c r) \<and>
     (\<forall>x \<in> set (checkpoints_of db rid). set (c_artifacts x) \<subseteq> A)"

lemma find_live_none:
  assumes "\<forall>a \<in> set as. \<forall>t. \<not> token_alive env t (a_owner a)"
  shows "\<exists>w'. find_liveM env as w = (Inr None, w') \<and> w_db w' = w_db w"
  using assms
proof (induction as arbitrary: w)
  case (Cons a as)
  then show ?case
    using Cons.IH [of "w\<lparr>w_tick := Suc (w_tick w)\<rparr>"] by (simp add: bindM_def askM_def)
qed (simp add: ret_def)

lemma interrupt_returns:
  assumes env: "benign_env H env" and e: "valid_dt e" "dt_off e = Some 0"
    and w: "resumes H rid m c S A D (w_db w)" "abandoned env (w_db w)"
  obtains w' where "interrupt_abandonedM env (utc_text True e) w = (Inr None, w')"
    "resumes H rid m c S A D (w_db w')" "resumable H rid m c (w_db w')"
proof -
  let ?db = "w_db w"
  have inv: "db_inv H ?db" and rdy: "ready S A D ?db" using w(1) by (simp_all add: resumes_def)
  obtain r where r: "open_run H ?db rid m c r" using w(1) by (auto simp: resumes_def)
  obtain w1 where live: "find_liveM env (running_attempts ?db) w = (Inr None, w1)" "w_db w1 = ?db"
    using find_live_none w(2) unfolding abandoned_def by blast
  have start: "interrupt_abandonedM env (utc_text True e) w =
      (if running_attempts ?db = [] then ret None
       else bindM (writeM env (interrupt_all (utc_text True e) (running_attempts ?db))) (\<lambda>_. ret None)) w1"
    by (simp add: interrupt_abandonedM_def bindM_def readM_def live(1))
  show thesis
  proof (cases "running_attempts ?db = []")
    case True
    then show ?thesis
      using that [of w1] start w(1) live(2) inv r by (auto simp: ret_def resumable_def idle_def)
  next
    case False
    obtain db' where i: "interrupt_all (utc_text True e) (running_attempts ?db) ?db = Inr db'"
      using interrupt_all_succeeds [OF inv e] by blast
    note eff = interrupt_all_effect [OF inv i]
    obtain r' where r': "open_run H db' rid m c r'" using r eff(5) by (rule open_run_core)
    have "resumes H rid m c S A D db'"
      using w(1) eff(1,3,4) r' well_stored_interrupt [OF _ i] interrupt_all_same(2) [OF i]
      by (auto simp: resumes_def ready_def published_in_def checkpoints_of_def)
    moreover have "resumable H rid m c db'" using eff(1,2) r' by (auto simp: resumable_def idle_def)
    moreover have "interrupt_abandonedM env (utc_text True e) w = (Inr None, w1\<lparr>w_tick := Suc (w_tick w1), w_db := db'\<rparr>)"
      using False i live(2) start benign_simps(5) [OF env]
      by (simp add: writeM_def transactM_def bindM_def ret_def Let_def)
    ultimately show ?thesis
      using that [of "w1\<lparr>w_tick := Suc (w_tick w1), w_db := db'\<rparr>"] by simp
  qed
qed

text \<open>The checks of a resume read only.\<close>

definition silentM :: "(run_db \<Rightarrow> bool) \<Rightarrow> 'a run \<Rightarrow> bool" where
  "silentM P m \<longleftrightarrow> (\<forall>w. P (w_db w) \<longrightarrow> (\<exists>x w'. m w = (Inr x, w') \<and> w_db w' = w_db w))"

lemma silent_ret: "silentM P (ret x)"
  by (simp add: silentM_def ret_def)

lemma silent_bind:
  assumes "silentM P m" "\<And>x. silentM P (f x)"
  shows "silentM P (bindM m f)"
  unfolding silentM_def
proof (intro allI impI)
  fix w :: world assume w: "P (w_db w)"
  then obtain x w1 where m: "m w = (Inr x, w1)" "w_db w1 = w_db w"
    using assms(1) unfolding silentM_def by blast
  then obtain y w2 where "f x w1 = (Inr y, w2)" "w_db w2 = w_db w1"
    using assms(2) [of x] w unfolding silentM_def by metis
  then show "\<exists>y w'. bindM m f w = (Inr y, w') \<and> w_db w' = w_db w"
    using m by (simp add: bindM_def)
qed

lemma silent_catch: "silentM P m \<Longrightarrow> silentM P (catchM m h)"
  unfolding silentM_def catchM_def by (metis (no_types, lifting) case_prod_conv sum.case(2))

lemma silent_returns: "silentM P m \<Longrightarrow> returnsM P m"
  unfolding silentM_def returnsM_def by blast

lemma silent_hoare: "silentM P m \<Longrightarrow> hoareM P m (\<lambda>_. P) (\<lambda>_. False)"
  unfolding silentM_def hoareM_def by fastforce

lemma silent_verify:
  assumes "benign_env H env" "sha_shaped d" "\<And>db. P db \<Longrightarrow> d \<in> set (db_artifacts db)"
  shows "silentM P (verify_artifactM env d)"
  unfolding silentM_def verify_artifactM_def using assms benign_simps(9) [OF assms(1)]
  by (simp add: bindM_def readM_def askM_def ret_def)

lemma silent_verify_all:
  assumes "benign_env H env" "\<And>d. d \<in> A \<Longrightarrow> sha_shaped d" "\<And>db. P db \<Longrightarrow> well_stored A db" "set ds \<subseteq> A"
  shows "silentM P (verify_allM env ds)"
  using assms(4)
proof (induction ds)
  case (Cons d ds)
  then show ?case
    using silent_verify [OF assms(1,2), of d P] assms(3) by (auto intro!: silent_bind simp: well_stored_def)
qed (simp add: silent_ret)

lemma silent_verify_checkpoint:
  assumes "benign_env H env" "\<And>d. d \<in> A \<Longrightarrow> sha_shaped d" "\<And>db. P db \<Longrightarrow> well_stored A db" "set ds \<subseteq> A"
  shows "silentM P (verify_checkpoint_artifactsM env rid x ds)"
  using assms(4)
proof (induction ds)
  case (Cons d ds)
  then show ?case
    using silent_verify [OF assms(1,2), of d P] assms(3)
    by (auto intro!: silent_bind silent_catch simp: well_stored_def)
qed (simp add: silent_ret)

lemma silent_validate:
  assumes env: "benign_env H env" and A: "\<And>d. d \<in> A \<Longrightarrow> sha_shaped d"
    and P: "\<And>db. P db \<Longrightarrow> well_stored A db"
    and cs: "\<And>j. j < length cs \<Longrightarrow> c_input_digest (cs ! j) = work_input_digest H g (c_key (cs ! j))
        (if j = 0 then pred else c_output (cs ! (j - 1)))"
      "\<And>x. x \<in> set cs \<Longrightarrow> set (c_artifacts x) \<subseteq> A"
  shows "silentM P (validate_checkpointsM env rid g cs pred)"
  using cs
proof (induction cs arbitrary: pred)
  case (Cons x cs)
  have "c_input_digest x = work_input_digest H g (c_key x) pred" using Cons.prems(1) [of 0] by simp
  moreover have "silentM P (validate_checkpointsM env rid g cs (c_output x))"
  proof (rule Cons.IH)
    fix j assume "j < length cs"
    then show "c_input_digest (cs ! j) = work_input_digest H g (c_key (cs ! j))
        (if j = 0 then c_output x else c_output (cs ! (j - 1)))"
      using Cons.prems(1) [of "Suc j"] by (cases j) simp_all
  qed (use Cons.prems(2) in simp)
  moreover have "silentM P (verify_checkpoint_artifactsM env rid x (c_artifacts x))"
    using Cons.prems(2) by (intro silent_verify_checkpoint [OF env A P]) simp_all
  ultimately show ?case by (simp add: benign_simps(1) [OF env] silent_bind)
qed (simp add: silent_ret)

lemma mark_resumed_keeps_resumes:
  assumes "resumes H rid m c S A D db" "resumable H rid m c db"
    and "mark_resumed rid (PDict j) cpu ws owner now db = Inr db'"
  shows "resumes H rid m c S A D db' \<and> resumable H rid m c db'"
proof -
  have n: "resumable H rid m c db'" using assms(2,3) by (rule mark_resumed_resumable)
  have "db_checkpoints db' = db_checkpoints db" "db_completions db' = db_completions db" "db_matchweek db' = db_matchweek db"
    using assms(3) by (auto simp: mark_resumed_def update_run_def)
  then show ?thesis
    using n assms(1) well_stored_resumed [OF _ assms(3)] resumable_inv [OF n]
    by (auto simp: resumes_def ready_def published_in_def checkpoints_of_def resumable_def)
qed

text \<open>From the moment the run is known to be resumable.\<close>

lemma returns_resumed:
  assumes env: "benign_env H env" and same: "rc_digests inputs = rc_digests c"
    and D: "\<And>cs. digest H (completion_payload inputs H rid cs) \<notin> D"
    and A: "\<And>d. d \<in> A \<Longrightarrow> sha_shaped d" "set (rc_artifact_digests inputs) \<subseteq> A"
    and x: "dutiful S A (case ex of None \<Rightarrow> boundary_executor H | Some x \<Rightarrow> x)" and pr: "quiet pr"
    and cpu: "1 \<le> cpu" "cpu \<le> 2"
  shows "returnsM (\<lambda>db. resumes H rid m c S A D db \<and> resumable H rid m c db)
    (bindM (verify_input_artifactsM env inputs rcode recovery rid) (\<lambda>_.
     bindM (readM (\<lambda>db. run_checkpoints db rid)) (\<lambda>cs.
     bindM (validate_checkpointsM env rid (aggregate_digest H inputs) cs
       (value_of (rc_digests inputs) ''predecessors'')) (\<lambda>_.
     bindM (own_tokenM env) (\<lambda>owner.
     bindM (writeM env (mark_resumed rid (PDict j) cpu ws owner now)) (\<lambda>_.
     bindM (reportM env pr rid) (\<lambda>_. executeM env ex pr rid inputs cpu)))))))"
proof -
  let ?P = "\<lambda>db. resumes H rid m c S A D db \<and> resumable H rid m c db"
  have ws: "?P db \<Longrightarrow> well_stored A db" for db by (simp add: resumes_def ready_def)
  have exec: "returnsM ?P (executeM env ex pr rid inputs cpu)"
    by (rule returns_pre [OF returns_execute [OF env same D x pr, where m = m]])
      (auto simp: resumes_def dest: resumable_phase)
  have report: "returnsM ?P (reportM env pr rid)"
  proof (rule returns_report [OF env pr])
    fix db assume a: "?P db"
    then obtain i p where "at_phase H rid m c i p db" using resumable_phase by blast
    then show "db_inv H db \<and> well_stored A db \<and> find_run db rid \<noteq> None"
      using at_phase_run at_phase_inv ws [OF a] by blast
  qed
  have marked: "returnsM ?P (writeM env (mark_resumed rid (PDict j) cpu ws owner now)) \<and>
      hoareM ?P (writeM env (mark_resumed rid (PDict j) cpu ws owner now)) (\<lambda>_. ?P) (\<lambda>_. True)" for owner
  proof
    show "returnsM ?P (writeM env (mark_resumed rid (PDict j) cpu ws owner now))"
      by (rule returns_write [OF benign_simps(5) [OF env]]) (simp add: mark_resumed_def cpu)
    show "hoareM ?P (writeM env (mark_resumed rid (PDict j) cpu ws owner now)) (\<lambda>_. ?P) (\<lambda>_. True)"
      by (rule hoare_write) (use mark_resumed_keeps_resumes in blast)+
  qed
  have rest: "returnsM ?P (bindM (own_tokenM env) (\<lambda>owner.
     bindM (writeM env (mark_resumed rid (PDict j) cpu ws owner now)) (\<lambda>_.
     bindM (reportM env pr rid) (\<lambda>_. executeM env ex pr rid inputs cpu))))"
    unfolding own_tokenM_def
    by (rule returns_bind_ask, rule returns_bind [OF marked [THEN conjunct1] marked [THEN conjunct2]],
        rule returns_bind_passive [OF preserves_world(5) report exec])
  have valid: "silentM (\<lambda>db. ?P db \<and> cs = run_checkpoints db rid)
      (validate_checkpointsM env rid (aggregate_digest H inputs) cs (value_of (rc_digests inputs) ''predecessors''))" for cs
  proof (cases "\<exists>db. ?P db \<and> cs = run_checkpoints db rid")
    case True
    then obtain db where db: "?P db" "cs = run_checkpoints db rid" by blast
    then obtain r where r: "open_run H db rid m c r" by (auto simp: resumes_def)
    have inv: "db_inv H db" using db by (simp add: resumes_def)
    have cs: "cs = checkpoints_of db rid"
      using run_checkpoints_eq [OF inv] r db(2) by (auto simp: open_run_def)
    have g: "aggregate_digest H inputs = aggregate_digest H c" using same by (simp add: aggregate_digest_def)
    show ?thesis
    proof (rule silent_validate [OF env A(1)])
      show "c_input_digest (cs ! k) = work_input_digest H (aggregate_digest H inputs) (c_key (cs ! k))
          (if k = 0 then value_of (rc_digests inputs) ''predecessors'' else c_output (cs ! (k - 1)))"
        if "k < length cs" for k
        using open_runD(3) [OF inv r] that unfolding cs g same by (simp add: chained_def first_digest_def)
      show "set (c_artifacts z) \<subseteq> A" if "z \<in> set cs" for z
        using db(1) that unfolding cs by (auto simp: resumes_def)
    qed (use ws in simp_all)
  next
    case False
    then show ?thesis by (auto simp: silentM_def)
  qed
  have inputs: "silentM ?P (verify_input_artifactsM env inputs rcode recovery rid)"
    unfolding verify_input_artifactsM_def
    by (rule silent_catch, rule silent_verify_all [OF env A(1) ws A(2)])
  show ?thesis
  proof (rule returns_bind [OF silent_returns [OF inputs] silent_hoare [OF inputs]], rule returns_bind_read,
      rule returns_bind [OF silent_returns [OF valid] silent_hoare [OF valid]])
    show "returnsM (\<lambda>db. ?P db \<and> cs = run_checkpoints db rid) (bindM (own_tokenM env) (\<lambda>owner.
       bindM (writeM env (mark_resumed rid (PDict j) cpu ws owner now)) (\<lambda>_.
       bindM (reportM env pr rid) (\<lambda>_. executeM env ex pr rid inputs cpu))))" for cs
      by (rule returns_pre [OF rest]) simp
  qed
qed

lemma hoare_stamp:
  assumes "benign_env H env"
  shows "hoareM P (stampM env) (\<lambda>s db. P db \<and> (\<exists>e. valid_dt e \<and> dt_off e = Some 0 \<and> s = utc_text True e)) (\<lambda>_. True)"
  unfolding stampM_def clockM_def hoareM_def
proof (intro allI impI)
  fix w r w' assume w: "P (w_db w)" "bindM (askM (env_clock env)) (\<lambda>t. liftM (utc_stamp t)) w = (r, w')"
  obtain e where e: "valid_dt e" "dt_off e = Some 0" "utc_stamp (env_clock env (w_tick w)) = Inr (utc_text True e)"
    using benign_simps(7) [OF assms] by (rule on_time_stamp)
  have "r = Inr (utc_text True e)" "w_db w' = w_db w"
    using w(2) e(3) by (auto simp: bindM_def askM_def liftM_def)
  then show "case r of Inl _ \<Rightarrow> True | Inr s \<Rightarrow> P (w_db w') \<and> (\<exists>e. valid_dt e \<and> dt_off e = Some 0 \<and> s = utc_text True e)"
    using w(1) e by auto
qed

lemma returns_guards:
  assumes "benign_env H env" "returnsM P m"
  shows "returnsM P (bindM (checkM (env_guard env)) (\<lambda>_. m))" "returnsM P (bindM (checkM (env_discard env)) (\<lambda>_. m))"
  using assms(2) by (auto intro!: returns_bind_passive preserves_checkM returns_check simp: benign_simps [OF assms(1)])

text \<open>The part both calls share: the clock is read and abandoned attempts are interrupted.\<close>

lemma returns_interrupted:
  assumes env: "benign_env H env"
    and f: "\<And>now. returnsM (\<lambda>db. resumes H rid m c S A D db \<and> resumable H rid m c db) (f now None)"
  shows "returnsM (\<lambda>db. resumes H rid m c S A D db \<and> abandoned env db)
    (bindM (stampM env) (\<lambda>now. bindM (interrupt_abandonedM env now) (f now)))"
proof (rule returns_bind [OF returns_stamp [OF env] hoare_stamp [OF env]])
  fix now
  let ?P = "\<lambda>db. (resumes H rid m c S A D db \<and> abandoned env db) \<and> (\<exists>e. valid_dt e \<and> dt_off e = Some 0 \<and> now = utc_text True e)"
  show "returnsM ?P (bindM (interrupt_abandonedM env now) (f now))"
    unfolding returnsM_def
  proof (intro allI impI)
    fix w :: world assume w: "?P (w_db w)"
    then obtain e where e: "valid_dt e" "dt_off e = Some 0" "now = utc_text True e" by blast
    from w obtain w' where i: "interrupt_abandonedM env now w = (Inr None, w')"
      "resumes H rid m c S A D (w_db w')" "resumable H rid m c (w_db w')"
      unfolding e(3) by (elim conjE) (rule interrupt_returns [OF env e(1,2)])
    then obtain x w'' where "f now None w' = (Inr x, w'')" using f unfolding returnsM_def by blast
    then show "\<exists>x w'. bindM (interrupt_abandonedM env now) (f now) w = (Inr x, w')"
      using i(1) by (simp add: bindM_def)
  qed
qed

lemma admitted_cpu:
  assumes "within_budget est obs settled_budget" "estimate_init est = Inr est"
  shows "1 \<le> pf_concurrency (preflight_resources est obs settled_budget)"
    "pf_concurrency (preflight_resources est obs settled_budget) \<le> 2"
proof -
  have e: "1 \<le> cpu_heavy_operations est" "cpu_heavy_operations est \<le> 2"
    using assms by (auto simp: estimate_init_def within_budget_def settled_budget_def split: if_splits)
  have "pf_concurrency (preflight_resources est obs settled_budget) = admitted_concurrency est obs settled_budget"
    by (rule preflight_cases [of est obs settled_budget]) (use assms(1) in simp_all)
  then show "1 \<le> pf_concurrency (preflight_resources est obs settled_budget)"
    "pf_concurrency (preflight_resources est obs settled_budget) \<le> 2"
    using e by (auto simp: admitted_concurrency_def cpu_capacity_def Let_def)
qed

lemma returns_resume:
  assumes env: "benign_env H env" and budget: "env_budget env = settled_budget"
    and admit: "within_budget est obs settled_budget" "estimate_init est = Inr est"
    and same: "rc_digests inputs = rc_digests c"
    and D: "\<And>cs. digest H (completion_payload inputs H rid cs) \<notin> D"
    and A: "\<And>d. d \<in> A \<Longrightarrow> sha_shaped d" "set (rc_artifact_digests inputs) \<subseteq> A"
    and x: "dutiful S A (case ex of None \<Rightarrow> boundary_executor H | Some x \<Rightarrow> x)" and pr: "quiet pr"
  shows "returnsM (\<lambda>db. resumes H rid m c S A D db \<and> abandoned env db) (resume_runM env rid inputs est obs ex pr)"
proof -
  have ok: "pf_accepted (preflight_resources est obs settled_budget)" using admit(1) by (simp add: preflight_accepted_iff)
  obtain j where j: "resource_json est obs (preflight_resources est obs settled_budget) = PDict j"
    by (simp add: resource_json_def Let_def)
  note cpu = admitted_cpu [OF admit]
  let ?P = "\<lambda>db. resumes H rid m c S A D db \<and> resumable H rid m c db"
  show ?thesis
    unfolding resume_runM_def Let_def budget benign_simps(1) [OF env] j
    apply (rule returns_guards(1) [OF env])
    apply (simp only: ok not_True_eq_False if_False)
    apply (rule returns_guards(2) [OF env], rule returns_guards(1) [OF env])
    apply (rule returns_interrupted [OF env])
    apply (simp only: option.case)
    apply (rule returns_bind_read)
  proof -
    fix now found
    show "returnsM (\<lambda>db. ?P db \<and> found = find_run db rid)
      (case found of None \<Rightarrow> raise_lifecycle (not_found_error rid) rid
       | Some r \<Rightarrow> if rr_state r = RUN_COMPLETE then raise_lifecycle (already_complete_error r) rid
         else bindM (liftM (contract_from_stored H (rr_contract r)))
          (\<lambda>stored. if contract_differences stored inputs \<noteq> []
            then bindM (writeM env (record_error rid (digest_mismatch_error r (contract_differences stored inputs)) now BLOCKED))
              (\<lambda>_. raise_lifecycle (digest_mismatch_error r (contract_differences stored inputs)) rid)
            else bindM (verify_input_artifactsM env inputs ''MV-RESUME-ARTIFACT_INVALID''
                (''matchvet doctor --store '' @ env_store_path env) rid) (\<lambda>_.
              bindM (readM (\<lambda>db. run_checkpoints db rid)) (\<lambda>cs.
              bindM (validate_checkpointsM env rid (aggregate_digest H inputs) cs (value_of (rc_digests inputs) ''predecessors'')) (\<lambda>_.
              bindM (own_tokenM env) (\<lambda>owner.
              bindM (writeM env (mark_resumed rid (PDict j) (pf_concurrency (preflight_resources est obs settled_budget))
                  (pf_warnings (preflight_resources est obs settled_budget)) owner now)) (\<lambda>_.
              bindM (reportM env pr rid) (\<lambda>_.
              executeM env ex pr rid inputs (pf_concurrency (preflight_resources est obs settled_budget)))))))))) "
      (is "returnsM _ ?m")
      unfolding returnsM_def
    proof (intro allI impI)
      fix w :: world assume w: "?P (w_db w) \<and> found = find_run (w_db w) rid"
      then obtain r where r: "open_run H (w_db w) rid m c r" by (auto simp: resumes_def)
      have inv: "db_inv H (w_db w)" using w by (simp add: resumes_def)
      have found: "found = Some r" "rr_state r \<noteq> RUN_COMPLETE"
        using w r find_run_iff [OF inv] by (simp_all add: open_run_def)
      have stored: "contract_from_stored H (rr_contract r) = Inr c"
        using r contract_stored_same by (auto simp: open_run_def valid_contract_def)
      have none: "contract_differences c inputs = []" using same by (simp add: contract_differences_def)
      have p: "resumes H rid m c S A D (w_db w) \<and> resumable H rid m c (w_db w)" using w by blast
      note R = returnsD [OF returns_resumed [OF env same D A x pr cpu] p]
      show "\<exists>x w'. ?m w = (Inr x, w')"
        unfolding found(1) option.case stored bind_lift_Inr none
        by (simp only: found(2) if_False not_True_eq_False refl) (rule R)
    qed
  qed
qed

end
