(* ===== verification/Run_Properties.thy ===== *)
theory Run_Properties
  imports Run_Liveness
begin

text \<open>
  The properties of the run coordinator: what every table a sequence of calls can reach satisfies, what
  a call that returns has done, which calls are refused and leave the tables alone, how the calls
  advance a run through its abstract stages, and when a resume must succeed.
\<close>

section \<open>The tables a store can reach\<close>

text \<open>
  From empty tables, by starts and resumes whose contracts \<open>from_values\<close> accepts, in any world; other
  parts of the program catalogue artifacts and work on the Matchweek tables in between.
\<close>

inductive reachable_runs :: "hasher \<Rightarrow> run_db \<Rightarrow> bool" for H where
  reachable_empty: "reachable_runs H empty_db"
| reachable_artifact: "reachable_runs H db \<Longrightarrow> reachable_runs H (catalogue d db)"
| reachable_matchweek: "reachable_runs H db \<Longrightarrow> reachable_runs H (db\<lparr>db_matchweek := st\<rparr>)"
| reachable_start:
    "reachable_runs H (w_db w) \<Longrightarrow> sane_env H env \<Longrightarrow> contract_from_values H values as ps = Inr inputs \<Longrightarrow>
     reachable_runs H (w_db (snd (start_runM env matchweek inputs estimate observation executor progress w)))"
| reachable_resume:
    "reachable_runs H (w_db w) \<Longrightarrow> sane_env H env \<Longrightarrow> contract_from_values H values as ps = Inr inputs \<Longrightarrow>
     reachable_runs H (w_db (snd (resume_runM env rid inputs estimate observation executor progress w)))"

inductive_simps reachable_runs_iff: "reachable_runs H db"

text \<open>A property that every call keeps holds of every reachable table.\<close>

lemma call_keeps_db_inv:
  assumes "db_inv H (w_db w)" "sane_env H env" "contract_from_values H values as ps = Inr inputs"
  shows "db_inv H (w_db (snd (start_runM env matchweek inputs est obs ex pr w)))"
    "db_inv H (w_db (snd (resume_runM env rid inputs est obs ex pr w)))"
proof -
  have v: "valid_contract H inputs" using assms(3) by (auto simp: valid_contract_def)
  have "hoareM (db_inv H) (start_runM env matchweek inputs est obs ex pr) (\<lambda>_. db_inv H) (db_inv H)"
    by (rule hoare_conseq [OF hoare_start [OF assms(2) v]]) (simp_all add: reported_def completed_def)
  then show "db_inv H (w_db (snd (start_runM env matchweek inputs est obs ex pr w)))"
    using assms(1) by (rule hoareD)
  have "hoareM (db_inv H) (resume_runM env rid inputs est obs ex pr) (\<lambda>_. db_inv H) (db_inv H)"
    by (rule hoare_conseq [OF hoare_resume [OF assms(2) v]]) (simp_all add: reported_def completed_def)
  then show "db_inv H (w_db (snd (resume_runM env rid inputs est obs ex pr w)))"
    using assms(1) by (rule hoareD)
qed

lemma reachable_inv: "reachable_runs H db \<Longrightarrow> db_inv H db"
  by (induction rule: reachable_runs.induct) (simp_all add: db_inv_empty db_inv_catalogue db_inv_matchweek call_keeps_db_inv)

section \<open>One open run per contract\<close>

definition one_open :: "run_db \<Rightarrow> bool" where
  "one_open db \<longleftrightarrow>
     (\<forall>r \<in> set (db_runs db). \<forall>s \<in> set (db_runs db).
        rr_state r = RUN_INCOMPLETE \<and> rr_state s = RUN_INCOMPLETE \<and> rr_matchweek r = rr_matchweek s \<and>
        rr_input_digest r = rr_input_digest s \<longrightarrow> rr_run_id r = rr_run_id s)"

lemma one_openD:
  "one_open db \<Longrightarrow> r \<in> set (db_runs db) \<Longrightarrow> s \<in> set (db_runs db) \<Longrightarrow> rr_state r = RUN_INCOMPLETE \<Longrightarrow>
   rr_state s = RUN_INCOMPLETE \<Longrightarrow> rr_matchweek r = rr_matchweek s \<Longrightarrow> rr_input_digest r = rr_input_digest s \<Longrightarrow>
   rr_run_id r = rr_run_id s"
  unfolding one_open_def by blast

lemma one_open_map:
  assumes "one_open db" "db_runs db' = map g (db_runs db)"
    and "\<And>r. rr_run_id (g r) = rr_run_id r \<and> rr_matchweek (g r) = rr_matchweek r \<and>
       rr_input_digest (g r) = rr_input_digest r \<and> (rr_state (g r) = RUN_INCOMPLETE \<longrightarrow> rr_state r = RUN_INCOMPLETE)"
  shows "one_open db'"
  unfolding one_open_def
proof (intro ballI impI)
  fix r s assume "r \<in> set (db_runs db')" "s \<in> set (db_runs db')"
  then obtain r0 s0 where o: "r0 \<in> set (db_runs db)" "r = g r0" "s0 \<in> set (db_runs db)" "s = g s0"
    unfolding assms(2) by auto
  assume "rr_state r = RUN_INCOMPLETE \<and> rr_state s = RUN_INCOMPLETE \<and> rr_matchweek r = rr_matchweek s \<and>
    rr_input_digest r = rr_input_digest s"
  then have "rr_run_id r0 = rr_run_id s0"
    using assms(3) [of r0] assms(3) [of s0] o(2,4) by (intro one_openD [OF assms(1) o(1,3)]) simp_all
  then show "rr_run_id r = rr_run_id s" using assms(3) [of r0] assms(3) [of s0] o(2,4) by simp
qed

lemma one_open_rows: "db_runs db' = db_runs db \<Longrightarrow> one_open db \<Longrightarrow> one_open db'"
  by (simp only: one_open_def)

lemma one_open_update:
  assumes "one_open db" "\<And>r. rr_run_id (f r) = rr_run_id r \<and> rr_matchweek (f r) = rr_matchweek r \<and>
     rr_input_digest (f r) = rr_input_digest r"
  shows "one_open (update_run rid f db)"
proof (rule one_open_map [OF assms(1)])
  let ?g = "\<lambda>r. if rr_run_id r = rid \<and> rr_state r = RUN_INCOMPLETE then f r else r"
  show "db_runs (update_run rid f db) = map ?g (db_runs db)" by (simp add: update_run_def update_where_def)
  show "rr_run_id (?g r) = rr_run_id r \<and> rr_matchweek (?g r) = rr_matchweek r \<and>
      rr_input_digest (?g r) = rr_input_digest r \<and> (rr_state (?g r) = RUN_INCOMPLETE \<longrightarrow> rr_state r = RUN_INCOMPLETE)" for r
    using assms(2) by auto
qed

text \<open>Every transaction but the creation keeps what identifies a run; none reopens one.\<close>

lemma one_open_interrupt:
  assumes "one_open db" "interrupt_all now running db = Inr db'"
  shows "one_open db'"
proof -
  obtain db1 l where f: "foldR (interrupt_attempt now) (db, []) running = Inr (db1, l)"
    and db': "db' = fold (\<lambda>rid. update_run rid (abandoned_run now l rid)) (sorted_set (map fst l)) db1"
    using assms(2) by (auto simp: interrupt_all_def)
  have "db_runs d1 = db_runs d0" if "foldR (interrupt_attempt now) (d0, l0) xs = Inr (d1, l1)" for d0 d1 l0 l1 xs
    using that
  proof (induction xs arbitrary: d0 l0)
    case (Cons x xs)
    then obtain d2 l2 where i: "interrupt_attempt now (d0, l0) x = Inr (d2, l2)"
      "foldR (interrupt_attempt now) (d2, l2) xs = Inr (d1, l1)"
      by auto
    have "db_runs d2 = db_runs d0" using i(1) by (auto simp: interrupt_attempt_def)
    then show ?case using Cons.IH [OF i(2)] by simp
  qed simp
  from one_open_rows [OF this [OF f] assms(1)]
  show ?thesis
    unfolding db' by (rule fold_invariant [where Q = "\<lambda>_. True", rotated])
      (simp_all add: one_open_update abandoned_run_def)
qed

lemma one_open_start_attempt:
  "one_open db \<Longrightarrow> start_attempt rid key p d owner t db = Inr (n, db') \<Longrightarrow> one_open db'"
  unfolding start_attempt_def Let_def
  by (auto split: option.splits intro!: one_open_update) (erule one_open_rows [rotated], simp)

lemma one_open_checkpoint:
  "one_open db \<Longrightarrow> checkpoint rid key p n d out as t e db = Inr db' \<Longrightarrow> one_open db'"
  unfolding checkpoint_def Let_def
  by (auto simp: checkpointed_run_def intro!: one_open_update) (erule one_open_rows [rotated], simp)

lemma one_open_finish:
  "one_open db \<Longrightarrow> finish_attempt rid key n s t e err db = Inr db' \<Longrightarrow> one_open db'"
  unfolding finish_attempt_def
  by (auto split: option.splits intro!: one_open_update) (erule one_open_rows [rotated], simp)

lemma one_open_complete: "one_open db \<Longrightarrow> complete_run rid out now db = Inr db' \<Longrightarrow> one_open db'"
  unfolding complete_run_def by (auto intro!: one_open_update) (erule one_open_rows [rotated], simp)

lemma one_open_error: "one_open db \<Longrightarrow> record_error rid err now reuse db = Inr db' \<Longrightarrow> one_open db'"
  unfolding record_error_def by (auto intro!: one_open_update)

lemma one_open_resumed: "one_open db \<Longrightarrow> mark_resumed rid j cpu ws owner now db = Inr db' \<Longrightarrow> one_open db'"
  unfolding mark_resumed_def by (auto intro!: one_open_update)

interpretation one_open: session_invariant one_open
proof
  show "one_open db \<Longrightarrow> one_open (catalogue d db)" for d db
    by (erule one_open_rows [rotated]) (simp add: catalogue_def)
  show "one_open db \<Longrightarrow> one_open (db\<lparr>db_matchweek := st\<rparr>)" for db st
    by (erule one_open_rows [rotated]) simp
qed (erule (1) one_open_start_attempt one_open_checkpoint one_open_finish one_open_interrupt one_open_error
    one_open_resumed one_open_complete)+

lemma compatible_None:
  assumes "compatible_incomplete db m g = None" "r \<in> set (db_runs db)"
  shows "\<not> (rr_matchweek r = m \<and> rr_input_digest r = g \<and> rr_state r = RUN_INCOMPLETE)"
proof -
  let ?rs = "filter (\<lambda>r. rr_matchweek r = m \<and> rr_input_digest r = g \<and> rr_state r = RUN_INCOMPLETE) (db_runs db)"
  have "set (rev (sort_key (\<lambda>r. (rr_started_at r, rr_run_id r)) ?rs)) = {}"
    using assms(1) by (cases "rev (sort_key (\<lambda>r. (rr_started_at r, rr_run_id r)) ?rs)") (auto simp: compatible_incomplete_def)
  then show ?thesis using assms(2) by auto
qed

lemma one_open_create:
  assumes "one_open db" "compatible_incomplete db m (aggregate_digest H c) = None"
    "create_run H rid m c j cpu ws now owner db = Inr db'"
  shows "one_open db'"
proof -
  let ?row = "new_run_row H rid m c j cpu ws now owner"
  have runs: "db_runs db' = db_runs db @ [?row]" using assms(3) by (auto simp: create_run_def Let_def)
  have row: "rr_matchweek ?row = m" "rr_input_digest ?row = aggregate_digest H c" by (simp_all add: new_run_row_def)
  show ?thesis
    unfolding one_open_def runs set_append
  proof (intro ballI impI)
    fix r s assume "r \<in> set (db_runs db) \<union> set [?row]" "s \<in> set (db_runs db) \<union> set [?row]"
      "rr_state r = RUN_INCOMPLETE \<and> rr_state s = RUN_INCOMPLETE \<and> rr_matchweek r = rr_matchweek s \<and>
       rr_input_digest r = rr_input_digest s"
    then show "rr_run_id r = rr_run_id s"
      using one_openD [OF assms(1), of r s] compatible_None [OF assms(2), of r]
        compatible_None [OF assms(2), of s] row
      by (cases "r = ?row"; cases "s = ?row") auto
  qed
qed

lemma one_open_start: "preserves one_open (start_runM env m inputs est obs ex pr)"
proof -
  let ?g = "aggregate_digest (env_hasher env) inputs"
  have created: "hoareM (\<lambda>db. one_open db \<and> compatible_incomplete db m ?g = None)
      (writeM env (create_run (env_hasher env) rid m inputs j cpu ws now owner)) (\<lambda>_. one_open) one_open"
    for rid j cpu ws now owner
    by (rule hoare_write) (use one_open_create in blast)+
  let ?f = "\<lambda>j cpu ws now owner compatible. case compatible of
         Some r \<Rightarrow> raise_lifecycle (resume_required_error r) (rr_run_id r)
       | None \<Rightarrow>
       bindM (askM (env_uuid env)) (\<lambda>rid.
       bindM (writeM env (create_run (env_hasher env) rid m inputs j cpu ws now owner)) (\<lambda>_.
       bindM (reportM env pr rid) (\<lambda>_. executeM env ex pr rid inputs cpu)))"
  have rest: "preserves one_open (bindM (readM (\<lambda>db. compatible_incomplete db m ?g)) (?f j cpu ws now owner))"
    for j cpu ws now owner
    unfolding preserves_def
  proof (intro allI impI, rule hoareD, rule hoare_bind_read, rule hoare_option)
    fix compatible :: "run_row option" assume none: "compatible = None"
    show "hoareM (\<lambda>db. one_open db \<and> compatible = compatible_incomplete db m ?g)
      (bindM (askM (env_uuid env)) (\<lambda>rid.
       bindM (writeM env (create_run (env_hasher env) rid m inputs j cpu ws now owner)) (\<lambda>_.
       bindM (reportM env pr rid) (\<lambda>_. executeM env ex pr rid inputs cpu)))) (\<lambda>_. one_open) one_open"
      by (rule hoare_pre [where P' = "\<lambda>db. one_open db \<and> compatible_incomplete db m ?g = None"],
          rule hoare_bind_passive [OF preserves_askM], rule hoare_bind [OF created],
          rule hoare_preserves, intro preserving one_open.execute_keeps) (simp_all add: none)
  qed (auto simp: raise_lifecycle_def intro: hoare_throw)
  show ?thesis
    unfolding start_runM_def Let_def
    by (intro preserving one_open.verify_inputs_keep one_open.interrupt_keeps rest)
      (simp_all add: raise_lifecycle_def preserving)
qed

lemma reachable_one_open: "reachable_runs H db \<Longrightarrow> one_open db"
proof (induction rule: reachable_runs.induct)
  case (reachable_start w env "values" as ps inputs m est obs ex pr)
  then show ?case using one_open_start [of env m inputs est obs ex pr] by (simp add: preserves_def)
next
  case (reachable_resume w env "values" as ps inputs rid est obs ex pr)
  then show ?case using one_open.resume_keeps [of env rid inputs est obs ex pr] by (simp add: preserves_def)
next
  case (reachable_artifact db d)
  show ?case by (rule one_open.catalogue_keeps) fact
next
  case (reachable_matchweek db st)
  show ?case by (rule one_open.matchweek_keeps) (fact, simp)
qed (simp add: one_open_def empty_db_def)

section \<open>Consistency of the tables\<close>

text \<open>A sample: a start that is killed leaves an incomplete run behind.\<close>

definition run_hasher :: hasher where
  "run_hasher =
     \<lparr>sha256_hex = (\<lambda>s. replicate 64 (if s = ''later'' then CHR ''1'' else CHR ''0'')), uuid5_url = id\<rparr>"

definition sample_clock :: dt where
  "sample_clock =
     \<lparr>dt_year = 2024, dt_month = 8, dt_day = 16, dt_hour = 12, dt_minute = 0, dt_second = 0,
      dt_micro = 0, dt_off = Some 0\<rparr>"

definition sample_run_id :: string where
  "sample_run_id = ''00000000-0000-4000-8000-000000000000''"

definition sample_env :: run_env where
  "sample_env =
     \<lparr>env_hasher = run_hasher, env_budget = settled_budget, env_pid = 7, env_store_path = ''store'',
      env_guard = (\<lambda>_. None), env_transaction = (\<lambda>_. Commits), env_clock = (\<lambda>_. sample_clock),
      env_wall = (\<lambda>_. sample_clock), env_token = (\<lambda>_ _. ''7:1''), env_uuid = (\<lambda>_. sample_run_id),
      env_file = (\<lambda>_ _. None), env_discard = (\<lambda>_. None), env_publish = (\<lambda>_. Commits)\<rparr>"

definition roomy_observation :: resource_observation where
  "roomy_observation =
     \<lparr>managed_storage_bytes = 0, free_space_bytes = 8 * gib, available_memory_bytes = 4 * gib,
      available_cpus = 4, memory_pressure = False, thermal_pressure = False, active_coordinators = 0\<rparr>"

abbreviation sample_inputs :: run_contract where
  "sample_inputs \<equiv> contract_of run_hasher sample_values [] []"

text \<open>The process is killed when its first transaction, the creation of the run, has committed.\<close>

definition killed_env :: run_env where
  "killed_env = sample_env\<lparr>env_transaction := (\<lambda>_. CommitsThenFails (OsFailure ''killed''))\<rparr>"

definition sample_world :: world where
  "sample_world = snd (start_runM killed_env ''2024-W33'' sample_inputs default_resource_estimate
     roomy_observation None None \<lparr>w_db = empty_db, w_tick = 0\<rparr>)"

lemma sample_valid: "valid_dt sample_clock"
  by (simp add: sample_clock_def) code_simp

lemma sample_sane: "sane_env run_hasher sample_env" "sane_env run_hasher killed_env"
  by (simp_all add: sane_env_def killed_env_def sample_env_def sample_valid)

lemma sample_inputs_ok: "contract_from_values run_hasher sample_values [] [] = Inr sample_inputs"
  by (rule contract_from_values_ok) (simp_all add: sample_values_def image_image)

lemma sample_shapes: "sha_shaped (sha256_hex run_hasher s)" "sha_shaped (digest run_hasher v)"
proof -
  have "is_hex CHR ''0''" "is_hex CHR ''1''" by code_simp+
  then show "sha_shaped (sha256_hex run_hasher s)" "sha_shaped (digest run_hasher v)"
    by (simp_all add: run_hasher_def digest_def sha_shaped_def list_all_iff)
qed

lemma sample_admitted:
  "within_budget default_resource_estimate roomy_observation settled_budget"
  "estimate_init default_resource_estimate = Inr default_resource_estimate"
  by (simp_all add: within_budget_def default_resource_estimate_def roomy_observation_def
      settled_budget_def mib_def gib_def estimate_init_def)

abbreviation sample_preflight :: preflight_result where
  "sample_preflight \<equiv> preflight_resources default_resource_estimate roomy_observation settled_budget"

lemma sample_stamp: "utc_stamp sample_clock = Inr (utc_text True sample_clock)"
  by (simp add: utc_stamp_def astimezone_utc_def sample_clock_def)

lemma sample_created:
  "create_run run_hasher sample_run_id ''2024-W33'' sample_inputs
     (resource_json default_resource_estimate roomy_observation sample_preflight) (pf_concurrency sample_preflight)
     (pf_warnings sample_preflight) (utc_text True sample_clock) ''7:1'' empty_db = Inr (w_db sample_world)"
proof -
  let ?p = sample_preflight
  obtain j where j: "resource_json default_resource_estimate roomy_observation ?p = PDict j"
    by (simp add: resource_json_def Let_def)
  have ok: "pf_accepted ?p" using sample_admitted(1) by (simp add: preflight_accepted_iff)
  note cpu = admitted_cpu [OF sample_admitted]
  note stamp = sample_stamp
  let ?now = "utc_text True sample_clock"
  let ?c = "create_run run_hasher sample_run_id ''2024-W33'' sample_inputs (PDict j) (pf_concurrency ?p) (pf_warnings ?p) ?now ''7:1''"
  have "uuid_shaped sample_run_id" by code_simp
  moreover have "list_all (\<lambda>(_, d). sha_shaped d) (rc_digests sample_inputs)"
    by (auto simp: contract_of_def Let_def list_all_iff sample_shapes)
  moreover have "list_all (\<lambda>u. sha_shaped (u_input_digest u)) (new_unit_rows run_hasher sample_run_id ''2024-W33'' sample_inputs)"
    by (auto simp: new_unit_rows_def new_unit_row_def list_all_iff sample_shapes)
  moreover have "sha_shaped (aggregate_digest run_hasher sample_inputs)" by (simp add: aggregate_digest_def sample_shapes)
  ultimately obtain db where db: "?c empty_db = Inr db"
    using cpu by (simp add: create_run_def Let_def empty_db_def new_run_row_def)
  have none: "compatible_incomplete empty_db m g = None" "running_attempts empty_db = []" for m g
    by (simp_all add: compatible_incomplete_def empty_db_def running_attempts_def)
  have "w_db sample_world = db"
    unfolding sample_world_def start_runM_def
    using ok j stamp db none
    by (simp add: killed_env_def sample_env_def bindM_def checkM_def askM_def ret_def readM_def liftM_def
        verify_input_artifactsM_def catchM_def stampM_def clockM_def own_tokenM_def interrupt_abandonedM_def
        contract_of_def Let_def writeM_def transactM_def)
  then show ?thesis using db j by simp
qed

lemma sample_reachable: "reachable_runs run_hasher (w_db sample_world)"
  unfolding sample_world_def
  by (rule reachable_start [OF _ sample_sane(2) sample_inputs_ok]) (simp add: reachable_empty)

lemma sample_contract_valid: "valid_contract run_hasher sample_inputs"
  using sample_inputs_ok by (auto simp: valid_contract_def)

lemma sample_at_phase:
  "at_phase run_hasher sample_run_id ''2024-W33'' sample_inputs 0 (first_digest sample_inputs) (w_db sample_world)"
  by (rule create_run_effect [OF db_inv_empty _ sample_contract_valid sample_created])
    (simp add: empty_db_def running_attempts_def)

text \<open>C1: in every reachable store each run has an input contract under whose digest it is filed; its
  checkpoints are those of its first phases, in order, each executed under the digest of its key, the
  contract and the output before it; and the run is complete just when one completion is published
  for it, which then is the digest of all seven checkpoint outputs.\<close>

theorem run_tables_consistent:
  assumes "reachable_runs H db" "r \<in> set (db_runs db)"
  shows "\<exists>c. contract_from_stored H (rr_contract r) = Inr c \<and> rr_input_digest r = aggregate_digest H c \<and>
    chained H (rr_matchweek r) (aggregate_digest H c) (value_of (rc_digests c) ''predecessors'')
      (checkpoints_of db (rr_run_id r)) \<and>
    (rr_state r = RUN_COMPLETE \<longleftrightarrow> (\<exists>k \<in> set (db_completions db). k_run_id k = rr_run_id r)) \<and>
    (\<forall>k \<in> set (db_completions db). k_run_id k = rr_run_id r \<longrightarrow>
       map c_phase (checkpoints_of db (rr_run_id r)) = run_phases \<and>
       k_digest k = digest H (completion_payload c H (rr_run_id r) (checkpoints_of db (rr_run_id r))))"
proof -
  let ?cs = "checkpoints_of db (rr_run_id r)"
  have "run_ok H db r" using reachable_inv [OF assms(1)] assms(2) by (simp add: db_inv_def)
  then obtain c where c: "valid_contract H c" "rr_contract r = Some (contract_json c)"
    "rr_input_digest r = aggregate_digest H c"
    "chained H (rr_matchweek r) (rr_input_digest r) (first_digest c) ?cs"
    "rr_state r = RUN_COMPLETE \<longleftrightarrow> rr_run_id r \<in> k_run_id ` set (db_completions db)"
    "\<forall>k \<in> set (db_completions db). k_run_id k = rr_run_id r \<longrightarrow> length ?cs = 7 \<and>
       k_digest k = digest H (completion_payload c H (rr_run_id r) ?cs)"
    unfolding run_ok_def by blast
  have "contract_from_stored H (rr_contract r) = Inr c"
    using c(1,2) contract_stored_same by (auto simp: valid_contract_def)
  moreover have "length ?cs = 7 \<Longrightarrow> map c_phase ?cs = run_phases"
    by (rule nth_equalityI) (use c(4) in \<open>simp_all add: chained_def\<close>)
  moreover have "rr_state r = RUN_COMPLETE \<longleftrightarrow> (\<exists>k \<in> set (db_completions db). k_run_id k = rr_run_id r)"
    using c(5) by force
  ultimately show ?thesis
    using c(3,4,6) by (intro exI [of _ c]) (simp add: first_digest_def)
qed

theorem run_tables_consistent_witness:
  "\<exists>r \<in> set (db_runs (w_db sample_world)). \<exists>c. contract_from_stored run_hasher (rr_contract r) = Inr c \<and>
     rr_input_digest r = aggregate_digest run_hasher c"
proof -
  obtain r where "r \<in> set (db_runs (w_db sample_world))"
    using sample_at_phase by (auto simp: at_phase_def open_run_def)
  then show ?thesis using run_tables_consistent [OF sample_reachable] by blast
qed

text \<open>C21: a store never holds two unfinished runs of one Matchweek under the same input digest: what a
  start would duplicate it refuses, and no other operation reopens a run.\<close>

theorem one_open_run_per_contract:
  assumes "reachable_runs H db" "r \<in> set (db_runs db)" "s \<in> set (db_runs db)"
    and "rr_state r = RUN_INCOMPLETE" "rr_state s = RUN_INCOMPLETE"
    and "rr_matchweek r = rr_matchweek s" "rr_input_digest r = rr_input_digest s"
  shows "r = s"
proof -
  have "rr_run_id r = rr_run_id s"
    using one_openD [OF reachable_one_open [OF assms(1)] assms(2-7)] .
  moreover have "distinct (map rr_run_id (db_runs db))" using reachable_inv [OF assms(1)] by (simp add: db_inv_def)
  ultimately show ?thesis using assms(2,3) by (auto simp: distinct_map inj_on_def)
qed

lemma sample_row:
  obtains r where "r \<in> set (db_runs (w_db sample_world))" "rr_run_id r = sample_run_id"
    "rr_state r = RUN_INCOMPLETE" "rr_contract r = Some (contract_json sample_inputs)"
  using sample_at_phase by (auto simp: at_phase_def open_run_def)

theorem one_open_run_per_contract_witness:
  "\<exists>r \<in> set (db_runs (w_db sample_world)). \<forall>s \<in> set (db_runs (w_db sample_world)).
     rr_state s = RUN_INCOMPLETE \<and> rr_matchweek r = rr_matchweek s \<and> rr_input_digest r = rr_input_digest s \<longrightarrow> r = s"
proof (rule sample_row)
  fix r assume r: "r \<in> set (db_runs (w_db sample_world))" "rr_state r = RUN_INCOMPLETE"
  then show ?thesis using one_open_run_per_contract [OF sample_reachable r(1)] by blast
qed

text \<open>C20: work that was completed is never attempted again: among the attempts of a work unit, no later
  one exists beside a completed one, and the unit stays complete, with the checkpoint of its phase.\<close>

theorem completed_work_not_repeated:
  assumes "reachable_runs H db" "a \<in> set (db_attempts db)" "a_status a = ATTEMPT_COMPLETED"
  shows "(\<forall>b \<in> set (db_attempts db). a_run_id b = a_run_id a \<and> a_key b = a_key a \<longrightarrow>
       a_attempt b \<le> a_attempt a) \<and>
    (\<exists>u \<in> set (db_units db). u_run_id u = a_run_id a \<and> u_key u = a_key a \<and> u_state u = UNIT_COMPLETE) \<and>
    (\<exists>c \<in> set (db_checkpoints db). c_run_id c = a_run_id a \<and> c_key c = a_key a)"
proof -
  have inv: "db_inv H db" using assms(1) by (rule reachable_inv)
  have ok: "attempt_ok db b" if "b \<in> set (db_attempts db)" for b using inv that by (simp add: db_inv_def)
  obtain u where u: "u \<in> set (db_units db)" "u_run_id u = a_run_id a" "u_key u = a_key a"
    "u_state u = UNIT_COMPLETE" "a_attempt a = u_attempts u"
    using ok [OF assms(2)] assms(3) unfolding attempt_ok_def by auto
  obtain r where r: "r \<in> set (db_runs db)" "rr_run_id r = a_run_id a" "units_ok db r"
    using run_of_unit [OF inv u(1)] u(2) inv by (metis db_inv_def)
  have "a_attempt b \<le> a_attempt a" if b: "b \<in> set (db_attempts db)" "a_run_id b = a_run_id a" "a_key b = a_key a" for b
  proof -
    obtain v where v: "v \<in> set (db_units db)" "u_run_id v = a_run_id b" "u_key v = a_key b" "a_attempt b \<le> u_attempts v"
      using ok [OF b(1)] unfolding attempt_ok_def by auto
    have "v = u" using unit_unique [OF r(3) v(1) u(1)] v(2,3) u(2,3) b(2,3) r(2) by simp
    then show ?thesis using v(4) u(5) by simp
  qed
  moreover have "\<exists>c \<in> set (db_checkpoints db). c_run_id c = a_run_id a \<and> c_key c = a_key a"
  proof -
    let ?cs = "checkpoints_of db (a_run_id a)"
    have i: "u_order u < length ?cs"
      using r u(1,2,4) unfolding units_ok_def by (auto simp: units_of_def)
    have "run_ok H db r" using inv r(1) by (simp add: db_inv_def)
    then obtain f where "chained H (rr_matchweek r) (rr_input_digest r) f ?cs" unfolding run_ok_def r(2) by blast
    then have "c_key (?cs ! u_order u) = a_key a"
      using i unit_nameD(3) [OF r(3) u(1)] u(2,3) r(2) by (simp add: chained_def)
    moreover have "?cs ! u_order u \<in> set (db_checkpoints db)" "c_run_id (?cs ! u_order u) = a_run_id a"
      using nth_mem [OF i] by (auto simp: checkpoints_of_def)
    ultimately show ?thesis by blast
  qed
  ultimately show ?thesis using u(1-4) by blast
qed

text \<open>A start that is killed once its first checkpoint is written, at tick 13.\<close>

definition dying_env :: run_env where
  "dying_env = sample_env\<lparr>env_transaction := (\<lambda>t. if t < 14 then Commits else Fails (OsFailure ''killed''))\<rparr>"

definition checkpointed_world :: world where
  "checkpointed_world = snd (start_runM dying_env ''2024-W33'' sample_inputs default_resource_estimate
     roomy_observation None None \<lparr>w_db = empty_db, w_tick = 0\<rparr>)"

lemma dying_start:
  "start_runM dying_env ''2024-W33'' sample_inputs default_resource_estimate roomy_observation None None
     \<lparr>w_db = empty_db, w_tick = 0\<rparr> =
   executeM dying_env None None sample_run_id sample_inputs (pf_concurrency sample_preflight)
     \<lparr>w_db = w_db sample_world, w_tick = 7\<rparr>"
proof -
  have ok: "pf_accepted sample_preflight" using sample_admitted(1) by (simp add: preflight_accepted_iff)
  have none: "compatible_incomplete empty_db m g = None" "running_attempts empty_db = []" for m g
    by (simp_all add: compatible_incomplete_def empty_db_def running_attempts_def)
  have seven: "7 = Suc (Suc (Suc (Suc (Suc (Suc (Suc 0))))))" by simp
  show ?thesis
    unfolding start_runM_def seven using ok none sample_stamp sample_created
    by (simp add: dying_env_def sample_env_def bindM_def checkM_def askM_def ret_def readM_def liftM_def
        verify_input_artifactsM_def catchM_def stampM_def clockM_def own_tokenM_def interrupt_abandonedM_def
        contract_of_def Let_def writeM_def transactM_def reportM_def)
qed

definition first_input :: string where
  "first_input = work_input_digest run_hasher (aggregate_digest run_hasher sample_inputs)
     (phase_key ''2024-W33'' 0) (first_digest sample_inputs)"

definition first_result :: work_result where
  "first_result =
     \<lparr>wr_result_digest = sha256_hex run_hasher ''matchvet-t04-boundary:preflight'', wr_artifact_digests = []\<rparr>"

lemma first_result_ok:
  "work_result_init first_result = Inr first_result" "wr_artifact_digests first_result = []"
  "work_result_for_phase run_hasher PREFLIGHT [] = Inr first_result"
  by (simp_all add: work_result_for_phase_def work_result_init_def require_digest_def require_digest_list_def
      sample_shapes first_result_def)

lemma checkpointed_rows:
  obtains n db1 where
    "in_attempt run_hasher sample_run_id ''2024-W33'' sample_inputs 0 (first_digest sample_inputs) n db1"
    "checkpoint sample_run_id (phase_key ''2024-W33'' 0) (run_phases ! 0) n first_input
      (work_output_digest run_hasher first_result) [] (utc_text True sample_clock) 0 db1 = Inr (w_db checkpointed_world)"
    "execute_phaseM dying_env (boundary_executor run_hasher) sample_run_id ''2024-W33''
      (aggregate_digest run_hasher sample_inputs) (pf_concurrency sample_preflight) sample_clock
      (phase_key ''2024-W33'' 0) PREFLIGHT (value_of (rc_digests sample_inputs) ''predecessors'')
      \<lparr>w_db = w_db sample_world, w_tick = 8\<rparr> =
      (Inr (work_output_digest run_hasher first_result), \<lparr>w_db = w_db checkpointed_world, w_tick = 14\<rparr>)"
proof -
  let ?m = "''2024-W33''" and ?key = "phase_key ''2024-W33'' 0" and ?now = "utc_text True sample_clock"
    and ?out = "work_output_digest run_hasher first_result"
  note at = sample_at_phase
  have p0: "run_phases ! 0 = PREFLIGHT" by (simp add: run_phases_def)
  have sh: "sha_shaped first_input" "sha_shaped ?out"
    by (simp_all add: first_input_def work_input_digest_def work_output_digest_def sample_shapes)
  obtain n db1 where s: "start_attempt sample_run_id ?key PREFLIGHT first_input ''7:1'' ?now (w_db sample_world) = Inr (n, db1)"
    using start_attempt_succeeds [OF at _ sh(1)] by force
  have in1: "in_attempt run_hasher sample_run_id ?m sample_inputs 0 (first_digest sample_inputs) n db1"
    using start_attempt_effect [OF at _ s sample_valid] by (simp add: sample_clock_def)
  obtain db2 where c: "checkpoint sample_run_id ?key PREFLIGHT n first_input ?out [] ?now 0 db1 = Inr db2"
    using checkpoint_succeeds [OF in1 _ sh, of 0 "[]" ?now] by (force simp: p0)
  obtain r where r: "r \<in> set (db_runs (w_db sample_world))" "rr_run_id r = sample_run_id" "rr_matchweek r = ?m"
    using at by (auto simp: at_phase_def open_run_def)
  have inv: "db_inv run_hasher (w_db sample_world)" using at by (simp add: at_phase_def)
  have found: "find_run (w_db sample_world) sample_run_id = Some r" using find_run_iff [OF inv] r by blast
  have none: "run_checkpoints (w_db sample_world) sample_run_id = []"
    using run_checkpoints_eq [OF inv r(1,2)] at by (simp add: at_phase_def)
  have hard: "hard_duration_seconds settled_budget = 14400" by (simp add: settled_budget_def)
  have zero: "seconds_between sample_clock sample_clock = Inr 0" by (simp add: seconds_between_def)
  have key: "work_key 0 PREFLIGHT ?m = ?key" by (simp add: phase_key_def p0)
  have res: "boundary_executor run_hasher t ctx q st = (Work_done first_result, [], st)" if "wc_phase ctx = PREFLIGHT" for t ctx q st
    by (simp add: boundary_executor_def that first_result_ok)
  note w = first_input_def [symmetric, unfolded first_digest_def]
  have env: "env_hasher dying_env = run_hasher" "env_budget dying_env = settled_budget"
    "\<And>t. env_clock dying_env t = sample_clock" "\<And>t p. env_token dying_env t p = ''7:1''"
    "\<And>t. env_transaction dying_env t = (if t < 14 then Commits else Fails (OsFailure ''killed''))"
    by (simp_all add: dying_env_def sample_env_def)
  have one: "execute_phaseM dying_env (boundary_executor run_hasher) sample_run_id ?m (aggregate_digest run_hasher sample_inputs)
      cpu sample_clock ?key PREFLIGHT (value_of (rc_digests sample_inputs) ''predecessors'') \<lparr>w_db = w_db sample_world, w_tick = 8\<rparr> =
      (Inr ?out, \<lparr>w_db = db2, w_tick = 14\<rparr>)" for cpu
    by (simp add: execute_phaseM_def bindM_def clockM_def askM_def own_tokenM_def liftM_def env sample_stamp w transactM_def s Let_def
        run_workM_def workM_def valid_outcome_def zero hard ret_def res after_workM_def save_workM_def catchM_def first_result_ok writeM_def c)
  have two: "execute_phaseM dying_env x sample_run_id ?m g cpu sample_clock k p q \<lparr>w_db = db2, w_tick = 14\<rparr> =
      (Inl (OsFailure ''killed''), \<lparr>w_db = db2, w_tick = 17\<rparr>)" for x g cpu k p q
    by (simp add: execute_phaseM_def bindM_def clockM_def askM_def own_tokenM_def liftM_def env sample_stamp transactM_def Let_def)
  obtain ps where ps: "List.enumerate 0 run_phases = (0, PREFLIGHT) # (1, EVIDENCE_ACQUISITION) # ps"
    by (simp add: run_phases_def)
  have "w_db checkpointed_world = db2"
    unfolding checkpointed_world_def dying_start executeM_def ps
    by (simp add: bindM_def clockM_def askM_def readM_def env none found r(3) key one two reportM_def ret_def Let_def)
  then show thesis using that in1 c one by (simp add: p0)
qed

lemma checkpointed_attempt: "\<exists>a \<in> set (db_attempts (w_db checkpointed_world)). a_status a = ATTEMPT_COMPLETED"
proof (rule checkpointed_rows)
  fix n db1 assume c: "in_attempt run_hasher sample_run_id ''2024-W33'' sample_inputs 0 (first_digest sample_inputs) n db1"
    "checkpoint sample_run_id (phase_key ''2024-W33'' 0) (run_phases ! 0) n first_input
      (work_output_digest run_hasher first_result) [] (utc_text True sample_clock) 0 db1 = Inr (w_db checkpointed_world)"
  obtain a0 where "running_attempts db1 = [a0]"
    "db_attempts (w_db checkpointed_world) = update_where (\<lambda>a. a = a0) (completed_attempt (utc_text True sample_clock) 0) (db_attempts db1)"
    by (rule checkpoint_rows [OF c(1) _ c(2)]) simp_all
  moreover from this(1) have "a0 \<in> set (running_attempts db1)" by simp
  then have "a0 \<in> set (db_attempts db1)" by (simp add: running_attempts_def)
  ultimately have "completed_attempt (utc_text True sample_clock) 0 a0 \<in> set (db_attempts (w_db checkpointed_world))"
    by (simp add: set_update_where)
  then show ?thesis by (rule bexI [rotated]) simp
qed

lemma checkpointed_reachable: "reachable_runs run_hasher (w_db checkpointed_world)"
  unfolding checkpointed_world_def
  by (rule reachable_start [OF _ _ sample_inputs_ok])
    (simp_all add: reachable_empty sane_env_def dying_env_def sample_env_def sample_valid)

theorem completed_work_not_repeated_witness:
  "\<exists>a \<in> set (db_attempts (w_db checkpointed_world)).
     \<exists>c \<in> set (db_checkpoints (w_db checkpointed_world)). c_run_id c = a_run_id a \<and> c_key c = a_key a"
proof -
  obtain a where a: "a \<in> set (db_attempts (w_db checkpointed_world))" "a_status a = ATTEMPT_COMPLETED"
    using checkpointed_attempt by blast
  show ?thesis using completed_work_not_repeated [OF checkpointed_reachable a] a(1) by blast
qed

end
