(* ===== verification/Run_Progress.thy ===== *)
theory Run_Progress
  imports Run_Properties "HOL-Library.Transitive_Closure_Table"
begin

text \<open>
  What one call does: the abstract stages it moves a run through, what a call that returns has done,
  the calls that are refused, the time limit, and a resume that must succeed.
\<close>

section \<open>The abstract stages of a run\<close>

text \<open>How many phases are checkpointed, and whether the completion is published.\<close>

inductive stage_step :: "nat \<times> bool \<Rightarrow> nat \<times> bool \<Rightarrow> bool" where
  stage_checkpoint: "n < 7 \<Longrightarrow> stage_step (n, False) (Suc n, False)"
| stage_publish: "stage_step (7, False) (7, True)"

code_pred stage_step .

inductive_cases stage_stepE: "stage_step s t"

definition stage_of :: "run_db \<Rightarrow> string \<Rightarrow> nat \<times> bool" where
  "stage_of db rid = (length (checkpoints_of db rid), rid \<in> k_run_id ` set (db_completions db))"

lemma stage_checkpoints: "n \<le> k \<Longrightarrow> k \<le> 7 \<Longrightarrow> stage_step\<^sup>*\<^sup>* (n, False) (k, False)"
proof (induction k)
  case (Suc k)
  show ?case
  proof (cases "n = Suc k")
    case False
    then have "stage_step\<^sup>*\<^sup>* (n, False) (k, False)" using Suc by simp
    also have "stage_step (k, False) (Suc k, False)" using Suc.prems by (intro stage_checkpoint) simp
    finally show ?thesis .
  qed simp
qed simp

lemma stage_between:
  assumes "n \<le> k" "k \<le> 7" "p \<Longrightarrow> n = 7" "q \<Longrightarrow> k = 7" "p \<longrightarrow> q"
  shows "stage_step\<^sup>*\<^sup>* (n, p) (k, q)"
proof (cases p)
  case True
  then show ?thesis using assms by simp
next
  case False
  have "stage_step\<^sup>*\<^sup>* (n, False) (k, False)" using assms(1,2) by (rule stage_checkpoints)
  moreover have "stage_step\<^sup>*\<^sup>* (k, False) (k, q)" using assms(4) stage_publish by (cases q) auto
  ultimately show ?thesis using False by (simp add: rtranclp_trans)
qed

lemma stage_bound:
  assumes "db_inv H db" "r \<in> set (db_runs db)"
  shows "length (checkpoints_of db (rr_run_id r)) \<le> 7"
    "rr_run_id r \<in> k_run_id ` set (db_completions db) \<Longrightarrow> length (checkpoints_of db (rr_run_id r)) = 7"
proof -
  have "run_ok H db r" using assms by (simp add: db_inv_def)
  then show "length (checkpoints_of db (rr_run_id r)) \<le> 7"
    "rr_run_id r \<in> k_run_id ` set (db_completions db) \<Longrightarrow> length (checkpoints_of db (rr_run_id r)) = 7"
    unfolding run_ok_def chained_def by force+
qed

lemma advances_stages:
  assumes "db_inv H db" "db_inv H db'" "advances db db'" "r \<in> set (db_runs db)"
  shows "stage_step\<^sup>*\<^sup>* (stage_of db (rr_run_id r)) (stage_of db' (rr_run_id r))"
proof -
  obtain cs ks rs where p: "db_checkpoints db' = db_checkpoints db @ cs" "db_completions db' = db_completions db @ ks"
    "map identity_of (db_runs db') = map identity_of (db_runs db) @ rs"
    using assms(3) unfolding advances_def prefix_def by blast
  have "identity_of r \<in> set (map identity_of (db_runs db'))" using assms(4) unfolding p(3) by simp
  then obtain r' where r': "r' \<in> set (db_runs db')" "identity_of r' = identity_of r" by auto
  then have id: "rr_run_id r' = rr_run_id r" by (simp add: identity_of_def)
  show ?thesis
    unfolding stage_of_def
    using stage_bound [OF assms(1,4)] stage_bound [OF assms(2) r'(1)] id
    by (intro stage_between) (auto simp: p checkpoints_of_def)
qed

text \<open>C4: whatever happens during a call, every run moves along the abstract stages only: one more phase
  checkpointed at a time, up to seven, then the completion published, once.\<close>

theorem calls_refine_stages:
  assumes "reachable_runs H (w_db w)" "sane_env H env" "contract_from_values H values as ps = Inr inputs"
    and "r \<in> set (db_runs (w_db w))"
  shows "stage_step\<^sup>*\<^sup>* (stage_of (w_db w) (rr_run_id r))
      (stage_of (w_db (snd (start_runM env matchweek inputs estimate observation executor progress w))) (rr_run_id r)) \<and>
    stage_step\<^sup>*\<^sup>* (stage_of (w_db w) (rr_run_id r))
      (stage_of (w_db (snd (resume_runM env rid inputs estimate observation executor progress w))) (rr_run_id r))"
proof -
  have inv: "db_inv H (w_db w)" using assms(1) by (rule reachable_inv)
  note after = call_keeps_db_inv [OF inv assms(2,3)]
  have "advances (w_db w) (w_db (snd (start_runM env matchweek inputs estimate observation executor progress w)))"
    "advances (w_db w) (w_db (snd (resume_runM env rid inputs estimate observation executor progress w)))"
    using advancing.start_keeps [of "w_db w"] advancing.resume_keeps [of "w_db w"] unfolding preserves_def by simp_all
  then show ?thesis using advances_stages [OF inv after(1)] advances_stages [OF inv after(2)] assms(4) by blast
qed

theorem calls_refine_stages_witness:
  "stage_step\<^sup>*\<^sup>* (stage_of (w_db sample_world) sample_run_id)
     (stage_of (w_db (snd (resume_runM sample_env sample_run_id sample_inputs default_resource_estimate
       roomy_observation None None sample_world))) sample_run_id)"
proof (rule sample_row)
  fix r assume r: "r \<in> set (db_runs (w_db sample_world))" "rr_run_id r = sample_run_id"
  show ?thesis
    using calls_refine_stages [OF sample_reachable sample_sane(1) sample_inputs_ok r(1)] unfolding r(2) by blast
qed

section \<open>Calls that return\<close>

lemma reported_run:
  assumes "reported H rid s db"
  shows "\<exists>r \<in> set (db_runs db). rr_run_id r = rid \<and> rr_state r = RUN_COMPLETE"
    and "rs_run_id s = rid" "rs_state s = RUN_COMPLETE" "stage_of db rid = (7, True)"
    "\<exists>k \<in> set (db_completions db). k_run_id k = rid \<and> rs_publication s = Some (k_digest k)"
proof -
  have inv: "db_inv H db" using assms by (simp add: reported_def completed_def)
  obtain r where r: "r \<in> set (db_runs db)" "rr_run_id r = rid" "rr_state r = RUN_COMPLETE"
    using assms find_run_iff [OF inv] by (auto simp: reported_def completed_def)
  then show "\<exists>r \<in> set (db_runs db). rr_run_id r = rid \<and> rr_state r = RUN_COMPLETE" by blast
  show "rs_run_id s = rid" "rs_state s = RUN_COMPLETE" using assms by (simp_all add: reported_def)
  have "run_ok H db r" using inv r(1) by (simp add: db_inv_def)
  then have finished: "rid \<in> k_run_id ` set (db_completions db)" using r unfolding run_ok_def by blast
  then show "stage_of db rid = (7, True)"
    using stage_bound(2) [OF inv r(1)] r(2) by (simp add: stage_of_def)
  have "find (\<lambda>k. k_run_id k = rid) (db_completions db) \<noteq> None" using finished by (auto simp: find_None_iff)
  then obtain k where "find (\<lambda>k. k_run_id k = rid) (db_completions db) = Some k" by blast
  then show "\<exists>k \<in> set (db_completions db). k_run_id k = rid \<and> rs_publication s = Some (k_digest k)"
    using assms find_Some_props by (fastforce simp: reported_def completion_digest_def)
qed

text \<open>C3: a start or resume that returns has completed its run: the run it reports is complete in the store,
  all seven phases are checkpointed, and the publication it reports is the run's completion.\<close>

theorem returned_call_completed:
  assumes "reachable_runs H (w_db w)" "sane_env H env" "contract_from_values H values as ps = Inr inputs"
    and "start_runM env matchweek inputs estimate observation executor progress w = (Inr s, w') \<or>
      resume_runM env (rs_run_id s) inputs estimate observation executor progress w = (Inr s, w')"
  shows "rs_state s = RUN_COMPLETE \<and> stage_of (w_db w') (rs_run_id s) = (7, True) \<and>
    (\<exists>r \<in> set (db_runs (w_db w')). rr_run_id r = rs_run_id s \<and> rr_state r = RUN_COMPLETE) \<and>
    (\<exists>k \<in> set (db_completions (w_db w')). k_run_id k = rs_run_id s \<and> rs_publication s = Some (k_digest k))"
proof -
  have inv: "db_inv H (w_db w)" using assms(1) by (rule reachable_inv)
  have v: "valid_contract H inputs" using assms(3) by (auto simp: valid_contract_def)
  have "reported H (rs_run_id s) s (w_db w')"
    using assms(4) hoareD_Inr [OF hoare_start [OF assms(2) v] inv] hoareD_Inr [OF hoare_resume [OF assms(2) v] inv]
    by blast
  from reported_run [OF this] show ?thesis by blast
qed

lemma created_rows:
  assumes "create_run H rid m c j cpu ws now owner db = Inr db'"
  shows "db_runs db' = db_runs db @ [new_run_row H rid m c j cpu ws now owner]"
    "db_completions db' = db_completions db" "db_artifacts db' = db_artifacts db"
    "db_checkpoints db' = db_checkpoints db" "db_matchweek db' = db_matchweek db"
  using assms by (auto simp: create_run_def Let_def)

lemma sample_benign: "benign_env run_hasher sample_env"
  using sample_shapes sample_valid
  by (simp add: benign_env_def sample_env_def on_time_def settled_budget_def)
    (simp add: sample_clock_def astimezone_utc_def)

lemma sample_conditions:
  "db_completions (w_db sample_world) = []" "well_stored {} (w_db sample_world)"
  "checkpoints_of (w_db sample_world) sample_run_id = []" "abandoned sample_env (w_db sample_world)"
  "dutiful UNIV {} (case None of None \<Rightarrow> boundary_executor run_hasher | Some x \<Rightarrow> x)"
  "env_budget sample_env = settled_budget" "set (rc_artifact_digests sample_inputs) \<subseteq> {}" "quiet None"
  using created_rows [OF sample_created] sample_at_phase dutiful_boundary [of run_hasher UNIV "{}"] sample_shapes(1)
  by (simp_all add: empty_db_def well_stored_def new_run_row_def resource_json_def Let_def at_phase_def abandoned_def
      sample_env_def contract_of_def quiet_def)

lemma sample_returns:
  obtains s w' where "rs_run_id s = sample_run_id"
    "resume_runM sample_env (rs_run_id s) sample_inputs default_resource_estimate roomy_observation None None sample_world = (Inr s, w')"
proof -
  have inv: "db_inv run_hasher (w_db sample_world)" using sample_reachable by (rule reachable_inv)
  have ready: "resumes run_hasher sample_run_id ''2024-W33'' sample_inputs UNIV {} {} (w_db sample_world) \<and> abandoned sample_env (w_db sample_world)"
    using inv sample_at_phase sample_conditions by (auto simp: resumes_def ready_def published_in_def at_phase_def)
  obtain s w' where s: "resume_runM sample_env sample_run_id sample_inputs default_resource_estimate roomy_observation None None sample_world = (Inr s, w')"
    using returnsD [OF returns_resume [OF sample_benign sample_conditions(6) sample_admitted refl _ _ sample_conditions(7,5,8)], of sample_run_id "{}" "''2024-W33''" sample_world]
      ready by blast
  from hoareD_Inr [OF hoare_resume [OF sample_sane(1) sample_contract_valid] inv s] have "rs_run_id s = sample_run_id"
    by (rule reported_run)
  then show thesis using that s by simp
qed

theorem returned_call_completed_witness:
  "\<exists>s w'. resume_runM sample_env sample_run_id sample_inputs default_resource_estimate roomy_observation None None
     sample_world = (Inr s, w') \<and> stage_of (w_db w') sample_run_id = (7, True)"
proof (rule sample_returns)
  fix s w' assume s: "rs_run_id s = sample_run_id" "resume_runM sample_env (rs_run_id s) sample_inputs
    default_resource_estimate roomy_observation None None sample_world = (Inr s, w')"
  from returned_call_completed [OF sample_reachable sample_sane(1) sample_inputs_ok disjI2 [OF s(2)]]
  show ?thesis using s by simp
qed

section \<open>A resume that must succeed\<close>

text \<open>C2: from any reachable tables, resuming an unfinished run with its own inputs completes it: provided
  the estimate is within the budget, the world answers (see \<open>benign_env\<close>), no attempt still marked as
  running has a live owner, what the inputs and checkpoints rest on is catalogued, no earlier publication
  has a digest of this run's, and the executor, on the Matchweek tables as they are and as it leaves them, returns
  valid results over artifacts catalogued or published by it.\<close>

theorem resume_completes:
  assumes "reachable_runs H (w_db w)" "contract_from_values H values as ps = Inr inputs"
    and r: "r \<in> set (db_runs (w_db w))" "rr_state r = RUN_INCOMPLETE"
      "contract_from_stored H (rr_contract r) = Inr c" "contract_differences c inputs = []"
    and env: "benign_env H env" "env_budget env = settled_budget" "abandoned env (w_db w)"
    and admit: "within_budget estimate observation settled_budget" "estimate_init estimate = Inr estimate"
    and stored: "well_stored A (w_db w)" "\<And>d. d \<in> A \<Longrightarrow> sha_shaped d" "set (rc_artifact_digests inputs) \<subseteq> A"
      "\<And>x. x \<in> set (checkpoints_of (w_db w) (rr_run_id r)) \<Longrightarrow> set (c_artifacts x) \<subseteq> A"
    and fresh: "\<And>k cs. k \<in> set (db_completions (w_db w)) \<Longrightarrow>
      k_digest k \<noteq> digest H (completion_payload inputs H (rr_run_id r) cs)"
    and executor: "dutiful S A (case executor of None \<Rightarrow> boundary_executor H | Some x \<Rightarrow> x)" "quiet progress"
      "db_matchweek (w_db w) \<in> S"
  shows "\<exists>s w'. resume_runM env (rr_run_id r) inputs estimate observation executor progress w = (Inr s, w') \<and>
    rs_run_id s = rr_run_id r \<and> rs_state s = RUN_COMPLETE \<and> stage_of (w_db w') (rr_run_id r) = (7, True)"
proof -
  let ?D = "k_digest ` set (db_completions (w_db w))"
  have inv: "db_inv H (w_db w)" using assms(1) by (rule reachable_inv)
  have v: "valid_contract H inputs" using assms(2) by (auto simp: valid_contract_def)
  have "find_run (w_db w) (rr_run_id r) = Some r" using find_run_iff [OF inv] r(1) by blast
  note c = stored_contract [OF inv this r(3)]
  have same: "rc_digests inputs = rc_digests c" using same_digests [OF c(1) v r(4)] ..
  have "resumes H (rr_run_id r) (rr_matchweek r) c S A ?D (w_db w) \<and> abandoned env (w_db w)"
    using inv r(1,2) c env(3) stored(1,4) executor(3) by (auto simp: resumes_def ready_def published_in_def open_run_def)
  moreover have "digest H (completion_payload inputs H (rr_run_id r) cs) \<notin> ?D" for cs using fresh [of _ cs] unfolding image_iff by metis
  ultimately obtain s w' where s: "resume_runM env (rr_run_id r) inputs estimate observation executor progress w = (Inr s, w')"
    using returnsD [OF returns_resume [OF env(1,2) admit same _ stored(2,3) executor(1,2)]] by blast
  from hoareD_Inr [OF hoare_resume [OF benign_simps(10) [OF env(1)] v] inv s]
  have "reported H (rr_run_id r) s (w_db w')" .
  then show ?thesis using s reported_run(2,3,4) by blast
qed

theorem resume_completes_witness:
  "\<exists>s w'. resume_runM sample_env sample_run_id sample_inputs default_resource_estimate roomy_observation None None
     sample_world = (Inr s, w') \<and> rs_state s = RUN_COMPLETE"
proof (rule sample_row)
  fix r assume r: "r \<in> set (db_runs (w_db sample_world))" "rr_run_id r = sample_run_id" "rr_state r = RUN_INCOMPLETE"
    "rr_contract r = Some (contract_json sample_inputs)"
  have "contract_from_stored run_hasher (rr_contract r) = Inr sample_inputs"
    using contract_stored_same [OF sample_inputs_ok] r(4) by simp
  moreover have "contract_differences sample_inputs sample_inputs = []" by (simp add: contract_differences_def)
  ultimately show ?thesis
    using resume_completes [OF sample_reachable sample_inputs_ok r(1,3) _ _ sample_benign _ sample_conditions(4)
        sample_admitted, where S = UNIV and A = "{}" and executor = None and progress = None] sample_conditions r(2) by fastforce
qed

section \<open>Calls that are refused\<close>

text \<open>A live coordinator: some attempt is running whose owner is alive whenever it is looked at.\<close>

definition coordinator_alive :: "run_env \<Rightarrow> run_db \<Rightarrow> bool" where
  "coordinator_alive env db \<longleftrightarrow> (\<exists>a \<in> set (running_attempts db). \<forall>t. token_alive env t (a_owner a))"

lemma find_live_alive:
  assumes "\<exists>a \<in> set as. \<forall>t. token_alive env t (a_owner a)"
  shows "\<exists>rid w'. find_liveM env as w = (Inr (Some rid), w') \<and> w_db w' = w_db w"
  using assms
proof (induction as arbitrary: w)
  case (Cons a as)
  show ?case
  proof (cases "token_alive env (w_tick w) (a_owner a)")
    case False
    then show ?thesis
      using Cons by (auto simp: bindM_def askM_def) (metis world.select_convs(1) world.surjective world.update_convs(2))
  qed (simp add: bindM_def askM_def ret_def)
qed simp

lemma verify_start_passive: "preserves I (verify_input_artifactsM env inputs rcode recovery [])"
proof -
  have "input_artifact_failedM env f [] = throw (LifecycleError f [])" for f
    by (simp add: input_artifact_failedM_def raise_lifecycle_def)
  then show ?thesis unfolding verify_input_artifactsM_def by (simp only:) (intro preserving)
qed

text \<open>The interruption of abandoned attempts finds the live one and writes nothing.\<close>

lemma hoare_alive:
  assumes "coordinator_alive env db0"
  shows "hoareM (\<lambda>db. db = db0) (interrupt_abandonedM env now) (\<lambda>active db. active \<noteq> None \<and> db = db0) (\<lambda>db. db = db0)"
  unfolding hoareM_def
proof (intro allI impI)
  fix w r w' assume w: "w_db w = db0" "interrupt_abandonedM env now w = (r, w')"
  obtain rid w1 where "find_liveM env (running_attempts db0) w = (Inr (Some rid), w1)" "w_db w1 = w_db w"
    using find_live_alive assms unfolding coordinator_alive_def by blast
  then have "r = Inr (Some rid)" "w_db w' = db0"
    using w by (auto simp: interrupt_abandonedM_def bindM_def readM_def ret_def)
  then show "case r of Inl _ \<Rightarrow> w_db w' = db0 | Inr active \<Rightarrow> active \<noteq> None \<and> w_db w' = db0" by simp
qed

lemma hoare_busy:
  assumes "coordinator_alive env db0"
  shows "hoareM (\<lambda>db. db = db0)
    (bindM (interrupt_abandonedM env now) (\<lambda>active. case active of
       Some other \<Rightarrow> raise_lifecycle (coordinator_busy_error other) other | None \<Rightarrow> m)) (\<lambda>_ _. False) (\<lambda>db. db = db0)"
  by (rule hoare_bind [OF hoare_alive [OF assms]], rule hoare_option)
    (auto simp: raise_lifecycle_def hoareM_def throw_def)

lemma hoare_refused:
  assumes "hoareM (\<lambda>db. db = w_db w) m (\<lambda>_ _. False) (\<lambda>db. db = w_db w)" "m w = (x, w')"
  shows "(\<exists>e. x = Inl e) \<and> w_db w' = w_db w"
  using assms unfolding hoareM_def by (cases x) auto

text \<open>C23: while another coordinator is alive no start and no resume runs: both raise, and leave every
  table as it was.\<close>

theorem live_coordinator_excludes:
  assumes "coordinator_alive env (w_db w)"
    and "start_runM env matchweek inputs estimate observation executor progress w = (x, w') \<or>
      resume_runM env rid inputs estimate observation executor progress w = (x, w')"
  shows "(\<exists>e. x = Inl e) \<and> w_db w' = w_db w"
proof -
  let ?P = "\<lambda>db. db = w_db w"
  note busy = hoare_busy [OF assms(1)]
  have refuse: "hoareM ?P (raise_lifecycle e i) (\<lambda>_ _. False) ?P" "hoareM ?P (throw f) (\<lambda>_ _. False) ?P" for e i f
    by (simp_all add: raise_lifecycle_def hoare_throw)
  have "hoareM ?P (start_runM env matchweek inputs estimate observation executor progress) (\<lambda>_ _. False) ?P"
    unfolding start_runM_def Let_def
    by (rule hoare_bind_passive [OF preserves_checkM] hoare_bind_passive [OF verify_start_passive]
        hoare_bind_passive [OF preserves_world(2)] hoare_bind_passive [OF preserves_world(3)]
        hoare_if busy refuse hoare_option | assumption)+
  moreover have "hoareM ?P (resume_runM env rid inputs estimate observation executor progress) (\<lambda>_ _. False) ?P"
    unfolding resume_runM_def Let_def
    by (rule hoare_bind_passive [OF preserves_checkM] hoare_bind_passive [OF preserves_world(2)]
        hoare_if busy refuse hoare_option | assumption)+
  ultimately show ?thesis using assms(2) hoare_refused by blast
qed

text \<open>A process that finds its own attempt still running, under the token of a live process.\<close>

definition running_world :: world where
  "running_world = \<lparr>w_db = empty_db\<lparr>db_attempts := [new_attempt_row ''R'' ''K'' 1 ''T'' ''7:1'']\<rparr>, w_tick = 0\<rparr>"

theorem live_coordinator_excludes_witness:
  "w_db (snd (start_runM sample_env ''W'' sample_inputs default_resource_estimate roomy_observation None None
     running_world)) = w_db running_world"
proof -
  have "all_digits ''7''" "num_of ''7'' = 7" by code_simp+
  then have "coordinator_alive sample_env (w_db running_world)"
    by (simp add: coordinator_alive_def running_world_def running_attempts_def new_attempt_row_def token_alive_def
        sample_env_def)
  from live_coordinator_excludes [OF this] show ?thesis by (metis prod.collapse)
qed

text \<open>Inputs that are not those of the run.\<close>

definition holds_contract :: "hasher \<Rightarrow> string \<Rightarrow> run_contract \<Rightarrow> run_db \<Rightarrow> run_db \<Rightarrow> bool" where
  "holds_contract H rid c db0 db \<longleftrightarrow>
     db_inv H db \<and> (\<exists>r \<in> set (db_runs db). rr_run_id r = rid \<and> rr_contract r = Some (contract_json c)) \<and>
     db_checkpoints db = db_checkpoints db0 \<and> db_completions db = db_completions db0"

lemma holds_contract_core:
  assumes "holds_contract H rid c db0 db" "db_inv H db'" "map core (db_runs db') = map core (db_runs db)"
    "db_checkpoints db' = db_checkpoints db" "db_completions db' = db_completions db"
  shows "holds_contract H rid c db0 db'"
proof -
  obtain r where r: "r \<in> set (db_runs db)" "rr_run_id r = rid" "rr_contract r = Some (contract_json c)"
    using assms(1) by (auto simp: holds_contract_def)
  have "core r \<in> set (map core (db_runs db'))" unfolding assms(3) using r(1) by simp
  then obtain r' where "r' \<in> set (db_runs db')" "core r' = core r" by auto
  then show ?thesis using assms r(2,3) by (auto simp: holds_contract_def core_def)
qed

lemma hoare_interrupt_holds:
  "hoareM (holds_contract H rid c db0) (interrupt_abandonedM env now) (\<lambda>_. holds_contract H rid c db0) (holds_contract H rid c db0)"
  unfolding interrupt_abandonedM_def
proof (rule hoare_bind_read, rule hoare_bind_passive [OF preserves_find_live])
  fix running live
  have "hoareM (\<lambda>db. holds_contract H rid c db0 db \<and> running = running_attempts db)
      (writeM env (interrupt_all now running)) (\<lambda>_. holds_contract H rid c db0) (holds_contract H rid c db0)"
  proof (rule hoare_write)
    fix db db' assume i: "holds_contract H rid c db0 db \<and> running = running_attempts db" "interrupt_all now running db = Inr db'"
    have "db_inv H db" using i(1) by (simp add: holds_contract_def)
    note eff = interrupt_all_effect [OF this i(2)]
    show "holds_contract H rid c db0 db' \<and> holds_contract H rid c db0 db'"
      using holds_contract_core [OF conjunct1 [OF i(1)] eff(1,5,3,4)] by simp
  qed simp
  then show "hoareM (\<lambda>db. holds_contract H rid c db0 db \<and> running = running_attempts db)
      (if live \<noteq> None then ret live else if running = [] then ret None
       else bindM (writeM env (interrupt_all now running)) (\<lambda>_. ret None))
      (\<lambda>_. holds_contract H rid c db0) (holds_contract H rid c db0)"
    by (auto intro!: hoare_ret intro: hoare_bind)
qed simp

lemma record_error_holds:
  assumes "holds_contract H rid c db0 db" "record_error i e now reuse db = Inr db'"
  shows "holds_contract H rid c db0 db'"
proof (rule holds_contract_core [OF assms(1)])
  show "db_inv H db'" using assms record_error_inv by (auto simp: holds_contract_def)
qed (use assms(2) in \<open>auto simp: record_error_def update_run_def map_update_where core_def\<close>)

text \<open>C22: a resume whose inputs differ from those the run was started with raises, whatever the world does,
  and leaves the checkpoints and completions of the store as they were.\<close>

theorem changed_inputs_refused:
  assumes "reachable_runs H (w_db w)" "sane_env H env"
    and r: "r \<in> set (db_runs (w_db w))" "contract_from_stored H (rr_contract r) = Inr c"
    and "contract_differences c inputs \<noteq> []"
    and "resume_runM env (rr_run_id r) inputs estimate observation executor progress w = (x, w')"
  shows "(\<exists>e. x = Inl e) \<and> db_checkpoints (w_db w') = db_checkpoints (w_db w) \<and>
    db_completions (w_db w') = db_completions (w_db w)"
proof -
  let ?rid = "rr_run_id r"
  let ?P = "holds_contract H ?rid c (w_db w)"
  have inv: "db_inv H (w_db w)" using assms(1) by (rule reachable_inv)
  have "find_run (w_db w) ?rid = Some r" using find_run_iff [OF inv] r(1) by blast
  note c = stored_contract [OF inv this r(2)]
  have H: "env_hasher env = H" using assms(2) by (simp add: sane_env_def)
  have stored: "contract_from_stored H (Some (contract_json c)) = Inr c"
    using c(1) contract_stored_same by (auto simp: valid_contract_def)
  have refuse: "hoareM ?P (raise_lifecycle e i) (\<lambda>_ _. False) ?P" "hoareM ?P (throw f) (\<lambda>_ _. False) ?P" for e i f
    by (simp_all add: raise_lifecycle_def hoare_throw)
  have recorded: "hoareM ?P (bindM (writeM env (record_error ?rid e now BLOCKED)) (\<lambda>_. raise_lifecycle e ?rid)) (\<lambda>_ _. False) ?P" for e now
    by (rule hoare_bind [OF hoare_write refuse(1)]) (auto intro: record_error_holds)
  have found: "hoareM (\<lambda>db. ?P db \<and> found = find_run db ?rid)
      (case found of None \<Rightarrow> raise_lifecycle (not_found_error ?rid) ?rid
       | Some r \<Rightarrow> if rr_state r = RUN_COMPLETE then raise_lifecycle (already_complete_error r) ?rid
         else bindM (liftM (contract_from_stored H (rr_contract r)))
          (\<lambda>stored. if contract_differences stored inputs \<noteq> []
            then bindM (writeM env (record_error ?rid (digest_mismatch_error r (contract_differences stored inputs)) now BLOCKED))
              (\<lambda>_. raise_lifecycle (digest_mismatch_error r (contract_differences stored inputs)) ?rid)
            else rest stored)) (\<lambda>_ _. False) ?P" for found now rest
  proof (rule hoare_assume)
    fix db assume db: "?P db \<and> found = find_run db ?rid"
    then obtain r' where r': "found = Some r'" "rr_contract r' = Some (contract_json c)"
      using find_run_iff by (auto simp: holds_contract_def)
    have ne: "contract_differences c inputs \<noteq> []" by fact
    have pre: "d = db \<Longrightarrow> ?P d" for d using db by simp
    show "hoareM (\<lambda>d. d = db) (case found of None \<Rightarrow> raise_lifecycle (not_found_error ?rid) ?rid
       | Some r \<Rightarrow> if rr_state r = RUN_COMPLETE then raise_lifecycle (already_complete_error r) ?rid
         else bindM (liftM (contract_from_stored H (rr_contract r)))
          (\<lambda>stored. if contract_differences stored inputs \<noteq> []
            then bindM (writeM env (record_error ?rid (digest_mismatch_error r (contract_differences stored inputs)) now BLOCKED))
              (\<lambda>_. raise_lifecycle (digest_mismatch_error r (contract_differences stored inputs)) ?rid)
            else rest stored)) (\<lambda>_ _. False) ?P"
      unfolding r' option.case stored bind_lift_Inr if_P [OF ne]
      by (rule hoare_if, rule hoare_pre [OF refuse(1)], erule pre, rule hoare_pre [OF recorded], erule pre)
  qed
  have "hoareM ?P (resume_runM env ?rid inputs estimate observation executor progress) (\<lambda>_ _. False) ?P"
    unfolding resume_runM_def Let_def H
    apply (rule hoare_bind_passive [OF preserves_checkM], rule hoare_if)
      apply (rule hoare_option refuse)+
    apply (rule hoare_bind_passive [OF preserves_checkM])
     apply (rule hoare_bind_passive [OF preserves_checkM])
      apply (rule hoare_bind_passive [OF preserves_world(2)])
       apply (rule hoare_bind [OF hoare_interrupt_holds], rule hoare_option)
        apply (rule hoare_bind_read, rule found)
       apply (rule refuse)
      apply assumption+
    done
  moreover have "?P (w_db w)" using inv r(1) c(2) by (auto simp: holds_contract_def)
  ultimately have "case x of Inl _ \<Rightarrow> ?P (w_db w') | Inr _ \<Rightarrow> False"
    using assms(6) unfolding hoareM_def by blast
  then show ?thesis by (cases x) (auto simp: holds_contract_def)
qed

lemma sample_later_inputs:
  "contract_differences sample_inputs (contract_of run_hasher ((''cutoff'', ''later'') # sample_values) [] []) \<noteq> []"
proof -
  let ?m = "(''cutoff'', ''later'') # sample_values"
  have c: "''cutoff'' \<in> set required_identity_inputs" by (simp add: required_identity_inputs_def)
  have v: "value_of sample_values ''cutoff'' = ''cutoff''" "value_of ?m ''cutoff'' = ''later''"
    by (simp_all add: sample_values_def value_of_def required_identity_inputs_def)
  have "value_of (rc_digests sample_inputs) ''cutoff'' \<noteq> value_of (rc_digests (contract_of run_hasher ?m [] [])) ''cutoff''"
    unfolding contract_digest_value [OF c] v by (simp add: run_hasher_def)
  moreover have "''cutoff'' \<in> set contract_names" using c by (simp add: contract_names_def)
  ultimately show ?thesis by (auto simp: contract_differences_def filter_empty_conv)
qed

theorem changed_inputs_refused_witness:
  "\<exists>e. fst (resume_runM sample_env sample_run_id (contract_of run_hasher ((''cutoff'', ''later'') # sample_values) [] [])
     default_resource_estimate roomy_observation None None sample_world) = Inl e"
proof (rule sample_row)
  fix r assume r: "r \<in> set (db_runs (w_db sample_world))" "rr_run_id r = sample_run_id"
    "rr_contract r = Some (contract_json sample_inputs)"
  have "contract_from_stored run_hasher (rr_contract r) = Inr sample_inputs"
    using contract_stored_same [OF sample_inputs_ok] r(3) by simp
  from changed_inputs_refused [OF sample_reachable sample_sane(1) r(1) this sample_later_inputs]
  show ?thesis unfolding r(2) by (metis prod.collapse)
qed

section \<open>The time limit\<close>

text \<open>Closing an attempt leaves the checkpoints alone.\<close>

lemma stop_keeps_checkpoints:
  "preserves (\<lambda>db. Q (db_checkpoints db)) (stop_attemptM env rid key n started status rcode explanation ended)"
  unfolding stop_attemptM_def raise_lifecycle_def
  by (intro preserving preserves_writeM) (auto simp: finish_attempt_def update_run_def split: option.splits)

text \<open>What is checkpointed of a result: at most one row, with the stamp it was given.\<close>

definition checkpoints_result ::
  "hasher \<Rightarrow> string \<Rightarrow> run_phase \<Rightarrow> dt \<Rightarrow> int \<Rightarrow> work_result \<Rightarrow> checkpoint_row \<Rightarrow> bool" where
  "checkpoints_result H rid p ended elapsed r c \<longleftrightarrow>
     c_run_id c = rid \<and> c_phase c = p \<and> utc_stamp ended = Inr (c_at c) \<and> c_elapsed c = elapsed \<and>
     c_output c = work_output_digest H r \<and> c_artifacts c = wr_artifact_digests r"

lemma save_checkpoints:
  assumes "save_workM env rid key p n d started ended elapsed r w = (x, w')"
    and "db_checkpoints (w_db w') \<noteq> db_checkpoints (w_db w)"
  shows "\<exists>c. db_checkpoints (w_db w') = db_checkpoints (w_db w) @ [c] \<and> checkpoints_result (env_hasher env) rid p ended elapsed r c"
proof -
  let ?cs = "db_checkpoints (w_db w)"
  let ?Q = "\<lambda>cs. cs = ?cs \<or> (\<exists>c. cs = ?cs @ [c] \<and> checkpoints_result (env_hasher env) rid p ended elapsed r c)"
  let ?I = "\<lambda>db. ?Q (db_checkpoints db)"
  have body: "hoareM (\<lambda>db. db_checkpoints db = ?cs)
    (bindM (verify_allM env (wr_artifact_digests r)) (\<lambda>_.
     bindM (liftM (utc_stamp ended)) (\<lambda>stamp.
     bindM (writeM env (checkpoint rid key p n d (work_output_digest (env_hasher env) r) (wr_artifact_digests r) stamp elapsed))
       (\<lambda>_. ret (work_output_digest (env_hasher env) r))))) (\<lambda>_. ?I) ?I"
  proof (rule hoare_bind_passive [OF preserves_verify(2)], rule hoare_bind_lift, rule hoare_bind [OF hoare_write])
    fix stamp db db'
    assume "utc_stamp ended = Inr stamp" "db_checkpoints db = ?cs"
      "checkpoint rid key p n d (work_output_digest (env_hasher env) r) (wr_artifact_digests r) stamp elapsed db = Inr db'"
    then show "?I db' \<and> ?I db'" by (auto simp: checkpoint_def update_run_def checkpoints_result_def Let_def)
  qed (auto intro: hoare_ret)
  have stop: "hoareM ?I (stop_attemptM env rid key n started status rcode explanation at') (\<lambda>_. ?I) ?I"
    for status rcode explanation at'
    by (rule hoare_preserves [OF stop_keeps_checkpoints]) assumption
  have "hoareM (\<lambda>db. db_checkpoints db = ?cs) (save_workM env rid key p n d started ended elapsed r) (\<lambda>_. ?I) ?I"
    unfolding save_workM_def Let_def
    by (rule hoare_catch [OF body], rule hoare_handler) (rule stop hoare_throw | assumption)+
  from hoareD [OF this, of w] have "?I (w_db w')" using assms(1) by simp
  then show ?thesis using assms(2) by blast
qed

lemma after_checkpoints:
  assumes "after_workM env rid key p n d session_started started outcome w = (x, w')"
    and "db_checkpoints (w_db w') \<noteq> db_checkpoints (w_db w)"
  shows "\<exists>r c elapsed spent. outcome = Work_done r \<and> db_checkpoints (w_db w') = db_checkpoints (w_db w) @ [c] \<and>
    checkpoints_result (env_hasher env) rid p (env_clock env (w_tick w)) elapsed r c \<and>
    seconds_between started (env_clock env (w_tick w)) = Inr elapsed \<and>
    seconds_between session_started (env_clock env (w_tick w)) = Inr spent \<and> spent \<le> hard_duration_seconds (env_budget env)"
proof -
  let ?ended = "env_clock env (w_tick w)" and ?w = "w\<lparr>w_tick := Suc (w_tick w)\<rparr>"
  have stop: "db_checkpoints (w_db (snd (stop_attemptM env rid key n started status rcode explanation at' v))) = db_checkpoints (w_db v)"
    for status rcode explanation at' and v :: world
    using stop_keeps_checkpoints [of "\<lambda>cs. cs = db_checkpoints (w_db v)"] unfolding preserves_def by blast
  have no_stop: False if "stop_attemptM env rid key n started status rcode explanation at' v = (x, w')" "w_db v = w_db w"
    for status rcode explanation at' and v :: world
    using stop [of status rcode explanation at' v] that assms(2) by (metis snd_conv)
  obtain r where r: "outcome = Work_done r"
    using assms(1) by (cases outcome) (auto simp: after_workM_def dest: no_stop [OF _ refl])
  from assms(1) have run: "bindM (liftM (seconds_between started ?ended)) (\<lambda>elapsed.
      bindM (liftM (seconds_between session_started ?ended)) (\<lambda>spent.
      if spent > hard_duration_seconds (env_budget env)
      then stop_attemptM env rid key n started ATTEMPT_FAILED ''MV-RUN-HARD_TIME_LIMIT'' hard_limit_text (Some ?ended)
      else save_workM env rid key p n d started ?ended elapsed r)) ?w = (x, w')"
    by (simp add: r after_workM_def clockM_def bindM_def askM_def)
  have db: "w_db ?w = w_db w" by simp
  have "seconds_between started ?ended \<noteq> Inl e" "seconds_between session_started ?ended \<noteq> Inl e" for e
    using run assms(2) by (auto simp: bindM_def liftM_def split: sum.splits)
  then obtain elapsed spent where k: "seconds_between started ?ended = Inr elapsed" "seconds_between session_started ?ended = Inr spent"
    by (metis sum.exhaust)
  with run have "if spent > hard_duration_seconds (env_budget env)
      then stop_attemptM env rid key n started ATTEMPT_FAILED ''MV-RUN-HARD_TIME_LIMIT'' hard_limit_text (Some ?ended) ?w = (x, w')
      else save_workM env rid key p n d started ?ended elapsed r ?w = (x, w')"
    by (simp add: bind_lift_Inr split: if_splits)
  with no_stop [OF _ db] have limit: "spent \<le> hard_duration_seconds (env_budget env)"
    and save: "save_workM env rid key p n d started ?ended elapsed r ?w = (x, w')"
    by (auto split: if_splits)
  then show ?thesis using save_checkpoints [OF save] assms(2) r k by auto
qed

text \<open>C24: a phase is checkpointed only while its session is within the hard limit. If executing a phase adds a
  checkpoint, it adds one, with the result the executor returned when it was asked, at the fourth step,
  with a positive number of seconds left; the clock is read at the step after it, the checkpoint has the
  stamp of that reading, and by that reading at most the seconds of the hard limit had passed since the
  session began.\<close>

theorem checkpoint_within_limit:
  assumes "execute_phaseM env execute rid matchweek aggregate cpu session_started key p predecessor w = (x, w')"
    and "db_checkpoints (w_db w') \<noteq> db_checkpoints (w_db w)"
  shows "\<exists>c r ctx remaining st ended spent. db_checkpoints (w_db w') = db_checkpoints (w_db w) @ [c] \<and>
    valid_outcome (fst (execute (w_tick w + 3) ctx remaining st)) = Work_done r \<and> 0 < remaining \<and> wc_phase ctx = p \<and>
    ended = env_clock env (w_tick w + 4) \<and> checkpoints_result (env_hasher env) rid p ended (c_elapsed c) r c \<and>
    seconds_between (env_clock env (w_tick w)) ended = Inr (c_elapsed c) \<and>
    seconds_between session_started ended = Inr spent \<and> spent \<le> hard_duration_seconds (env_budget env)"
proof -
  let ?started = "env_clock env (w_tick w)" and ?d = "work_input_digest (env_hasher env) aggregate key predecessor"
  let ?token = "env_token env (Suc (w_tick w)) (env_pid env)"
  have same: "db_checkpoints db = db_checkpoints (w_db w)" if "start_attempt rid key p ?d ?token stamp (w_db w) = Inr (n, db)" for stamp n db
    using that by (auto simp: start_attempt_def update_run_def Let_def split: option.splits)
  note phase = assms(1) [unfolded execute_phaseM_def Let_def]
  obtain stamp where stamp: "utc_stamp ?started = Inr stamp"
    using phase assms(2) by (cases "utc_stamp ?started") (auto simp: bindM_def clockM_def askM_def own_tokenM_def liftM_def)
  obtain n db where start: "env_transaction env (w_tick w + 2) = Commits" "start_attempt rid key p ?d ?token stamp (w_db w) = Inr (n, db)"
    using phase assms(2) same
    by (auto simp: bindM_def clockM_def askM_def own_tokenM_def liftM_def stamp transactM_def Let_def
        split: tx_fate.splits sum.splits prod.splits)
  let ?w = "\<lparr>w_db = db, w_tick = w_tick w + 3\<rparr> :: world"
  define ctx where "ctx = \<lparr>wc_run_id = rid, wc_stable_key = key, wc_matchweek = matchweek, wc_phase = p, wc_attempt = n,
      wc_mode = ''RESEARCH_ONLY'', wc_input_digest = ?d, wc_predecessor_digest = predecessor, wc_cpu_concurrency = cpu\<rparr>"
  have tick: "w\<lparr>w_tick := t, w_db := db\<rparr> = \<lparr>w_db = db, w_tick = t\<rparr>" for t by (cases w) simp
  have run: "bindM (run_workM env execute ctx session_started ?started) (after_workM env rid key p n ?d session_started ?started) ?w = (x, w')"
    using phase start
    by (simp add: bindM_def clockM_def askM_def own_tokenM_def liftM_def stamp transactM_def Let_def ctx_def tick
        numeral_2_eq_2 numeral_3_eq_3)
  have no_work: "w_db v = db \<Longrightarrow> after_workM env rid key p n ?d session_started ?started y v = (x, w') \<Longrightarrow> \<exists>r. y = Work_done r" for y v
    using after_checkpoints [of env rid key p n ?d session_started ?started y v x w'] assms(2) same [OF start(2)] by auto
  obtain spent where spent: "seconds_between session_started ?started = Inr spent"
    using run no_work [of ?w] by (auto simp: run_workM_def bindM_def ret_def split: sum.splits)
  let ?remaining = "hard_duration_seconds (env_budget env) - spent"
  have left: "0 < ?remaining"
    using run no_work [of ?w] by (rule_tac ccontr) (auto simp: run_workM_def bindM_def ret_def spent Let_def)
  obtain y ds st where y: "execute (w_tick w + 3) ctx ?remaining (db_matchweek db) = (y, ds, st)" by (metis prod_cases3)
  let ?v = "\<lparr>w_db = executed ds st db, w_tick = w_tick w + 4\<rparr> :: world"
  have "after_workM env rid key p n ?d session_started ?started (valid_outcome y) ?v = (x, w')"
    using run left y by (simp add: run_workM_def bindM_def workM_def ret_def spent Let_def add.commute)
  from after_checkpoints [OF this] obtain r c elapsed k where
    "valid_outcome y = Work_done r" "db_checkpoints (w_db w') = db_checkpoints (w_db w) @ [c]"
    "checkpoints_result (env_hasher env) rid p (env_clock env (w_tick w + 4)) elapsed r c"
    "seconds_between ?started (env_clock env (w_tick w + 4)) = Inr elapsed"
    "seconds_between session_started (env_clock env (w_tick w + 4)) = Inr k" "k \<le> hard_duration_seconds (env_budget env)"
    using assms(2) same [OF start(2)] by auto
  moreover from this(3) have "elapsed = c_elapsed c" by (simp add: checkpoints_result_def)
  moreover have "wc_phase ctx = p" by (simp add: ctx_def)
  ultimately show ?thesis using left y by (metis fst_conv)
qed

theorem checkpoint_within_limit_witness:
  "\<exists>c r spent. db_checkpoints (w_db checkpointed_world) = [c] \<and>
     checkpoints_result run_hasher sample_run_id PREFLIGHT (env_clock dying_env 12) (c_elapsed c) r c \<and>
     seconds_between sample_clock (env_clock dying_env 12) = Inr spent \<and> spent \<le> 14400"
proof (rule checkpointed_rows)
  fix n db1
  assume c: "in_attempt run_hasher sample_run_id ''2024-W33'' sample_inputs 0 (first_digest sample_inputs) n db1"
    "checkpoint sample_run_id (phase_key ''2024-W33'' 0) (run_phases ! 0) n first_input
      (work_output_digest run_hasher first_result) [] (utc_text True sample_clock) 0 db1 = Inr (w_db checkpointed_world)"
    "execute_phaseM dying_env (boundary_executor run_hasher) sample_run_id ''2024-W33''
      (aggregate_digest run_hasher sample_inputs) (pf_concurrency sample_preflight) sample_clock
      (phase_key ''2024-W33'' 0) PREFLIGHT (value_of (rc_digests sample_inputs) ''predecessors'')
      \<lparr>w_db = w_db sample_world, w_tick = 8\<rparr> =
      (Inr (work_output_digest run_hasher first_result), \<lparr>w_db = w_db checkpointed_world, w_tick = 14\<rparr>)"
  have "db_checkpoints (w_db checkpointed_world) \<noteq> []"
    by (rule checkpoint_rows [OF c(1) _ c(2)]) simp_all
  moreover have none: "db_checkpoints (w_db sample_world) = []" using created_rows(4) [OF sample_created] by (simp add: empty_db_def)
  moreover have "env_hasher dying_env = run_hasher" "hard_duration_seconds (env_budget dying_env) = 14400"
    by (simp_all add: dying_env_def sample_env_def settled_budget_def)
  ultimately show ?thesis using checkpoint_within_limit [OF c(3)] by auto
qed

end
