(* ===== verification/Run_Work.thy ===== *)
theory Run_Work
  imports Run_Progress
begin

text \<open>
  What the checkpoints of a run stand for: a start that returns has executed the seven phases one after
  the other, each on the Matchweek tables as the one before it left them, and its checkpoints record
  what the executor returned for them. And when a start returns.
\<close>

section \<open>A start works through its phases\<close>

text \<open>
  The checkpoints are, in order, those of results of the executor, which took the Matchweek tables from
  the first store to the second.
\<close>

fun worked :: "hasher \<Rightarrow> executor \<Rightarrow> string \<Rightarrow> mw_store \<Rightarrow> checkpoint_row list \<Rightarrow> mw_store \<Rightarrow> bool" where
  "worked H x rid st [] st' \<longleftrightarrow> st' = st"
| "worked H x rid st (c # cs) st' \<longleftrightarrow>
     (\<exists>t ctx remaining r. valid_outcome (fst (x t ctx remaining st)) = Work_done r \<and> wc_run_id ctx = rid \<and>
        wc_phase ctx = c_phase c \<and> c_output c = work_output_digest H r \<and> c_artifacts c = wr_artifact_digests r \<and>
        worked H x rid (snd (snd (x t ctx remaining st))) cs st')"

lemma worked_append: "worked H x rid st (cs @ ds) st' \<longleftrightarrow> (\<exists>st1. worked H x rid st cs st1 \<and> worked H x rid st1 ds st')"
proof (induction cs arbitrary: st)
  case (Cons c cs)
  show ?case unfolding append_Cons worked.simps Cons.IH by blast
qed simp

definition has_worked :: "hasher \<Rightarrow> executor \<Rightarrow> string \<Rightarrow> mw_store \<Rightarrow> run_db \<Rightarrow> bool" where
  "has_worked H x rid st db \<longleftrightarrow> worked H x rid st (checkpoints_of db rid) (db_matchweek db)"

lemma has_worked_same:
  "has_worked H x rid st db \<Longrightarrow> db_checkpoints db' = db_checkpoints db \<Longrightarrow> db_matchweek db' = db_matchweek db \<Longrightarrow>
   has_worked H x rid st db'"
  by (simp add: has_worked_def checkpoints_of_def)

text \<open>What holds between the executor and the checkpoint of its result.\<close>

definition working :: "hasher \<Rightarrow> executor \<Rightarrow> string \<Rightarrow> mw_store \<Rightarrow> run_phase \<Rightarrow> work_result \<Rightarrow> run_db \<Rightarrow> bool" where
  "working H x rid st p r db \<longleftrightarrow>
     (\<forall>c. c_phase c = p \<longrightarrow> c_output c = work_output_digest H r \<longrightarrow> c_artifacts c = wr_artifact_digests r \<longrightarrow>
        worked H x rid st (checkpoints_of db rid @ [c]) (db_matchweek db))"

lemma raises_stop: "raises (stop_attemptM env rid key n started status rcode explanation ended)"
  unfolding stop_attemptM_def raise_lifecycle_def by (intro raises_bind raises_Let raises_throw)

lemma hoare_raises_any: "raises m \<Longrightarrow> hoareM P m Q (\<lambda>_. True)"
  by (rule hoare_raises) (simp_all add: preserves_def)

lemma hoare_run_work:
  assumes "wc_run_id ctx = rid" "wc_phase ctx = p"
  shows "hoareM (has_worked H x rid st) (run_workM env x ctx session started)
    (\<lambda>y db. \<forall>r. y = Work_done r \<longrightarrow> working H x rid st p r db) (\<lambda>_. True)"
  unfolding hoareM_def
proof (intro allI impI)
  fix w y w' assume w: "has_worked H x rid st (w_db w)" "run_workM env x ctx session started w = (y, w')"
  show "case y of Inl _ \<Rightarrow> True | Inr y \<Rightarrow> \<forall>r. y = Work_done r \<longrightarrow> working H x rid st p r (w_db w')"
  proof (cases "\<exists>r. y = Inr (Work_done r)")
    case True
    then obtain r where r: "y = Inr (Work_done r)" ..
    with w(2) obtain k where k: "seconds_between session started = Inr k" "0 < hard_duration_seconds (env_budget env) - k"
      by (auto simp: run_workM_def ret_def Let_def split: sum.splits if_splits)
    let ?y = "x (w_tick w) ctx (hard_duration_seconds (env_budget env) - k) (db_matchweek (w_db w))"
    from w(2) k r have y: "valid_outcome (fst ?y) = Work_done r" "db_matchweek (w_db w') = snd (snd ?y)"
      "db_checkpoints (w_db w') = db_checkpoints (w_db w)"
      by (cases ?y; auto simp: run_workM_def bindM_def workM_def ret_def Let_def)+
    then have "working H x rid st p r (w_db w')"
      unfolding working_def worked_append
      using assms w(1) by (auto simp: has_worked_def checkpoints_of_def) blast
    then show ?thesis using r by simp
  qed (auto split: sum.splits)
qed

lemma hoare_save_works:
  assumes "env_hasher env = H"
  shows "hoareM (working H x rid st p r) (save_workM env rid key p n d started ended elapsed r)
    (\<lambda>_. has_worked H x rid st) (\<lambda>_. True)"
proof -
  have body: "hoareM (working H x rid st p r)
    (bindM (verify_allM env (wr_artifact_digests r)) (\<lambda>_.
     bindM (liftM (utc_stamp ended)) (\<lambda>stamp.
     bindM (writeM env (checkpoint rid key p n d (work_output_digest H r) (wr_artifact_digests r) stamp elapsed))
       (\<lambda>_. ret (work_output_digest H r))))) (\<lambda>_. has_worked H x rid st) (\<lambda>_. True)"
  proof (rule hoare_bind_passive [OF preserves_verify(2)], rule hoare_bind_lift, rule hoare_bind [OF hoare_write])
    fix stamp db db'
    assume a: "working H x rid st p r db"
      "checkpoint rid key p n d (work_output_digest H r) (wr_artifact_digests r) stamp elapsed db = Inr db'"
    then show "has_worked H x rid st db' \<and> True"
      by (auto simp: checkpoint_def update_run_def Let_def has_worked_def working_def checkpoints_of_def)
  qed (auto intro: hoare_ret)
  show ?thesis
    unfolding save_workM_def Let_def assms
    by (rule hoare_catch [OF body], rule hoare_handler) (rule hoare_raises_any raises_stop raises_throw)+
qed

lemma hoare_phase_works:
  assumes H: "env_hasher env = H"
  shows "hoareM (has_worked H x rid st) (execute_phaseM env x rid m agg cpu session key p pred)
    (\<lambda>_. has_worked H x rid st) (\<lambda>_. True)"
proof -
  have start: "hoareM (has_worked H x rid st) (transactM env (start_attempt rid key p d owner t))
      (\<lambda>_. has_worked H x rid st) (\<lambda>_. True)" for d owner t
    by (rule hoare_transact) (auto simp: start_attempt_def update_run_def Let_def split: option.splits elim!: has_worked_same)
  have after: "hoareM (\<lambda>db. \<forall>r. y = Work_done r \<longrightarrow> working H x rid st p r db)
      (after_workM env rid key p n d session started y) (\<lambda>_. has_worked H x rid st) (\<lambda>_. True)" for y n d started
  proof (cases y)
    case (Work_done r)
    have "hoareM (working H x rid st p r) (after_workM env rid key p n d session started (Work_done r))
        (\<lambda>_. has_worked H x rid st) (\<lambda>_. True)"
      unfolding after_workM_def work_outcome.case
      by (rule hoare_bind_passive preserving hoare_if hoare_save_works [OF H] hoare_raises_any [OF raises_stop] TrueI)+
    then show ?thesis unfolding Work_done by simp
  qed (simp_all add: after_workM_def hoare_raises_any raises_stop)
  have work: "hoareM (has_worked H x rid st) (bindM (run_workM env x ctx session started) (after_workM env rid key p n d session started))
      (\<lambda>_. has_worked H x rid st) (\<lambda>_. True)" if "wc_run_id ctx = rid" "wc_phase ctx = p" for ctx started n d
    by (rule hoare_bind [OF hoare_run_work [OF that] after])
  show ?thesis
    unfolding execute_phaseM_def Let_def
    by (rule hoare_bind_passive [OF preserves_world(1)], rule hoare_bind_passive [OF preserves_world(3)],
        rule hoare_bind_passive [OF preserves_liftM], rule hoare_bind [OF start], rule work) simp_all
qed

lemma hoare_phases_work:
  assumes H: "env_hasher env = H"
  shows "hoareM (has_worked H x rid st) (execute_phasesM env x pr rid m agg cpu session done' ps pred)
    (\<lambda>_. has_worked H x rid st) (\<lambda>_. True)"
proof (induction ps arbitrary: pred)
  case (Cons q ps)
  obtain i p where q: "q = (i, p)" by (cases q)
  show ?case
    unfolding q execute_phasesM.simps
    by (rule hoare_if hoare_bind [OF hoare_phase_works [OF H]] hoare_bind_passive [OF preserves_world(5)] Cons.IH TrueI)+
qed (simp add: hoare_ret)

lemma completion_works: "preserves (has_worked H x rid st) (publish_completionM env i inputs)"
  unfolding publish_completionM_def completion_failedM_def raise_lifecycle_def
  by (intro preserving preserves_publish preserves_writeM)
    (auto simp: catalogue_def record_error_def complete_run_def update_run_def elim!: has_worked_same)

lemma hoare_status_id:
  assumes "\<And>db. P db \<Longrightarrow> Q db"
  shows "hoareM P (statusM env rid) (\<lambda>s db. rs_run_id s = rid \<and> Q db) (\<lambda>_. True)"
  unfolding hoareM_def
proof (intro allI impI)
  fix w r w' assume w: "P (w_db w)" "statusM env rid w = (r, w')"
  then have "w_db w' = w_db w"
    and "r = run_status_of (env_hasher env) (token_alive env (w_tick w)) (env_wall env (w_tick w)) (w_db w) rid"
    by (auto simp: statusM_def bindM_def readM_def askM_def liftM_def)
  then show "case r of Inl _ \<Rightarrow> True | Inr s \<Rightarrow> rs_run_id s = rid \<and> Q (w_db w')"
    using w(1) assms
    by (auto simp: find_run_def split: sum.splits elim!: run_status_state dest!: find_Some_props)
qed

lemma hoare_execute_works:
  assumes H: "env_hasher env = H"
  shows "hoareM (has_worked H (own_executor env ex) rid st) (executeM env ex pr rid inputs cpu)
    (\<lambda>s db. rs_run_id s = rid \<and> has_worked H (own_executor env ex) rid st db) (\<lambda>_. True)"
  unfolding executeM_def Let_def own_executor_def [symmetric]
  by (rule hoare_bind_passive [OF preserves_world(1)], rule hoare_bind_passive [OF preserves_readM],
      rule hoare_bind_passive [OF preserves_readM], rule hoare_option, rule hoare_raises_any [OF raises_throw],
      rule hoare_bind [OF hoare_phases_work [OF H]], rule hoare_bind [OF hoare_preserves [OF completion_works]],
      rule TrueI, rule hoare_status_id) simp_all

text \<open>A new run has no checkpoints, and nothing before it touches the Matchweek tables.\<close>

lemma hoare_start_works:
  assumes env: "sane_env H env" and inputs: "valid_contract H inputs"
  shows "hoareM (\<lambda>db. db_inv H db \<and> db_matchweek db = st) (start_runM env m inputs est obs ex pr)
    (\<lambda>s. has_worked H (own_executor env ex) (rs_run_id s) st) (\<lambda>_. True)"
proof -
  have H: "env_hasher env = H" using env by (simp add: sane_env_def)
  let ?W = "\<lambda>rid. has_worked H (own_executor env ex) rid st"
  have exe: "hoareM (?W rid) (executeM env ex pr rid inputs cpu) (\<lambda>s. ?W (rs_run_id s)) (\<lambda>_. True)" for rid cpu
    by (rule hoare_conseq [OF hoare_execute_works [OF H]]) auto
  have create: "hoareM (\<lambda>db. db_inv H db \<and> db_matchweek db = st) (writeM env (create_run H rid m inputs j cpu ws now owner))
      (\<lambda>_. ?W rid) (\<lambda>_. True)" for rid j cpu ws now owner
  proof (rule hoare_write)
    fix db db' assume a: "db_inv H db \<and> db_matchweek db = st" "create_run H rid m inputs j cpu ws now owner db = Inr db'"
    have "rid \<notin> rr_run_id ` set (db_runs db)" using a(2) by (auto simp: create_run_def Let_def)
    then have "checkpoints_of db rid = []" using a(1) by (intro no_rows_of_new_run) (simp_all add: db_inv_def)
    moreover have "db_checkpoints db' = db_checkpoints db" "db_matchweek db' = db_matchweek db"
      using a(2) by (auto simp: create_run_def Let_def)
    ultimately show "?W rid db' \<and> True" using a(1) by (simp add: has_worked_def checkpoints_of_def)
  qed simp
  have interrupt: "hoareM (\<lambda>db. db_inv H db \<and> db_matchweek db = st) (interrupt_abandonedM env now)
      (\<lambda>_ db. db_inv H db \<and> db_matchweek db = st) (\<lambda>_. True)" for now
  proof -
    have "preserves (\<lambda>db. db_matchweek db = st) (interrupt_abandonedM env now)"
      unfolding interrupt_abandonedM_def
      by (intro preserving preserves_writeM) (simp add: interrupt_all_same)
    from hoare_with [OF hoare_interrupt [of H] this] show ?thesis by (rule hoare_conseq) simp_all
  qed
  have verify: "hoareM (\<lambda>db. db_inv H db \<and> db_matchweek db = st) (verify_input_artifactsM env inputs a b [])
      (\<lambda>_ db. db_inv H db \<and> db_matchweek db = st) (\<lambda>_. True)" for a b
    by (rule hoare_preserves [OF verify_start_passive]) simp
  show ?thesis
    unfolding start_runM_def Let_def raise_lifecycle_def H
    by (rule hoare_bind_passive [OF preserves_checkM] hoare_if hoare_option hoare_raises_any [OF raises_throw]
        hoare_bind [OF verify] hoare_bind_passive [OF preserves_world(2)] hoare_bind_passive [OF preserves_world(3)]
        hoare_bind [OF interrupt] hoare_bind_passive [OF preserves_readM] hoare_bind_passive [OF preserves_askM]
        hoare_bind [OF create] hoare_bind_passive [OF preserves_world(5)] exe TrueI)+
qed

text \<open>So the seven checkpoints of a start that returned, in the order of the phases, take the Matchweek tables
  from what the call found to what it left.\<close>

lemma start_worked:
  assumes "reachable_runs H (w_db w)" "sane_env H env" "contract_from_values H values as ps = Inr inputs"
    and "start_runM env matchweek inputs est obs ex pr w = (Inr s, w')"
  shows "worked H (own_executor env ex) (rs_run_id s) (db_matchweek (w_db w))
      (checkpoints_of (w_db w') (rs_run_id s)) (db_matchweek (w_db w'))"
    and "map c_phase (checkpoints_of (w_db w') (rs_run_id s)) = run_phases"
proof -
  have inv: "db_inv H (w_db w)" using assms(1) by (rule reachable_inv)
  have v: "valid_contract H inputs" using assms(3) by (auto simp: valid_contract_def)
  show "worked H (own_executor env ex) (rs_run_id s) (db_matchweek (w_db w))
      (checkpoints_of (w_db w') (rs_run_id s)) (db_matchweek (w_db w'))"
    using hoareD_Inr [OF hoare_start_works [OF assms(2) v] _ assms(4)] inv by (simp add: has_worked_def)
  have reported: "reported H (rs_run_id s) s (w_db w')"
    by (rule hoareD_Inr [OF hoare_start [OF assms(2) v] inv assms(4)])
  then have inv': "db_inv H (w_db w')" by (simp add: reported_def completed_def)
  obtain r where r: "r \<in> set (db_runs (w_db w'))" "rr_run_id r = rs_run_id s"
    using reported_run(1) [OF reported] by blast
  have seven: "length (checkpoints_of (w_db w') (rs_run_id s)) = 7"
    using reported_run(4) [OF reported] by (simp add: stage_of_def)
  have "c_phase (checkpoints_of (w_db w') (rs_run_id s) ! i) = run_phases ! i" if "i < 7" for i
    using inv' r that seven unfolding db_inv_def run_ok_def chained_def by fastforce
  then show "map c_phase (checkpoints_of (w_db w') (rs_run_id s)) = run_phases"
    using seven by (intro nth_equalityI) simp_all
qed

section \<open>A start that must succeed\<close>

text \<open>Nothing is running, no unfinished run is in the way, and the identifier of the new run is new.\<close>

definition clear_for :: "hasher \<Rightarrow> run_env \<Rightarrow> string \<Rightarrow> run_contract \<Rightarrow> run_db \<Rightarrow> bool" where
  "clear_for H env m inputs db \<longleftrightarrow>
     db_inv H db \<and> running_attempts db = [] \<and> compatible_incomplete db m (aggregate_digest H inputs) = None \<and>
     (\<forall>t. uuid_shaped (env_uuid env t) \<and> env_uuid env t \<notin> set (map fst (db_identifiers db)) \<and>
        env_uuid env t \<notin> set (map rr_run_id (db_runs db)))"

lemma interrupt_idle:
  "running_attempts (w_db w) = [] \<Longrightarrow> interrupt_abandonedM env now w = (Inr None, w)"
  by (simp add: interrupt_abandonedM_def bindM_def readM_def ret_def)

lemma bind_steps:
  "m w = (Inr x, w') \<Longrightarrow> bindM m f w = f x w'" "bindM (readM g) f w = f (g (w_db w)) w"
  "bindM (askM h) f w = f (h (w_tick w)) (w\<lparr>w_tick := Suc (w_tick w)\<rparr>)"
  by (simp_all add: bindM_def readM_def askM_def)

lemma create_run_succeeds:
  assumes "\<And>s. sha_shaped (sha256_hex H s)" and "valid_contract H inputs" and "m \<noteq> []" and "1 \<le> cpu" "cpu \<le> 2"
    and "uuid_shaped rid" "rid \<notin> set (map fst (db_identifiers db))" "rid \<notin> set (map rr_run_id (db_runs db))"
  shows "\<exists>db'. create_run H rid m inputs j cpu ws now owner db = Inr db'"
proof -
  have "list_all (\<lambda>(_, d). sha_shaped d) (rc_digests inputs)"
    using assms(1,2) by (auto simp: valid_contract_def contract_from_values_def contract_of_def Let_def list_all_iff
        digest_def elim!: bindR_InrE)
  moreover have "list_all (\<lambda>u. sha_shaped (u_input_digest u)) (new_unit_rows H rid m inputs)"
    using assms(1) by (auto simp: new_unit_rows_def new_unit_row_def list_all_iff digest_def)
  ultimately show ?thesis
    using assms by (simp add: create_run_def Let_def new_run_row_def aggregate_digest_def digest_def)
qed

lemma start_returns:
  assumes env: "benign_env H env" and budget: "env_budget env = settled_budget"
    and admit: "within_budget est obs settled_budget" "estimate_init est = Inr est"
    and inputs: "valid_contract H inputs" and m: "m \<noteq> []"
    and D: "\<And>rid cs. digest H (completion_payload inputs H rid cs) \<notin> D"
    and A: "\<And>d. d \<in> A \<Longrightarrow> sha_shaped d" "set (rc_artifact_digests inputs) \<subseteq> A"
    and x: "dutiful S A (case ex of None \<Rightarrow> boundary_executor H | Some x \<Rightarrow> x)" and pr: "quiet pr"
  shows "returnsM (\<lambda>db. clear_for H env m inputs db \<and> ready S A D db) (start_runM env m inputs est obs ex pr)"
proof -
  let ?P = "\<lambda>db. clear_for H env m inputs db \<and> ready S A D db"
  have ok: "pf_accepted (preflight_resources est obs settled_budget)" using admit(1) by (simp add: preflight_accepted_iff)
  obtain j where j: "resource_json est obs (preflight_resources est obs settled_budget) = PDict j"
    by (simp add: resource_json_def Let_def)
  let ?cpu = "pf_concurrency (preflight_resources est obs settled_budget)"
  let ?ws = "pf_warnings (preflight_resources est obs settled_budget)"
  note cpu = admitted_cpu [OF admit]
  have verify: "silentM ?P (verify_input_artifactsM env inputs rcode recovery rid)" for rcode recovery rid
    unfolding verify_input_artifactsM_def
    by (rule silent_catch, rule silent_verify_all [OF env A(1) _ A(2)]) (simp_all add: ready_def)
  let ?Q = "\<lambda>rid db. at_phase H rid m inputs 0 (first_digest inputs) db \<and> ready S A D db"
  have create: "returnsM (\<lambda>db. ?P db \<and> (\<exists>t. rid = env_uuid env t)) (writeM env (create_run H rid m inputs (PDict j) ?cpu ?ws now owner)) \<and>
      hoareM (\<lambda>db. ?P db \<and> (\<exists>t. rid = env_uuid env t)) (writeM env (create_run H rid m inputs (PDict j) ?cpu ?ws now owner))
        (\<lambda>_. ?Q rid) (\<lambda>_. True)" for rid now owner
  proof
    show "returnsM (\<lambda>db. ?P db \<and> (\<exists>t. rid = env_uuid env t)) (writeM env (create_run H rid m inputs (PDict j) ?cpu ?ws now owner))"
      by (rule returns_write [OF benign_simps(5) [OF env]], rule create_run_succeeds [OF benign_simps(2) [OF env] inputs m cpu])
        (auto simp: clear_for_def)
    show "hoareM (\<lambda>db. ?P db \<and> (\<exists>t. rid = env_uuid env t)) (writeM env (create_run H rid m inputs (PDict j) ?cpu ?ws now owner))
        (\<lambda>_. ?Q rid) (\<lambda>_. True)"
    proof (rule hoare_write)
      fix db db' assume a: "?P db \<and> (\<exists>t. rid = env_uuid env t)" "create_run H rid m inputs (PDict j) ?cpu ?ws now owner db = Inr db'"
      then have "at_phase H rid m inputs 0 (first_digest inputs) db'"
        using inputs by (auto simp: clear_for_def intro: create_run_effect)
      moreover have "ready S A D db'"
        using a stored.create_run_keeps [of A db] created_rows(5) [OF a(2)]
        by (auto simp: ready_def published_in_def created_rows(2) [OF a(2)])
      ultimately show "?Q rid db' \<and> True" by blast
    qed simp
  qed
  have exec: "returnsM (?Q rid) (executeM env ex pr rid inputs ?cpu)" for rid
    by (rule returns_pre [OF returns_execute [OF env refl D x pr]]) blast
  have report: "returnsM (?Q rid) (reportM env pr rid)" for rid
    by (rule returns_report [OF env pr]) (use at_phase_run at_phase_inv in \<open>auto simp: ready_def\<close>)
  have run: "returnsM (\<lambda>db. ?P db \<and> (\<exists>t. rid = env_uuid env t)) (bindM (writeM env (create_run H rid m inputs (PDict j) ?cpu ?ws now owner)) (\<lambda>_.
      bindM (reportM env pr rid) (\<lambda>_. executeM env ex pr rid inputs ?cpu)))" for rid now owner
    by (rule returns_bind [OF create [THEN conjunct1] create [THEN conjunct2]],
        rule returns_bind_passive [OF preserves_world(5) report exec])
  have rest: "returnsM ?P (bindM (interrupt_abandonedM env now) (\<lambda>active. case active of
        Some other \<Rightarrow> raise_lifecycle (coordinator_busy_error other) other
      | None \<Rightarrow> bindM (readM (\<lambda>db. compatible_incomplete db m (aggregate_digest H inputs))) (\<lambda>compatible.
          case compatible of Some r \<Rightarrow> raise_lifecycle (resume_required_error r) (rr_run_id r)
          | None \<Rightarrow> bindM (askM (env_uuid env)) (\<lambda>rid.
              bindM (writeM env (create_run H rid m inputs (PDict j) ?cpu ?ws now owner)) (\<lambda>_.
              bindM (reportM env pr rid) (\<lambda>_. executeM env ex pr rid inputs ?cpu))))))" for now owner
    unfolding returnsM_def
  proof (intro allI impI)
    fix w :: world assume w: "?P (w_db w)"
    let ?w = "w\<lparr>w_tick := Suc (w_tick w)\<rparr>" and ?rid = "env_uuid env (w_tick w)"
    have idle: "running_attempts (w_db w) = []" "compatible_incomplete (w_db w) m (aggregate_digest H inputs) = None"
      using w by (simp_all add: clear_for_def)
    have start: "bindM (interrupt_abandonedM env now) f w = f None w" for f :: "string option \<Rightarrow> run_status run"
      by (rule bind_steps(1), rule interrupt_idle [OF idle(1)])
    have "?P (w_db ?w) \<and> (\<exists>t. ?rid = env_uuid env t)" using w by auto
    from returnsD [OF run this, of now owner]
    show "\<exists>x w'. bindM (interrupt_abandonedM env now) (\<lambda>active. case active of
        Some other \<Rightarrow> raise_lifecycle (coordinator_busy_error other) other
      | None \<Rightarrow> bindM (readM (\<lambda>db. compatible_incomplete db m (aggregate_digest H inputs))) (\<lambda>compatible.
          case compatible of Some r \<Rightarrow> raise_lifecycle (resume_required_error r) (rr_run_id r)
          | None \<Rightarrow> bindM (askM (env_uuid env)) (\<lambda>rid.
              bindM (writeM env (create_run H rid m inputs (PDict j) ?cpu ?ws now owner)) (\<lambda>_.
              bindM (reportM env pr rid) (\<lambda>_. executeM env ex pr rid inputs ?cpu))))) w = (Inr x, w')"
      by (simp only: start bind_steps(2,3) idle(2) option.case)
  qed
  show ?thesis
    unfolding start_runM_def Let_def budget benign_simps(1) [OF env] j
    apply (rule returns_guards(1) [OF env])
    apply (simp only: ok not_True_eq_False if_False)
    apply (rule returns_guards(2) [OF env], rule returns_guards(1) [OF env])
    apply (rule returns_bind [OF silent_returns [OF verify] silent_hoare [OF verify]])
    apply (rule returns_bind_passive [OF preserves_world(2) returns_stamp [OF env]])
    apply (unfold own_tokenM_def, rule returns_bind_ask)
    apply (rule rest)
    done
qed

end
