(* ===== verification/Matchweek_Appendix.thy ===== *)
theory Matchweek_Appendix
  imports Matchweek_Publish
begin

text \<open>
  What \<open>matchweek.py\<close> does with fixture news after the Research Cutoff: the event and disposition of
  a revision learned late (\<open>append_post_cutoff_revision\<close>), its append-only entry, the sweep over all
  news (\<open>append_post_cutoff_changes\<close>), and the replay of a freeze from its manifest.
\<close>

section \<open>Appendix entries\<close>

definition appendix_to_row :: "appendix_entry \<Rightarrow> appendix_row" where
  "appendix_to_row e =
     \<lparr>pr_id = ae_id e, pr_matchweek_id = ae_matchweek_id e, pr_event_key = ae_event_key e,
      pr_subject_kind = ae_subject_kind e, pr_subject_id = ae_subject_id e,
      pr_fixture_id = ae_fixture_id e, pr_membership_id = ae_membership_id e,
      pr_revision_id = ae_revision_id e, pr_revision_digest = ae_revision_digest e,
      pr_event = appendix_event_text (ae_event e),
      pr_disposition = disposition_text (ae_disposition e), pr_settlement = ae_settlement e,
      pr_original_kickoff = ae_original_kickoff e, pr_current_kickoff = ae_current_kickoff e,
      pr_observed_at = ae_observed_at e,
      pr_review_json = json_text (PDict (review_to_dict (ae_review e))),
      pr_reason_code = ae_reason_code e, pr_reason = ae_reason e, pr_digest = ae_digest e,
      pr_created = ae_observed_at e\<rparr>"

text \<open>\<open>_appendix_row_for_event\<close>\<close>

definition appendix_row_for_event :: "mw_hasher \<Rightarrow> string \<Rightarrow> mw_store \<Rightarrow> (mw_error, appendix_entry option) res" where
  "appendix_row_for_event H key st =
     (case find (\<lambda>r. pr_event_key r = key) (ms_appendix st) of
        None \<Rightarrow> Inr None
      | Some r \<Rightarrow> bindR (appendix_from_row H r) (\<lambda>e. Inr (Some e)))"

text \<open>\<open>_store_appendix_entry\<close>\<close>

definition store_appendix_entry :: "mw_hasher \<Rightarrow> appendix_entry \<Rightarrow> appendix_entry mw_action" where
  "store_appendix_entry H e =
     bindA (readA (appendix_row_for_event H (ae_event_key e))) (\<lambda>existing.
     case existing of Some x \<Rightarrow> liftA (Inr x) | None \<Rightarrow>
     bindA (transactionA (\<lambda>st. bindR (mw_add_identifier ''post_cutoff_appendix'' (ae_id e) st)
       (insert_appendix (appendix_to_row e)))) (\<lambda>_.
     bindA (readA (appendix_row_for_event H (ae_event_key e))) (\<lambda>stored.
     case stored of
       None \<Rightarrow> liftA (Inl (MatchweekError ''MV-T05-APPENDIX_NOT_PUBLISHED''
         ''Post-cutoff appendix entry was not durable.''))
     | Some x \<Rightarrow> liftA (Inr x))))"

section \<open>The event of a late revision\<close>

definition default_review :: validity_review where
  "default_review =
     \<lparr>vr_identity_unchanged = Some True, vr_scope_unchanged = Some True,
      vr_kickoff_after_cutoff = Some True, vr_no_postponement = Some True,
      vr_pre_match_valid = Some True, vr_critical_evidence_valid = Some True,
      vr_research_sufficiency_valid = Some True, vr_information_boundary_valid = Some True\<rparr>"

definition supplied_review :: "validity_review option \<Rightarrow> bool \<Rightarrow> validity_review option" where
  "supplied_review review identity_unchanged =
     (if identity_unchanged then review
      else case review of
        Some v \<Rightarrow> Some (v\<lparr>vr_identity_unchanged := Some False\<rparr>)
      | None \<Rightarrow> Some (empty_review\<lparr>vr_identity_unchanged := Some False\<rparr>))"

definition previously_withdrawn :: "matchweek_freeze \<Rightarrow> string \<Rightarrow> bool" where
  "previously_withdrawn f fixture_id \<longleftrightarrow>
     list_ex (\<lambda>e. ae_subject_id e = fixture_id \<and> ae_disposition e = WITHDRAWN) (fz_appendix f)"

definition frozen_membership_of :: "matchweek_freeze \<Rightarrow> string \<Rightarrow> frozen_membership option" where
  "frozen_membership_of f fixture_id = find (\<lambda>m. fm_subject_id m = fixture_id) (fz_memberships f)"

definition in_window :: "mw_window \<Rightarrow> string option \<Rightarrow> bool" where
  "in_window w kickoff \<longleftrightarrow> (case kickoff of None \<Rightarrow> False | Some k \<Rightarrow> window_contains w k)"

text \<open>A fixture that is no Target Match of the freeze.\<close>

definition outside_event ::
  "mw_window \<Rightarrow> bool \<Rightarrow> revision_candidate \<Rightarrow> appendix_event \<times> string \<times> string" where
  "outside_event w known_before c =
     (if in_window w (cd_kickoff_utc c) then
        (if known_before then MOVED_IN_AFTER_CUTOFF else FIXTURE_ADDED_AFTER_CUTOFF,
         ''POST_CUTOFF_NOT_A_TARGET'',
         ''Fixture is inside the frozen window only after the Research Cutoff; it remains appendix-only.'')
      else (REVISION_LEARNED_AFTER_CUTOFF, ''POST_CUTOFF_REVISION'',
         ''A later Fixture Revision was retained outside frozen membership.''))"

text \<open>A Target Match that an earlier entry withdrew.\<close>

definition withdrawn_event :: "mw_window \<Rightarrow> revision_candidate \<Rightarrow> appendix_event" where
  "withdrawn_event w c =
     (let status = upper (strip (cd_status c)) in
      if status = ''POSTPONED'' then POSTPONED
      else if status = ''CANCELLED'' then CANCELLED
      else if in_window w (cd_kickoff_utc c) then SAME_WINDOW_KICKOFF_CHANGE
      else if cd_kickoff_utc c \<noteq> None then MOVED_OUTSIDE_WINDOW
      else REVISION_LEARNED_AFTER_CUTOFF)"

text \<open>A Target Match that still stands; \<open>conflicted\<close> asks for material conflicts at the observation.\<close>

definition standing_event ::
  "mw_window \<Rightarrow> int \<Rightarrow> frozen_membership \<Rightarrow> validity_review option \<Rightarrow> bool \<Rightarrow> revision_candidate \<Rightarrow>
   appendix_event \<times> appendix_disposition \<times> string \<times> string" where
  "standing_event w cutoff m review conflicted c =
     (let status = upper (strip (cd_status c)); kickoff = cd_kickoff_utc c in
      if status = ''POSTPONED'' then
        (POSTPONED, WITHDRAWN, ''POSTPONED_AFTER_CUTOFF'',
         ''The INCLUDED fixture was postponed after the Research Cutoff.'')
      else if status = ''CANCELLED'' then
        (CANCELLED, WITHDRAWN, ''CANCELLED_AFTER_CUTOFF'',
         ''The INCLUDED fixture was cancelled after the Research Cutoff.'')
      else if Option.bind review vr_identity_unchanged = Some False then
        (IDENTITY_CONFLICT, WITHDRAWN, ''IDENTITY_CONFLICT_AFTER_CUTOFF'',
         ''The post-cutoff update could not preserve canonical Fixture identity.'')
      else if kickoff = None \<or> opt_instant kickoff \<le> cutoff then
        (INVALID_PREMATCH_TIMING, WITHDRAWN, ''KICKOFF_NOT_AFTER_CUTOFF'',
         ''The corrected kickoff was at or before the frozen Research Cutoff.'')
      else if \<not> in_window w kickoff then
        (MOVED_OUTSIDE_WINDOW, WITHDRAWN, ''MOVED_OUTSIDE_MATCHWEEK'',
         ''The INCLUDED fixture moved outside the frozen Friday-to-Monday window.'')
      else if fm_kickoff_utc m \<noteq> kickoff then
        (if (case review of None \<Rightarrow> False | Some v \<Rightarrow> review_passed v) then
           (SAME_WINDOW_KICKOFF_CHANGE, PRESERVED, ''SAME_WINDOW_VALIDITY_PASSED'',
            ''The same-window kickoff change passed every pre-match validity assumption.'')
         else
           (SAME_WINDOW_KICKOFF_CHANGE, WITHDRAWN, ''SAME_WINDOW_VALIDITY_FAILED'',
            ''The same-window kickoff change did not prove every pre-match validity assumption.''))
      else if conflicted then
        (MATERIAL_CONFLICT, PRESERVED, ''MATERIAL_CONFLICT_AFTER_CUTOFF'',
         ''A later Fixture Revision retains unresolved material fixture detail conflict.'')
      else
        (REVISION_LEARNED_AFTER_CUTOFF, PRESERVED, ''POST_CUTOFF_REVISION'',
         ''A later Fixture Revision was appended without changing frozen membership.''))"

text \<open>\<open>_post_cutoff_observation\<close>\<close>

definition post_cutoff_observation :: "revision_candidate \<Rightarrow> int \<Rightarrow> int \<Rightarrow> string" where
  "post_cutoff_observation c cutoff as_of =
     (let post = post_cutoff_supports c cutoff as_of in
      if post \<noteq> [] then sp_retrieved_at (first_min sp_retrieved_at post) else cd_observed_at c)"

text \<open>\<open>_appendix_entry\<close>\<close>

definition appendix_entry_for ::
  "mw_hasher \<Rightarrow> matchweek_freeze \<Rightarrow> revision_candidate \<Rightarrow> appendix_event \<Rightarrow> appendix_disposition \<Rightarrow>
   string \<Rightarrow> validity_review \<Rightarrow> string \<Rightarrow> string \<Rightarrow> (mw_error, appendix_entry) res" where
  "appendix_entry_for H f c event disposition observed review reason_code reason =
     (let m = frozen_membership_of f (cd_fixture_id c); mid = co_matchweek_id (fz_cutoff f);
          key = mid @ '':'' @ cd_fixture_id c @ '':'' @ cd_revision_id c @ '':'' @ appendix_event_text event
      in appendix_init H
        \<lparr>ae_id = deterministic_identifier H ''post_cutoff_appendix'' key, ae_event_key = key,
         ae_matchweek_id = mid, ae_subject_kind = ''FIXTURE'', ae_subject_id = cd_fixture_id c,
         ae_fixture_id = Some (cd_fixture_id c), ae_membership_id = map_option fm_id m,
         ae_revision_id = Some (cd_revision_id c), ae_revision_digest = Some (cd_revision_digest c),
         ae_event = event, ae_disposition = disposition,
         ae_settlement = (if disposition = WITHDRAWN then Some ''VOID'' else None),
         ae_original_kickoff = Option.bind m fm_kickoff_utc, ae_current_kickoff = cd_kickoff_utc c,
         ae_observed_at = observed, ae_review = review, ae_reason_code = reason_code,
         ae_reason = reason, ae_digest = []\<rparr>)"

text \<open>The entry \<open>append_post_cutoff_revision\<close> builds for the revision it looks at.\<close>

definition late_entry ::
  "mw_hasher \<Rightarrow> source_tables \<Rightarrow> matchweek_freeze \<Rightarrow> revision_candidate list \<Rightarrow> int \<Rightarrow>
   validity_review option \<Rightarrow> revision_candidate \<Rightarrow> (mw_error, appendix_entry) res" where
  "late_entry H t f fixture_candidates as_of review c =
     (let cutoff = instant_at (co_utc (fz_cutoff f)); w = fz_window f;
          observed = post_cutoff_observation c cutoff as_of in
      case frozen_membership_of f (cd_fixture_id c) of
        Some m \<Rightarrow>
          if fm_state m \<noteq> INCLUDED then
            (let (event, reason_code, reason) =
                   outside_event w (list_ex (\<lambda>x. valid_supports x cutoff \<noteq> []) fixture_candidates) c
             in appendix_entry_for H f c event APPENDIX_ONLY observed
                  (case review of None \<Rightarrow> empty_review | Some v \<Rightarrow> v) reason_code reason)
          else if previously_withdrawn f (cd_fixture_id c) then
            appendix_entry_for H f c (withdrawn_event w c) WITHDRAWN observed
              (case review of None \<Rightarrow> default_review | Some v \<Rightarrow> v) ''WITHDRAWAL_NOT_RESTORED''
              ''The fixture was already withdrawn from the frozen Matchweek; a later reschedule cannot restore its production decision.''
          else
            (let (event, disposition, reason_code, reason) =
                   standing_event w cutoff m review
                     (material_conflicts t (cd_fixture_id c) (instant_at observed) \<noteq> []) c
             in appendix_entry_for H f c event disposition observed
                  (case review of None \<Rightarrow> default_review | Some v \<Rightarrow> v) reason_code reason)
      | None \<Rightarrow>
          (let (event, reason_code, reason) =
                 outside_event w (list_ex (\<lambda>x. valid_supports x cutoff \<noteq> []) fixture_candidates) c
           in appendix_entry_for H f c event APPENDIX_ONLY observed
                (case review of None \<Rightarrow> empty_review | Some v \<Rightarrow> v) reason_code reason))"

section \<open>append_post_cutoff_revision\<close>

text \<open>\<open>_revision_candidate\<close>\<close>

definition revision_candidate_of ::
  "source_tables \<Rightarrow> string \<Rightarrow> string \<Rightarrow> (mw_error, revision_candidate) res" where
  "revision_candidate_of t season revision_id =
     bindR (load_revision_candidates t season) (\<lambda>cs.
     case find (\<lambda>c. cd_revision_id c = revision_id) cs of
       Some c \<Rightarrow> Inr c
     | None \<Rightarrow> Inl (MatchweekError ''MV-T05-REVISION_NOT_FOUND''
         (''Fixture Revision '' @ revision_id @ '' does not exist.'')))"

text \<open>The revision that is looked at: the one asked for, or the controlling one at the observation.\<close>

definition late_candidate ::
  "source_tables \<Rightarrow> string \<Rightarrow> string \<Rightarrow> string option \<Rightarrow> time_arg option \<Rightarrow> revision_candidate list \<Rightarrow>
   (mw_error, revision_candidate) res" where
  "late_candidate t season fixture_id revision_id as_of_utc fixture_candidates =
     (case revision_id of
        None \<Rightarrow>
          bindR (observation_time as_of_utc (map cd_observed_at fixture_candidates)) (\<lambda>boundary.
          case select_revision fixture_candidates boundary of
            Some c \<Rightarrow> Inr c
          | None \<Rightarrow> Inl (MatchweekError ''MV-T05-REVISION_NOT_FOUND''
              ''No Fixture Revision is available for the appendix event.''))
      | Some rid \<Rightarrow>
          bindR (revision_candidate_of t season rid) (\<lambda>c.
          bindR (guardR (cd_fixture_id c = fixture_id)
            (MatchweekError ''MV-T05-REVISION_FIXTURE_MISMATCH''
              ''The requested Fixture Revision belongs to a different fixture.'')) (\<lambda>_.
          Inr c)))"

text \<open>Everything up to the entry, which only reads.\<close>

definition late_revision_entry ::
  "mw_hasher \<Rightarrow> day_arg \<Rightarrow> string \<Rightarrow> string \<Rightarrow> string option \<Rightarrow> time_arg option \<Rightarrow>
   validity_review option \<Rightarrow> bool \<Rightarrow> mw_store \<Rightarrow> (mw_error, appendix_entry) res" where
  "late_revision_entry H friday fixture_id season revision_id as_of_utc review identity_unchanged st =
     (let t = ms_source st in
      bindR (read_frozen_matchweek H friday season st) (\<lambda>f.
      bindR (load_revision_candidates t season) (\<lambda>candidates.
      let fixture_candidates = filter (\<lambda>c. cd_fixture_id c = fixture_id) candidates in
      bindR (guardR (fixture_candidates \<noteq> []) (MatchweekError ''MV-T05-FIXTURE_NOT_FOUND''
        (''Fixture '' @ fixture_id @ '' does not exist.''))) (\<lambda>_.
      bindR (late_candidate t season fixture_id revision_id as_of_utc fixture_candidates) (\<lambda>c.
      let cutoff = instant_at (co_utc (fz_cutoff f)) in
      bindR (observation_time as_of_utc (map cd_observed_at fixture_candidates)) (\<lambda>as_of.
      bindR (guardR (instant_at (cd_observed_at c) \<le> as_of) (MatchweekError ''MV-T05-REVISION_NOT_AVAILABLE''
        ''The requested Fixture Revision was not known by the appendix observation time.'')) (\<lambda>_.
      bindR (guardR (\<not> (post_cutoff_supports c cutoff as_of = [] \<and> instant_at (cd_observed_at c) \<le> cutoff))
        (MatchweekError ''MV-T05-REVISION_NOT_POST_CUTOFF''
          ''The requested Fixture Revision was already known at the Research Cutoff.'')) (\<lambda>_.
      late_entry H t f fixture_candidates as_of (supplied_review review identity_unchanged) c))))))))"

definition append_post_cutoff_revision ::
  "mw_hasher \<Rightarrow> day_arg \<Rightarrow> string \<Rightarrow> string \<Rightarrow> string option \<Rightarrow> time_arg option \<Rightarrow>
   validity_review option \<Rightarrow> bool \<Rightarrow> appendix_entry mw_action" where
  "append_post_cutoff_revision H friday fixture_id season revision_id as_of_utc review identity_unchanged =
     bindA (readA (late_revision_entry H friday fixture_id season revision_id as_of_utc review identity_unchanged))
       (store_appendix_entry H)"

section \<open>append_post_cutoff_changes\<close>

text \<open>\<open>_unresolved_appendix_entry\<close>\<close>

definition unresolved_appendix_entry ::
  "mw_hasher \<Rightarrow> matchweek_freeze \<Rightarrow> unresolved_fixture \<Rightarrow> (mw_error, appendix_entry) res" where
  "unresolved_appendix_entry H f u =
     (let m = find (\<lambda>m. fm_subject_kind m = ''UNRESOLVED_FIXTURE_ROW'' \<and> fm_subject_id m = uf_id u)
            (fz_memberships f);
          mid = co_matchweek_id (fz_cutoff f);
          key = mid @ '':'' @ uf_id u @ '':'' @ uf_observed_at u @ '':IDENTITY_CONFLICT''
      in appendix_init H
        \<lparr>ae_id = deterministic_identifier H ''post_cutoff_appendix'' key, ae_event_key = key,
         ae_matchweek_id = mid, ae_subject_kind = ''UNRESOLVED_FIXTURE_ROW'', ae_subject_id = uf_id u,
         ae_fixture_id = None, ae_membership_id = map_option fm_id m, ae_revision_id = None,
         ae_revision_digest = None, ae_event = IDENTITY_CONFLICT, ae_disposition = APPENDIX_ONLY,
         ae_settlement = None, ae_original_kickoff = Option.bind m fm_kickoff_utc,
         ae_current_kickoff = uf_kickoff_utc u, ae_observed_at = uf_observed_at u,
         ae_review = empty_review, ae_reason_code = ''IDENTITY_UNRESOLVED_AFTER_CUTOFF'',
         ae_reason = ''The post-cutoff source row still has no canonical Fixture identity; it cannot become a retroactive Target Match.'',
         ae_digest = []\<rparr>)"

fun mapA :: "('a \<Rightarrow> 'b mw_action) \<Rightarrow> 'a list \<Rightarrow> 'b list mw_action" where
  "mapA g [] = liftA (Inr [])"
| "mapA g (x # xs) = bindA (g x) (\<lambda>y. bindA (mapA g xs) (\<lambda>ys. liftA (Inr (y # ys))))"

definition late_candidates :: "revision_candidate list \<Rightarrow> int \<Rightarrow> int \<Rightarrow> revision_candidate list" where
  "late_candidates candidates cutoff as_of =
     sort_key (\<lambda>c. (post_cutoff_observation c cutoff as_of, cd_fixture_id c, cd_revision_id c))
       (filter (\<lambda>c. post_cutoff_supports c cutoff as_of \<noteq> [] \<or>
           cutoff < instant_at (cd_observed_at c) \<and> instant_at (cd_observed_at c) \<le> as_of) candidates)"

definition sweep_time :: "time_arg option \<Rightarrow> string list \<Rightarrow> int \<Rightarrow> (mw_error, int) res" where
  "sweep_time as_of_utc observed cutoff =
     (if as_of_utc = None \<and> observed = [] then Inr cutoff else observation_time as_of_utc observed)"

definition append_post_cutoff_changes ::
  "mw_hasher \<Rightarrow> day_arg \<Rightarrow> string \<Rightarrow> time_arg option \<Rightarrow> (string \<times> validity_review) list \<Rightarrow>
   appendix_entry list mw_action" where
  "append_post_cutoff_changes H friday season as_of_utc reviews =
     bindA (readA (read_frozen_matchweek H friday season)) (\<lambda>f.
     let cutoff = instant_at (co_utc (fz_cutoff f)) in
     bindA (readA (\<lambda>st. load_revision_candidates (ms_source st) season)) (\<lambda>candidates.
     bindA (readA (\<lambda>st. load_unresolved_fixtures (ms_source st) season)) (\<lambda>unresolved.
     bindA (liftA (sweep_time as_of_utc (map cd_observed_at candidates @ map uf_observed_at unresolved) cutoff)) (\<lambda>as_of.
     bindA (mapA (\<lambda>c. append_post_cutoff_revision H friday (cd_fixture_id c) season
         (Some (cd_revision_id c)) (Some (TimeValue (dt_of_us as_of (Some 0))))
         (case map_of reviews (cd_revision_id c) of Some v \<Rightarrow> Some v
          | None \<Rightarrow> map_of reviews (cd_fixture_id c)) True)
       (late_candidates candidates cutoff as_of)) (\<lambda>events.
     bindA (mapA (\<lambda>u. bindA (liftA (unresolved_appendix_entry H f u)) (store_appendix_entry H))
       (filter (\<lambda>u. cutoff < instant_at (uf_observed_at u) \<and> instant_at (uf_observed_at u) \<le> as_of)
         unresolved)) (\<lambda>more.
     liftA (Inr (sort_key (\<lambda>e. (ae_observed_at e, ae_id e)) (events @ more)))))))))"

section \<open>replay_matchweek\<close>

record revision_reference =
  rf_fixture_id :: string
  rf_revision_id :: string
  rf_revision_digest :: string

record matchweek_replay =
  ry_freeze :: matchweek_freeze
  ry_revisions :: "revision_reference list"

definition replay_error :: "string \<Rightarrow> string \<Rightarrow> mw_error" where
  "replay_error suffix message = MatchweekError (''MV-T05-REPLAY_'' @ suffix) message"

text \<open>
  An error of the artifact store becomes the given refusal (the text of the error it wraps is left out
  of the message), a refusal of the module stays.
\<close>

definition refuse_as :: "mw_error \<Rightarrow> (mw_error, 'a) res \<Rightarrow> (mw_error, 'a) res" where
  "refuse_as e m =
     (case m of Inr x \<Rightarrow> Inr x | Inl (MatchweekError c message) \<Rightarrow> Inl (MatchweekError c message)
      | Inl _ \<Rightarrow> Inl e)"

definition replay_reference ::
  "source_tables \<Rightarrow> frozen_membership \<Rightarrow> (mw_error, revision_reference option) res" where
  "replay_reference t m =
     (case fm_revision_id m of
        None \<Rightarrow> Inr None
      | Some rid \<Rightarrow>
          (case fm_revision_digest m of
             None \<Rightarrow> Inl (replay_error ''REVISION_DIGEST_MISSING''
               (''Membership '' @ fm_id m @ '' has no controlling revision digest.''))
           | Some d \<Rightarrow>
               (case find (\<lambda>r. fr_id r = rid \<and> fr_fixture_id r = fm_subject_id m) (tb_revisions t) of
                  None \<Rightarrow> Inl (replay_error ''REVISION_MISSING''
                    (''Controlling Fixture Revision '' @ rid @ '' is missing.''))
                | Some r \<Rightarrow>
                    bindR (guardR (fr_digest r = d) (replay_error ''REVISION_DIGEST_MISMATCH''
                      (''Controlling Fixture Revision '' @ rid @ '' changed.''))) (\<lambda>_.
                    Inr (Some \<lparr>rf_fixture_id = fm_subject_id m, rf_revision_id = rid,
                               rf_revision_digest = d\<rparr>)))))"

definition replay_matchweek ::
  "mw_hasher \<Rightarrow> artifact_env \<Rightarrow> day_arg \<Rightarrow> string \<Rightarrow> string option \<Rightarrow> mw_store \<Rightarrow>
   (mw_error, matchweek_replay) res" where
  "replay_matchweek H env friday season digest_arg st =
     bindR (read_frozen_matchweek H friday season st) (\<lambda>f.
     let selected = (case digest_arg of None \<Rightarrow> fz_snapshot_digest f
                     | Some d \<Rightarrow> if d = [] then fz_snapshot_digest f else d) in
     bindR (refuse_as (replay_error ''MANIFEST_INVALID'' ''Frozen Snapshot Manifest could not be verified'')
       (verify_snapshot env selected)) (\<lambda>(outer_matchweek, outer_artifacts).
     bindR (guardR (outer_matchweek = co_matchweek_id (fz_cutoff f)) (replay_error ''MANIFEST_MISMATCH''
       ''Replay manifest does not belong to the requested Matchweek.'')) (\<lambda>_.
     bindR (guardR (selected = fz_snapshot_digest f) (replay_error ''MANIFEST_MISMATCH''
       ''Replay manifest is not the stored frozen Snapshot Manifest.'')) (\<lambda>_.
     bindR (guardR (fz_membership_digest f \<in> set outer_artifacts) (replay_error ''MEMBERSHIP_MANIFEST_MISSING''
       ''The frozen Snapshot Manifest does not reference the membership artifact.'')) (\<lambda>_.
     bindR (refuse_as (replay_error ''MEMBERSHIP_MANIFEST_INVALID'' ''Frozen membership artifact could not be verified'')
       (bindR (read_content env (fz_membership_digest f)) (manifest_from_bytes H))) (\<lambda>manifest.
     bindR (guardR (manifest_digest H manifest = fz_membership_digest f)
       (replay_error ''MEMBERSHIP_DIGEST_MISMATCH''
         ''The stored membership artifact digest does not match the freeze record.'')) (\<lambda>_.
     bindR (guardR (mm_memberships manifest = fz_memberships f) (replay_error ''MEMBERSHIP_MISMATCH''
       ''Stored membership rows differ from the frozen membership artifact.'')) (\<lambda>_.
     bindR (case read_content env (fz_revision_digest f) of
              Inr x \<Rightarrow> Inr x
            | Inl _ \<Rightarrow> Inl (replay_error ''REVISION_SNAPSHOT_INVALID''
                ''Frozen Fixture Revision snapshot could not be verified'')) (\<lambda>snapshot.
     bindR (guardR (sha_text H snapshot = fz_revision_digest f) (replay_error ''REVISION_SNAPSHOT_INVALID''
       ''Frozen Fixture Revision snapshot digest is invalid.'')) (\<lambda>_.
     bindR (mapR (replay_reference (ms_source st)) (fz_memberships f)) (\<lambda>references.
     Inr \<lparr>ry_freeze = f, ry_revisions = sort_key rf_revision_id (List.map_filter id references)\<rparr>)))))))))))"

end
