(* ===== verification/Matchweek_Manifest.thy ===== *)
theory Matchweek_Manifest
  imports Matchweek_Membership
begin

text \<open>
  The bytes of a membership manifest determine it: \<open>from_bytes\<close> accepts exactly the bytes that
  \<open>to_bytes\<close> writes for a manifest whose constructors accepted it, and returns that manifest.
\<close>

section \<open>Constructors\<close>

lemma check_stamp_iff: "check_stamp t msg = Inr u \<longleftrightarrow> (\<forall>s. t = Some s \<longrightarrow> canonical_stamp s)"
  by (cases t) (auto simp: check_stamp_def canonical_stamp_def)

lemma membership_expected_cong: "membership_expected_digest H (x\<lparr>fm_digest := d\<rparr>) = membership_expected_digest H x"
  by (simp add: membership_expected_digest_def membership_payload_def)

lemma membership_init_idem: "membership_init H x = Inr y \<Longrightarrow> membership_init H y = Inr y"
  by (auto simp: membership_init_def Let_def membership_expected_cong check_stamp_iff)

lemma membership_init_props:
  assumes "membership_init H x = Inr y"
  shows "y = x\<lparr>fm_digest := membership_expected_digest H x\<rparr>"
    and "fm_state y = INCLUDED \<longleftrightarrow> fm_target y"
    and "fm_revision_id y = None \<longleftrightarrow> fm_revision_digest y = None"
    and "\<And>s. fm_kickoff_utc y = Some s \<Longrightarrow> canonical_stamp s"
  using assms by (auto simp: membership_init_def Let_def check_stamp_iff)

lemma manifest_init_same: "manifest_init m = Inr n \<Longrightarrow> m = n \<and> manifest_init n = Inr n"
  by (auto simp: manifest_init_def)

section \<open>Canonical text\<close>

lemma json_char_ascii: "list_all (\<lambda>c. code c < 128) (json_char c)"
proof -
  have "code (hex_digit d) < 128" if "d < 16" for d
    using that by (auto simp: hex_digit_def)
  moreover have "code c div 16 < 16" using code_less [of c] by simp
  ultimately show ?thesis by (auto simp: json_char_def Let_def)
qed

lemma ascii_concat: "list_all (\<lambda>c. code c < 128) (concat xs) \<longleftrightarrow> list_all (list_all (\<lambda>c. code c < 128)) xs"
  by (induction xs) auto

lemma json_string_ascii: "list_all (\<lambda>c. code c < 128) (json_string s)"
  using json_char_ascii by (simp add: json_string_def ascii_concat list_all_iff)

lemma join_ascii:
  "list_all (list_all (\<lambda>c. code c < 128)) ts \<Longrightarrow> list_all (\<lambda>c. code c < 128) (join '','' ts)"
  by (induction ts) (auto simp: join_Cons)

lemma digits_ascii: "list_all (\<lambda>c. code c < 128) (nat_text n)"
  using nat_text_digits [of n] by (auto simp: list_all_iff is_digit_def)

lemma json_text_ascii: "json_plain v \<Longrightarrow> list_all (\<lambda>c. code c < 128) (json_text v)"
proof (induction v)
  case (PList vs)
  then have "list_all (list_all (\<lambda>c. code c < 128)) (map json_text vs)" by (auto simp: list_all_iff)
  from join_ascii [OF this] show ?case by simp
next
  case (PDict kvs)
  have "list_all (list_all (\<lambda>c. code c < 128)) (map pair_text (sort_key fst kvs))"
    using PDict json_string_ascii by (fastforce simp: list_all_iff pair_text_def)
  from join_ascii [OF this] show ?case unfolding json_text_pairs by simp
next
  case (PInt i)
  then show ?case by (simp add: int_text_def digits_ascii)
next
  case (PBool b)
  then show ?case by (cases b) (simp_all add: code_def)
next
  case (PStr s)
  then show ?case by (simp add: json_string_ascii)
qed (simp_all add: code_def)

lemma dict_get_norm:
  assumes "distinct (map fst d)"
  shows "dict_get (sort_key fst (map (\<lambda>p. (fst p, json_norm (snd p))) d)) k = json_norm (dict_get d k)"
proof -
  have "map_of (map (\<lambda>p. (fst p, json_norm (snd p))) d) k = map_option json_norm (map_of d k)"
    by (induction d) auto
  then show ?thesis
    using assms by (simp add: get_or_def map_of_sort_key comp_def split: option.split)
qed

definition norm_dict :: "pydict \<Rightarrow> pydict" where
  "norm_dict d = sort_key fst (map (\<lambda>p. (fst p, json_norm (snd p))) d)"

lemma json_norm_dict: "json_norm (PDict d) = PDict (norm_dict d)"
  by (simp add: norm_dict_def)

lemma norm_dict_get: "distinct (map fst d) \<Longrightarrow> dict_get (norm_dict d) k = json_norm (dict_get d k)"
  unfolding norm_dict_def by (rule dict_get_norm)

lemma json_norm_scalars [simp]:
  "json_norm (opt_str x) = opt_str x" "json_norm (str_list xs) = str_list xs"
  "json_plain (opt_str x)" "json_plain (str_list xs)"
  by (cases x; simp add: str_list_def list_all_iff)+

section \<open>Memberships\<close>

lemma strings_of_strings: "strings_of (map PStr xs) = Some xs"
  by (induction xs) simp_all

lemma membership_dict_props: "distinct (map fst (membership_to_dict x))" "json_plain (PDict (membership_to_dict x))"
  by (simp_all add: membership_to_dict_def membership_payload_def)

lemma membership_state_text: "membership_state_of (membership_text s) = Inr s"
  by (cases s) (simp_all add: membership_state_of_def)

lemma mw_fields:
  "dict_get d k = PStr s \<Longrightarrow> mw_string d k = Inr s" "dict_get d k = opt_str x \<Longrightarrow> mw_optional_string d k = Inr x"
  "dict_get d k = PBool b \<Longrightarrow> mw_bool d k = Inr b" "dict_get d k = PInt i \<Longrightarrow> mw_int d k = Inr i"
  by (cases x; simp add: mw_string_def mw_optional_string_def mw_bool_def mw_int_def)+

lemma membership_fields:
  fixes x :: frozen_membership
  defines "d \<equiv> norm_dict (membership_to_dict x)"
  shows "dict_get d ''conflict_predicates'' = str_list (fm_conflict_predicates x)"
    "mw_string d ''membership_id'' = Inr (fm_id x)" "mw_string d ''matchweek_id'' = Inr (fm_matchweek_id x)"
    "mw_string d ''subject_kind'' = Inr (fm_subject_kind x)" "mw_string d ''subject_id'' = Inr (fm_subject_id x)"
    "mw_string d ''membership_state'' = Inr (membership_text (fm_state x))" "mw_bool d ''target_match'' = Inr (fm_target x)"
    "mw_optional_string d ''controlling_revision_id'' = Inr (fm_revision_id x)"
    "mw_optional_string d ''controlling_revision_digest'' = Inr (fm_revision_digest x)"
    "mw_int d ''source_authority_rank'' = Inr (fm_authority_rank x)" "mw_string d ''source_authority'' = Inr (fm_authority x)"
    "mw_optional_string d ''original_kickoff_utc'' = Inr (fm_kickoff_utc x)"
    "mw_optional_string d ''original_kickoff_local_text'' = Inr (fm_kickoff_local x)"
    "mw_bool d ''material_conflict'' = Inr (fm_material_conflict x)" "mw_string d ''reason_code'' = Inr (fm_reason_code x)"
    "mw_string d ''reason'' = Inr (fm_reason x)" "mw_string d ''decision_state'' = Inr (fm_decision_state x)"
    "mw_string d ''digest'' = Inr (fm_digest x)"
proof -
  have get: "dict_get d k = json_norm (dict_get (membership_to_dict x) k)" for k
    unfolding d_def by (rule norm_dict_get [OF membership_dict_props(1)])
  note simps = membership_to_dict_def membership_payload_def get_or_def
  show "dict_get d ''conflict_predicates'' = str_list (fm_conflict_predicates x)" unfolding get by (simp add: simps)
  show "mw_string d ''membership_id'' = Inr (fm_id x)" "mw_string d ''matchweek_id'' = Inr (fm_matchweek_id x)"
    "mw_string d ''subject_kind'' = Inr (fm_subject_kind x)" "mw_string d ''subject_id'' = Inr (fm_subject_id x)"
    "mw_string d ''membership_state'' = Inr (membership_text (fm_state x))" "mw_string d ''source_authority'' = Inr (fm_authority x)"
    "mw_string d ''reason_code'' = Inr (fm_reason_code x)" "mw_string d ''reason'' = Inr (fm_reason x)"
    "mw_string d ''decision_state'' = Inr (fm_decision_state x)" "mw_string d ''digest'' = Inr (fm_digest x)"
    by (rule mw_fields(1); unfold get; simp add: simps)+
  show "mw_optional_string d ''controlling_revision_id'' = Inr (fm_revision_id x)"
    "mw_optional_string d ''controlling_revision_digest'' = Inr (fm_revision_digest x)"
    "mw_optional_string d ''original_kickoff_utc'' = Inr (fm_kickoff_utc x)"
    "mw_optional_string d ''original_kickoff_local_text'' = Inr (fm_kickoff_local x)"
    by (rule mw_fields(2); unfold get; simp add: simps)+
  show "mw_bool d ''target_match'' = Inr (fm_target x)" "mw_bool d ''material_conflict'' = Inr (fm_material_conflict x)"
    by (rule mw_fields(3); unfold get; simp add: simps)+
  show "mw_int d ''source_authority_rank'' = Inr (fm_authority_rank x)"
    by (rule mw_fields(4); unfold get; simp add: simps)
qed

lemma membership_reads_back:
  assumes "membership_init H x = Inr x"
  shows "membership_from_dict H (norm_dict (membership_to_dict x)) = Inr x"
  unfolding membership_from_dict_def membership_fields
  using assms by (cases x) (simp add: str_list_def strings_of_strings membership_state_text)

section \<open>Manifests\<close>

lemma manifest_object_props: "distinct (map fst (manifest_object H m))" "json_plain (PDict (manifest_object H m))"
  "fst ` set (norm_dict (manifest_object H m)) = set manifest_keys"
  using membership_dict_props
  by (auto simp: manifest_object_def manifest_payload_def list_all_iff norm_dict_def manifest_keys_def)

lemma dicts_of_dicts: "dicts_of (map PDict ds) = Some ds"
  by (induction ds) simp_all

lemma manifest_fields:
  fixes m :: membership_manifest and H :: mw_hasher
  defines "d \<equiv> norm_dict (manifest_object H m)"
  shows "dict_get d ''memberships'' = PList (map PDict (map (norm_dict \<circ> membership_to_dict) (mm_memberships m)))"
    "mw_string d ''matchweek_id'' = Inr (mm_matchweek_id m)" "mw_string d ''season'' = Inr (mm_season m)"
    "mw_string d ''friday_local'' = Inr (mm_friday_local m)" "mw_string d ''window_start_utc'' = Inr (mm_window_start m)"
    "mw_string d ''window_end_utc'' = Inr (mm_window_end m)" "mw_string d ''cutoff_id'' = Inr (mm_cutoff_id m)"
    "mw_string d ''cutoff_utc'' = Inr (mm_cutoff_utc m)" "mw_string d ''rules_version'' = Inr (mm_rules_version m)"
    "mw_int d ''schema_version'' = Inr (mm_schema_version m)"
    "mw_string d ''aggregate_sha256'' = Inr (manifest_aggregate H m)"
proof -
  have get: "dict_get d k = json_norm (dict_get (manifest_object H m) k)" for k
    unfolding d_def by (rule norm_dict_get [OF manifest_object_props(1)])
  note simps = manifest_object_def manifest_payload_def get_or_def
  show "dict_get d ''memberships'' = PList (map PDict (map (norm_dict \<circ> membership_to_dict) (mm_memberships m)))"
    unfolding get by (simp add: simps norm_dict_def)
  show "mw_string d ''matchweek_id'' = Inr (mm_matchweek_id m)" "mw_string d ''season'' = Inr (mm_season m)"
    "mw_string d ''friday_local'' = Inr (mm_friday_local m)" "mw_string d ''window_start_utc'' = Inr (mm_window_start m)"
    "mw_string d ''window_end_utc'' = Inr (mm_window_end m)" "mw_string d ''cutoff_id'' = Inr (mm_cutoff_id m)"
    "mw_string d ''cutoff_utc'' = Inr (mm_cutoff_utc m)" "mw_string d ''rules_version'' = Inr (mm_rules_version m)"
    "mw_string d ''aggregate_sha256'' = Inr (manifest_aggregate H m)"
    by (rule mw_fields(1); unfold get; simp add: simps)+
  show "mw_int d ''schema_version'' = Inr (mm_schema_version m)"
    by (rule mw_fields(4); unfold get; simp add: simps)
qed

lemma manifest_loads: "json_loads (manifest_bytes H m) = Some (PDict (norm_dict (manifest_object H m)))"
  unfolding manifest_bytes_def json_loads_text [OF manifest_object_props(2)] json_norm_dict ..

lemma memberships_read_back:
  assumes "\<And>x. x \<in> set xs \<Longrightarrow> membership_init H x = Inr x"
  shows "mapR (membership_from_dict H) (map (norm_dict \<circ> membership_to_dict) xs) = Inr xs"
  using assms by (induction xs) (simp_all add: membership_reads_back)

lemma membership_from_dict_init: "membership_from_dict H d = Inr x \<Longrightarrow> membership_init H x = Inr x"
  unfolding membership_from_dict_def by (auto split: option.splits intro: membership_init_idem)

lemma manifest_reads_back:
  assumes "manifest_init m = Inr m" and "\<And>x. x \<in> set (mm_memberships m) \<Longrightarrow> membership_init H x = Inr x"
  shows "manifest_from_bytes H (manifest_bytes H m) = Inr m"
proof -
  have ascii: "list_all (\<lambda>c. code c < 128) (manifest_bytes H m)"
    unfolding manifest_bytes_def by (rule json_text_ascii [OF manifest_object_props(2)])
  have "manifest_init \<lparr>mm_matchweek_id = mm_matchweek_id m, mm_season = mm_season m, mm_friday_local = mm_friday_local m,
      mm_window_start = mm_window_start m, mm_window_end = mm_window_end m, mm_cutoff_id = mm_cutoff_id m,
      mm_cutoff_utc = mm_cutoff_utc m, mm_memberships = mm_memberships m, mm_rules_version = mm_rules_version m,
      mm_schema_version = mm_schema_version m\<rparr> = Inr m" using assms(1) by (cases m) simp
  then show ?thesis
    using ascii memberships_read_back [OF assms(2)] unfolding manifest_from_bytes_def
    by (simp add: manifest_loads manifest_fields manifest_object_props(3) dicts_of_dicts del: map_map)
qed

lemma mapR_membership_init: "mapR (membership_from_dict H) ds = Inr xs \<Longrightarrow> x \<in> set xs \<Longrightarrow> membership_init H x = Inr x"
  by (drule (1) mapR_in_set) (auto intro: membership_from_dict_init)

lemma manifest_init_members:
  "manifest_init \<lparr>mm_matchweek_id = a, mm_season = b, mm_friday_local = c, mm_window_start = d, mm_window_end = e,
     mm_cutoff_id = f, mm_cutoff_utc = g, mm_memberships = xs, mm_rules_version = h, mm_schema_version = i\<rparr> = Inr m \<Longrightarrow>
   mm_memberships m = xs \<and> manifest_init m = Inr m"
  by (drule manifest_init_same) auto

lemma manifest_from_bytes_props:
  assumes "manifest_from_bytes H data = Inr m"
  shows "manifest_bytes H m = data" "manifest_init m = Inr m"
    "\<And>x. x \<in> set (mm_memberships m) \<Longrightarrow> membership_init H x = Inr x"
proof -
  have "manifest_bytes H m = data \<and> manifest_init m = Inr m \<and>
      (\<exists>ds. mapR (membership_from_dict H) ds = Inr (mm_memberships m))"
    using assms unfolding manifest_from_bytes_def
    by (auto split: option.splits pyval.splits if_splits dest!: manifest_init_members)
  then show "manifest_bytes H m = data" "manifest_init m = Inr m"
    "\<And>x. x \<in> set (mm_memberships m) \<Longrightarrow> membership_init H x = Inr x"
    by (auto intro: mapR_membership_init)
qed

end
