(* ===== verification/Matchweek_Knowledge.thy ===== *)
theory Matchweek_Knowledge
  imports Matchweek_Publish Matchweek_Manifest
begin

text \<open>
  What the memberships of a Matchweek depend on: of every revision, the supports known at the
  Research Cutoff. The known part of the candidates at a boundary keeps the revisions that are valid
  there, each with its known supports; the selection, and with it every Target Match, is the same
  over the known part.
\<close>

section \<open>The known part\<close>

text \<open>Stated by the times alone: a support is known from its retrieval and its publication on, a revision
  from its observation on, if it has a known support or none at all.\<close>

definition support_known :: "int \<Rightarrow> source_support \<Rightarrow> bool" where
  "support_known b s \<longleftrightarrow> instant_at (sp_retrieved_at s) \<le> b \<and> (\<forall>p \<in> set_option (sp_published_at s). instant_at p \<le> b)"

definition revision_known :: "int \<Rightarrow> revision_candidate \<Rightarrow> bool" where
  "revision_known b c \<longleftrightarrow> instant_at (cd_observed_at c) \<le> b \<and> (cd_supports c = [] \<or> list_ex (support_known b) (cd_supports c))"

definition as_known :: "int \<Rightarrow> revision_candidate \<Rightarrow> revision_candidate" where
  "as_known b c = c\<lparr>cd_supports := filter (support_known b) (cd_supports c)\<rparr>"

definition known_part :: "int \<Rightarrow> revision_candidate list \<Rightarrow> revision_candidate list" where
  "known_part b cs = map (as_known b) (filter (revision_known b) cs)"

lemma support_known_eq: "support_known = known_support"
  by (intro ext) (simp add: support_known_def known_support_def split: option.split)

lemma revision_known_valid: "revision_known b c \<longleftrightarrow> valid_supports c b \<noteq> []"
  by (auto simp: revision_known_def valid_supports_def support_known_eq Let_def list_ex_iff filter_empty_conv)

lemma known_part_valid: "known_part b cs = map (as_known b) (filter (\<lambda>c. valid_supports c b \<noteq> []) cs)"
proof -
  have "revision_known b = (\<lambda>c. valid_supports c b \<noteq> [])" by (intro ext) (rule revision_known_valid)
  then show ?thesis by (simp add: known_part_def)
qed

lemma as_known_simps [simp]:
  "cd_fixture_id (as_known b c) = cd_fixture_id c" "cd_identity_state (as_known b c) = cd_identity_state c"
  "cd_revision_id (as_known b c) = cd_revision_id c" "cd_revision_digest (as_known b c) = cd_revision_digest c"
  "cd_kickoff_state (as_known b c) = cd_kickoff_state c" "cd_kickoff_utc (as_known b c) = cd_kickoff_utc c"
  "cd_kickoff_local (as_known b c) = cd_kickoff_local c" "cd_status (as_known b c) = cd_status c"
  "cd_observed_at (as_known b c) = cd_observed_at c"
  by (simp_all add: as_known_def)

lemma valid_supports_as_known: "valid_supports c b \<noteq> [] \<Longrightarrow> valid_supports (as_known b c) b = valid_supports c b"
  by (auto simp: valid_supports_def as_known_def support_known_eq Let_def observation_support_def split: if_splits)

lemma valid_supports_known: "s \<in> set (valid_supports c b) \<Longrightarrow> known_support b s"
  by (auto simp: valid_supports_def Let_def observation_support_def known_support_def split: if_splits)

lemma revision_key_as_known: "valid_supports c b \<noteq> [] \<Longrightarrow> revision_key b (as_known b c) = revision_key b c"
  by (simp add: revision_key_def valid_supports_as_known)

lemma known_part_Nil_iff: "known_part b cs = [] \<longleftrightarrow> filter (\<lambda>c. valid_supports c b \<noteq> []) cs = []"
  by (simp add: known_part_valid)

lemma select_revision_None: "select_revision cs b = None \<longleftrightarrow> known_part b cs = []"
  by (simp add: select_revision_def known_part_Nil_iff Let_def)

lemma select_revision_Some:
  assumes "select_revision cs b = Some c"
  shows "c \<in> set cs" "valid_supports c b \<noteq> []"
    "\<And>d. d \<in> set cs \<Longrightarrow> valid_supports d b \<noteq> [] \<Longrightarrow> revision_key b d \<le> revision_key b c"
proof -
  let ?v = "filter (\<lambda>c. valid_supports c b \<noteq> []) cs"
  have c: "?v \<noteq> []" "c = first_max (revision_key b) ?v"
    using assms by (auto simp: select_revision_def Let_def split: if_splits)
  have "c \<in> set ?v" using first_max_props(1) [OF c(1)] c(2) by simp
  then show "c \<in> set cs" "valid_supports c b \<noteq> []" by auto
  show "revision_key b d \<le> revision_key b c" if "d \<in> set cs" "valid_supports d b \<noteq> []" for d
    using first_max_props(2) [OF c(1), of d "revision_key b"] that c(2) by simp
qed

lemma select_known_part: "select_revision (known_part b cs) b = map_option (as_known b) (select_revision cs b)"
proof (cases "known_part b cs = []")
  case True
  then show ?thesis using select_revision_None [of cs b] by (simp add: select_revision_def)
next
  case False
  let ?v = "filter (\<lambda>c. valid_supports c b \<noteq> []) cs"
  have v: "?v \<noteq> []" using False by (simp add: known_part_Nil_iff)
  have "filter (\<lambda>c. valid_supports c b \<noteq> []) (known_part b cs) = known_part b cs"
    by (rule filter_True) (auto simp: known_part_valid valid_supports_as_known)
  moreover have "first_max (revision_key b) (known_part b cs) = as_known b (first_max (revision_key b) ?v)"
    unfolding known_part_valid using v by (rule first_max_map) (simp add: revision_key_as_known)
  ultimately show ?thesis using False v by (simp add: select_revision_def Let_def)
qed

section \<open>Grouping by fixture\<close>

lemma known_part_group:
  "known_part b (filter (\<lambda>c. cd_fixture_id c = k) cs) = filter (\<lambda>c. cd_fixture_id c = k) (known_part b cs)"
  by (induction cs) (simp_all add: known_part_valid)

definition fixture_groups :: "revision_candidate list \<Rightarrow> (string \<times> revision_candidate list) list" where
  "fixture_groups cs = sort_key fst (group_by cd_fixture_id cs)"

lemma fixture_groups_props:
  "sorted (map fst (fixture_groups cs))" "distinct (map fst (fixture_groups cs))"
  "set (fixture_groups cs) = {(k, filter (\<lambda>c. cd_fixture_id c = k) cs) | k. k \<in> cd_fixture_id ` set cs}"
proof -
  show "sorted (map fst (fixture_groups cs))" by (simp add: fixture_groups_def)
  show "distinct (map fst (fixture_groups cs))"
    unfolding fixture_groups_def using group_by_distinct [of cd_fixture_id cs]
    by (metis mset_eq_imp_distinct_iff mset_map mset_sort)
  show "set (fixture_groups cs) = {(k, filter (\<lambda>c. cd_fixture_id c = k) cs) | k. k \<in> cd_fixture_id ` set cs}"
  proof (intro equalityI subsetI)
    fix p assume "p \<in> set (fixture_groups cs)"
    then have "(fst p, snd p) \<in> set (group_by cd_fixture_id cs)" by (simp add: fixture_groups_def)
    from group_by_mem(1,2) [OF this] show "p \<in> {(k, filter (\<lambda>c. cd_fixture_id c = k) cs) | k. k \<in> cd_fixture_id ` set cs}"
      by (cases p) simp
  next
    fix p assume "p \<in> {(k, filter (\<lambda>c. cd_fixture_id c = k) cs) | k. k \<in> cd_fixture_id ` set cs}"
    then show "p \<in> set (fixture_groups cs)" using group_by_key [of _ cs cd_fixture_id] by (auto simp: fixture_groups_def)
  qed
qed

lemma sorted_pairs_eq:
  assumes "sorted (map fst xs)" "distinct (map fst xs)" "sorted (map fst ys)" "distinct (map fst ys)" "set xs = set ys"
  shows "xs = ys"
proof -
  have "map fst xs = map fst ys"
    using assms by (intro sorted_distinct_set_unique) simp_all
  moreover have "inj_on fst (set xs \<union> set ys)" using assms(2,5) by (simp add: distinct_map)
  ultimately show ?thesis by (metis map_inj_on)
qed

lemma fixture_groups_known:
  "fixture_groups (known_part b cs) =
     map (\<lambda>(k, g). (k, known_part b g)) (filter (\<lambda>g. known_part b (snd g) \<noteq> []) (fixture_groups cs))"
    (is "_ = map ?f (filter ?P ?gs)")
proof (rule sorted_pairs_eq)
  have keys: "map fst (map ?f (filter ?P ?gs)) = map fst (filter ?P ?gs)" by (simp add: comp_def split_beta)
  show "sorted (map fst (map ?f (filter ?P ?gs)))" "distinct (map fst (map ?f (filter ?P ?gs)))"
    unfolding keys using fixture_groups_props(1,2) [of cs]
    by (auto simp: sorted_filter distinct_map inj_on_def)
  show "set (fixture_groups (known_part b cs)) = set (map ?f (filter ?P ?gs))"
    unfolding set_map set_filter fixture_groups_props(3)
    by (auto simp: known_part_group image_iff filter_empty_conv) (force simp: known_part_valid)+
qed (rule fixture_groups_props)+

section \<open>Memberships\<close>

lemma fixture_membership_None:
  assumes "fixture_membership H t mid w b (k, cs) = Inr m" "select_revision cs b = None"
  shows "\<not> fm_target m"
  using assms unfolding fixture_membership_def
  by (auto simp: Let_def membership_decision_def split: prod.splits if_splits dest!: membership_init_props(1))

lemma fixture_membership_known:
  assumes "select_revision cs b = Some c"
  shows "fixture_membership H t mid w b (k, known_part b cs) = fixture_membership H t mid w b (k, cs)"
proof -
  have "reference_candidate (known_part b cs) b = as_known b c" "reference_candidate cs b = c"
    using assms by (simp_all add: reference_candidate_def select_known_part)
  moreover have "membership_decision w i (Some (as_known b c)) q = membership_decision w i (Some c) q" for i q
    by (simp add: membership_decision_def split: option.split)
  ultimately show ?thesis
    using assms select_revision_Some(2) [OF assms]
    by (simp add: fixture_membership_def select_known_part valid_supports_as_known)
qed

lemma material_conflicts_cong:
  "conflict_values t k b = conflict_values t' k b \<Longrightarrow> material_conflicts t k b = material_conflicts t' k b"
  by (simp add: material_conflicts_def)

lemma mapR_filter_target:
  assumes "mapR g xs = Inr ms" "mapR h (map f (filter P xs)) = Inr ms'"
    and "\<And>x m. x \<in> set xs \<Longrightarrow> \<not> P x \<Longrightarrow> g x = Inr m \<Longrightarrow> \<not> T m"
    and "\<And>x. x \<in> set xs \<Longrightarrow> P x \<Longrightarrow> h (f x) = g x"
  shows "filter T ms = filter T ms'"
  using assms
proof (induction xs arbitrary: ms ms')
  case (Cons x xs)
  from Cons.prems(1) obtain m ns where m: "g x = Inr m" "mapR g xs = Inr ns" "ms = m # ns" by auto
  show ?case
  proof (cases "P x")
    case True
    with Cons.prems(2,4) m(1) obtain ns' where "mapR h (map f (filter P xs)) = Inr ns'" "ms' = m # ns'" by auto
    then have "filter T ns = filter T ns'"
      using m(2) by (intro Cons.IH) (use Cons.prems(3,4) in auto)
    then show ?thesis using \<open>ms' = m # ns'\<close> m(3) by simp
  next
    case False
    then have "filter T ns = filter T ms'"
      using m(2) Cons.prems(2) by (intro Cons.IH) (use Cons.prems(3,4) in auto)
    then show ?thesis using False Cons.prems(3) [of x m] m by simp
  qed
qed simp

text \<open>The memberships of the unresolved rows are never Target Matches.\<close>

lemma unresolved_not_target: "unresolved_membership H mid u = Inr m \<Longrightarrow> \<not> fm_target m"
  by (auto simp: unresolved_membership_def dest!: membership_init_props(1))

lemma mapR_no_target: "mapR (unresolved_membership H mid) us = Inr ms \<Longrightarrow> filter fm_target ms = []"
  by (auto simp: filter_empty_conv dest: mapR_in_set unresolved_not_target)

lemma build_memberships_targets:
  assumes "build_memberships H t mid w season b cs = Inr ms"
  obtains fs rows where "mapR (fixture_membership H t mid w b) (fixture_groups cs) = Inr fs"
    "mset ms = mset (fs @ rows)" "filter fm_target rows = []" "filter fm_target ms = sort_key fm_id (filter fm_target fs)"
    "sorted (map fm_id ms)"
proof -
  from assms obtain fs us rows where *: "mapR (fixture_membership H t mid w b) (fixture_groups cs) = Inr fs"
    "mapR (unresolved_membership H mid) us = Inr rows" "ms = sort_key fm_id (fs @ rows)"
    unfolding build_memberships_def fixture_groups_def by auto
  have "filter fm_target rows = []" using *(2) by (rule mapR_no_target)
  then show ?thesis using that [of fs rows] * by (simp add: filter_sort)
qed

lemma targets_known_part:
  assumes "build_memberships H t mid w season b cs = Inr ms"
    and "mapR (fixture_membership H t mid w b) (fixture_groups (known_part b cs)) = Inr fs'"
  shows "filter fm_target ms = sort_key fm_id (filter fm_target fs')"
proof -
  obtain fs rows where fs: "mapR (fixture_membership H t mid w b) (fixture_groups cs) = Inr fs"
    "filter fm_target ms = sort_key fm_id (filter fm_target fs)"
    using assms(1) by (rule build_memberships_targets)
  have "filter fm_target fs = filter fm_target fs'"
  proof (rule mapR_filter_target [OF fs(1) assms(2) [unfolded fixture_groups_known]])
    fix g m
    assume "\<not> known_part b (snd g) \<noteq> []" "fixture_membership H t mid w b g = Inr m"
    then show "\<not> fm_target m"
      by (cases g) (auto simp: select_revision_None [symmetric] dest: fixture_membership_None)
  next
    fix g :: "string \<times> revision_candidate list"
    assume "known_part b (snd g) \<noteq> []"
    then obtain c where "select_revision (snd g) b = Some c" by (auto simp: select_revision_None [symmetric])
    then show "fixture_membership H t mid w b (case g of (k, g) \<Rightarrow> (k, known_part b g)) = fixture_membership H t mid w b g"
      by (cases g) (simp add: fixture_membership_known)
  qed
  with fs(2) show ?thesis by simp
qed

lemma known_groups_ok:
  assumes "mapR (fixture_membership H t mid w b) (fixture_groups cs) = Inr fs"
  obtains fs' where "mapR (fixture_membership H t mid w b) (fixture_groups (known_part b cs)) = Inr fs'"
proof -
  have "\<exists>ys. mapR (fixture_membership H t mid w b) (map (\<lambda>(k, g). (k, known_part b g)) (filter (\<lambda>g. known_part b (snd g) \<noteq> []) gs)) = Inr ys"
    if "mapR (fixture_membership H t mid w b) gs = Inr fs" for gs fs
    using that
  proof (induction gs arbitrary: fs)
    case (Cons g gs)
    from Cons.prems obtain m ns where *: "fixture_membership H t mid w b g = Inr m"
      "mapR (fixture_membership H t mid w b) gs = Inr ns" by auto
    have "fixture_membership H t mid w b (fst g, known_part b (snd g)) = Inr m" if ne: "known_part b (snd g) \<noteq> []"
    proof -
      obtain c where "select_revision (snd g) b = Some c" using ne by (auto simp: select_revision_None [symmetric])
      then show ?thesis using *(1) by (simp add: fixture_membership_known)
    qed
    with Cons.IH [OF *(2)] show ?case by (auto simp: split_beta)
  qed simp
  then show ?thesis using assms that unfolding fixture_groups_known by blast
qed

lemma fixture_membership_tables:
  assumes "\<And>k. conflict_values t k b = conflict_values t' k b"
  shows "fixture_membership H t mid w b = fixture_membership H t' mid w b"
proof -
  have "material_conflicts t k b = material_conflicts t' k b" for k
    using assms by (rule material_conflicts_cong)
  then show ?thesis unfolding fixture_membership_def by (simp only:)
qed

text \<open>Two states of knowledge that agree on what is known at the cutoff have the same Target Matches.\<close>

lemma targets_by_knowledge:
  assumes "known_part b cs = known_part b cs'" and "\<And>k. conflict_values t k b = conflict_values t' k b"
    and "build_memberships H t mid w season b cs = Inr ms"
    and "build_memberships H t' mid w season' b cs' = Inr ms'"
  shows "filter fm_target ms = filter fm_target ms'"
proof -
  obtain fs where "mapR (fixture_membership H t mid w b) (fixture_groups cs) = Inr fs"
    using assms(3) by (rule build_memberships_targets)
  then obtain ks where ks: "mapR (fixture_membership H t mid w b) (fixture_groups (known_part b cs)) = Inr ks"
    by (rule known_groups_ok)
  moreover have "mapR (fixture_membership H t' mid w b) (fixture_groups (known_part b cs')) = Inr ks"
    using ks by (simp add: assms(1) fixture_membership_tables [OF assms(2)])
  ultimately show ?thesis
    using targets_known_part [OF assms(3)] targets_known_part [OF assms(4)] by metis
qed

end
