(* ===== verification/Matchweek_Targets.thy ===== *)
theory Matchweek_Targets
  imports Matchweek_Knowledge
begin

text \<open>
  What a planned freeze contains: exactly the fixtures whose controlling revision at the Research
  Cutoff is confirmed, scheduled and in the window are Target Matches, and the cutoff is six hours
  before the earliest of them.
\<close>

section \<open>Decisions\<close>

lemma membership_decision_included:
  "fst (membership_decision w identity chosen conflict) = INCLUDED \<longleftrightarrow>
     (\<exists>c. chosen = Some c \<and> identity = ''CONFIRMED'' \<and> eligible_schedule w (c\<lparr>cd_identity_state := identity\<rparr>))"
  by (auto simp: membership_decision_def eligible_schedule_def split: option.splits)

lemma membership_decision_blocked:
  "fst (membership_decision w identity chosen conflict) = INCLUDED \<Longrightarrow>
     snd (snd (snd (membership_decision w identity chosen conflict))) =
       (if conflict then ''MATERIAL_CONFLICT_BLOCKED'' else ''ELIGIBLE_FOR_VETTING'')"
  by (auto simp: membership_decision_def split: option.splits if_splits)

lemma fixture_membership_fields:
  assumes "fixture_membership H t mid w b (k, cs) = Inr m"
  shows "fm_subject_id m = k" "fm_subject_kind m = ''FIXTURE''"
    "fm_target m \<longleftrightarrow> (\<exists>c. select_revision cs b = Some c \<and> eligible_schedule w c)"
    "select_revision cs b = Some c \<Longrightarrow> fm_kickoff_utc m = cd_kickoff_utc c"
    "select_revision cs b = Some c \<Longrightarrow> fm_revision_id m = Some (cd_revision_id c) \<and> fm_revision_digest m = Some (cd_revision_digest c)"
    "fm_target m \<Longrightarrow> fm_decision_state m =
       (if material_conflicts t k b = [] then ''ELIGIBLE_FOR_VETTING'' else ''MATERIAL_CONFLICT_BLOCKED'')"
    "fm_revision_id m = map_option cd_revision_id (select_revision cs b)"
    "fm_state m = INCLUDED \<longleftrightarrow> fm_target m" "\<And>s. fm_kickoff_utc m = Some s \<Longrightarrow> canonical_stamp s"
    "membership_init H m = Inr m"
proof -
  obtain state rcode reason decision where d:
    "membership_decision w (cd_identity_state (reference_candidate cs b)) (select_revision cs b)
       ((if select_revision cs b = None then [] else material_conflicts t k b) \<noteq> []) = (state, rcode, reason, decision)"
    by (metis prod_cases4)
  obtain x where x: "membership_init H x = Inr m" and f: "fm_subject_id x = k" "fm_subject_kind x = ''FIXTURE''"
    "fm_target x \<longleftrightarrow> state = INCLUDED" "fm_kickoff_utc x = Option.bind (select_revision cs b) cd_kickoff_utc"
    "fm_revision_id x = map_option cd_revision_id (select_revision cs b)"
    "fm_revision_digest x = map_option cd_revision_digest (select_revision cs b)" "fm_decision_state x = decision"
    using assms d by (auto simp: fixture_membership_def Let_def split: prod.splits)
  note m = membership_init_props(1) [OF x]
  show "fm_subject_id m = k" "fm_subject_kind m = ''FIXTURE''"
    "fm_revision_id m = map_option cd_revision_id (select_revision cs b)"
    "select_revision cs b = Some c \<Longrightarrow> fm_kickoff_utc m = cd_kickoff_utc c"
    "select_revision cs b = Some c \<Longrightarrow> fm_revision_id m = Some (cd_revision_id c) \<and> fm_revision_digest m = Some (cd_revision_digest c)"
    using f by (simp_all add: m)
  have inc: "state = INCLUDED \<longleftrightarrow> (\<exists>c. select_revision cs b = Some c \<and> eligible_schedule w c)"
    using membership_decision_included [of w "cd_identity_state (reference_candidate cs b)" "select_revision cs b"
        "(if select_revision cs b = None then [] else material_conflicts t k b) \<noteq> []"] unfolding d
    by (auto simp: reference_candidate_def eligible_schedule_def)
  then show t: "fm_target m \<longleftrightarrow> (\<exists>c. select_revision cs b = Some c \<and> eligible_schedule w c)"
    using f by (simp add: m)
  show "fm_decision_state m = (if material_conflicts t k b = [] then ''ELIGIBLE_FOR_VETTING'' else ''MATERIAL_CONFLICT_BLOCKED'')"
    if "fm_target m"
    using that t f inc membership_decision_blocked [of w "cd_identity_state (reference_candidate cs b)" "select_revision cs b"
        "(if select_revision cs b = None then [] else material_conflicts t k b) \<noteq> []"] unfolding d
    by (auto simp: m)
  show "fm_state m = INCLUDED \<longleftrightarrow> fm_target m" "\<And>s. fm_kickoff_utc m = Some s \<Longrightarrow> canonical_stamp s"
    using membership_init_props(2,4) [OF x] by blast+
  show "membership_init H m = Inr m" using x by (rule membership_init_idem)
qed

lemma unresolved_membership_fields:
  assumes "unresolved_membership H mid u = Inr m"
  shows "fm_subject_kind m = ''UNRESOLVED_FIXTURE_ROW''" "fm_revision_id m = None" "fm_subject_id m = uf_id u"
    "membership_init H m = Inr m" "fm_state m = INDETERMINATE" "fm_matchweek_id m = mid"
proof -
  show "membership_init H m = Inr m"
    using assms unfolding unresolved_membership_def by (rule membership_init_idem)
  show "fm_subject_kind m = ''UNRESOLVED_FIXTURE_ROW''" "fm_revision_id m = None" "fm_subject_id m = uf_id u"
    "fm_state m = INDETERMINATE" "fm_matchweek_id m = mid"
    unfolding membership_init_props(1) [OF assms [unfolded unresolved_membership_def]] by simp_all
qed

section \<open>The memberships of a cutoff\<close>

definition fixture_candidates_of :: "string \<Rightarrow> revision_candidate list \<Rightarrow> revision_candidate list" where
  "fixture_candidates_of k cs = filter (\<lambda>c. cd_fixture_id c = k) cs"

lemma build_membershipsE:
  assumes "build_memberships H t mid w season b cs = Inr ms" and "m \<in> set ms"
  obtains (fixture) "fixture_membership H t mid w b (fm_subject_id m, fixture_candidates_of (fm_subject_id m) cs) = Inr m"
      "fm_subject_id m \<in> cd_fixture_id ` set cs"
    | (unresolved) u where "unresolved_membership H mid u = Inr m"
proof -
  from assms(1) obtain fs us rows where *: "mapR (fixture_membership H t mid w b) (fixture_groups cs) = Inr fs"
    "mapR (unresolved_membership H mid) us = Inr rows" "ms = sort_key fm_id (fs @ rows)"
    unfolding build_memberships_def fixture_groups_def by auto
  show ?thesis
  proof (cases "m \<in> set fs")
    case True
    then obtain g where g: "g \<in> set (fixture_groups cs)" "fixture_membership H t mid w b g = Inr m"
      using mapR_in_set [OF *(1)] by blast
    from g(1) obtain k where k: "g = (k, fixture_candidates_of k cs)" "k \<in> cd_fixture_id ` set cs"
      unfolding fixture_groups_props(3) fixture_candidates_of_def by blast
    have "fm_subject_id m = k" using g(2) unfolding k(1) by (rule fixture_membership_fields(1))
    with g(2) k show ?thesis by (intro fixture) simp_all
  next
    case False
    then have "m \<in> set rows" using assms(2) *(3) by simp
    then show ?thesis using unresolved mapR_in_set [OF *(2)] by blast
  qed
qed

lemma build_memberships_fixture:
  assumes "build_memberships H t mid w season b cs = Inr ms" and "k \<in> cd_fixture_id ` set cs"
  obtains m where "m \<in> set ms" "fixture_membership H t mid w b (k, fixture_candidates_of k cs) = Inr m"
proof -
  from assms(1) obtain fs us rows where *: "mapR (fixture_membership H t mid w b) (fixture_groups cs) = Inr fs"
    "ms = sort_key fm_id (fs @ rows)"
    unfolding build_memberships_def fixture_groups_def by auto
  have "(k, fixture_candidates_of k cs) \<in> set (fixture_groups cs)"
    using assms(2) by (auto simp: fixture_groups_props(3) fixture_candidates_of_def)
  from mapR_set_in [OF *(1) this] show ?thesis using that *(2) by auto
qed

text \<open>The Target Matches are the fixtures whose controlling revision is eligible.\<close>

lemma targets_exact:
  assumes "build_memberships H t mid w season b cs = Inr ms"
  shows "(\<exists>m \<in> set ms. fm_target m \<and> fm_subject_id m = k) \<longleftrightarrow>
    (\<exists>c. select_revision (fixture_candidates_of k cs) b = Some c \<and> eligible_schedule w c)"
proof
  assume "\<exists>m \<in> set ms. fm_target m \<and> fm_subject_id m = k"
  then obtain m where m: "m \<in> set ms" "fm_target m" "fm_subject_id m = k" by blast
  from assms m(1) show "\<exists>c. select_revision (fixture_candidates_of k cs) b = Some c \<and> eligible_schedule w c"
  proof (cases rule: build_membershipsE)
    case fixture
    then show ?thesis using fixture_membership_fields(3) [OF fixture(1)] m by simp
  next
    case (unresolved u)
    then show ?thesis using m(2) unresolved_not_target by blast
  qed
next
  assume "\<exists>c. select_revision (fixture_candidates_of k cs) b = Some c \<and> eligible_schedule w c"
  then obtain c where c: "select_revision (fixture_candidates_of k cs) b = Some c" "eligible_schedule w c" by blast
  then have "k \<in> cd_fixture_id ` set cs"
    using select_revision_Some(1) [OF c(1)] by (auto simp: fixture_candidates_of_def)
  with assms obtain m where "m \<in> set ms" "fixture_membership H t mid w b (k, fixture_candidates_of k cs) = Inr m"
    by (rule build_memberships_fixture)
  then show "\<exists>m \<in> set ms. fm_target m \<and> fm_subject_id m = k"
    using fixture_membership_fields(1,3) c by blast
qed

lemma target_controlled:
  assumes "build_memberships H t mid w season b cs = Inr ms" and "m \<in> set ms" "fm_target m"
  obtains c where "select_revision (fixture_candidates_of (fm_subject_id m) cs) b = Some c" "eligible_schedule w c"
    "fm_kickoff_utc m = cd_kickoff_utc c" "fm_revision_id m = Some (cd_revision_id c)"
    "fm_decision_state m = (if material_conflicts t (fm_subject_id m) b = [] then ''ELIGIBLE_FOR_VETTING''
       else ''MATERIAL_CONFLICT_BLOCKED'')"
  using assms(1,2)
proof (cases rule: build_membershipsE)
  case fixture
  note f = fixture_membership_fields [OF fixture(1)]
  from f(3) assms(3) obtain c where c: "select_revision (fixture_candidates_of (fm_subject_id m) cs) b = Some c"
    "eligible_schedule w c" by blast
  then show ?thesis using that [of c] f(4,5,6) assms(3) by blast
next
  case (unresolved u)
  then show ?thesis using assms(3) unresolved_not_target by blast
qed

lemma build_memberships_init:
  assumes "build_memberships H t mid w season b cs = Inr ms" and "m \<in> set ms"
  shows "membership_init H m = Inr m"
  using assms by (cases rule: build_membershipsE) (auto intro: fixture_membership_fields(10) unresolved_membership_fields(4))

section \<open>The plan of a freeze\<close>

lemma stamp_in_range: "canonical_stamp s \<Longrightarrow> us_in_range (instant_at s)"
proof (elim canonical_stampE)
  fix e assume e: "valid_dt e" "dt_off e = Some 0" "instant_at s = instant e"
  have "1 \<le> date_ord (dt_year e) (dt_month e) (dt_day e) \<and> date_ord (dt_year e) (dt_month e) (dt_day e) \<le> max_ord"
    using e(1) by (intro date_ord_bounds) (simp add: valid_dt_def)
  then show "us_in_range (instant_at s)"
    using e time_us_bound [OF e(1)] by (simp add: us_in_range_def instant_def local_us_def max_ord_def)
qed

lemma friday_ordinal: "weekday n = 4 \<Longrightarrow> 5 \<le> n"
proof (rule ccontr)
  assume "weekday n = 4" "\<not> 5 \<le> n"
  then have "n \<in> {0, 1, 2, 3, 4}" by auto
  with \<open>weekday n = 4\<close> show False by (auto simp: weekday_def)
qed

lemma cutoff_in_range:
  assumes "weekday (friday_local w) = 4" "canonical_stamp k" "window_contains w k"
  shows "us_in_range (instant_at k - lead_time_us)"
  using stamp_in_range [OF assms(2)] friday_ordinal [OF assms(1)] assms(3)
  by (auto simp: us_in_range_def window_contains_def window_start_def lagos_us_def lead_time_us_def)

lemma cutoff_init_props:
  assumes "cutoff_init H c = Inr c'"
  shows "c' = c\<lparr>co_digest := mw_digest H (cutoff_payload c)\<rparr>" "cutoff_init H c' = Inr c'"
    "canonical_stamp (co_utc c')" "canonical_stamp (co_earliest_kickoff_utc c')"
  using assms by (auto simp: cutoff_init_def Let_def cutoff_payload_def canonical_stamp_def)

lemma plan_freezeE:
  assumes "plan_freeze H t w season as_of = Inr p"
  obtains b e where
    "load_revision_candidates t season = Inr (pl_candidates p)"
    "build_memberships H t (matchweek_id H season (friday_local w)) w season b (pl_candidates p) = Inr (pl_memberships p)"
    "e = first_min membership_kickoff_key (filter (\<lambda>m. fm_state m = INCLUDED) (pl_memberships p))"
    "filter (\<lambda>m. fm_state m = INCLUDED) (pl_memberships p) \<noteq> []"
    "opt_instant (fm_kickoff_utc e) - lead_time_us = b" "co_utc (pl_cutoff p) = iso_text b"
    "co_earliest_fixture_id (pl_cutoff p) = fm_subject_id e"
    "co_earliest_kickoff_utc (pl_cutoff p) = (case fm_kickoff_utc e of None \<Rightarrow> [] | Some k \<Rightarrow> k)"
    "co_matchweek_id (pl_cutoff p) = matchweek_id H season (friday_local w)"
    "co_id (pl_cutoff p) = cutoff_id H (matchweek_id H season (friday_local w))"
    "cutoff_init H (pl_cutoff p) = Inr (pl_cutoff p)" "manifest_init (pl_manifest p) = Inr (pl_manifest p)"
    "mm_memberships (pl_manifest p) = pl_memberships p"
    "co_lead_time_seconds (pl_cutoff p) = lead_time_seconds"
proof -
  from assms obtain cs obs b x ms c m where *: "load_revision_candidates t season = Inr cs"
    "derive_cutoff cs w obs = Inr (b, x)"
    "build_memberships H t (matchweek_id H season (friday_local w)) w season b cs = Inr ms"
    "filter (\<lambda>m. fm_state m = INCLUDED) ms \<noteq> []"
    "opt_instant (fm_kickoff_utc (first_min membership_kickoff_key (filter (\<lambda>m. fm_state m = INCLUDED) ms))) - lead_time_us = b"
    "cutoff_init H \<lparr>co_id = cutoff_id H (matchweek_id H season (friday_local w)),
         co_matchweek_id = matchweek_id H season (friday_local w), co_utc = iso_text b,
         co_earliest_fixture_id = fm_subject_id (first_min membership_kickoff_key (filter (\<lambda>m. fm_state m = INCLUDED) ms)),
         co_earliest_kickoff_utc = (case fm_kickoff_utc (first_min membership_kickoff_key (filter (\<lambda>m. fm_state m = INCLUDED) ms)) of None \<Rightarrow> [] | Some k \<Rightarrow> k),
         co_lead_time_seconds = lead_time_seconds, co_digest = []\<rparr> = Inr c"
    "manifest_init
        \<lparr>mm_matchweek_id = matchweek_id H season (friday_local w), mm_season = season, mm_friday_local = iso_date (friday_local w),
         mm_window_start = window_start_utc w, mm_window_end = window_end_utc w,
         mm_cutoff_id = co_id c, mm_cutoff_utc = co_utc c, mm_memberships = ms,
         mm_rules_version = rules_name, mm_schema_version = manifest_schema_version\<rparr> = Inr m"
    "p = \<lparr>pl_candidates = cs, pl_as_of = obs, pl_cutoff = c, pl_memberships = ms, pl_manifest = m\<rparr>"
    unfolding plan_freeze_def by (auto simp: Let_def split: prod.splits)
  note c = cutoff_init_props(1,2) [OF *(6)]
  show ?thesis
    by (rule that [of b "first_min membership_kickoff_key (filter (\<lambda>m. fm_state m = INCLUDED) ms)"])
      (use * c(2) manifest_init_members [OF *(7)] in \<open>simp_all add: c(1)\<close>)
qed

lemma target_kickoff:
  assumes "build_memberships H t mid w season b cs = Inr ms" and "m \<in> set ms" "fm_target m"
  obtains k where "fm_kickoff_utc m = Some k" "canonical_stamp k" "window_contains w k"
proof -
  obtain c where "eligible_schedule w c" "fm_kickoff_utc m = cd_kickoff_utc c"
    using assms by (rule target_controlled)
  moreover have "canonical_stamp s" if "fm_kickoff_utc m = Some s" for s
    using membership_init_props(4) [OF build_memberships_init [OF assms(1,2)]] that by blast
  ultimately show ?thesis using that by (auto simp: eligible_schedule_def split: option.splits)
qed

lemma target_iff_included:
  "build_memberships H t mid w season b cs = Inr ms \<Longrightarrow> m \<in> set ms \<Longrightarrow> fm_state m = INCLUDED \<longleftrightarrow> fm_target m"
  using membership_init_props(2) [OF build_memberships_init] by blast

lemma plan_cutoff:
  assumes "plan_freeze H t w season as_of = Inr p" and "weekday (friday_local w) = 4"
  defines "b \<equiv> instant_at (co_utc (pl_cutoff p))"
  shows "build_memberships H t (matchweek_id H season (friday_local w)) w season b (pl_candidates p) = Inr (pl_memberships p)"
    and "\<exists>m \<in> set (pl_memberships p). fm_target m \<and> fm_subject_id m = co_earliest_fixture_id (pl_cutoff p) \<and>
      fm_kickoff_utc m = Some (co_earliest_kickoff_utc (pl_cutoff p))"
    and "instant_at (co_earliest_kickoff_utc (pl_cutoff p)) = b + lead_time_us"
    and "m \<in> set (pl_memberships p) \<Longrightarrow> fm_target m \<Longrightarrow> \<exists>k. fm_kickoff_utc m = Some k \<and> b + lead_time_us \<le> instant_at k"
proof -
  obtain b' e where *: "build_memberships H t (matchweek_id H season (friday_local w)) w season b' (pl_candidates p) = Inr (pl_memberships p)"
    "e = first_min membership_kickoff_key (filter (\<lambda>m. fm_state m = INCLUDED) (pl_memberships p))"
    "filter (\<lambda>m. fm_state m = INCLUDED) (pl_memberships p) \<noteq> []"
    "opt_instant (fm_kickoff_utc e) - lead_time_us = b'" "co_utc (pl_cutoff p) = iso_text b'"
    "co_earliest_fixture_id (pl_cutoff p) = fm_subject_id e"
    "co_earliest_kickoff_utc (pl_cutoff p) = (case fm_kickoff_utc e of None \<Rightarrow> [] | Some k \<Rightarrow> k)"
    using assms(1) by (rule plan_freezeE)
  have e: "e \<in> set (pl_memberships p)" "fm_state e = INCLUDED"
    using first_min_props(1) [OF *(3), of membership_kickoff_key] *(2) by auto
  then have te: "fm_target e" using target_iff_included [OF *(1)] by blast
  obtain k where k: "fm_kickoff_utc e = Some k" "canonical_stamp k" "window_contains w k"
    using *(1) e(1) te by (rule target_kickoff)
  have b: "b' = b" "instant_at k = b + lead_time_us"
  proof -
    have "us_in_range b'" using cutoff_in_range [OF assms(2) k(2,3)] *(4) k(1) by (simp add: opt_instant_def)
    then show "b' = b" unfolding b_def *(5) by (simp add: iso_text_stamp)
    with *(4) k(1) show "instant_at k = b + lead_time_us" by (simp add: opt_instant_def)
  qed
  show "build_memberships H t (matchweek_id H season (friday_local w)) w season b (pl_candidates p) = Inr (pl_memberships p)"
    using *(1) by (simp add: b)
  show "\<exists>m \<in> set (pl_memberships p). fm_target m \<and> fm_subject_id m = co_earliest_fixture_id (pl_cutoff p) \<and>
      fm_kickoff_utc m = Some (co_earliest_kickoff_utc (pl_cutoff p))"
    using e(1) te k(1) *(6,7) by auto
  show "instant_at (co_earliest_kickoff_utc (pl_cutoff p)) = b + lead_time_us" using *(7) k(1) b by simp
  show "\<exists>k. fm_kickoff_utc m = Some k \<and> b + lead_time_us \<le> instant_at k" if m: "m \<in> set (pl_memberships p)" "fm_target m" for m
  proof -
    obtain l where l: "fm_kickoff_utc m = Some l" using *(1) m by (rule target_kickoff)
    have "membership_kickoff_key e \<le> membership_kickoff_key m"
      unfolding *(2) using m target_iff_included [OF *(1)] by (intro first_min_props(2) [OF *(3)]) simp
    then show ?thesis using k(1) l b(2) by (auto simp: membership_kickoff_key_def opt_instant_def less_eq_prod_def)
  qed
qed

end
