(* ===== verification/Matchweek_Rows.thy ===== *)
theory Matchweek_Rows
  imports Matchweek_Appendix Matchweek_Targets
begin

text \<open>
  Rows read back as they were written, what the inserts of a freeze add to the tables, and what
  reading a frozen Matchweek depends on.
\<close>

section \<open>Reading rows back\<close>

lemma strings_of_json: "strings_of (map json_norm (map PStr xs)) = Some xs"
  by (induction xs) simp_all

lemma membership_row_roundtrip:
  assumes "membership_init H m = Inr m" and "fm_matchweek_id m = mid"
  shows "membership_from_row H (membership_to_row mid stamp m) = Inr m"
proof -
  have l: "json_loads (json_text (str_list xs)) = Some (PList (map PStr xs))" for xs
    using json_loads_text [OF json_norm_scalars(4)] by (simp add: str_list_def comp_def)
  show ?thesis
    using assms unfolding membership_from_row_def
    by (cases m) (simp add: membership_to_row_def l strings_of_strings membership_state_text)
qed

lemma review_dict_props: "distinct (map fst (review_to_dict v))" "json_plain (PDict (review_to_dict v))"
proof -
  have b: "json_plain (opt_bool x)" for x by (cases x) (simp_all add: opt_bool_def)
  show "distinct (map fst (review_to_dict v))" "json_plain (PDict (review_to_dict v))"
    using b by (simp_all add: review_to_dict_def)
qed

lemma review_field_opt: "dict_get d k = opt_bool x \<Longrightarrow> review_field d k = Inr x"
  by (cases x) (simp_all add: review_field_def opt_bool_def)

lemma review_roundtrip: "review_from_json (json_text (PDict (review_to_dict v))) = Inr v"
proof -
  let ?d = "norm_dict (review_to_dict v)"
  have n: "json_norm (opt_bool x) = opt_bool x" for x by (cases x) (simp_all add: opt_bool_def)
  have get: "dict_get ?d k = json_norm (dict_get (review_to_dict v) k)" for k
    by (rule norm_dict_get [OF review_dict_props(1)])
  have fields: "review_field ?d ''identity_unchanged'' = Inr (vr_identity_unchanged v)"
    "review_field ?d ''scope_unchanged'' = Inr (vr_scope_unchanged v)"
    "review_field ?d ''kickoff_after_cutoff'' = Inr (vr_kickoff_after_cutoff v)"
    "review_field ?d ''no_postponement_or_cancellation'' = Inr (vr_no_postponement v)"
    "review_field ?d ''pre_match_valid'' = Inr (vr_pre_match_valid v)"
    "review_field ?d ''critical_evidence_valid'' = Inr (vr_critical_evidence_valid v)"
    "review_field ?d ''research_sufficiency_valid'' = Inr (vr_research_sufficiency_valid v)"
    "review_field ?d ''information_boundary_valid'' = Inr (vr_information_boundary_valid v)"
    by (rule review_field_opt; unfold get; simp add: review_to_dict_def get_or_def n)+
  show ?thesis
    unfolding review_from_json_def json_loads_text [OF review_dict_props(2)] json_norm_dict
    by (simp add: fields)
qed

lemma appendix_texts: "appendix_event_of (appendix_event_text e) = Inr e" "disposition_of (disposition_text d) = Inr d"
  by (cases e; simp add: appendix_event_of_def) (cases d; simp add: disposition_of_def)

lemma appendix_row_roundtrip: "appendix_init H e = Inr e \<Longrightarrow> appendix_from_row H (appendix_to_row e) = Inr e"
  unfolding appendix_from_row_def appendix_to_row_def
  by (cases e) (simp add: review_roundtrip appendix_texts del: json_text.simps)

lemma appendix_init_props:
  assumes "appendix_init H x = Inr y"
  shows "y = x\<lparr>ae_digest := appendix_expected_digest H x\<rparr>" "appendix_init H y = Inr y"
    "ae_disposition y = WITHDRAWN \<longleftrightarrow> ae_settlement y = Some ''VOID''"
proof -
  have e: "appendix_expected_digest H (x\<lparr>ae_digest := d\<rparr>) = appendix_expected_digest H x" for d
    by (simp add: appendix_expected_digest_def appendix_payload_def)
  show y: "y = x\<lparr>ae_digest := appendix_expected_digest H x\<rparr>"
    using assms by (auto simp: appendix_init_def Let_def)
  show "appendix_init H y = Inr y"
    using assms unfolding y by (auto simp: appendix_init_def Let_def e)
  show "ae_disposition y = WITHDRAWN \<longleftrightarrow> ae_settlement y = Some ''VOID''"
    using assms unfolding y by (auto simp: appendix_init_def Let_def split: if_splits)
qed

section \<open>Dates\<close>

lemma iso_date_roundtrip:
  assumes "1 \<le> n" "n \<le> max_ord"
  shows "date_fromisoformat (iso_date n) = Some n"
proof -
  obtain y m d where o': "ord_date n = (y, m, d)" by (cases "ord_date n")
  have v: "valid_date y m d" "date_ord y m d = n"
    using date_ord_ord_date [OF assms o'] by simp_all
  then have "y < 10000" "m < 100" "d < 100"
    using month_days_bounds(2) [of y m] by (auto simp: valid_date_def)
  then have "parse_date (date_text y m d) = Some (y, m, d)" by (rule parse_date_text)
  then show ?thesis using v by (simp add: date_fromisoformat_def iso_date_def o')
qed

lemma window_roundtrip:
  assumes "weekday (friday_local w) = 4" "friday_local w \<le> max_ord"
  shows "window_for_friday (DayText (iso_date (friday_local w))) = Inr w"
proof -
  have "date_fromisoformat (iso_date (friday_local w)) = Some (friday_local w)"
    using friday_ordinal [OF assms(1)] assms(2) by (intro iso_date_roundtrip) simp_all
  then show ?thesis using assms(1) by (simp add: window_for_friday_def date_value_def window_init_def)
qed

section \<open>Computations\<close>

lemma bindA_Inr: "bindA m f st = (Inr y, st') \<longleftrightarrow> (\<exists>x st1. m st = (Inr x, st1) \<and> f x st1 = (Inr y, st'))"
  by (auto simp: bindA_def split: prod.splits sum.splits)

lemma action_simps [simp]:
  "liftA r st = (r, st)" "readA g st = (g st, st)"
  by (simp_all add: liftA_def readA_def)

lemma transactionA_Inr: "transactionA u st = (Inr x, st') \<longleftrightarrow> u st = Inr st'"
  by (auto simp: transactionA_def split: sum.splits)

text \<open>The tables a frozen Matchweek is read from.\<close>

definition frozen_tables ::
  "mw_store \<Rightarrow> matchweek_row list \<times> cutoff_row list \<times> membership_row list \<times> freeze_row list \<times> appendix_row list" where
  "frozen_tables st = (ms_matchweeks st, ms_cutoffs st, ms_memberships st, ms_freezes st, ms_appendix st)"

lemma load_freeze_tables: "frozen_tables st = frozen_tables st' \<Longrightarrow> load_freeze H mid st = load_freeze H mid st'"
proof -
  assume "frozen_tables st = frozen_tables st'"
  then have "ms_matchweeks st = ms_matchweeks st'" "ms_cutoffs st = ms_cutoffs st'"
    "ms_memberships st = ms_memberships st'" "ms_freezes st = ms_freezes st'" "ms_appendix st = ms_appendix st'"
    by (simp_all add: frozen_tables_def)
  then show ?thesis unfolding load_freeze_def freeze_headers_def by (simp only:)
qed

lemma mw_add_identifier_frame:
  "mw_add_identifier k v st = Inr st' \<Longrightarrow> \<exists>ids. st' = st\<lparr>ms_identifiers := ids\<rparr>"
  by (cases st) (auto simp: mw_add_identifier_def split: if_splits)

text \<open>Adding rows of one Matchweek.\<close>

definition adds_rows :: "string \<Rightarrow> mw_store \<Rightarrow> mw_store \<Rightarrow> bool" where
  "adds_rows mid st st' \<longleftrightarrow>
     (\<exists>a b c d. ms_matchweeks st' = ms_matchweeks st @ a \<and> (\<forall>r \<in> set a. mr_id r = mid) \<and>
        ms_cutoffs st' = ms_cutoffs st @ b \<and> (\<forall>r \<in> set b. co_matchweek_id (cr_cutoff r) = mid) \<and>
        ms_memberships st' = ms_memberships st @ c \<and> (\<forall>r \<in> set c. br_matchweek_id r = mid) \<and>
        ms_freezes st' = ms_freezes st @ d \<and> (\<forall>r \<in> set d. zr_matchweek_id r = mid)) \<and>
     ms_appendix st' = ms_appendix st \<and> ms_source st' = ms_source st \<and> ms_writable st' = ms_writable st"

lemma adds_rows_refl: "frozen_tables st = frozen_tables st' \<Longrightarrow> ms_source st' = ms_source st \<Longrightarrow>
    ms_writable st' = ms_writable st \<Longrightarrow> adds_rows mid st st'"
  by (simp add: adds_rows_def frozen_tables_def)

lemma adds_rows_trans: "adds_rows mid st st1 \<Longrightarrow> adds_rows mid st1 st2 \<Longrightarrow> adds_rows mid st st2"
  unfolding adds_rows_def by (elim conjE exE) (auto simp: ball_Un)

lemma filter_other: "(\<And>r. r \<in> set b \<Longrightarrow> \<not> P r) \<Longrightarrow> filter P (a @ b) = filter P a"
  by (simp add: filter_empty_conv)

lemma comprehension_filter: "concat (map (\<lambda>x. if P x then f x else []) xs) = concat (map f (filter P xs))"
  by (induction xs) simp_all

lemma freeze_headers_filter:
  "freeze_headers st mid =
     concat (map (\<lambda>m. concat (map (\<lambda>c. map (\<lambda>z. (m, cr_cutoff c, z)) (filter (\<lambda>z. zr_matchweek_id z = mid) (ms_freezes st)))
       (filter (\<lambda>c. co_matchweek_id (cr_cutoff c) = mid) (ms_cutoffs st)))) (filter (\<lambda>m. mr_id m = mid) (ms_matchweeks st)))"
proof -
  show ?thesis
    unfolding freeze_headers_def comprehension_filter
    by (intro arg_cong [where f = concat] map_cong refl) (auto simp: concat_map_singleton)
qed

lemma load_freeze_other:
  assumes "adds_rows mid st st'" and "mid' \<noteq> mid"
  shows "load_freeze H mid' st' = load_freeze H mid' st"
proof -
  from assms(1) obtain a b c d where *: "ms_matchweeks st' = ms_matchweeks st @ a" "\<forall>r \<in> set a. mr_id r = mid"
    "ms_cutoffs st' = ms_cutoffs st @ b" "\<forall>r \<in> set b. co_matchweek_id (cr_cutoff r) = mid"
    "ms_memberships st' = ms_memberships st @ c" "\<forall>r \<in> set c. br_matchweek_id r = mid"
    "ms_freezes st' = ms_freezes st @ d" "\<forall>r \<in> set d. zr_matchweek_id r = mid" "ms_appendix st' = ms_appendix st"
    unfolding adds_rows_def by blast
  have "freeze_headers st' mid' = freeze_headers st mid'"
    unfolding freeze_headers_filter *(1,3,7) using *(2,4,8) assms(2) by (simp add: filter_other)
  moreover have "filter (\<lambda>r. br_matchweek_id r = mid') (ms_memberships st') = filter (\<lambda>r. br_matchweek_id r = mid') (ms_memberships st)"
    unfolding *(5) using *(6) assms(2) by (intro filter_other) auto
  ultimately show ?thesis unfolding load_freeze_def *(9) by (simp only:)
qed

end
