(* ===== verification/Matchweek_Frozen.thy ===== *)
theory Matchweek_Frozen
  imports Matchweek_Rows
begin

text \<open>
  What a freeze leaves in the tables and what reading it back gives; every operation of the module
  keeps the frozen Matchweeks it finds, and only the appendix of a Matchweek grows.
\<close>

section \<open>Inserts\<close>

lemma insert_matchweek_adds: "insert_matchweek r st = Inr st' \<Longrightarrow> adds_rows (mr_id r) st st'"
  by (cases st) (auto simp: insert_matchweek_def adds_rows_def split: if_splits)

lemma insert_cutoff_adds: "insert_cutoff r st = Inr st' \<Longrightarrow> adds_rows (co_matchweek_id (cr_cutoff r)) st st'"
  by (cases st) (auto simp: insert_cutoff_def Let_def adds_rows_def split: if_splits)

lemma insert_membership_adds: "insert_membership r st = Inr st' \<Longrightarrow> adds_rows (br_matchweek_id r) st st'"
  by (cases st) (auto simp: insert_membership_def adds_rows_def split: if_splits)

lemma insert_freeze_record_adds: "insert_freeze_record r st = Inr st' \<Longrightarrow> adds_rows (zr_matchweek_id r) st st'"
  by (cases st) (auto simp: insert_freeze_record_def adds_rows_def split: if_splits)

lemma add_identifier_adds: "mw_add_identifier k v st = Inr st' \<Longrightarrow> adds_rows mid st st'"
  by (drule mw_add_identifier_frame) (auto intro!: adds_rows_refl simp: frozen_tables_def)

lemma insert_membershipR_adds: "insert_membershipR mid stamp st m = Inr st' \<Longrightarrow> adds_rows mid st st'"
  by (auto simp: insert_membershipR_def membership_to_row_def
      dest!: insert_membership_adds intro: adds_rows_trans add_identifier_adds)

lemma insert_memberships_adds: "foldR (insert_membershipR mid stamp) st ms = Inr st' \<Longrightarrow> adds_rows mid st st'"
proof (induction ms arbitrary: st)
  case Nil
  then show ?case by (auto intro: adds_rows_refl)
next
  case (Cons m ms)
  then show ?case by (auto intro: adds_rows_trans insert_membershipR_adds)
qed

lemma insert_freeze_adds:
  assumes "insert_freeze w season c ms sd md rd stamp st = Inr st'"
  shows "adds_rows (co_matchweek_id c) st st'"
proof -
  from assms obtain st1 st2 st3 st4 st5 where "mw_add_identifier ''matchweek'' (co_matchweek_id c) st = Inr st1"
    "mw_add_identifier ''research_cutoff'' (co_id c) st1 = Inr st2"
    "insert_matchweek (matchweek_to_row w (co_matchweek_id c) season stamp) st2 = Inr st3"
    "insert_cutoff \<lparr>cr_cutoff = c, cr_created = stamp\<rparr> st3 = Inr st4"
    "foldR (insert_membershipR (co_matchweek_id c) stamp) st4 ms = Inr st5"
    "insert_freeze_record \<lparr>zr_matchweek_id = co_matchweek_id c, zr_cutoff_id = co_id c, zr_snapshot_digest = sd,
       zr_membership_digest = md, zr_revision_digest = rd, zr_frozen_at = stamp\<rparr> st5 = Inr st'"
    by (auto simp: insert_freeze_def Let_def)
  note s = this
  have "adds_rows (co_matchweek_id c) st2 st3" using insert_matchweek_adds [OF s(3)] by (simp add: matchweek_to_row_def)
  moreover have "adds_rows (co_matchweek_id c) st3 st4" using insert_cutoff_adds [OF s(4)] by simp
  moreover have "adds_rows (co_matchweek_id c) st5 st'" using insert_freeze_record_adds [OF s(6)] by simp
  ultimately show ?thesis
    using add_identifier_adds [OF s(1)] add_identifier_adds [OF s(2)] insert_memberships_adds [OF s(5)]
    by (blast intro: adds_rows_trans)
qed

section \<open>The rows of a fresh freeze\<close>

lemma insert_membershipR_exact:
  assumes "insert_membershipR mid stamp st m = Inr st'" and "fm_id m \<notin> br_id ` set (ms_memberships st)"
  shows "\<exists>ids. st' = st\<lparr>ms_identifiers := ids, ms_memberships := ms_memberships st @ [membership_to_row mid stamp m]\<rparr>"
proof -
  from assms(1) obtain st0 where a: "mw_add_identifier ''frozen_membership'' (fm_id m) st = Inr st0"
    and b: "insert_membership (membership_to_row mid stamp m) st0 = Inr st'"
    by (auto simp: insert_membershipR_def)
  obtain ids where e: "st0 = st\<lparr>ms_identifiers := ids\<rparr>" using mw_add_identifier_frame [OF a] by blast
  show ?thesis
    using b assms(2) unfolding e insert_membership_def
    by (cases st) (auto simp: membership_to_row_def split: if_splits)
qed

lemma insert_memberships_exact:
  assumes "foldR (insert_membershipR mid stamp) st ms = Inr st'"
    and "distinct (map fm_id ms)" and "\<And>m. m \<in> set ms \<Longrightarrow> fm_id m \<notin> br_id ` set (ms_memberships st)"
  shows "\<exists>ids. st' = st\<lparr>ms_identifiers := ids, ms_memberships := ms_memberships st @ map (membership_to_row mid stamp) ms\<rparr>"
  using assms
proof (induction ms arbitrary: st)
  case Nil
  then show ?case by (cases st) auto
next
  case (Cons m ms)
  from Cons.prems(1) obtain st1 where st1: "insert_membershipR mid stamp st m = Inr st1"
    "foldR (insert_membershipR mid stamp) st1 ms = Inr st'" by auto
  obtain ids where e: "st1 = st\<lparr>ms_identifiers := ids, ms_memberships := ms_memberships st @ [membership_to_row mid stamp m]\<rparr>"
    using st1(1) Cons.prems(3) [of m] by (auto dest: insert_membershipR_exact)
  have "\<exists>ids. st' = st1\<lparr>ms_identifiers := ids, ms_memberships := ms_memberships st1 @ map (membership_to_row mid stamp) ms\<rparr>"
  proof (intro Cons.IH st1(2))
    show "fm_id x \<notin> br_id ` set (ms_memberships st1)" if "x \<in> set ms" for x
    proof -
      from that Cons.prems(2) have "fm_id x \<noteq> fm_id m" by (auto simp: image_iff)
      with that Cons.prems(3) [of x] show ?thesis by (simp add: e membership_to_row_def)
    qed
  qed (use Cons.prems(2) in simp)
  then show ?case unfolding e by auto
qed

definition fresh_freeze :: "mw_store \<Rightarrow> mw_cutoff \<Rightarrow> frozen_membership list \<Rightarrow> bool" where
  "fresh_freeze st c ms \<longleftrightarrow>
     co_matchweek_id c \<notin> set (map mr_id (ms_matchweeks st)) \<and>
     co_matchweek_id c \<notin> set (map (co_matchweek_id \<circ> cr_cutoff) (ms_cutoffs st)) \<and>
     co_id c \<notin> set (map (co_id \<circ> cr_cutoff) (ms_cutoffs st)) \<and>
     co_matchweek_id c \<notin> set (map br_matchweek_id (ms_memberships st)) \<and>
     list_all (\<lambda>m. fm_id m \<notin> set (map br_id (ms_memberships st))) ms \<and>
     co_matchweek_id c \<notin> set (map zr_matchweek_id (ms_freezes st)) \<and>
     co_matchweek_id c \<notin> set (map pr_matchweek_id (ms_appendix st))"

lemma insert_freeze_exact:
  assumes "insert_freeze w season c ms sd md rd stamp st = Inr st'" and "fresh_freeze st c ms" "distinct (map fm_id ms)"
  defines "mid \<equiv> co_matchweek_id c"
  shows "ms_matchweeks st' = ms_matchweeks st @ [matchweek_to_row w mid season stamp]"
    "ms_cutoffs st' = ms_cutoffs st @ [\<lparr>cr_cutoff = c, cr_created = stamp\<rparr>]"
    "ms_memberships st' = ms_memberships st @ map (membership_to_row mid stamp) ms"
    "ms_freezes st' = ms_freezes st @ [\<lparr>zr_matchweek_id = mid, zr_cutoff_id = co_id c, zr_snapshot_digest = sd,
       zr_membership_digest = md, zr_revision_digest = rd, zr_frozen_at = stamp\<rparr>]"
    "ms_appendix st' = ms_appendix st" "ms_source st' = ms_source st" "ms_writable st' = ms_writable st"
proof -
  from assms(1) obtain st1 st2 st3 st4 st5 where s: "mw_add_identifier ''matchweek'' mid st = Inr st1"
    "mw_add_identifier ''research_cutoff'' (co_id c) st1 = Inr st2"
    "insert_matchweek (matchweek_to_row w mid season stamp) st2 = Inr st3"
    "insert_cutoff \<lparr>cr_cutoff = c, cr_created = stamp\<rparr> st3 = Inr st4"
    "foldR (insert_membershipR mid stamp) st4 ms = Inr st5"
    "insert_freeze_record \<lparr>zr_matchweek_id = mid, zr_cutoff_id = co_id c, zr_snapshot_digest = sd,
       zr_membership_digest = md, zr_revision_digest = rd, zr_frozen_at = stamp\<rparr> st5 = Inr st'"
    by (auto simp: insert_freeze_def Let_def mid_def)
  note fresh = assms(2) [unfolded fresh_freeze_def, folded mid_def]
  obtain ids where e2: "st2 = st\<lparr>ms_identifiers := ids\<rparr>"
    using mw_add_identifier_frame [OF s(1)] mw_add_identifier_frame [OF s(2)] by (cases st) auto
  have e3: "st3 = st2\<lparr>ms_matchweeks := ms_matchweeks st @ [matchweek_to_row w mid season stamp]\<rparr>"
    using s(3) fresh by (auto simp: insert_matchweek_def matchweek_to_row_def e2 split: if_splits)
  have e4: "st4 = st3\<lparr>ms_cutoffs := ms_cutoffs st @ [\<lparr>cr_cutoff = c, cr_created = stamp\<rparr>]\<rparr>"
    using s(4) fresh by (auto simp: insert_cutoff_def Let_def e2 e3 image_comp split: if_splits)
  obtain ids' where e5: "st5 = st4\<lparr>ms_identifiers := ids', ms_memberships := ms_memberships st4 @ map (membership_to_row mid stamp) ms\<rparr>"
    using insert_memberships_exact [OF s(5) assms(3)] fresh by (auto simp: e2 e3 e4 list_all_iff)
  have e6: "st' = st5\<lparr>ms_freezes := ms_freezes st @ [\<lparr>zr_matchweek_id = mid, zr_cutoff_id = co_id c, zr_snapshot_digest = sd,
       zr_membership_digest = md, zr_revision_digest = rd, zr_frozen_at = stamp\<rparr>]\<rparr>"
    using s(6) fresh by (auto simp: insert_freeze_record_def e2 e3 e4 e5 split: if_splits)
  show "ms_matchweeks st' = ms_matchweeks st @ [matchweek_to_row w mid season stamp]"
    "ms_cutoffs st' = ms_cutoffs st @ [\<lparr>cr_cutoff = c, cr_created = stamp\<rparr>]"
    "ms_memberships st' = ms_memberships st @ map (membership_to_row mid stamp) ms"
    "ms_freezes st' = ms_freezes st @ [\<lparr>zr_matchweek_id = mid, zr_cutoff_id = co_id c, zr_snapshot_digest = sd,
       zr_membership_digest = md, zr_revision_digest = rd, zr_frozen_at = stamp\<rparr>]"
    "ms_appendix st' = ms_appendix st" "ms_source st' = ms_source st" "ms_writable st' = ms_writable st"
    by (simp_all add: e2 e3 e4 e5 e6)
qed

lemma filter_only_new: "(\<And>x. x \<in> set xs \<Longrightarrow> \<not> P x) \<Longrightarrow> (\<And>y. y \<in> set ys \<Longrightarrow> P y) \<Longrightarrow> filter P (xs @ ys) = ys"
  by (simp add: filter_empty_conv filter_id_conv)

text \<open>A fresh freeze reads back as what was planned.\<close>

lemma mapR_roundtrip: "(\<And>x. x \<in> set xs \<Longrightarrow> f (g x) = Inr x) \<Longrightarrow> mapR f (map g xs) = Inr xs"
  by (induction xs) auto

lemma load_fresh_freeze:
  assumes "insert_freeze w season c ms sd md rd stamp st = Inr st'" and "fresh_freeze st c ms"
    and "sorted (map fm_id ms)" "distinct (map fm_id ms)" "cutoff_init H c = Inr c"
    and "\<And>m. m \<in> set ms \<Longrightarrow> membership_init H m = Inr m \<and> fm_matchweek_id m = co_matchweek_id c"
    and "weekday (friday_local w) = 4" "friday_local w \<le> max_ord"
  shows "load_freeze H (co_matchweek_id c) st' = Inr (Some
    \<lparr>fz_window = w, fz_season = season, fz_cutoff = c, fz_memberships = ms, fz_snapshot_digest = sd,
     fz_membership_digest = md, fz_revision_digest = rd, fz_appendix = []\<rparr>)"
proof -
  let ?mid = "co_matchweek_id c"
  note e = insert_freeze_exact [OF assms(1,2,4)]
  note fresh = assms(2) [unfolded fresh_freeze_def]
  have "filter (\<lambda>r. br_matchweek_id r = ?mid) (ms_memberships st') = map (membership_to_row ?mid stamp) ms"
    unfolding e(3) using fresh by (intro filter_only_new) (auto simp: membership_to_row_def image_iff)
  moreover have "sort_key br_id (map (membership_to_row ?mid stamp) ms) = map (membership_to_row ?mid stamp) ms"
    using assms(3) by (intro sort_key_id_if_sorted) (simp add: comp_def membership_to_row_def)
  moreover have "filter (\<lambda>r. pr_matchweek_id r = ?mid) (ms_appendix st') = []"
    using fresh by (auto simp: e(5) filter_empty_conv image_iff)
  moreover have "freeze_headers st' ?mid = [(matchweek_to_row w ?mid season stamp, c,
      \<lparr>zr_matchweek_id = ?mid, zr_cutoff_id = co_id c, zr_snapshot_digest = sd, zr_membership_digest = md,
       zr_revision_digest = rd, zr_frozen_at = stamp\<rparr>)]"
  proof -
    have "filter (\<lambda>m. mr_id m = ?mid) (ms_matchweeks st') = [matchweek_to_row w ?mid season stamp]"
      unfolding e(1) using fresh by (intro filter_only_new) (auto simp: matchweek_to_row_def image_iff)
    moreover have "filter (\<lambda>c. co_matchweek_id (cr_cutoff c) = ?mid) (ms_cutoffs st') = [\<lparr>cr_cutoff = c, cr_created = stamp\<rparr>]"
      unfolding e(2) using fresh by (intro filter_only_new) (auto simp: image_iff)
    moreover have "filter (\<lambda>z. zr_matchweek_id z = ?mid) (ms_freezes st') =
        [\<lparr>zr_matchweek_id = ?mid, zr_cutoff_id = co_id c, zr_snapshot_digest = sd,
       zr_membership_digest = md, zr_revision_digest = rd, zr_frozen_at = stamp\<rparr>]"
      unfolding e(4) using fresh by (intro filter_only_new) (auto simp: image_iff)
    ultimately show ?thesis by (simp add: freeze_headers_filter)
  qed
  moreover have "mapR (membership_from_row H) (map (membership_to_row ?mid stamp) ms) = Inr ms"
    using assms(6) by (intro mapR_roundtrip membership_row_roundtrip) auto
  moreover have "c\<lparr>co_matchweek_id := ?mid\<rparr> = c" by simp
  ultimately show ?thesis
    using assms(5) window_roundtrip [OF assms(7,8)] unfolding load_freeze_def
    by (simp add: matchweek_to_row_def)
qed

end
