(* ===== verification/Matchweek_History.thy ===== *)
theory Matchweek_History
  imports Matchweek_Frozen
begin

text \<open>
  The operations of \<open>matchweek.py\<close> as steps of the store, and what every run of them keeps: a frozen
  Matchweek stays as it was frozen, its appendix only grows, and a withdrawn Target Match is withdrawn
  by every later entry.
\<close>

section \<open>What a computation does to the store\<close>

definition keepsA :: "(mw_store \<Rightarrow> mw_store \<Rightarrow> bool) \<Rightarrow> 'a mw_action \<Rightarrow> bool" where
  "keepsA R m \<longleftrightarrow> (\<forall>st. R st (snd (m st)))"

lemma keepsA_D: "keepsA R m \<Longrightarrow> R st (snd (m st))"
  by (simp add: keepsA_def)

lemma keepsA_lift: "reflp R \<Longrightarrow> keepsA R (liftA r)"
  by (simp add: keepsA_def reflpD)

lemma keepsA_read: "reflp R \<Longrightarrow> keepsA R (readA g)"
  by (simp add: keepsA_def reflpD)

lemma keepsA_bind:
  assumes "transp R" and "keepsA R m" and "\<And>x. keepsA R (f x)"
  shows "keepsA R (bindA m f)"
  unfolding keepsA_def
proof
  fix st
  show "R st (snd (bindA m f st))"
  proof (cases "m st")
    case (Pair r st1)
    have a: "R st st1" using assms(2) Pair by (metis keepsA_D snd_conv)
    show ?thesis
    proof (cases r)
      case (Inl e)
      with a Pair show ?thesis by (simp add: bindA_def)
    next
      case (Inr x)
      have "R st1 (snd (f x st1))" using assms(3) by (rule keepsA_D)
      with a assms(1) Inr Pair show ?thesis by (auto simp: bindA_def dest: transpD)
    qed
  qed
qed

lemma snd_bind_read: "snd (bindA (readA g) f st) = (case g st of Inl e \<Rightarrow> st | Inr x \<Rightarrow> snd (f x st))"
  by (simp add: bindA_def split: sum.splits)

lemma snd_bind_lift: "snd (bindA (liftA r) f st) = (case r of Inl e \<Rightarrow> st | Inr x \<Rightarrow> snd (f x st))"
  by (simp add: bindA_def split: sum.splits)

lemma keepsA_bind_read:
  assumes "reflp R" and "\<And>st x. g st = Inr x \<Longrightarrow> keepsA R (f x)"
  shows "keepsA R (bindA (readA g) f)"
  unfolding keepsA_def snd_bind_read
  using assms by (auto split: sum.splits intro: reflpD keepsA_D)

lemma keepsA_bind_lift:
  assumes "reflp R" and "\<And>x. r = Inr x \<Longrightarrow> keepsA R (f x)"
  shows "keepsA R (bindA (liftA r) f)"
  unfolding keepsA_def snd_bind_lift
  using assms by (auto split: sum.splits intro: reflpD keepsA_D)

lemma keepsA_transaction:
  assumes "reflp R" and "\<And>st st'. u st = Inr st' \<Longrightarrow> R st st'"
  shows "keepsA R (transactionA u)"
  unfolding keepsA_def transactionA_def using assms by (auto split: sum.splits intro: reflpD)

lemma keepsA_option:
  "(x = None \<Longrightarrow> keepsA R a) \<Longrightarrow> (\<And>y. x = Some y \<Longrightarrow> keepsA R (b y)) \<Longrightarrow>
     keepsA R (case x of None \<Rightarrow> a | Some y \<Rightarrow> b y)"
  by (cases x) simp_all

section \<open>A freeze\<close>

lemma adds_rows_order: "reflp (adds_rows mid)" "transp (adds_rows mid)"
  by (rule reflpI, rule adds_rows_refl, simp_all) (rule transpI, erule (1) adds_rows_trans)

text \<open>Publishing artifacts and the rules version leaves the tables of frozen Matchweeks alone.\<close>

definition same_tables :: "mw_store \<Rightarrow> mw_store \<Rightarrow> bool" where
  "same_tables st st' \<longleftrightarrow>
     frozen_tables st = frozen_tables st' \<and> ms_source st' = ms_source st \<and> ms_writable st' = ms_writable st"

lemma same_tables_order: "reflp same_tables" "transp same_tables"
  by (auto simp: same_tables_def intro!: reflpI transpI)

lemma same_tables_adds: "same_tables st st' \<Longrightarrow> adds_rows mid st st'"
  by (simp add: same_tables_def adds_rows_refl)

lemma publish_artifact_same: "keepsA same_tables (publish_artifactA H env content)"
  by (auto simp: keepsA_def publish_artifactA_def Let_def frozen_tables_def same_tables_def split: option.splits)

lemma publish_manifest_same: "keepsA same_tables (publish_manifestA env request)"
  by (auto simp: keepsA_def publish_manifestA_def frozen_tables_def same_tables_def split: sum.splits)

lemma insert_version_same: "insert_version v st = Inr st' \<Longrightarrow> same_tables st st'"
proof -
  assume "insert_version v st = Inr st'"
  then obtain st1 st2 where *: "mw_add_identifier ''version'' (vi_id v) st = Inr st1"
    "mw_add_identifier ''version_definition'' (vi_definition_id v) st1 = Inr st2"
    "st' = st2\<lparr>ms_versions := ms_versions st2 @ [v]\<rparr>" by (auto simp: insert_version_def)
  obtain ids ids' where "st1 = st\<lparr>ms_identifiers := ids\<rparr>" "st2 = st1\<lparr>ms_identifiers := ids'\<rparr>"
    using mw_add_identifier_frame [OF *(1)] mw_add_identifier_frame [OF *(2)] by blast
  then show ?thesis by (simp add: *(3) same_tables_def frozen_tables_def)
qed

lemma ensure_version_same: "keepsA same_tables (ensure_membership_version H)"
  unfolding ensure_membership_version_def
  by (intro keepsA_bind_lift keepsA_bind_read keepsA_bind same_tables_order keepsA_option
      keepsA_lift keepsA_transaction insert_version_same)

lemma keepsA_adds: "keepsA same_tables m \<Longrightarrow> keepsA (adds_rows mid) m"
  by (simp add: keepsA_def same_tables_adds)

lemmas publish_adds = publish_artifact_same [THEN keepsA_adds] publish_manifest_same [THEN keepsA_adds]
  ensure_version_same [THEN keepsA_adds]

text \<open>A freeze of a frozen Matchweek writes nothing; any other adds rows of its own Matchweek only.\<close>

lemma freeze_matchweek_effect:
  assumes "st' = snd (freeze_matchweek H env friday season as_of created verified st)"
  shows "st' = st \<or> (\<exists>mid. load_freeze H mid st = Inr None \<and> adds_rows mid st st')"
proof -
  define rest where "rest w mid = bindA (readA (\<lambda>st. plan_freeze H (ms_source st) w season as_of)) (\<lambda>p.
     bindA (publish_artifactA H env (manifest_bytes H (pl_manifest p))) (\<lambda>membership_digest.
     bindA (publish_artifactA H env (revision_snapshot_bytes (pl_candidates p) (pl_as_of p))) (\<lambda>revision_digest.
     bindA (ensure_membership_version H) (\<lambda>version.
     bindA (liftA (snapshot_identifiers H (pl_cutoff p))) (\<lambda>_.
     bindA (liftA (mw_canonical_utc (created_or_cutoff created (pl_cutoff p)))) (\<lambda>frozen_at.
     bindA (publish_manifestA env (snapshot_of H (pl_cutoff p) [membership_digest, revision_digest] version frozen_at verified)) (\<lambda>snapshot_digest.
     bindA (transactionA (insert_freeze w season (pl_cutoff p) (pl_memberships p) snapshot_digest
       membership_digest revision_digest frozen_at)) (\<lambda>_.
     bindA (readA (load_freeze H mid)) (\<lambda>result.
     case result of
       None \<Rightarrow> liftA (Inl (MatchweekError ''MV-T05-FREEZE_NOT_PUBLISHED''
         ''Frozen Matchweek publication was not durable.''))
     | Some f \<Rightarrow> liftA (Inr f))))))))))" for w mid
  have keeps: "keepsA (adds_rows mid) (rest w mid)" if "mid = matchweek_id H season (friday_local w)" for w mid
  proof -
    have ins: "adds_rows mid st1 st2"
      if "plan_freeze H t w season as_of = Inr p" "insert_freeze w season (pl_cutoff p) ms sd md rd stamp st1 = Inr st2"
      for t p ms sd md rd stamp st1 st2
      using insert_freeze_adds [OF that(2)] that(1) \<open>mid = _\<close> by (auto elim: plan_freezeE)
    show ?thesis
      unfolding rest_def
      by (intro keepsA_bind_lift keepsA_bind_read keepsA_bind adds_rows_order keepsA_option
          keepsA_lift keepsA_transaction publish_adds ins)
  qed
  have "freeze_matchweek H env friday season as_of created verified st =
     bindA (readA (\<lambda>st. guardR (ms_writable st)
       (MwPermissionError ''Matchweek freezing requires a healthy writable store.''))) (\<lambda>_.
     bindA (liftA (window_for_friday friday)) (\<lambda>w.
     bindA (readA (load_freeze H (matchweek_id H season (friday_local w)))) (\<lambda>existing.
     case existing of Some f \<Rightarrow> liftA (Inr f) | None \<Rightarrow> rest w (matchweek_id H season (friday_local w))))) st"
    unfolding freeze_matchweek_def Let_def rest_def ..
  then have "st' = (if ms_writable st then (case window_for_friday friday of Inl e \<Rightarrow> st | Inr w \<Rightarrow>
      (case load_freeze H (matchweek_id H season (friday_local w)) st of Inl e \<Rightarrow> st | Inr (Some f) \<Rightarrow> st
       | Inr None \<Rightarrow> snd (rest w (matchweek_id H season (friday_local w)) st))) else st)"
    using assms by (simp add: snd_bind_read snd_bind_lift guardR_def split: sum.splits option.splits)
  then show ?thesis
    using keepsA_D [OF keeps [OF refl]] by (auto split: if_splits sum.splits option.splits)
qed

section \<open>What is kept of a frozen Matchweek\<close>

text \<open>A Target Match that an appendix entry withdrew.\<close>

definition withdrawn_target :: "matchweek_freeze \<Rightarrow> string \<Rightarrow> bool" where
  "withdrawn_target f fixture_id \<longleftrightarrow> previously_withdrawn f fixture_id \<and>
     (case frozen_membership_of f fixture_id of None \<Rightarrow> False | Some m \<Rightarrow> fm_state m = INCLUDED)"

text \<open>The later reading \<open>f'\<close> differs from \<open>f\<close> by further appendix entries only, and those withdraw
  what was withdrawn.\<close>

definition extends_freeze :: "matchweek_freeze \<Rightarrow> matchweek_freeze \<Rightarrow> bool" where
  "extends_freeze f f' \<longleftrightarrow>
     f'\<lparr>fz_appendix := fz_appendix f\<rparr> = f \<and> set (fz_appendix f) \<subseteq> set (fz_appendix f') \<and>
     (\<forall>e \<in> set (fz_appendix f') - set (fz_appendix f). \<forall>k. ae_fixture_id e = Some k \<longrightarrow>
        withdrawn_target f k \<longrightarrow> ae_disposition e = WITHDRAWN)"

definition upholds :: "mw_hasher \<Rightarrow> mw_store \<Rightarrow> mw_store \<Rightarrow> bool" where
  "upholds H st st' \<longleftrightarrow> (\<forall>mid f. load_freeze H mid st = Inr (Some f) \<longrightarrow>
     (\<exists>f'. load_freeze H mid st' = Inr (Some f') \<and> extends_freeze f f'))"

lemma extends_freeze_refl: "extends_freeze f f"
  by (simp add: extends_freeze_def)

lemma extends_fields:
  "extends_freeze f f' \<Longrightarrow> fz_cutoff f' = fz_cutoff f \<and> fz_memberships f' = fz_memberships f \<and> fz_window f' = fz_window f"
  by (cases f; cases f') (simp add: extends_freeze_def)

lemma withdrawn_extends: "extends_freeze f f' \<Longrightarrow> withdrawn_target f k \<Longrightarrow> withdrawn_target f' k"
proof -
  assume e: "extends_freeze f f'" and w: "withdrawn_target f k"
  have "set (fz_appendix f) \<subseteq> set (fz_appendix f')" using e by (simp add: extends_freeze_def)
  then have "previously_withdrawn f k \<Longrightarrow> previously_withdrawn f' k"
    by (auto simp: previously_withdrawn_def list_ex_iff)
  then show "withdrawn_target f' k"
    using w extends_fields [OF e] by (simp add: withdrawn_target_def frozen_membership_of_def)
qed

lemma extends_freeze_trans:
  assumes "extends_freeze f f1" "extends_freeze f1 f2" shows "extends_freeze f f2"
proof -
  have "f2\<lparr>fz_appendix := fz_appendix f\<rparr> = f"
    using assms by (cases f; cases f1; cases f2) (simp add: extends_freeze_def)
  then show ?thesis
    using assms withdrawn_extends [OF assms(1)] unfolding extends_freeze_def by blast
qed

lemma upholds_order: "reflp (upholds H)" "transp (upholds H)"
  unfolding upholds_def
  by (rule reflpI, blast intro: extends_freeze_refl) (rule transpI, meson extends_freeze_trans)

lemma upholds_same: "(\<And>mid f. load_freeze H mid st = Inr (Some f) \<Longrightarrow> load_freeze H mid st' = Inr (Some f)) \<Longrightarrow> upholds H st st'"
  unfolding upholds_def using extends_freeze_refl by blast

lemma freeze_upholds: "keepsA (upholds H) (freeze_matchweek H env friday season as_of created verified)"
  unfolding keepsA_def
proof
  fix st
  let ?st' = "snd (freeze_matchweek H env friday season as_of created verified st)"
  from freeze_matchweek_effect [OF refl] consider "?st' = st"
    | mid where "load_freeze H mid st = Inr None" "adds_rows mid st ?st'" by blast
  then show "upholds H st ?st'"
  proof cases
    case 2
    show ?thesis
    proof (rule upholds_same)
      fix mid' f assume l: "load_freeze H mid' st = Inr (Some f)"
      with 2(1) have "mid' \<noteq> mid" by auto
      with l load_freeze_other [OF 2(2)] show "load_freeze H mid' ?st' = Inr (Some f)" by simp
    qed
  qed (simp add: upholds_same)
qed

section \<open>An appendix entry\<close>

lemma mapR_sort_add:
  assumes "mapR g (sort_key k xs) = Inr ys" and "g x = Inr y"
  shows "\<exists>ys'. mapR g (sort_key k (xs @ [x])) = Inr ys' \<and> set ys' = insert y (set ys)"
proof -
  have "mapR g (sort_key k xs @ [x]) = Inr (ys @ [y])" using assms by (simp add: mapR_append)
  from mapR_mset [OF this, of "sort_key k (xs @ [x])"] obtain ys' where
    "mapR g (sort_key k (xs @ [x])) = Inr ys'" "mset ys' = mset (ys @ [y])" by auto
  moreover from this(2) have "set ys' = insert y (set ys)" by (metis list.simps(15) rotate1.simps(2) set_mset_mset set_rotate1)
  ultimately show ?thesis by blast
qed

lemma load_freeze_appended:
  assumes "load_freeze H mid st = Inr (Some f)" and "appendix_init H e = Inr e"
    and "frozen_tables st' = frozen_tables (st\<lparr>ms_appendix := ms_appendix st @ [appendix_to_row e]\<rparr>)"
  shows "\<exists>f'. load_freeze H mid st' = Inr (Some f') \<and> f'\<lparr>fz_appendix := fz_appendix f\<rparr> = f \<and>
    set (fz_appendix f') = (if ae_matchweek_id e = mid then insert e (set (fz_appendix f)) else set (fz_appendix f))"
proof -
  let ?st = "st\<lparr>ms_appendix := ms_appendix st @ [appendix_to_row e]\<rparr>"
  let ?rows = "\<lambda>s. filter (\<lambda>r. pr_matchweek_id r = mid) (ms_appendix s)"
  let ?key = "\<lambda>r. (pr_observed_at r, pr_id r)"
  have h: "freeze_headers ?st mid = freeze_headers st mid" by (simp add: freeze_headers_filter)
  from assms(1) obtain m c z rest cutoff w ms app where *: "freeze_headers st mid = (m, c, z) # rest"
    "cutoff_init H (c\<lparr>co_matchweek_id := mid\<rparr>) = Inr cutoff" "window_for_friday (DayText (mr_friday m)) = Inr w"
    "mapR (membership_from_row H) (sort_key br_id (filter (\<lambda>r. br_matchweek_id r = mid) (ms_memberships st))) = Inr ms"
    "mapR (appendix_from_row H) (sort_key ?key (?rows st)) = Inr app"
    "f = \<lparr>fz_window = w, fz_season = mr_season m, fz_cutoff = cutoff, fz_memberships = ms,
       fz_snapshot_digest = zr_snapshot_digest z, fz_membership_digest = zr_membership_digest z,
       fz_revision_digest = zr_revision_digest z, fz_appendix = app\<rparr>"
    by (auto simp: load_freeze_def split: list.splits)
  have r: "?rows ?st = ?rows st @ (if ae_matchweek_id e = mid then [appendix_to_row e] else [])"
    by (simp add: appendix_to_row_def)
  obtain app' where app': "mapR (appendix_from_row H) (sort_key ?key (?rows ?st)) = Inr app'"
    "set app' = (if ae_matchweek_id e = mid then insert e (set app) else set app)"
  proof (cases "ae_matchweek_id e = mid")
    case True
    then show ?thesis
      using that mapR_sort_add [OF *(5) appendix_row_roundtrip [OF assms(2)]] unfolding r by auto
  next
    case False
    then show ?thesis using that *(5) unfolding r by simp
  qed
  have "load_freeze H mid ?st = Inr (Some (f\<lparr>fz_appendix := app'\<rparr>))"
    unfolding load_freeze_def h using * app'(1) by simp
  moreover have "load_freeze H mid st' = load_freeze H mid ?st" by (rule load_freeze_tables [OF assms(3)])
  ultimately show ?thesis using app'(2) *(6) by simp
qed

lemma store_entry_effect:
  assumes "st' = snd (store_appendix_entry H e st)"
  shows "st' = st \<or> frozen_tables st' = frozen_tables (st\<lparr>ms_appendix := ms_appendix st @ [appendix_to_row e]\<rparr>) \<or>
    frozen_tables st' = frozen_tables st"
proof -
  let ?u = "\<lambda>st. bindR (mw_add_identifier ''post_cutoff_appendix'' (ae_id e) st) (insert_appendix (appendix_to_row e))"
  have u: "frozen_tables st2 = frozen_tables (st\<lparr>ms_appendix := ms_appendix st @ [appendix_to_row e]\<rparr>) \<or>
      frozen_tables st2 = frozen_tables st" if "?u st = Inr st2" for st2
  proof -
    from that obtain st1 where *: "mw_add_identifier ''post_cutoff_appendix'' (ae_id e) st = Inr st1"
      "insert_appendix (appendix_to_row e) st1 = Inr st2" by auto
    obtain ids where st1: "st1 = st\<lparr>ms_identifiers := ids\<rparr>" using mw_add_identifier_frame [OF *(1)] by blast
    show ?thesis
      using *(2) unfolding st1 insert_appendix_def by (auto simp: frozen_tables_def split: if_splits)
  qed
  have "st' = st \<or> (\<exists>st2. ?u st = Inr st2 \<and> st' = st2)"
    using assms unfolding store_appendix_entry_def snd_bind_read
    by (auto simp: bindA_def transactionA_def split: sum.splits option.splits prod.splits)
  with u show ?thesis by blast
qed

lemma store_entry_upholds:
  assumes "appendix_init H e = Inr e"
    and "\<And>f k. load_freeze H (ae_matchweek_id e) st = Inr (Some f) \<Longrightarrow> ae_fixture_id e = Some k \<Longrightarrow>
      withdrawn_target f k \<Longrightarrow> ae_disposition e = WITHDRAWN"
  shows "upholds H st (snd (store_appendix_entry H e st))"
proof -
  let ?st' = "snd (store_appendix_entry H e st)"
  from store_entry_effect [OF refl] consider "frozen_tables ?st' = frozen_tables st"
    | "frozen_tables ?st' = frozen_tables (st\<lparr>ms_appendix := ms_appendix st @ [appendix_to_row e]\<rparr>)" by metis
  then show ?thesis
  proof cases
    case 1
    then show ?thesis using load_freeze_tables [OF 1] by (intro upholds_same) simp
  next
    case 2
    show ?thesis
      unfolding upholds_def
    proof (intro allI impI)
      fix mid f assume l: "load_freeze H mid st = Inr (Some f)"
      from load_freeze_appended [OF l assms(1) 2] obtain f' where f': "load_freeze H mid ?st' = Inr (Some f')"
        "f'\<lparr>fz_appendix := fz_appendix f\<rparr> = f"
        "set (fz_appendix f') = (if ae_matchweek_id e = mid then insert e (set (fz_appendix f)) else set (fz_appendix f))"
        by blast
      have "extends_freeze f f'"
        using f'(2,3) assms(2) l unfolding extends_freeze_def by (auto split: if_splits)
      with f'(1) show "\<exists>f'. load_freeze H mid ?st' = Inr (Some f') \<and> extends_freeze f f'" by blast
    qed
  qed
qed

section \<open>News after the cutoff\<close>

lemma load_freeze_id: "load_freeze H mid st = Inr (Some f) \<Longrightarrow> co_matchweek_id (fz_cutoff f) = mid"
  by (auto simp: load_freeze_def dest!: cutoff_init_props(1) split: list.splits)

lemma read_frozenE:
  assumes "read_frozen_matchweek H friday season st = Inr f"
  shows "load_freeze H (co_matchweek_id (fz_cutoff f)) st = Inr (Some f)"
  using assms load_freeze_id by (auto simp: read_frozen_matchweek_def split: option.splits)

lemma appendix_entry_for_fields:
  assumes "appendix_entry_for H f c event disposition observed review rcode reason = Inr e"
  shows "ae_matchweek_id e = co_matchweek_id (fz_cutoff f)" "ae_fixture_id e = Some (cd_fixture_id c)"
    "ae_subject_id e = cd_fixture_id c" "ae_disposition e = disposition" "ae_event e = event"
    "ae_revision_id e = Some (cd_revision_id c)" "ae_reason_code e = rcode" "ae_review e = review" "ae_current_kickoff e = cd_kickoff_utc c" "appendix_init H e = Inr e"
  using assms unfolding appendix_entry_for_def Let_def
  by (auto dest: appendix_init_props(2)) (auto dest!: appendix_init_props(1))

text \<open>The disposition of an entry: only a Target Match of the freeze is preserved or withdrawn, and one
  that was withdrawn before is withdrawn again.\<close>

lemma late_entry_fields:
  assumes "late_entry H t f cs as_of review c = Inr e"
  shows "ae_matchweek_id e = co_matchweek_id (fz_cutoff f)" "ae_fixture_id e = Some (cd_fixture_id c)"
    "appendix_init H e = Inr e" "withdrawn_target f (cd_fixture_id c) \<Longrightarrow> ae_disposition e = WITHDRAWN"
  using assms unfolding late_entry_def Let_def
  by (auto simp: withdrawn_target_def dest: appendix_entry_for_fields split: option.splits if_splits prod.splits)

lemma late_revision_entryE:
  assumes "late_revision_entry H friday fid season rid as_of review unchanged st = Inr e"
  obtains f c cs cs' obs where "read_frozen_matchweek H friday season st = Inr f"
    "late_entry H (ms_source st) f cs obs (supplied_review review unchanged) c = Inr e"
    "load_revision_candidates (ms_source st) season = Inr cs'" "cs = filter (\<lambda>c. cd_fixture_id c = fid) cs'"
    "late_candidate (ms_source st) season fid rid as_of cs = Inr c"
    "observation_time as_of (map cd_observed_at cs) = Inr obs"
    "instant_at (cd_observed_at c) \<le> obs"
    "\<not> (post_cutoff_supports c (instant_at (co_utc (fz_cutoff f))) obs = [] \<and>
       instant_at (cd_observed_at c) \<le> instant_at (co_utc (fz_cutoff f)))"
proof -
  from assms obtain f cs' c obs where *: "read_frozen_matchweek H friday season st = Inr f"
    "load_revision_candidates (ms_source st) season = Inr cs'"
    "late_candidate (ms_source st) season fid rid as_of (filter (\<lambda>c. cd_fixture_id c = fid) cs') = Inr c"
    "observation_time as_of (map cd_observed_at (filter (\<lambda>c. cd_fixture_id c = fid) cs')) = Inr obs"
    "instant_at (cd_observed_at c) \<le> obs"
    "\<not> (post_cutoff_supports c (instant_at (co_utc (fz_cutoff f))) obs = [] \<and>
       instant_at (cd_observed_at c) \<le> instant_at (co_utc (fz_cutoff f)))"
    "late_entry H (ms_source st) f (filter (\<lambda>c. cd_fixture_id c = fid) cs') obs (supplied_review review unchanged) c = Inr e"
    unfolding late_revision_entry_def Let_def by (elim bindR_InrE) simp
  show ?thesis by (rule that [OF *(1,7,2) refl *(3,4,5,6)])
qed

lemma append_revision_upholds:
  "keepsA (upholds H) (append_post_cutoff_revision H friday fid season rid as_of review unchanged)"
  unfolding keepsA_def append_post_cutoff_revision_def snd_bind_read
proof
  fix st
  show "upholds H st (case late_revision_entry H friday fid season rid as_of review unchanged st of
      Inl e \<Rightarrow> st | Inr e \<Rightarrow> snd (store_appendix_entry H e st))"
  proof (cases "late_revision_entry H friday fid season rid as_of review unchanged st")
    case (Inr e)
    then obtain f c cs obs where f: "read_frozen_matchweek H friday season st = Inr f"
      and e: "late_entry H (ms_source st) f cs obs (supplied_review review unchanged) c = Inr e"
      by (rule late_revision_entryE)
    note fields = late_entry_fields [OF e]
    show ?thesis
      unfolding Inr using fields read_frozenE [OF f] by (auto intro!: store_entry_upholds)
  qed (simp add: upholds_same)
qed

lemma unresolved_entry_fields:
  assumes "unresolved_appendix_entry H f u = Inr e"
  shows "ae_fixture_id e = None" "ae_disposition e = APPENDIX_ONLY" "appendix_init H e = Inr e"
  using assms unfolding unresolved_appendix_entry_def Let_def
  by (auto dest: appendix_init_props(2)) (auto dest!: appendix_init_props(1))

lemma keepsA_mapA: "reflp R \<Longrightarrow> transp R \<Longrightarrow> (\<And>x. keepsA R (g x)) \<Longrightarrow> keepsA R (mapA g xs)"
  by (induction xs) (simp_all add: keepsA_lift keepsA_bind)

lemma unresolved_upholds: "keepsA (upholds H) (bindA (liftA (unresolved_appendix_entry H f u)) (store_appendix_entry H))"
  by (intro keepsA_bind_lift upholds_order)
    (auto simp: keepsA_def unresolved_entry_fields intro!: store_entry_upholds)

lemma append_changes_upholds: "keepsA (upholds H) (append_post_cutoff_changes H friday season as_of reviews)"
  unfolding append_post_cutoff_changes_def Let_def
  by (intro keepsA_bind_lift keepsA_bind_read keepsA_bind upholds_order keepsA_mapA keepsA_lift
      append_revision_upholds unresolved_upholds)

section \<open>Runs of the module\<close>

text \<open>
  A call of the module, whether it returns or raises, or a change of what the rest of the program
  stores: the T06 tables, the health of the store and its registries of identifiers, versions and
  artifacts.
\<close>

inductive mw_step :: "mw_hasher \<Rightarrow> mw_store \<Rightarrow> mw_store \<Rightarrow> bool" for H where
  step_freeze: "mw_step H st (snd (freeze_matchweek H env friday season as_of created verified st))"
| step_revision: "mw_step H st (snd (append_post_cutoff_revision H friday fid season rid as_of review unchanged st))"
| step_changes: "mw_step H st (snd (append_post_cutoff_changes H friday season as_of reviews st))"
| step_outside: "mw_step H st (st\<lparr>ms_source := t, ms_writable := b, ms_identifiers := ids, ms_versions := vs,
    ms_artifacts := arts, ms_snapshots := sns\<rparr>)"

lemma outside_upholds:
  "upholds H st (st\<lparr>ms_source := t, ms_writable := b, ms_identifiers := ids, ms_versions := vs,
     ms_artifacts := arts, ms_snapshots := sns\<rparr>)" (is "upholds H st ?st'")
proof -
  have "frozen_tables ?st' = frozen_tables st" by (simp add: frozen_tables_def)
  from load_freeze_tables [OF this] show ?thesis by (intro upholds_same) simp
qed

lemma mw_step_upholds: "mw_step H st st' \<Longrightarrow> upholds H st st'"
proof (induction rule: mw_step.induct)
  case step_outside
  then show ?case by (rule outside_upholds)
qed (rule keepsA_D, rule freeze_upholds append_revision_upholds append_changes_upholds)+

lemma mw_steps_uphold: "(mw_step H)\<^sup>*\<^sup>* st st' \<Longrightarrow> upholds H st st'"
proof (induction rule: rtranclp_induct)
  case base
  then show ?case by (simp add: upholds_same)
next
  case (step st1 st2)
  then show ?case using mw_step_upholds upholds_order(2) by (meson transpD)
qed

end
