(* ===== verification/Matchweek_Replay.thy ===== *)
theory Matchweek_Replay
  imports Matchweek_History
begin

text \<open>
  A first freeze publishes exactly its plan, a second one returns it, and the replay of a freeze
  over a faithful artifact store succeeds.
\<close>

section \<open>A first freeze\<close>

lemma bindA_InrE: "bindA m f st = (Inr y, st') \<Longrightarrow> (\<And>x st1. m st = (Inr x, st1) \<Longrightarrow> f x st1 = (Inr y, st') \<Longrightarrow> P) \<Longrightarrow> P"
  by (auto simp: bindA_Inr)

lemma publish_artifact_Inr:
  "publish_artifactA H env content st = (Inr d, st') \<Longrightarrow> d = sha_text H content \<and> store_content env content = None"
  by (auto simp: publish_artifactA_def Let_def split: option.splits)

lemma publish_manifest_Inr: "publish_manifestA env request st = (Inr d, st') \<Longrightarrow> store_snapshot env request = Inr d"
  by (auto simp: publish_manifestA_def split: sum.splits)

definition membership_artifact :: "mw_hasher \<Rightarrow> freeze_plan \<Rightarrow> string" where
  "membership_artifact H p = manifest_bytes H (pl_manifest p)"

definition revision_artifact :: "freeze_plan \<Rightarrow> string" where
  "revision_artifact p = revision_snapshot_bytes (pl_candidates p) (pl_as_of p)"

lemma first_freezeE:
  assumes "freeze_matchweek H env friday season as_of created verified st = (Inr f, st')"
    and "window_for_friday friday = Inr w" and "load_freeze H (matchweek_id H season (friday_local w)) st = Inr None"
  obtains p version stamp d st1 where
    "plan_freeze H (ms_source st) w season as_of = Inr p" "ms_writable st"
    "store_content env (membership_artifact H p) = None" "store_content env (revision_artifact p) = None"
    "store_snapshot env (snapshot_of H (pl_cutoff p)
       [sha_text H (membership_artifact H p), sha_text H (revision_artifact p)] version stamp verified) = Inr d"
    "same_tables st st1"
    "insert_freeze w season (pl_cutoff p) (pl_memberships p) d (sha_text H (membership_artifact H p))
       (sha_text H (revision_artifact p)) stamp st1 = Inr st'"
    "load_freeze H (matchweek_id H season (friday_local w)) st' = Inr (Some f)"
proof -
  let ?mid = "matchweek_id H season (friday_local w)"
  have w: "ms_writable st" using assms(1) by (auto simp: freeze_matchweek_def bindA_Inr)
  have rest: "bindA (readA (\<lambda>st. plan_freeze H (ms_source st) w season as_of)) (\<lambda>p.
     bindA (publish_artifactA H env (manifest_bytes H (pl_manifest p))) (\<lambda>membership_digest.
     bindA (publish_artifactA H env (revision_snapshot_bytes (pl_candidates p) (pl_as_of p))) (\<lambda>revision_digest.
     bindA (ensure_membership_version H) (\<lambda>version.
     bindA (liftA (snapshot_identifiers H (pl_cutoff p))) (\<lambda>_.
     bindA (liftA (mw_canonical_utc (created_or_cutoff created (pl_cutoff p)))) (\<lambda>frozen_at.
     bindA (publish_manifestA env (snapshot_of H (pl_cutoff p) [membership_digest, revision_digest] version frozen_at verified)) (\<lambda>snapshot_digest.
     bindA (transactionA (insert_freeze w season (pl_cutoff p) (pl_memberships p) snapshot_digest
       membership_digest revision_digest frozen_at)) (\<lambda>_.
     bindA (readA (load_freeze H ?mid)) (\<lambda>result.
     case result of
       None \<Rightarrow> liftA (Inl (MatchweekError ''MV-T05-FREEZE_NOT_PUBLISHED''
         ''Frozen Matchweek publication was not durable.''))
     | Some f \<Rightarrow> liftA (Inr f)))))))))) st = (Inr f, st')"
    using assms w unfolding freeze_matchweek_def Let_def by (simp add: bindA_def [of "readA _"] bindA_def [of "liftA _"])
  then obtain p md s1 rd s2 version s3 stamp d s4 where *: "plan_freeze H (ms_source st) w season as_of = Inr p"
    "publish_artifactA H env (manifest_bytes H (pl_manifest p)) st = (Inr md, s1)"
    "publish_artifactA H env (revision_snapshot_bytes (pl_candidates p) (pl_as_of p)) s1 = (Inr rd, s2)"
    "ensure_membership_version H s2 = (Inr version, s3)"
    "publish_manifestA env (snapshot_of H (pl_cutoff p) [md, rd] version stamp verified) s3 = (Inr d, s4)"
    "insert_freeze w season (pl_cutoff p) (pl_memberships p) d md rd stamp s4 = Inr st'"
    "load_freeze H ?mid st' = Inr (Some f)"
    by (elim bindA_InrE) (auto simp: transactionA_Inr split: option.splits)
  note md = publish_artifact_Inr [OF *(2), folded membership_artifact_def]
    and rd = publish_artifact_Inr [OF *(3), folded revision_artifact_def]
  have "same_tables st s1" "same_tables s1 s2" "same_tables s2 s3" "same_tables s3 s4"
    using keepsA_D [OF publish_artifact_same] keepsA_D [OF ensure_version_same] keepsA_D [OF publish_manifest_same] *(2-5)
    by (metis snd_conv)+
  then have "same_tables st s4" using same_tables_order(2) by (meson transpD)
  show ?thesis
    by (rule that [OF *(1) w _ _ _ \<open>same_tables st s4\<close> _ *(7)]) (use md rd publish_manifest_Inr [OF *(5)] *(6) in auto)
qed

text \<open>The freeze a plan publishes, with the digest of its Snapshot Manifest.\<close>

definition frozen_as :: "mw_hasher \<Rightarrow> mw_window \<Rightarrow> string \<Rightarrow> freeze_plan \<Rightarrow> string \<Rightarrow> matchweek_freeze" where
  "frozen_as H w season p d =
     \<lparr>fz_window = w, fz_season = season, fz_cutoff = pl_cutoff p, fz_memberships = pl_memberships p,
      fz_snapshot_digest = d, fz_membership_digest = sha_text H (membership_artifact H p),
      fz_revision_digest = sha_text H (revision_artifact p), fz_appendix = []\<rparr>"

lemma window_friday: "window_for_friday friday = Inr w \<Longrightarrow> weekday (friday_local w) = 4"
  by (auto simp: window_for_friday_def window_init_def)

lemma max_ord_friday: "weekday max_ord = 4"
  by (simp add: weekday_def max_ord_def)

lemma window_in_range:
  assumes "weekday (friday_local w) = 4" "canonical_stamp k" "window_contains w k"
  shows "friday_local w \<le> max_ord"
proof (rule ccontr)
  assume "\<not> friday_local w \<le> max_ord"
  then have "friday_local w = max_ord + 1"
    using stamp_in_range [OF assms(2)] assms(3)
    by (simp add: us_in_range_def window_contains_def window_start_def lagos_us_def max_ord_def)
  with assms(1) show False by (simp add: weekday_def max_ord_def)
qed

lemma plan_in_range:
  assumes "plan_freeze H t w season as_of = Inr p" "weekday (friday_local w) = 4"
  shows "friday_local w \<le> max_ord"
proof -
  note b = plan_cutoff [OF assms]
  from b(2) obtain m where m: "m \<in> set (pl_memberships p)" "fm_target m" by blast
  obtain k where "canonical_stamp k" "window_contains w k" using b(1) m by (rule target_kickoff)
  with assms(2) show ?thesis by (rule window_in_range)
qed

lemma build_memberships_matchweek:
  assumes "build_memberships H t mid w season b cs = Inr ms" and "m \<in> set ms"
  shows "fm_matchweek_id m = mid"
  using assms
proof (cases rule: build_membershipsE)
  case fixture
  then obtain x where "membership_init H x = Inr m" "fm_matchweek_id x = mid"
    by (auto simp: fixture_membership_def Let_def split: prod.splits)
  then show ?thesis using membership_init_props(1) by fastforce
next
  case (unresolved u)
  then show ?thesis by (rule unresolved_membership_fields(6))
qed

lemma build_memberships_sorted: "build_memberships H t mid w season b cs = Inr ms \<Longrightarrow> sorted (map fm_id ms)"
  by (auto simp: build_memberships_def)

lemma freeze_publishes:
  assumes "freeze_matchweek H env friday season as_of created verified st = (Inr f, st')"
    and "window_for_friday friday = Inr w" "load_freeze H (matchweek_id H season (friday_local w)) st = Inr None"
    and "plan_freeze H (ms_source st) w season as_of = Inr p"
    and "fresh_freeze st (pl_cutoff p) (pl_memberships p)" "distinct (map fm_id (pl_memberships p))"
  obtains d version stamp where "f = frozen_as H w season p d" "load_freeze H (matchweek_id H season (friday_local w)) st' = Inr (Some f)"
    "store_snapshot env (snapshot_of H (pl_cutoff p)
       [sha_text H (membership_artifact H p), sha_text H (revision_artifact p)] version stamp verified) = Inr d"
    "ms_writable st'" "ms_source st' = ms_source st"
proof -
  let ?mid = "matchweek_id H season (friday_local w)"
  from assms(1,2,3) obtain p' version stamp d st1 where *:
    "plan_freeze H (ms_source st) w season as_of = Inr p'" "ms_writable st"
    "store_snapshot env (snapshot_of H (pl_cutoff p')
       [sha_text H (membership_artifact H p'), sha_text H (revision_artifact p')] version stamp verified) = Inr d"
    "same_tables st st1"
    "insert_freeze w season (pl_cutoff p') (pl_memberships p') d (sha_text H (membership_artifact H p'))
       (sha_text H (revision_artifact p')) stamp st1 = Inr st'"
    "load_freeze H ?mid st' = Inr (Some f)"
    by (rule first_freezeE)
  have p': "p' = p" using *(1) assms(4) by simp
  have friday: "weekday (friday_local w) = 4" using assms(2) by (rule window_friday)
  obtain b where b: "build_memberships H (ms_source st) ?mid w season b (pl_candidates p) = Inr (pl_memberships p)"
    and c: "cutoff_init H (pl_cutoff p) = Inr (pl_cutoff p)" "co_matchweek_id (pl_cutoff p) = ?mid"
    using assms(4) by (rule plan_freezeE)
  have fresh: "fresh_freeze st1 (pl_cutoff p) (pl_memberships p)"
    using assms(5) *(4) by (simp add: fresh_freeze_def same_tables_def frozen_tables_def)
  note st' = insert_freeze_exact [OF *(5) [unfolded p'] fresh assms(6)]
  have "load_freeze H (co_matchweek_id (pl_cutoff p)) st' = Inr (Some (frozen_as H w season p d))"
    unfolding frozen_as_def
    using b c friday by (intro load_fresh_freeze [OF *(5) [unfolded p'] fresh _ assms(6)])
      (auto intro: build_memberships_sorted build_memberships_init build_memberships_matchweek plan_in_range [OF assms(4)])
  then have "f = frozen_as H w season p d" using *(6) c(2) by simp
  moreover have "ms_writable st'" "ms_source st' = ms_source st"
    using st'(6,7) *(2,4) by (simp_all add: same_tables_def)
  ultimately show ?thesis using that *(3,6) unfolding p' by blast
qed

text \<open>A Matchweek that is frozen is returned as it is stored.\<close>

lemma freeze_again:
  assumes "load_freeze H (matchweek_id H season (friday_local w)) st = Inr (Some f)"
    and "window_for_friday friday = Inr w" "ms_writable st"
  shows "freeze_matchweek H env friday season as_of created verified st = (Inr f, st)"
  using assms unfolding freeze_matchweek_def Let_def by (simp add: bindA_def)

section \<open>Replay\<close>

lemma candidate_row:
  assumes "load_revision_candidates t season = Inr cs" and "c \<in> set cs"
  obtains r where "r \<in> set (tb_revisions t)" "fr_id r = cd_revision_id c" "fr_fixture_id r = cd_fixture_id c"
    "fr_digest r = cd_revision_digest c"
proof -
  from assms(1) obtain css where css: "mapR (\<lambda>f. mapR (candidate_of_row t f) (fixture_revisions t (fx_id (fst f))))
      (season_fixtures t season) = Inr css" "cs = concat css" by (auto simp: load_revision_candidates_def)
  from assms(2) css(2) obtain ys where ys: "ys \<in> set css" "c \<in> set ys" by auto
  from mapR_in_set [OF css(1) ys(1)] obtain f where "mapR (candidate_of_row t f) (fixture_revisions t (fx_id (fst f))) = Inr ys"
    by blast
  from mapR_in_set [OF this ys(2)] obtain r where r: "r \<in> set (fixture_revisions t (fx_id (fst f)))"
    "candidate_of_row t f r = Inr c" by blast
  then show ?thesis
    by (intro that [of r]) (auto simp: candidate_of_row_def fixture_revisions_def split: prod.splits)
qed

text \<open>The controlling revision of a membership is a row of the revision table.\<close>

lemma membership_revision:
  assumes "load_revision_candidates t season = Inr cs" "build_memberships H t mid w season b cs = Inr ms"
    and "m \<in> set ms" "fm_revision_id m = Some rid"
  obtains r where "r \<in> set (tb_revisions t)" "fr_id r = rid" "fr_fixture_id r = fm_subject_id m"
    "fm_revision_digest m = Some (fr_digest r)"
  using assms(2,3)
proof (cases rule: build_membershipsE)
  case fixture
  note fields = fixture_membership_fields(5,7) [OF fixture(1)]
  from assms(4) fields(2) obtain c where c: "select_revision (fixture_candidates_of (fm_subject_id m) cs) b = Some c"
    "rid = cd_revision_id c" by auto
  have c': "c \<in> set cs" "cd_fixture_id c = fm_subject_id m"
    using select_revision_Some(1) [OF c(1)] by (auto simp: fixture_candidates_of_def)
  obtain r where "r \<in> set (tb_revisions t)" "fr_id r = cd_revision_id c" "fr_fixture_id r = cd_fixture_id c"
    "fr_digest r = cd_revision_digest c" using assms(1) c'(1) by (rule candidate_row)
  with that fields(1) [OF c(1)] c c' show ?thesis by simp
next
  case (unresolved u)
  with assms(4) show ?thesis using unresolved_membership_fields(2) by fastforce
qed

lemma find_sole:
  assumes "r \<in> set xs" "P r" "\<And>x. x \<in> set xs \<Longrightarrow> P x \<Longrightarrow> x = r"
  shows "find P xs = Some r"
proof (cases "find P xs")
  case None
  with assms(1,2) show ?thesis by (auto simp: find_None_iff)
next
  case (Some x)
  then have "x \<in> set xs" "P x" by (auto simp: find_Some_iff)
  with assms(3) Some show ?thesis by simp
qed

lemma replay_reference_found:
  assumes "r \<in> set (tb_revisions t)" "distinct (map fr_id (tb_revisions t))"
    and "fm_revision_id m = Some (fr_id r)" "fr_fixture_id r = fm_subject_id m" "fm_revision_digest m = Some (fr_digest r)"
  shows "replay_reference t m = Inr (Some \<lparr>rf_fixture_id = fm_subject_id m, rf_revision_id = fr_id r, rf_revision_digest = fr_digest r\<rparr>)"
proof -
  have "find (\<lambda>x. fr_id x = fr_id r \<and> fr_fixture_id x = fm_subject_id m) (tb_revisions t) = Some r"
    using assms(1,2,4) by (intro find_sole) (auto dest: inj_onD [OF distinct_map [THEN iffD1, THEN conjunct2]])
  then show ?thesis using assms(3,5) by (simp add: replay_reference_def)
qed

text \<open>The references of a replay: one for every membership with a controlling revision.\<close>

definition membership_reference :: "frozen_membership \<Rightarrow> revision_reference option" where
  "membership_reference m =
     (case fm_revision_id m of None \<Rightarrow> None
      | Some rid \<Rightarrow> Some \<lparr>rf_fixture_id = fm_subject_id m, rf_revision_id = rid,
          rf_revision_digest = (case fm_revision_digest m of None \<Rightarrow> [] | Some d \<Rightarrow> d)\<rparr>)"

definition membership_references :: "frozen_membership list \<Rightarrow> revision_reference list" where
  "membership_references ms = sort_key rf_revision_id (List.map_filter membership_reference ms)"

lemma replay_references:
  assumes "load_revision_candidates t season = Inr cs" "build_memberships H t mid w season b cs = Inr ms"
    and "set (tb_revisions t) \<subseteq> set (tb_revisions t')" "distinct (map fr_id (tb_revisions t'))"
  shows "mapR (replay_reference t') ms = Inr (map membership_reference ms)"
proof (rule mapR_Inr_map)
  fix m assume m: "m \<in> set ms"
  show "replay_reference t' m = Inr (membership_reference m)"
  proof (cases "fm_revision_id m")
    case None
    then show ?thesis by (simp add: replay_reference_def membership_reference_def)
  next
    case (Some rid)
    obtain r where r: "r \<in> set (tb_revisions t)" "fr_id r = rid" "fr_fixture_id r = fm_subject_id m"
      "fm_revision_digest m = Some (fr_digest r)" using assms(1,2) m Some by (rule membership_revision)
    then have "r \<in> set (tb_revisions t')" using assms(3) by blast
    from replay_reference_found [OF this assms(4)] r Some show ?thesis by (simp add: membership_reference_def)
  qed
qed

text \<open>What the replay asks of the artifact store: the two artifacts and the Snapshot Manifest of the
  freeze are still there.\<close>

definition keeps_artifacts :: "mw_hasher \<Rightarrow> freeze_plan \<Rightarrow> string \<Rightarrow> artifact_env \<Rightarrow> bool" where
  "keeps_artifacts H p d env \<longleftrightarrow>
     read_content env (sha_text H (membership_artifact H p)) = Inr (membership_artifact H p) \<and>
     read_content env (sha_text H (revision_artifact p)) = Inr (revision_artifact p) \<and>
     verify_snapshot env d = Inr (co_matchweek_id (pl_cutoff p),
       sort [sha_text H (membership_artifact H p), sha_text H (revision_artifact p)])"

lemma date_of_window: "window_for_friday friday = Inr w \<Longrightarrow> date_value friday = Inr (friday_local w)"
  by (auto simp: window_for_friday_def window_init_def)

lemma map_filter_id: "List.map_filter id (map g xs) = List.map_filter g xs"
  by (simp add: List.map_filter_def filter_map comp_def)

lemma replay_frozen:
  assumes "plan_freeze H t w season as_of = Inr p" "window_for_friday friday = Inr w"
    and "load_freeze H (matchweek_id H season (friday_local w)) st = Inr (Some g)" "g = (frozen_as H w season p d)\<lparr>fz_appendix := app\<rparr>"
    and "keeps_artifacts H p d env"
    and "set (tb_revisions t) \<subseteq> set (tb_revisions (ms_source st))" "distinct (map fr_id (tb_revisions (ms_source st)))"
  shows "replay_matchweek H env friday season None st =
    Inr \<lparr>ry_freeze = g, ry_revisions = membership_references (pl_memberships p)\<rparr>"
proof -
  obtain b where cs: "load_revision_candidates t season = Inr (pl_candidates p)"
    and b: "build_memberships H t (matchweek_id H season (friday_local w)) w season b (pl_candidates p) = Inr (pl_memberships p)"
    and m: "manifest_init (pl_manifest p) = Inr (pl_manifest p)" "mm_memberships (pl_manifest p) = pl_memberships p"
    using assms(1) by (rule plan_freezeE)
  have read: "manifest_from_bytes H (membership_artifact H p) = Inr (pl_manifest p)"
    unfolding membership_artifact_def
    using build_memberships_init [OF b] m by (intro manifest_reads_back) simp_all
  have dig: "manifest_digest H (pl_manifest p) = sha_text H (membership_artifact H p)"
    by (simp add: manifest_digest_def membership_artifact_def)
  note refs = replay_references [OF cs b assms(6,7)]
  have f: "read_frozen_matchweek H friday season st = Inr g"
    using assms(3) date_of_window [OF assms(2)] by (simp add: read_frozen_matchweek_def)
  show ?thesis
    using assms(5) read dig refs m(2) unfolding replay_matchweek_def f keeps_artifacts_def
    by (simp add: assms(4) frozen_as_def refuse_as_def membership_references_def map_filter_id)
qed

end
