(* ===== verification/Matchweek_Sample.thy ===== *)
theory Matchweek_Sample
  imports Matchweek_Replay Matchweek_Knowledge
begin

text \<open>
  A small store on which the properties of frozen Matchweeks are shown to apply: two fixtures of one
  weekend with a revision each, a postponement of the first learned after the cutoff, and its
  return to the schedule. The identifiers are padded sums of character codes, and every digest is one
  of three.
\<close>

definition zero_digest :: string where
  "zero_digest = replicate 64 (CHR ''0'')"

section \<open>The tables\<close>

definition sample_revision :: "string \<Rightarrow> string \<Rightarrow> string \<Rightarrow> string \<Rightarrow> string \<Rightarrow> revision_row" where
  "sample_revision r f kickoff status observed =
     \<lparr>fr_id = r, fr_fixture_id = f, fr_digest = zero_digest, fr_kickoff_state = ''OBSERVED'',
      fr_kickoff_utc = Some kickoff, fr_kickoff_local = None, fr_kickoff_precision = ''MINUTE'',
      fr_status = status, fr_observed_at = observed, fr_capture_id = ''C1''\<rparr>"

definition sample_fixture :: "string \<Rightarrow> string \<Rightarrow> string \<Rightarrow> fixture_row" where
  "sample_fixture f home away =
     \<lparr>fx_id = f, fx_league_id = ''L'', fx_season_id = ''S'', fx_home_id = home, fx_away_id = away,
      fx_identity_state = ''CONFIRMED''\<rparr>"

definition saturday :: string where
  "saturday = ''2026-01-03T15:00:00.000000+00:00''"

definition sunday :: string where
  "sunday = ''2026-01-04T15:00:00.000000+00:00''"

definition december :: string where
  "december = ''2025-12-30T10:00:00.000000+00:00''"

definition sample_tables :: source_tables where
  "sample_tables =
     \<lparr>tb_leagues = [(''L'', ''league'')], tb_seasons = [(''S'', ''2025-26'')],
      tb_teams = [(''A'', ''Ajax''), (''B'', ''Brest''), (''C'', ''Celta''), (''D'', ''Derby'')],
      tb_fixtures = [sample_fixture ''F1'' ''A'' ''B'', sample_fixture ''F2'' ''C'' ''D''],
      tb_revisions = [sample_revision ''R1'' ''F1'' saturday ''SCHEDULED'' december,
                      sample_revision ''R2'' ''F2'' sunday ''SCHEDULED'' december],
      tb_captures = [], tb_sources = [], tb_revision_assertions = [], tb_assertions = [], tb_unresolved = [],
      tb_conflicts = [], tb_conflict_assertions = []\<rparr>"

text \<open>The tables with the postponement and with the new date.\<close>

definition later_tables :: source_tables where
  "later_tables = sample_tables\<lparr>tb_revisions := tb_revisions sample_tables @
     [sample_revision ''R3'' ''F1'' saturday ''POSTPONED'' ''2026-01-03T12:00:00.000000+00:00'',
      sample_revision ''R4'' ''F1'' sunday ''SCHEDULED'' ''2026-01-03T13:00:00.000000+00:00'']\<rparr>"

definition mw_sample_store :: mw_store where
  "mw_sample_store =
     \<lparr>ms_writable = True, ms_source = sample_tables, ms_identifiers = [], ms_versions = [], ms_artifacts = [],
      ms_snapshots = [], ms_matchweeks = [], ms_cutoffs = [], ms_memberships = [], ms_freezes = [], ms_appendix = []\<rparr>"

definition sample_friday :: day_arg where
  "sample_friday = DayText ''2026-01-02''"

definition sample_window :: mw_window where
  "sample_window = \<lparr>friday_local = 739618\<rparr>"

definition sample_season :: string where
  "sample_season = ''2025-26''"

definition sample_candidate :: "string \<Rightarrow> string \<Rightarrow> string \<Rightarrow> string \<Rightarrow> string \<Rightarrow> string \<Rightarrow> string \<Rightarrow> revision_candidate" where
  "sample_candidate f home away r kickoff status observed =
     \<lparr>cd_fixture_id = f, cd_identity_state = ''CONFIRMED'', cd_league_key = ''league'', cd_season = ''2025-26'',
      cd_home = home, cd_away = away, cd_revision_id = r, cd_revision_digest = zero_digest,
      cd_kickoff_state = ''OBSERVED'', cd_kickoff_utc = Some kickoff, cd_kickoff_local = None,
      cd_kickoff_precision = ''MINUTE'', cd_status = status, cd_observed_at = observed, cd_supports = []\<rparr>"

definition first_candidate :: revision_candidate where
  "first_candidate = sample_candidate ''F1'' ''Ajax'' ''Brest'' ''R1'' saturday ''SCHEDULED'' december"

definition second_candidate :: revision_candidate where
  "second_candidate = sample_candidate ''F2'' ''Celta'' ''Derby'' ''R2'' sunday ''SCHEDULED'' december"

definition postponed_candidate :: revision_candidate where
  "postponed_candidate = sample_candidate ''F1'' ''Ajax'' ''Brest'' ''R3'' saturday ''POSTPONED'' ''2026-01-03T12:00:00.000000+00:00''"

definition moved_candidate :: revision_candidate where
  "moved_candidate = sample_candidate ''F1'' ''Ajax'' ''Brest'' ''R4'' sunday ''SCHEDULED'' ''2026-01-03T13:00:00.000000+00:00''"

section \<open>The parameters\<close>

definition pad_digits :: "nat \<Rightarrow> string \<Rightarrow> string" where
  "pad_digits n s = replicate (n - length s) (CHR ''0'') @ s"

definition one_digest :: string where
  "one_digest = replicate 63 (CHR ''0'') @ ''1''"

definition two_digest :: string where
  "two_digest = replicate 63 (CHR ''0'') @ ''2''"

definition sample_snapshot_text :: string where
  "sample_snapshot_text = revision_snapshot_bytes [first_candidate, second_candidate] 63902772000000000"

definition sample_sha :: "string \<Rightarrow> string" where
  "sample_sha s = (if s = sample_snapshot_text then one_digest else zero_digest)"

definition sample_hash :: mw_hasher where
  "sample_hash = \<lparr>sha_text = sample_sha,
     uuid5_source = (\<lambda>s. ''00000000-0000-0000-0000-'' @
        pad_digits 12 (nat_text (nat (sum_list (map (\<lambda>c. int (code c)) s)))))\<rparr>"

definition sample_publisher :: artifact_env where
  "sample_publisher = \<lparr>store_content = (\<lambda>_. None), store_snapshot = (\<lambda>_. Inr two_digest),
     read_content = (\<lambda>_. Inl (MwStoreError ''no content'')),
     verify_snapshot = (\<lambda>_. Inl (MwStoreError ''no manifest''))\<rparr>"

lemma json_text_field:
  assumes "json_text (PDict d) = json_text (PDict d')" "json_plain (PDict d)" "json_plain (PDict d')"
  shows "json_norm (dict_get d k) = json_norm (dict_get d' k)"
proof -
  have "norm_dict d = norm_dict d'"
    using json_loads_text [OF assms(2)] json_loads_text [OF assms(3)] unfolding assms(1) json_norm_dict by simp
  then show ?thesis using norm_dict_get [of d k] norm_dict_get [of d' k] assms(2,3) by simp
qed

lemma sample_snapshot_dict:
  obtains d where "sample_snapshot_text = json_text (PDict d)" "json_plain (PDict d)"
    "\<exists>s. dict_get d ''as_of_utc'' = PStr s"
proof -
  have "json_plain (support_dicts c)" for c
    by (simp add: support_dicts_def support_dict_def list_all_iff)
  then show ?thesis
    by (intro that) (auto simp: sample_snapshot_text_def revision_snapshot_bytes_def list_all_iff get_or_def simp del: json_text.simps)
qed

lemma sample_digest:
  assumes "json_plain (PDict d)" "dict_get d ''as_of_utc'' = PNone"
  shows "mw_digest sample_hash (PDict d) = zero_digest" "sha_text sample_hash (json_text (PDict d)) = zero_digest"
proof -
  obtain d' where d': "sample_snapshot_text = json_text (PDict d')" "json_plain (PDict d')"
    "\<exists>s. dict_get d' ''as_of_utc'' = PStr s" by (rule sample_snapshot_dict)
  have "json_text (PDict d) \<noteq> sample_snapshot_text"
  proof
    assume "json_text (PDict d) = sample_snapshot_text"
    from json_text_field [OF this [unfolded d'(1)] assms(1) d'(2), of "''as_of_utc''"] assms(2) d'(3)
    show False by auto
  qed
  then show "sha_text sample_hash (json_text (PDict d)) = zero_digest" by (simp add: sample_hash_def sample_sha_def del: json_text.simps)
  then show "mw_digest sample_hash (PDict d) = zero_digest" by (simp add: mw_digest_def del: json_text.simps)
qed

lemma sample_payload_digests [simp]:
  "membership_expected_digest sample_hash m = zero_digest" "appendix_expected_digest sample_hash e = zero_digest"
  "mw_digest sample_hash (cutoff_payload c) = zero_digest" "mw_digest sample_hash rules_payload = zero_digest"
  "sha_text sample_hash (manifest_bytes sample_hash n) = zero_digest"
proof -
  have p: "json_plain (PDict (review_to_dict v))" for v by (rule review_dict_props(2))
  show "membership_expected_digest sample_hash m = zero_digest" "appendix_expected_digest sample_hash e = zero_digest"
    "mw_digest sample_hash (cutoff_payload c) = zero_digest" "mw_digest sample_hash rules_payload = zero_digest"
    unfolding membership_expected_digest_def appendix_expected_digest_def cutoff_payload_def rules_payload_def
    by (rule sample_digest(1); use p in \<open>simp add: membership_payload_def appendix_payload_def get_or_def list_all_iff\<close>)+
  show "sha_text sample_hash (manifest_bytes sample_hash n) = zero_digest"
    unfolding manifest_bytes_def
    by (rule sample_digest(2)) (simp_all add: manifest_object_props del: json_plain.simps, simp add: manifest_object_def manifest_payload_def get_or_def)
qed

section \<open>What the module computes of them\<close>

lemma sample_window_of: "window_for_friday sample_friday = Inr sample_window"
  by code_simp

lemma sample_candidates: "load_revision_candidates sample_tables sample_season = Inr [first_candidate, second_candidate]"
  by code_simp

lemma later_candidates:
  "load_revision_candidates later_tables sample_season =
     Inr [first_candidate, postponed_candidate, moved_candidate, second_candidate]"
  by code_simp

text \<open>2026-01-03T09:00:00Z\<close>

definition sample_cutoff_at :: int where
  "sample_cutoff_at = 63903114000000000"

definition sample_matchweek :: string where
  "sample_matchweek = ''00000000-0000-0000-0000-000000001906''"

lemma sample_matchweek_id: "matchweek_id sample_hash sample_season (friday_local sample_window) = sample_matchweek"
  by code_simp

lemma sample_observed: "max_instant (map cd_observed_at [first_candidate, second_candidate]) = 63902772000000000"
  by code_simp

lemma sample_derived: "derive_cutoff [first_candidate, second_candidate] sample_window 63902772000000000 = Inr (sample_cutoff_at, first_candidate)"
  by code_simp

lemma later_derived:
  "derive_cutoff [first_candidate, postponed_candidate, moved_candidate, second_candidate] sample_window
     (max_instant (map cd_observed_at [first_candidate, postponed_candidate, moved_candidate, second_candidate])) =
   Inr (sample_cutoff_at, first_candidate)"
  by code_simp

section \<open>The plan\<close>

definition sample_membership :: "string \<Rightarrow> string \<Rightarrow> string \<Rightarrow> string \<Rightarrow> frozen_membership" where
  "sample_membership i f r kickoff =
     \<lparr>fm_id = i, fm_matchweek_id = sample_matchweek, fm_subject_kind = ''FIXTURE'', fm_subject_id = f,
      fm_state = INCLUDED, fm_target = True, fm_revision_id = Some r, fm_revision_digest = Some zero_digest,
      fm_authority_rank = 100, fm_authority = ''OBSERVATION:fixture_revision_observed_at'',
      fm_kickoff_utc = Some kickoff, fm_kickoff_local = None, fm_material_conflict = False,
      fm_conflict_predicates = [], fm_reason_code = ''IN_WINDOW_SCHEDULED'',
      fm_reason = ''Confirmed scheduled fixture falls inside the Africa/Lagos Matchweek window.'',
      fm_decision_state = ''ELIGIBLE_FOR_VETTING'', fm_digest = zero_digest\<rparr>"

definition first_membership :: frozen_membership where
  "first_membership = sample_membership ''00000000-0000-0000-0000-000000004399'' ''F1'' ''R1'' saturday"

definition second_membership :: frozen_membership where
  "second_membership = sample_membership ''00000000-0000-0000-0000-000000004400'' ''F2'' ''R2'' sunday"

lemma sample_row_ids:
  "membership_id sample_hash sample_matchweek ''FIXTURE'' ''F1'' = ''00000000-0000-0000-0000-000000004399''"
  "membership_id sample_hash sample_matchweek ''FIXTURE'' ''F2'' = ''00000000-0000-0000-0000-000000004400''"
  "cutoff_id sample_hash sample_matchweek = ''00000000-0000-0000-0000-000000003377''"
  by code_simp+

lemma sample_membership_init:
  assumes "canonical_stamp kickoff"
  shows "membership_init sample_hash ((sample_membership i f r kickoff)\<lparr>fm_digest := []\<rparr>) = Inr (sample_membership i f r kickoff)"
    "membership_init sample_hash (sample_membership i f r kickoff) = Inr (sample_membership i f r kickoff)"
  using assms by (simp_all add: membership_init_def sample_membership_def check_stamp_def canonical_stamp_def
      Let_def sorted_set_def)

lemma sample_stamps:
  "canonical_stamp saturday" "canonical_stamp sunday" "canonical_stamp december" "canonical_stamp ''2026-01-03T09:00:00.000000+00:00''"
  "iso_text sample_cutoff_at = ''2026-01-03T09:00:00.000000+00:00''" "instant_at saturday = sample_cutoff_at + lead_time_us"
  "instant_at ''2026-01-03T09:00:00.000000+00:00'' = sample_cutoff_at"
  "canonical_stamp (window_start_utc sample_window)" "canonical_stamp (window_end_utc sample_window)"
  by code_simp+

text \<open>A scheduled fixture of the weekend is a Target Match.\<close>

lemma sample_decision:
  assumes "window_contains sample_window (the (cd_kickoff_utc c))" "cd_kickoff_state c = ''OBSERVED''" "cd_kickoff_utc c \<noteq> None"
    "cd_status c = ''SCHEDULED''"
  shows "membership_decision sample_window ''CONFIRMED'' (Some c) False = (INCLUDED, ''IN_WINDOW_SCHEDULED'',
     ''Confirmed scheduled fixture falls inside the Africa/Lagos Matchweek window.'', ''ELIGIBLE_FOR_VETTING'')"
proof -
  have "scheduled_status ''SCHEDULED''" by code_simp
  with assms show ?thesis by (auto simp: membership_decision_def)
qed

lemma sample_fixture_membership:
  assumes "select_revision cs sample_cutoff_at = Some c" "material_conflicts t f sample_cutoff_at = []"
    and "authority_label (valid_supports c sample_cutoff_at) = (100, ''OBSERVATION:fixture_revision_observed_at'')"
    and "c = sample_candidate f home away r kickoff ''SCHEDULED'' observed"
    and "window_contains sample_window kickoff" "canonical_stamp kickoff"
    and "membership_id sample_hash sample_matchweek ''FIXTURE'' f = i"
  shows "fixture_membership sample_hash t sample_matchweek sample_window sample_cutoff_at (f, cs) = Inr (sample_membership i f r kickoff)"
proof -
  have d: "membership_decision sample_window ''CONFIRMED'' (Some c) False = (INCLUDED, ''IN_WINDOW_SCHEDULED'',
     ''Confirmed scheduled fixture falls inside the Africa/Lagos Matchweek window.'', ''ELIGIBLE_FOR_VETTING'')"
    using assms(4,5) by (intro sample_decision) (simp_all add: sample_candidate_def)
  have ref: "cd_identity_state (reference_candidate cs sample_cutoff_at) = ''CONFIRMED''"
    using assms(1,4) by (simp add: reference_candidate_def sample_candidate_def)
  have c: "cd_revision_id c = r" "cd_revision_digest c = zero_digest" "cd_kickoff_utc c = Some kickoff" "cd_kickoff_local c = None"
    by (simp_all add: assms(4) sample_candidate_def)
  show ?thesis
    using sample_membership_init(1) [OF assms(6), of i f r] d
    by (simp add: fixture_membership_def assms(1,2,3,7) ref c sample_membership_def)
qed

lemma sample_selects:
  "select_revision [first_candidate] sample_cutoff_at = Some first_candidate"
  "select_revision [first_candidate, postponed_candidate, moved_candidate] sample_cutoff_at = Some first_candidate"
  "select_revision [second_candidate] sample_cutoff_at = Some second_candidate"
  "authority_label (valid_supports first_candidate sample_cutoff_at) = (100, ''OBSERVATION:fixture_revision_observed_at'')"
  "authority_label (valid_supports second_candidate sample_cutoff_at) = (100, ''OBSERVATION:fixture_revision_observed_at'')"
  "window_contains sample_window saturday" "window_contains sample_window sunday"
  by code_simp+

lemma no_conflicts: "tb_conflicts t = [] \<Longrightarrow> material_conflicts t f b = []"
  by (simp add: material_conflicts_def conflict_values_def)

lemma sample_no_conflicts [simp]: "material_conflicts sample_tables f b = []" "material_conflicts later_tables f b = []"
  by (simp_all add: no_conflicts sample_tables_def later_tables_def)

lemma sample_groups:
  "sort_key fst (group_by cd_fixture_id [first_candidate, second_candidate]) = [(''F1'', [first_candidate]), (''F2'', [second_candidate])]"
  "sort_key fst (group_by cd_fixture_id [first_candidate, postponed_candidate, moved_candidate, second_candidate]) =
     [(''F1'', [first_candidate, postponed_candidate, moved_candidate]), (''F2'', [second_candidate])]"
  "load_unresolved_fixtures sample_tables sample_season = Inr []" "load_unresolved_fixtures later_tables sample_season = Inr []"
  "sort_key fm_id [first_membership, second_membership] = [first_membership, second_membership]"
  by code_simp+

lemma sample_memberships:
  "build_memberships sample_hash sample_tables sample_matchweek sample_window sample_season sample_cutoff_at
     [first_candidate, second_candidate] = Inr [first_membership, second_membership]"
  "build_memberships sample_hash later_tables sample_matchweek sample_window sample_season sample_cutoff_at
     [first_candidate, postponed_candidate, moved_candidate, second_candidate] = Inr [first_membership, second_membership]"
proof -
  note m = sample_selects sample_row_ids sample_stamps first_candidate_def second_candidate_def
  have m1: "fixture_membership sample_hash t sample_matchweek sample_window sample_cutoff_at (''F1'', cs) = Inr first_membership"
    if "select_revision cs sample_cutoff_at = Some first_candidate" "\<And>f b. material_conflicts t f b = []" for t cs
    unfolding first_membership_def
    by (rule sample_fixture_membership [OF that(1) _ _ first_candidate_def]) (simp_all add: that(2) m(4,6) sample_row_ids sample_stamps)
  have m2: "fixture_membership sample_hash t sample_matchweek sample_window sample_cutoff_at (''F2'', [second_candidate]) = Inr second_membership"
    if "\<And>f b. material_conflicts t f b = []" for t
    unfolding second_membership_def
    by (rule sample_fixture_membership [OF sample_selects(3) _ _ second_candidate_def]) (simp_all add: that m(5,7) sample_row_ids sample_stamps)
  show "build_memberships sample_hash sample_tables sample_matchweek sample_window sample_season sample_cutoff_at
     [first_candidate, second_candidate] = Inr [first_membership, second_membership]"
   "build_memberships sample_hash later_tables sample_matchweek sample_window sample_season sample_cutoff_at
     [first_candidate, postponed_candidate, moved_candidate, second_candidate] = Inr [first_membership, second_membership]"
    unfolding build_memberships_def sample_groups using sample_groups(5)
    by (simp_all add: m1 m2 sample_selects)
qed

definition sample_cutoff :: mw_cutoff where
  "sample_cutoff = \<lparr>co_id = ''00000000-0000-0000-0000-000000003377'', co_matchweek_id = sample_matchweek,
     co_utc = ''2026-01-03T09:00:00.000000+00:00'', co_earliest_fixture_id = ''F1'', co_earliest_kickoff_utc = saturday,
     co_lead_time_seconds = lead_time_seconds, co_digest = zero_digest\<rparr>"

definition sample_manifest :: membership_manifest where
  "sample_manifest = \<lparr>mm_matchweek_id = sample_matchweek, mm_season = sample_season, mm_friday_local = iso_date (friday_local sample_window),
     mm_window_start = window_start_utc sample_window, mm_window_end = window_end_utc sample_window, mm_cutoff_id = co_id sample_cutoff,
     mm_cutoff_utc = co_utc sample_cutoff, mm_memberships = [first_membership, second_membership],
     mm_rules_version = rules_name, mm_schema_version = manifest_schema_version\<rparr>"

definition sample_plan :: "revision_candidate list \<Rightarrow> freeze_plan" where
  "sample_plan cs = \<lparr>pl_candidates = cs, pl_as_of = max_instant (map cd_observed_at cs), pl_cutoff = sample_cutoff,
     pl_memberships = [first_membership, second_membership], pl_manifest = sample_manifest\<rparr>"

lemma sample_cutoff_init:
  "cutoff_init sample_hash sample_cutoff = Inr sample_cutoff"
  "cutoff_init sample_hash (sample_cutoff\<lparr>co_digest := []\<rparr>) = Inr sample_cutoff"
  using sample_stamps by (simp_all add: cutoff_init_def sample_cutoff_def Let_def canonical_stamp_def)

lemma sample_manifest_init: "manifest_init sample_manifest = Inr sample_manifest"
proof -
  have s: "check_stamp (Some x) msg = Inr ()" if "canonical_stamp x" for x msg
    using that by (simp add: check_stamp_def canonical_stamp_def)
  have "map fm_id [first_membership, second_membership] = sort (map fm_id [first_membership, second_membership])"
    "distinct (map fm_id [first_membership, second_membership])" by code_simp+
  then show ?thesis
    using s sample_stamps by (simp add: manifest_init_def sample_manifest_def sample_cutoff_def)
qed

lemma sample_earliest:
  "first_min membership_kickoff_key [first_membership, second_membership] = first_membership"
  by code_simp

lemma sample_plan_of:
  assumes "load_revision_candidates t sample_season = Inr cs" "cs \<noteq> []"
    and "derive_cutoff cs sample_window (max_instant (map cd_observed_at cs)) = Inr (sample_cutoff_at, c)"
    and "build_memberships sample_hash t sample_matchweek sample_window sample_season sample_cutoff_at cs = Inr [first_membership, second_membership]"
  shows "plan_freeze sample_hash t sample_window sample_season None = Inr (sample_plan cs)"
proof -
  have "filter (\<lambda>m. fm_state m = INCLUDED) [first_membership, second_membership] = [first_membership, second_membership]"
    by (simp add: first_membership_def second_membership_def sample_membership_def)
  moreover have "fm_kickoff_utc first_membership = Some saturday" "fm_subject_id first_membership = ''F1''"
    by (simp_all add: first_membership_def sample_membership_def)
  moreover have "opt_instant (Some saturday) - lead_time_us = sample_cutoff_at" by (simp add: opt_instant_def sample_stamps)
  ultimately show ?thesis
    using assms(2) sample_cutoff_init(2) sample_manifest_init sample_earliest
    by (simp add: plan_freeze_def Let_def sample_matchweek_id assms(1,3,4) observation_time_def sample_row_ids sample_stamps
        sample_cutoff_def sample_manifest_def sample_plan_def)
qed

lemma sample_plans:
  "plan_freeze sample_hash sample_tables sample_window sample_season None = Inr (sample_plan [first_candidate, second_candidate])"
  "plan_freeze sample_hash later_tables sample_window sample_season None =
     Inr (sample_plan [first_candidate, postponed_candidate, moved_candidate, second_candidate])"
  by (rule sample_plan_of [OF sample_candidates _ _ sample_memberships(1)] sample_plan_of [OF later_candidates _ later_derived sample_memberships(2)];
      simp only: sample_observed sample_derived list.distinct not_False_eq_True)+

end
