(* ===== verification/Matchweek_Sample_Run.thy ===== *)
theory Matchweek_Sample_Run
  imports Matchweek_Sample
begin

text \<open>The freeze of the sample store, and the withdrawal of its first Target Match.\<close>

section \<open>The freeze\<close>

definition sample_stamp :: string where
  "sample_stamp = ''2026-01-03T09:00:00.000000+00:00''"

definition sample_version :: version_identity where
  "sample_version =
     \<lparr>vi_id = ''00000000-0000-0000-0000-000000006078'', vi_definition_id = ''00000000-0000-0000-0000-000000004108'',
      vi_kind = rules_kind, vi_name = rules_name, vi_content = zero_digest, vi_contract_version = 1,
      vi_created = ''2026-01-01T00:00:00.000000+00:00'', vi_predecessor = None\<rparr>"

text \<open>The store before the rows of the freeze, and after.\<close>

definition published_store :: mw_store where
  "published_store = mw_sample_store\<lparr>ms_artifacts := [one_digest, zero_digest], ms_snapshots := [two_digest], ms_versions := [sample_version],
     ms_identifiers := [(''00000000-0000-0000-0000-000000006078'', ''version''),
       (''00000000-0000-0000-0000-000000004108'', ''version_definition'')]\<rparr>"

definition frozen_store :: mw_store where
  "frozen_store = published_store\<lparr>
     ms_identifiers := [(''00000000-0000-0000-0000-000000006078'', ''version''),
       (''00000000-0000-0000-0000-000000004108'', ''version_definition''), (sample_matchweek, ''matchweek''),
       (''00000000-0000-0000-0000-000000003377'', ''research_cutoff''),
       (''00000000-0000-0000-0000-000000004399'', ''frozen_membership''),
       (''00000000-0000-0000-0000-000000004400'', ''frozen_membership'')],
     ms_matchweeks := [matchweek_to_row sample_window sample_matchweek sample_season sample_stamp],
     ms_cutoffs := [\<lparr>cr_cutoff = sample_cutoff, cr_created = sample_stamp\<rparr>],
     ms_memberships := map (membership_to_row sample_matchweek sample_stamp) [first_membership, second_membership],
     ms_freezes := [\<lparr>zr_matchweek_id = sample_matchweek, zr_cutoff_id = co_id sample_cutoff, zr_snapshot_digest = two_digest,
       zr_membership_digest = zero_digest, zr_revision_digest = one_digest, zr_frozen_at = sample_stamp\<rparr>]\<rparr>"

lemma sample_uuids:
  "uuid_shaped ''00000000-0000-0000-0000-000000006078''" "uuid_shaped ''00000000-0000-0000-0000-000000004108''"
  "uuid_shaped ''00000000-0000-0000-0000-000000001906''" "uuid_shaped ''00000000-0000-0000-0000-000000003377''"
  "uuid_shaped ''00000000-0000-0000-0000-000000004399''" "uuid_shaped ''00000000-0000-0000-0000-000000004400''"
  "uuid_shaped ''00000000-0000-0000-0000-000000005064''" "uuid_shaped ''00000000-0000-0000-0000-000000006347''"
  "sha_shaped zero_digest" "zero_digest \<noteq> []" "one_digest \<noteq> zero_digest" "one_digest \<noteq> []"
  "sha_shaped one_digest" "sha_shaped two_digest" "two_digest \<noteq> zero_digest" "two_digest \<noteq> one_digest"
  by code_simp+

lemma sample_version_ids:
  "deterministic_identifier sample_hash ''version'' (rules_kind @ '':'' @ zero_digest) = ''00000000-0000-0000-0000-000000006078''"
  "deterministic_identifier sample_hash ''version_definition'' rules_kind = ''00000000-0000-0000-0000-000000004108''"
  "uuid_shaped (snapshot_id sample_hash sample_matchweek)" "uuid_shaped (version_manifest_id sample_hash)"
  by code_simp+

lemma sample_rules_version: "membership_rules_version sample_hash = Inr sample_version"
  by (simp add: membership_rules_version_def Let_def sample_version_ids [simplified] need_uuid_def sample_uuids sample_version_def)

lemma sample_insert:
  "insert_freeze sample_window sample_season sample_cutoff [first_membership, second_membership] two_digest zero_digest one_digest
     sample_stamp published_store = Inr frozen_store"
proof -
  note ids = sample_uuids mw_add_identifier_def typed_identifier_def
  have 1: "mw_add_identifier ''matchweek'' sample_matchweek published_store = Inr (published_store\<lparr>ms_identifiers :=
      ms_identifiers published_store @ [(sample_matchweek, ''matchweek'')]\<rparr>)" (is "_ = Inr ?s1")
    by (simp add: ids published_store_def sample_matchweek_def)
  have 2: "mw_add_identifier ''research_cutoff'' (co_id sample_cutoff) ?s1 = Inr (?s1\<lparr>ms_identifiers :=
      ms_identifiers ?s1 @ [(co_id sample_cutoff, ''research_cutoff'')]\<rparr>)" (is "_ = Inr ?s2")
    by (simp add: ids published_store_def sample_matchweek_def sample_cutoff_def)
  have 3: "insert_matchweek (matchweek_to_row sample_window sample_matchweek sample_season sample_stamp) ?s2 =
      Inr (?s2\<lparr>ms_matchweeks := [matchweek_to_row sample_window sample_matchweek sample_season sample_stamp]\<rparr>)" (is "_ = Inr ?s3")
    by (simp add: ids insert_matchweek_def matchweek_to_row_def published_store_def mw_sample_store_def)
  have 4: "insert_cutoff \<lparr>cr_cutoff = sample_cutoff, cr_created = sample_stamp\<rparr> ?s3 =
      Inr (?s3\<lparr>ms_cutoffs := [\<lparr>cr_cutoff = sample_cutoff, cr_created = sample_stamp\<rparr>]\<rparr>)" (is "_ = Inr ?s4")
    by (simp add: ids insert_cutoff_def matchweek_to_row_def published_store_def mw_sample_store_def sample_cutoff_def
        lead_time_seconds_def sample_tables_def sample_fixture_def)
  have 5: "insert_membershipR sample_matchweek sample_stamp ?s4 first_membership = Inr (?s4\<lparr>
      ms_identifiers := ms_identifiers ?s4 @ [(fm_id first_membership, ''frozen_membership'')],
      ms_memberships := [membership_to_row sample_matchweek sample_stamp first_membership]\<rparr>)" (is "_ = Inr ?s5")
    by (simp add: ids insert_membershipR_def insert_membership_def membership_row_ok_def opt_sha_shaped_def references_def
        membership_to_row_def first_membership_def sample_membership_def matchweek_to_row_def published_store_def
        mw_sample_store_def sample_cutoff_def sample_tables_def sample_fixture_def sample_revision_def sample_matchweek_def
        del: json_text.simps)
  have 6: "insert_membershipR sample_matchweek sample_stamp ?s5 second_membership = Inr (?s5\<lparr>
      ms_identifiers := ms_identifiers ?s5 @ [(fm_id second_membership, ''frozen_membership'')],
      ms_memberships := [membership_to_row sample_matchweek sample_stamp first_membership,
        membership_to_row sample_matchweek sample_stamp second_membership]\<rparr>)" (is "_ = Inr ?s6")
    by (simp add: ids insert_membershipR_def insert_membership_def membership_row_ok_def opt_sha_shaped_def references_def
        membership_to_row_def first_membership_def second_membership_def sample_membership_def matchweek_to_row_def published_store_def
        mw_sample_store_def sample_cutoff_def sample_tables_def sample_fixture_def sample_revision_def sample_matchweek_def
        del: json_text.simps)
  have 7: "insert_freeze_record \<lparr>zr_matchweek_id = sample_matchweek, zr_cutoff_id = co_id sample_cutoff, zr_snapshot_digest = two_digest,
       zr_membership_digest = zero_digest, zr_revision_digest = one_digest, zr_frozen_at = sample_stamp\<rparr> ?s6 = Inr frozen_store"
    by (simp add: ids insert_freeze_record_def matchweek_to_row_def published_store_def mw_sample_store_def frozen_store_def
        first_membership_def second_membership_def sample_membership_def sample_cutoff_def)
  have mid: "co_matchweek_id sample_cutoff = sample_matchweek" by (simp add: sample_cutoff_def)
  show ?thesis
    unfolding insert_freeze_def Let_def mid by (simp only: 1 2 3 4 5 6 7 foldR.simps bindR_simps)
qed

lemma sample_artifacts:
  "sha_text sample_hash (membership_artifact sample_hash (sample_plan cs)) = zero_digest"
  "sha_text sample_hash (revision_artifact (sample_plan [first_candidate, second_candidate])) = one_digest"
proof -
  show "sha_text sample_hash (membership_artifact sample_hash (sample_plan cs)) = zero_digest"
    unfolding membership_artifact_def by (rule sample_payload_digests(5))
  have "revision_artifact (sample_plan [first_candidate, second_candidate]) = sample_snapshot_text"
    unfolding revision_artifact_def sample_plan_def sample_snapshot_text_def freeze_plan.select_convs sample_observed ..
  then show "sha_text sample_hash (revision_artifact (sample_plan [first_candidate, second_candidate])) = one_digest"
    by (simp add: sample_hash_def sample_sha_def)
qed

lemma sample_plan_fields: "pl_cutoff (sample_plan cs) = sample_cutoff" "pl_memberships (sample_plan cs) = [first_membership, second_membership]"
  by (simp_all add: sample_plan_def)

text \<open>What the freeze of the sample store returns.\<close>

definition sample_freeze :: matchweek_freeze where
  "sample_freeze = frozen_as sample_hash sample_window sample_season (sample_plan [first_candidate, second_candidate]) two_digest"

lemma sample_load:
  "load_freeze sample_hash sample_matchweek mw_sample_store = Inr None"
  "load_freeze sample_hash sample_matchweek frozen_store = Inr (Some sample_freeze)"
proof -
  show "load_freeze sample_hash sample_matchweek mw_sample_store = Inr None"
    by (simp add: load_freeze_def freeze_headers_def mw_sample_store_def)
  have mid: "co_matchweek_id sample_cutoff = sample_matchweek" by (simp add: sample_cutoff_def)
  have "load_freeze sample_hash (co_matchweek_id sample_cutoff) frozen_store = Inr (Some
    \<lparr>fz_window = sample_window, fz_season = sample_season, fz_cutoff = sample_cutoff, fz_memberships = [first_membership, second_membership],
     fz_snapshot_digest = two_digest, fz_membership_digest = zero_digest, fz_revision_digest = one_digest, fz_appendix = []\<rparr>)"
  proof (rule load_fresh_freeze [OF sample_insert])
    show "fresh_freeze published_store sample_cutoff [first_membership, second_membership]"
      by (simp add: fresh_freeze_def published_store_def mw_sample_store_def)
    show "sorted (map fm_id [first_membership, second_membership])" by code_simp
    show "distinct (map fm_id [first_membership, second_membership])" by code_simp
    show "weekday (friday_local sample_window) = 4" using sample_window_of by (rule window_friday)
    show "friday_local sample_window \<le> max_ord" by (simp add: sample_window_def max_ord_def)
    show "membership_init sample_hash m = Inr m \<and> fm_matchweek_id m = co_matchweek_id sample_cutoff"
      if "m \<in> set [first_membership, second_membership]" for m
      using that sample_membership_init(2) sample_stamps(1,2)
      by (auto simp: first_membership_def second_membership_def mid) (simp_all add: sample_membership_def)
  qed (rule sample_cutoff_init(1))
  then show "load_freeze sample_hash sample_matchweek frozen_store = Inr (Some sample_freeze)"
    by (simp add: mid sample_freeze_def frozen_as_def sample_plan_fields sample_artifacts)
qed

lemma sample_freeze_run:
  "freeze_matchweek sample_hash sample_publisher sample_friday sample_season None None None mw_sample_store = (Inr sample_freeze, frozen_store)"
proof -
  let ?s0 = "mw_sample_store\<lparr>ms_artifacts := [zero_digest]\<rparr>"
  let ?s1 = "mw_sample_store\<lparr>ms_artifacts := [one_digest, zero_digest]\<rparr>"
  let ?s2 = "?s1\<lparr>ms_identifiers := [(''00000000-0000-0000-0000-000000006078'', ''version''),
       (''00000000-0000-0000-0000-000000004108'', ''version_definition'')], ms_versions := [sample_version]\<rparr>"
  let ?p = "sample_plan [first_candidate, second_candidate]"
  have p: "plan_freeze sample_hash (ms_source mw_sample_store) sample_window sample_season None = Inr ?p"
    using sample_plans(1) by (simp add: mw_sample_store_def)
  have 1: "publish_artifactA sample_hash sample_publisher (manifest_bytes sample_hash (pl_manifest ?p)) mw_sample_store = (Inr zero_digest, ?s0)"
    "publish_artifactA sample_hash sample_publisher (revision_snapshot_bytes (pl_candidates ?p) (pl_as_of ?p)) ?s0 = (Inr one_digest, ?s1)"
    using sample_artifacts(2) [unfolded revision_artifact_def] sample_uuids
    by (simp_all add: publish_artifactA_def sample_publisher_def mw_sample_store_def List.insert_def)
  have "insert_version sample_version ?s1 = Inr ?s2"
    by (simp add: insert_version_def mw_add_identifier_def sample_version_def sample_uuids mw_sample_store_def)
  then have 2: "ensure_membership_version sample_hash ?s1 = (Inr sample_version, ?s2)"
    by (simp add: ensure_membership_version_def sample_rules_version bindA_def transactionA_def mw_sample_store_def)
  have 3: "snapshot_identifiers sample_hash sample_cutoff = Inr [(), (), (), ()]"
    using sample_version_ids sample_uuids
    by (simp add: snapshot_identifiers_def need_uuid_def sample_cutoff_def sample_matchweek_def)
  have 4: "mw_canonical_utc (created_or_cutoff None sample_cutoff) = Inr sample_stamp"
    using sample_stamps(4) by (simp add: created_or_cutoff_def sample_cutoff_def sample_stamp_def canonical_stamp_def)
  have 5: "publish_manifestA sample_publisher request ?s2 = (Inr two_digest, published_store)" for request
    by (simp add: publish_manifestA_def sample_publisher_def published_store_def mw_sample_store_def List.insert_def)
  show ?thesis
    unfolding freeze_matchweek_def Let_def
    using 3 4 sample_insert
    by (simp add: bindA_def sample_window_of sample_matchweek_id sample_load p 1 2 5 transactionA_def
        sample_plan_fields guardR_def) (simp add: mw_sample_store_def)
qed

section \<open>A withdrawal\<close>

definition late_store :: mw_store where
  "late_store = frozen_store\<lparr>ms_source := later_tables\<rparr>"

definition sample_entry :: "string \<Rightarrow> string \<Rightarrow> string \<Rightarrow> appendix_event \<Rightarrow> string \<Rightarrow> string \<Rightarrow> string \<Rightarrow> string \<Rightarrow> appendix_entry" where
  "sample_entry i key r event kickoff observed rcode reason =
     \<lparr>ae_id = i, ae_event_key = key, ae_matchweek_id = sample_matchweek, ae_subject_kind = ''FIXTURE'', ae_subject_id = ''F1'',
      ae_fixture_id = Some ''F1'', ae_membership_id = Some (fm_id first_membership), ae_revision_id = Some r,
      ae_revision_digest = Some zero_digest, ae_event = event, ae_disposition = WITHDRAWN, ae_settlement = Some ''VOID'',
      ae_original_kickoff = Some saturday, ae_current_kickoff = Some kickoff, ae_observed_at = observed,
      ae_review = default_review, ae_reason_code = rcode, ae_reason = reason, ae_digest = zero_digest\<rparr>"

definition postponed_entry :: appendix_entry where
  "postponed_entry = sample_entry ''00000000-0000-0000-0000-000000005064''
     ''00000000-0000-0000-0000-000000001906:F1:R3:POSTPONED'' ''R3'' POSTPONED saturday ''2026-01-03T12:00:00.000000+00:00''
     ''POSTPONED_AFTER_CUTOFF'' ''The INCLUDED fixture was postponed after the Research Cutoff.''"

definition moved_entry :: appendix_entry where
  "moved_entry = sample_entry ''00000000-0000-0000-0000-000000006347''
     ''00000000-0000-0000-0000-000000001906:F1:R4:SAME_WINDOW_KICKOFF_CHANGE'' ''R4'' SAME_WINDOW_KICKOFF_CHANGE sunday
     ''2026-01-03T13:00:00.000000+00:00'' ''WITHDRAWAL_NOT_RESTORED''
     ''The fixture was already withdrawn from the frozen Matchweek; a later reschedule cannot restore its production decision.''"

lemma sample_late_events:
  "standing_event sample_window sample_cutoff_at first_membership None False postponed_candidate =
     (POSTPONED, WITHDRAWN, ''POSTPONED_AFTER_CUTOFF'', ''The INCLUDED fixture was postponed after the Research Cutoff.'')"
  "withdrawn_event sample_window moved_candidate = SAME_WINDOW_KICKOFF_CHANGE"
  "deterministic_identifier sample_hash ''post_cutoff_appendix'' ''00000000-0000-0000-0000-000000001906:F1:R3:POSTPONED'' =
     ''00000000-0000-0000-0000-000000005064''"
  "deterministic_identifier sample_hash ''post_cutoff_appendix''
     ''00000000-0000-0000-0000-000000001906:F1:R4:SAME_WINDOW_KICKOFF_CHANGE'' = ''00000000-0000-0000-0000-000000006347''"
  "max_instant (map cd_observed_at [first_candidate, postponed_candidate, moved_candidate]) = instant_at ''2026-01-03T13:00:00.000000+00:00''"
  "sample_cutoff_at < instant_at ''2026-01-03T12:00:00.000000+00:00''"
  "instant_at ''2026-01-03T12:00:00.000000+00:00'' < instant_at ''2026-01-03T13:00:00.000000+00:00''"
  "canonical_stamp ''2026-01-03T12:00:00.000000+00:00''" "canonical_stamp ''2026-01-03T13:00:00.000000+00:00''"
  by code_simp+

lemma sample_entry_init:
  assumes "canonical_stamp kickoff" "canonical_stamp observed"
  shows "appendix_init sample_hash ((sample_entry i key r event kickoff observed rcode reason)\<lparr>ae_digest := []\<rparr>) =
      Inr (sample_entry i key r event kickoff observed rcode reason)"
    "appendix_init sample_hash (sample_entry i key r event kickoff observed rcode reason) =
      Inr (sample_entry i key r event kickoff observed rcode reason)"
  using assms sample_stamps(1)
  by (simp_all add: appendix_init_def sample_entry_def check_stamp_def canonical_stamp_def Let_def)

definition withdrawn_store :: mw_store where
  "withdrawn_store = late_store\<lparr>ms_identifiers := ms_identifiers late_store @ [(ae_id postponed_entry, ''post_cutoff_appendix'')],
     ms_appendix := [appendix_to_row postponed_entry]\<rparr>"

definition final_store :: mw_store where
  "final_store = withdrawn_store\<lparr>ms_identifiers := ms_identifiers withdrawn_store @ [(ae_id moved_entry, ''post_cutoff_appendix'')],
     ms_appendix := [appendix_to_row postponed_entry, appendix_to_row moved_entry]\<rparr>"

lemma sample_entries_init:
  "appendix_init sample_hash postponed_entry = Inr postponed_entry" "appendix_init sample_hash moved_entry = Inr moved_entry"
  "appendix_init sample_hash (postponed_entry\<lparr>ae_digest := []\<rparr>) = Inr postponed_entry"
  "appendix_init sample_hash (moved_entry\<lparr>ae_digest := []\<rparr>) = Inr moved_entry"
  unfolding postponed_entry_def moved_entry_def
  by (rule sample_entry_init; simp add: sample_stamps sample_late_events)+

lemma load_same_tables: "load_freeze H mid st = r \<Longrightarrow> frozen_tables st' = frozen_tables st \<Longrightarrow> load_freeze H mid st' = r"
  using load_freeze_tables by metis

lemma load_other_appendix:
  assumes "load_freeze H mid st = Inr (Some f)"
    and "mapR (appendix_from_row H) (sort_key (\<lambda>r. (pr_observed_at r, pr_id r)) (filter (\<lambda>r. pr_matchweek_id r = mid) rows)) = Inr es"
  shows "load_freeze H mid (st\<lparr>ms_appendix := rows\<rparr>) = Inr (Some (f\<lparr>fz_appendix := es\<rparr>))"
proof -
  have "freeze_headers (st\<lparr>ms_appendix := rows\<rparr>) mid = freeze_headers st mid" by (simp add: freeze_headers_filter)
  then show ?thesis using assms by (auto simp: load_freeze_def split: list.splits)
qed

lemma sample_late_loads:
  "load_freeze sample_hash sample_matchweek late_store = Inr (Some sample_freeze)"
  "load_freeze sample_hash sample_matchweek withdrawn_store = Inr (Some (sample_freeze\<lparr>fz_appendix := [postponed_entry]\<rparr>))"
  "load_freeze sample_hash sample_matchweek final_store = Inr (Some (sample_freeze\<lparr>fz_appendix := [postponed_entry, moved_entry]\<rparr>))"
proof -
  show late: "load_freeze sample_hash sample_matchweek late_store = Inr (Some sample_freeze)"
    by (rule load_same_tables [OF sample_load(2)]) (simp add: late_store_def frozen_tables_def)
  have rows: "pr_matchweek_id (appendix_to_row postponed_entry) = sample_matchweek" "pr_matchweek_id (appendix_to_row moved_entry) = sample_matchweek"
    "(pr_observed_at (appendix_to_row postponed_entry), pr_id (appendix_to_row postponed_entry)) \<le>
       (pr_observed_at (appendix_to_row moved_entry), pr_id (appendix_to_row moved_entry))"
    by (simp_all add: appendix_to_row_def postponed_entry_def moved_entry_def sample_entry_def)
  have load: "load_freeze sample_hash sample_matchweek st = Inr (Some (sample_freeze\<lparr>fz_appendix := es\<rparr>))"
    if "frozen_tables st = frozen_tables (late_store\<lparr>ms_appendix := map appendix_to_row es\<rparr>)"
      "filter (\<lambda>r. pr_matchweek_id r = sample_matchweek) (map appendix_to_row es) = map appendix_to_row es"
      "sort_key (\<lambda>r. (pr_observed_at r, pr_id r)) (map appendix_to_row es) = map appendix_to_row es"
      "\<And>e. e \<in> set es \<Longrightarrow> appendix_init sample_hash e = Inr e" for st es
  proof -
    have m: "mapR (appendix_from_row sample_hash) (map appendix_to_row es) = Inr es"
      using that(4) by (intro mapR_roundtrip appendix_row_roundtrip)
    have "load_freeze sample_hash sample_matchweek (late_store\<lparr>ms_appendix := map appendix_to_row es\<rparr>) =
        Inr (Some (sample_freeze\<lparr>fz_appendix := es\<rparr>))"
      by (rule load_other_appendix [OF late]) (simp add: that(2,3) m)
    then show ?thesis using load_freeze_tables [OF that(1)] by simp
  qed
  show "load_freeze sample_hash sample_matchweek withdrawn_store = Inr (Some (sample_freeze\<lparr>fz_appendix := [postponed_entry]\<rparr>))"
    by (rule load) (simp_all add: withdrawn_store_def frozen_tables_def rows sample_entries_init)
  show "load_freeze sample_hash sample_matchweek final_store = Inr (Some (sample_freeze\<lparr>fz_appendix := [postponed_entry, moved_entry]\<rparr>))"
    using rows(3)
    by (intro load) (auto simp: final_store_def withdrawn_store_def frozen_tables_def rows(1,2) sample_entries_init)
qed

lemma sample_late_reads:
  assumes "st = late_store \<or> st = withdrawn_store"
  shows "load_revision_candidates (ms_source st) sample_season = Inr [first_candidate, postponed_candidate, moved_candidate, second_candidate]"
    "ms_source st = later_tables"
  using assms later_candidates by (auto simp: late_store_def withdrawn_store_def)

lemma sample_read:
  "read_frozen_matchweek sample_hash sample_friday sample_season st = bindR (load_freeze sample_hash sample_matchweek st) (\<lambda>found.
     case found of
       None \<Rightarrow> Inl (MatchweekError ''MV-T05-MATCHWEEK_NOT_FROZEN'' ''The requested Matchweek is not frozen.'')
     | Some f \<Rightarrow> Inr f)"
  by (simp add: read_frozen_matchweek_def date_of_window [OF sample_window_of] sample_matchweek_id)

lemma sample_freeze_fields:
  "fz_cutoff sample_freeze = sample_cutoff" "fz_window sample_freeze = sample_window" "fz_appendix sample_freeze = []"
  "frozen_membership_of (sample_freeze\<lparr>fz_appendix := es\<rparr>) ''F1'' = Some first_membership" "fm_state first_membership = INCLUDED"
  "fm_kickoff_utc first_membership = Some saturday" "instant_at (co_utc sample_cutoff) = sample_cutoff_at"
  "co_matchweek_id sample_cutoff = sample_matchweek"
  by (simp_all add: sample_freeze_def frozen_as_def sample_plan_fields frozen_membership_of_def first_membership_def sample_membership_def
      sample_cutoff_def sample_stamps)

lemma sample_late_candidates:
  "late_candidate later_tables sample_season ''F1'' (Some ''R3'') None cs = Inr postponed_candidate"
  "late_candidate later_tables sample_season ''F1'' (Some ''R4'') None cs = Inr moved_candidate"
  by (simp_all add: late_candidate_def revision_candidate_of_def later_candidates first_candidate_def postponed_candidate_def
      moved_candidate_def second_candidate_def sample_candidate_def)

lemma late_candidate_fields:
  "cd_observed_at postponed_candidate = ''2026-01-03T12:00:00.000000+00:00''" "cd_supports postponed_candidate = []"
  "cd_observed_at moved_candidate = ''2026-01-03T13:00:00.000000+00:00''" "cd_supports moved_candidate = []"
  "cd_fixture_id postponed_candidate = ''F1''" "cd_fixture_id moved_candidate = ''F1''"
  "cd_revision_id postponed_candidate = ''R3''" "cd_revision_id moved_candidate = ''R4''"
  "cd_revision_digest postponed_candidate = zero_digest" "cd_revision_digest moved_candidate = zero_digest"
  "cd_kickoff_utc postponed_candidate = Some saturday" "cd_kickoff_utc moved_candidate = Some sunday"
  "cd_observed_at first_candidate = december" "cd_fixture_id first_candidate = ''F1''" "cd_fixture_id second_candidate = ''F2''"
  by (simp_all add: first_candidate_def second_candidate_def postponed_candidate_def moved_candidate_def sample_candidate_def)

lemma sample_late_reading:
  "observation_time None [december, ''2026-01-03T12:00:00.000000+00:00'', ''2026-01-03T13:00:00.000000+00:00''] =
     Inr (instant_at ''2026-01-03T13:00:00.000000+00:00'')"
  "post_cutoff_supports postponed_candidate x y = []" "post_cutoff_supports moved_candidate x y = []"
  "sample_matchweek @ '':F1:R3:POSTPONED'' = ''00000000-0000-0000-0000-000000001906:F1:R3:POSTPONED''"
  "sample_matchweek @ '':F1:R4:SAME_WINDOW_KICKOFF_CHANGE'' = ''00000000-0000-0000-0000-000000001906:F1:R4:SAME_WINDOW_KICKOFF_CHANGE''"
  "frozen_membership_of sample_freeze ''F1'' = Some first_membership"
  using sample_late_events(5) sample_freeze_fields(4) [of "[]"]
  by (simp_all add: observation_time_def post_cutoff_supports_def late_candidate_fields sample_matchweek_def frozen_membership_of_def)

lemmas late_entry_simps = late_revision_entry_def Let_def sample_read sample_late_loads sample_late_candidates
  sample_late_reading late_candidate_fields supplied_review_def sample_freeze_fields

lemma sample_late_entries:
  "late_revision_entry sample_hash sample_friday ''F1'' sample_season (Some ''R3'') None None True late_store = Inr postponed_entry"
  "late_revision_entry sample_hash sample_friday ''F1'' sample_season (Some ''R4'') None None True withdrawn_store = Inr moved_entry"
proof -
  note ev = sample_late_events(1,2) and ids = sample_late_events(3,4) and times = sample_late_events(6,7)
  have e1: "appendix_entry_for sample_hash sample_freeze postponed_candidate POSTPONED WITHDRAWN ''2026-01-03T12:00:00.000000+00:00''
      default_review ''POSTPONED_AFTER_CUTOFF'' ''The INCLUDED fixture was postponed after the Research Cutoff.'' = Inr postponed_entry"
    using sample_entries_init(3)
    by (simp add: appendix_entry_for_def Let_def sample_freeze_fields sample_late_reading ids late_candidate_fields
        postponed_entry_def sample_entry_def)
  have e2: "appendix_entry_for sample_hash (sample_freeze\<lparr>fz_appendix := [postponed_entry]\<rparr>) moved_candidate SAME_WINDOW_KICKOFF_CHANGE WITHDRAWN
      ''2026-01-03T13:00:00.000000+00:00'' default_review ''WITHDRAWAL_NOT_RESTORED''
      ''The fixture was already withdrawn from the frozen Matchweek; a later reschedule cannot restore its production decision.'' = Inr moved_entry"
    using sample_entries_init(4)
    by (simp add: appendix_entry_for_def Let_def sample_freeze_fields sample_late_reading ids late_candidate_fields
        moved_entry_def sample_entry_def)
  have "late_entry sample_hash later_tables sample_freeze cs obs None postponed_candidate = Inr postponed_entry" for cs obs
    using e1 by (simp add: late_entry_def Let_def sample_freeze_fields sample_late_reading late_candidate_fields
        post_cutoff_observation_def previously_withdrawn_def ev)
  then show "late_revision_entry sample_hash sample_friday ''F1'' sample_season (Some ''R3'') None None True late_store = Inr postponed_entry"
    using times sample_late_reads [of late_store] by (simp add: late_entry_simps)
  have "late_entry sample_hash later_tables (sample_freeze\<lparr>fz_appendix := [postponed_entry]\<rparr>) cs obs None moved_candidate = Inr moved_entry" for cs obs
    using e2 by (simp add: late_entry_def Let_def sample_freeze_fields late_candidate_fields post_cutoff_observation_def
        sample_late_reading previously_withdrawn_def ev postponed_entry_def sample_entry_def)
  then show "late_revision_entry sample_hash sample_friday ''F1'' sample_season (Some ''R4'') None None True withdrawn_store = Inr moved_entry"
    using times sample_late_reads [of withdrawn_store] by (simp add: late_entry_simps)
qed

text \<open>The same move, reviewed and found harmless, of the match that still stands.\<close>

definition passed_review :: validity_review where
  "passed_review = \<lparr>vr_identity_unchanged = Some True, vr_scope_unchanged = Some True, vr_kickoff_after_cutoff = Some True,
     vr_no_postponement = Some True, vr_pre_match_valid = Some True, vr_critical_evidence_valid = Some True,
     vr_research_sufficiency_valid = Some True, vr_information_boundary_valid = Some True\<rparr>"

definition kept_entry :: appendix_entry where
  "kept_entry = moved_entry\<lparr>ae_disposition := PRESERVED, ae_settlement := None, ae_review := passed_review,
     ae_reason_code := ''SAME_WINDOW_VALIDITY_PASSED'',
     ae_reason := ''The same-window kickoff change passed every pre-match validity assumption.''\<rparr>"

lemma sample_kept_event:
  "standing_event sample_window sample_cutoff_at first_membership (Some passed_review) False moved_candidate =
     (SAME_WINDOW_KICKOFF_CHANGE, PRESERVED, ''SAME_WINDOW_VALIDITY_PASSED'',
      ''The same-window kickoff change passed every pre-match validity assumption.'')"
  by code_simp

lemma sample_kept:
  "late_revision_entry sample_hash sample_friday ''F1'' sample_season (Some ''R4'') None (Some passed_review) True late_store = Inr kept_entry"
proof -
  have "appendix_init sample_hash (kept_entry\<lparr>ae_digest := []\<rparr>) = Inr kept_entry"
    using sample_stamps sample_late_events(8,9)
    by (simp add: kept_entry_def moved_entry_def sample_entry_def appendix_init_def check_stamp_def canonical_stamp_def Let_def)
  then have "appendix_entry_for sample_hash sample_freeze moved_candidate SAME_WINDOW_KICKOFF_CHANGE PRESERVED
      ''2026-01-03T13:00:00.000000+00:00'' passed_review ''SAME_WINDOW_VALIDITY_PASSED''
      ''The same-window kickoff change passed every pre-match validity assumption.'' = Inr kept_entry"
    by (simp add: appendix_entry_for_def Let_def sample_freeze_fields sample_late_reading sample_late_events(4) late_candidate_fields
        kept_entry_def moved_entry_def sample_entry_def)
  then have "late_entry sample_hash later_tables sample_freeze cs obs (Some passed_review) moved_candidate = Inr kept_entry" for cs obs
    by (simp add: late_entry_def Let_def sample_freeze_fields sample_late_reading late_candidate_fields
        post_cutoff_observation_def previously_withdrawn_def sample_kept_event)
  then show ?thesis using sample_late_events(6,7) sample_late_reads [of late_store] by (simp add: late_entry_simps)
qed

text \<open>Storing an entry that is new.\<close>

lemma store_new_entry:
  assumes "appendix_init H e = Inr e" "ae_event_key e \<notin> set (map pr_event_key (ms_appendix st))"
    and "bindR (mw_add_identifier ''post_cutoff_appendix'' (ae_id e) st) (insert_appendix (appendix_to_row e)) = Inr st'"
    and "ms_appendix st' = ms_appendix st @ [appendix_to_row e]"
  shows "store_appendix_entry H e st = (Inr e, st')"
proof -
  have no: "find (\<lambda>r. pr_event_key r = ae_event_key e) (ms_appendix st) = None"
    using assms(2) by (auto simp: find_None_iff image_iff)
  have key: "pr_event_key (appendix_to_row e) = ae_event_key e" by (simp add: appendix_to_row_def)
  have "find (\<lambda>r. pr_event_key r = ae_event_key e) (xs @ [appendix_to_row e]) = Some (appendix_to_row e)"
    if "find (\<lambda>r. pr_event_key r = ae_event_key e) xs = None" for xs
    using that by (induction xs) (auto simp: key split: if_splits)
  then have "appendix_row_for_event H (ae_event_key e) st' = Inr (Some e)"
    using no appendix_row_roundtrip [OF assms(1)] by (simp add: appendix_row_for_event_def assms(4))
  moreover have "appendix_row_for_event H (ae_event_key e) st = Inr None" using no by (simp add: appendix_row_for_event_def)
  moreover have "transactionA (\<lambda>st. bindR (mw_add_identifier ''post_cutoff_appendix'' (ae_id e) st)
      (insert_appendix (appendix_to_row e))) st = (Inr (), st')" using assms(3) by (simp only: transactionA_Inr)
  ultimately show ?thesis unfolding store_appendix_entry_def by (simp add: bindA_def)
qed

lemma sample_appends:
  "append_post_cutoff_revision sample_hash sample_friday ''F1'' sample_season (Some ''R3'') None None True late_store =
     (Inr postponed_entry, withdrawn_store)"
  "append_post_cutoff_revision sample_hash sample_friday ''F1'' sample_season (Some ''R4'') None None True withdrawn_store =
     (Inr moved_entry, final_store)"
proof -
  note defs = mw_add_identifier_def typed_identifier_def insert_appendix_def appendix_row_ok_def appendix_to_row_def
    sample_entry_def sample_uuids opt_sha_shaped_def references_def final_store_def withdrawn_store_def late_store_def frozen_store_def
    published_store_def mw_sample_store_def first_membership_def second_membership_def sample_membership_def membership_to_row_def
    matchweek_to_row_def later_tables_def sample_tables_def sample_fixture_def sample_revision_def sample_matchweek_def
  have 1: "store_appendix_entry sample_hash postponed_entry late_store = (Inr postponed_entry, withdrawn_store)"
    by (rule store_new_entry [OF sample_entries_init(1)])
      (simp_all add: postponed_entry_def defs del: json_text.simps)
  have 2: "store_appendix_entry sample_hash moved_entry withdrawn_store = (Inr moved_entry, final_store)"
    by (rule store_new_entry [OF sample_entries_init(2)])
      (simp_all add: postponed_entry_def moved_entry_def defs del: json_text.simps)
  show "append_post_cutoff_revision sample_hash sample_friday ''F1'' sample_season (Some ''R3'') None None True late_store =
     (Inr postponed_entry, withdrawn_store)"
   "append_post_cutoff_revision sample_hash sample_friday ''F1'' sample_season (Some ''R4'') None None True withdrawn_store =
     (Inr moved_entry, final_store)"
    by (simp_all add: append_post_cutoff_revision_def bindA_def sample_late_entries 1 2)
qed

end
