(* ===== verification/Matchweek_Properties.thy ===== *)
theory Matchweek_Properties
  imports Matchweek_Sample_Run
begin

text \<open>The properties of frozen Matchweeks, each at the sample store.\<close>

section \<open>The freeze\<close>

text \<open>C16: A first freeze of a Matchweek, when it returns, returns the plan made from the fixtures known so far
  with the digests of the artifacts it published, and freezing the Matchweek again, with whatever
  arguments and over whatever fixtures and artifact store, returns the same and writes nothing. The
  identifiers of the plan must be new to the store.\<close>

theorem freeze_publishes_plan_once:
  assumes "freeze_matchweek H env friday season as_of created verified st = (Inr f, st')"
    and "window_for_friday friday = Inr w" and "load_freeze H (matchweek_id H season (friday_local w)) st = Inr None"
    and "plan_freeze H (ms_source st) w season as_of = Inr p" and "fresh_freeze st (pl_cutoff p) (pl_memberships p)"
  shows "f = frozen_as H w season p (fz_snapshot_digest f) \<and> read_frozen_matchweek H friday season st' = Inr f \<and>
    freeze_matchweek H env' friday season as_of' created' verified' (st'\<lparr>ms_source := t\<rparr>) = (Inr f, st'\<lparr>ms_source := t\<rparr>)"
proof -
  have d: "distinct (map fm_id (pl_memberships p))"
    using assms(4) by (auto elim!: plan_freezeE simp: manifest_init_def)
  obtain d version stamp where f: "f = frozen_as H w season p d"
    "load_freeze H (matchweek_id H season (friday_local w)) st' = Inr (Some f)" "ms_writable st'"
    using assms d by (rule freeze_publishes)
  have "load_freeze H (matchweek_id H season (friday_local w)) (st'\<lparr>ms_source := t\<rparr>) = Inr (Some f)"
    by (rule load_same_tables [OF f(2)]) (simp add: frozen_tables_def)
  then have "freeze_matchweek H env' friday season as_of' created' verified' (st'\<lparr>ms_source := t\<rparr>) = (Inr f, st'\<lparr>ms_source := t\<rparr>)"
    using assms(2) f(3) by (intro freeze_again) simp_all
  then show ?thesis
    using f(1,2) date_of_window [OF assms(2)] by (simp add: read_frozen_matchweek_def frozen_as_def)
qed

lemma sample_first_freeze: "fresh_freeze mw_sample_store sample_cutoff ms"
  by (simp add: fresh_freeze_def mw_sample_store_def list_all_iff)

theorem freeze_publishes_plan_once_witness:
  "fst (freeze_matchweek sample_hash sample_publisher sample_friday sample_season (Some (TimeText december)) None None
     (frozen_store\<lparr>ms_source := later_tables\<rparr>)) = Inr sample_freeze"
  using freeze_publishes_plan_once [OF sample_freeze_run sample_window_of _ _ _,
      of "sample_plan [first_candidate, second_candidate]" sample_publisher "Some (TimeText december)" None None later_tables]
    sample_plans(1) sample_load(1) sample_first_freeze
  by (simp add: sample_matchweek_id sample_plan_fields) (simp add: mw_sample_store_def)

text \<open>C8: The Target Matches of a freeze are exactly the fixtures whose controlling revision at the Research
  Cutoff is a confirmed, scheduled one with an observed kickoff in the window; a target is blocked just
  when it has a material conflict by then.\<close>

theorem frozen_targets_exact:
  assumes "plan_freeze H t w season as_of = Inr p" and "weekday (friday_local w) = 4"
  defines "b \<equiv> instant_at (co_utc (pl_cutoff p))"
  shows "load_revision_candidates t season = Inr (pl_candidates p) \<and>
    (\<forall>k. (\<exists>m \<in> set (pl_memberships p). fm_target m \<and> fm_subject_id m = k) \<longleftrightarrow>
      (\<exists>c. select_revision (fixture_candidates_of k (pl_candidates p)) b = Some c \<and> eligible_schedule w c)) \<and>
    (\<forall>m \<in> set (pl_memberships p). fm_target m \<longrightarrow> fm_decision_state m =
      (if material_conflicts t (fm_subject_id m) b = [] then ''ELIGIBLE_FOR_VETTING'' else ''MATERIAL_CONFLICT_BLOCKED''))"
proof (intro conjI allI ballI impI)
  note b = plan_cutoff(1) [OF assms(1,2), folded b_def]
  show "load_revision_candidates t season = Inr (pl_candidates p)" using assms(1) by (rule plan_freezeE)
  show "(\<exists>m \<in> set (pl_memberships p). fm_target m \<and> fm_subject_id m = k) \<longleftrightarrow>
      (\<exists>c. select_revision (fixture_candidates_of k (pl_candidates p)) b = Some c \<and> eligible_schedule w c)" for k
    using b by (rule targets_exact)
  show "fm_decision_state m = (if material_conflicts t (fm_subject_id m) b = [] then ''ELIGIBLE_FOR_VETTING'' else ''MATERIAL_CONFLICT_BLOCKED'')"
    if "m \<in> set (pl_memberships p)" "fm_target m" for m
    using b that by (rule target_controlled)
qed

lemma sample_weekday: "weekday (friday_local sample_window) = 4"
  using sample_window_of by (rule window_friday)

theorem frozen_targets_exact_witness:
  "\<exists>m \<in> set (pl_memberships (sample_plan [first_candidate, postponed_candidate, moved_candidate, second_candidate])).
     fm_target m \<and> fm_subject_id m = ''F1''"
proof -
  let ?cs = "[first_candidate, postponed_candidate, moved_candidate, second_candidate]"
  have "fixture_candidates_of ''F1'' ?cs = [first_candidate, postponed_candidate, moved_candidate]"
    by (simp add: fixture_candidates_of_def first_candidate_def postponed_candidate_def moved_candidate_def second_candidate_def sample_candidate_def)
  moreover have "eligible_schedule sample_window first_candidate" by code_simp
  moreover have "instant_at (co_utc (pl_cutoff (sample_plan ?cs))) = sample_cutoff_at"
    by (simp only: sample_plan_fields sample_freeze_fields)
  ultimately show ?thesis
    using frozen_targets_exact [OF sample_plans(2) sample_weekday] sample_selects(2)
    by (simp add: sample_plan_def)
qed

text \<open>C17: The Research Cutoff is exactly six hours before the kickoff of a Target Match, the one it names, and
  no Target Match kicks off earlier than six hours after it.\<close>

theorem cutoff_six_hours_before_earliest:
  assumes "plan_freeze H t w season as_of = Inr p" and "weekday (friday_local w) = 4"
  shows "(\<exists>m \<in> set (pl_memberships p). fm_target m \<and> fm_subject_id m = co_earliest_fixture_id (pl_cutoff p) \<and>
      fm_kickoff_utc m = Some (co_earliest_kickoff_utc (pl_cutoff p))) \<and>
    instant_at (co_earliest_kickoff_utc (pl_cutoff p)) - instant_at (co_utc (pl_cutoff p)) = 6 * 3600 * 1000000 \<and>
    (\<forall>m \<in> set (pl_memberships p). fm_target m \<longrightarrow> (\<exists>k. fm_kickoff_utc m = Some k \<and> window_contains w k \<and>
      instant_at (co_utc (pl_cutoff p)) + 6 * 3600 * 1000000 \<le> instant_at k))"
proof (intro conjI ballI impI)
  note c = plan_cutoff [OF assms]
  show "\<exists>m \<in> set (pl_memberships p). fm_target m \<and> fm_subject_id m = co_earliest_fixture_id (pl_cutoff p) \<and>
      fm_kickoff_utc m = Some (co_earliest_kickoff_utc (pl_cutoff p))"
    by (rule c(2))
  show "instant_at (co_earliest_kickoff_utc (pl_cutoff p)) - instant_at (co_utc (pl_cutoff p)) = 6 * 3600 * 1000000"
    using c(3) by (simp add: lead_time_us_def)
  fix m assume m: "m \<in> set (pl_memberships p)" "fm_target m"
  obtain k where "fm_kickoff_utc m = Some k" "window_contains w k" using c(1) m by (rule target_kickoff)
  then show "\<exists>k. fm_kickoff_utc m = Some k \<and> window_contains w k \<and> instant_at (co_utc (pl_cutoff p)) + 6 * 3600 * 1000000 \<le> instant_at k"
    using c(4) [OF m] by (simp add: lead_time_us_def)
qed

theorem cutoff_six_hours_before_earliest_witness: "instant_at saturday - instant_at ''2026-01-03T09:00:00.000000+00:00'' = 6 * 3600 * 1000000"
  using cutoff_six_hours_before_earliest [OF sample_plans(1) sample_weekday] by (simp add: sample_plan_def sample_cutoff_def)

text \<open>C6: No look-ahead: two freezes with the same cutoff, over fixture tables that agree on what was known of the
  revisions and of the conflicts at the cutoff, have the same Target Matches, whatever either store
  learned later.\<close>

theorem no_look_ahead:
  assumes "plan_freeze H t w season as_of = Inr p" and "plan_freeze H t' w season as_of' = Inr p'" and "weekday (friday_local w) = 4"
    and "co_utc (pl_cutoff p) = b" "co_utc (pl_cutoff p') = b"
    and "known_part (instant_at b) (pl_candidates p) = known_part (instant_at b) (pl_candidates p')"
    and "\<And>k. conflict_values t k (instant_at b) = conflict_values t' k (instant_at b)"
  shows "filter fm_target (pl_memberships p) = filter fm_target (pl_memberships p')"
  using plan_cutoff(1) [OF assms(1,3)] plan_cutoff(1) [OF assms(2,3)] targets_by_knowledge [OF assms(6,7)]
  unfolding assms(4,5) by blast

lemma sample_known:
  "known_part sample_cutoff_at [first_candidate, second_candidate] =
     known_part sample_cutoff_at [first_candidate, postponed_candidate, moved_candidate, second_candidate]"
  by code_simp

theorem no_look_ahead_witness:
  "filter fm_target (pl_memberships (sample_plan [first_candidate, second_candidate])) =
     filter fm_target (pl_memberships (sample_plan [first_candidate, postponed_candidate, moved_candidate, second_candidate]))"
proof (rule no_look_ahead [OF sample_plans sample_weekday])
  show "known_part (instant_at (co_utc sample_cutoff)) (pl_candidates (sample_plan [first_candidate, second_candidate])) =
     known_part (instant_at (co_utc sample_cutoff)) (pl_candidates (sample_plan [first_candidate, postponed_candidate, moved_candidate, second_candidate]))"
    using sample_known by (simp only: sample_freeze_fields) (simp add: sample_plan_def)
qed (simp_all add: sample_plan_fields conflict_values_def sample_tables_def later_tables_def)

section \<open>After the freeze\<close>

text \<open>C7: A frozen Matchweek stays as it was frozen, whatever calls of the module return or raise afterwards and
  whatever the rest of the program stores: only its appendix changes, and it only grows.\<close>

theorem frozen_matchweek_immutable:
  assumes "(mw_step H)\<^sup>*\<^sup>* st st'" and "load_freeze H mid st = Inr (Some f)"
  shows "\<exists>es. load_freeze H mid st' = Inr (Some (f\<lparr>fz_appendix := es\<rparr>)) \<and> set (fz_appendix f) \<subseteq> set es"
proof -
  from mw_steps_uphold [OF assms(1)] assms(2) obtain f' where f': "load_freeze H mid st' = Inr (Some f')" "extends_freeze f f'"
    by (auto simp: upholds_def)
  have "f' = f\<lparr>fz_appendix := fz_appendix f'\<rparr>"
    using f'(2) by (cases f; cases f') (simp add: extends_freeze_def)
  then show ?thesis using f' by (metis extends_freeze_def)
qed

lemma sample_steps:
  "(mw_step sample_hash)\<^sup>*\<^sup>* mw_sample_store frozen_store" "(mw_step sample_hash)\<^sup>*\<^sup>* frozen_store withdrawn_store"
  "(mw_step sample_hash)\<^sup>*\<^sup>* withdrawn_store final_store"
proof -
  have 1: "mw_step sample_hash mw_sample_store frozen_store"
    using step_freeze [of sample_hash mw_sample_store sample_publisher sample_friday sample_season None None None] sample_freeze_run by simp
  have 2: "mw_step sample_hash frozen_store late_store"
    using step_outside [where H = sample_hash and st = frozen_store and t = later_tables and b = True and ids = "ms_identifiers frozen_store"
        and vs = "ms_versions frozen_store" and arts = "ms_artifacts frozen_store" and sns = "ms_snapshots frozen_store"]
    by (simp add: late_store_def frozen_store_def published_store_def mw_sample_store_def)
  have 3: "mw_step sample_hash late_store withdrawn_store"
    using step_revision [of sample_hash late_store sample_friday "''F1''" sample_season "Some ''R3''" None None True] sample_appends(1) by simp
  have 4: "mw_step sample_hash withdrawn_store final_store"
    using step_revision [of sample_hash withdrawn_store sample_friday "''F1''" sample_season "Some ''R4''" None None True] sample_appends(2) by simp
  show "(mw_step sample_hash)\<^sup>*\<^sup>* mw_sample_store frozen_store" "(mw_step sample_hash)\<^sup>*\<^sup>* frozen_store withdrawn_store"
    "(mw_step sample_hash)\<^sup>*\<^sup>* withdrawn_store final_store"
    using 1 2 3 4 by (meson r_into_rtranclp rtranclp.rtrancl_into_rtrancl)+
qed

theorem frozen_matchweek_immutable_witness:
  "\<exists>es. load_freeze sample_hash sample_matchweek final_store = Inr (Some (sample_freeze\<lparr>fz_appendix := es\<rparr>)) \<and> postponed_entry \<in> set es"
  using frozen_matchweek_immutable [OF sample_steps(3) sample_late_loads(2)] by auto

lemma upholds_extends:
  assumes "upholds H st st'" "load_freeze H mid st = Inr (Some f)" "load_freeze H mid st' = Inr (Some f')"
  shows "extends_freeze f f'"
  using assms unfolding upholds_def by fastforce

lemma load_freeze_entry:
  assumes "load_freeze H mid st = Inr (Some f)" "e \<in> set (fz_appendix f)"
  shows "ae_disposition e = WITHDRAWN \<longleftrightarrow> ae_settlement e = Some ''VOID''"
proof -
  from assms(1) obtain rows where "mapR (appendix_from_row H) rows = Inr (fz_appendix f)"
    by (auto simp: load_freeze_def split: list.splits)
  from mapR_in_set [OF this assms(2)] obtain r where "appendix_from_row H r = Inr e" by blast
  then show ?thesis by (auto simp: appendix_from_row_def dest: appendix_init_props(3))
qed

text \<open>C9: A withdrawal is final: once an appendix entry withdraws a Target Match, every entry that any later call
  adds for that fixture withdraws it too, with settlement \<open>VOID\<close>, and the fixture stays among the withdrawn.\<close>

theorem withdrawal_is_final:
  assumes "(mw_step H)\<^sup>*\<^sup>* st st'" and "load_freeze H mid st = Inr (Some f)" "load_freeze H mid st' = Inr (Some f')"
    and "frozen_membership_of f k = Some m" "fm_state m = INCLUDED"
    and "previously_withdrawn f k" and "e \<in> set (fz_appendix f')" "e \<notin> set (fz_appendix f)" "ae_fixture_id e = Some k"
  shows "ae_disposition e = WITHDRAWN \<and> ae_settlement e = Some ''VOID'' \<and> previously_withdrawn f' k"
proof -
  have x: "extends_freeze f f'" using mw_steps_uphold [OF assms(1)] assms(2,3) by (rule upholds_extends)
  have w: "withdrawn_target f k" using assms(4-6) by (simp add: withdrawn_target_def)
  have "ae_disposition e = WITHDRAWN" using x w assms(7-9) by (auto simp: extends_freeze_def)
  then show ?thesis
    using load_freeze_entry [OF assms(3,7)] withdrawn_extends [OF x w] by (simp add: withdrawn_target_def)
qed

theorem withdrawal_is_final_witness: "ae_disposition moved_entry = WITHDRAWN \<and> ae_settlement moved_entry = Some ''VOID'' \<and>
    previously_withdrawn (sample_freeze\<lparr>fz_appendix := [postponed_entry, moved_entry]\<rparr>) ''F1''"
  by (rule withdrawal_is_final [OF sample_steps(3) sample_late_loads(2,3), where m = first_membership])
    (simp_all add: sample_freeze_fields previously_withdrawn_def postponed_entry_def moved_entry_def sample_entry_def)

text \<open>When late news leaves a Target Match standing.\<close>

definition still_stands :: "matchweek_freeze \<Rightarrow> frozen_membership \<Rightarrow> validity_review option \<Rightarrow> revision_candidate \<Rightarrow> bool" where
  "still_stands f m review c \<longleftrightarrow>
     upper (strip (cd_status c)) \<notin> {''POSTPONED'', ''CANCELLED''} \<and>
     (case review of None \<Rightarrow> True | Some v \<Rightarrow> vr_identity_unchanged v \<noteq> Some False) \<and>
     (case cd_kickoff_utc c of None \<Rightarrow> False | Some k \<Rightarrow>
        instant_at (co_utc (fz_cutoff f)) < instant_at k \<and> window_contains (fz_window f) k \<and>
        (fm_kickoff_utc m = Some k \<or> (case review of None \<Rightarrow> False | Some v \<Rightarrow> review_passed v)))"

text \<open>C18: What becomes of news about a fixture after the cutoff. The news is the revision the store has for the
  call: the one asked for, or the controlling one at the observation. Its entry names that revision and
  the fixture. News of a fixture that is no Target Match is only noted; a Target Match that was withdrawn
  before, or that the news postpones, cancels, identifies differently or moves to a kickoff that is not
  after the cutoff and in the window, or to another one in the window without every review passed, is
  withdrawn; any other news preserves it.\<close>

theorem late_news_disposition:
  assumes "read_frozen_matchweek H friday season st = Inr f" and "load_revision_candidates (ms_source st) season = Inr cs"
    and "late_candidate (ms_source st) season k rid as_of (filter (\<lambda>c. cd_fixture_id c = k) cs) = Inr c"
    and "late_revision_entry H friday k season rid as_of review unchanged st = Inr e"
  shows "ae_revision_id e = Some (cd_revision_id c) \<and> ae_fixture_id e = Some k \<and>
    ae_disposition e = (case frozen_membership_of f k of None \<Rightarrow> APPENDIX_ONLY | Some m \<Rightarrow>
      if fm_state m \<noteq> INCLUDED then APPENDIX_ONLY
      else if \<not> previously_withdrawn f k \<and> still_stands f m (supplied_review review unchanged) c then PRESERVED
      else WITHDRAWN)"
proof -
  obtain g c' cs' obs where *: "read_frozen_matchweek H friday season st = Inr g"
    "late_entry H (ms_source st) g (filter (\<lambda>c. cd_fixture_id c = k) cs') obs (supplied_review review unchanged) c' = Inr e"
    "load_revision_candidates (ms_source st) season = Inr cs'"
    "late_candidate (ms_source st) season k rid as_of (filter (\<lambda>c. cd_fixture_id c = k) cs') = Inr c'"
    using assms(4) by (rule late_revision_entryE) simp
  then have g: "g = f" and c': "c' = c" using assms(1-3) by simp_all
  have c: "cd_fixture_id c = k"
    using assms(3) select_revision_Some(1) by (fastforce simp: late_candidate_def split: option.splits)
  have st: "fst (snd (standing_event (fz_window f) (instant_at (co_utc (fz_cutoff f))) m r conflicted c)) =
      (if still_stands f m r c then PRESERVED else WITHDRAWN)" for m r conflicted
    by (auto simp: standing_event_def still_stands_def Let_def opt_instant_def in_window_def split: option.splits)
  define D where "D = (case frozen_membership_of f k of None \<Rightarrow> APPENDIX_ONLY | Some m \<Rightarrow>
      if fm_state m \<noteq> INCLUDED then APPENDIX_ONLY
      else if \<not> previously_withdrawn f k \<and> still_stands f m (supplied_review review unchanged) c then PRESERVED
      else WITHDRAWN)"
  have "\<exists>event observed v rcode reason. appendix_entry_for H f c event D observed v rcode reason = Inr e"
  proof (cases "frozen_membership_of f k")
    case None
    then show ?thesis using *(2) c by (clarsimp simp: g c' late_entry_def Let_def D_def split: prod.splits) blast
  next
    case (Some m)
    show ?thesis
    proof (cases "fm_state m = INCLUDED \<and> \<not> previously_withdrawn f k")
      case True
      obtain event disposition rcode reason where s:
        "standing_event (fz_window f) (instant_at (co_utc (fz_cutoff f))) m (supplied_review review unchanged)
           (material_conflicts (ms_source st) k (instant_at (post_cutoff_observation c (instant_at (co_utc (fz_cutoff f))) obs)) \<noteq> []) c =
         (event, disposition, rcode, reason)"
        by (metis prod_cases4)
      from st [of m "supplied_review review unchanged"] s have "disposition = D"
        using Some True by (simp add: D_def) (metis fst_conv snd_conv)
      then show ?thesis using *(2) c Some True s by (clarsimp simp: g c' late_entry_def Let_def) blast
    next
      case False
      then show ?thesis using *(2) c Some by (clarsimp simp: g c' late_entry_def Let_def D_def split: prod.splits if_splits; blast)
    qed
  qed
  then obtain event observed v rcode reason where "appendix_entry_for H f c event D observed v rcode reason = Inr e" by blast
  from appendix_entry_for_fields(2,4,6) [OF this]
  have "ae_fixture_id e = Some (cd_fixture_id c) \<and> ae_disposition e = D \<and> ae_revision_id e = Some (cd_revision_id c)" by simp
  then show ?thesis using c by (simp only: D_def simp_thms)
qed

text \<open>A postponement withdraws the sample match; a move within the window preserves it, once every review
  has passed.\<close>

theorem late_news_disposition_witness:
  "ae_disposition postponed_entry = WITHDRAWN \<and> ae_disposition kept_entry = PRESERVED \<and> ae_revision_id kept_entry = Some ''R4''"
proof -
  have r: "read_frozen_matchweek sample_hash sample_friday sample_season late_store = Inr sample_freeze"
    by (simp add: sample_read sample_late_loads)
  note store = sample_late_reads [of late_store, OF disjI1, OF refl]
  have f: "\<not> previously_withdrawn sample_freeze ''F1''" by (simp add: previously_withdrawn_def sample_freeze_fields)
  have stands: "\<not> still_stands sample_freeze first_membership None postponed_candidate"
    "still_stands sample_freeze first_membership (Some passed_review) moved_candidate"
    unfolding still_stands_def sample_freeze_fields by code_simp+
  note news = late_news_disposition [OF r store(1), unfolded store(2), OF sample_late_candidates(1) sample_late_entries(1)]
    late_news_disposition [OF r store(1), unfolded store(2), OF sample_late_candidates(2) sample_kept]
  show ?thesis
    using news by (simp add: sample_late_reading sample_freeze_fields f stands supplied_review_def late_candidate_fields)
qed

section \<open>Replay\<close>

text \<open>C15: Whatever happened since the freeze, its replay succeeds as long as the artifact store still has the two
  artifacts and the Snapshot Manifest and the revision table has only grown: it returns the frozen
  Matchweek, up to the appendix, with a reference for every controlling revision of its memberships.\<close>

theorem replay_always_succeeds:
  assumes "freeze_matchweek H env friday season as_of created verified st = (Inr f, st1)"
    and "window_for_friday friday = Inr w" and "load_freeze H (matchweek_id H season (friday_local w)) st = Inr None"
    and "plan_freeze H (ms_source st) w season as_of = Inr p" and "fresh_freeze st (pl_cutoff p) (pl_memberships p)"
    and "(mw_step H)\<^sup>*\<^sup>* st1 st2" and "keeps_artifacts H p (fz_snapshot_digest f) env'"
    and "set (tb_revisions (ms_source st)) \<subseteq> set (tb_revisions (ms_source st2))" "distinct (map fr_id (tb_revisions (ms_source st2)))"
  shows "\<exists>es. replay_matchweek H env' friday season None st2 =
    Inr \<lparr>ry_freeze = f\<lparr>fz_appendix := es\<rparr>, ry_revisions = membership_references (pl_memberships p)\<rparr>"
proof -
  have d: "distinct (map fm_id (pl_memberships p))"
    using assms(4) by (auto elim!: plan_freezeE simp: manifest_init_def)
  obtain d version stamp where f: "f = frozen_as H w season p d"
    "load_freeze H (matchweek_id H season (friday_local w)) st1 = Inr (Some f)"
    using assms(1-5) d by (rule freeze_publishes)
  from mw_steps_uphold [OF assms(6)] f(2) obtain g where g: "load_freeze H (matchweek_id H season (friday_local w)) st2 = Inr (Some g)"
    "extends_freeze f g" by (auto simp: upholds_def)
  have e: "g = f\<lparr>fz_appendix := fz_appendix g\<rparr>"
    using g(2) by (cases f; cases g) (simp add: extends_freeze_def)
  have "fz_snapshot_digest f = d" by (simp add: f(1) frozen_as_def)
  then have "replay_matchweek H env' friday season None st2 = Inr \<lparr>ry_freeze = g, ry_revisions = membership_references (pl_memberships p)\<rparr>"
    using assms(7,8,9) e f(1) by (intro replay_frozen [OF assms(4,2) g(1)]) auto
  then show ?thesis using e by metis
qed

text \<open>An artifact store that has the artifacts of the sample freeze.\<close>

definition sample_archive :: artifact_env where
  "sample_archive = \<lparr>store_content = (\<lambda>_. None), store_snapshot = (\<lambda>_. Inr two_digest),
     read_content = (\<lambda>d. if d = one_digest then Inr (revision_artifact (sample_plan [first_candidate, second_candidate]))
       else Inr (membership_artifact sample_hash (sample_plan [first_candidate, second_candidate]))),
     verify_snapshot = (\<lambda>_. Inr (sample_matchweek, sort [zero_digest, one_digest]))\<rparr>"

theorem replay_always_succeeds_witness:
  "\<exists>es. replay_matchweek sample_hash sample_archive sample_friday sample_season None final_store =
    Inr \<lparr>ry_freeze = sample_freeze\<lparr>fz_appendix := es\<rparr>, ry_revisions = membership_references [first_membership, second_membership]\<rparr>"
proof -
  let ?p = "sample_plan [first_candidate, second_candidate]"
  have steps: "(mw_step sample_hash)\<^sup>*\<^sup>* frozen_store final_store" using sample_steps(2,3) by (rule rtranclp_trans)
  have k: "keeps_artifacts sample_hash ?p (fz_snapshot_digest sample_freeze) sample_archive"
    using sample_uuids by (simp add: keeps_artifacts_def sample_artifacts sample_archive_def sample_plan_fields sample_freeze_fields)
  have src: "ms_source final_store = later_tables" "ms_source mw_sample_store = sample_tables"
    by (simp_all add: final_store_def withdrawn_store_def late_store_def mw_sample_store_def)
  have rows: "set (tb_revisions sample_tables) \<subseteq> set (tb_revisions later_tables)" "distinct (map fr_id (tb_revisions later_tables))"
    by (simp_all add: later_tables_def sample_tables_def sample_revision_def)
  have "plan_freeze sample_hash (ms_source mw_sample_store) sample_window sample_season None = Inr ?p"
    unfolding src by (rule sample_plans(1))
  from replay_always_succeeds [OF sample_freeze_run sample_window_of _ this _ steps k] rows sample_first_freeze sample_load(1)
  show ?thesis by (simp add: src sample_matchweek_id sample_plan_fields)
qed

section \<open>The manifest\<close>

text \<open>C19: The bytes of a membership manifest read back as the manifest, and only the bytes of a well-formed
  manifest are read at all: \<open>from_bytes\<close> accepts exactly what \<open>to_bytes\<close> writes for it.\<close>

theorem manifest_bytes_roundtrip:
  "manifest_from_bytes H data = Inr m \<longleftrightarrow>
     data = manifest_bytes H m \<and> manifest_init m = Inr m \<and> list_all (\<lambda>x. membership_init H x = Inr x) (mm_memberships m)"
  using manifest_from_bytes_props [of H data m] manifest_reads_back [of m H] by (auto simp: list_all_iff)

end
