(* ===== verification/Matchweek_Runner.thy ===== *)
theory Matchweek_Runner
  imports Run_Work Matchweek_Properties
begin

text \<open>
  \<open>MatchweekFreezePlan\<close>, \<open>build_t05_input_contract\<close> and \<open>MatchweekFreezeRunner\<close> of \<open>matchweek.py\<close>: the
  freeze of a Matchweek as the work of a run. The runner reads and writes the one store: the input
  contract is built from the Matchweek tables beside the run tables, the freeze changes them, and the
  frozen Matchweek is read back from what the run left.
\<close>

section \<open>The plan\<close>

record freeze_request =
  fq_friday :: string
  fq_season :: string
  fq_as_of :: "string option"

definition freeze_request_init :: "freeze_request \<Rightarrow> (mw_error, freeze_request) res" where
  "freeze_request_init q =
     bindR (window_for_friday (DayText (fq_friday q))) (\<lambda>_.
     case fq_as_of q of
       None \<Rightarrow> Inr q
     | Some t \<Rightarrow> bindR (mw_canonical_utc (TimeText t)) (\<lambda>canonical.
         bindR (guardR (canonical = t) (MwValueError ''T05 plan observation time must be canonical UTC.'')) (\<lambda>_.
         Inr q)))"

definition request_run_key :: "freeze_request \<Rightarrow> (mw_error, string) res" where
  "request_run_key q = bindR (window_for_friday (DayText (fq_friday q))) (\<lambda>w.
     Inr (''t05-matchweek-freeze:'' @ fq_season q @ '':'' @ iso_date (friday_local w)))"

definition request_digest :: "mw_hasher \<Rightarrow> freeze_request \<Rightarrow> (mw_error, string) res" where
  "request_digest H q = bindR (window_for_friday (DayText (fq_friday q))) (\<lambda>w.
     Inr (mw_digest H (PDict
       [(''as_of_utc'', opt_str (fq_as_of q)), (''friday'', PStr (iso_date (friday_local w))),
        (''rules'', PStr rules_name), (''season'', PStr (fq_season q))])))"

section \<open>What a call may raise\<close>

datatype freeze_run_error = Freeze_failure mw_error | Run_failure run_failure

definition freeze_part :: "(mw_error, 'a) res \<Rightarrow> (freeze_run_error, 'a) res" where
  "freeze_part r = (case r of Inl e \<Rightarrow> Inl (Freeze_failure e) | Inr x \<Rightarrow> Inr x)"

definition run_part :: "(run_failure, 'a) res \<Rightarrow> (freeze_run_error, 'a) res" where
  "run_part r = (case r of Inl e \<Rightarrow> Inl (Run_failure e) | Inr x \<Rightarrow> Inr x)"

section \<open>The input contract\<close>

text \<open>The checksums of the migrations of the store are a parameter, in their order.\<close>

definition t05_values :: "mw_hasher \<Rightarrow> string list \<Rightarrow> revision_candidate list \<Rightarrow> string \<Rightarrow> (string \<times> string) list" where
  "t05_values H checksums candidates request =
     [(''source'', ''T06:FIXTURE_REVISIONS:'' @ source_snapshot_digest H candidates),
      (''cutoff'', ''T05:MATCHWEEK_RULES:'' @ rules_name @ '':'' @ request),
      (''preference_set'', ''T05:NOT_APPLICABLE''),
      (''policy'', ''T05:NOT_APPLICABLE''),
      (''model'', ''T05:NOT_APPLICABLE''),
      (''feature'', ''T05:SCHEDULE_FIELDS_ONLY''),
      (''research_rule'', ''T05:MATCHWEEK_MEMBERSHIP_V1''),
      (''canonical_contract'', ''MATCHVET_CANONICAL_CONTRACT_V1''),
      (''schema'', join '':'' checksums),
      (''environment'', ''T05:LOCAL_ONLY''),
      (''software'', ''MATCHVET_T05_MATCHWEEK_V1'')]"

definition build_t05_input_contract ::
  "hasher \<Rightarrow> mw_hasher \<Rightarrow> string list \<Rightarrow> mw_store \<Rightarrow> freeze_request \<Rightarrow> (freeze_run_error, run_contract) res" where
  "build_t05_input_contract R H checksums st q =
     bindR (freeze_part (load_revision_candidates (ms_source st) (fq_season q))) (\<lambda>candidates.
     bindR (freeze_part (request_digest H q)) (\<lambda>request.
     run_part (contract_from_values R (t05_values H checksums candidates request) [] [])))"

section \<open>The runner\<close>

definition freeze_runner_init :: "mw_store \<Rightarrow> (mw_error, unit) res" where
  "freeze_runner_init st =
     guardR (ms_writable st) (MwPermissionError ''Matchweek freezing requires a healthy writable store.'')"

definition t05_estimate :: resource_estimate where
  "t05_estimate =
     \<lparr>storage_growth_bytes = mib, peak_memory_bytes = 128 * mib, duration_seconds = 60,
      network_bytes = 0, cpu_heavy_operations = 1\<rparr>"

text \<open>The message of an exception; that of one the libraries raise is a parameter.\<close>

definition mw_message :: "(mw_error \<Rightarrow> string) \<Rightarrow> mw_error \<Rightarrow> string" where
  "mw_message library e =
     (case e of MatchweekError _ m \<Rightarrow> m | MwValueError m \<Rightarrow> m | MwPermissionError m \<Rightarrow> m | _ \<Rightarrow> library e)"

definition freeze_digests :: "matchweek_freeze \<Rightarrow> string list" where
  "freeze_digests f = [fz_membership_digest f, fz_revision_digest f, fz_snapshot_digest f]"

definition freeze_result :: "matchweek_freeze \<Rightarrow> work_result" where
  "freeze_result f = \<lparr>wr_result_digest = fz_membership_digest f, wr_artifact_digests = freeze_digests f\<rparr>"

text \<open>\<open>_execute\<close>: the freeze works on the store it finds; what it published stays however it ends.\<close>

definition t05_executor ::
  "hasher \<Rightarrow> mw_hasher \<Rightarrow> artifact_env \<Rightarrow> (mw_error \<Rightarrow> string) \<Rightarrow> freeze_request \<Rightarrow> executor" where
  "t05_executor R H aenv library q t ctx remaining st =
     (if wc_phase ctx \<noteq> EVIDENCE_ACQUISITION then boundary_executor R t ctx remaining st
      else (case freeze_matchweek H aenv (DayText (fq_friday q)) (fq_season q) (map_option TimeText (fq_as_of q)) None None st of
          (r, st') \<Rightarrow>
            ((case r of Inl e \<Rightarrow> Work_error (mw_message library e) | Inr f \<Rightarrow> Work_done (freeze_result f)),
             ms_artifacts st' @ ms_snapshots st', st')))"

text \<open>What the runner reads at the end, its \<open>last_freeze\<close>.\<close>

definition last_freeze ::
  "mw_hasher \<Rightarrow> freeze_request \<Rightarrow> run_failure + run_status \<Rightarrow> world \<Rightarrow>
   (freeze_run_error, run_status \<times> matchweek_freeze) res \<times> world" where
  "last_freeze H q r w =
     (bindR (run_part r) (\<lambda>s.
      bindR (freeze_part (read_frozen_matchweek H (DayText (fq_friday q)) (fq_season q) (db_matchweek (w_db w)))) (\<lambda>f.
      Inr (s, f))), w)"

text \<open>\<open>start\<close> and \<open>resume\<close>\<close>

definition t05_start ::
  "run_env \<Rightarrow> mw_hasher \<Rightarrow> artifact_env \<Rightarrow> (mw_error \<Rightarrow> string) \<Rightarrow> string list \<Rightarrow>
   freeze_request \<Rightarrow> resource_observation \<Rightarrow> progress option \<Rightarrow> world \<Rightarrow>
   (freeze_run_error, run_status \<times> matchweek_freeze) res \<times> world" where
  "t05_start env H aenv library checksums q observation progress w =
     (case bindR (freeze_part (request_run_key q)) (\<lambda>key.
           bindR (build_t05_input_contract (env_hasher env) H checksums (db_matchweek (w_db w)) q) (\<lambda>inputs. Inr (key, inputs))) of
        Inl e \<Rightarrow> (Inl e, w)
      | Inr (key, inputs) \<Rightarrow>
          (case start_runM (env\<lparr>env_budget := settled_budget\<rparr>) key inputs t05_estimate observation
               (Some (t05_executor (env_hasher env) H aenv library q)) progress w of
             (r, w') \<Rightarrow> last_freeze H q r w'))"

definition t05_resume ::
  "run_env \<Rightarrow> mw_hasher \<Rightarrow> artifact_env \<Rightarrow> (mw_error \<Rightarrow> string) \<Rightarrow> string list \<Rightarrow>
   string \<Rightarrow> freeze_request \<Rightarrow> resource_observation \<Rightarrow> progress option \<Rightarrow> world \<Rightarrow>
   (freeze_run_error, run_status \<times> matchweek_freeze) res \<times> world" where
  "t05_resume env H aenv library checksums rid q observation progress w =
     (case build_t05_input_contract (env_hasher env) H checksums (db_matchweek (w_db w)) q of
        Inl e \<Rightarrow> (Inl e, w)
      | Inr inputs \<Rightarrow>
          (case resume_runM (env\<lparr>env_budget := settled_budget\<rparr>) rid inputs t05_estimate observation
               (Some (t05_executor (env_hasher env) H aenv library q)) progress w of
             (r, w') \<Rightarrow> last_freeze H q r w'))"

section \<open>What a run records of its freeze\<close>

lemma freeze_loads:
  assumes "freeze_matchweek H env friday season as_of created verified st = (Inr f, st')"
  obtains w where "window_for_friday friday = Inr w" "load_freeze H (matchweek_id H season (friday_local w)) st' = Inr (Some f)"
  using assms unfolding freeze_matchweek_def Let_def
  by (elim bindA_InrE) (auto split: option.splits elim!: bindA_InrE)

lemma read_of_load:
  "window_for_friday friday = Inr w \<Longrightarrow> load_freeze H (matchweek_id H season (friday_local w)) st = Inr (Some f) \<Longrightarrow>
   read_frozen_matchweek H friday season st = Inr f"
  by (simp add: read_frozen_matchweek_def date_of_window)

text \<open>What a freeze returned, its store reads back, and every later store too, with further appendix entries
  at most.\<close>

lemma frozen_for_good:
  assumes "freeze_matchweek H env friday season as_of created verified st = (Inr f, st')"
  shows "read_frozen_matchweek H friday season st' = Inr f"
    and "(mw_step H)\<^sup>*\<^sup>* st' st'' \<Longrightarrow> \<exists>g. read_frozen_matchweek H friday season st'' = Inr g \<and> extends_freeze f g"
proof -
  obtain w where w: "window_for_friday friday = Inr w" "load_freeze H (matchweek_id H season (friday_local w)) st' = Inr (Some f)"
    using assms by (rule freeze_loads)
  then show "read_frozen_matchweek H friday season st' = Inr f" by (rule read_of_load)
  assume "(mw_step H)\<^sup>*\<^sup>* st' st''"
  from mw_steps_uphold [OF this] w(2) obtain g where
    "load_freeze H (matchweek_id H season (friday_local w)) st'' = Inr (Some g)" "extends_freeze f g" by (auto simp: upholds_def)
  then show "\<exists>g. read_frozen_matchweek H friday season st'' = Inr g \<and> extends_freeze f g" using read_of_load [OF w(1)] by blast
qed

lemma t05_startE:
  assumes "t05_start env H aenv library checksums q obs pr w = (Inr (s, f), w')"
  obtains key inputs vs where "request_run_key q = Inr key"
    "contract_from_values (env_hasher env) vs [] [] = Inr inputs"
    "start_runM (env\<lparr>env_budget := settled_budget\<rparr>) key inputs t05_estimate obs
       (Some (t05_executor (env_hasher env) H aenv library q)) pr w = (Inr s, w')"
    "read_frozen_matchweek H (DayText (fq_friday q)) (fq_season q) (db_matchweek (w_db w')) = Inr f"
proof -
  from assms obtain key inputs where c: "request_run_key q = Inr key"
    "build_t05_input_contract (env_hasher env) H checksums (db_matchweek (w_db w)) q = Inr inputs"
    and r: "(case start_runM (env\<lparr>env_budget := settled_budget\<rparr>) key inputs t05_estimate obs
               (Some (t05_executor (env_hasher env) H aenv library q)) pr w of (r, w') \<Rightarrow> last_freeze H q r w') = (Inr (s, f), w')"
    by (auto simp: t05_start_def freeze_part_def bindR_def split: sum.splits)
  moreover from c(2) obtain vs where "contract_from_values (env_hasher env) vs [] [] = Inr inputs"
    by (auto simp: build_t05_input_contract_def freeze_part_def run_part_def bindR_def split: sum.splits)
  ultimately show thesis
    using that by (auto simp: last_freeze_def freeze_part_def run_part_def bindR_def split: sum.splits prod.splits)
qed

text \<open>Every phase but one leaves the Matchweek tables alone.\<close>

lemma t05_boundary: "wc_phase ctx \<noteq> EVIDENCE_ACQUISITION \<Longrightarrow> snd (snd (t05_executor R H aenv library q t ctx remaining st)) = st"
  by (simp add: t05_executor_def boundary_executor_def)

lemma t05_unchanged:
  "worked R (t05_executor R' H aenv library q) rid st cs st' \<Longrightarrow> EVIDENCE_ACQUISITION \<notin> c_phase ` set cs \<Longrightarrow> st' = st"
  by (induction cs arbitrary: st) (auto simp: t05_boundary)

lemma t05_freezes:
  assumes "valid_outcome (fst (t05_executor R' H aenv library q t ctx remaining st)) = Work_done r" "wc_phase ctx = EVIDENCE_ACQUISITION"
  shows "\<exists>g. freeze_matchweek H aenv (DayText (fq_friday q)) (fq_season q) (map_option TimeText (fq_as_of q)) None None st =
      (Inr g, snd (snd (t05_executor R' H aenv library q t ctx remaining st))) \<and> r = freeze_result g"
  using assms
  by (auto simp: t05_executor_def valid_outcome_def work_result_init_def bindR_def
      split: sum.splits run_failure.splits prod.splits)

lemma t05_worked:
  assumes "worked R (t05_executor R' H aenv library q) rid st cs st'" "map c_phase cs = run_phases"
  obtains g c where "freeze_matchweek H aenv (DayText (fq_friday q)) (fq_season q) (map_option TimeText (fq_as_of q)) None None st = (Inr g, st')"
    "c \<in> set cs" "c_phase c = EVIDENCE_ACQUISITION" "c_artifacts c = freeze_digests g" "c_output c = work_output_digest R (freeze_result g)"
proof -
  obtain c0 c1 rest where cs: "cs = [c0] @ c1 # rest" "c_phase c0 = PREFLIGHT" "c_phase c1 = EVIDENCE_ACQUISITION"
    and rest: "EVIDENCE_ACQUISITION \<notin> c_phase ` set rest"
    using assms(2) by (fastforce simp: run_phases_def map_eq_Cons_conv)
  obtain st0 where st0: "worked R (t05_executor R' H aenv library q) rid st [c0] st0"
    "worked R (t05_executor R' H aenv library q) rid st0 (c1 # rest) st'"
    using assms(1) unfolding cs(1) worked_append by blast
  have "st0 = st" using st0(1) by (rule t05_unchanged) (simp add: cs(2))
  with st0(2) obtain t ctx remaining r where r: "valid_outcome (fst (t05_executor R' H aenv library q t ctx remaining st)) = Work_done r"
    "wc_phase ctx = EVIDENCE_ACQUISITION" "c_output c1 = work_output_digest R r" "c_artifacts c1 = wr_artifact_digests r"
    "worked R (t05_executor R' H aenv library q) rid (snd (snd (t05_executor R' H aenv library q t ctx remaining st))) rest st'"
    by (auto simp: cs(3))
  have "st' = snd (snd (t05_executor R' H aenv library q t ctx remaining st))" using r(5) rest by (rule t05_unchanged)
  with t05_freezes [OF r(1,2)] obtain g where
    "freeze_matchweek H aenv (DayText (fq_friday q)) (fq_season q) (map_option TimeText (fq_as_of q)) None None st = (Inr g, st')"
    "r = freeze_result g" by blast
  then show thesis using that [of g c1] r(3,4) cs by (simp add: freeze_result_def)
qed

text \<open>C5: A start of the freeze runner that returns has, on the one store, made the freeze it reports: freezing the
  Matchweek in the tables the call found returns the reported freeze and the tables the call left. The
  evidence checkpoint of the reported run records its membership manifest, its revision snapshot and its
  Snapshot Manifest, and every store the Matchweek calls reach from there reads the freeze back, at most
  with further appendix entries.\<close>

theorem run_records_its_freeze:
  assumes "reachable_runs R (w_db w)" "sane_env R env"
    and "t05_start env H aenv library checksums q obs pr w = (Inr (s, f), w')"
  shows "freeze_matchweek H aenv (DayText (fq_friday q)) (fq_season q) (map_option TimeText (fq_as_of q)) None None (db_matchweek (w_db w)) =
      (Inr f, db_matchweek (w_db w')) \<and>
    (\<exists>c \<in> set (db_checkpoints (w_db w')). c_run_id c = rs_run_id s \<and> c_phase c = EVIDENCE_ACQUISITION \<and>
       c_artifacts c = freeze_digests f \<and> c_output c = work_output_digest R (freeze_result f)) \<and>
    (\<forall>st. (mw_step H)\<^sup>*\<^sup>* (db_matchweek (w_db w')) st \<longrightarrow>
       (\<exists>g. read_frozen_matchweek H (DayText (fq_friday q)) (fq_season q) st = Inr g \<and> extends_freeze f g))"
proof -
  let ?env = "env\<lparr>env_budget := settled_budget\<rparr>" and ?x = "t05_executor R H aenv library q"
  have R: "env_hasher env = R" using assms(2) by (simp add: sane_env_def)
  obtain key inputs vs where s: "contract_from_values R vs [] [] = Inr inputs"
    "start_runM ?env key inputs t05_estimate obs (Some ?x) pr w = (Inr s, w')"
    "read_frozen_matchweek H (DayText (fq_friday q)) (fq_season q) (db_matchweek (w_db w')) = Inr f"
    using assms(3) unfolding R [symmetric] by (rule t05_startE)
  have "sane_env R ?env" using assms(2) by (simp add: sane_env_def)
  note started = start_worked [OF assms(1) this s(1,2), unfolded own_executor_def option.case]
  obtain g c where
    g: "freeze_matchweek H aenv (DayText (fq_friday q)) (fq_season q) (map_option TimeText (fq_as_of q)) None None (db_matchweek (w_db w)) =
      (Inr g, db_matchweek (w_db w'))"
    and c: "c \<in> set (checkpoints_of (w_db w') (rs_run_id s))" "c_phase c = EVIDENCE_ACQUISITION"
      "c_artifacts c = freeze_digests g" "c_output c = work_output_digest R (freeze_result g)"
    using started by (rule t05_worked)
  have "g = f" using frozen_for_good(1) [OF g] s(3) by simp
  moreover have "c \<in> set (db_checkpoints (w_db w'))" "c_run_id c = rs_run_id s" using c(1) by (simp_all add: checkpoints_of_def)
  ultimately show ?thesis using g c(2-4) frozen_for_good(2) [OF g] by blast
qed

section \<open>A sample run\<close>

text \<open>The freeze of the sample Matchweek, in a store that does not have it yet.\<close>

definition sample_freeze_request :: freeze_request where
  "sample_freeze_request = \<lparr>fq_friday = ''2026-01-02'', fq_season = sample_season, fq_as_of = None\<rparr>"

abbreviation sample_start :: "world \<Rightarrow> (freeze_run_error, run_status \<times> matchweek_freeze) res \<times> world" where
  "sample_start \<equiv> t05_start sample_env sample_hash sample_publisher (\<lambda>_. []) [] sample_freeze_request roomy_observation None"

definition unfrozen_world :: world where
  "unfrozen_world = \<lparr>w_db = empty_db\<lparr>db_matchweek := mw_sample_store\<rparr>, w_tick = 0\<rparr>"

lemma sample_freeze_request_fields: "DayText (fq_friday sample_freeze_request) = sample_friday" "fq_season sample_freeze_request = sample_season"
  "fq_as_of sample_freeze_request = None"
  by (simp_all add: sample_freeze_request_def sample_friday_def)

lemma sample_refreeze:
  "freeze_matchweek sample_hash aenv sample_friday sample_season as_of created verified frozen_store = (Inr sample_freeze, frozen_store)"
proof -
  have "ms_writable frozen_store" by (simp add: frozen_store_def published_store_def mw_sample_store_def)
  then show ?thesis by (intro freeze_again [OF _ sample_window_of]) (simp_all add: sample_matchweek_id sample_load)
qed

lemma sample_freeze_digests: "freeze_digests sample_freeze = [zero_digest, one_digest, two_digest]"
  by (simp add: freeze_digests_def sample_freeze_def frozen_as_def sample_artifacts)

lemma sample_work: "work_result_init (freeze_result sample_freeze) = Inr (freeze_result sample_freeze)"
  using sample_uuids
  by (simp add: freeze_result_def sample_freeze_digests work_result_init_def require_digest_def require_digest_list_def)
    (simp add: sample_freeze_def frozen_as_def sample_artifacts)

text \<open>On the store without the freeze and on the one with it the executor does its work.\<close>

lemma sample_dutiful:
  "dutiful {mw_sample_store, frozen_store} {} (t05_executor run_hasher sample_hash sample_publisher library sample_freeze_request)"
  unfolding dutiful_def
proof (intro allI impI)
  fix t ctx n st assume st: "st \<in> {mw_sample_store, frozen_store}"
  let ?x = "t05_executor run_hasher sample_hash sample_publisher library sample_freeze_request t ctx n st"
  show "\<exists>r ds st'. ?x = (Work_done r, ds, st') \<and> work_result_init r = Inr r \<and> set (wr_artifact_digests r) \<subseteq> {} \<union> set ds \<and>
      st' \<in> {mw_sample_store, frozen_store}"
  proof (cases "wc_phase ctx = EVIDENCE_ACQUISITION")
    case True
    have "freeze_matchweek sample_hash sample_publisher sample_friday sample_season None None None st = (Inr sample_freeze, frozen_store)"
      using st sample_refreeze sample_freeze_run by auto
    then have "?x = (Work_done (freeze_result sample_freeze), [one_digest, zero_digest] @ [two_digest], frozen_store)"
      using True by (simp add: t05_executor_def sample_freeze_request_fields)
        (simp add: frozen_store_def published_store_def)
    then show ?thesis using sample_work by (auto simp: freeze_result_def sample_freeze_digests)
  next
    case False
    then have "?x = boundary_executor run_hasher t ctx n st" by (simp add: t05_executor_def)
    then show ?thesis
      using dutiful_boundary [of run_hasher "{mw_sample_store, frozen_store}" "{}", OF sample_shapes(1)] st
      unfolding dutiful_def by metis
  qed
qed

lemma sample_start_returns:
  obtains s f w' where "sample_start unfrozen_world = (Inr (s, f), w')"
proof -
  let ?x = "t05_executor run_hasher sample_hash sample_publisher (\<lambda>_. []) sample_freeze_request"
    and ?S = "{mw_sample_store, frozen_store}"
  obtain key where key: "request_run_key sample_freeze_request = Inr key" "key \<noteq> []"
    by (simp add: request_run_key_def sample_freeze_request_fields sample_window_of)
  obtain request where request: "request_digest sample_hash sample_freeze_request = Inr request"
    by (simp add: request_digest_def sample_freeze_request_fields sample_window_of)
  let ?vs = "t05_values sample_hash [] [first_candidate, second_candidate] request"
  let ?inputs = "contract_of run_hasher ?vs [] []"
  have ok: "contract_from_values run_hasher ?vs [] [] = Inr ?inputs"
    by (rule contract_from_values_ok) (auto simp: t05_values_def required_identity_inputs_def)
  have "ms_source mw_sample_store = sample_tables" by (simp add: mw_sample_store_def)
  then have inputs: "build_t05_input_contract run_hasher sample_hash [] mw_sample_store sample_freeze_request = Inr ?inputs"
    using ok by (simp add: build_t05_input_contract_def freeze_part_def run_part_def sample_freeze_request_fields sample_candidates request)
  have env: "env_hasher sample_env = run_hasher" "sample_env\<lparr>env_budget := settled_budget\<rparr> = sample_env"
    by (simp_all add: sample_env_def)
  have "returnsM (\<lambda>db. clear_for run_hasher sample_env key ?inputs db \<and> ready ?S {} {} db)
      (start_runM sample_env key ?inputs t05_estimate roomy_observation (Some ?x) None)"
  proof (rule start_returns [OF sample_benign])
    show "within_budget t05_estimate roomy_observation settled_budget" "estimate_init t05_estimate = Inr t05_estimate"
      by (simp_all add: within_budget_def t05_estimate_def roomy_observation_def settled_budget_def mib_def gib_def estimate_init_def)
    show "valid_contract run_hasher ?inputs" using ok by (auto simp: valid_contract_def)
    show "dutiful ?S {} (case Some ?x of None \<Rightarrow> boundary_executor run_hasher | Some x \<Rightarrow> x)" using sample_dutiful by simp
  qed (simp_all add: sample_conditions key contract_of_def Let_def)
  moreover have "uuid_shaped sample_run_id" by code_simp
  then have "clear_for run_hasher sample_env key ?inputs (w_db unfrozen_world)"
    using reachable_inv [OF reachable_matchweek [OF reachable_empty], of run_hasher]
    by (simp add: clear_for_def running_attempts_def compatible_incomplete_def unfrozen_world_def empty_db_def sample_env_def)
  moreover have "ready ?S {} {} (w_db unfrozen_world)"
    by (simp add: ready_def well_stored_def published_in_def unfrozen_world_def empty_db_def)
  ultimately obtain s w' where s: "start_runM sample_env key ?inputs t05_estimate roomy_observation (Some ?x) None unfrozen_world = (Inr s, w')"
    unfolding returnsM_def by blast
  have reach: "reachable_runs run_hasher (w_db unfrozen_world)"
    using reachable_matchweek [OF reachable_empty] by (simp add: unfrozen_world_def)
  obtain g where "freeze_matchweek sample_hash sample_publisher sample_friday sample_season None None None mw_sample_store = (Inr g, db_matchweek (w_db w'))"
    using start_worked [OF reach sample_sane(1) ok s, unfolded own_executor_def option.case]
    by (rule t05_worked) (simp add: sample_freeze_request_fields unfrozen_world_def)
  then have "db_matchweek (w_db w') = frozen_store" using sample_freeze_run by simp
  then have "sample_start unfrozen_world = (Inr (s, sample_freeze), w')"
    using read_of_load [OF sample_window_of, of sample_hash sample_season frozen_store sample_freeze] s inputs
    by (simp add: t05_start_def key freeze_part_def env last_freeze_def run_part_def sample_freeze_request_fields
        sample_matchweek_id sample_load unfrozen_world_def)
  then show thesis by (rule that)
qed

theorem run_records_its_freeze_witness:
  "\<exists>s w'. sample_start unfrozen_world = (Inr (s, sample_freeze), w') \<and>
     db_matchweek (w_db unfrozen_world) = mw_sample_store \<and> db_matchweek (w_db w') = frozen_store \<and>
     (\<exists>c \<in> set (db_checkpoints (w_db w')). c_phase c = EVIDENCE_ACQUISITION \<and> c_artifacts c = [zero_digest, one_digest, two_digest])"
proof -
  obtain s f w' where s: "sample_start unfrozen_world = (Inr (s, f), w')" by (rule sample_start_returns)
  have "reachable_runs run_hasher (w_db unfrozen_world)"
    using reachable_matchweek [OF reachable_empty] by (simp add: unfrozen_world_def)
  from run_records_its_freeze [OF this sample_sane(1) s] have
    "freeze_matchweek sample_hash sample_publisher sample_friday sample_season None None None mw_sample_store = (Inr f, db_matchweek (w_db w'))"
    "\<exists>c \<in> set (db_checkpoints (w_db w')). c_phase c = EVIDENCE_ACQUISITION \<and> c_artifacts c = freeze_digests f"
    by (auto simp: sample_freeze_request_fields unfrozen_world_def)
  then show ?thesis using s sample_freeze_run by (simp add: sample_freeze_digests unfrozen_world_def)
qed

end
