(* ===== verification/Snapshot_Manifest.thy ===== *)
theory Snapshot_Manifest
  imports Matchweek_Manifest Matchweek_Store
begin

text \<open>
  Snapshot Manifests of \<open>artifacts.py\<close>: what a published snapshot is made of, with the constructors of
  its parts, its canonical bytes and the reading of them. Bytes are strings of code points below 256.
\<close>

section \<open>Errors, identifiers and digests\<close>

datatype artifact_error = ManifestError string string

definition snapshot_malformed :: "string \<Rightarrow> artifact_error" where
  "snapshot_malformed m = ManifestError ''MV-MANIFEST-MALFORMED'' m"

text \<open>\<open>CanonicalIdentifier\<close> and \<open>_canonical_identifier\<close>\<close>

record canonical_id =
  ci_kind :: string
  ci_value :: string

definition snake_kind :: "string \<Rightarrow> bool" where
  "snake_kind s \<longleftrightarrow> s \<noteq> [] \<and> length s \<le> 64 \<and> 97 \<le> code (hd s) \<and> code (hd s) \<le> 122 \<and>
     list_all (\<lambda>c. 97 \<le> code c \<and> code c \<le> 122 \<or> is_digit c \<or> c = CHR ''_'') s"

definition canonical_identifier :: "string \<Rightarrow> string \<Rightarrow> (artifact_error, canonical_id) res" where
  "canonical_identifier value kind =
     bindR (guardR (snake_kind kind \<and> uuid_shaped value)
       (snapshot_malformed (''Manifest '' @ kind @ '' identifier is invalid.''))) (\<lambda>_.
     Inr \<lparr>ci_kind = kind, ci_value = value\<rparr>)"

definition media_type_ok :: "string \<Rightarrow> bool" where
  "media_type_ok s \<longleftrightarrow> s \<noteq> [] \<and> list_all (\<lambda>c. 32 < code c \<and> code c \<noteq> 127) s"

definition digest_message :: "string \<Rightarrow> string" where
  "digest_message lab = lab @ '' must be lowercase SHA-256.''"

text \<open>\<open>_require_utc_timestamp\<close>\<close>

definition require_utc_timestamp :: "string \<Rightarrow> string \<Rightarrow> (artifact_error, unit) res" where
  "require_utc_timestamp value lab =
     (case fromisoformat value of
        None \<Rightarrow> Inl (snapshot_malformed (lab @ '' timestamp is invalid.''))
      | Some d \<Rightarrow>
          bindR (guardR (dt_off d = Some 0) (snapshot_malformed (lab @ '' timestamp must be UTC.''))) (\<lambda>_.
          guardR (utc_text True d = value)
            (ManifestError ''MV-MANIFEST-NONCANONICAL'' (lab @ '' timestamp is not canonical.''))))"

section \<open>The parts of a manifest\<close>

record manifest_artifact =
  xa_id :: canonical_id
  xa_digest :: string
  xa_media :: string
  xa_length :: int

definition manifest_artifact_init :: "manifest_artifact \<Rightarrow> (artifact_error, manifest_artifact) res" where
  "manifest_artifact_init a =
     bindR (guardR (ci_kind (xa_id a) = ''artifact'') (snapshot_malformed ''Manifest artifact IDs must be typed as artifact.'')) (\<lambda>_.
     bindR (guardR (sha_shaped (xa_digest a)) (snapshot_malformed (digest_message ''manifest artifact digest''))) (\<lambda>_.
     bindR (guardR (media_type_ok (xa_media a)) (snapshot_malformed ''Manifest artifact media type is invalid.'')) (\<lambda>_.
     bindR (guardR (0 \<le> xa_length a) (snapshot_malformed ''Manifest artifact length is invalid.'')) (\<lambda>_.
     Inr a))))"

record manifest_version =
  xv_id :: canonical_id
  xv_definition :: canonical_id
  xv_kind :: string
  xv_name :: string
  xv_content :: string
  xv_contract :: int

definition manifest_version_init :: "manifest_version \<Rightarrow> (artifact_error, manifest_version) res" where
  "manifest_version_init v =
     bindR (guardR (ci_kind (xv_id v) = ''version'') (snapshot_malformed ''Manifest version IDs must be typed as version.'')) (\<lambda>_.
     bindR (guardR (ci_kind (xv_definition v) = ''version_definition'')
       (snapshot_malformed ''Manifest definition IDs must be typed as version_definition.'')) (\<lambda>_.
     bindR (guardR (snake_kind (xv_kind v) \<and> xv_name v \<noteq> []) (snapshot_malformed ''Manifest version metadata is incomplete.'')) (\<lambda>_.
     bindR (guardR (sha_shaped (xv_content v)) (snapshot_malformed (digest_message ''manifest version content digest''))) (\<lambda>_.
     bindR (guardR (1 \<le> xv_contract v) (snapshot_malformed ''Manifest version contract is invalid.'')) (\<lambda>_.
     Inr v)))))"

text \<open>\<open>ManifestVersion.from_identity\<close>\<close>

definition manifest_version_of :: "version_identity \<Rightarrow> manifest_version" where
  "manifest_version_of v =
     \<lparr>xv_id = \<lparr>ci_kind = ''version'', ci_value = vi_id v\<rparr>,
      xv_definition = \<lparr>ci_kind = ''version_definition'', ci_value = vi_definition_id v\<rparr>,
      xv_kind = vi_kind v, xv_name = vi_name v, xv_content = vi_content v, xv_contract = vi_contract_version v\<rparr>"

record retention_omission =
  xo_identifier :: string
  xo_reason :: string

definition omission_init :: "retention_omission \<Rightarrow> (artifact_error, retention_omission) res" where
  "omission_init r =
     bindR (guardR (xo_identifier r \<noteq> [] \<and> xo_reason r \<noteq> [])
       (snapshot_malformed ''Retention omissions require identifier and reason.'')) (\<lambda>_.
     Inr r)"

record manifest_completeness =
  xc_state :: string
  xc_missing :: "string list"

definition completeness_init :: "manifest_completeness \<Rightarrow> (artifact_error, manifest_completeness) res" where
  "completeness_init c =
     bindR (guardR (xc_state c \<in> {''COMPLETE'', ''INCOMPLETE''}) (snapshot_malformed ''Manifest completeness state is invalid.'')) (\<lambda>_.
     bindR (guardR (sorted_set (xc_missing c) = xc_missing c)
       (snapshot_malformed ''Manifest missing items must be sorted and unique.'')) (\<lambda>_.
     bindR (guardR (\<not> (xc_state c = ''COMPLETE'' \<and> xc_missing c \<noteq> []))
       (snapshot_malformed ''A complete manifest cannot list missing items.'')) (\<lambda>_.
     bindR (guardR (\<not> (xc_state c = ''INCOMPLETE'' \<and> xc_missing c = []))
       (snapshot_malformed ''An incomplete manifest must list missing items.'')) (\<lambda>_.
     Inr c))))"

section \<open>SnapshotManifest\<close>

record snapshot_manifest =
  sm_snapshot_id :: canonical_id
  sm_matchweek_id :: canonical_id
  sm_cutoff_id :: canonical_id
  sm_version_manifest_id :: canonical_id
  sm_cutoff_utc :: string
  sm_artifacts :: "manifest_artifact list"
  sm_versions :: "manifest_version list"
  sm_omissions :: "retention_omission list"
  sm_completeness :: manifest_completeness
  sm_created :: string
  sm_verification :: string
  sm_verified_at :: "string option"
  sm_parent :: "canonical_id option"
  sm_schema :: int

definition snapshot_schema_version :: int where "snapshot_schema_version = 1"

definition sorted_unique :: "'a::linorder list \<Rightarrow> bool" where
  "sorted_unique xs \<longleftrightarrow> sort xs = xs \<and> length (remdups xs) = length xs"

definition snapshot_init :: "snapshot_manifest \<Rightarrow> (artifact_error, snapshot_manifest) res" where
  "snapshot_init m =
     bindR (guardR (ci_kind (sm_snapshot_id m) = ''snapshot_manifest'')
       (snapshot_malformed ''Snapshot IDs must be typed as snapshot_manifest.'')) (\<lambda>_.
     bindR (guardR (ci_kind (sm_matchweek_id m) = ''matchweek'')
       (snapshot_malformed ''Matchweek IDs must be typed as matchweek.'')) (\<lambda>_.
     bindR (guardR (ci_kind (sm_cutoff_id m) = ''research_cutoff'')
       (snapshot_malformed ''Research Cutoff IDs must be typed as research_cutoff.'')) (\<lambda>_.
     bindR (guardR (ci_kind (sm_version_manifest_id m) = ''version_manifest'')
       (snapshot_malformed ''Version Manifest IDs must be typed as version_manifest.'')) (\<lambda>_.
     bindR (guardR (case sm_parent m of None \<Rightarrow> True | Some p \<Rightarrow> ci_kind p = ''snapshot_manifest'')
       (snapshot_malformed ''Parent Snapshot IDs must be typed as snapshot_manifest.'')) (\<lambda>_.
     bindR (guardR (sm_verification m \<in> {''VERIFIED'', ''UNVERIFIED''})
       (snapshot_malformed ''Manifest verification state is invalid.'')) (\<lambda>_.
     bindR (guardR (\<not> (sm_verification m = ''VERIFIED'' \<and> sm_verified_at m = None))
       (snapshot_malformed ''A verified manifest requires an actual verification timestamp.'')) (\<lambda>_.
     bindR (guardR (\<not> (sm_verification m = ''UNVERIFIED'' \<and> sm_verified_at m \<noteq> None))
       (snapshot_malformed ''An unverified manifest cannot have a verification timestamp.'')) (\<lambda>_.
     bindR (guardR (sm_schema m = snapshot_schema_version)
       (ManifestError ''MV-MANIFEST-SCHEMA_UNSUPPORTED'' ''Snapshot manifest schema is unsupported.'')) (\<lambda>_.
     bindR (require_utc_timestamp (sm_cutoff_utc m) ''research cutoff'') (\<lambda>_.
     bindR (require_utc_timestamp (sm_created m) ''manifest creation time'') (\<lambda>_.
     bindR (case sm_verified_at m of None \<Rightarrow> Inr () | Some t \<Rightarrow> require_utc_timestamp t ''manifest verification time'') (\<lambda>_.
     bindR (guardR (sorted_unique (map xa_digest (sm_artifacts m)))
       (snapshot_malformed ''Manifest artifacts must be sorted and unique.'')) (\<lambda>_.
     bindR (guardR (sorted_unique (map (ci_value \<circ> xv_id) (sm_versions m)))
       (snapshot_malformed ''Manifest versions must be sorted and unique.'')) (\<lambda>_.
     bindR (guardR (sorted_unique (map (\<lambda>r. (xo_identifier r, xo_reason r)) (sm_omissions m)))
       (snapshot_malformed ''Retention omissions must be sorted and unique.'')) (\<lambda>_.
     Inr m)))))))))))))))"

section \<open>Bytes\<close>

definition artifact_dict :: "manifest_artifact \<Rightarrow> pydict" where
  "artifact_dict a =
     [(''artifact_id'', PStr (ci_value (xa_id a))), (''byte_length'', PInt (xa_length a)),
      (''digest'', PStr (xa_digest a)), (''media_type'', PStr (xa_media a))]"

definition version_dict :: "manifest_version \<Rightarrow> pydict" where
  "version_dict v =
     [(''canonical_contract_version'', PInt (xv_contract v)), (''content_sha256'', PStr (xv_content v)),
      (''definition_id'', PStr (ci_value (xv_definition v))), (''kind'', PStr (xv_kind v)),
      (''name'', PStr (xv_name v)), (''version_id'', PStr (ci_value (xv_id v)))]"

definition omission_dict :: "retention_omission \<Rightarrow> pydict" where
  "omission_dict r = [(''identifier'', PStr (xo_identifier r)), (''reason'', PStr (xo_reason r))]"

definition completeness_dict :: "manifest_completeness \<Rightarrow> pydict" where
  "completeness_dict c = [(''missing'', str_list (xc_missing c)), (''state'', PStr (xc_state c))]"

definition snapshot_payload :: "snapshot_manifest \<Rightarrow> pydict" where
  "snapshot_payload m =
     [(''artifacts'', PList (map (PDict \<circ> artifact_dict) (sm_artifacts m))),
      (''completeness'', PDict (completeness_dict (sm_completeness m))),
      (''created_at_utc'', PStr (sm_created m)),
      (''matchweek_id'', PStr (ci_value (sm_matchweek_id m))),
      (''parent_snapshot_id'', opt_str (map_option ci_value (sm_parent m))),
      (''research_cutoff_utc'', PStr (sm_cutoff_utc m)),
      (''research_cutoff_id'', PStr (ci_value (sm_cutoff_id m))),
      (''retention_omissions'', PList (map (PDict \<circ> omission_dict) (sm_omissions m))),
      (''schema_version'', PInt (sm_schema m)),
      (''snapshot_id'', PStr (ci_value (sm_snapshot_id m))),
      (''versions'', PList (map (PDict \<circ> version_dict) (sm_versions m))),
      (''verification_state'', PStr (sm_verification m)),
      (''verified_at_utc'', opt_str (sm_verified_at m)),
      (''version_manifest_id'', PStr (ci_value (sm_version_manifest_id m)))]"

definition snapshot_aggregate :: "mw_hasher \<Rightarrow> snapshot_manifest \<Rightarrow> string" where
  "snapshot_aggregate H m = mw_digest H (PDict (snapshot_payload m))"

definition snapshot_object :: "mw_hasher \<Rightarrow> snapshot_manifest \<Rightarrow> pydict" where
  "snapshot_object H m = snapshot_payload m @ [(''aggregate_sha256'', PStr (snapshot_aggregate H m))]"

definition snapshot_bytes :: "mw_hasher \<Rightarrow> snapshot_manifest \<Rightarrow> string" where
  "snapshot_bytes H m = json_text (PDict (snapshot_object H m))"

definition snapshot_digest :: "mw_hasher \<Rightarrow> snapshot_manifest \<Rightarrow> string" where
  "snapshot_digest H m = sha_text H (snapshot_bytes H m)"

section \<open>Reading the bytes\<close>

text \<open>A \<open>TypeError\<close>, \<open>KeyError\<close> or \<open>ValueError\<close> on the way.\<close>

definition json_malformed :: artifact_error where
  "json_malformed = snapshot_malformed ''Snapshot manifest JSON is malformed.''"

text \<open>\<open>_string\<close>, \<open>_integer\<close>, \<open>_list\<close>, \<open>_object\<close> with \<open>_exact_keys\<close>\<close>

definition need_string :: "pyval \<Rightarrow> (artifact_error, string) res" where
  "need_string v = (case v of PStr s \<Rightarrow> Inr s | _ \<Rightarrow> Inl json_malformed)"

definition need_integer :: "pyval \<Rightarrow> (artifact_error, int) res" where
  "need_integer v = (case v of PInt i \<Rightarrow> Inr i | _ \<Rightarrow> Inl json_malformed)"

definition need_list :: "pyval \<Rightarrow> (artifact_error, pyval list) res" where
  "need_list v = (case v of PList vs \<Rightarrow> Inr vs | _ \<Rightarrow> Inl json_malformed)"

definition need_object :: "string list \<Rightarrow> pyval \<Rightarrow> (artifact_error, pydict) res" where
  "need_object keys v =
     (case v of PDict d \<Rightarrow> bindR (guardR (set (map fst d) = set keys) json_malformed) (\<lambda>_. Inr d)
      | _ \<Rightarrow> Inl json_malformed)"

definition need_optional :: "(pyval \<Rightarrow> (artifact_error, 'a) res) \<Rightarrow> pyval \<Rightarrow> (artifact_error, 'a option) res" where
  "need_optional f v = (if v = PNone then Inr None else bindR (f v) (\<lambda>x. Inr (Some x)))"

definition need_id :: "string \<Rightarrow> pyval \<Rightarrow> (artifact_error, canonical_id) res" where
  "need_id kind v = bindR (need_string v) (\<lambda>s. canonical_identifier s kind)"

text \<open>\<open>_canonical_identifier(str(v), kind)\<close>: the text of a value that is not a string is no canonical UUID.\<close>

definition need_shown_id :: "string \<Rightarrow> pyval \<Rightarrow> (artifact_error, canonical_id) res" where
  "need_shown_id kind v = canonical_identifier (case v of PStr s \<Rightarrow> s | _ \<Rightarrow> []) kind"

definition read_manifest_artifact :: "pyval \<Rightarrow> (artifact_error, manifest_artifact) res" where
  "read_manifest_artifact v =
     bindR (need_object [''artifact_id'', ''byte_length'', ''digest'', ''media_type''] v) (\<lambda>d.
     bindR (need_id ''artifact'' (dict_get d ''artifact_id'')) (\<lambda>i.
     bindR (need_string (dict_get d ''digest'')) (\<lambda>digest.
     bindR (need_string (dict_get d ''media_type'')) (\<lambda>media.
     bindR (need_integer (dict_get d ''byte_length'')) (\<lambda>l.
     manifest_artifact_init \<lparr>xa_id = i, xa_digest = digest, xa_media = media, xa_length = l\<rparr>)))))"

definition read_manifest_version :: "pyval \<Rightarrow> (artifact_error, manifest_version) res" where
  "read_manifest_version v =
     bindR (need_object [''canonical_contract_version'', ''content_sha256'', ''definition_id'', ''kind'', ''name'', ''version_id''] v) (\<lambda>d.
     bindR (need_id ''version'' (dict_get d ''version_id'')) (\<lambda>i.
     bindR (need_id ''version_definition'' (dict_get d ''definition_id'')) (\<lambda>def.
     bindR (need_string (dict_get d ''kind'')) (\<lambda>kind.
     bindR (need_string (dict_get d ''name'')) (\<lambda>name.
     bindR (need_string (dict_get d ''content_sha256'')) (\<lambda>content.
     bindR (need_integer (dict_get d ''canonical_contract_version'')) (\<lambda>contract.
     manifest_version_init \<lparr>xv_id = i, xv_definition = def, xv_kind = kind, xv_name = name, xv_content = content,
       xv_contract = contract\<rparr>)))))))"

definition read_omission :: "pyval \<Rightarrow> (artifact_error, retention_omission) res" where
  "read_omission v =
     bindR (need_object [''identifier'', ''reason''] v) (\<lambda>d.
     bindR (need_string (dict_get d ''identifier'')) (\<lambda>i.
     bindR (need_string (dict_get d ''reason'')) (\<lambda>r.
     omission_init \<lparr>xo_identifier = i, xo_reason = r\<rparr>)))"

definition read_completeness :: "pyval \<Rightarrow> (artifact_error, manifest_completeness) res" where
  "read_completeness v =
     bindR (need_object [''missing'', ''state''] v) (\<lambda>d.
     bindR (need_string (dict_get d ''state'')) (\<lambda>s.
     bindR (need_list (dict_get d ''missing'')) (\<lambda>vs.
     bindR (mapR need_string vs) (\<lambda>missing.
     completeness_init \<lparr>xc_state = s, xc_missing = missing\<rparr>))))"

definition snapshot_keys :: "string list" where
  "snapshot_keys =
     [''aggregate_sha256'', ''artifacts'', ''completeness'', ''created_at_utc'', ''matchweek_id'',
      ''parent_snapshot_id'', ''research_cutoff_utc'', ''research_cutoff_id'', ''retention_omissions'',
      ''schema_version'', ''snapshot_id'', ''versions'', ''verification_state'', ''verified_at_utc'',
      ''version_manifest_id'']"

definition need_parts :: "(pyval \<Rightarrow> (artifact_error, 'a) res) \<Rightarrow> pyval \<Rightarrow> (artifact_error, 'a list) res" where
  "need_parts f v = bindR (need_list v) (mapR f)"

text \<open>
  \<open>from_bytes\<close>. Bytes from 128 up are refused as malformed: the source refuses them as well, with the
  code of the first of its checks that fails, since canonical text is ASCII.
\<close>

definition snapshot_from_bytes :: "mw_hasher \<Rightarrow> string \<Rightarrow> (artifact_error, snapshot_manifest) res" where
  "snapshot_from_bytes H data =
     (case (if list_all (\<lambda>c. code c < 128) data then json_loads data else None) of
        None \<Rightarrow> Inl json_malformed
      | Some value \<Rightarrow>
          bindR (need_object snapshot_keys value) (\<lambda>d.
          bindR (need_parts read_manifest_artifact (dict_get d ''artifacts'')) (\<lambda>artifacts.
          bindR (need_parts read_manifest_version (dict_get d ''versions'')) (\<lambda>versions.
          bindR (need_parts read_omission (dict_get d ''retention_omissions'')) (\<lambda>omissions.
          bindR (read_completeness (dict_get d ''completeness'')) (\<lambda>completeness.
          bindR (need_shown_id ''snapshot_manifest'' (dict_get d ''snapshot_id'')) (\<lambda>snapshot.
          bindR (need_shown_id ''matchweek'' (dict_get d ''matchweek_id'')) (\<lambda>matchweek.
          bindR (need_string (dict_get d ''research_cutoff_utc'')) (\<lambda>cutoff_utc.
          bindR (need_string (dict_get d ''created_at_utc'')) (\<lambda>created.
          bindR (need_id ''research_cutoff'' (dict_get d ''research_cutoff_id'')) (\<lambda>cutoff.
          bindR (need_id ''version_manifest'' (dict_get d ''version_manifest_id'')) (\<lambda>version_manifest.
          bindR (need_string (dict_get d ''verification_state'')) (\<lambda>verification.
          bindR (need_optional need_string (dict_get d ''verified_at_utc'')) (\<lambda>verified.
          bindR (need_optional (need_id ''snapshot_manifest'') (dict_get d ''parent_snapshot_id'')) (\<lambda>parent.
          bindR (need_integer (dict_get d ''schema_version'')) (\<lambda>schema.
          bindR (snapshot_init
            \<lparr>sm_snapshot_id = snapshot, sm_matchweek_id = matchweek, sm_cutoff_id = cutoff,
             sm_version_manifest_id = version_manifest, sm_cutoff_utc = cutoff_utc, sm_artifacts = artifacts,
             sm_versions = versions, sm_omissions = omissions, sm_completeness = completeness,
             sm_created = created, sm_verification = verification, sm_verified_at = verified,
             sm_parent = parent, sm_schema = schema\<rparr>) (\<lambda>m.
          bindR (need_string (dict_get d ''aggregate_sha256'')) (\<lambda>aggregate.
          bindR (guardR (aggregate = snapshot_aggregate H m)
            (ManifestError ''MV-MANIFEST-AGGREGATE_MISMATCH'' ''Manifest aggregate digest is invalid.'')) (\<lambda>_.
          bindR (guardR (snapshot_bytes H m = data)
            (ManifestError ''MV-MANIFEST-NONCANONICAL'' ''Manifest JSON is not canonical UTF-8 JSON.'')) (\<lambda>_.
          Inr m))))))))))))))))))))"

section \<open>The bytes determine the manifest\<close>

text \<open>What the constructors of a manifest and of its parts have accepted.\<close>

definition id_valid :: "string \<Rightarrow> canonical_id \<Rightarrow> bool" where
  "id_valid kind i \<longleftrightarrow> snake_kind kind \<and> uuid_shaped (ci_value i) \<and> ci_kind i = kind"

definition artifact_valid :: "manifest_artifact \<Rightarrow> bool" where
  "artifact_valid a \<longleftrightarrow> id_valid ''artifact'' (xa_id a) \<and> manifest_artifact_init a = Inr a"

definition version_valid :: "manifest_version \<Rightarrow> bool" where
  "version_valid v \<longleftrightarrow> id_valid ''version'' (xv_id v) \<and> id_valid ''version_definition'' (xv_definition v) \<and>
     manifest_version_init v = Inr v"

definition snapshot_valid :: "snapshot_manifest \<Rightarrow> bool" where
  "snapshot_valid m \<longleftrightarrow>
     id_valid ''snapshot_manifest'' (sm_snapshot_id m) \<and> id_valid ''matchweek'' (sm_matchweek_id m) \<and>
     id_valid ''research_cutoff'' (sm_cutoff_id m) \<and> id_valid ''version_manifest'' (sm_version_manifest_id m) \<and>
     (case sm_parent m of None \<Rightarrow> True | Some p \<Rightarrow> id_valid ''snapshot_manifest'' p) \<and>
     list_all artifact_valid (sm_artifacts m) \<and> list_all version_valid (sm_versions m) \<and>
     list_all (\<lambda>r. omission_init r = Inr r) (sm_omissions m) \<and>
     completeness_init (sm_completeness m) = Inr (sm_completeness m) \<and> snapshot_init m = Inr m"

lemma need_simps [simp]:
  "need_string (PStr s) = Inr s" "need_integer (PInt i) = Inr i" "need_list (PList vs) = Inr vs"
  by (simp_all add: need_string_def need_integer_def need_list_def)

lemma need_id_iff: "need_id kind (PStr s) = Inr i \<longleftrightarrow> id_valid kind i \<and> ci_value i = s"
  "need_shown_id kind (PStr s) = Inr i \<longleftrightarrow> id_valid kind i \<and> ci_value i = s"
  by (cases i; auto simp: need_id_def need_shown_id_def canonical_identifier_def id_valid_def)+

lemma need_valid_id:
  "id_valid kind i \<Longrightarrow> need_id kind (PStr (ci_value i)) = Inr i" "id_valid kind i \<Longrightarrow> need_shown_id kind (PStr (ci_value i)) = Inr i"
  by (simp_all add: need_id_iff)

lemma need_id_valid: "need_id kind v = Inr i \<Longrightarrow> id_valid kind i" "need_shown_id kind v = Inr i \<Longrightarrow> id_valid kind i"
  by (auto simp: need_id_def need_shown_id_def canonical_identifier_def id_valid_def)

lemma need_object_norm:
  assumes "distinct (map fst d)" "set (map fst d) = set keys"
  shows "need_object keys (json_norm (PDict d)) = Inr (norm_dict d)"
  using assms unfolding json_norm_dict need_object_def by (simp add: norm_dict_def image_image)

lemma norm_get:
  assumes "distinct (map fst d)" "json_norm (dict_get d k) = w"
  shows "dict_get (norm_dict d) k = w"
  using norm_dict_get [OF assms(1)] assms(2) by simp

lemma need_optional_simps [simp]: "need_optional f PNone = Inr None" "v \<noteq> PNone \<Longrightarrow> need_optional f v = bindR (f v) (\<lambda>x. Inr (Some x))"
  by (simp_all add: need_optional_def)

lemma need_parts_norm:
  assumes "\<And>x. x \<in> set xs \<Longrightarrow> f (json_norm (PDict (g x))) = Inr x"
  shows "need_parts f (json_norm (PList (map (PDict \<circ> g) xs))) = Inr xs"
proof -
  have "mapR f (map (\<lambda>x. json_norm (PDict (g x))) xs) = Inr xs"
    using assms by (induction xs) (simp_all del: json_norm.simps)
  then show ?thesis by (simp add: need_parts_def comp_def)
qed

lemma part_etas:
  "\<lparr>xa_id = xa_id a, xa_digest = xa_digest a, xa_media = xa_media a, xa_length = xa_length a\<rparr> = a"
  "\<lparr>xv_id = xv_id v, xv_definition = xv_definition v, xv_kind = xv_kind v, xv_name = xv_name v, xv_content = xv_content v,
     xv_contract = xv_contract v\<rparr> = v"
  "\<lparr>xo_identifier = xo_identifier r, xo_reason = xo_reason r\<rparr> = r" "\<lparr>xc_state = xc_state c, xc_missing = xc_missing c\<rparr> = c"
  by simp_all

lemma artifact_reads_back: "artifact_valid a \<Longrightarrow> read_manifest_artifact (json_norm (PDict (artifact_dict a))) = Inr a"
proof -
  assume v: "artifact_valid a"
  have d: "distinct (map fst (artifact_dict a))" by (simp add: artifact_dict_def)
  note get = norm_get [OF d]
  have "need_object [''artifact_id'', ''byte_length'', ''digest'', ''media_type''] (json_norm (PDict (artifact_dict a))) =
      Inr (norm_dict (artifact_dict a))"
    by (rule need_object_norm [OF d]) (auto simp: artifact_dict_def)
  moreover have "dict_get (norm_dict (artifact_dict a)) ''artifact_id'' = PStr (ci_value (xa_id a))"
    "dict_get (norm_dict (artifact_dict a)) ''byte_length'' = PInt (xa_length a)"
    "dict_get (norm_dict (artifact_dict a)) ''digest'' = PStr (xa_digest a)"
    "dict_get (norm_dict (artifact_dict a)) ''media_type'' = PStr (xa_media a)"
    by (rule get; simp add: artifact_dict_def get_or_def)+
  ultimately show ?thesis
    using v by (simp add: read_manifest_artifact_def artifact_valid_def need_valid_id part_etas del: json_norm.simps)
qed

lemma version_reads_back: "version_valid v \<Longrightarrow> read_manifest_version (json_norm (PDict (version_dict v))) = Inr v"
proof -
  assume v: "version_valid v"
  have d: "distinct (map fst (version_dict v))" by (simp add: version_dict_def)
  note get = norm_get [OF d]
  have "need_object [''canonical_contract_version'', ''content_sha256'', ''definition_id'', ''kind'', ''name'', ''version_id'']
      (json_norm (PDict (version_dict v))) = Inr (norm_dict (version_dict v))"
    by (rule need_object_norm [OF d]) (auto simp: version_dict_def)
  moreover have "dict_get (norm_dict (version_dict v)) ''version_id'' = PStr (ci_value (xv_id v))"
    "dict_get (norm_dict (version_dict v)) ''definition_id'' = PStr (ci_value (xv_definition v))"
    "dict_get (norm_dict (version_dict v)) ''kind'' = PStr (xv_kind v)"
    "dict_get (norm_dict (version_dict v)) ''name'' = PStr (xv_name v)"
    "dict_get (norm_dict (version_dict v)) ''content_sha256'' = PStr (xv_content v)"
    "dict_get (norm_dict (version_dict v)) ''canonical_contract_version'' = PInt (xv_contract v)"
    by (rule get; simp add: version_dict_def get_or_def)+
  ultimately show ?thesis
    using v by (simp add: read_manifest_version_def version_valid_def need_valid_id part_etas del: json_norm.simps)
qed

lemma omission_reads_back: "omission_init r = Inr r \<Longrightarrow> read_omission (json_norm (PDict (omission_dict r))) = Inr r"
proof -
  assume v: "omission_init r = Inr r"
  have d: "distinct (map fst (omission_dict r))" by (simp add: omission_dict_def)
  note get = norm_get [OF d]
  have "need_object [''identifier'', ''reason''] (json_norm (PDict (omission_dict r))) = Inr (norm_dict (omission_dict r))"
    by (rule need_object_norm [OF d]) (auto simp: omission_dict_def)
  moreover have "dict_get (norm_dict (omission_dict r)) ''identifier'' = PStr (xo_identifier r)"
    "dict_get (norm_dict (omission_dict r)) ''reason'' = PStr (xo_reason r)"
    by (rule get; simp add: omission_dict_def get_or_def)+
  ultimately show ?thesis using v by (simp add: read_omission_def part_etas del: json_norm.simps)
qed

lemma completeness_reads_back:
  assumes "completeness_init c = Inr c"
  shows "read_completeness (json_norm (PDict (completeness_dict c))) = Inr c"
proof -
  have d: "distinct (map fst (completeness_dict c))" by (simp add: completeness_dict_def)
  note get = norm_get [OF d]
  have "need_object [''missing'', ''state''] (json_norm (PDict (completeness_dict c))) = Inr (norm_dict (completeness_dict c))"
    by (rule need_object_norm [OF d]) (auto simp: completeness_dict_def)
  moreover have "dict_get (norm_dict (completeness_dict c)) ''state'' = PStr (xc_state c)"
    "dict_get (norm_dict (completeness_dict c)) ''missing'' = PList (map PStr (xc_missing c))"
    by (rule get; simp add: completeness_dict_def get_or_def str_list_def comp_def)+
  moreover have "mapR need_string (map PStr xs) = Inr xs" for xs by (induction xs) simp_all
  ultimately show ?thesis using assms by (simp add: read_completeness_def part_etas del: json_norm.simps)
qed

lemma snapshot_object_props:
  "distinct (map fst (snapshot_object H m))" "set (map fst (snapshot_object H m)) = set snapshot_keys"
  "json_plain (PDict (snapshot_object H m))"
  by (auto simp: snapshot_object_def snapshot_payload_def snapshot_keys_def list_all_iff artifact_dict_def version_dict_def
      omission_dict_def completeness_dict_def)

lemma snapshot_fields:
  fixes m :: snapshot_manifest and H :: mw_hasher
  defines "d \<equiv> norm_dict (snapshot_object H m)"
  shows "dict_get d ''artifacts'' = json_norm (PList (map (PDict \<circ> artifact_dict) (sm_artifacts m)))"
    "dict_get d ''versions'' = json_norm (PList (map (PDict \<circ> version_dict) (sm_versions m)))"
    "dict_get d ''retention_omissions'' = json_norm (PList (map (PDict \<circ> omission_dict) (sm_omissions m)))"
    "dict_get d ''completeness'' = json_norm (PDict (completeness_dict (sm_completeness m)))"
    "dict_get d ''snapshot_id'' = PStr (ci_value (sm_snapshot_id m))" "dict_get d ''matchweek_id'' = PStr (ci_value (sm_matchweek_id m))"
    "dict_get d ''research_cutoff_utc'' = PStr (sm_cutoff_utc m)" "dict_get d ''created_at_utc'' = PStr (sm_created m)"
    "dict_get d ''research_cutoff_id'' = PStr (ci_value (sm_cutoff_id m))"
    "dict_get d ''version_manifest_id'' = PStr (ci_value (sm_version_manifest_id m))"
    "dict_get d ''verification_state'' = PStr (sm_verification m)" "dict_get d ''verified_at_utc'' = opt_str (sm_verified_at m)"
    "dict_get d ''parent_snapshot_id'' = opt_str (map_option ci_value (sm_parent m))"
    "dict_get d ''schema_version'' = PInt (sm_schema m)" "dict_get d ''aggregate_sha256'' = PStr (snapshot_aggregate H m)"
  unfolding d_def
  by (rule norm_get [OF snapshot_object_props(1)]; simp add: snapshot_object_def snapshot_payload_def get_or_def)+

lemma snapshot_eta:
  "\<lparr>sm_snapshot_id = sm_snapshot_id m, sm_matchweek_id = sm_matchweek_id m, sm_cutoff_id = sm_cutoff_id m,
    sm_version_manifest_id = sm_version_manifest_id m, sm_cutoff_utc = sm_cutoff_utc m, sm_artifacts = sm_artifacts m,
    sm_versions = sm_versions m, sm_omissions = sm_omissions m, sm_completeness = sm_completeness m,
    sm_created = sm_created m, sm_verification = sm_verification m, sm_verified_at = sm_verified_at m,
    sm_parent = sm_parent m, sm_schema = sm_schema m\<rparr> = m"
  by simp

lemma snapshot_loads:
  "list_all (\<lambda>c. code c < 128) (snapshot_bytes H m)" "json_loads (snapshot_bytes H m) = Some (json_norm (PDict (snapshot_object H m)))"
  unfolding snapshot_bytes_def
  by (rule json_text_ascii [OF snapshot_object_props(3)], rule json_loads_text [OF snapshot_object_props(3)])

lemma snapshot_reads_back:
  assumes "snapshot_valid m"
  shows "snapshot_from_bytes H (snapshot_bytes H m) = Inr m"
proof -
  note valid = assms [unfolded snapshot_valid_def list_all_iff]
  have parts: "need_parts read_manifest_artifact (json_norm (PList (map (PDict \<circ> artifact_dict) (sm_artifacts m)))) = Inr (sm_artifacts m)"
    "need_parts read_manifest_version (json_norm (PList (map (PDict \<circ> version_dict) (sm_versions m)))) = Inr (sm_versions m)"
    "need_parts read_omission (json_norm (PList (map (PDict \<circ> omission_dict) (sm_omissions m)))) = Inr (sm_omissions m)"
    using valid by (auto intro!: need_parts_norm artifact_reads_back version_reads_back omission_reads_back simp del: json_norm.simps)
  have completeness: "read_completeness (json_norm (PDict (completeness_dict (sm_completeness m)))) = Inr (sm_completeness m)"
    using valid by (intro completeness_reads_back) simp
  have parent: "need_optional (need_id ''snapshot_manifest'') (opt_str (map_option ci_value (sm_parent m))) = Inr (sm_parent m)"
    using valid by (cases "sm_parent m") (simp_all add: need_valid_id)
  have verified: "need_optional need_string (opt_str (sm_verified_at m)) = Inr (sm_verified_at m)"
    by (cases "sm_verified_at m") simp_all
  have object: "need_object snapshot_keys (json_norm (PDict (snapshot_object H m))) = Inr (norm_dict (snapshot_object H m))"
    by (rule need_object_norm [OF snapshot_object_props(1,2)])
  show ?thesis
    using valid unfolding snapshot_from_bytes_def
    by (simp add: snapshot_loads object snapshot_fields parts completeness parent verified need_valid_id snapshot_eta
        del: json_norm.simps)
qed

lemma inits_same:
  "manifest_artifact_init a = Inr b \<Longrightarrow> a = b" "manifest_version_init v = Inr w \<Longrightarrow> v = w" "omission_init r = Inr q \<Longrightarrow> r = q"
  "completeness_init c = Inr d \<Longrightarrow> c = d" "snapshot_init m = Inr n \<Longrightarrow> m = n"
  by (auto simp: manifest_artifact_init_def manifest_version_init_def omission_init_def completeness_init_def snapshot_init_def)

lemma read_parts_valid:
  "read_manifest_artifact u = Inr a \<Longrightarrow> artifact_valid a" "read_manifest_version u = Inr v \<Longrightarrow> version_valid v"
  "read_omission u = Inr r \<Longrightarrow> omission_init r = Inr r" "read_completeness u = Inr c \<Longrightarrow> completeness_init c = Inr c"
  unfolding read_manifest_artifact_def read_manifest_version_def read_omission_def read_completeness_def
    artifact_valid_def version_valid_def
  by (clarsimp, frule inits_same, (auto dest!: need_id_valid)[1])+

lemma need_parts_valid: "need_parts f v = Inr xs \<Longrightarrow> (\<And>u x. f u = Inr x \<Longrightarrow> P x) \<Longrightarrow> list_all P xs"
  by (auto simp: need_parts_def list_all_iff dest: mapR_in_set)

lemma need_optional_valid:
  "need_optional f v = Inr x \<Longrightarrow> (\<And>u y. f u = Inr y \<Longrightarrow> P y) \<Longrightarrow> (case x of None \<Rightarrow> True | Some y \<Rightarrow> P y)"
  by (auto simp: need_optional_def split: if_splits)

lemma snapshot_from_bytes_valid:
  assumes "snapshot_from_bytes H data = Inr m"
  shows "snapshot_valid m" "snapshot_bytes H m = data"
proof -
  have "snapshot_valid m \<and> snapshot_bytes H m = data"
    using assms unfolding snapshot_from_bytes_def
    apply (clarsimp split: option.splits if_splits)
    apply (frule inits_same(5))
    apply (auto simp: snapshot_valid_def dest: need_parts_valid [OF _ read_parts_valid(1)]
      need_parts_valid [OF _ read_parts_valid(2)] need_parts_valid [OF _ read_parts_valid(3)] read_parts_valid(4)
      need_id_valid need_optional_valid [OF _ need_id_valid(1)])
    done
  then show "snapshot_valid m" "snapshot_bytes H m = data" by simp_all
qed

text \<open>C30: Snapshot Manifests are stored without loss and nothing else passes for one: the bytes that are read
  are exactly those that are written for a manifest whose constructors accepted it and all its parts, and
  they read back as that manifest.\<close>

theorem snapshot_bytes_roundtrip:
  "snapshot_from_bytes H data = Inr m \<longleftrightarrow> snapshot_valid m \<and> data = snapshot_bytes H m"
  using snapshot_reads_back snapshot_from_bytes_valid by blast

end
