(* ===== verification/Spec2Isabelle.thy ===== *)
theory Spec2Isabelle
  imports Match_Settlement Correction_Properties Matchweek_Admission Matchweek_Runner Snapshot_Manifest
begin

text \<open>
  MatchVet is a command-line program (\<open>src/src/matchvet\<close>) that gathers football fixtures and evidence
  into a SQLite store, freezes the fixtures of a weekend into a Matchweek, runs a checkpointed research
  pipeline over it, and settles frozen predictions against the evidence of what was played. This
  library models three parts of it: the frozen Matchweek (\<open>matchweek.py\<close>), the coordinator of runs
  (\<open>runs.py\<close>) and the settlement of predictions (\<open>t10.py\<close>), each with its tables (\<open>store.py\<close>). They
  share the text, time, JSON and digest functions, and the store's column constraints. The freeze of a
  Matchweek is the work of a run (\<open>MatchweekFreezeRunner\<close>), where the first two parts meet; the grades of
  the third are made from evidence records, JSON documents or the matches of \<open>t09.py\<close>.

  \<^bold>\<open>Shared theories.\<close> \<^verbatim>\<open>Prelude\<close>: the result type of a computation that may raise, loops that may raise
  (\<open>mapR\<close>, \<open>foldR\<close>) and the lemmas on lists the components share. \<^verbatim>\<open>Py_Text\<close>, \<^verbatim>\<open>Py_Time\<close>, \<^verbatim>\<open>Py_Value\<close>: the
  strings, \<open>datetime\<close>s with their ISO text, dynamic values and canonical JSON of Python as far as the
  sources use them. \<^verbatim>\<open>Json_Reader\<close>: \<open>json.loads\<close>, and that it reads back what \<open>json.dumps\<close> writes. The
  hash functions are parameters, the records \<open>hasher\<close> and \<open>mw_hasher\<close>: nothing is assumed of them but
  what a theorem says, and texts that collide are a case of the theorems. \<^verbatim>\<open>Store_Columns\<close>: the \<open>CHECK\<close>
  of digest columns, identifiers, and what \<open>json.dumps\<close> can write.

  \<^bold>\<open>Matchweeks\<close> (\<open>matchweek.py\<close>, T05). \<^verbatim>\<open>Matchweek_Window\<close>: timestamps, identifiers and the calendar window
  (\<open>MatchweekWindow\<close>). \<^verbatim>\<open>Matchweek_Membership\<close>, \<^verbatim>\<open>Matchweek_Manifest\<close>: \<open>FrozenMembership\<close>, the appendix entries
  and \<open>MembershipManifest\<close>, their constructors, dictionaries and bytes. \<^verbatim>\<open>Matchweek_Selection\<close>: which revision
  of a fixture controls at an instant (\<open>_select_revision\<close>) and the Research Cutoff (\<open>_derive_cutoff\<close>).
  \<^verbatim>\<open>Matchweek_Store\<close>: the fixture tables the module reads and its own tables with their constraints.
  \<^verbatim>\<open>Matchweek_Freeze\<close>, \<^verbatim>\<open>Matchweek_Publish\<close>: memberships, rows, \<open>_load_freeze\<close> and \<open>freeze_matchweek\<close>.
  \<^verbatim>\<open>Matchweek_Appendix\<close>: late revisions (\<open>append_post_cutoff_revision\<close>, \<open>append_post_cutoff_changes\<close>) and
  \<open>replay_matchweek\<close>. \<^verbatim>\<open>Matchweek_Admission\<close>: league scopes (\<open>active_scope.py\<close>) and the admission of active
  fixtures. The lemmas: \<^verbatim>\<open>Matchweek_Knowledge\<close>, what is known at a cutoff; \<^verbatim>\<open>Matchweek_Targets\<close>, which fixtures
  become Target Matches; \<^verbatim>\<open>Matchweek_Rows\<close>, \<^verbatim>\<open>Matchweek_Frozen\<close>, that rows read back; \<^verbatim>\<open>Matchweek_History\<close>, that
  every call of the module upholds what is frozen (the step relation \<open>mw_step\<close>); \<^verbatim>\<open>Matchweek_Replay\<close>, that a
  replay succeeds. \<^verbatim>\<open>Matchweek_Sample\<close>, \<^verbatim>\<open>Matchweek_Sample_Run\<close>: a store on which the properties of
  \<^verbatim>\<open>Matchweek_Properties\<close> are shown to apply. \<^verbatim>\<open>Matchweek_Runner\<close>: \<open>MatchweekFreezeRunner\<close>, the freeze as an
  executor of the run coordinator on the store both share, and what such a run leaves and records.
  \<^verbatim>\<open>Snapshot_Manifest\<close>: \<open>SnapshotManifest\<close> of \<open>artifacts.py\<close>, what a published snapshot is made of, with its
  parts, its bytes and \<open>from_bytes\<close>; the Matchweek calls and the coordinator know a manifest by its digest.

  \<^bold>\<open>Runs\<close> (\<open>runs.py\<close>, T04). \<^verbatim>\<open>Run_Preflight\<close>: budgets and \<open>preflight_resources\<close>. \<^verbatim>\<open>Run_Contract\<close>: the phases,
  \<open>RunInputContract\<close>, work keys and digests. \<^verbatim>\<open>Run_Store\<close>: the run tables, beside the Matchweek tables, and
  every transaction of \<open>_RunRepository\<close> as a function on them, and \<open>_status_from_connection\<close>. \<^verbatim>\<open>Run_Effects\<close>: computations
  that read and write the tables, may raise, and ask an environment; rules for invariants and pre- and
  postconditions. \<^verbatim>\<open>Run_Coordinator\<close>: \<open>start\<close>, \<open>resume\<close>, \<open>_execute\<close> and what they call. \<^verbatim>\<open>Run_Invariant\<close>:
  the invariant of the tables, one lemma per transaction. \<^verbatim>\<open>Run_Safety\<close>: the invariant holds however a
  call ends, and the tables only advance; the locales \<open>work_invariant\<close>, \<open>work_session\<close> and
  \<open>work_transaction\<close> carry through the calls any property that the transactions keep, and that stays true
  of the Matchweek tables an executor may leave; \<open>phase_invariant\<close>, \<open>session_invariant\<close> and
  \<open>transaction_invariant\<close> are their instances for executors that may leave any. \<^verbatim>\<open>Run_Liveness\<close>: when no
  step raises.
  \<^verbatim>\<open>Run_Properties\<close> and \<^verbatim>\<open>Run_Progress\<close>: the reachable stores and the properties of the coordinator.
  \<^verbatim>\<open>Run_Work\<close>: the checkpoints of a start record the results of its executor, phase after phase, each on
  the Matchweek tables the one before it left; and when a start returns.

  \<^bold>\<open>Settlement\<close> (\<open>t10.py\<close>). \<^verbatim>\<open>Settlement_Catalog\<close>: the 37 betting preferences (\<open>_build_catalog\<close>,
  \<open>PreferenceCatalog\<close>). \<^verbatim>\<open>Historical_Match\<close>: \<open>HistoricalMatch\<close> of \<open>t09.py\<close>, with the state and provenance of
  its metrics. \<^verbatim>\<open>Settlement_Evidence\<close>: \<open>SettlementEvidence\<close>, its constructor, its dictionary form and
  \<open>from_historical_match\<close>. \<^verbatim>\<open>Ranked_Selection\<close> and \<^verbatim>\<open>Settlement_Rules\<close>: evidence groups by authority and the
  settlement of a preference on facts (\<open>_evidence_groups\<close>, \<open>_fact_group\<close>, \<open>_settle_preference\<close>), against a
  reference that states the rules by their meaning. \<^verbatim>\<open>Settlement_Grading\<close>: \<open>SettlementGrader.grade\<close> and
  \<open>SettlementGrade\<close>; \<^verbatim>\<open>Grading_Properties\<close>: what a grade says; \<^verbatim>\<open>Match_Settlement\<close>: that a grade made from
  matches rests on observed metrics with provenance. \<^verbatim>\<open>Settlement_Record\<close>: the settlement tables with their
  triggers and \<open>SettlementGradeRecorder\<close>; \<^verbatim>\<open>Correction_History\<close>, \<^verbatim>\<open>Record_Properties\<close> and
  \<^verbatim>\<open>Correction_Properties\<close>: the linked histories of corrections, current grades, idempotence.

  \<^bold>\<open>Choices.\<close> Errors are values of a sum type and every raise of the sources is a branch. A transaction
  that raises leaves the tables as they were; a call that raises leaves what it committed or published
  before. The environment of a run answers each question at a tick of its own, so it may change its
  answers at any time; a transaction commits, fails, or commits and then fails, which also models a
  process killed at that point. An executor is given the Matchweek tables of the store as they are, and
  answers with its outcome, the digests of the artifacts it has published, whose catalogue is in the
  tables, and the Matchweek tables as it leaves them. Runs and Matchweeks are in one store: the tables of
  each module are a part of it, and each keeps the rows it wrote of the two tables they have in common,
  identifiers and the artifact catalogue, where what an executor published is added to the run's part.
  The store serialises writers (its lifecycle lock), so one coordinator's transactions are not interleaved
  with another's; a second process is the \<open>live coordinator\<close> of the tables, and other calls change the
  Matchweek tables between the calls of the coordinator, not during one (\<open>reachable_runs\<close>). Artifact files
  are a parameter of the Matchweek calls (\<open>artifact_env\<close>). Loops are structural recursion over phases, records or rows, and the cutoff loop has
  the source's own bound of eight; only the JSON reader takes fuel, twice the length of its text and two,
  with which it never runs out (\<open>json_loads_fuel\<close>). Integers are Python's and unbounded. The whole part of
  \<open>total_seconds\<close> is exact for spans below 285 years. Africa/Lagos is UTC+1, as it has been since 1919;
  the window of Friday 9999-12-31, whose end is after the last day of the calendar, is the one the source
  cannot compute. Texts are of code points below 256. The column \<open>mode\<close>, which holds one value, is left
  out. What an executor returns is checked by the constructor the sources use (\<open>WorkResult\<close>), and a
  deadline is an outcome the executor may answer with at any tick, since it is a signal of the operating
  system; the executor of the freeze runner is the one that is not cut off.

  \<^bold>\<open>Not modelled.\<close> The observation of the machine and the building of the local input contract, which
  read \<open>/proc\<close> and files (\<open>runs.py\<close>); \<open>HistoricalMatch.from_mapping\<close>, which casts untyped JSON, and the rest
  of the frozen research (\<open>t09.py\<close>); the files and the catalogue of the artifact store, migrations,
  backup and recovery (\<open>artifacts.py\<close>, \<open>store.py\<close>); the acquisition of sources, fixture coverage and
  provider health; the statistics of T11 to T14, which are floating-point fits; and the reporting,
  release and trust components.
\<close>

end
